(* ===== verification/Prelude.thy ===== *)
theory Prelude
  imports Main "HOL-Library.Word" "HOL-Library.Finite_Map"
begin

text \<open>
  The vocabulary every component shares: Rust's machine integers as words, Rust strings as
  lists of Unicode scalar values with their UTF-8 length, \<open>Result\<close> sequencing, decimal
  formatting, and the facts about finite maps that the session tables use.
\<close>

section \<open>Machine integers\<close>

type_synonym u8 = "8 word"
type_synonym u16 = "16 word"
type_synonym u32 = "32 word"
type_synonym u64 = "64 word"
type_synonym usize = "64 word"

text \<open>Rust's \<open>u64::checked_add\<close>: \<open>None\<close> on overflow.\<close>

definition checked_add_u64 :: "u64 \<Rightarrow> u64 \<Rightarrow> u64 option" where
  "checked_add_u64 a b = (if unat a + unat b < 2 ^ 64 then Some (a + b) else None)"

lemma checked_add_u64_Some:
  "checked_add_u64 a b = Some c \<Longrightarrow> unat c = unat a + unat b"
  by (auto simp: checked_add_u64_def unat_word_ariths split: if_splits)

lemma checked_succ_Some_neq: "checked_add_u64 a 1 = Some c \<Longrightarrow> c \<noteq> a"
  using checked_add_u64_Some [of a 1 c] by auto

lemma checked_succ_Some_less: "checked_add_u64 a 1 = Some c \<Longrightarrow> a < c"
  using checked_add_u64_Some [of a 1 c] by (simp add: word_less_nat_alt)

lemma checked_succ_Some_eq: "checked_add_u64 a 1 = Some c \<Longrightarrow> c = a + 1"
  by (simp add: checked_add_u64_def split: if_splits)

lemma checked_succ_None_iff: "checked_add_u64 a 1 = None \<longleftrightarrow> a = - 1"
proof -
  have "unat a < 2 ^ 64" using unsigned_less [of a] by simp
  moreover have "unat (- 1 :: u64) = 2 ^ 64 - 1" by (simp add: unsigned_minus_1_eq_mask mask_eq_exp_minus_1)
  moreover have "a = - 1 \<longleftrightarrow> unat a = unat (- 1 :: u64)" by (simp add: word_unat_eq_iff)
  ultimately show ?thesis by (auto simp: checked_add_u64_def)
qed

section \<open>Strings\<close>

text \<open>
  A Rust \<open>char\<close> is a Unicode scalar value, here its code point; a \<open>String\<close> is the list of
  its scalar values. \<open>len()\<close> of the source counts UTF-8 bytes, which \<open>blen\<close> computes;
  \<open>chars().count()\<close> is \<open>length\<close>.
\<close>

type_synonym rchar = nat
type_synonym rstr = "rchar list"

definition lit :: "string \<Rightarrow> rstr" where
  "lit s = map of_char s"

definition utf8_len :: "rchar \<Rightarrow> nat" where
  "utf8_len c = (if c < 128 then 1 else if c < 2048 then 2 else if c < 65536 then 3 else 4)"

definition blen :: "rstr \<Rightarrow> nat" where
  "blen s = sum_list (map utf8_len s)"

text \<open>\<open>char::is_control\<close>: the Unicode category Cc.\<close>

definition is_control :: "rchar \<Rightarrow> bool" where
  "is_control c \<longleftrightarrow> c < 32 \<or> (127 \<le> c \<and> c < 160)"

definition has_control :: "rstr \<Rightarrow> bool" where
  "has_control s \<longleftrightarrow> list_ex is_control s"

lemma utf8_len_pos [simp]: "0 < utf8_len c"
  by (simp add: utf8_len_def)

lemma blen_Nil [simp]: "blen [] = 0"
  by (simp add: blen_def)

lemma blen_Cons [simp]: "blen (c # s) = utf8_len c + blen s"
  by (simp add: blen_def)

lemma blen_append [simp]: "blen (s @ t) = blen s + blen t"
  by (simp add: blen_def)

lemma blen_0_iff [simp]: "blen s = 0 \<longleftrightarrow> s = []"
  by (cases s) (auto simp: utf8_len_def)

lemma blen_ascii: "list_all (\<lambda>c. c < 128) s \<Longrightarrow> blen s = length s"
  by (induction s) (auto simp: utf8_len_def)

lemma has_control_Nil [simp]: "\<not> has_control []"
  by (simp add: has_control_def)

lemma has_control_append [simp]: "has_control (s @ t) \<longleftrightarrow> has_control s \<or> has_control t"
  by (simp add: has_control_def)

lemma has_control_Cons [simp]: "has_control (c # s) \<longleftrightarrow> is_control c \<or> has_control s"
  by (simp add: has_control_def)

subsection \<open>Cutting a string at a byte limit\<close>

text \<open>
  \<open>str::is_char_boundary\<close> for a byte offset, the downward search for the nearest boundary
  and \<open>String::truncate\<close> (here only ever called at a boundary).
\<close>

definition is_char_boundary :: "rstr \<Rightarrow> nat \<Rightarrow> bool" where
  "is_char_boundary s n \<longleftrightarrow> n \<in> set (map (\<lambda>k. blen (take k s)) [0..<Suc (length s)])"

fun boundary_below :: "rstr \<Rightarrow> nat \<Rightarrow> nat" where
  "boundary_below s 0 = 0"
| "boundary_below s (Suc n) =
     (if is_char_boundary s (Suc n) then Suc n else boundary_below s n)"

fun str_prefix :: "nat \<Rightarrow> rstr \<Rightarrow> rstr" where
  "str_prefix n [] = []"
| "str_prefix n (c # s) =
     (if utf8_len c \<le> n then c # str_prefix (n - utf8_len c) s else [])"

definition str_truncate :: "rstr \<Rightarrow> nat \<Rightarrow> rstr" where
  "str_truncate s n = str_prefix n s"

lemma boundary_below_le: "boundary_below s n \<le> n"
  by (induction n) auto

lemma blen_str_prefix: "blen (str_prefix n s) \<le> n"
  by (induction n s rule: str_prefix.induct) auto

lemma str_prefix_take: "\<exists>k \<le> length s. str_prefix n s = take k s"
proof (induction n s rule: str_prefix.induct)
  case (2 n c s)
  show ?case
  proof (cases "utf8_len c \<le> n")
    case True
    with 2 obtain k where "k \<le> length s" "str_prefix (n - utf8_len c) s = take k s" by auto
    with True have "str_prefix n (c # s) = take (Suc k) (c # s)" "Suc k \<le> length (c # s)"
      by auto
    then show ?thesis by blast
  qed auto
qed simp

lemma has_control_take: "\<not> has_control s \<Longrightarrow> \<not> has_control (take k s)"
  by (auto simp: has_control_def list_ex_iff dest: in_set_takeD)

lemma blen_truncate: "blen (str_truncate s (boundary_below s n)) \<le> n"
  unfolding str_truncate_def
  by (rule order_trans [OF blen_str_prefix boundary_below_le])

lemma truncate_no_control: "\<not> has_control s \<Longrightarrow> \<not> has_control (str_truncate s n)"
  unfolding str_truncate_def by (metis str_prefix_take has_control_take)

section \<open>Results\<close>

text \<open>
  \<open>Result<T, E>\<close> is the sum \<open>E + T\<close> with the error on the left. \<open>seq r k\<close> is the
  source's \<open>r?; k\<close> for a unit result, \<open>bind_result\<close> the \<open>?\<close> that keeps the value,
  \<open>reject_if\<close> the early return \<open>if c { return Err(e); }\<close>, and \<open>all_ok\<close> the loop
  \<open>for x in xs { f(x)?; }\<close>.
\<close>

definition seq :: "'e + unit \<Rightarrow> 'e + 'a \<Rightarrow> 'e + 'a" where
  "seq r k = (case r of Inl e \<Rightarrow> Inl e | Inr _ \<Rightarrow> k)"

definition bind_result :: "'e + 'a \<Rightarrow> ('a \<Rightarrow> 'e + 'b) \<Rightarrow> 'e + 'b" where
  "bind_result r k = (case r of Inl e \<Rightarrow> Inl e | Inr x \<Rightarrow> k x)"

definition reject_if :: "bool \<Rightarrow> 'e \<Rightarrow> 'e + unit" where
  "reject_if c e = (if c then Inl e else Inr ())"

definition is_ok :: "'e + 'a \<Rightarrow> bool" where
  "is_ok r = (case r of Inl _ \<Rightarrow> False | Inr _ \<Rightarrow> True)"

fun all_ok :: "('a \<Rightarrow> 'e + unit) \<Rightarrow> 'a list \<Rightarrow> 'e + unit" where
  "all_ok f [] = Inr ()"
| "all_ok f (x # xs) = seq (f x) (all_ok f xs)"

lemma seq_Inr_iff [simp]: "seq r k = Inr x \<longleftrightarrow> r = Inr () \<and> k = Inr x"
  by (auto simp: seq_def split: sum.splits)

lemma seq_Inl_iff: "seq r k = Inl e \<longleftrightarrow> r = Inl e \<or> r = Inr () \<and> k = Inl e"
  by (auto simp: seq_def split: sum.splits)

lemma seq_simps [simp]: "seq (Inl e) k = Inl e" "seq (Inr u) k = k"
  by (simp_all add: seq_def)

lemma bind_result_simps [simp]: "bind_result (Inl e) f = Inl e" "bind_result (Inr x) f = f x"
  by (simp_all add: bind_result_def)

lemma bind_result_Inr_iff: "bind_result r f = Inr y \<longleftrightarrow> (\<exists>x. r = Inr x \<and> f x = Inr y)"
  by (auto simp: bind_result_def split: sum.splits)

lemma reject_if_Inr_iff [simp]: "reject_if c e = Inr u \<longleftrightarrow> \<not> c"
  by (simp add: reject_if_def)

lemma reject_if_Inl_iff [simp]: "reject_if c e = Inl e' \<longleftrightarrow> c \<and> e' = e"
  by (auto simp: reject_if_def)

lemma is_ok_simps [simp]: "is_ok (Inr x)" "\<not> is_ok (Inl e)"
  by (simp_all add: is_ok_def)

lemma is_ok_iff: "is_ok r \<longleftrightarrow> (\<exists>x. r = Inr x)"
  by (cases r) auto

lemma is_ok_unit_iff: "is_ok (r :: 'e + unit) \<longleftrightarrow> r = Inr ()"
  by (cases r) auto

lemma all_ok_iff [simp]: "all_ok f xs = Inr u \<longleftrightarrow> (\<forall>x \<in> set xs. f x = Inr ())"
  by (induction xs) auto

section \<open>Decimal formatting\<close>

text \<open>\<open>Display\<close> of an unsigned integer: its decimal digits, most significant first.\<close>

fun dec :: "nat \<Rightarrow> rstr" where
  "dec n = (if n < 10 then [48 + n] else dec (n div 10) @ [48 + n mod 10])"

declare dec.simps [simp del]

lemma dec_not_Nil [simp]: "dec n \<noteq> []"
  by (subst dec.simps) simp

lemma dec_digits: "c \<in> set (dec n) \<Longrightarrow> 48 \<le> c \<and> c < 58"
proof (induction n rule: dec.induct)
  case (1 n)
  then show ?case
    by (cases "n < 10") (auto simp: dec.simps [of n])
qed

lemma dec_no_control [simp]: "\<not> has_control (dec n)"
  by (auto simp: has_control_def list_ex_iff is_control_def dest!: dec_digits)

lemma length_dec: "n < 10 ^ k \<Longrightarrow> 0 < k \<Longrightarrow> length (dec n) \<le> k"
proof (induction n arbitrary: k rule: dec.induct)
  case (1 n)
  show ?case
  proof (cases "n < 10")
    case True
    with 1 show ?thesis by (simp add: dec.simps [of n])
  next
    case False
    then obtain j where k: "k = Suc j" and j: "0 < j"
      using 1 by (cases k; cases "k - 1") auto
    have "n div 10 < 10 ^ j" using 1(2) k by (simp add: less_mult_imp_div_less mult.commute)
    with 1(1) [OF False _ j] False k show ?thesis by (simp add: dec.simps [of n])
  qed
qed

lemma blen_dec: "n < 2 ^ 64 \<Longrightarrow> blen (dec n) \<le> 20"
proof -
  assume n: "n < 2 ^ 64"
  have "(2::nat) ^ 64 < 10 ^ 20" by simp
  with n have "n < 10 ^ 20" by (rule less_trans)
  then have "length (dec n) \<le> 20" by (intro length_dec) auto
  moreover have "blen (dec n) = length (dec n)"
    by (rule blen_ascii) (auto simp: list_all_iff dest!: dec_digits)
  ultimately show ?thesis by simp
qed

section \<open>Hash maps\<close>

text \<open>A \<open>HashMap\<close> is a finite map; \<open>len()\<close> is the number of its keys.\<close>

definition fmlen :: "('k, 'v) fmap \<Rightarrow> nat" where
  "fmlen m = fcard (fmdom m)"

lemma fmlen_empty [simp]: "fmlen fmempty = 0"
  by (simp add: fmlen_def)

lemma fmlen_upd_new: "fmlookup m k = None \<Longrightarrow> fmlen (fmupd k v m) = Suc (fmlen m)"
  by (simp add: fmlen_def fmdom_notI fcard_finsert_disjoint)

lemma fmlen_upd_old: "fmlookup m k = Some w \<Longrightarrow> fmlen (fmupd k v m) = fmlen m"
  by (metis fmlen_def fmdom_fmupd fmdomI finsert_absorb)

lemma fmlen_upd: "fmlen (fmupd k v m) = (if fmlookup m k = None then Suc (fmlen m) else fmlen m)"
  by (auto simp: fmlen_upd_new fmlen_upd_old)

lemma fmlen_drop_le: "fmlen (fmdrop k m) \<le> fmlen m"
  by (simp add: fmlen_def fcard_mono fminus_fsubset)

end
