(* ===== verification/Frame.thy ===== *)
theory Frame
  imports Prelude
begin

unbundle bit_operations_syntax

text \<open>
  The bounded length-prefixed framing of \<open>kanai-broker/src/frame.rs\<close>: the stateless
  \<open>FrameCodec\<close>, the incremental \<open>FrameDecoder\<close> and the in-memory transport queues.
  Bytes are \<open>8 word\<close>; sizes are \<open>nat\<close> with the source's \<open>checked_add\<close> written as a
  comparison with \<open>2 ^ 64\<close>.
\<close>

section \<open>Data\<close>

definition DEFAULT_MAX_FRAME_BYTES :: nat where "DEFAULT_MAX_FRAME_BYTES = 1024 * 1024"
definition FRAME_MAGIC :: "u8 list" where "FRAME_MAGIC = [75, 66, 70, 49]"
definition FRAME_HEADER_BYTES :: nat where "FRAME_HEADER_BYTES = 8"
definition U32_MAX :: nat where "U32_MAX = 2 ^ 32 - 1"

lemmas frame_consts = FRAME_MAGIC_def FRAME_HEADER_BYTES_def U32_MAX_def

datatype frame_error =
    EmptyPayload
  | PayloadTooLarge nat nat
  | InvalidLimit nat
  | InvalidMagic
  | ZeroLength
  | LengthOverflow
  | TruncatedHeader
  | TruncatedPayload
  | TrailingBytes
  | BufferOverflow
  | IncompleteFrame
  | IoError rstr

record decoded_frame =
  df_payload :: "u8 list"
  df_consumed :: nat

definition to_be_bytes :: "u32 \<Rightarrow> u8 list" where
  "to_be_bytes w = [ucast (drop_bit 24 w), ucast (drop_bit 16 w), ucast (drop_bit 8 w), ucast w]"

fun from_be_bytes :: "u8 list \<Rightarrow> u32" where
  "from_be_bytes [a, b, c, d] =
     push_bit 24 (ucast a) OR push_bit 16 (ucast b) OR push_bit 8 (ucast c) OR ucast d"
| "from_be_bytes _ = 0"

section \<open>The stateless codec\<close>

definition validate_payload_length :: "nat \<Rightarrow> nat \<Rightarrow> frame_error + unit" where
  "validate_payload_length n max_frame_bytes =
     seq (reject_if (max_frame_bytes = 0) (InvalidLimit 0))
    (seq (reject_if (n = 0) EmptyPayload)
    (seq (reject_if (n > max_frame_bytes) (PayloadTooLarge n max_frame_bytes))
         (reject_if (n > U32_MAX) LengthOverflow)))"

definition frame_with_limit :: "u8 list \<Rightarrow> nat \<Rightarrow> frame_error + u8 list" where
  "frame_with_limit payload max_frame_bytes =
     seq (validate_payload_length (length payload) max_frame_bytes) (Inr payload)"

definition codec_new :: "nat \<Rightarrow> frame_error + nat" where
  "codec_new max_frame_bytes =
     (if max_frame_bytes = 0 then Inl (InvalidLimit 0)
      else if max_frame_bytes > U32_MAX then Inl LengthOverflow
      else Inr max_frame_bytes)"

definition parse_payload_len :: "u8 list \<Rightarrow> nat \<Rightarrow> frame_error + nat" where
  "parse_payload_len input max_frame_bytes =
     (if length input < FRAME_HEADER_BYTES then Inl TruncatedHeader
      else if take 4 input \<noteq> FRAME_MAGIC then Inl InvalidMagic
      else let n = unat (from_be_bytes (take 4 (drop 4 input))) in
        if n = 0 then Inl ZeroLength
        else if n > max_frame_bytes then Inl (PayloadTooLarge n max_frame_bytes)
        else Inr n)"

definition encode :: "nat \<Rightarrow> u8 list \<Rightarrow> frame_error + u8 list" where
  "encode max_frame_bytes payload =
     seq (validate_payload_length (length payload) max_frame_bytes)
         (Inr (FRAME_MAGIC @ to_be_bytes (of_nat (length payload)) @ payload))"

definition decode :: "nat \<Rightarrow> u8 list \<Rightarrow> frame_error + decoded_frame" where
  "decode max_frame_bytes input =
     (if length input < FRAME_HEADER_BYTES then Inl TruncatedHeader
      else bind_result (parse_payload_len input max_frame_bytes) (\<lambda>n.
        if FRAME_HEADER_BYTES + n \<ge> 2 ^ 64 then Inl LengthOverflow
        else if length input < FRAME_HEADER_BYTES + n then Inl TruncatedPayload
        else if length input > FRAME_HEADER_BYTES + n then Inl TrailingBytes
        else Inr \<lparr>df_payload = take n (drop FRAME_HEADER_BYTES input),
                  df_consumed = FRAME_HEADER_BYTES + n\<rparr>))"

section \<open>The incremental decoder\<close>

record frame_decoder =
  fd_max_frame_bytes :: nat
  fd_buffer :: "u8 list"

definition decoder_new :: "nat \<Rightarrow> frame_error + frame_decoder" where
  "decoder_new max_frame_bytes =
     bind_result (codec_new max_frame_bytes)
       (\<lambda>m. Inr \<lparr>fd_max_frame_bytes = m, fd_buffer = []\<rparr>)"

text \<open>\<open>take_frame\<close>: the first complete frame of the buffer and the buffer without it.\<close>

definition take_frame :: "nat \<Rightarrow> u8 list \<Rightarrow> frame_error + (u8 list \<times> u8 list) option" where
  "take_frame max_frame_bytes buffer =
     (if length buffer < FRAME_HEADER_BYTES then Inr None
      else bind_result (parse_payload_len buffer max_frame_bytes) (\<lambda>n.
        if FRAME_HEADER_BYTES + n \<ge> 2 ^ 64 then Inl LengthOverflow
        else if length buffer < FRAME_HEADER_BYTES + n then Inr None
        else Inr (Some (take n (drop FRAME_HEADER_BYTES buffer),
                        drop (FRAME_HEADER_BYTES + n) buffer))))"

lemma take_frame_shorter:
  "take_frame m b = Inr (Some (p, b')) \<Longrightarrow> length b' < length b"
  by (auto simp: take_frame_def bind_result_Inr_iff frame_consts split: if_splits)

text \<open>\<open>while let Some(payload) = self.take_frame()?\<close>, collecting into \<open>frames\<close>.\<close>

function drain_frames ::
  "nat \<Rightarrow> u8 list \<Rightarrow> u8 list list \<Rightarrow> u8 list \<times> (frame_error + u8 list list)" where
  "drain_frames m buffer frames =
     (case take_frame m buffer of
        Inl e \<Rightarrow> (buffer, Inl e)
      | Inr None \<Rightarrow> (buffer, Inr frames)
      | Inr (Some (payload, rest)) \<Rightarrow> drain_frames m rest (frames @ [payload]))"
  by pat_completeness auto
termination
  by (relation "measure (\<lambda>(m, b, f). length b)") (auto dest: take_frame_shorter)

declare drain_frames.simps [simp del]

text \<open>The byte loop of \<open>push\<close>; on an error the frames decoded so far are dropped.\<close>

fun push_loop ::
  "nat \<Rightarrow> u8 list \<Rightarrow> u8 list list \<Rightarrow> u8 list \<Rightarrow> u8 list \<times> (frame_error + u8 list list)" where
  "push_loop m buffer frames [] = (buffer, Inr frames)"
| "push_loop m buffer frames (byte # bytes) =
     (if FRAME_HEADER_BYTES + m \<ge> 2 ^ 64 then (buffer, Inl BufferOverflow)
      else if length buffer \<ge> FRAME_HEADER_BYTES + m then ([], Inl BufferOverflow)
      else case drain_frames m (buffer @ [byte]) frames of
        (buffer', Inl e) \<Rightarrow> (buffer', Inl e)
      | (buffer', Inr frames') \<Rightarrow> push_loop m buffer' frames' bytes)"

definition decoder_push ::
  "frame_decoder \<Rightarrow> u8 list \<Rightarrow> frame_decoder \<times> (frame_error + u8 list list)" where
  "decoder_push d bytes =
     (case push_loop (fd_max_frame_bytes d) (fd_buffer d) [] bytes of
        (buffer, r) \<Rightarrow> (d\<lparr>fd_buffer := buffer\<rparr>, r))"

definition decoder_finish :: "frame_decoder \<Rightarrow> frame_error + unit" where
  "decoder_finish d = (if fd_buffer d = [] then Inr () else Inl IncompleteFrame)"

definition decoder_reset :: "frame_decoder \<Rightarrow> frame_decoder" where
  "decoder_reset d = d\<lparr>fd_buffer := []\<rparr>"

text \<open>A stream of chunks pushed one after the other; the first error ends it.\<close>

fun push_chunks ::
  "frame_decoder \<Rightarrow> u8 list list \<Rightarrow> frame_decoder \<times> (frame_error + u8 list list)" where
  "push_chunks d [] = (d, Inr [])"
| "push_chunks d (c # cs) =
     (case decoder_push d c of
        (d', Inl e) \<Rightarrow> (d', Inl e)
      | (d', Inr frames) \<Rightarrow>
          (case push_chunks d' cs of
             (d'', Inl e) \<Rightarrow> (d'', Inl e)
           | (d'', Inr later) \<Rightarrow> (d'', Inr (frames @ later))))"

section \<open>Byte order\<close>

lemma length_to_be_bytes [simp]: "length (to_be_bytes w) = 4"
  by (simp add: to_be_bytes_def)

lemma from_to_be_bytes [simp]: "from_be_bytes (to_be_bytes w) = w"
proof (rule bit_word_eqI)
  fix n assume "n < LENGTH(32)"
  then consider "n < 8" | "8 \<le> n" "n < 16" | "16 \<le> n" "n < 24" | "24 \<le> n" "n < 32"
    by fastforce
  then show "bit (from_be_bytes (to_be_bytes w)) n = bit w n"
    by cases (auto simp: to_be_bytes_def bit_simps)
qed

lemma length_FRAME_MAGIC [simp]: "length FRAME_MAGIC = 4"
  by (simp add: FRAME_MAGIC_def)

section \<open>Accepted payloads and their frames\<close>

definition acceptable :: "nat \<Rightarrow> u8 list \<Rightarrow> bool" where
  "acceptable m p \<longleftrightarrow> p \<noteq> [] \<and> length p \<le> m \<and> length p \<le> U32_MAX"

definition wire :: "u8 list \<Rightarrow> u8 list" where
  "wire p = FRAME_MAGIC @ to_be_bytes (of_nat (length p)) @ p"

lemma acceptable_iff: "validate_payload_length (length p) m = Inr () \<longleftrightarrow> acceptable m p"
  by (cases p) (auto simp: validate_payload_length_def acceptable_def)

lemma encode_Inr_iff: "encode m p = Inr w \<longleftrightarrow> acceptable m p \<and> w = wire p"
  by (auto simp: encode_def acceptable_iff wire_def)

lemma length_wire [simp]: "length (wire p) = FRAME_HEADER_BYTES + length p"
  by (simp add: wire_def frame_consts)

lemma take_wire:
  "FRAME_HEADER_BYTES \<le> k \<Longrightarrow>
   take k (wire p) = FRAME_MAGIC @ to_be_bytes (of_nat (length p)) @ take (k - FRAME_HEADER_BYTES) p"
  by (simp add: wire_def FRAME_HEADER_BYTES_def)

lemma unat_wire_length: "acceptable m p \<Longrightarrow> unat (of_nat (length p) :: u32) = length p"
  by (simp add: acceptable_def U32_MAX_def unat_of_nat take_bit_nat_eq_self less_eq_Suc_le)

lemma parse_header:
  assumes "acceptable m p"
  shows "parse_payload_len (FRAME_MAGIC @ to_be_bytes (of_nat (length p)) @ rest) m = Inr (length p)"
  using assms unat_wire_length [OF assms]
  by (auto simp: parse_payload_len_def acceptable_def FRAME_HEADER_BYTES_def Let_def)

lemma header_fits: "acceptable m p \<Longrightarrow> \<not> 2 ^ 64 \<le> FRAME_HEADER_BYTES + length p"
  by (simp add: acceptable_def frame_consts)

lemma decode_wire:
  assumes "acceptable m p"
  shows "decode m (wire p) = Inr \<lparr>df_payload = p, df_consumed = length (wire p)\<rparr>"
proof -
  have "parse_payload_len (wire p) m = Inr (length p)"
    unfolding wire_def by (rule parse_header [OF assms])
  then show ?thesis
    using header_fits [OF assms] by (simp add: decode_def FRAME_HEADER_BYTES_def wire_def)
qed

section \<open>Streaming\<close>

lemma take_frame_partial:
  assumes "acceptable m p" "k < length (wire p)"
  shows "take_frame m (take k (wire p)) = Inr None"
proof (cases "k < FRAME_HEADER_BYTES")
  case True
  then show ?thesis by (simp add: take_frame_def)
next
  case False
  then have "take k (wire p) =
      FRAME_MAGIC @ to_be_bytes (of_nat (length p)) @ take (k - FRAME_HEADER_BYTES) p"
    by (intro take_wire) simp
  then have "parse_payload_len (take k (wire p)) m = Inr (length p)"
    using parse_header [OF assms(1)] by simp
  then show ?thesis
    using assms False header_fits [OF assms(1)] by (simp add: take_frame_def)
qed

lemma take_frame_wire:
  assumes "acceptable m p"
  shows "take_frame m (wire p) = Inr (Some (p, []))"
proof -
  have "parse_payload_len (wire p) m = Inr (length p)"
    unfolding wire_def by (rule parse_header [OF assms])
  then show ?thesis
    using header_fits [OF assms] by (simp add: take_frame_def FRAME_HEADER_BYTES_def wire_def)
qed

text \<open>
  The buffer states of a decoder reading a well-formed stream: a proper prefix of the next
  frame. One byte more either stays a proper prefix or completes the frame.
\<close>

lemma drain_partial:
  "acceptable m p \<Longrightarrow> k < length (wire p) \<Longrightarrow>
   drain_frames m (take k (wire p)) frames = (take k (wire p), Inr frames)"
  by (simp add: drain_frames.simps take_frame_partial)

lemma drain_complete:
  "acceptable m p \<Longrightarrow> drain_frames m (wire p) frames = ([], Inr (frames @ [p]))"
  by (simp add: drain_frames.simps take_frame_wire)
    (simp add: drain_frames.simps take_frame_def frame_consts)

lemma push_loop_append:
  "push_loop m b fs (xs @ ys) =
     (case push_loop m b fs xs of
        (b', Inl e) \<Rightarrow> (b', Inl e)
      | (b', Inr fs') \<Rightarrow> push_loop m b' fs' ys)"
  by (induction m b fs xs rule: push_loop.induct) (auto split: prod.splits sum.splits)

lemma push_loop_partial:
  assumes "acceptable m p" "m \<le> U32_MAX"
  shows "k + j < length (wire p) \<Longrightarrow>
    push_loop m (take k (wire p)) fs (take j (drop k (wire p))) = (take (k + j) (wire p), Inr fs)"
proof (induction j arbitrary: k)
  case (Suc j)
  have drop: "drop k (wire p) = wire p ! k # drop (Suc k) (wire p)"
    using Suc.prems by (intro Cons_nth_drop_Suc [symmetric]) simp
  have grow: "take k (wire p) @ [wire p ! k] = take (Suc k) (wire p)"
    using Suc.prems by (simp add: take_Suc_conv_app_nth)
  have "\<not> FRAME_HEADER_BYTES + m \<le> k" "\<not> 2 ^ 64 \<le> FRAME_HEADER_BYTES + m"
    using Suc.prems assms by (auto simp: acceptable_def frame_consts)
  with Suc show ?case
    by (simp add: drop grow drain_partial [OF assms(1)])
qed simp

lemma push_loop_frame:
  assumes "acceptable m p" "m \<le> U32_MAX" "k < length (wire p)"
  shows "push_loop m (take k (wire p)) fs (drop k (wire p)) = ([], Inr (fs @ [p]))"
proof -
  obtain ys z where w: "wire p = ys @ [z]"
    using assms(3) by (cases "wire p" rule: rev_cases) (auto simp del: length_wire)
  have size: "Suc (length ys) = FRAME_HEADER_BYTES + length p"
    using arg_cong [OF w, of length] by simp
  have len: "length ys < FRAME_HEADER_BYTES + m" "k \<le> length ys"
    using assms size by (auto simp: acceptable_def)
  have small: "\<not> 2 ^ 64 \<le> FRAME_HEADER_BYTES + m"
    using assms by (auto simp: frame_consts)
  have "push_loop m (take k (wire p)) fs (take (length ys - k) (drop k (wire p)))
      = (take (k + (length ys - k)) (wire p), Inr fs)"
    using len by (intro push_loop_partial assms) (simp add: w)
  then have "push_loop m (take k ys) fs (drop k ys) = (ys, Inr fs)"
    using len by (simp add: w)
  then have "push_loop m (take k ys) fs (drop k ys @ [z]) = ([], Inr (fs @ [p]))"
    using len small drain_complete [OF assms(1), of fs] by (simp add: push_loop_append w)
  then show ?thesis using len by (simp add: w)
qed

text \<open>
  A well-formed stream from any point inside a frame: the decoder's buffer is the consumed
  prefix of the current frame, and the frames come out in order.
\<close>

lemma push_loop_stream:
  assumes "\<And>p. p \<in> set ps \<Longrightarrow> acceptable m p" "m \<le> U32_MAX"
  shows "push_loop m [] fs (concat (map wire ps)) = ([], Inr (fs @ ps))"
  using assms
proof (induction ps arbitrary: fs)
  case (Cons p ps)
  have "push_loop m [] fs (wire p) = ([], Inr (fs @ [p]))"
    using push_loop_frame [of m p 0 fs] Cons.prems by (simp add: FRAME_HEADER_BYTES_def)
  then show ?case using Cons by (simp add: push_loop_append)
qed simp

text \<open>The frames already collected only accumulate, so chunk boundaries do not matter.\<close>

definition add_frames ::
  "u8 list list \<Rightarrow> u8 list \<times> (frame_error + u8 list list) \<Rightarrow>
   u8 list \<times> (frame_error + u8 list list)" where
  "add_frames fs r = (case r of (b, Inl e) \<Rightarrow> (b, Inl e) | (b, Inr gs) \<Rightarrow> (b, Inr (fs @ gs)))"

lemma add_frames_simps [simp]:
  "add_frames fs (b, Inl e) = (b, Inl e)" "add_frames fs (b, Inr gs) = (b, Inr (fs @ gs))"
  by (simp_all add: add_frames_def)

lemma drain_frames_acc: "drain_frames m b (fs @ gs) = add_frames fs (drain_frames m b gs)"
proof (induction m b gs rule: drain_frames.induct)
  case (1 m b gs)
  show ?case
  proof (cases "take_frame m b")
    case (Inl e)
    then show ?thesis by (simp add: drain_frames.simps [of m b])
  next
    case (Inr r)
    then show ?thesis
      using 1 by (cases r) (auto simp: drain_frames.simps [of m b])
  qed
qed

lemma push_loop_acc: "push_loop m b (fs @ gs) xs = add_frames fs (push_loop m b gs xs)"
proof (induction m b gs xs rule: push_loop.induct)
  case (2 m b gs x xs)
  then show ?case
    by (cases "drain_frames m (b @ [x]) gs"; cases "snd (drain_frames m (b @ [x]) gs)")
      (auto simp: drain_frames_acc)
qed simp

lemma push_loop_start: "push_loop m b fs xs = add_frames fs (push_loop m b [] xs)"
  using push_loop_acc [of m b fs "[]" xs] by simp

text \<open>
  Chunk boundaries are invisible: pushing chunks one after the other is pushing their
  concatenation.
\<close>

lemma decoder_push_append:
  "decoder_push d (xs @ ys) =
     (case decoder_push d xs of
        (d', Inl e) \<Rightarrow> (d', Inl e)
      | (d', Inr fs) \<Rightarrow>
          (case decoder_push d' ys of
             (d'', Inl e) \<Rightarrow> (d'', Inl e)
           | (d'', Inr gs) \<Rightarrow> (d'', Inr (fs @ gs))))"
proof -
  obtain b r where b: "push_loop (fd_max_frame_bytes d) (fd_buffer d) [] xs = (b, r)"
    by fastforce
  show ?thesis
  proof (cases r)
    case (Inl e)
    with b show ?thesis by (simp add: decoder_push_def push_loop_append)
  next
    case (Inr fs)
    obtain b' r' where b': "push_loop (fd_max_frame_bytes d) b [] ys = (b', r')"
      by fastforce
    with b Inr show ?thesis
      using push_loop_start [of "fd_max_frame_bytes d" b fs ys]
      by (cases r') (simp_all add: decoder_push_def push_loop_append)
  qed
qed

lemma push_chunks_concat: "push_chunks d chunks = decoder_push d (concat chunks)"
  by (induction chunks arbitrary: d)
    (simp_all add: decoder_push_def [of _ "[]"] decoder_push_append split: prod.splits sum.splits)

section \<open>The buffer bound\<close>

text \<open>
  A decoder's buffer holds at most one frame: whatever is pushed, a successful push leaves
  fewer bytes than a header and a maximal payload. The byte that makes the buffer that
  large also completes a frame or fails, so \<open>BufferOverflow\<close> is a safety net.
\<close>

lemma take_frame_None:
  "take_frame m b = Inr None \<Longrightarrow> length b < FRAME_HEADER_BYTES + m"
  by (auto simp: take_frame_def bind_result_Inr_iff parse_payload_len_def Let_def split: if_splits)

lemma drain_frames_rest:
  "drain_frames m b fs = (b', Inr gs) \<Longrightarrow> length b' < FRAME_HEADER_BYTES + m"
proof (induction m b fs rule: drain_frames.induct)
  case (1 m b fs)
  then show ?case
    by (subst (asm) drain_frames.simps)
      (auto split: sum.splits option.splits dest: take_frame_None)
qed

lemma take_frame_not_overflow: "take_frame m b \<noteq> Inl BufferOverflow"
  by (auto simp: take_frame_def bind_result_def parse_payload_len_def Let_def split: sum.splits if_splits)

lemma drain_frames_not_overflow: "snd (drain_frames m b fs) \<noteq> Inl BufferOverflow"
proof (induction m b fs rule: drain_frames.induct)
  case (1 m b fs)
  then show ?case
    by (subst drain_frames.simps)
      (auto split: sum.splits option.splits dest: take_frame_not_overflow [THEN notE])
qed

definition decoder_ok :: "frame_decoder \<Rightarrow> bool" where
  "decoder_ok d \<longleftrightarrow> 0 < fd_max_frame_bytes d \<and> fd_max_frame_bytes d \<le> U32_MAX \<and>
     length (fd_buffer d) < FRAME_HEADER_BYTES + fd_max_frame_bytes d"

lemma push_loop_bound:
  "m \<le> U32_MAX \<Longrightarrow> length b < FRAME_HEADER_BYTES + m \<Longrightarrow> push_loop m b fs xs = (b', r) \<Longrightarrow>
   r \<noteq> Inl BufferOverflow \<and> (is_ok r \<longrightarrow> length b' < FRAME_HEADER_BYTES + m)"
proof (induction m b fs xs rule: push_loop.induct)
  case (2 m b fs x xs)
  have small: "\<not> 2 ^ 64 \<le> FRAME_HEADER_BYTES + m"
    using 2(2) by (simp add: frame_consts)
  obtain c q where c: "drain_frames m (b @ [x]) fs = (c, q)" by fastforce
  with 2 small show ?case
    using drain_frames_not_overflow [of m "b @ [x]" fs]
    by (cases q) (auto dest: drain_frames_rest)
qed auto

lemma decoder_new_ok: "decoder_new m = Inr d \<Longrightarrow> decoder_ok d"
  by (auto simp: decoder_new_def codec_new_def decoder_ok_def frame_consts split: if_splits)

section \<open>Properties\<close>

lemma wire_take_drop: "FRAME_MAGIC @ to_be_bytes (of_nat (length p)) @ p = wire p"
  by (simp add: wire_def)

lemma to_from_be_bytes: "length bs = 4 \<Longrightarrow> to_be_bytes (from_be_bytes bs) = bs"
proof -
  assume "length bs = 4"
  then obtain a b c d where "bs = [a, b, c, d]"
    by (auto simp: numeral_eq_Suc length_Suc_conv)
  moreover have "to_be_bytes (from_be_bytes [a, b, c, d]) = [a, b, c, d]"
    by (auto simp: to_be_bytes_def bit_eq_iff bit_simps dest: bit_imp_le_length)
  ultimately show ?thesis by simp
qed

lemma unat_u32_less: "unat (x :: u32) < 2 ^ 32"
  using unsigned_less [of x] by simp

lemma decode_canonical:
  assumes "decode m w = Inr f"
  shows "acceptable m (df_payload f) \<and> w = wire (df_payload f) \<and> df_consumed f = length w"
proof -
  have lw: "FRAME_HEADER_BYTES \<le> length w"
    using assms by (auto simp: decode_def split: if_splits)
  obtain n where n: "parse_payload_len w m = Inr n" "length w = FRAME_HEADER_BYTES + n"
    and f: "f = \<lparr>df_payload = take n (drop FRAME_HEADER_BYTES w), df_consumed = FRAME_HEADER_BYTES + n\<rparr>"
    using assms by (auto simp: decode_def bind_result_Inr_iff split: if_splits)
  have hd: "take 4 w = FRAME_MAGIC" "n = unat (from_be_bytes (take 4 (drop 4 w)))" "n \<noteq> 0" "n \<le> m"
    using n(1) by (auto simp: parse_payload_len_def Let_def split: if_splits)
  have p: "df_payload f = drop 8 w" "length (drop 8 w) = n"
    using f n(2) by (simp_all add: FRAME_HEADER_BYTES_def)
  have "n \<le> U32_MAX"
    using hd(2) unat_u32_less [of "from_be_bytes (take 4 (drop 4 w))"] by (simp add: U32_MAX_def)
  then have acc: "acceptable m (df_payload f)"
    using p hd by (auto simp: acceptable_def)
  have "to_be_bytes (of_nat n) = take 4 (drop 4 w)"
    using lw by (simp add: hd(2) to_from_be_bytes FRAME_HEADER_BYTES_def)
  then have "wire (df_payload f) = take 4 w @ take 4 (drop 4 w) @ drop 8 w"
    using p hd(1) by (simp add: wire_def)
  also have "\<dots> = w"
    by (metis append_take_drop_id drop_drop numeral_Bit0)
  finally show ?thesis using acc f n(2) by simp
qed

text \<open>
  Encoding and decoding are inverse: the decoder accepts exactly the byte strings the
  encoder produces under the same limit, and returns the payload they were made from and the
  number of bytes consumed.
\<close>

theorem frame_roundtrip:
  "decode m w = Inr f \<longleftrightarrow> encode m (df_payload f) = Inr w \<and> df_consumed f = length w"
proof
  assume "decode m w = Inr f"
  then show "encode m (df_payload f) = Inr w \<and> df_consumed f = length w"
    using decode_canonical [of m w f] by (simp add: encode_Inr_iff)
next
  assume "encode m (df_payload f) = Inr w \<and> df_consumed f = length w"
  then have "acceptable m (df_payload f)" "w = wire (df_payload f)" "df_consumed f = length w"
    by (simp_all add: encode_Inr_iff)
  then show "decode m w = Inr f" using decode_wire [of m "df_payload f"] by (cases f) simp
qed

text \<open>
  The incremental decoder reassembles a stream: however the bytes of encoded payloads are
  cut into chunks, pushing the chunks yields exactly the payloads in order and leaves the
  decoder as it was, so \<open>finish\<close> succeeds.
\<close>

theorem decoder_reassembles:
  assumes "decoder_new m = Inr d" "map (encode m) ps = map Inr ws" "concat chunks = concat ws"
  shows "push_chunks d chunks = (d, Inr ps) \<and> decoder_finish (fst (push_chunks d chunks)) = Inr ()"
proof -
  have d: "d = \<lparr>fd_max_frame_bytes = m, fd_buffer = []\<rparr>" "m \<le> U32_MAX"
    using assms(1) by (auto simp: decoder_new_def codec_new_def split: if_splits)
  have "(\<forall>p \<in> set ps. acceptable m p) \<and> ws = map wire ps"
    using assms(2)
  proof (induction ps arbitrary: ws)
    case (Cons p ps)
    then show ?case by (cases ws) (auto simp: encode_Inr_iff)
  qed simp
  then have "decoder_push d (concat chunks) = (d, Inr ps)"
    using d assms(3) push_loop_stream [of ps m "[]"] by (auto simp: decoder_push_def)
  then show ?thesis by (simp add: push_chunks_concat decoder_finish_def d)
qed

theorem decoder_reassembles_witness:
  "push_chunks \<lparr>fd_max_frame_bytes = 16, fd_buffer = []\<rparr>
     [[75, 66, 70], [49, 0, 0, 0, 1, 7, 75, 66], [70, 49, 0, 0, 0, 2, 8, 9]] =
   (\<lparr>fd_max_frame_bytes = 16, fd_buffer = []\<rparr>, Inr [[7], [8, 9]])"
  by (rule decoder_reassembles [where m = 16 and ps = "[[7], [8, 9]]" and
        ws = "[[75, 66, 70, 49, 0, 0, 0, 1, 7], [75, 66, 70, 49, 0, 0, 0, 2, 8, 9]]", THEN conjunct1])
    (simp_all add: decoder_new_def codec_new_def encode_def validate_payload_length_def
      reject_if_def frame_consts to_be_bytes_def)

text \<open>
  The decoder's memory is bounded whatever arrives: a push never reports
  \<open>BufferOverflow\<close>, and after a successful push fewer bytes are buffered than one header and
  one maximal payload.
\<close>

theorem decoder_bounded:
  assumes "decoder_ok d" "decoder_push d bytes = (d', r)"
  shows "r \<noteq> Inl BufferOverflow \<and> (is_ok r \<longrightarrow> decoder_ok d')"
proof -
  obtain b where b: "push_loop (fd_max_frame_bytes d) (fd_buffer d) [] bytes = (b, r)"
    "d' = d\<lparr>fd_buffer := b\<rparr>"
    using assms(2) by (auto simp: decoder_push_def split: prod.splits)
  then show ?thesis
    using push_loop_bound [of "fd_max_frame_bytes d" "fd_buffer d" "[]" bytes b r] assms(1)
    by (simp add: decoder_ok_def)
qed

theorem decoder_bounded_witness:
  "snd (decoder_push \<lparr>fd_max_frame_bytes = 4, fd_buffer = []\<rparr> [1, 2, 3]) \<noteq> Inl BufferOverflow"
  using decoder_bounded [of "\<lparr>fd_max_frame_bytes = 4, fd_buffer = []\<rparr>" "[1, 2, 3]"
      "fst (decoder_push \<lparr>fd_max_frame_bytes = 4, fd_buffer = []\<rparr> [1, 2, 3])"
      "snd (decoder_push \<lparr>fd_max_frame_bytes = 4, fd_buffer = []\<rparr> [1, 2, 3])"]
  by (simp add: decoder_ok_def frame_consts)

end
