(* ===== verification/Protocol.thy ===== *)
theory Protocol
  imports Prelude
begin

text \<open>
  The transport-neutral DTOs of \<open>kanai-broker/src/protocol.rs\<close>: requests, responses and
  their envelopes. Structs are records whose fields carry a prefix for the struct, enums are
  datatypes with the source's constructors (prefixed where two enums share one), identifiers
  and counters are words of the source's width, \<open>usize\<close> positions inside DTOs are \<open>nat\<close>.
\<close>

section \<open>Limits\<close>

definition PROTOCOL_VERSION :: u16 where "PROTOCOL_VERSION = 1"
definition MAX_CLIENT_ID_BYTES :: nat where "MAX_CLIENT_ID_BYTES = 128"
definition MAX_LOCALE_BYTES :: nat where "MAX_LOCALE_BYTES = 32"
definition MAX_FIELD_CLASS_BYTES :: nat where "MAX_FIELD_CLASS_BYTES = 64"
definition MAX_KEY_BYTES :: nat where "MAX_KEY_BYTES = 64"
definition MAX_EDIT_TEXT_BYTES :: nat where "MAX_EDIT_TEXT_BYTES = 16 * 1024"
definition MAX_CANDIDATES :: nat where "MAX_CANDIDATES = 128"
definition MAX_PAGE_SIZE :: u16 where "MAX_PAGE_SIZE = 64"
definition MAX_PAGE :: u32 where "MAX_PAGE = 16384"
definition MAX_ENHANCEMENT_DEADLINE_MS :: u32 where "MAX_ENHANCEMENT_DEADLINE_MS = 2000"
definition MAX_PROVIDER_ID_BYTES :: nat where "MAX_PROVIDER_ID_BYTES = 64"
definition MAX_ASSIST_TEXT_BYTES :: nat where "MAX_ASSIST_TEXT_BYTES = 4 * 1024"
definition MAX_ASSIST_CONTEXT_BYTES :: nat where "MAX_ASSIST_CONTEXT_BYTES = 512"
definition MAX_RERANK_CANDIDATE_BYTES :: nat where "MAX_RERANK_CANDIDATE_BYTES = 64 * 1024"

lemmas limit_defs =
  PROTOCOL_VERSION_def MAX_CLIENT_ID_BYTES_def MAX_LOCALE_BYTES_def MAX_FIELD_CLASS_BYTES_def
  MAX_KEY_BYTES_def MAX_EDIT_TEXT_BYTES_def MAX_CANDIDATES_def MAX_PAGE_SIZE_def MAX_PAGE_def
  MAX_ENHANCEMENT_DEADLINE_MS_def MAX_PROVIDER_ID_BYTES_def MAX_ASSIST_TEXT_BYTES_def
  MAX_ASSIST_CONTEXT_BYTES_def MAX_RERANK_CANDIDATE_BYTES_def

section \<open>Requests\<close>

datatype field_class =
    Regular | Password | Protected | Search | Email | Number | Other rstr

definition is_secure :: "field_class \<Rightarrow> bool" where
  "is_secure c \<longleftrightarrow> c = Password \<or> c = Protected"

datatype key_event =
    Character rstr | Enter | Space | Backspace | Delete | Escape | Tab
  | Left | Right | Up | Down | Function u8 | Named rstr

record text_range =
  range_start :: u32
  range_end :: u32

datatype edit_action =
    Insert rstr | Replace text_range rstr | DeleteRange text_range | Reset

record create_session_request =
  cs_session_id :: u64
  cs_locale :: rstr
  cs_field_class :: field_class

record prepare_rerank_session_request =
  pr_session_id :: u64
  pr_generation :: u64
  pr_field_class :: field_class

record key_request =
  kq_session_id :: u64
  kq_generation :: u64
  kq_key :: key_event

record edit_request =
  eq_session_id :: u64
  eq_generation :: u64
  eq_action :: edit_action

record convert_request =
  cv_session_id :: u64
  cv_generation :: u64
  cv_page :: u32
  cv_page_size :: u16

record commit_request =
  cm_session_id :: u64
  cm_generation :: u64
  cm_candidate_id :: u64

record cancel_request =
  cc_session_id :: u64
  cc_target_request_id :: "u64 option"
  cc_generation :: "u64 option"

record focus_lost_request =
  fl_session_id :: u64
  fl_generation :: u64

record generation_request =
  gq_session_id :: u64

datatype secure_field_policy = Prohibit | AllowLocalOnly

datatype enhancement_policy = Disabled | LocalQualityOnly

datatype provider_locality = Local | Remote

datatype enhancement_feature = CandidateRerank | SemanticAssist

datatype enhancement_status =
    ES_Applied | ES_Fallback | ES_Skipped | ES_TimedOut | ES_Cancelled | ES_Rejected

datatype enhancement_reason =
    ER_None | ER_SecureField | ER_PolicyDisabled | ER_ConsentRequired | ER_NoBaseline
  | ER_NoChange | ER_ProviderTimeout | ER_ProviderUnavailable | ER_ProviderRejected
  | ER_InvalidResult | ER_StaleGeneration | ER_Cancelled

record enhancement_admission =
  ea_session_id :: u64
  ea_generation :: u64
  ea_field_class :: field_class
  ea_secure_field_policy :: secure_field_policy

record enhancement_metrics =
  em_feature :: enhancement_feature
  em_provider :: rstr
  em_locality :: provider_locality
  em_baseline_latency_micros :: u64
  em_ai_latency_micros :: u64
  em_baseline_candidate_count :: u16
  em_ai_candidate_count :: u16
  em_changed_positions :: u16
  em_adopted_count :: u16
  em_deadline_ms :: u32

definition baseline_metrics ::
  "enhancement_feature \<Rightarrow> rstr \<Rightarrow> provider_locality \<Rightarrow> u16 \<Rightarrow> u32 \<Rightarrow> enhancement_metrics" where
  "baseline_metrics feature provider locality count deadline =
     \<lparr>em_feature = feature, em_provider = provider, em_locality = locality,
      em_baseline_latency_micros = 0, em_ai_latency_micros = 0,
      em_baseline_candidate_count = count, em_ai_candidate_count = count,
      em_changed_positions = 0, em_adopted_count = 0, em_deadline_ms = deadline\<rparr>"

record candidate =
  cand_id :: u64
  cand_text :: rstr
  cand_reading :: "rstr option"
  cand_rank :: u16

record candidate_rerank_request =
  rr_session_id :: u64
  rr_generation :: u64
  rr_candidates :: "candidate list"
  rr_context_before :: rstr
  rr_context_after :: rstr
  rr_policy_version :: rstr
  rr_deadline_ms :: u32
  rr_baseline_latency_micros :: u64

datatype semantic_intent = Rewrite | Explain | Suggest | Repair

record semantic_assist_request =
  sa_session_id :: u64
  sa_generation :: u64
  sa_intent :: semantic_intent
  sa_text :: rstr
  sa_instruction :: rstr
  sa_context_before :: rstr
  sa_context_after :: rstr
  sa_policy_version :: rstr
  sa_deadline_ms :: u32
  sa_baseline_latency_micros :: u64
  sa_consent :: bool

datatype request_command =
    CreateSessionCmd create_session_request
  | PrepareRerankSessionCmd prepare_rerank_session_request
  | KeyCmd key_request
  | EditCmd edit_request
  | ConvertCmd convert_request
  | CommitCmd commit_request
  | CancelCmd cancel_request
  | FocusLostCmd focus_lost_request
  | HealthCmd
  | GenerationCmd generation_request
  | RerankCandidatesCmd candidate_rerank_request
  | SemanticAssistCmd semantic_assist_request

fun command_session_id :: "request_command \<Rightarrow> u64 option" where
  "command_session_id (CreateSessionCmd r) = Some (cs_session_id r)"
| "command_session_id (PrepareRerankSessionCmd r) = Some (pr_session_id r)"
| "command_session_id (KeyCmd r) = Some (kq_session_id r)"
| "command_session_id (EditCmd r) = Some (eq_session_id r)"
| "command_session_id (ConvertCmd r) = Some (cv_session_id r)"
| "command_session_id (CommitCmd r) = Some (cm_session_id r)"
| "command_session_id (CancelCmd r) = Some (cc_session_id r)"
| "command_session_id (FocusLostCmd r) = Some (fl_session_id r)"
| "command_session_id HealthCmd = None"
| "command_session_id (GenerationCmd r) = Some (gq_session_id r)"
| "command_session_id (RerankCandidatesCmd r) = Some (rr_session_id r)"
| "command_session_id (SemanticAssistCmd r) = Some (sa_session_id r)"

fun expected_generation :: "request_command \<Rightarrow> u64 option" where
  "expected_generation (PrepareRerankSessionCmd r) = Some (pr_generation r)"
| "expected_generation (KeyCmd r) = Some (kq_generation r)"
| "expected_generation (EditCmd r) = Some (eq_generation r)"
| "expected_generation (ConvertCmd r) = Some (cv_generation r)"
| "expected_generation (CommitCmd r) = Some (cm_generation r)"
| "expected_generation (CancelCmd r) = cc_generation r"
| "expected_generation (FocusLostCmd r) = Some (fl_generation r)"
| "expected_generation (RerankCandidatesCmd r) = Some (rr_generation r)"
| "expected_generation (SemanticAssistCmd r) = Some (sa_generation r)"
| "expected_generation (CreateSessionCmd r) = None"
| "expected_generation HealthCmd = None"
| "expected_generation (GenerationCmd r) = None"

record request_envelope =
  rq_version :: u16
  rq_request_id :: u64
  rq_command :: request_command

definition new_request :: "u64 \<Rightarrow> request_command \<Rightarrow> request_envelope" where
  "new_request rid cmd =
     \<lparr>rq_version = PROTOCOL_VERSION, rq_request_id = rid, rq_command = cmd\<rparr>"

section \<open>Responses\<close>

record composition_state =
  st_preedit :: rstr
  st_consumed :: bool
  st_candidates :: "candidate list"
  st_focused_index :: "nat option"

definition default_composition_state :: composition_state where
  "default_composition_state =
     \<lparr>st_preedit = [], st_consumed = False, st_candidates = [], st_focused_index = None\<rparr>"

datatype fallback_mode = FM_None | FM_DirectInput | FM_LastValidPreedit

datatype error_code =
    EC_InvalidRequest | EC_UnsupportedVersion | EC_Unauthenticated | EC_UnknownSession
  | EC_AlreadyExists | EC_StaleGeneration | EC_GenerationExhausted | EC_Cancelled
  | EC_BackendUnavailable | EC_BackendTimeout | EC_BackendProtocol
  | EC_EnhancementRequiresAsync | EC_Internal

record error_response =
  er_code :: error_code
  er_message :: rstr
  er_retryable :: bool
  er_fallback :: fallback_mode
  er_current_generation :: "u64 option"

definition new_error :: "error_code \<Rightarrow> rstr \<Rightarrow> bool \<Rightarrow> error_response" where
  "new_error code message retryable =
     \<lparr>er_code = code, er_message = message, er_retryable = retryable,
      er_fallback = FM_None, er_current_generation = None\<rparr>"

definition with_fallback :: "fallback_mode \<Rightarrow> error_response \<Rightarrow> error_response" where
  "with_fallback f e = e\<lparr>er_fallback := f\<rparr>"

definition with_generation :: "u64 option \<Rightarrow> error_response \<Rightarrow> error_response" where
  "with_generation g e = e\<lparr>er_current_generation := g\<rparr>"

record session_created =
  sc_session_id :: u64
  sc_generation :: u64
  sc_fallback :: fallback_mode

record key_response =
  kr_session_id :: u64
  kr_generation :: u64
  kr_preedit :: rstr
  kr_consumed :: bool
  kr_candidates :: "candidate list"
  kr_focused_index :: "nat option"
  kr_fallback :: fallback_mode

record edit_response =
  dr_session_id :: u64
  dr_generation :: u64
  dr_preedit :: rstr
  dr_consumed :: bool
  dr_candidates :: "candidate list"
  dr_focused_index :: "nat option"
  dr_fallback :: fallback_mode

record convert_response =
  vr_session_id :: u64
  vr_generation :: u64
  vr_preedit :: rstr
  vr_consumed :: bool
  vr_candidates :: "candidate list"
  vr_focused_index :: "nat option"
  vr_page :: u32
  vr_page_size :: u16
  vr_has_more :: bool
  vr_fallback :: fallback_mode

definition key_state :: "key_response \<Rightarrow> composition_state" where
  "key_state r = \<lparr>st_preedit = kr_preedit r, st_consumed = kr_consumed r,
     st_candidates = kr_candidates r, st_focused_index = kr_focused_index r\<rparr>"

definition edit_state :: "edit_response \<Rightarrow> composition_state" where
  "edit_state r = \<lparr>st_preedit = dr_preedit r, st_consumed = dr_consumed r,
     st_candidates = dr_candidates r, st_focused_index = dr_focused_index r\<rparr>"

definition convert_state :: "convert_response \<Rightarrow> composition_state" where
  "convert_state r = \<lparr>st_preedit = vr_preedit r, st_consumed = vr_consumed r,
     st_candidates = vr_candidates r, st_focused_index = vr_focused_index r\<rparr>"

record commit_response =
  mr_session_id :: u64
  mr_generation :: u64
  mr_text :: rstr
  mr_consumed :: bool

record cancel_response =
  xr_session_id :: u64
  xr_generation :: u64
  xr_target_request_id :: "u64 option"

record focus_lost_response =
  fr_session_id :: u64
  fr_generation :: u64

datatype health_status = Ready | Degraded | Unavailable

record health_response =
  hr_status :: health_status
  hr_protocol_version :: u16
  hr_max_frame_bytes :: u32
  hr_fallback :: fallback_mode
  hr_detail :: rstr

definition health_ready :: "nat \<Rightarrow> health_response" where
  "health_ready max_frame_bytes =
     \<lparr>hr_status = Ready, hr_protocol_version = PROTOCOL_VERSION,
      hr_max_frame_bytes = (if max_frame_bytes < 2 ^ 32 then of_nat max_frame_bytes else - 1),
      hr_fallback = FM_None, hr_detail = lit ''ready''\<rparr>"

record generation_response =
  gr_session_id :: u64
  gr_generation :: u64

record candidate_rerank_response =
  cr_session_id :: u64
  cr_generation :: u64
  cr_status :: enhancement_status
  cr_baseline :: "candidate list"
  cr_ai :: "candidate list"
  cr_adopted :: bool
  cr_metrics :: enhancement_metrics
  cr_fallback :: fallback_mode
  cr_reason :: enhancement_reason

record semantic_assist_response =
  ar_session_id :: u64
  ar_generation :: u64
  ar_status :: enhancement_status
  ar_baseline_text :: rstr
  ar_assist :: "rstr option"
  ar_applied :: bool
  ar_metrics :: enhancement_metrics
  ar_fallback :: fallback_mode
  ar_reason :: enhancement_reason

datatype response_payload =
    CreatedResp session_created
  | KeyResp key_response
  | EditResp edit_response
  | ConvertResp convert_response
  | CommitResp commit_response
  | CancelResp cancel_response
  | FocusLostResp focus_lost_response
  | HealthResp health_response
  | GenerationResp generation_response
  | RerankCandidatesResp candidate_rerank_response
  | SemanticAssistResp semantic_assist_response

fun payload_session_id :: "response_payload \<Rightarrow> u64 option" where
  "payload_session_id (CreatedResp r) = Some (sc_session_id r)"
| "payload_session_id (KeyResp r) = Some (kr_session_id r)"
| "payload_session_id (EditResp r) = Some (dr_session_id r)"
| "payload_session_id (ConvertResp r) = Some (vr_session_id r)"
| "payload_session_id (CommitResp r) = Some (mr_session_id r)"
| "payload_session_id (CancelResp r) = Some (xr_session_id r)"
| "payload_session_id (FocusLostResp r) = Some (fr_session_id r)"
| "payload_session_id (HealthResp r) = None"
| "payload_session_id (GenerationResp r) = Some (gr_session_id r)"
| "payload_session_id (RerankCandidatesResp r) = Some (cr_session_id r)"
| "payload_session_id (SemanticAssistResp r) = Some (ar_session_id r)"

fun payload_generation :: "response_payload \<Rightarrow> u64 option" where
  "payload_generation (CreatedResp r) = Some (sc_generation r)"
| "payload_generation (KeyResp r) = Some (kr_generation r)"
| "payload_generation (EditResp r) = Some (dr_generation r)"
| "payload_generation (ConvertResp r) = Some (vr_generation r)"
| "payload_generation (CommitResp r) = Some (mr_generation r)"
| "payload_generation (CancelResp r) = Some (xr_generation r)"
| "payload_generation (FocusLostResp r) = Some (fr_generation r)"
| "payload_generation (HealthResp r) = None"
| "payload_generation (GenerationResp r) = Some (gr_generation r)"
| "payload_generation (RerankCandidatesResp r) = Some (cr_generation r)"
| "payload_generation (SemanticAssistResp r) = Some (ar_generation r)"

datatype response_outcome = Success response_payload | Failure error_response

record response_envelope =
  rp_version :: u16
  rp_request_id :: u64
  rp_generation :: "u64 option"
  rp_outcome :: response_outcome

definition success :: "u64 \<Rightarrow> response_payload \<Rightarrow> response_envelope" where
  "success rid payload =
     \<lparr>rp_version = PROTOCOL_VERSION, rp_request_id = rid,
      rp_generation = payload_generation payload, rp_outcome = Success payload\<rparr>"

definition failure_envelope :: "u64 \<Rightarrow> u64 option \<Rightarrow> error_response \<Rightarrow> response_envelope" where
  "failure_envelope rid generation e =
     \<lparr>rp_version = PROTOCOL_VERSION, rp_request_id = rid,
      rp_generation = generation, rp_outcome = Failure e\<rparr>"

definition payload_of :: "response_envelope \<Rightarrow> response_payload option" where
  "payload_of r = (case rp_outcome r of Success p \<Rightarrow> Some p | Failure _ \<Rightarrow> None)"

definition error_of :: "response_envelope \<Rightarrow> error_response option" where
  "error_of r = (case rp_outcome r of Success _ \<Rightarrow> None | Failure e \<Rightarrow> Some e)"

lemma payload_of_success [simp]: "payload_of (success rid p) = Some p"
  by (simp add: payload_of_def success_def)

lemma payload_of_failure [simp]: "payload_of (failure_envelope rid g e) = None"
  by (simp add: payload_of_def failure_envelope_def)

lemma error_of_success [simp]: "error_of (success rid p) = None"
  by (simp add: error_of_def success_def)

lemma error_of_failure [simp]: "error_of (failure_envelope rid g e) = Some e"
  by (simp add: error_of_def failure_envelope_def)

lemma request_id_responses [simp]:
  "rp_request_id (success rid p) = rid" "rp_request_id (failure_envelope rid g e) = rid"
  by (simp_all add: success_def failure_envelope_def)

lemma error_builders [simp]:
  "er_code (with_fallback f e) = er_code e" "er_code (with_generation g e) = er_code e"
  "er_code (new_error c m r) = c" "er_message (new_error c m r) = m"
  "er_message (with_fallback f e) = er_message e"
  "er_message (with_generation g e) = er_message e"
  "er_current_generation (with_generation g e) = g"
  "er_current_generation (with_fallback f e) = er_current_generation e"
  "er_fallback (with_fallback f e) = f" "er_fallback (with_generation g e) = er_fallback e"
  by (simp_all add: with_fallback_def with_generation_def new_error_def)

lemmas default_state_simps [simp] =
  default_composition_state_def [THEN arg_cong [where f = st_preedit], simplified]
  default_composition_state_def [THEN arg_cong [where f = st_candidates], simplified]
  default_composition_state_def [THEN arg_cong [where f = st_focused_index], simplified]
  default_composition_state_def [THEN arg_cong [where f = st_consumed], simplified]

lemma response_state_simps [simp]:
  "st_preedit (key_state k) = kr_preedit k" "st_candidates (key_state k) = kr_candidates k"
  "st_focused_index (key_state k) = kr_focused_index k"
  "st_preedit (edit_state e) = dr_preedit e" "st_candidates (edit_state e) = dr_candidates e"
  "st_focused_index (edit_state e) = dr_focused_index e"
  "st_preedit (convert_state c) = vr_preedit c" "st_candidates (convert_state c) = vr_candidates c"
  "st_focused_index (convert_state c) = vr_focused_index c"
  by (simp_all add: key_state_def edit_state_def convert_state_def)

end
