(* ===== verification/Generation.thy ===== *)
theory Generation
  imports Protocol
begin

text \<open>
  What \<open>kanai-broker/src/broker.rs\<close> shares between the synchronous and the asynchronous
  broker: cooperative cancellation (\<open>CancellationToken\<close>, \<open>CancellationRegistry\<close>), the
  generation snapshot an optional enhancement holds (\<open>GenerationToken\<close>), the backend and
  broker errors with their wire codes, and the fallback policy.

  An \<open>Arc\<close> is an address: cancellation flags live in a heap of booleans, and the three
  atomics of a session (\<open>clock\<close>, \<open>epoch\<close>, \<open>active\<close>), which are always allocated and shared
  together, are one cell of a heap of cells. The locale \<open>generation_owner\<close> states what the
  owner of the cells promises the token holders, and derives that a stale token stays stale.
\<close>

section \<open>Cancellation\<close>

record cancellations =
  cn_tokens :: "(u64, nat) fmap"
  cn_flags :: "nat \<Rightarrow> bool"
  cn_next :: nat

definition no_cancellations :: cancellations where
  "no_cancellations = \<lparr>cn_tokens = fmempty, cn_flags = (\<lambda>_. False), cn_next = 0\<rparr>"

definition new_token :: "cancellations \<Rightarrow> cancellations \<times> nat" where
  "new_token c =
     (c\<lparr>cn_flags := (cn_flags c)(cn_next c := False), cn_next := Suc (cn_next c)\<rparr>, cn_next c)"

definition is_cancelled :: "cancellations \<Rightarrow> nat \<Rightarrow> bool" where
  "is_cancelled c token = cn_flags c token"

definition cancel_token :: "nat \<Rightarrow> cancellations \<Rightarrow> cancellations" where
  "cancel_token token c = c\<lparr>cn_flags := (cn_flags c)(token := True)\<rparr>"

datatype cancellation_error = DuplicateRequestError u64

definition register_token ::
  "u64 \<Rightarrow> nat \<Rightarrow> cancellations \<Rightarrow> cancellation_error + cancellations" where
  "register_token rid token c =
     (if fmlookup (cn_tokens c) rid \<noteq> None then Inl (DuplicateRequestError rid)
      else Inr (c\<lparr>cn_tokens := fmupd rid token (cn_tokens c)\<rparr>))"

definition finish_request :: "u64 \<Rightarrow> cancellations \<Rightarrow> cancellations" where
  "finish_request rid c = c\<lparr>cn_tokens := fmdrop rid (cn_tokens c)\<rparr>"

definition cancel_request :: "u64 \<Rightarrow> cancellations \<Rightarrow> cancellations \<times> bool" where
  "cancel_request rid c =
     (case fmlookup (cn_tokens c) rid of
        None \<Rightarrow> (c, False)
      | Some token \<Rightarrow> (cancel_token token c, True))"

definition active_requests :: "cancellations \<Rightarrow> nat" where
  "active_requests c = fmlen (cn_tokens c)"

lemma register_token_Inr_iff:
  "register_token rid token c = Inr c' \<longleftrightarrow>
     fmlookup (cn_tokens c) rid = None \<and> c' = c\<lparr>cn_tokens := fmupd rid token (cn_tokens c)\<rparr>"
  by (auto simp: register_token_def)

lemma cancellations_frame [simp]:
  "cn_tokens (cancel_token t c) = cn_tokens c" "cn_next (cancel_token t c) = cn_next c"
  "cn_flags (finish_request rid c) = cn_flags c" "cn_next (finish_request rid c) = cn_next c"
  "cn_tokens (fst (new_token c)) = cn_tokens c" "cn_tokens (fst (cancel_request r c)) = cn_tokens c"
  "cn_tokens (finish_request rid c) = fmdrop rid (cn_tokens c)"
  by (simp_all add: cancel_token_def finish_request_def new_token_def cancel_request_def
      split: option.splits)

text \<open>A registration that ends takes back exactly the entry it added.\<close>

lemma finish_registered:
  assumes "register_token rid token c = Inr c'"
  shows "cn_tokens (finish_request rid c') = cn_tokens c"
proof -
  have "fmlookup (cn_tokens c) rid = None" "cn_tokens c' = fmupd rid token (cn_tokens c)"
    using assms by (auto simp: register_token_Inr_iff)
  then show ?thesis by (auto intro!: fmap_ext)
qed

section \<open>Generation tokens\<close>

record gen_cell =
  gc_clock :: u64
  gc_epoch :: u64
  gc_active :: bool

type_synonym cells = "nat \<Rightarrow> gen_cell"

definition new_cell :: "u64 \<Rightarrow> gen_cell" where
  "new_cell generation = \<lparr>gc_clock = generation, gc_epoch = 0, gc_active = True\<rparr>"

record generation_token =
  gt_session_id :: u64
  gt_generation :: u64
  gt_cell :: nat
  gt_token_epoch :: u64
  gt_field_class :: field_class
  gt_secure_field_policy :: secure_field_policy

definition field_policy :: "field_class \<Rightarrow> secure_field_policy" where
  "field_policy c = (if is_secure c then Prohibit else AllowLocalOnly)"

definition from_shared ::
  "u64 \<Rightarrow> u64 \<Rightarrow> cells \<Rightarrow> nat \<Rightarrow> field_class \<Rightarrow> generation_token" where
  "from_shared sid generation cells cell fclass =
     \<lparr>gt_session_id = sid, gt_generation = generation, gt_cell = cell,
      gt_token_epoch = gc_epoch (cells cell), gt_field_class = fclass,
      gt_secure_field_policy = field_policy fclass\<rparr>"

definition is_current :: "cells \<Rightarrow> generation_token \<Rightarrow> bool" where
  "is_current cells t \<longleftrightarrow>
     gc_active (cells (gt_cell t)) \<and> gc_clock (cells (gt_cell t)) = gt_generation t
     \<and> gc_epoch (cells (gt_cell t)) = gt_token_epoch t"

definition admission :: "generation_token \<Rightarrow> enhancement_admission" where
  "admission t =
     \<lparr>ea_session_id = gt_session_id t, ea_generation = gt_generation t,
      ea_field_class = gt_field_class t, ea_secure_field_policy = gt_secure_field_policy t\<rparr>"

text \<open>\<open>clock.store(generation); epoch.fetch_add(1)\<close>: the atomic add wraps.\<close>

definition bump_cell :: "u64 \<Rightarrow> gen_cell \<Rightarrow> gen_cell" where
  "bump_cell generation c = c\<lparr>gc_clock := generation, gc_epoch := gc_epoch c + 1\<rparr>"

lemma bump_cell_simps [simp]:
  "gc_clock (bump_cell g c) = g" "gc_epoch (bump_cell g c) = gc_epoch c + 1"
  "gc_active (bump_cell g c) = gc_active c"
  by (simp_all add: bump_cell_def)

section \<open>The contract of a cell owner\<close>

text \<open>
  \<open>evolves k c c'\<close>: the cell \<open>c\<close> went through at most \<open>k\<close> bumps to \<open>c'\<close>; without a bump the
  clock can only go back (a rollback) and a cleared \<open>active\<close> flag is not set again.
\<close>

definition evolves :: "nat \<Rightarrow> gen_cell \<Rightarrow> gen_cell \<Rightarrow> bool" where
  "evolves k c c' \<longleftrightarrow>
     (\<exists>j\<le>k. gc_epoch c' = gc_epoch c + of_nat j \<and>
        (j = 0 \<longrightarrow> gc_clock c' \<le> gc_clock c \<and> (gc_active c' \<longrightarrow> gc_active c)))"

lemma evolves_refl [simp, intro]: "evolves k c c"
  by (auto simp: evolves_def)

lemma evolves_bump [intro]: "0 < k \<Longrightarrow> gc_epoch c' = gc_epoch c + 1 \<Longrightarrow> evolves k c c'"
  unfolding evolves_def by (rule exI [of _ 1]) auto

lemma evolves_lower [intro]:
  "gc_clock c' \<le> gc_clock c \<Longrightarrow> gc_epoch c' = gc_epoch c \<Longrightarrow>
   (gc_active c' \<Longrightarrow> gc_active c) \<Longrightarrow> evolves k c c'"
  unfolding evolves_def by (rule exI [of _ 0]) auto

lemma evolves_deactivate [intro]:
  "gc_clock c' = gc_clock c \<Longrightarrow> gc_epoch c' = gc_epoch c \<Longrightarrow> \<not> gc_active c' \<Longrightarrow> evolves k c c'"
  unfolding evolves_def by (rule exI [of _ 0]) auto

lemma evolves_trans: "evolves j a b \<Longrightarrow> evolves k b c \<Longrightarrow> evolves (j + k) a c"
  unfolding evolves_def
proof (elim exE conjE)
  fix m n assume *: "m \<le> j" "n \<le> k" "gc_epoch b = gc_epoch a + of_nat m"
    "m = 0 \<longrightarrow> gc_clock b \<le> gc_clock a \<and> (gc_active b \<longrightarrow> gc_active a)"
    "gc_epoch c = gc_epoch b + of_nat n"
    "n = 0 \<longrightarrow> gc_clock c \<le> gc_clock b \<and> (gc_active c \<longrightarrow> gc_active b)"
  then show "\<exists>i\<le>j + k. gc_epoch c = gc_epoch a + of_nat i \<and>
      (i = 0 \<longrightarrow> gc_clock c \<le> gc_clock a \<and> (gc_active c \<longrightarrow> gc_active a))"
    by (intro exI [of _ "m + n"]) auto
qed

lemma evolves_mono: "evolves j a b \<Longrightarrow> j \<le> k \<Longrightarrow> evolves k a b"
  unfolding evolves_def by (meson order_trans)

text \<open>
  The pure core: a token taken when the cell was \<open>a\<close>, stale at \<open>b\<close>, is stale at \<open>c\<close>, as long
  as fewer than \<open>2 ^ 64\<close> bumps happened in between.
\<close>

lemma stale_evolves:
  assumes "evolves j (cells (gt_cell t)) (cells' (gt_cell t))"
    and "evolves k (cells' (gt_cell t)) (cells'' (gt_cell t))"
    and "j + k < 2 ^ 64"
    and taken: "gt_token_epoch t = gc_epoch (cells (gt_cell t))"
      "gt_generation t = gc_clock (cells (gt_cell t))"
    and stale: "\<not> is_current cells' t"
  shows "\<not> is_current cells'' t"
proof
  assume cur: "is_current cells'' t"
  obtain m where m: "m \<le> j" "gc_epoch (cells' (gt_cell t)) = gc_epoch (cells (gt_cell t)) + of_nat m"
    "m = 0 \<longrightarrow> gc_clock (cells' (gt_cell t)) \<le> gc_clock (cells (gt_cell t))"
    using assms(1) by (auto simp: evolves_def)
  obtain n where n: "n \<le> k" "gc_epoch (cells'' (gt_cell t)) = gc_epoch (cells' (gt_cell t)) + of_nat n"
    "n = 0 \<longrightarrow> gc_clock (cells'' (gt_cell t)) \<le> gc_clock (cells' (gt_cell t)) \<and>
      (gc_active (cells'' (gt_cell t)) \<longrightarrow> gc_active (cells' (gt_cell t)))"
    using assms(2) by (auto simp: evolves_def)
  have "of_nat (m + n) = (0 :: u64)"
    using cur taken m n by (simp add: is_current_def)
  then have "2 ^ 64 dvd m + n"
    unfolding word_of_nat_eq_0_iff by simp
  then have "m + n = 0"
    using m n assms(3) by (metis add_mono dvd_imp_le leD le_less_trans not_gr_zero)
  with m n cur stale taken show False by (auto simp: is_current_def)
qed

locale generation_owner =
  fixes step :: "'s \<Rightarrow> 's \<Rightarrow> bool"
    and owner_cells :: "'s \<Rightarrow> cells"
    and allocated :: "'s \<Rightarrow> nat \<Rightarrow> bool"
    and bumps :: nat
  assumes step_evolves:
      "step s s' \<Longrightarrow> allocated s a \<Longrightarrow> evolves bumps (owner_cells s a) (owner_cells s' a)"
    and step_allocated: "step s s' \<Longrightarrow> allocated s a \<Longrightarrow> allocated s' a"
begin

inductive steps :: "nat \<Rightarrow> 's \<Rightarrow> 's \<Rightarrow> bool" where
  steps_none: "steps 0 s s"
| steps_more: "step s s' \<Longrightarrow> steps n s' s'' \<Longrightarrow> steps (Suc n) s s''"

lemma steps_allocated: "steps n s s' \<Longrightarrow> allocated s a \<Longrightarrow> allocated s' a"
  by (induction rule: steps.induct) (auto dest: step_allocated)

lemma steps_evolves:
  "steps n s s' \<Longrightarrow> allocated s a \<Longrightarrow> evolves (n * bumps) (owner_cells s a) (owner_cells s' a)"
proof (induction rule: steps.induct)
  case (steps_more s s' n s'')
  then have "evolves (bumps + n * bumps) (owner_cells s a) (owner_cells s'' a)"
    using step_evolves step_allocated evolves_trans by blast
  then show ?case by simp
qed auto

lemma stale_forever:
  assumes "steps m s s'" "steps n s' s''" "(m + n) * bumps < 2 ^ 64"
    and "allocated s (gt_cell t)"
    and "gt_token_epoch t = gc_epoch (owner_cells s (gt_cell t))"
    and "gt_generation t = gc_clock (owner_cells s (gt_cell t))"
    and "\<not> is_current (owner_cells s') t"
  shows "\<not> is_current (owner_cells s'') t"
proof (rule stale_evolves)
  show "evolves (m * bumps) (owner_cells s (gt_cell t)) (owner_cells s' (gt_cell t))"
    by (rule steps_evolves [OF assms(1,4)])
  show "evolves (n * bumps) (owner_cells s' (gt_cell t)) (owner_cells s'' (gt_cell t))"
    by (rule steps_evolves [OF assms(2) steps_allocated [OF assms(1,4)]])
qed (use assms in \<open>simp_all add: add_mult_distrib\<close>)

end

section \<open>Errors and configuration\<close>

datatype backend_error =
    BE_Unavailable rstr
  | BE_Timeout
  | BE_Cancelled
  | BE_Protocol rstr
  | BE_Rejected rstr
  | BE_SessionInvalidated

fun backend_error_code :: "backend_error \<Rightarrow> error_code" where
  "backend_error_code (BE_Unavailable _) = EC_BackendUnavailable"
| "backend_error_code BE_Timeout = EC_BackendTimeout"
| "backend_error_code BE_Cancelled = EC_Cancelled"
| "backend_error_code (BE_Protocol _) = EC_BackendProtocol"
| "backend_error_code (BE_Rejected _) = EC_InvalidRequest"
| "backend_error_code BE_SessionInvalidated = EC_BackendUnavailable"

definition public_backend_message :: "error_code \<Rightarrow> rstr" where
  "public_backend_message code =
     (case code of
        EC_BackendUnavailable \<Rightarrow> lit ''conversion backend is unavailable''
      | EC_BackendTimeout \<Rightarrow> lit ''conversion backend timed out''
      | EC_BackendProtocol \<Rightarrow> lit ''conversion backend returned an invalid response''
      | EC_Cancelled \<Rightarrow> lit ''conversion backend was cancelled''
      | _ \<Rightarrow> lit ''conversion backend failed'')"

datatype fallback_policy = DirectInput | LastValidPreedit

record broker_config =
  bc_fallback :: fallback_policy
  bc_max_sessions :: usize

definition default_broker_config :: broker_config where
  "default_broker_config = \<lparr>bc_fallback = LastValidPreedit, bc_max_sessions = 128\<rparr>"

text \<open>
  The backend seam (\<open>trait BrokerBackend\<close>): \<open>execute\<close> passes the backend's state, gets the
  command and whether its token is cancelled, and answers; \<open>health\<close> reads the state.
\<close>

record 'b backend_ops =
  be_execute :: "'b \<Rightarrow> request_command \<Rightarrow> bool \<Rightarrow> 'b \<times> (backend_error + response_payload)"
  be_health :: "'b \<Rightarrow> health_response"

definition fallback_of :: "composition_state option \<Rightarrow> composition_state \<times> fallback_mode" where
  "fallback_of s =
     (case s of
        Some st \<Rightarrow> (st, FM_LastValidPreedit)
      | None \<Rightarrow> (default_composition_state, FM_DirectInput))"

end
