(* ===== verification/Validation.thy ===== *)
theory Validation
  imports Protocol "HOL-Library.Multiset"
begin

text \<open>
  The bounded-DTO validation of \<open>kanai-broker/src/protocol.rs\<close>: \<open>ValidationError\<close> with its
  messages, the \<open>validate\<close> method of every request and response type and of the two
  envelopes, and what acceptance implies. Every early return is a branch, in source order.
\<close>

section \<open>Errors\<close>

text \<open>The field labels the validators pass as \<open>&'static str\<close>.\<close>

datatype field_label =
    L_sessionId | L_requestId | L_candidateId | L_targetRequestId | L_candidate_id
  | L_candidate_text | L_candidate_reading | L_locale | L_fieldClass | L_key_value | L_key_name
  | L_edit_text | L_preedit | L_commit_text | L_health_detail | L_error_message
  | L_enhancement_provider | L_rerank_contextBefore | L_rerank_contextAfter
  | L_rerank_policyVersion | L_assist_text | L_assist_instruction | L_assist_contextBefore
  | L_assist_contextAfter | L_assist_policyVersion | L_assist_baselineText | L_assist_assist

fun label_name :: "field_label \<Rightarrow> rstr" where
  "label_name L_sessionId = lit ''sessionId''"
| "label_name L_requestId = lit ''requestId''"
| "label_name L_candidateId = lit ''candidateId''"
| "label_name L_targetRequestId = lit ''targetRequestId''"
| "label_name L_candidate_id = lit ''candidate.id''"
| "label_name L_candidate_text = lit ''candidate.text''"
| "label_name L_candidate_reading = lit ''candidate.reading''"
| "label_name L_locale = lit ''locale''"
| "label_name L_fieldClass = lit ''fieldClass''"
| "label_name L_key_value = lit ''key.value''"
| "label_name L_key_name = lit ''key.name''"
| "label_name L_edit_text = lit ''edit.text''"
| "label_name L_preedit = lit ''preedit''"
| "label_name L_commit_text = lit ''commit.text''"
| "label_name L_health_detail = lit ''health.detail''"
| "label_name L_error_message = lit ''error.message''"
| "label_name L_enhancement_provider = lit ''enhancement.provider''"
| "label_name L_rerank_contextBefore = lit ''rerank.contextBefore''"
| "label_name L_rerank_contextAfter = lit ''rerank.contextAfter''"
| "label_name L_rerank_policyVersion = lit ''rerank.policyVersion''"
| "label_name L_assist_text = lit ''assist.text''"
| "label_name L_assist_instruction = lit ''assist.instruction''"
| "label_name L_assist_contextBefore = lit ''assist.contextBefore''"
| "label_name L_assist_contextAfter = lit ''assist.contextAfter''"
| "label_name L_assist_policyVersion = lit ''assist.policyVersion''"
| "label_name L_assist_baselineText = lit ''assist.baselineText''"
| "label_name L_assist_assist = lit ''assist.assist''"

datatype validation_error =
    VE_UnsupportedVersion u16 u16          \<comment> \<open>expected, actual\<close>
  | VE_InvalidId field_label
  | VE_EmptyText field_label
  | VE_TextTooLong field_label usize usize  \<comment> \<open>length, max\<close>
  | VE_ControlCharacter field_label
  | VE_InvalidRange u32 u32
  | VE_PageOutOfRange u32 u32
  | VE_PageSizeOutOfRange u16 u16
  | VE_TooManyCandidates usize usize
  | VE_InvalidFocusedIndex usize usize
  | VE_InvalidFrameLimit u32
  | VE_GenerationMismatch u64 u64
  | VE_DuplicateCandidateId u64
  | VE_UnknownEnhancementCandidate u64
  | VE_RerankCandidateMutated u64
  | VE_RerankMustBePermutation usize usize
  | VE_RerankCandidateBytesTooLarge usize usize
  | VE_InvalidDeadline u32 u32
  | VE_InvalidEnhancementMetrics
  | VE_InvalidSecureFieldPolicy
  | VE_MissingAssistText

definition decw :: "'a::len word \<Rightarrow> rstr" where
  "decw w = dec (unat w)"

fun validation_message :: "validation_error \<Rightarrow> rstr" where
  "validation_message (VE_UnsupportedVersion e a) =
     lit ''unsupported protocol version '' @ decw a @ lit ''; expected '' @ decw e"
| "validation_message (VE_InvalidId f) = label_name f @ lit '' must be greater than zero''"
| "validation_message (VE_EmptyText f) = label_name f @ lit '' must not be empty''"
| "validation_message (VE_TextTooLong f n m) =
     label_name f @ lit '' is too long ('' @ decw n @ lit '' bytes; maximum '' @ decw m @ lit '')''"
| "validation_message (VE_ControlCharacter f) =
     label_name f @ lit '' contains a control character''"
| "validation_message (VE_InvalidRange s e) =
     lit ''invalid text range '' @ decw s @ lit ''..'' @ decw e"
| "validation_message (VE_PageOutOfRange p m) =
     lit ''candidate page '' @ decw p @ lit '' exceeds maximum '' @ decw m"
| "validation_message (VE_PageSizeOutOfRange p m) =
     lit ''candidate page size '' @ decw p @ lit '' is outside 1..='' @ decw m"
| "validation_message (VE_TooManyCandidates n m) =
     lit ''response contains '' @ decw n @ lit '' candidates; maximum is '' @ decw m"
| "validation_message (VE_InvalidFocusedIndex i n) =
     lit ''focused candidate index '' @ decw i @ lit '' is outside '' @ decw n @ lit '' candidates''"
| "validation_message (VE_InvalidFrameLimit m) = lit ''invalid frame limit '' @ decw m"
| "validation_message (VE_GenerationMismatch e p) =
     lit ''response generation '' @ decw e @ lit '' does not match payload generation '' @ decw p"
| "validation_message (VE_DuplicateCandidateId c) =
     lit ''candidate id '' @ decw c @ lit '' occurs more than once''"
| "validation_message (VE_UnknownEnhancementCandidate c) =
     lit ''AI candidate id '' @ decw c @ lit '' was not present in the baseline''"
| "validation_message (VE_RerankCandidateMutated c) =
     lit ''AI candidate id '' @ decw c @ lit '' changed a baseline field''"
| "validation_message (VE_RerankMustBePermutation b a) =
     lit ''AI candidates must be a complete permutation ('' @ decw b @ lit '' baseline, '' @ decw a
       @ lit '' AI)''"
| "validation_message (VE_RerankCandidateBytesTooLarge n m) =
     lit ''rerank candidate payload is too large ('' @ decw n @ lit '' bytes; maximum '' @ decw m
       @ lit '')''"
| "validation_message (VE_InvalidDeadline d m) =
     lit ''enhancement deadline '' @ decw d @ lit '' ms is outside 1..='' @ decw m"
| "validation_message VE_InvalidEnhancementMetrics =
     lit ''enhancement metrics are outside bounded limits''"
| "validation_message VE_InvalidSecureFieldPolicy =
     lit ''secure field admission must prohibit optional enhancement''"
| "validation_message VE_MissingAssistText =
     lit ''semantic assist response has no assist text''"

section \<open>Primitive checks\<close>

definition validate_id :: "field_label \<Rightarrow> u64 \<Rightarrow> validation_error + unit" where
  "validate_id f v = reject_if (v = 0) (VE_InvalidId f)"

definition validate_text_allow_empty ::
  "field_label \<Rightarrow> rstr \<Rightarrow> nat \<Rightarrow> validation_error + unit" where
  "validate_text_allow_empty f v max_bytes =
     seq (reject_if (blen v > max_bytes)
            (VE_TextTooLong f (of_nat (blen v)) (of_nat max_bytes)))
         (reject_if (has_control v) (VE_ControlCharacter f))"

definition validate_text :: "field_label \<Rightarrow> rstr \<Rightarrow> nat \<Rightarrow> validation_error + unit" where
  "validate_text f v max_bytes =
     seq (reject_if (v = []) (VE_EmptyText f)) (validate_text_allow_empty f v max_bytes)"

definition validate_deadline :: "u32 \<Rightarrow> validation_error + unit" where
  "validate_deadline d =
     reject_if (d = 0 \<or> d > MAX_ENHANCEMENT_DEADLINE_MS)
       (VE_InvalidDeadline d MAX_ENHANCEMENT_DEADLINE_MS)"

definition validate_page :: "u32 \<Rightarrow> u16 \<Rightarrow> validation_error + unit" where
  "validate_page page page_size =
     seq (reject_if (page > MAX_PAGE) (VE_PageOutOfRange page MAX_PAGE))
         (reject_if (page_size = 0 \<or> page_size > MAX_PAGE_SIZE)
            (VE_PageSizeOutOfRange page_size MAX_PAGE_SIZE))"

definition validate_opt :: "('a \<Rightarrow> 'e + unit) \<Rightarrow> 'a option \<Rightarrow> 'e + unit" where
  "validate_opt f x = (case x of None \<Rightarrow> Inr () | Some y \<Rightarrow> f y)"

section \<open>Request validation\<close>

fun validate_field_class :: "field_class \<Rightarrow> validation_error + unit" where
  "validate_field_class (Other label) =
     validate_text L_fieldClass label MAX_FIELD_CLASS_BYTES"
| "validate_field_class _ = Inr ()"

fun validate_key_event :: "key_event \<Rightarrow> validation_error + unit" where
  "validate_key_event (Character v) = validate_text L_key_value v MAX_KEY_BYTES"
| "validate_key_event (Named n) = validate_text L_key_name n MAX_KEY_BYTES"
| "validate_key_event _ = Inr ()"

definition validate_range :: "text_range \<Rightarrow> validation_error + unit" where
  "validate_range r =
     reject_if (range_start r > range_end r) (VE_InvalidRange (range_start r) (range_end r))"

fun validate_edit_action :: "edit_action \<Rightarrow> validation_error + unit" where
  "validate_edit_action (Insert t) = validate_text L_edit_text t MAX_EDIT_TEXT_BYTES"
| "validate_edit_action (Replace r t) =
     seq (validate_range r) (validate_text L_edit_text t MAX_EDIT_TEXT_BYTES)"
| "validate_edit_action (DeleteRange r) = validate_range r"
| "validate_edit_action Reset = Inr ()"

definition validate_admission :: "enhancement_admission \<Rightarrow> validation_error + unit" where
  "validate_admission a =
     seq (validate_id L_sessionId (ea_session_id a))
    (seq (validate_field_class (ea_field_class a))
         (reject_if (is_secure (ea_field_class a) \<and> ea_secure_field_policy a \<noteq> Prohibit)
            VE_InvalidSecureFieldPolicy))"

definition validate_metrics :: "enhancement_metrics \<Rightarrow> validation_error + unit" where
  "validate_metrics m =
     seq (reject_if (unat (em_baseline_candidate_count m) > MAX_CANDIDATES
                      \<or> unat (em_ai_candidate_count m) > MAX_CANDIDATES)
            (VE_TooManyCandidates
               (of_nat (unat (max (em_baseline_candidate_count m) (em_ai_candidate_count m))))
               (of_nat MAX_CANDIDATES)))
    (seq (reject_if (em_changed_positions m > of_nat MAX_CANDIDATES
                      \<or> em_adopted_count m > em_ai_candidate_count m)
            VE_InvalidEnhancementMetrics)
    (seq (reject_if (em_deadline_ms m = 0 \<or> em_deadline_ms m > MAX_ENHANCEMENT_DEADLINE_MS)
            (VE_InvalidDeadline (em_deadline_ms m) MAX_ENHANCEMENT_DEADLINE_MS))
         (validate_text L_enhancement_provider (em_provider m) MAX_PROVIDER_ID_BYTES)))"

definition validate_candidate :: "candidate \<Rightarrow> validation_error + unit" where
  "validate_candidate c =
     seq (validate_id L_candidate_id (cand_id c))
    (seq (validate_text L_candidate_text (cand_text c) MAX_EDIT_TEXT_BYTES)
         (validate_opt (\<lambda>r. validate_text L_candidate_reading r MAX_EDIT_TEXT_BYTES)
            (cand_reading c)))"

definition candidate_bytes :: "candidate \<Rightarrow> nat" where
  "candidate_bytes c =
     blen (cand_text c) + (case cand_reading c of None \<Rightarrow> 0 | Some r \<Rightarrow> blen r)"

text \<open>
  The loop of \<open>validate_candidate_list\<close> over the candidates after the prefix \<open>prior\<close>, with
  the running byte total. The source's \<open>checked_add\<close> on \<open>usize\<close> is the sum compared with
  \<open>2 ^ 64\<close>.
\<close>

fun candidate_list_loop ::
  "candidate list \<Rightarrow> nat \<Rightarrow> candidate list \<Rightarrow> validation_error + unit" where
  "candidate_list_loop prior acc [] = Inr ()"
| "candidate_list_loop prior acc (c # cs) =
     seq (validate_candidate c)
    (if acc + candidate_bytes c \<ge> 2 ^ 64
     then Inl (VE_RerankCandidateBytesTooLarge (- 1) (of_nat MAX_RERANK_CANDIDATE_BYTES))
     else if acc + candidate_bytes c > MAX_RERANK_CANDIDATE_BYTES
     then Inl (VE_RerankCandidateBytesTooLarge (of_nat (acc + candidate_bytes c))
                 (of_nat MAX_RERANK_CANDIDATE_BYTES))
     else if list_ex (\<lambda>p. cand_id p = cand_id c) prior
     then Inl (VE_DuplicateCandidateId (cand_id c))
     else candidate_list_loop (prior @ [c]) (acc + candidate_bytes c) cs)"

definition validate_candidate_list :: "candidate list \<Rightarrow> validation_error + unit" where
  "validate_candidate_list cs =
     seq (reject_if (length cs > MAX_CANDIDATES)
            (VE_TooManyCandidates (of_nat (length cs)) (of_nat MAX_CANDIDATES)))
         (candidate_list_loop [] 0 cs)"

definition validate_rerank_request :: "candidate_rerank_request \<Rightarrow> validation_error + unit" where
  "validate_rerank_request r =
     seq (validate_id L_sessionId (rr_session_id r))
    (seq (validate_candidate_list (rr_candidates r))
    (seq (validate_text_allow_empty L_rerank_contextBefore (rr_context_before r)
            MAX_ASSIST_CONTEXT_BYTES)
    (seq (validate_text_allow_empty L_rerank_contextAfter (rr_context_after r)
            MAX_ASSIST_CONTEXT_BYTES)
    (seq (validate_text L_rerank_policyVersion (rr_policy_version r) MAX_PROVIDER_ID_BYTES)
         (validate_deadline (rr_deadline_ms r))))))"

definition validate_assist_request :: "semantic_assist_request \<Rightarrow> validation_error + unit" where
  "validate_assist_request r =
     seq (validate_id L_sessionId (sa_session_id r))
    (seq (validate_text L_assist_text (sa_text r) MAX_ASSIST_TEXT_BYTES)
    (seq (validate_text_allow_empty L_assist_instruction (sa_instruction r)
            MAX_ASSIST_CONTEXT_BYTES)
    (seq (validate_text_allow_empty L_assist_contextBefore (sa_context_before r)
            MAX_ASSIST_CONTEXT_BYTES)
    (seq (validate_text_allow_empty L_assist_contextAfter (sa_context_after r)
            MAX_ASSIST_CONTEXT_BYTES)
    (seq (validate_text L_assist_policyVersion (sa_policy_version r) MAX_PROVIDER_ID_BYTES)
         (validate_deadline (sa_deadline_ms r)))))))"

fun validate_command :: "request_command \<Rightarrow> validation_error + unit" where
  "validate_command (CreateSessionCmd r) =
     seq (validate_id L_sessionId (cs_session_id r))
    (seq (validate_text L_locale (cs_locale r) MAX_LOCALE_BYTES)
         (validate_field_class (cs_field_class r)))"
| "validate_command (PrepareRerankSessionCmd r) =
     seq (validate_id L_sessionId (pr_session_id r)) (validate_field_class (pr_field_class r))"
| "validate_command (KeyCmd r) =
     seq (validate_id L_sessionId (kq_session_id r)) (validate_key_event (kq_key r))"
| "validate_command (EditCmd r) =
     seq (validate_id L_sessionId (eq_session_id r)) (validate_edit_action (eq_action r))"
| "validate_command (ConvertCmd r) =
     seq (validate_id L_sessionId (cv_session_id r)) (validate_page (cv_page r) (cv_page_size r))"
| "validate_command (CommitCmd r) =
     seq (validate_id L_sessionId (cm_session_id r))
         (validate_id L_candidateId (cm_candidate_id r))"
| "validate_command (CancelCmd r) =
     seq (validate_id L_sessionId (cc_session_id r))
         (validate_opt (validate_id L_targetRequestId) (cc_target_request_id r))"
| "validate_command (FocusLostCmd r) = validate_id L_sessionId (fl_session_id r)"
| "validate_command HealthCmd = Inr ()"
| "validate_command (GenerationCmd r) = validate_id L_sessionId (gq_session_id r)"
| "validate_command (RerankCandidatesCmd r) = validate_rerank_request r"
| "validate_command (SemanticAssistCmd r) = validate_assist_request r"

definition validate_request :: "request_envelope \<Rightarrow> validation_error + unit" where
  "validate_request q =
     seq (reject_if (rq_version q \<noteq> PROTOCOL_VERSION)
            (VE_UnsupportedVersion PROTOCOL_VERSION (rq_version q)))
    (seq (validate_id L_requestId (rq_request_id q))
         (validate_command (rq_command q)))"

section \<open>Response validation\<close>

definition validate_composition_response ::
  "rstr \<Rightarrow> candidate list \<Rightarrow> nat option \<Rightarrow> validation_error + unit" where
  "validate_composition_response preedit cands focused =
     seq (validate_text_allow_empty L_preedit preedit MAX_EDIT_TEXT_BYTES)
    (seq (reject_if (length cands > MAX_CANDIDATES)
            (VE_TooManyCandidates (of_nat (length cands)) (of_nat MAX_CANDIDATES)))
    (seq (all_ok validate_candidate cands)
         (case focused of
            None \<Rightarrow> Inr ()
          | Some i \<Rightarrow> reject_if (i \<ge> length cands)
              (VE_InvalidFocusedIndex (of_nat i) (of_nat (length cands))))))"

definition validate_composition_state :: "composition_state \<Rightarrow> validation_error + unit" where
  "validate_composition_state s =
     validate_composition_response (st_preedit s) (st_candidates s) (st_focused_index s)"

text \<open>
  \<open>validate_ai_candidates\<close>: the loop marks the position of the first baseline candidate
  equal to each AI candidate in \<open>seen\<close>.
\<close>

fun index_of :: "('a \<Rightarrow> bool) \<Rightarrow> 'a list \<Rightarrow> nat option" where
  "index_of P [] = None"
| "index_of P (x # xs) = (if P x then Some 0 else map_option Suc (index_of P xs))"

fun ai_candidates_loop ::
  "candidate list \<Rightarrow> bool list \<Rightarrow> candidate list \<Rightarrow> validation_error + unit" where
  "ai_candidates_loop baseline seen [] = Inr ()"
| "ai_candidates_loop baseline seen (c # cs) =
     (case index_of (\<lambda>p. p = c) baseline of
        None \<Rightarrow>
          (if list_ex (\<lambda>p. cand_id p = cand_id c) baseline
           then Inl (VE_RerankCandidateMutated (cand_id c))
           else Inl (VE_UnknownEnhancementCandidate (cand_id c)))
      | Some i \<Rightarrow>
          (if seen ! i then Inl (VE_DuplicateCandidateId (cand_id c))
           else ai_candidates_loop baseline (seen[i := True]) cs))"

definition validate_ai_candidates ::
  "candidate list \<Rightarrow> candidate list \<Rightarrow> validation_error + unit" where
  "validate_ai_candidates baseline ai =
     seq (reject_if (length baseline \<noteq> length ai)
            (VE_RerankMustBePermutation (of_nat (length baseline)) (of_nat (length ai))))
         (ai_candidates_loop baseline (replicate (length baseline) False) ai)"

fun validate_payload :: "response_payload \<Rightarrow> validation_error + unit" where
  "validate_payload (CreatedResp r) = validate_id L_sessionId (sc_session_id r)"
| "validate_payload (KeyResp r) =
     seq (validate_id L_sessionId (kr_session_id r))
         (validate_composition_response (kr_preedit r) (kr_candidates r) (kr_focused_index r))"
| "validate_payload (EditResp r) =
     seq (validate_id L_sessionId (dr_session_id r))
         (validate_composition_response (dr_preedit r) (dr_candidates r) (dr_focused_index r))"
| "validate_payload (ConvertResp r) =
     seq (validate_id L_sessionId (vr_session_id r))
    (seq (validate_composition_response (vr_preedit r) (vr_candidates r) (vr_focused_index r))
         (validate_page (vr_page r) (vr_page_size r)))"
| "validate_payload (CommitResp r) =
     seq (validate_id L_sessionId (mr_session_id r))
         (validate_text L_commit_text (mr_text r) MAX_EDIT_TEXT_BYTES)"
| "validate_payload (CancelResp r) =
     seq (validate_id L_sessionId (xr_session_id r))
         (validate_opt (validate_id L_targetRequestId) (xr_target_request_id r))"
| "validate_payload (FocusLostResp r) = validate_id L_sessionId (fr_session_id r)"
| "validate_payload (HealthResp r) =
     seq (reject_if (hr_protocol_version r \<noteq> PROTOCOL_VERSION)
            (VE_UnsupportedVersion PROTOCOL_VERSION (hr_protocol_version r)))
    (seq (reject_if (hr_max_frame_bytes r = 0) (VE_InvalidFrameLimit (hr_max_frame_bytes r)))
         (validate_text L_health_detail (hr_detail r) 512))"
| "validate_payload (GenerationResp r) = validate_id L_sessionId (gr_session_id r)"
| "validate_payload (RerankCandidatesResp r) =
     seq (validate_id L_sessionId (cr_session_id r))
    (seq (validate_candidate_list (cr_baseline r))
    (seq (validate_candidate_list (cr_ai r))
    (seq (validate_ai_candidates (cr_baseline r) (cr_ai r))
    (seq (reject_if (em_feature (cr_metrics r) \<noteq> CandidateRerank
                      \<or> unat (em_baseline_candidate_count (cr_metrics r)) \<noteq> length (cr_baseline r)
                      \<or> unat (em_ai_candidate_count (cr_metrics r)) \<noteq> length (cr_ai r))
            VE_InvalidEnhancementMetrics)
         (validate_metrics (cr_metrics r))))))"
| "validate_payload (SemanticAssistResp r) =
     seq (validate_id L_sessionId (ar_session_id r))
    (seq (validate_text_allow_empty L_assist_baselineText (ar_baseline_text r)
            MAX_ASSIST_TEXT_BYTES)
    (seq (validate_opt (\<lambda>a. validate_text L_assist_assist a MAX_ASSIST_TEXT_BYTES) (ar_assist r))
    (seq (reject_if (ar_applied r \<and> ar_assist r = None) VE_MissingAssistText)
    (seq (reject_if (em_feature (ar_metrics r) \<noteq> SemanticAssist
                      \<or> em_baseline_candidate_count (ar_metrics r) \<noteq> 0
                      \<or> em_ai_candidate_count (ar_metrics r) \<noteq> 0)
            VE_InvalidEnhancementMetrics)
         (validate_metrics (ar_metrics r))))))"

definition validate_response :: "response_envelope \<Rightarrow> validation_error + unit" where
  "validate_response e =
     seq (reject_if (rp_version e \<noteq> PROTOCOL_VERSION)
            (VE_UnsupportedVersion PROTOCOL_VERSION (rp_version e)))
     (case rp_outcome e of
        Success payload \<Rightarrow>
          seq (validate_id L_requestId (rp_request_id e))
         (seq (case (rp_generation e, payload_generation payload) of
                 (Some g, Some p) \<Rightarrow> reject_if (g \<noteq> p) (VE_GenerationMismatch g p)
               | _ \<Rightarrow> Inr ())
              (validate_payload payload))
      | Failure err \<Rightarrow>
          seq (validate_text L_error_message (er_message err) 512)
              (case (rp_generation e, er_current_generation err) of
                 (Some g, Some c) \<Rightarrow> reject_if (g \<noteq> c) (VE_GenerationMismatch g c)
               | _ \<Rightarrow> Inr ()))"

end
