(* ===== verification/Validation_Facts.thy ===== *)
theory Validation_Facts
  imports Validation
begin

text \<open>
  What the validators of \<open>Validation\<close> accept: the candidate list and permutation checks
  against their declarative meaning, the bounds of every error message, and the
  introduction rules for valid envelopes that the broker components use.
\<close>

section \<open>Messages\<close>

definition msg_ok :: "nat \<Rightarrow> rstr \<Rightarrow> bool" where
  "msg_ok n m \<longleftrightarrow> blen m \<le> n \<and> \<not> has_control m"

lemma msg_ok_append: "msg_ok i s \<Longrightarrow> msg_ok j t \<Longrightarrow> i + j \<le> n \<Longrightarrow> msg_ok n (s @ t)"
  by (auto simp: msg_ok_def)

lemma msg_ok_mono: "msg_ok i s \<Longrightarrow> i \<le> n \<Longrightarrow> msg_ok n s"
  by (auto simp: msg_ok_def)

lemma unat_less_64: "LENGTH('a::len) \<le> 64 \<Longrightarrow> unat (w :: 'a word) < 2 ^ 64"
  by (rule less_le_trans [OF unsigned_less]) (rule power_increasing, simp_all)

lemma msg_ok_decw: "LENGTH('a::len) \<le> 64 \<Longrightarrow> msg_ok 20 (decw (w :: 'a word))"
  unfolding msg_ok_def decw_def using blen_dec [OF unat_less_64] dec_no_control by blast

lemma msg_ok_lit: "list_all (\<lambda>c. 32 \<le> (of_char c :: nat) \<and> (of_char c :: nat) < 127) s
    \<Longrightarrow> length s \<le> n \<Longrightarrow> msg_ok n (lit s)"
proof (induction s arbitrary: n)
  case (Cons c s)
  then have "msg_ok (length s) (lit s)" by simp
  with Cons.prems show ?case
    by (auto simp: msg_ok_def lit_def utf8_len_def is_control_def)
qed (simp add: msg_ok_def lit_def)

lemma msg_ok_label: "msg_ok 24 (label_name f)"
  by (cases f) (auto intro!: msg_ok_lit)

lemma validation_message_ok: "msg_ok 200 (validation_message e)"
proof (cases e)
  fix f n m assume "e = VE_TextTooLong f n m"
  then show ?thesis
    by (auto intro!: msg_ok_append [OF msg_ok_label] msg_ok_append [OF msg_ok_lit [OF _ order_refl]]
          msg_ok_append [OF msg_ok_decw] msg_ok_lit)
qed (auto intro!: msg_ok_append [OF msg_ok_label] msg_ok_append [OF msg_ok_lit [OF _ order_refl]]
          msg_ok_append [OF msg_ok_decw] msg_ok_decw [THEN msg_ok_mono] msg_ok_lit)

lemma validation_message_not_Nil [simp]: "validation_message e \<noteq> []"
  by (cases e) (auto simp: lit_def)

lemma valid_text_intro:
  "m \<noteq> [] \<Longrightarrow> msg_ok n m \<Longrightarrow> validate_text f m n = Inr ()"
  by (auto simp: validate_text_def validate_text_allow_empty_def msg_ok_def)

lemma validate_text_iff:
  "validate_text f v n = Inr u \<longleftrightarrow> v \<noteq> [] \<and> blen v \<le> n \<and> \<not> has_control v"
  by (auto simp: validate_text_def validate_text_allow_empty_def)

lemma validate_text_allow_empty_iff:
  "validate_text_allow_empty f v n = Inr u \<longleftrightarrow> blen v \<le> n \<and> \<not> has_control v"
  by (auto simp: validate_text_allow_empty_def)

lemma validate_id_iff [simp]: "validate_id f v = Inr u \<longleftrightarrow> v \<noteq> 0"
  by (simp add: validate_id_def)

lemma validate_opt_iff [simp]:
  "validate_opt f x = Inr () \<longleftrightarrow> (\<forall>y. x = Some y \<longrightarrow> f y = Inr ())"
  by (auto simp: validate_opt_def split: option.splits)

lemma validate_page_iff:
  "validate_page p n = Inr u \<longleftrightarrow> p \<le> MAX_PAGE \<and> n \<noteq> 0 \<and> n \<le> MAX_PAGE_SIZE"
  by (auto simp: validate_page_def not_less)

lemma validate_deadline_iff:
  "validate_deadline d = Inr u \<longleftrightarrow> d \<noteq> 0 \<and> d \<le> MAX_ENHANCEMENT_DEADLINE_MS"
  by (auto simp: validate_deadline_def not_less)

section \<open>Candidate lists\<close>

definition total_bytes :: "candidate list \<Rightarrow> nat" where
  "total_bytes cs = sum_list (map candidate_bytes cs)"

lemma candidate_list_loop_iff:
  "candidate_list_loop prior acc cs = Inr () \<longleftrightarrow>
     list_all (\<lambda>c. validate_candidate c = Inr ()) cs \<and>
     (cs \<noteq> [] \<longrightarrow> acc + total_bytes cs \<le> MAX_RERANK_CANDIDATE_BYTES) \<and>
     distinct (map cand_id cs) \<and> cand_id ` set cs \<inter> cand_id ` set prior = {}"
proof (induction cs arbitrary: prior acc)
  case (Cons c cs)
  have big: "acc + candidate_bytes c \<le> MAX_RERANK_CANDIDATE_BYTES
      \<Longrightarrow> \<not> 2 ^ 64 \<le> acc + candidate_bytes c"
    by (simp add: MAX_RERANK_CANDIDATE_BYTES_def)
  show ?case
  proof (cases "acc + candidate_bytes c \<le> MAX_RERANK_CANDIDATE_BYTES")
    case True
    with big show ?thesis
      by (auto simp: Cons.IH total_bytes_def list_ex_iff add.assoc image_iff Ball_def)
  next
    case False
    then show ?thesis by (auto simp: total_bytes_def)
  qed
qed simp

definition bounded_candidates :: "candidate list \<Rightarrow> bool" where
  "bounded_candidates cs \<longleftrightarrow>
     length cs \<le> MAX_CANDIDATES \<and>
     list_all (\<lambda>c. validate_candidate c = Inr ()) cs \<and>
     total_bytes cs \<le> MAX_RERANK_CANDIDATE_BYTES \<and>
     distinct (map cand_id cs)"

lemma candidate_list_accepts: "validate_candidate_list cs = Inr () \<longleftrightarrow> bounded_candidates cs"
  by (auto simp: validate_candidate_list_def bounded_candidates_def candidate_list_loop_iff
      total_bytes_def)

lemma total_bytes_mset: "mset cs = mset ds \<Longrightarrow> total_bytes cs = total_bytes ds"
  by (metis total_bytes_def mset_map sum_mset_sum_list)

lemma bounded_candidates_mset:
  assumes "mset cs = mset ds" "bounded_candidates cs"
  shows "bounded_candidates ds"
proof -
  have "length ds = length cs" "set ds = set cs"
    using assms(1) by (metis size_mset, metis set_mset_mset)
  moreover have "distinct (map cand_id ds)"
    using assms by (metis bounded_candidates_def mset_map mset_eq_imp_distinct_iff)
  ultimately show ?thesis
    using assms total_bytes_mset [OF assms(1)] by (auto simp: bounded_candidates_def list_all_iff)
qed

text \<open>A valid candidate is small, so the running total never reaches the width of \<open>usize\<close>.\<close>

lemma valid_candidate_bytes:
  "validate_candidate c = Inr () \<Longrightarrow> candidate_bytes c \<le> 2 * MAX_EDIT_TEXT_BYTES"
  by (auto simp: validate_candidate_def candidate_bytes_def validate_text_iff split: option.splits)

lemma validate_candidate_errors: "validate_candidate c \<noteq> Inl (VE_RerankCandidateBytesTooLarge a b)"
  by (auto simp: validate_candidate_def seq_Inl_iff validate_id_def validate_text_def
      validate_text_allow_empty_def validate_opt_def split: option.splits)

lemma small_not_max: "n \<le> 200000 \<Longrightarrow> (of_nat n :: usize) \<noteq> - 1"
proof
  assume n: "n \<le> 200000" and eq: "(of_nat n :: usize) = - 1"
  have "unat (of_nat n :: usize) = n"
    using n by (simp add: unat_of_nat take_bit_nat_eq_self)
  moreover have "unat (- 1 :: usize) = 2 ^ 64 - 1"
    by (simp add: unsigned_minus_1_eq_mask mask_eq_exp_minus_1)
  ultimately show False using eq n by simp
qed

lemma candidate_loop_no_overflow:
  "acc \<le> MAX_RERANK_CANDIDATE_BYTES \<Longrightarrow>
   candidate_list_loop prior acc cs \<noteq>
     Inl (VE_RerankCandidateBytesTooLarge (- 1) (of_nat MAX_RERANK_CANDIDATE_BYTES))"
proof (induction prior acc cs rule: candidate_list_loop.induct)
  case (2 prior acc c cs)
  show ?case
  proof (cases "validate_candidate c")
    case (Inr u)
    then have "acc + candidate_bytes c \<le> 200000"
      using valid_candidate_bytes [of c] 2(2) by (simp add: limit_defs)
    with 2 Inr show ?thesis
      using small_not_max [of "acc + candidate_bytes c"] by auto
  qed (use validate_candidate_errors [of c] in auto)
qed simp

section \<open>The permutation check\<close>

lemma index_of_None: "index_of P xs = None \<longleftrightarrow> (\<forall>x \<in> set xs. \<not> P x)"
  by (induction xs) auto

lemma index_of_Some: "index_of P xs = Some i \<Longrightarrow> i < length xs \<and> P (xs ! i)"
  by (induction xs arbitrary: i) (auto split: if_splits)

text \<open>The baseline position of \<open>c\<close> exists and is not marked yet.\<close>

definition free_slot :: "candidate list \<Rightarrow> bool list \<Rightarrow> candidate \<Rightarrow> bool" where
  "free_slot baseline seen c =
     (case index_of (\<lambda>p. p = c) baseline of None \<Rightarrow> False | Some i \<Rightarrow> \<not> seen ! i)"

lemma free_slot_mark:
  assumes "index_of (\<lambda>p. p = c) baseline = Some i" "length seen = length baseline"
  shows "free_slot baseline (seen[i := True]) d \<longleftrightarrow> d \<noteq> c \<and> free_slot baseline seen d"
proof (cases "d = c")
  case True
  with assms show ?thesis by (auto simp: free_slot_def dest: index_of_Some)
next
  case False
  have "j \<noteq> i" if "index_of (\<lambda>p. p = d) baseline = Some j" for j
    using index_of_Some [OF assms(1)] index_of_Some [OF that] False by auto
  with False show ?thesis by (auto simp: free_slot_def split: option.splits)
qed

lemma ai_candidates_loop_step:
  "ai_candidates_loop baseline seen (c # cs) = Inr () \<longleftrightarrow>
     free_slot baseline seen c \<and>
     (\<exists>i. index_of (\<lambda>p. p = c) baseline = Some i \<and>
          ai_candidates_loop baseline (seen[i := True]) cs = Inr ())"
  by (auto simp: free_slot_def split: option.splits)

lemma ai_candidates_loop_iff:
  "length seen = length baseline \<Longrightarrow>
   ai_candidates_loop baseline seen cs = Inr () \<longleftrightarrow>
     distinct cs \<and> (\<forall>c \<in> set cs. free_slot baseline seen c)"
proof (induction cs arbitrary: seen)
  case (Cons c cs)
  show ?case
  proof (cases "index_of (\<lambda>p. p = c) baseline")
    case None
    then have "\<not> free_slot baseline seen c" by (simp add: free_slot_def)
    then show ?thesis by (simp add: ai_candidates_loop_step del: ai_candidates_loop.simps)
  next
    case (Some i)
    have "ai_candidates_loop baseline (seen[i := True]) cs = Inr () \<longleftrightarrow>
        distinct cs \<and> (\<forall>d \<in> set cs. d \<noteq> c \<and> free_slot baseline seen d)"
      using Cons by (simp add: free_slot_mark [OF Some])
    then show ?thesis
      unfolding ai_candidates_loop_step using Some by auto
  qed
qed simp

lemma permutation_accepts:
  "validate_ai_candidates baseline ai = Inr () \<longleftrightarrow> distinct baseline \<and> mset ai = mset baseline"
proof
  assume "validate_ai_candidates baseline ai = Inr ()"
  then have len: "length ai = length baseline" and d: "distinct ai"
    and sub: "\<forall>c \<in> set ai. free_slot baseline (replicate (length baseline) False) c"
    by (auto simp: validate_ai_candidates_def ai_candidates_loop_iff)
  have "set ai \<subseteq> set baseline"
    using sub by (force simp: free_slot_def dest: index_of_Some split: option.splits)
  moreover have "card (set baseline) \<le> card (set ai)"
    using d len by (metis card_length distinct_card)
  ultimately have eq: "set ai = set baseline" by (simp add: card_seteq)
  then have "distinct baseline" using d len by (metis card_distinct distinct_card)
  with d eq show "distinct baseline \<and> mset ai = mset baseline"
    by (simp add: set_eq_iff_mset_eq_distinct)
next
  assume "distinct baseline \<and> mset ai = mset baseline"
  then have "distinct ai" "set ai = set baseline" "length ai = length baseline"
    by (metis mset_eq_imp_distinct_iff, metis set_mset_mset, metis size_mset)
  moreover have "free_slot baseline (replicate (length baseline) False) c" if "c \<in> set baseline" for c
    using that by (auto simp: free_slot_def index_of_None dest: index_of_Some split: option.splits)
  ultimately show "validate_ai_candidates baseline ai = Inr ()"
    by (simp add: validate_ai_candidates_def ai_candidates_loop_iff)
qed

section \<open>Envelopes\<close>

lemma valid_success:
  "rid \<noteq> 0 \<Longrightarrow> validate_payload p = Inr () \<Longrightarrow> validate_response (success rid p) = Inr ()"
  by (auto simp: validate_response_def success_def split: option.splits)

lemma valid_failure:
  assumes "er_message e \<noteq> []" "msg_ok 512 (er_message e)" "er_current_generation e = g"
  shows "validate_response (failure_envelope rid g e) = Inr ()"
  using assms by (auto simp: validate_response_def failure_envelope_def valid_text_intro
      split: option.splits)

section \<open>Properties\<close>

text \<open>
  A rerank response that validates is a reordering: the AI list is a permutation of the
  baseline, candidate for candidate, whose ids are distinct; it is within the size limits, and
  the metrics count it correctly. A provider can neither edit, inject, drop nor repeat a
  candidate.
\<close>

theorem rerank_response_is_permutation:
  assumes "validate_payload (RerankCandidatesResp r) = Inr ()"
  shows "mset (cr_ai r) = mset (cr_baseline r) \<and> distinct (map cand_id (cr_ai r)) \<and>
    length (cr_ai r) \<le> MAX_CANDIDATES \<and> total_bytes (cr_ai r) \<le> MAX_RERANK_CANDIDATE_BYTES \<and>
    unat (em_ai_candidate_count (cr_metrics r)) = length (cr_ai r)"
  using assms by (auto simp: candidate_list_accepts bounded_candidates_def permutation_accepts)

definition demo_candidates :: "candidate list" where
  "demo_candidates =
     [\<lparr>cand_id = 1, cand_text = [97], cand_reading = None, cand_rank = 0\<rparr>,
      \<lparr>cand_id = 2, cand_text = [98], cand_reading = Some [99], cand_rank = 1\<rparr>]"

definition demo_rerank_response :: candidate_rerank_response where
  "demo_rerank_response =
     \<lparr>cr_session_id = 7, cr_generation = 1, cr_status = ES_Applied,
      cr_baseline = demo_candidates, cr_ai = rev demo_candidates, cr_adopted = True,
      cr_metrics = baseline_metrics CandidateRerank (lit ''kanai-ai'') Local 2 100,
      cr_fallback = FM_None, cr_reason = ER_None\<rparr>"

lemma demo_rerank_valid: "validate_payload (RerankCandidatesResp demo_rerank_response) = Inr ()"
  by (simp add: demo_rerank_response_def demo_candidates_def candidate_list_accepts
      bounded_candidates_def total_bytes_def candidate_bytes_def permutation_accepts
      validate_candidate_def validate_text_iff validate_metrics_def baseline_metrics_def limit_defs
      utf8_len_def is_control_def lit_def)

theorem rerank_response_is_permutation_witness:
  "mset (cr_ai demo_rerank_response) = mset (cr_baseline demo_rerank_response)"
  using rerank_response_is_permutation [OF demo_rerank_valid] by simp

text \<open>
  The loop with the \<open>seen\<close> array decides exactly the permutations of a baseline without
  repetition.
\<close>

theorem permutation_check_exact:
  "is_ok (validate_ai_candidates baseline ai) \<longleftrightarrow> distinct baseline \<and> mset ai = mset baseline"
  by (simp add: is_ok_unit_iff permutation_accepts)

text \<open>
  The candidate-list loop with its running byte total and its search for earlier ids
  decides exactly the lists of valid candidates within the count and byte limits whose ids are
  distinct; its overflow branch is never taken.
\<close>

theorem candidate_list_exact:
  "(is_ok (validate_candidate_list cs) \<longleftrightarrow> bounded_candidates cs) \<and>
   validate_candidate_list cs \<noteq>
     Inl (VE_RerankCandidateBytesTooLarge (- 1) (of_nat MAX_RERANK_CANDIDATE_BYTES))"
  using candidate_list_accepts [of cs] candidate_loop_no_overflow [of 0 "[]" cs]
  by (auto simp: is_ok_unit_iff validate_candidate_list_def seq_Inl_iff)

end
