(* ===== verification/Sync_Broker.thy ===== *)
theory Sync_Broker
  imports Generation Validation_Facts
begin

text \<open>
  The synchronous \<open>Broker<B>\<close> of \<open>kanai-broker/src/broker.rs\<close>: its session table, one
  definition per handler, \<open>dispatch\<close> and \<open>handle\<close>. The broker is a record passed through
  the handlers; a handler returns the new broker with \<open>Result<ResponseEnvelope, BrokerError>\<close>,
  so a state change before an error is visible. The backend is any state-passing
  \<open>backend_ops\<close>.
\<close>

section \<open>State and errors\<close>

datatype broker_error =
    BR_Validation validation_error
  | BR_UnknownSession u64
  | BR_AlreadyExists u64
  | BR_StaleGeneration u64 u64 u64   \<comment> \<open>session, expected, current\<close>
  | BR_GenerationExhausted
  | BR_DuplicateRequest u64
  | BR_SessionLimitReached usize
  | BR_EnhancementRequiresAsync

fun broker_error_code :: "broker_error \<Rightarrow> error_code" where
  "broker_error_code (BR_Validation (VE_UnsupportedVersion _ _)) = EC_UnsupportedVersion"
| "broker_error_code (BR_Validation _) = EC_InvalidRequest"
| "broker_error_code (BR_UnknownSession _) = EC_UnknownSession"
| "broker_error_code (BR_AlreadyExists _) = EC_AlreadyExists"
| "broker_error_code (BR_StaleGeneration _ _ _) = EC_StaleGeneration"
| "broker_error_code BR_GenerationExhausted = EC_GenerationExhausted"
| "broker_error_code (BR_DuplicateRequest _) = EC_InvalidRequest"
| "broker_error_code (BR_SessionLimitReached _) = EC_BackendUnavailable"
| "broker_error_code BR_EnhancementRequiresAsync = EC_EnhancementRequiresAsync"

fun broker_error_generation :: "broker_error \<Rightarrow> u64 option" where
  "broker_error_generation (BR_StaleGeneration _ _ current) = Some current"
| "broker_error_generation _ = None"

fun broker_error_message :: "broker_error \<Rightarrow> rstr" where
  "broker_error_message (BR_Validation e) =
     lit ''request validation failed: '' @ validation_message e"
| "broker_error_message (BR_UnknownSession sid) =
     lit ''session '' @ decw sid @ lit '' does not exist''"
| "broker_error_message (BR_AlreadyExists sid) =
     lit ''session '' @ decw sid @ lit '' already exists''"
| "broker_error_message (BR_StaleGeneration _ expected current) =
     lit ''stale generation '' @ decw expected @ lit ''; current generation is '' @ decw current"
| "broker_error_message BR_GenerationExhausted = lit ''session generation is exhausted''"
| "broker_error_message (BR_DuplicateRequest rid) =
     lit ''request is already active: '' @ decw rid"
| "broker_error_message (BR_SessionLimitReached n) = lit ''session limit reached: '' @ decw n"
| "broker_error_message BR_EnhancementRequiresAsync =
     lit ''optional enhancements must be dispatched by the async enhancement executor''"

record session_record =
  sr_generation :: u64
  sr_cell :: nat
  sr_field_class :: field_class
  sr_last_valid :: "composition_state option"
  sr_rerank_only :: bool

record 'b broker =
  bk_backend :: 'b
  bk_config :: broker_config
  bk_sessions :: "(u64, session_record) fmap"
  bk_cancellations :: cancellations
  bk_cells :: cells
  bk_next_cell :: nat

type_synonym 'b outcome = "'b broker \<times> (broker_error + response_envelope)"

definition broker_with_config :: "'b \<Rightarrow> broker_config \<Rightarrow> 'b broker" where
  "broker_with_config b cfg =
     \<lparr>bk_backend = b, bk_config = cfg, bk_sessions = fmempty,
      bk_cancellations = no_cancellations, bk_cells = (\<lambda>_. new_cell 0), bk_next_cell = 0\<rparr>"

definition session_generation :: "'b broker \<Rightarrow> u64 \<Rightarrow> u64 option" where
  "session_generation s sid = map_option sr_generation (fmlookup (bk_sessions s) sid)"

definition sync_enhancement_token :: "'b broker \<Rightarrow> u64 \<Rightarrow> generation_token option" where
  "sync_enhancement_token s sid =
     map_option
       (\<lambda>r. from_shared sid (sr_generation r) (bk_cells s) (sr_cell r) (sr_field_class r))
       (fmlookup (bk_sessions s) sid)"

text \<open>\<open>Drop\<close>: the sessions' tokens stop being current.\<close>

definition broker_drop :: "'b broker \<Rightarrow> cells" where
  "broker_drop s =
     (\<lambda>a. if list_ex (\<lambda>(sid, r). sr_cell r = a) (sorted_list_of_fmap (bk_sessions s))
          then (bk_cells s a)\<lparr>gc_active := False\<rparr> else bk_cells s a)"

section \<open>Helpers\<close>

definition check_generation :: "'b broker \<Rightarrow> u64 \<Rightarrow> u64 \<Rightarrow> broker_error + u64" where
  "check_generation s sid expected =
     (case session_generation s sid of
        None \<Rightarrow> Inl (BR_UnknownSession sid)
      | Some current \<Rightarrow>
          if expected \<noteq> current then Inl (BR_StaleGeneration sid expected current)
          else Inr current)"

definition next_generation :: "u64 \<Rightarrow> broker_error + u64" where
  "next_generation current =
     (case checked_add_u64 current 1 of None \<Rightarrow> Inl BR_GenerationExhausted | Some n \<Rightarrow> Inr n)"

definition set_generation :: "u64 \<Rightarrow> u64 \<Rightarrow> 'b broker \<Rightarrow> 'b broker" where
  "set_generation sid g s =
     (case fmlookup (bk_sessions s) sid of
        None \<Rightarrow> s
      | Some r \<Rightarrow> s\<lparr>
          bk_sessions := fmupd sid (r\<lparr>sr_generation := g\<rparr>) (bk_sessions s),
          bk_cells := (bk_cells s)(sr_cell r := bump_cell g (bk_cells s (sr_cell r)))\<rparr>)"

text \<open>The common opening of the state-changing handlers: check, increment, publish.\<close>

definition advance_generation ::
  "u64 \<Rightarrow> u64 \<Rightarrow> 'b broker \<Rightarrow> 'b broker \<times> (broker_error + u64)" where
  "advance_generation sid expected s =
     (case bind_result (check_generation s sid expected) next_generation of
        Inl e \<Rightarrow> (s, Inl e)
      | Inr g \<Rightarrow> (set_generation sid g s, Inr g))"

text \<open>\<open>register\<close>, \<open>backend.execute\<close>, \<open>cancellations.finish\<close>.\<close>

definition run_backend ::
  "'b backend_ops \<Rightarrow> u64 \<Rightarrow> request_command \<Rightarrow> 'b broker \<Rightarrow>
   'b broker \<times> (broker_error + (backend_error + response_payload))" where
  "run_backend ops rid cmd s =
     (let (c1, token) = new_token (bk_cancellations s) in
      case register_token rid token c1 of
        Inl _ \<Rightarrow> (s\<lparr>bk_cancellations := c1\<rparr>, Inl (BR_DuplicateRequest rid))
      | Inr c2 \<Rightarrow>
          (let (b, result) = be_execute ops (bk_backend s) cmd (is_cancelled c2 token)
           in (s\<lparr>bk_backend := b, bk_cancellations := finish_request rid c2\<rparr>, Inr result)))"

definition sync_fallback_state :: "'b broker \<Rightarrow> u64 \<Rightarrow> composition_state option" where
  "sync_fallback_state s sid =
     (if bc_fallback (bk_config s) = LastValidPreedit
      then Option.bind (fmlookup (bk_sessions s) sid) sr_last_valid else None)"

definition set_last_valid :: "u64 \<Rightarrow> composition_state option \<Rightarrow> 'b broker \<Rightarrow> 'b broker" where
  "set_last_valid sid st s =
     (case fmlookup (bk_sessions s) sid of
        None \<Rightarrow> s
      | Some r \<Rightarrow> s\<lparr>bk_sessions := fmupd sid (r\<lparr>sr_last_valid := st\<rparr>) (bk_sessions s)\<rparr>)"

definition fallback_key_payload ::
  "u64 \<Rightarrow> u64 \<Rightarrow> composition_state option \<Rightarrow> response_payload" where
  "fallback_key_payload sid g st =
     (let (state, fallback) = fallback_of st in
      KeyResp \<lparr>kr_session_id = sid, kr_generation = g, kr_preedit = st_preedit state,
        kr_consumed = False, kr_candidates = st_candidates state,
        kr_focused_index = st_focused_index state, kr_fallback = fallback\<rparr>)"

definition fallback_edit_payload ::
  "u64 \<Rightarrow> u64 \<Rightarrow> composition_state option \<Rightarrow> response_payload" where
  "fallback_edit_payload sid g st =
     (let (state, fallback) = fallback_of st in
      EditResp \<lparr>dr_session_id = sid, dr_generation = g, dr_preedit = st_preedit state,
        dr_consumed = False, dr_candidates = st_candidates state,
        dr_focused_index = st_focused_index state, dr_fallback = fallback\<rparr>)"

definition fallback_convert_payload ::
  "convert_request \<Rightarrow> u64 \<Rightarrow> composition_state option \<Rightarrow> response_payload" where
  "fallback_convert_payload c g st =
     (let (state, fallback) = fallback_of st in
      ConvertResp \<lparr>vr_session_id = cv_session_id c, vr_generation = g,
        vr_preedit = st_preedit state, vr_consumed = False, vr_candidates = st_candidates state,
        vr_focused_index = st_focused_index state, vr_page = cv_page c,
        vr_page_size = cv_page_size c, vr_has_more = False, vr_fallback = fallback\<rparr>)"

definition cancelled_response :: "u64 \<Rightarrow> u64 \<Rightarrow> rstr \<Rightarrow> bool \<Rightarrow> fallback_mode \<Rightarrow> response_envelope" where
  "cancelled_response rid g message retryable fallback =
     failure_envelope rid (Some g)
       (with_generation (Some g) (with_fallback fallback (new_error EC_Cancelled message retryable)))"

definition commit_failure :: "u64 \<Rightarrow> u64 \<Rightarrow> error_code \<Rightarrow> rstr \<Rightarrow> response_envelope" where
  "commit_failure rid g code message =
     failure_envelope rid (Some g)
       (with_generation (Some g) (with_fallback FM_DirectInput (new_error code message False)))"

section \<open>Handlers\<close>

definition new_session :: "u64 \<Rightarrow> u64 \<Rightarrow> field_class \<Rightarrow> bool \<Rightarrow> 'b broker \<Rightarrow> 'b broker" where
  "new_session sid g fclass rerank s =
     s\<lparr>bk_sessions := fmupd sid
         \<lparr>sr_generation = g, sr_cell = bk_next_cell s, sr_field_class = fclass,
          sr_last_valid = None, sr_rerank_only = rerank\<rparr> (bk_sessions s),
       bk_cells := (bk_cells s)(bk_next_cell s := new_cell g),
       bk_next_cell := Suc (bk_next_cell s)\<rparr>"

definition generation_ok :: "u64 \<Rightarrow> u64 \<Rightarrow> u64 \<Rightarrow> response_envelope" where
  "generation_ok rid sid g =
     success rid (GenerationResp \<lparr>gr_session_id = sid, gr_generation = g\<rparr>)"

definition broker_prepare :: "u64 \<Rightarrow> prepare_rerank_session_request \<Rightarrow> 'b broker \<Rightarrow> 'b outcome" where
  "broker_prepare rid c s =
     (let sid = pr_session_id c; g = pr_generation c in
      case fmlookup (bk_sessions s) sid of
        None \<Rightarrow>
          if fmlen (bk_sessions s) \<ge> unat (bc_max_sessions (bk_config s))
          then (s, Inl (BR_SessionLimitReached (bc_max_sessions (bk_config s))))
          else (new_session sid g (pr_field_class c) True s, Inr (generation_ok rid sid g))
      | Some r \<Rightarrow>
          if \<not> sr_rerank_only r then (s, Inl (BR_AlreadyExists sid))
          else if sr_field_class r \<noteq> pr_field_class c then (s, Inl (BR_AlreadyExists sid))
          else if g < sr_generation r
          then (s, Inl (BR_StaleGeneration sid g (sr_generation r)))
          else if g > sr_generation r
          then (s\<lparr>
              bk_sessions := fmupd sid (r\<lparr>sr_generation := g\<rparr>) (bk_sessions s),
              bk_cells := (bk_cells s)(sr_cell r :=
                 (bump_cell g (bk_cells s (sr_cell r)))\<lparr>gc_active := True\<rparr>)\<rparr>,
            Inr (generation_ok rid sid g))
          else (s, Inr (generation_ok rid sid g)))"

definition created_payload :: "u64 \<Rightarrow> fallback_mode \<Rightarrow> response_payload" where
  "created_payload sid f =
     CreatedResp \<lparr>sc_session_id = sid, sc_generation = 0, sc_fallback = f\<rparr>"

definition broker_create ::
  "'b backend_ops \<Rightarrow> u64 \<Rightarrow> create_session_request \<Rightarrow> 'b broker \<Rightarrow> 'b outcome" where
  "broker_create ops rid c s =
     (let sid = cs_session_id c in
      if fmlookup (bk_sessions s) sid \<noteq> None then (s, Inl (BR_AlreadyExists sid))
      else if fmlen (bk_sessions s) \<ge> unat (bc_max_sessions (bk_config s))
      then (s, Inl (BR_SessionLimitReached (bc_max_sessions (bk_config s))))
      else case run_backend ops rid (CreateSessionCmd c) s of
        (s1, Inl e) \<Rightarrow> (s1, Inl e)
      | (s1, Inr result) \<Rightarrow>
          (let created = (\<lambda>payload.
             (new_session sid 0 (cs_field_class c) False s1, Inr (success rid payload))) in
           case result of
             Inr (CreatedResp r) \<Rightarrow>
               created (created_payload sid (if sc_session_id r = sid then FM_None else FM_DirectInput))
           | Inr _ \<Rightarrow> created (created_payload sid FM_DirectInput)
           | Inl BE_Cancelled \<Rightarrow>
               (s1, Inr (cancelled_response rid 0 (lit ''session creation cancelled'') False
                           FM_DirectInput))
           | Inl _ \<Rightarrow> created (created_payload sid FM_DirectInput)))"

definition broker_key :: "'b backend_ops \<Rightarrow> u64 \<Rightarrow> key_request \<Rightarrow> 'b broker \<Rightarrow> 'b outcome" where
  "broker_key ops rid c s =
     (let sid = kq_session_id c in
      case advance_generation sid (kq_generation c) s of
        (s1, Inl e) \<Rightarrow> (s1, Inl e)
      | (s1, Inr g) \<Rightarrow>
     (case run_backend ops rid (KeyCmd c) s1 of
        (s2, Inl e) \<Rightarrow> (s2, Inl e)
      | (s2, Inr result) \<Rightarrow>
     (let fallback = (s2, Inr (success rid (fallback_key_payload sid g (sync_fallback_state s2 sid)))) in
      case result of
        Inr (KeyResp r) \<Rightarrow>
          (let r' = r\<lparr>kr_generation := g, kr_fallback := FM_None\<rparr> in
           if kr_session_id r = sid \<and> is_ok (validate_payload (KeyResp r'))
           then (set_last_valid sid (Some (key_state r')) s2, Inr (success rid (KeyResp r')))
           else fallback)
      | Inr _ \<Rightarrow> fallback
      | Inl BE_Cancelled \<Rightarrow>
          (s2, Inr (cancelled_response rid g (lit ''key request cancelled'') True FM_None))
      | Inl _ \<Rightarrow> fallback)))"

definition broker_edit :: "'b backend_ops \<Rightarrow> u64 \<Rightarrow> edit_request \<Rightarrow> 'b broker \<Rightarrow> 'b outcome" where
  "broker_edit ops rid c s =
     (let sid = eq_session_id c in
      case advance_generation sid (eq_generation c) s of
        (s1, Inl e) \<Rightarrow> (s1, Inl e)
      | (s1, Inr g) \<Rightarrow>
     (case run_backend ops rid (EditCmd c) s1 of
        (s2, Inl e) \<Rightarrow> (s2, Inl e)
      | (s2, Inr result) \<Rightarrow>
     (let fallback = (s2, Inr (success rid (fallback_edit_payload sid g (sync_fallback_state s2 sid)))) in
      case result of
        Inr (EditResp r) \<Rightarrow>
          (let r' = r\<lparr>dr_generation := g, dr_fallback := FM_None\<rparr> in
           if dr_session_id r = sid \<and> is_ok (validate_payload (EditResp r'))
           then (set_last_valid sid (Some (edit_state r')) s2, Inr (success rid (EditResp r')))
           else fallback)
      | Inr _ \<Rightarrow> fallback
      | Inl BE_Cancelled \<Rightarrow>
          (s2, Inr (cancelled_response rid g (lit ''edit request cancelled'') True FM_None))
      | Inl _ \<Rightarrow> fallback)))"

definition broker_convert :: "'b backend_ops \<Rightarrow> u64 \<Rightarrow> convert_request \<Rightarrow> 'b broker \<Rightarrow> 'b outcome" where
  "broker_convert ops rid c s =
     (let sid = cv_session_id c; g = cv_generation c in
      case check_generation s sid g of
        Inl e \<Rightarrow> (s, Inl e)
      | Inr _ \<Rightarrow>
     (case run_backend ops rid (ConvertCmd c) s of
        (s2, Inl e) \<Rightarrow> (s2, Inl e)
      | (s2, Inr result) \<Rightarrow>
     (let fallback = (s2, Inr (success rid (fallback_convert_payload c g (sync_fallback_state s2 sid)))) in
      case result of
        Inr (ConvertResp r) \<Rightarrow>
          (let r' = r\<lparr>vr_generation := g, vr_fallback := FM_None\<rparr> in
           if vr_session_id r = sid \<and> is_ok (validate_payload (ConvertResp r'))
           then (set_last_valid sid (Some (convert_state r')) s2, Inr (success rid (ConvertResp r')))
           else fallback)
      | Inr _ \<Rightarrow> fallback
      | Inl BE_Cancelled \<Rightarrow>
          (s2, Inr (cancelled_response rid g (lit ''conversion request cancelled'') True FM_None))
      | Inl _ \<Rightarrow> fallback)))"

definition broker_commit :: "'b backend_ops \<Rightarrow> u64 \<Rightarrow> commit_request \<Rightarrow> 'b broker \<Rightarrow> 'b outcome" where
  "broker_commit ops rid c s =
     (let sid = cm_session_id c in
      case advance_generation sid (cm_generation c) s of
        (s1, Inl e) \<Rightarrow> (s1, Inl e)
      | (s1, Inr g) \<Rightarrow>
     (case run_backend ops rid (CommitCmd c) s1 of
        (s2, Inl e) \<Rightarrow> (s2, Inl e)
      | (s2, Inr result) \<Rightarrow>
     (let wrong_type = (s2, Inr (commit_failure rid g EC_BackendProtocol
                                  (lit ''backend returned the wrong response type''))) in
      case result of
        Inr (CommitResp r) \<Rightarrow>
          (if mr_session_id r = sid then
            (let r' = r\<lparr>mr_generation := g\<rparr> in
             if is_ok (validate_payload (CommitResp r'))
             then (set_last_valid sid None s2, Inr (success rid (CommitResp r')))
             else (s2, Inr (commit_failure rid g EC_BackendProtocol
                              (lit ''backend returned an invalid commit response''))))
           else wrong_type)
      | Inr _ \<Rightarrow> wrong_type
      | Inl BE_Cancelled \<Rightarrow>
          (set_last_valid sid None s2,
           Inr (cancelled_response rid g (lit ''commit request cancelled'') False FM_DirectInput))
      | Inl e \<Rightarrow>
          (set_last_valid sid None s2,
           Inr (commit_failure rid g (backend_error_code e)
                  (public_backend_message (backend_error_code e)))))))"

definition broker_cancel :: "'b backend_ops \<Rightarrow> u64 \<Rightarrow> cancel_request \<Rightarrow> 'b broker \<Rightarrow> 'b outcome" where
  "broker_cancel ops rid c s =
     (let sid = cc_session_id c in
      case session_generation s sid of
        None \<Rightarrow> (s, Inl (BR_UnknownSession sid))
      | Some current \<Rightarrow>
     (case advance_generation sid
             (case cc_generation c of None \<Rightarrow> current | Some expected \<Rightarrow> expected) s of
        (s1, Inl e) \<Rightarrow> (s1, Inl e)
      | (s1, Inr g) \<Rightarrow>
     (let s2 = (case cc_target_request_id c of
                  None \<Rightarrow> s1
                | Some target \<Rightarrow>
                    s1\<lparr>bk_cancellations := fst (cancel_request target (bk_cancellations s1))\<rparr>) in
      case run_backend ops rid (CancelCmd c) s2 of
        (s3, Inl e) \<Rightarrow> (s3, Inl e)
      | (s3, Inr _) \<Rightarrow>
          (s3, Inr (success rid (CancelResp \<lparr>xr_session_id = sid, xr_generation = g,
                      xr_target_request_id = cc_target_request_id c\<rparr>))))))"

definition broker_focus_lost ::
  "'b backend_ops \<Rightarrow> u64 \<Rightarrow> focus_lost_request \<Rightarrow> 'b broker \<Rightarrow> 'b outcome" where
  "broker_focus_lost ops rid c s =
     (let sid = fl_session_id c in
      case advance_generation sid (fl_generation c) s of
        (s1, Inl e) \<Rightarrow> (s1, Inl e)
      | (s1, Inr g) \<Rightarrow>
     (case run_backend ops rid (FocusLostCmd c) s1 of
        (s2, Inl e) \<Rightarrow> (s2, Inl e)
      | (s2, Inr _) \<Rightarrow>
          (let s3 = (case fmlookup (bk_sessions s2) sid of
                       None \<Rightarrow> s2
                     | Some r \<Rightarrow> s2\<lparr>
                         bk_sessions := fmdrop sid (bk_sessions s2),
                         bk_cells := (bk_cells s2)(sr_cell r :=
                            (bk_cells s2 (sr_cell r))\<lparr>gc_active := False\<rparr>)\<rparr>)
           in (s3, Inr (success rid (FocusLostResp \<lparr>fr_session_id = sid, fr_generation = g\<rparr>))))))"

definition broker_generation :: "u64 \<Rightarrow> generation_request \<Rightarrow> 'b broker \<Rightarrow> 'b outcome" where
  "broker_generation rid c s =
     (case session_generation s (gq_session_id c) of
        None \<Rightarrow> (s, Inl (BR_UnknownSession (gq_session_id c)))
      | Some g \<Rightarrow> (s, Inr (generation_ok rid (gq_session_id c) g)))"

definition truncate_detail :: "rstr \<Rightarrow> rstr" where
  "truncate_detail d = (if blen d > 512 then str_truncate d (boundary_below d 512) else d)"

definition check_frame_limit :: "health_response \<Rightarrow> health_response" where
  "check_frame_limit h =
     (if hr_max_frame_bytes h = 0
      then h\<lparr>hr_status := Unavailable, hr_detail := lit ''backend returned an invalid frame limit''\<rparr>
      else h)"

definition check_detail :: "health_response \<Rightarrow> health_response" where
  "check_detail h =
     (let h1 = (if hr_detail h = [] then h\<lparr>hr_detail := lit ''ready''\<rparr> else h);
          h2 = (if has_control (hr_detail h1)
                then h1\<lparr>hr_status := Unavailable,
                        hr_detail := lit ''backend returned invalid health details''\<rparr>
                else h1)
      in h2\<lparr>hr_detail := truncate_detail (hr_detail h2)\<rparr>)"

definition broker_health :: "'b backend_ops \<Rightarrow> u64 \<Rightarrow> 'b broker \<Rightarrow> 'b outcome" where
  "broker_health ops rid s =
     (s, Inr (success rid (HealthResp (check_detail (check_frame_limit
        ((be_health ops (bk_backend s))\<lparr>hr_protocol_version := PROTOCOL_VERSION\<rparr>))))))"

definition broker_enhancement :: "u64 \<Rightarrow> u64 \<Rightarrow> 'b broker \<Rightarrow> 'b outcome" where
  "broker_enhancement sid g s =
     (case check_generation s sid g of
        Inl e \<Rightarrow> (s, Inl e)
      | Inr _ \<Rightarrow> (s, Inl BR_EnhancementRequiresAsync))"

fun broker_command ::
  "'b backend_ops \<Rightarrow> u64 \<Rightarrow> request_command \<Rightarrow> 'b broker \<Rightarrow> 'b outcome" where
  "broker_command ops rid (CreateSessionCmd c) s = broker_create ops rid c s"
| "broker_command ops rid (PrepareRerankSessionCmd c) s = broker_prepare rid c s"
| "broker_command ops rid (KeyCmd c) s = broker_key ops rid c s"
| "broker_command ops rid (EditCmd c) s = broker_edit ops rid c s"
| "broker_command ops rid (ConvertCmd c) s = broker_convert ops rid c s"
| "broker_command ops rid (CommitCmd c) s = broker_commit ops rid c s"
| "broker_command ops rid (CancelCmd c) s = broker_cancel ops rid c s"
| "broker_command ops rid (FocusLostCmd c) s = broker_focus_lost ops rid c s"
| "broker_command ops rid HealthCmd s = broker_health ops rid s"
| "broker_command ops rid (GenerationCmd c) s = broker_generation rid c s"
| "broker_command ops rid (RerankCandidatesCmd c) s =
     broker_enhancement (rr_session_id c) (rr_generation c) s"
| "broker_command ops rid (SemanticAssistCmd c) s =
     broker_enhancement (sa_session_id c) (sa_generation c) s"

definition dispatch :: "'b backend_ops \<Rightarrow> request_envelope \<Rightarrow> 'b broker \<Rightarrow> 'b outcome" where
  "dispatch ops q s =
     (case validate_request q of
        Inl e \<Rightarrow> (s, Inl (BR_Validation e))
      | Inr _ \<Rightarrow> broker_command ops (rq_request_id q) (rq_command q) s)"

definition error_envelope :: "request_envelope \<Rightarrow> broker_error \<Rightarrow> response_envelope" where
  "error_envelope q e =
     (let g = (case broker_error_generation e of
                 Some current \<Rightarrow> Some current
               | None \<Rightarrow> expected_generation (rq_command q))
      in failure_envelope (rq_request_id q) g
           (with_generation g (new_error (broker_error_code e) (broker_error_message e) False)))"

definition broker_handle ::
  "'b backend_ops \<Rightarrow> request_envelope \<Rightarrow> 'b broker \<Rightarrow> 'b broker \<times> response_envelope" where
  "broker_handle ops q s =
     (case dispatch ops q s of
        (s', Inr response) \<Rightarrow> (s', response)
      | (s', Inl e) \<Rightarrow> (s', error_envelope q e))"

end
