(* ===== verification/Sync_Facts.thy ===== *)
theory Sync_Facts
  imports Sync_Broker
begin

text \<open>
  The synchronous broker is correct: the session invariant, what every handler keeps
  (configuration, registry, generations, cells), that every answer is a valid envelope, and
  the interpretation of \<open>generation_owner\<close> that makes enhancement tokens trustworthy.
\<close>

section \<open>The invariant and what a handler keeps\<close>

definition state_ok :: "composition_state option \<Rightarrow> bool" where
  "state_ok st = (case st of None \<Rightarrow> True | Some x \<Rightarrow> is_ok (validate_composition_state x))"

definition session_ok :: "'b broker \<Rightarrow> session_record \<Rightarrow> bool" where
  "session_ok s r \<longleftrightarrow>
     sr_cell r < bk_next_cell s \<and> gc_clock (bk_cells s (sr_cell r)) = sr_generation r \<and>
     gc_active (bk_cells s (sr_cell r)) \<and> state_ok (sr_last_valid r)"

definition session_cell :: "'b broker \<Rightarrow> u64 \<Rightarrow> nat option" where
  "session_cell s sid = map_option sr_cell (fmlookup (bk_sessions s) sid)"

definition own_cells :: "'b broker \<Rightarrow> bool" where
  "own_cells s \<longleftrightarrow>
     (\<forall>sid sid' a. session_cell s sid = Some a \<longrightarrow> session_cell s sid' = Some a \<longrightarrow> sid = sid')"

definition sync_inv :: "'b broker \<Rightarrow> bool" where
  "sync_inv s \<longleftrightarrow>
     (\<forall>sid r. fmlookup (bk_sessions s) sid = Some r \<longrightarrow> session_ok s r) \<and> own_cells s \<and>
     fmlen (bk_sessions s) \<le> unat (bc_max_sessions (bk_config s))"

lemma sync_inv_session: "sync_inv s \<Longrightarrow> fmlookup (bk_sessions s) sid = Some r \<Longrightarrow> session_ok s r"
  by (auto simp: sync_inv_def)

lemma sync_inv_distinct:
  "sync_inv s \<Longrightarrow> fmlookup (bk_sessions s) sid = Some r \<Longrightarrow> fmlookup (bk_sessions s) sid' = Some r' \<Longrightarrow>
   sid \<noteq> sid' \<Longrightarrow> sr_cell r \<noteq> sr_cell r'"
  by (force simp: sync_inv_def own_cells_def session_cell_def)

lemma sync_inv_len: "sync_inv s \<Longrightarrow> fmlen (bk_sessions s) \<le> unat (bc_max_sessions (bk_config s))"
  by (auto simp: sync_inv_def)

lemma sync_inv_own: "sync_inv s \<Longrightarrow> own_cells s"
  by (auto simp: sync_inv_def)

lemma sync_invI:
  "(\<And>sid r. fmlookup (bk_sessions s) sid = Some r \<Longrightarrow> session_ok s r) \<Longrightarrow> own_cells s \<Longrightarrow>
   fmlen (bk_sessions s) \<le> unat (bc_max_sessions (bk_config s)) \<Longrightarrow> sync_inv s"
  unfolding sync_inv_def by blast

lemma own_cells_cong: "session_cell s' = session_cell s \<Longrightarrow> own_cells s' = own_cells s"
  by (simp add: own_cells_def)

text \<open>
  \<open>keeps k s s'\<close>: the step keeps the configuration, the registry, the invariant and every
  session, lowers no generation and bumps each allocated cell at most \<open>k\<close> times.
\<close>

definition keeps :: "nat \<Rightarrow> 'b broker \<Rightarrow> 'b broker \<Rightarrow> bool" where
  "keeps k s s' \<longleftrightarrow>
     bk_config s' = bk_config s \<and>
     cn_tokens (bk_cancellations s') = cn_tokens (bk_cancellations s) \<and>
     (sync_inv s \<longrightarrow> sync_inv s') \<and>
     bk_next_cell s \<le> bk_next_cell s' \<and>
     (\<forall>a < bk_next_cell s. evolves k (bk_cells s a) (bk_cells s' a)) \<and>
     (\<forall>sid r. fmlookup (bk_sessions s) sid = Some r \<longrightarrow>
        (\<exists>r'. fmlookup (bk_sessions s') sid = Some r' \<and> sr_cell r' = sr_cell r \<and>
           sr_generation r \<le> sr_generation r'))"

lemma keeps_refl [simp, intro]: "keeps k s s"
  by (auto simp: keeps_def)

lemma keeps_trans:
  assumes "keeps j a b" "keeps k b c"
  shows "keeps (j + k) a c"
proof -
  have "evolves (j + k) (bk_cells a x) (bk_cells c x)" if "x < bk_next_cell a" for x
    using assms that by (auto simp: keeps_def intro!: evolves_trans [where b = "bk_cells b x"])
  moreover have "\<exists>r'. fmlookup (bk_sessions c) sid = Some r' \<and> sr_cell r' = sr_cell r \<and>
      sr_generation r \<le> sr_generation r'"
    if "fmlookup (bk_sessions a) sid = Some r" for sid r
    using assms that unfolding keeps_def by (metis order_trans)
  ultimately show ?thesis using assms by (auto simp: keeps_def)
qed

lemma keeps_mono: "keeps j a b \<Longrightarrow> j \<le> k \<Longrightarrow> keeps k a b"
  by (auto simp: keeps_def intro: evolves_mono)

lemma keeps_then: "keeps 1 a b \<Longrightarrow> keeps 0 b c \<Longrightarrow> keeps 1 a c"
  using keeps_trans [of 1 a b 0 c] by simp

section \<open>The primitive moves\<close>

lemma set_generation_keeps:
  assumes r: "fmlookup (bk_sessions s) sid = Some r" and le: "sr_generation r \<le> g"
  shows "keeps 1 s (set_generation sid g s)"
proof -
  have "sync_inv (set_generation sid g s)" if inv: "sync_inv s"
  proof (rule sync_invI)
    fix x q assume q: "fmlookup (bk_sessions (set_generation sid g s)) x = Some q"
    show "session_ok (set_generation sid g s) q"
    proof (cases "x = sid")
      case True
      with q r sync_inv_session [OF inv r] show ?thesis
        by (auto simp: set_generation_def session_ok_def)
    next
      case False
      with q r have "fmlookup (bk_sessions s) x = Some q" by (simp add: set_generation_def)
      with False show ?thesis
        using r sync_inv_session [OF inv, of x q] sync_inv_distinct [OF inv, of x q sid r]
        by (auto simp: set_generation_def session_ok_def)
    qed
  next
    have "session_cell (set_generation sid g s) = session_cell s"
      using r by (auto simp: session_cell_def set_generation_def fun_eq_iff)
    then show "own_cells (set_generation sid g s)"
      using own_cells_cong sync_inv_own [OF inv] by metis
  qed (use r sync_inv_len [OF inv] in \<open>simp add: set_generation_def fmlen_upd_old\<close>)
  moreover have "evolves 1 (bk_cells s a) (bk_cells (set_generation sid g s) a)" for a
    using r by (auto simp: set_generation_def)
  ultimately show ?thesis
    using r le by (auto simp: keeps_def set_generation_def)
qed

lemma check_generation_Inr_iff:
  "check_generation s sid e = Inr g \<longleftrightarrow> session_generation s sid = Some e \<and> g = e"
  by (auto simp: check_generation_def split: option.splits)

lemma advance_Inl: "advance_generation sid e s = (s1, Inl err) \<Longrightarrow> s1 = s"
  by (auto simp: advance_generation_def split: sum.splits)

lemma advance_Inr:
  assumes "advance_generation sid e s = (s1, Inr g)"
  shows "session_generation s sid = Some e" "checked_add_u64 e 1 = Some g"
    "s1 = set_generation sid g s"
  using assms by (auto simp: advance_generation_def bind_result_Inr_iff check_generation_Inr_iff
      next_generation_def split: sum.splits option.splits)

lemma advance_keeps: "advance_generation sid e s = (s1, Inr g) \<Longrightarrow> keeps 1 s s1"
  using advance_Inr [of sid e s s1 g] checked_succ_Some_less [of e g]
  by (auto simp: session_generation_def simp flip: One_nat_def intro!: set_generation_keeps)

lemma run_backend_frame:
  assumes "run_backend ops rid cmd s = (s', r)"
  shows "bk_sessions s' = bk_sessions s" "bk_config s' = bk_config s"
    "bk_cells s' = bk_cells s" "bk_next_cell s' = bk_next_cell s"
    "cn_tokens (bk_cancellations s') = cn_tokens (bk_cancellations s)"
  using assms
  by (auto simp: run_backend_def Let_def new_token_def dest: finish_registered
      split: prod.splits sum.splits)

lemma sync_inv_cong:
  "bk_sessions s' = bk_sessions s \<Longrightarrow> bk_config s' = bk_config s \<Longrightarrow> bk_cells s' = bk_cells s \<Longrightarrow>
   bk_next_cell s' = bk_next_cell s \<Longrightarrow> sync_inv s' = sync_inv s"
  by (simp add: sync_inv_def session_ok_def own_cells_def session_cell_def)

lemma run_backend_keeps: "run_backend ops rid cmd s = (s', r) \<Longrightarrow> keeps 0 s s'"
  using run_backend_frame [of ops rid cmd s s' r] sync_inv_cong [of s' s] by (auto simp: keeps_def)

lemma set_last_valid_keeps:
  assumes "state_ok st"
  shows "keeps 0 s (set_last_valid sid st s)"
proof (cases "fmlookup (bk_sessions s) sid")
  case (Some r)
  have "sync_inv (set_last_valid sid st s)" if inv: "sync_inv s"
  proof (rule sync_invI)
    fix x q assume "fmlookup (bk_sessions (set_last_valid sid st s)) x = Some q"
    then show "session_ok (set_last_valid sid st s) q"
      using Some assms sync_inv_session [OF inv, of x]
      by (auto simp: set_last_valid_def session_ok_def split: if_splits)
  next
    have "session_cell (set_last_valid sid st s) = session_cell s"
      using Some by (auto simp: session_cell_def set_last_valid_def fun_eq_iff)
    then show "own_cells (set_last_valid sid st s)"
      using own_cells_cong sync_inv_own [OF inv] by metis
  qed (use Some sync_inv_len [OF inv] in \<open>simp add: set_last_valid_def fmlen_upd_old\<close>)
  then show ?thesis using Some by (auto simp: keeps_def set_last_valid_def)
qed (simp add: set_last_valid_def)

lemma new_session_keeps:
  assumes new: "fmlookup (bk_sessions s) sid = None"
    and room: "fmlen (bk_sessions s) < unat (bc_max_sessions (bk_config s))"
  shows "keeps 0 s (new_session sid g fc rerank s)"
proof -
  have "sync_inv (new_session sid g fc rerank s)" if inv: "sync_inv s"
  proof (rule sync_invI)
    fix x q assume "fmlookup (bk_sessions (new_session sid g fc rerank s)) x = Some q"
    then show "session_ok (new_session sid g fc rerank s) q"
      using sync_inv_session [OF inv, of x]
      by (auto simp: new_session_def session_ok_def new_cell_def state_ok_def split: if_splits)
  next
    have "a < bk_next_cell s" if "session_cell s x = Some a" for x a
      using that sync_inv_session [OF inv, of x] by (auto simp: session_cell_def session_ok_def)
    moreover have "session_cell (new_session sid g fc rerank s) x =
        (if x = sid then Some (bk_next_cell s) else session_cell s x)" for x
      by (simp add: session_cell_def new_session_def)
    ultimately show "own_cells (new_session sid g fc rerank s)"
      using sync_inv_own [OF inv] by (force simp: own_cells_def)
  qed (use new room in \<open>simp add: new_session_def fmlen_upd_new\<close>)
  then show ?thesis using new by (auto simp: keeps_def new_session_def)
qed

section \<open>Every handler keeps the broker\<close>

lemma broker_create_keeps: "keeps 1 s (fst (broker_create ops rid c s))"
proof (cases "fmlookup (bk_sessions s) (cs_session_id c) = None \<and>
    fmlen (bk_sessions s) < unat (bc_max_sessions (bk_config s))")
  case True
  obtain s1 r where r: "run_backend ops rid (CreateSessionCmd c) s = (s1, r)" by fastforce
  have k: "keeps 1 s s1" by (rule keeps_mono [OF run_backend_keeps [OF r]]) simp
  have "keeps 0 s1 (new_session (cs_session_id c) 0 (cs_field_class c) False s1)"
    using True by (intro new_session_keeps) (simp_all add: run_backend_frame [OF r])
  from k keeps_then [OF k this] show ?thesis
    using True by (auto simp: broker_create_def r Let_def not_le
        split: sum.splits response_payload.splits backend_error.splits)
qed (auto simp: broker_create_def Let_def not_less)

lemma broker_prepare_keeps: "keeps 1 s (fst (broker_prepare rid c s))"
proof (cases "fmlookup (bk_sessions s) (pr_session_id c)")
  case None
  then have "keeps 1 s (new_session (pr_session_id c) (pr_generation c) (pr_field_class c) True s)"
    if "fmlen (bk_sessions s) < unat (bc_max_sessions (bk_config s))"
    using new_session_keeps [OF None that] by (auto intro: keeps_mono)
  with None show ?thesis by (auto simp: broker_prepare_def Let_def not_le)
next
  case (Some r)
  let ?s = "set_generation (pr_session_id c) (pr_generation c) s"
  let ?s' = "?s\<lparr>bk_cells := (bk_cells ?s)(sr_cell r := (bk_cells ?s (sr_cell r))\<lparr>gc_active := True\<rparr>)\<rparr>"
  have "keeps 1 s ?s'" if gt: "sr_generation r < pr_generation c"
  proof -
    have k: "keeps 1 s ?s" by (rule set_generation_keeps [OF Some]) (use gt in simp)
    have "sync_inv ?s'" if inv: "sync_inv s"
    proof -
      have i: "sync_inv ?s" using k inv by (simp add: keeps_def)
      have "session_ok ?s' q" if "session_ok ?s q" for q
        using that by (auto simp: session_ok_def)
      moreover have "own_cells ?s'"
        using sync_inv_own [OF i] by (simp add: own_cells_def session_cell_def)
      ultimately show ?thesis
        using sync_inv_session [OF i] sync_inv_len [OF i] by (intro sync_invI) auto
    qed
    moreover have "evolves 1 (bk_cells s a) (bk_cells ?s' a)" for a
      using Some by (auto simp: set_generation_def)
    ultimately show ?thesis using k by (auto simp: keeps_def)
  qed
  moreover have "fst (broker_prepare rid c s) = s \<or>
      sr_generation r < pr_generation c \<and> fst (broker_prepare rid c s) = ?s'"
    using Some by (auto simp: broker_prepare_def Let_def set_generation_def)
  ultimately show ?thesis by auto
qed

text \<open>
  The shape the state-changing handlers share: the generation is advanced, the backend runs,
  and afterwards at most the remembered composition changes.
\<close>

lemma advance_run_keeps:
  assumes "advance_generation sid e s = (s1, Inr g)" "run_backend ops rid cmd s1 = (s2, r)"
  shows "keeps 1 s s2"
  using keeps_then [OF advance_keeps [OF assms(1)] run_backend_keeps [OF assms(2)]] .

lemma state_ok_simps [simp]:
  "state_ok None" "state_ok (Some st) \<longleftrightarrow> is_ok (validate_composition_state st)"
  by (simp_all add: state_ok_def)

lemma payload_state_ok:
  "is_ok (validate_payload (KeyResp k)) \<Longrightarrow> state_ok (Some (key_state k))"
  "is_ok (validate_payload (EditResp e)) \<Longrightarrow> state_ok (Some (edit_state e))"
  "is_ok (validate_payload (ConvertResp v)) \<Longrightarrow> state_ok (Some (convert_state v))"
  by (auto simp: is_ok_unit_iff validate_composition_state_def)

lemma broker_key_keeps: "keeps 1 s (fst (broker_key ops rid c s))"
proof -
  obtain s1 r1 where r1: "advance_generation (kq_session_id c) (kq_generation c) s = (s1, r1)"
    by fastforce
  show ?thesis
  proof (cases r1)
    case (Inl e)
    with r1 advance_Inl [of "kq_session_id c" "kq_generation c" s s1 e] show ?thesis
      by (simp add: broker_key_def Let_def)
  next
    case (Inr g)
    obtain s2 r2 where r2: "run_backend ops rid (KeyCmd c) s1 = (s2, r2)" by fastforce
    have k: "keeps 1 s s2" using advance_run_keeps r1 r2 Inr by blast
    have "keeps 1 s (set_last_valid (kq_session_id c) (Some (key_state k)) s2)"
      if "is_ok (validate_payload (KeyResp k))" for k
      by (rule keeps_then [OF \<open>keeps 1 s s2\<close>]) (rule set_last_valid_keeps, rule payload_state_ok, rule that)
    with k show ?thesis
      by (auto simp: broker_key_def Let_def r1 r2 Inr simp del: validate_payload.simps
          split: sum.splits response_payload.splits backend_error.splits)
  qed
qed

lemma broker_edit_keeps: "keeps 1 s (fst (broker_edit ops rid c s))"
proof -
  obtain s1 r1 where r1: "advance_generation (eq_session_id c) (eq_generation c) s = (s1, r1)"
    by fastforce
  show ?thesis
  proof (cases r1)
    case (Inl e)
    with r1 advance_Inl [of "eq_session_id c" "eq_generation c" s s1 e] show ?thesis
      by (simp add: broker_edit_def Let_def)
  next
    case (Inr g)
    obtain s2 r2 where r2: "run_backend ops rid (EditCmd c) s1 = (s2, r2)" by fastforce
    have k: "keeps 1 s s2" using advance_run_keeps r1 r2 Inr by blast
    have "keeps 1 s (set_last_valid (eq_session_id c) (Some (edit_state k)) s2)"
      if "is_ok (validate_payload (EditResp k))" for k
      by (rule keeps_then [OF \<open>keeps 1 s s2\<close>]) (rule set_last_valid_keeps, rule payload_state_ok, rule that)
    with k show ?thesis
      by (auto simp: broker_edit_def Let_def r1 r2 Inr simp del: validate_payload.simps
          split: sum.splits response_payload.splits backend_error.splits)
  qed
qed

lemma broker_convert_keeps: "keeps 1 s (fst (broker_convert ops rid c s))"
proof -
  obtain s2 r2 where r2: "run_backend ops rid (ConvertCmd c) s = (s2, r2)" by fastforce
  have k: "keeps 1 s s2" by (rule keeps_mono [OF run_backend_keeps [OF r2]]) simp
  have "keeps 1 s (set_last_valid (cv_session_id c) (Some (convert_state k)) s2)"
    if "is_ok (validate_payload (ConvertResp k))" for k
    by (rule keeps_then [OF \<open>keeps 1 s s2\<close>]) (rule set_last_valid_keeps, rule payload_state_ok, rule that)
  with k show ?thesis
    by (auto simp: broker_convert_def Let_def r2 simp del: validate_payload.simps
        split: sum.splits response_payload.splits backend_error.splits)
qed

lemma broker_commit_keeps: "keeps 1 s (fst (broker_commit ops rid c s))"
proof -
  obtain s1 r1 where r1: "advance_generation (cm_session_id c) (cm_generation c) s = (s1, r1)"
    by fastforce
  show ?thesis
  proof (cases r1)
    case (Inl e)
    with r1 advance_Inl [of "cm_session_id c" "cm_generation c" s s1 e] show ?thesis
      by (simp add: broker_commit_def Let_def)
  next
    case (Inr g)
    obtain s2 r2 where r2: "run_backend ops rid (CommitCmd c) s1 = (s2, r2)" by fastforce
    have k: "keeps 1 s s2" using advance_run_keeps r1 r2 Inr by blast
    have "keeps 1 s (set_last_valid (cm_session_id c) None s2)"
      by (rule keeps_then [OF k]) (simp add: set_last_valid_keeps)
    with k show ?thesis
      by (auto simp: broker_commit_def Let_def r1 r2 Inr simp del: validate_payload.simps
          split: sum.splits response_payload.splits backend_error.splits)
  qed
qed

lemma cancel_target_keeps:
  "keeps 0 s (s\<lparr>bk_cancellations := fst (cancel_request t (bk_cancellations s))\<rparr>)"
  by (auto simp: keeps_def sync_inv_def session_ok_def own_cells_def session_cell_def)

lemma broker_cancel_keeps: "keeps 1 s (fst (broker_cancel ops rid c s))"
proof (cases "session_generation s (cc_session_id c)")
  case (Some current)
  let ?e = "case cc_generation c of None \<Rightarrow> current | Some expected \<Rightarrow> expected"
  obtain s1 r1 where r1: "advance_generation (cc_session_id c) ?e s = (s1, r1)" by fastforce
  show ?thesis
  proof (cases r1)
    case (Inl e)
    with r1 Some advance_Inl [of "cc_session_id c" ?e s s1 e] show ?thesis
      by (simp add: broker_cancel_def Let_def)
  next
    case (Inr g)
    let ?s2 = "case cc_target_request_id c of None \<Rightarrow> s1
      | Some t \<Rightarrow> s1\<lparr>bk_cancellations := fst (cancel_request t (bk_cancellations s1))\<rparr>"
    have k: "keeps 1 s s1" using r1 Inr advance_keeps by blast
    have k2: "keeps 1 s ?s2"
      using k keeps_then [OF k cancel_target_keeps] by (simp split: option.split)
    obtain s3 r3 where r3: "run_backend ops rid (CancelCmd c) ?s2 = (s3, r3)" by fastforce
    have "keeps 1 s s3" by (rule keeps_then [OF k2 run_backend_keeps [OF r3]])
    then show ?thesis
      by (auto simp: broker_cancel_def Let_def r1 r3 Inr Some split: sum.splits)
  qed
qed (simp add: broker_cancel_def)

text \<open>Focus loss also removes the session, so the generations are compared where both exist.\<close>

definition handled :: "'b broker \<Rightarrow> 'b broker \<Rightarrow> bool" where
  "handled s s' \<longleftrightarrow>
     bk_config s' = bk_config s \<and>
     cn_tokens (bk_cancellations s') = cn_tokens (bk_cancellations s) \<and>
     (sync_inv s \<longrightarrow> sync_inv s') \<and>
     bk_next_cell s \<le> bk_next_cell s' \<and>
     (\<forall>a < bk_next_cell s. evolves 1 (bk_cells s a) (bk_cells s' a)) \<and>
     (\<forall>sid r r'. fmlookup (bk_sessions s) sid = Some r \<longrightarrow>
        fmlookup (bk_sessions s') sid = Some r' \<longrightarrow> sr_generation r \<le> sr_generation r')"

lemma keeps_handled: "keeps 1 s s' \<Longrightarrow> handled s s'"
  by (fastforce simp: keeps_def handled_def)

lemma evolves_clear: "evolves k c c' \<Longrightarrow> evolves k c (c'\<lparr>gc_active := False\<rparr>)"
  by (auto simp: evolves_def)

lemma end_session_handled:
  assumes k: "keeps 1 s s2" and r: "fmlookup (bk_sessions s2) sid = Some r"
  shows "handled s (s2\<lparr>bk_sessions := fmdrop sid (bk_sessions s2),
      bk_cells := (bk_cells s2)(sr_cell r := (bk_cells s2 (sr_cell r))\<lparr>gc_active := False\<rparr>)\<rparr>)"
    (is "handled s ?s3")
proof -
  have "sync_inv ?s3" if "sync_inv s"
  proof (rule sync_invI)
    have inv: "sync_inv s2" using k that by (simp add: keeps_def)
    fix x q assume "fmlookup (bk_sessions ?s3) x = Some q"
    then have "x \<noteq> sid" "fmlookup (bk_sessions s2) x = Some q" by (auto split: if_splits)
    then show "session_ok ?s3 q"
      using sync_inv_session [OF inv, of x q] sync_inv_distinct [OF inv, of x q sid r] r
      by (auto simp: session_ok_def)
  next
    have inv: "sync_inv s2" using k that by (simp add: keeps_def)
    show "own_cells ?s3"
      using sync_inv_own [OF inv] by (simp add: own_cells_def session_cell_def)
    show "fmlen (bk_sessions ?s3) \<le> unat (bc_max_sessions (bk_config ?s3))"
      using sync_inv_len [OF inv] fmlen_drop_le [of sid "bk_sessions s2"] by simp
  qed
  moreover have "evolves 1 (bk_cells s a) (bk_cells ?s3 a)" if "a < bk_next_cell s" for a
    using k that by (simp add: keeps_def evolves_clear)
  moreover have "sr_generation q \<le> sr_generation q'"
    if "fmlookup (bk_sessions s) x = Some q" "fmlookup (bk_sessions ?s3) x = Some q'" for x q q'
    using k that unfolding keeps_def by (force split: if_splits)
  ultimately show ?thesis using k unfolding handled_def keeps_def by simp
qed

lemma broker_focus_lost_handled: "handled s (fst (broker_focus_lost ops rid c s))"
proof -
  obtain s1 r1 where r1: "advance_generation (fl_session_id c) (fl_generation c) s = (s1, r1)"
    by fastforce
  show ?thesis
  proof (cases r1)
    case (Inl e)
    with r1 advance_Inl [of "fl_session_id c" "fl_generation c" s s1 e] show ?thesis
      by (simp add: broker_focus_lost_def Let_def keeps_handled)
  next
    case (Inr g)
    obtain s2 r2 where r2: "run_backend ops rid (FocusLostCmd c) s1 = (s2, r2)" by fastforce
    have k: "keeps 1 s s2" using advance_run_keeps r1 r2 Inr by blast
    show ?thesis
    proof (cases r2)
      case r2Inr: (Inr result)
      show ?thesis
      proof (cases "fmlookup (bk_sessions s2) (fl_session_id c)")
        case None
        then show ?thesis
          using keeps_handled [OF k]
          by (simp add: broker_focus_lost_def Let_def r1 r2 Inr r2Inr)
      next
        case (Some r)
        then show ?thesis
          using end_session_handled [OF k Some]
          by (simp add: broker_focus_lost_def Let_def r1 r2 Inr r2Inr)
      qed
    qed (use keeps_handled [OF k] in \<open>simp add: broker_focus_lost_def Let_def r1 r2 Inr\<close>)
  qed
qed

lemma read_only_commands:
  "fst (broker_health ops rid s) = s" "fst (broker_generation rid g s) = s"
  "fst (broker_enhancement sid e s) = s"
  by (auto simp: broker_health_def broker_generation_def broker_enhancement_def
      split: option.splits sum.splits)

lemma broker_command_handled: "handled s (fst (broker_command ops rid cmd s))"
  by (cases cmd)
    (auto intro!: keeps_handled broker_create_keeps broker_prepare_keeps broker_key_keeps
      broker_edit_keeps broker_convert_keeps broker_commit_keeps broker_cancel_keeps
      broker_focus_lost_handled simp: read_only_commands simp del: One_nat_def)

lemma broker_handle_state:
  "fst (broker_handle ops q s) =
     (if is_ok (validate_request q) then fst (broker_command ops (rq_request_id q) (rq_command q) s)
      else s)"
  by (auto simp: broker_handle_def dispatch_def split: sum.splits prod.splits)

lemma broker_handle_handled: "handled s (fst (broker_handle ops q s))"
  using broker_command_handled [of s ops "rq_request_id q" "rq_command q"]
  by (simp add: broker_handle_state keeps_handled)

section \<open>Token holders\<close>

text \<open>
  The broker is a \<open>generation_owner\<close>: one request is one step and bumps a cell at most once.
\<close>

interpretation sync: generation_owner
  "\<lambda>(s :: 'b broker) s'. \<exists>ops q. s' = fst (broker_handle ops q s)" bk_cells
  "\<lambda>s a. a < bk_next_cell s" 1
proof
  fix s s' :: "'b broker" and a
  assume "\<exists>ops q. s' = fst (broker_handle ops q s)" "a < bk_next_cell s"
  then obtain ops q where "s' = fst (broker_handle ops q s)" "a < bk_next_cell s" by blast
  then show "evolves 1 (bk_cells s a) (bk_cells s' a)" "a < bk_next_cell s'"
    using broker_handle_handled [of s ops q] by (auto simp: handled_def)
qed

fun broker_run ::
  "'b backend_ops \<Rightarrow> request_envelope list \<Rightarrow> 'b broker \<Rightarrow> 'b broker" where
  "broker_run ops [] s = s"
| "broker_run ops (q # qs) s = broker_run ops qs (fst (broker_handle ops q s))"

lemma broker_run_steps: "sync.steps (length qs) s (broker_run ops qs s)"
  by (induction qs arbitrary: s) (auto intro: sync.steps.intros)

lemma broker_run_inv: "sync_inv s \<Longrightarrow> sync_inv (broker_run ops qs s)"
  by (induction qs arbitrary: s)
    (use broker_handle_handled [unfolded handled_def] in auto)

lemma initial_inv: "sync_inv (broker_with_config b cfg)"
  by (simp add: sync_inv_def broker_with_config_def own_cells_def session_cell_def)

lemma token_taken:
  assumes "sync_inv s" "sync_enhancement_token s sid = Some t"
  shows "gt_cell t < bk_next_cell s" "gt_token_epoch t = gc_epoch (bk_cells s (gt_cell t))"
    "gt_generation t = gc_clock (bk_cells s (gt_cell t))" "is_current (bk_cells s) t"
proof -
  obtain r where r: "fmlookup (bk_sessions s) sid = Some r"
    and t: "t = from_shared sid (sr_generation r) (bk_cells s) (sr_cell r) (sr_field_class r)"
    using assms(2) by (auto simp: sync_enhancement_token_def)
  then show "gt_cell t < bk_next_cell s" "gt_token_epoch t = gc_epoch (bk_cells s (gt_cell t))"
    "gt_generation t = gc_clock (bk_cells s (gt_cell t))" "is_current (bk_cells s) t"
    using sync_inv_session [OF assms(1) r]
    by (auto simp: session_ok_def from_shared_def is_current_def)
qed

lemma sync_stale_forever:
  assumes "sync_inv s" "sync_enhancement_token s sid = Some t"
    and "length qs + length rs < 2 ^ 64"
    and "\<not> is_current (bk_cells (broker_run ops qs s)) t"
  shows "\<not> is_current (bk_cells (broker_run ops rs (broker_run ops qs s))) t"
  using sync.stale_forever [OF broker_run_steps broker_run_steps, of qs rs t s ops ops] assms
    token_taken [OF assms(1,2)] by simp

end
