(* ===== verification/Sync_Replies.thy ===== *)
theory Sync_Replies
  imports Sync_Facts
begin

text \<open>
  Every answer of the synchronous broker is a valid response envelope, whatever the backend
  answers, except a health report of a backend without a frame limit; and what a request with
  a stale generation or a full session table gets.
\<close>

section \<open>Error and fallback answers are valid\<close>

lemma msg_ok_lit512:
  "list_all (\<lambda>c. 32 \<le> (of_char c :: nat) \<and> (of_char c :: nat) < 127) s \<Longrightarrow> length s \<le> 512 \<Longrightarrow>
   msg_ok 512 (lit s)"
  by (rule msg_ok_lit)

lemma lit_Nil_iff [simp]: "lit s = [] \<longleftrightarrow> s = []"
  by (simp add: lit_def)

lemma broker_error_message_ok: "msg_ok 512 (broker_error_message e)"
  by (cases e) (auto intro!: msg_ok_append [OF msg_ok_lit [OF _ order_refl]]
      msg_ok_append [OF msg_ok_decw] validation_message_ok [THEN msg_ok_mono]
      msg_ok_decw [THEN msg_ok_mono] msg_ok_lit)

lemma broker_error_message_not_Nil: "broker_error_message e \<noteq> []"
  by (cases e) (auto simp: lit_def)

lemma valid_error_envelope: "validate_response (error_envelope q e) = Inr ()"
  unfolding error_envelope_def Let_def
  by (rule valid_failure) (simp_all add: broker_error_message_ok broker_error_message_not_Nil)

lemma valid_cancelled_response:
  "m \<noteq> [] \<Longrightarrow> msg_ok 512 m \<Longrightarrow> validate_response (cancelled_response rid g m retry f) = Inr ()"
  unfolding cancelled_response_def by (rule valid_failure) simp_all

lemma valid_commit_failure:
  "m \<noteq> [] \<Longrightarrow> msg_ok 512 m \<Longrightarrow> validate_response (commit_failure rid g code m) = Inr ()"
  unfolding commit_failure_def by (rule valid_failure) simp_all

lemma public_backend_message_ok:
  "msg_ok 512 (public_backend_message code)" "public_backend_message code \<noteq> []"
  by (cases code; simp add: public_backend_message_def; rule msg_ok_lit; simp)
    (cases code; simp add: public_backend_message_def)

lemma valid_fallback_state:
  assumes "state_ok st" "fallback_of st = (state, f)"
  shows "validate_composition_response (st_preedit state) (st_candidates state)
    (st_focused_index state) = Inr ()"
  using assms
  by (cases st) (auto simp: fallback_of_def validate_composition_state_def is_ok_unit_iff
      validate_composition_response_def validate_text_allow_empty_def)

lemma valid_fallback_payloads:
  assumes "state_ok st"
  shows "sid \<noteq> 0 \<Longrightarrow> validate_payload (fallback_key_payload sid g st) = Inr ()"
    "sid \<noteq> 0 \<Longrightarrow> validate_payload (fallback_edit_payload sid g st) = Inr ()"
    "validate_command (ConvertCmd c) = Inr () \<Longrightarrow>
       validate_payload (fallback_convert_payload c g st) = Inr ()"
  using valid_fallback_state [OF assms]
  by (auto simp: fallback_key_payload_def fallback_edit_payload_def fallback_convert_payload_def
      split: prod.splits)

lemma fallback_state_ok: "sync_inv s \<Longrightarrow> state_ok (sync_fallback_state s sid)"
  by (auto simp: sync_fallback_state_def session_ok_def bind_eq_None_conv state_ok_def
      split: option.splits bind_splits dest: sync_inv_session)

section \<open>Health reports\<close>

lemma boundary_below_ge:
  "is_char_boundary s k \<Longrightarrow> k \<le> n \<Longrightarrow> k \<le> boundary_below s n"
proof (induction n)
  case (Suc n)
  then show ?case by (cases "k = Suc n") auto
qed simp

lemma truncate_detail_ok:
  assumes "d \<noteq> []" "\<not> has_control d"
  shows "truncate_detail d \<noteq> []" "msg_ok 512 (truncate_detail d)"
proof -
  obtain c t where d: "d = c # t" using assms(1) by (cases d) auto
  have "is_char_boundary d (utf8_len c)"
    unfolding is_char_boundary_def set_map by (rule image_eqI [where x = 1]) (simp_all add: d del: upt_Suc)
  moreover have "utf8_len c \<le> 512" by (simp add: utf8_len_def)
  ultimately have "utf8_len c \<le> boundary_below d 512" by (rule boundary_below_ge)
  then show "truncate_detail d \<noteq> []"
    using d by (simp add: truncate_detail_def str_truncate_def)
  show "msg_ok 512 (truncate_detail d)"
    using assms(2) blen_truncate [of d 512]
    by (auto simp: truncate_detail_def msg_ok_def truncate_no_control)
qed

lemma check_detail_ok:
  "hr_detail (check_detail h) \<noteq> []" "msg_ok 512 (hr_detail (check_detail h))"
  "hr_protocol_version (check_detail h) = hr_protocol_version h"
  "hr_max_frame_bytes (check_detail h) = hr_max_frame_bytes h"
proof -
  let ?d1 = "if hr_detail h = [] then lit ''ready'' else hr_detail h"
  let ?d2 = "if has_control ?d1 then lit ''backend returned invalid health details'' else ?d1"
  have d: "hr_detail (check_detail h) = truncate_detail ?d2"
    by (auto simp: check_detail_def Let_def)
  have "\<not> has_control (lit ''backend returned invalid health details'')"
    using msg_ok_lit512 [of "''backend returned invalid health details''"] by (simp add: msg_ok_def)
  then have "?d2 \<noteq> []" "\<not> has_control ?d2" by auto
  then show "hr_detail (check_detail h) \<noteq> []" "msg_ok 512 (hr_detail (check_detail h))"
    unfolding d by (rule truncate_detail_ok)+
qed (simp_all add: check_detail_def Let_def)

lemma check_frame_limit_simps [simp]:
  "hr_protocol_version (check_frame_limit h) = hr_protocol_version h"
  "hr_max_frame_bytes (check_frame_limit h) = hr_max_frame_bytes h"
  by (simp_all add: check_frame_limit_def)

lemma valid_health_iff:
  "validate_payload (HealthResp (check_detail h)) = Inr () \<longleftrightarrow>
     hr_protocol_version h = PROTOCOL_VERSION \<and> hr_max_frame_bytes h \<noteq> 0"
  using check_detail_ok [of h] by (auto intro: valid_text_intro)

section \<open>Every handler answers validly\<close>

definition answers_validly :: "'b outcome \<Rightarrow> bool" where
  "answers_validly out \<longleftrightarrow> (\<forall>resp. snd out = Inr resp \<longrightarrow> validate_response resp = Inr ())"

lemma answers_validly_simps [simp]:
  "answers_validly (s, Inl e)"
  "answers_validly (s, Inr resp) \<longleftrightarrow> validate_response resp = Inr ()"
  by (auto simp: answers_validly_def)

lemma valid_generation_ok: "rid \<noteq> 0 \<Longrightarrow> sid \<noteq> 0 \<Longrightarrow> validate_response (generation_ok rid sid g) = Inr ()"
  unfolding generation_ok_def by (rule valid_success) simp_all

lemma broker_create_valid:
  "rid \<noteq> 0 \<Longrightarrow> cs_session_id c \<noteq> 0 \<Longrightarrow> answers_validly (broker_create ops rid c s)"
  by (auto simp: broker_create_def created_payload_def Let_def intro!: valid_success
      valid_cancelled_response msg_ok_lit
      split: prod.splits sum.splits response_payload.splits backend_error.splits)

lemma broker_prepare_valid:
  "rid \<noteq> 0 \<Longrightarrow> pr_session_id c \<noteq> 0 \<Longrightarrow> answers_validly (broker_prepare rid c s)"
  by (auto simp: broker_prepare_def Let_def valid_generation_ok split: option.splits)

lemma sync_inv_after:
  assumes "sync_inv s" "advance_generation sid e s = (s1, Inr g)" "run_backend ops rid cmd s1 = (s2, r)"
  shows "sync_inv s2"
  using advance_run_keeps [OF assms(2,3)] assms(1) by (simp add: keeps_def)

lemma broker_key_valid:
  assumes "rid \<noteq> 0" "kq_session_id c \<noteq> 0" "sync_inv s"
  shows "answers_validly (broker_key ops rid c s)"
  using assms
  by (auto simp: broker_key_def Let_def is_ok_unit_iff simp del: validate_payload.simps
      intro!: valid_success valid_fallback_payloads fallback_state_ok valid_cancelled_response
        msg_ok_lit dest: sync_inv_after
      split: prod.splits sum.splits response_payload.splits backend_error.splits)

lemma broker_edit_valid:
  assumes "rid \<noteq> 0" "eq_session_id c \<noteq> 0" "sync_inv s"
  shows "answers_validly (broker_edit ops rid c s)"
  using assms
  by (auto simp: broker_edit_def Let_def is_ok_unit_iff simp del: validate_payload.simps
      intro!: valid_success valid_fallback_payloads fallback_state_ok valid_cancelled_response
        msg_ok_lit dest: sync_inv_after
      split: prod.splits sum.splits response_payload.splits backend_error.splits)

lemma broker_convert_valid:
  assumes "rid \<noteq> 0" "validate_command (ConvertCmd c) = Inr ()" "sync_inv s"
  shows "answers_validly (broker_convert ops rid c s)"
proof -
  have "sync_inv s2" if "run_backend ops rid (ConvertCmd c) s = (s2, r)" for s2 r
    using run_backend_keeps [OF that] assms(3) by (simp add: keeps_def)
  with assms show ?thesis
    by (auto simp: broker_convert_def Let_def is_ok_unit_iff
        simp del: validate_payload.simps validate_command.simps
        intro!: valid_success valid_fallback_payloads fallback_state_ok valid_cancelled_response
          msg_ok_lit
        split: prod.splits sum.splits response_payload.splits backend_error.splits)
qed

lemma broker_commit_valid:
  assumes "rid \<noteq> 0" "cm_session_id c \<noteq> 0"
  shows "answers_validly (broker_commit ops rid c s)"
  using assms
  by (auto simp: broker_commit_def Let_def is_ok_unit_iff simp del: validate_payload.simps
      intro!: valid_success valid_commit_failure valid_cancelled_response
        msg_ok_lit public_backend_message_ok
      split: prod.splits sum.splits response_payload.splits backend_error.splits)

lemma broker_cancel_valid:
  "rid \<noteq> 0 \<Longrightarrow> validate_command (CancelCmd c) = Inr () \<Longrightarrow>
   answers_validly (broker_cancel ops rid c s)"
  by (auto simp: broker_cancel_def Let_def intro!: valid_success
      split: prod.splits sum.splits option.splits)

lemma broker_focus_lost_valid:
  "rid \<noteq> 0 \<Longrightarrow> fl_session_id c \<noteq> 0 \<Longrightarrow> answers_validly (broker_focus_lost ops rid c s)"
  by (auto simp: broker_focus_lost_def Let_def intro!: valid_success
      split: prod.splits sum.splits option.splits)

lemma broker_health_valid:
  "rid \<noteq> 0 \<Longrightarrow> hr_max_frame_bytes (be_health ops (bk_backend s)) \<noteq> 0 \<Longrightarrow>
   answers_validly (broker_health ops rid s)"
  by (auto simp: broker_health_def valid_health_iff simp del: validate_payload.simps
      intro!: valid_success)

lemma broker_command_valid:
  assumes "rid \<noteq> 0" "validate_command cmd = Inr ()" "sync_inv s"
    and "cmd = HealthCmd \<Longrightarrow> hr_max_frame_bytes (be_health ops (bk_backend s)) \<noteq> 0"
  shows "answers_validly (broker_command ops rid cmd s)"
  using assms
  by (cases cmd)
    (auto intro!: broker_create_valid broker_prepare_valid broker_key_valid broker_edit_valid
      broker_convert_valid broker_commit_valid broker_cancel_valid broker_focus_lost_valid
      broker_health_valid valid_generation_ok
      simp: broker_generation_def broker_enhancement_def validate_rerank_request_def
      split: option.splits sum.splits)

lemma broker_handle_valid:
  assumes "sync_inv s"
    and "rq_command q = HealthCmd \<Longrightarrow> hr_max_frame_bytes (be_health ops (bk_backend s)) \<noteq> 0"
  shows "validate_response (snd (broker_handle ops q s)) = Inr ()"
proof (cases "validate_request q")
  case (Inr u)
  then have "answers_validly (broker_command ops (rq_request_id q) (rq_command q) s)"
    using assms by (intro broker_command_valid) (auto simp: validate_request_def)
  with Inr show ?thesis
    by (auto simp: broker_handle_def dispatch_def valid_error_envelope answers_validly_def
        split: prod.splits sum.splits)
qed (simp add: broker_handle_def dispatch_def valid_error_envelope)

end
