(* ===== verification/Deterministic_Backend.thy ===== *)
theory Deterministic_Backend
  imports Generation Validation_Facts
begin

text \<open>
  The \<open>DeterministicBackend\<close> of \<open>kanai-broker/src/broker.rs\<close>: a direct-input state machine
  behind the \<open>BrokerBackend\<close> seam, with its edits by scalar index. Byte offsets and the
  panicking \<open>String::replace_range\<close> are modelled (\<open>None\<close> is the panic), and the edits are
  refined to list operations on scalar values.

  The locale \<open>answering_backend\<close> is the contract a backend owes the brokers: an answer is of
  the kind the command asks for and names its session.
\<close>

section \<open>State\<close>

record det_backend =
  db_sessions :: "(u64, rstr) fmap"
  db_fail_next :: "backend_error option"

definition det_new :: det_backend where
  "det_new = \<lparr>db_sessions = fmempty, db_fail_next = None\<rparr>"

definition det_fail_next :: "backend_error \<Rightarrow> det_backend \<Rightarrow> det_backend" where
  "det_fail_next e b = b\<lparr>db_fail_next := Some e\<rparr>"

section \<open>Editing by scalar index\<close>

definition out_of_range :: backend_error where
  "out_of_range = BE_Protocol (lit ''edit range is outside the composition'')"

text \<open>
  \<open>char_indices().nth(index)\<close>: the byte offset of a scalar value, or the end of the text.
\<close>

definition scalar_index :: "rstr \<Rightarrow> nat \<Rightarrow> backend_error + nat" where
  "scalar_index t index =
     (if index < length t then Inr (blen (take index t))
      else if index = length t then Inr (blen t)
      else Inl out_of_range)"

text \<open>\<open>String::replace_range(start..end, s)\<close>, which panics off a boundary or for \<open>start > end\<close>.\<close>

definition replace_bytes :: "nat \<Rightarrow> nat \<Rightarrow> rstr \<Rightarrow> rstr \<Rightarrow> rstr option" where
  "replace_bytes i j replacement t =
     (if is_char_boundary t i \<and> is_char_boundary t j \<and> i \<le> j
      then Some (str_prefix i t @ replacement @ drop (length (str_prefix j t)) t)
      else None)"

definition replace_range :: "rstr \<Rightarrow> text_range \<Rightarrow> rstr \<Rightarrow> (backend_error + rstr) option" where
  "replace_range t r replacement =
     (case scalar_index t (unat (range_start r)) of
        Inl e \<Rightarrow> Some (Inl e)
      | Inr i \<Rightarrow>
     (case scalar_index t (unat (range_end r)) of
        Inl e \<Rightarrow> Some (Inl e)
      | Inr j \<Rightarrow> map_option Inr (replace_bytes i j replacement t)))"

definition delete_range :: "rstr \<Rightarrow> text_range \<Rightarrow> (backend_error + rstr) option" where
  "delete_range t r =
     (case scalar_index t (unat (range_start r)) of
        Inl e \<Rightarrow> Some (Inl e)
      | Inr i \<Rightarrow>
     (case scalar_index t (unat (range_end r)) of
        Inl e \<Rightarrow> Some (Inl e)
      | Inr j \<Rightarrow> if i \<noteq> j then map_option Inr (replace_bytes i j [] t) else Some (Inr t)))"

section \<open>Execution\<close>

definition unknown_det :: backend_error where
  "unknown_det = BE_Protocol (lit ''unknown deterministic session'')"

fun apply_key :: "key_event \<Rightarrow> rstr \<Rightarrow> rstr" where
  "apply_key (Character v) t = t @ v"
| "apply_key Backspace t = butlast t"
| "apply_key Delete t = []"
| "apply_key Escape t = []"
| "apply_key Tab t = []"
| "apply_key Space t = t @ [32]"
| "apply_key _ t = t"

fun apply_edit :: "edit_action \<Rightarrow> rstr \<Rightarrow> (backend_error + rstr) option" where
  "apply_edit (Insert v) t = Some (Inr (t @ v))"
| "apply_edit (Replace r v) t = replace_range t r v"
| "apply_edit (DeleteRange r) t = delete_range t r"
| "apply_edit Reset t = Some (Inr [])"

definition det_put :: "u64 \<Rightarrow> rstr \<Rightarrow> det_backend \<Rightarrow> det_backend" where
  "det_put sid t b = b\<lparr>db_sessions := fmupd sid t (db_sessions b)\<rparr>"

definition det_candidates :: "rstr \<Rightarrow> candidate list" where
  "det_candidates t =
     (if t = [] then []
      else [\<lparr>cand_id = 1, cand_text = t, cand_reading = Some t, cand_rank = 0\<rparr>])"

text \<open>The \<open>match\<close> of \<open>execute\<close>; \<open>None\<close> is a panic.\<close>

fun det_command ::
  "request_command \<Rightarrow> det_backend \<Rightarrow> (det_backend \<times> (backend_error + response_payload)) option" where
  "det_command (CreateSessionCmd c) b =
     Some (det_put (cs_session_id c) [] b,
       Inr (CreatedResp \<lparr>sc_session_id = cs_session_id c, sc_generation = 0,
                         sc_fallback = FM_None\<rparr>))"
| "det_command (PrepareRerankSessionCmd c) b =
     Some (b, Inl (BE_Protocol (lit ''rerank-only sessions are owned by the async broker'')))"
| "det_command (KeyCmd c) b =
     (case fmlookup (db_sessions b) (kq_session_id c) of
        None \<Rightarrow> Some (b, Inl unknown_det)
      | Some t \<Rightarrow>
          (let t' = apply_key (kq_key c) t in
           Some (det_put (kq_session_id c) t' b,
             Inr (KeyResp \<lparr>kr_session_id = kq_session_id c, kr_generation = 0, kr_preedit = t',
                   kr_consumed = True, kr_candidates = [], kr_focused_index = None,
                   kr_fallback = FM_None\<rparr>))))"
| "det_command (EditCmd c) b =
     (case fmlookup (db_sessions b) (eq_session_id c) of
        None \<Rightarrow> Some (b, Inl unknown_det)
      | Some t \<Rightarrow>
          (case apply_edit (eq_action c) t of
             None \<Rightarrow> None
           | Some (Inl e) \<Rightarrow> Some (b, Inl e)
           | Some (Inr t') \<Rightarrow>
               Some (det_put (eq_session_id c) t' b,
                 Inr (EditResp \<lparr>dr_session_id = eq_session_id c, dr_generation = 0,
                       dr_preedit = t', dr_consumed = True, dr_candidates = [],
                       dr_focused_index = None, dr_fallback = FM_None\<rparr>))))"
| "det_command (ConvertCmd c) b =
     (case fmlookup (db_sessions b) (cv_session_id c) of
        None \<Rightarrow> Some (b, Inl unknown_det)
      | Some t \<Rightarrow>
          Some (b, Inr (ConvertResp \<lparr>vr_session_id = cv_session_id c,
             vr_generation = cv_generation c, vr_preedit = t, vr_consumed = True,
             vr_candidates = det_candidates t,
             vr_focused_index = (if t \<noteq> [] then Some 0 else None),
             vr_page = cv_page c, vr_page_size = cv_page_size c, vr_has_more = False,
             vr_fallback = FM_None\<rparr>)))"
| "det_command (CommitCmd c) b =
     (case fmlookup (db_sessions b) (cm_session_id c) of
        None \<Rightarrow> Some (b, Inl unknown_det)
      | Some t \<Rightarrow>
          if cm_candidate_id c \<noteq> 1 \<or> t = []
          then Some (b, Inl (BE_Protocol (lit ''candidate is not available'')))
          else Some (det_put (cm_session_id c) [] b,
            Inr (CommitResp \<lparr>mr_session_id = cm_session_id c, mr_generation = cm_generation c,
                  mr_text = t, mr_consumed = True\<rparr>)))"
| "det_command (CancelCmd c) b =
     Some (b, Inr (CancelResp \<lparr>xr_session_id = cc_session_id c,
       xr_generation = (case cc_generation c of None \<Rightarrow> 0 | Some g \<Rightarrow> g),
       xr_target_request_id = cc_target_request_id c\<rparr>))"
| "det_command (FocusLostCmd c) b =
     Some (b\<lparr>db_sessions := fmdrop (fl_session_id c) (db_sessions b)\<rparr>,
       Inr (FocusLostResp \<lparr>fr_session_id = fl_session_id c, fr_generation = fl_generation c\<rparr>))"
| "det_command HealthCmd b = Some (b, Inr (HealthResp (health_ready (1024 * 1024))))"
| "det_command (GenerationCmd c) b =
     Some (b, Inr (GenerationResp \<lparr>gr_session_id = gq_session_id c, gr_generation = 0\<rparr>))"
| "det_command (RerankCandidatesCmd c) b =
     Some (b, Inl (BE_Protocol (lit ''optional enhancements use the async executor'')))"
| "det_command (SemanticAssistCmd c) b =
     Some (b, Inl (BE_Protocol (lit ''optional enhancements use the async executor'')))"

text \<open>
  \<open>execute\<close> with the cancellation flag read before and after; the flag does not change while
  this synchronous backend runs.
\<close>

definition det_execute ::
  "det_backend \<Rightarrow> request_command \<Rightarrow> bool \<Rightarrow>
   (det_backend \<times> (backend_error + response_payload)) option" where
  "det_execute b cmd cancelled =
     (if cancelled then Some (b, Inl BE_Cancelled)
      else case db_fail_next b of
        Some e \<Rightarrow> Some (b\<lparr>db_fail_next := None\<rparr>, Inl e)
      | None \<Rightarrow> det_command cmd b)"

text \<open>
  As a broker backend. The panic branch is never taken for a validated command
  (\<open>det_execute_total\<close>), which is all a broker passes on.
\<close>

definition deterministic_ops :: "det_backend backend_ops" where
  "deterministic_ops =
     \<lparr>be_execute = (\<lambda>b cmd cancelled.
        case det_execute b cmd cancelled of
          Some r \<Rightarrow> r
        | None \<Rightarrow> (b, Inl (BE_Unavailable (lit ''backend panicked'')))),
      be_health = (\<lambda>b. health_ready (1024 * 1024))\<rparr>"

section \<open>Edits are list edits\<close>

lemma blen_take_mono: "i \<le> j \<Longrightarrow> blen (take i t) \<le> blen (take j t)"
  by (metis blen_append le_add1 le_Suc_ex take_add)

lemma str_prefix_boundary: "k \<le> length t \<Longrightarrow> str_prefix (blen (take k t)) t = take k t"
proof (induction t arbitrary: k)
  case (Cons c t)
  then show ?case by (cases k) auto
qed simp

lemma boundary_take: "k \<le> length t \<Longrightarrow> is_char_boundary t (blen (take k t))"
  unfolding is_char_boundary_def set_map
  by (rule image_eqI [where x = k]) (simp_all del: upt_Suc)

lemma blen_take_less: "i < j \<Longrightarrow> j \<le> length t \<Longrightarrow> blen (take i t) < blen (take j t)"
proof (induction t arbitrary: i j)
  case (Cons c t)
  then show ?case by (cases i; cases j) (auto simp: add.commute add_pos_nonneg)
qed simp

lemma scalar_index_eq:
  "scalar_index t k = (if k \<le> length t then Inr (blen (take k t)) else Inl out_of_range)"
  by (auto simp: scalar_index_def)

lemma replace_bytes_take:
  "i \<le> j \<Longrightarrow> j \<le> length t \<Longrightarrow>
   replace_bytes (blen (take i t)) (blen (take j t)) v t = Some (take i t @ v @ drop j t)"
  by (simp add: replace_bytes_def boundary_take blen_take_mono str_prefix_boundary)

lemma replace_range_spec:
  assumes "range_start r \<le> range_end r"
  shows "replace_range t r v =
    Some (if unat (range_end r) \<le> length t
          then Inr (take (unat (range_start r)) t @ v @ drop (unat (range_end r)) t)
          else Inl out_of_range)"
  using assms by (simp add: replace_range_def scalar_index_eq replace_bytes_take word_le_nat_alt)

lemma delete_range_spec:
  assumes "range_start r \<le> range_end r"
  shows "delete_range t r =
    Some (if unat (range_end r) \<le> length t
          then Inr (take (unat (range_start r)) t @ drop (unat (range_end r)) t)
          else Inl out_of_range)"
proof -
  have "take i t @ drop j t = t" if "blen (take i t) = blen (take j t)" "i \<le> j" "j \<le> length t" for i j
    using blen_take_less [of i j t] that by (cases "i = j") auto
  then show ?thesis
    using assms by (auto simp: delete_range_def scalar_index_eq replace_bytes_take word_le_nat_alt)
qed

lemma apply_edit_total: "validate_edit_action a = Inr () \<Longrightarrow> apply_edit a t \<noteq> None"
  by (cases a) (auto simp: replace_range_spec delete_range_spec validate_range_def not_less)

lemma det_execute_total: "validate_command cmd = Inr () \<Longrightarrow> det_execute b cmd f \<noteq> None"
  by (cases cmd)
    (auto simp: det_execute_def Let_def dest: apply_edit_total split: option.splits sum.splits)

section \<open>What a backend owes a broker\<close>

definition answers_command :: "request_command \<Rightarrow> response_payload \<Rightarrow> bool" where
  "answers_command cmd p =
     (case cmd of
        CreateSessionCmd c \<Rightarrow> (case p of CreatedResp r \<Rightarrow> sc_session_id r = cs_session_id c | _ \<Rightarrow> False)
      | KeyCmd c \<Rightarrow> (case p of KeyResp r \<Rightarrow> kr_session_id r = kq_session_id c | _ \<Rightarrow> False)
      | EditCmd c \<Rightarrow> (case p of EditResp r \<Rightarrow> dr_session_id r = eq_session_id c | _ \<Rightarrow> False)
      | ConvertCmd c \<Rightarrow> (case p of ConvertResp r \<Rightarrow> vr_session_id r = cv_session_id c | _ \<Rightarrow> False)
      | CommitCmd c \<Rightarrow> (case p of CommitResp r \<Rightarrow> mr_session_id r = cm_session_id c | _ \<Rightarrow> False)
      | CancelCmd c \<Rightarrow> (case p of CancelResp r \<Rightarrow> xr_session_id r = cc_session_id c | _ \<Rightarrow> False)
      | FocusLostCmd c \<Rightarrow> (case p of FocusLostResp r \<Rightarrow> fr_session_id r = fl_session_id c | _ \<Rightarrow> False)
      | GenerationCmd c \<Rightarrow> (case p of GenerationResp r \<Rightarrow> gr_session_id r = gq_session_id c | _ \<Rightarrow> False)
      | HealthCmd \<Rightarrow> (case p of HealthResp r \<Rightarrow> True | _ \<Rightarrow> False)
      | _ \<Rightarrow> False)"

locale answering_backend =
  fixes ops :: "'b backend_ops"
  assumes in_kind: "be_execute ops b cmd f = (b', Inr p) \<Longrightarrow> answers_command cmd p"
    and healthy: "hr_max_frame_bytes (be_health ops b) \<noteq> 0"

lemma det_in_kind:
  "det_execute b cmd f = Some (b', Inr p) \<Longrightarrow> answers_command cmd p"
  by (cases cmd) (auto simp: det_execute_def answers_command_def Let_def split: option.splits sum.splits if_splits)

interpretation det: answering_backend deterministic_ops
proof
  fix b b' :: det_backend and cmd f p
  assume "be_execute deterministic_ops b cmd f = (b', Inr p)"
  then show "answers_command cmd p"
    by (auto simp: deterministic_ops_def dest: det_in_kind split: option.splits)
qed (simp add: deterministic_ops_def health_ready_def)

end
