(* ===== verification/Sync_Correct.thy ===== *)
theory Sync_Correct
  imports Sync_Replies Deterministic_Backend
begin

text \<open>
  The properties of the synchronous broker: generations advance by one whatever the backend
  does, stale and surplus requests change nothing, every answer is valid, the session table
  stays consistent, and an enhancement token that went stale stays stale.
\<close>

section \<open>Advancing the generation\<close>

lemma session_generation_set [simp]:
  "session_generation (set_last_valid sid st s) x = session_generation s x"
  by (auto simp: session_generation_def set_last_valid_def split: option.splits)

lemma run_backend_generation:
  "run_backend ops rid cmd s = (s', r) \<Longrightarrow> session_generation s' x = session_generation s x"
  by (simp add: session_generation_def run_backend_frame)

lemma advance_generation_value:
  "advance_generation sid e s = (s1, Inr g) \<Longrightarrow> session_generation s1 sid = Some g"
  using advance_Inr [of sid e s s1 g]
  by (auto simp: session_generation_def set_generation_def)

lemma advance_succeeds:
  assumes "session_generation s sid = Some e" "e \<noteq> - 1"
  shows "advance_generation sid e s = (set_generation sid (e + 1) s, Inr (e + 1))"
proof -
  obtain g where "checked_add_u64 e 1 = Some g"
    using assms(2) checked_succ_None_iff by fastforce
  then show ?thesis
    using assms checked_succ_Some_eq [of e g]
    by (auto simp: advance_generation_def check_generation_Inr_iff next_generation_def
        bind_result_def check_generation_def)
qed

text \<open>A state-changing request for session \<open>sid\<close> that expects generation \<open>e\<close>.\<close>

fun state_change :: "request_command \<Rightarrow> u64 \<Rightarrow> u64 \<Rightarrow> bool" where
  "state_change (KeyCmd c) sid e \<longleftrightarrow> kq_session_id c = sid \<and> kq_generation c = e"
| "state_change (EditCmd c) sid e \<longleftrightarrow> eq_session_id c = sid \<and> eq_generation c = e"
| "state_change (CommitCmd c) sid e \<longleftrightarrow> cm_session_id c = sid \<and> cm_generation c = e"
| "state_change (CancelCmd c) sid e \<longleftrightarrow> cc_session_id c = sid \<and>
     (cc_generation c = None \<or> cc_generation c = Some e)"
| "state_change _ sid e \<longleftrightarrow> False"

definition answers_generation :: "u64 \<Rightarrow> u64 \<Rightarrow> 'b outcome \<Rightarrow> bool" where
  "answers_generation sid g out \<longleftrightarrow>
     session_generation (fst out) sid = Some g \<and>
     (\<forall>resp. snd out = Inr resp \<longrightarrow> rp_generation resp = Some g)"

lemma answers_generation_simps [simp]:
  "answers_generation sid g (s, Inl e) \<longleftrightarrow> session_generation s sid = Some g"
  "answers_generation sid g (s, Inr resp) \<longleftrightarrow>
     session_generation s sid = Some g \<and> rp_generation resp = Some g"
  by (auto simp: answers_generation_def)

lemma envelope_generations [simp]:
  "rp_generation (success rid p) = payload_generation p"
  "rp_generation (cancelled_response rid g m retry f) = Some g"
  "rp_generation (commit_failure rid g code m) = Some g"
  "payload_generation (fallback_key_payload sid g st) = Some g"
  "payload_generation (fallback_edit_payload sid g st) = Some g"
  "payload_generation (fallback_convert_payload c g st) = Some g"
  by (simp_all add: success_def cancelled_response_def failure_envelope_def commit_failure_def
      fallback_key_payload_def fallback_edit_payload_def fallback_convert_payload_def
      split: prod.splits)

lemma state_change_answers:
  assumes cur: "session_generation s sid = Some e" and "e \<noteq> - 1"
    and "state_change cmd sid e"
  shows "answers_generation sid (e + 1) (broker_command ops rid cmd s)"
proof -
  note adv = advance_succeeds [OF assms(1,2)]
  have run: "session_generation s2 sid = Some (e + 1)"
    if "run_backend ops rid c (set_generation sid (e + 1) s) = (s2, r)" for c s2 r
    using run_backend_generation [OF that] advance_generation_value [OF adv] by simp
  have cancel_run: "session_generation s2 sid = Some (e + 1)"
    if "run_backend ops rid c (set_generation sid (e + 1) s\<lparr>bk_cancellations := cn\<rparr>) = (s2, r)"
    for c cn s2 r
    using run_backend_generation [OF that] advance_generation_value [OF adv]
    by (simp add: session_generation_def)
  show ?thesis
  proof (cases cmd)
    case (KeyCmd c)
    with assms adv run show ?thesis
      by (auto simp: broker_key_def Let_def simp del: validate_payload.simps
          split: prod.splits sum.splits response_payload.splits backend_error.splits)
  next
    case (EditCmd c)
    with assms adv run show ?thesis
      by (auto simp: broker_edit_def Let_def simp del: validate_payload.simps
          split: prod.splits sum.splits response_payload.splits backend_error.splits)
  next
    case (CommitCmd c)
    with assms adv run show ?thesis
      by (auto simp: broker_commit_def Let_def simp del: validate_payload.simps
          split: prod.splits sum.splits response_payload.splits backend_error.splits)
  next
    case (CancelCmd c)
    with assms have "(case cc_generation c of None \<Rightarrow> e | Some x \<Rightarrow> x) = e" by auto
    with CancelCmd assms adv run cancel_run show ?thesis
      by (auto simp: broker_cancel_def Let_def split: prod.splits sum.splits option.splits)
  qed (use assms in simp_all)
qed

lemma state_change_command:
  "state_change cmd sid e \<Longrightarrow> command_session_id cmd = Some sid"
  by (cases cmd) auto

lemma state_change_keeps: "state_change cmd sid e \<Longrightarrow> keeps 1 s (fst (broker_command ops rid cmd s))"
  by (cases cmd) (auto simp del: One_nat_def
      intro: broker_key_keeps broker_edit_keeps broker_commit_keeps broker_cancel_keeps)

text \<open>A token taken before the generation moved is not current afterwards.\<close>

lemma moved_not_current:
  assumes "sync_inv s" "keeps 1 s s'" "sync_enhancement_token s sid = Some t"
    and "session_generation s sid = Some e" "session_generation s' sid = Some g" "g \<noteq> e"
  shows "\<not> is_current (bk_cells s') t"
proof -
  obtain r where r: "fmlookup (bk_sessions s) sid = Some r" "sr_generation r = e"
    using assms(4) by (auto simp: session_generation_def)
  then obtain r' where r': "fmlookup (bk_sessions s') sid = Some r'" "sr_cell r' = sr_cell r"
    using assms(2) unfolding keeps_def by blast
  have "sync_inv s'" using assms(1,2) by (simp add: keeps_def)
  then have "gc_clock (bk_cells s' (sr_cell r)) = sr_generation r'"
    using sync_inv_session [of s' sid r'] r' by (simp add: session_ok_def)
  moreover have "gt_cell t = sr_cell r" "gt_generation t = e"
    using assms(3) r by (auto simp: sync_enhancement_token_def from_shared_def)
  moreover have "sr_generation r' = g"
    using assms(5) r' by (simp add: session_generation_def)
  ultimately show ?thesis using assms(6) by (simp add: is_current_def)
qed

section \<open>Stale requests\<close>

fun generation_checked :: "request_command \<Rightarrow> bool" where
  "generation_checked (PrepareRerankSessionCmd c) \<longleftrightarrow> False"
| "generation_checked cmd \<longleftrightarrow> expected_generation cmd \<noteq> None"

lemma advance_stale:
  "session_generation s sid = Some g \<Longrightarrow> e \<noteq> g \<Longrightarrow>
   advance_generation sid e s = (s, Inl (BR_StaleGeneration sid e g))"
  by (simp add: advance_generation_def check_generation_def)

lemma stale_command:
  assumes "session_generation s sid = Some g" "e \<noteq> g"
    and "generation_checked cmd" "command_session_id cmd = Some sid" "expected_generation cmd = Some e"
  shows "broker_command ops rid cmd s = (s, Inl (BR_StaleGeneration sid e g))"
  using assms
  by (cases cmd) (auto simp: broker_key_def broker_edit_def broker_convert_def broker_commit_def
      broker_cancel_def broker_focus_lost_def broker_enhancement_def check_generation_def
      advance_stale)

section \<open>Clients of a well-behaved backend\<close>

context answering_backend
begin

lemma create_answer:
  assumes "be_execute ops (bk_backend s) (CreateSessionCmd c) False = (b, Inr p)"
    and "fmlookup (bk_sessions s) (cs_session_id c) = None"
    and "fmlen (bk_sessions s) < unat (bc_max_sessions (bk_config s))"
    and "fmlookup (cn_tokens (bk_cancellations s)) rid = None"
  shows "snd (broker_create ops rid c s) =
    Inr (success rid (created_payload (cs_session_id c) FM_None))"
proof -
  obtain r where "p = CreatedResp r" "sc_session_id r = cs_session_id c"
    using in_kind [OF assms(1)] by (auto simp: answers_command_def split: response_payload.splits)
  with assms show ?thesis
    by (auto simp: broker_create_def run_backend_def Let_def new_token_def register_token_def
        is_cancelled_def created_payload_def)
qed

lemma always_valid: "sync_inv s \<Longrightarrow> validate_response (snd (broker_handle ops q s)) = Inr ()"
  by (rule broker_handle_valid) (simp_all add: healthy)

end

section \<open>Properties\<close>

definition demo_broker :: "det_backend broker" where
  "demo_broker =
     new_session 7 0 Regular False
       (broker_with_config \<lparr>db_sessions = fmupd 7 [] fmempty, db_fail_next = None\<rparr>
          default_broker_config)"

definition demo_key :: "u64 \<Rightarrow> request_command" where
  "demo_key g = KeyCmd \<lparr>kq_session_id = 7, kq_generation = g, kq_key = Space\<rparr>"

lemma keeps_inv: "keeps k s s' \<Longrightarrow> sync_inv s \<Longrightarrow> sync_inv s'"
  by (simp add: keeps_def)

lemma demo_broker_inv: "sync_inv demo_broker"
  unfolding demo_broker_def
  by (rule keeps_inv [OF new_session_keeps initial_inv])
    (simp_all add: broker_with_config_def default_broker_config_def)

lemma demo_generation: "session_generation demo_broker 7 = Some 0"
  by (simp add: demo_broker_def new_session_def session_generation_def)

lemma demo_key_valid: "validate_request (new_request 9 (demo_key g)) = Inr ()"
  by (simp add: validate_request_def new_request_def demo_key_def)

text \<open>
  The session table of a synchronous broker is consistent after any sequence of requests
  over any backend: at most \<open>max_sessions\<close> sessions, each with its own cell whose clock is the
  session's generation and which is active, and each remembered composition is valid.
\<close>

theorem sync_table_consistent: "sync_inv (broker_run ops qs (broker_with_config b cfg))"
  by (rule broker_run_inv [OF initial_inv])

text \<open>
  A key, edit, commit or cancel request for the current generation moves the session to
  the next generation, whatever the backend answers and even if the request id is a
  duplicate; the answer carries that generation, and no enhancement token taken before is
  current any more.
\<close>

theorem sync_state_change:
  assumes "sync_inv s" "validate_request q = Inr ()" "session_generation s sid = Some e"
    and "state_change (rq_command q) sid e" "e \<noteq> - 1" "dispatch ops q s = (s', r)"
  shows "session_generation s' sid = Some (e + 1)
    \<and> (\<forall>resp. r = Inr resp \<longrightarrow> rp_generation resp = Some (e + 1))
    \<and> (\<forall>t. sync_enhancement_token s sid = Some t \<longrightarrow> \<not> is_current (bk_cells s') t)"
proof -
  have d: "broker_command ops (rq_request_id q) (rq_command q) s = (s', r)"
    using assms(2,6) by (simp add: dispatch_def)
  have a: "answers_generation sid (e + 1) (s', r)"
    using state_change_answers [OF assms(3,5,4), of ops "rq_request_id q"] d by simp
  have k: "keeps 1 s s'" using state_change_keeps [OF assms(4), of s ops "rq_request_id q"] d by simp
  have g: "session_generation s' sid = Some (e + 1)"
    using a by (simp add: answers_generation_def)
  have "\<not> is_current (bk_cells s') t" if "sync_enhancement_token s sid = Some t" for t
    by (rule moved_not_current [OF assms(1) k that assms(3) g]) simp
  with a show ?thesis by (simp add: answers_generation_def)
qed

theorem sync_state_change_witness:
  "session_generation (fst (dispatch deterministic_ops (new_request 9 (demo_key 0)) demo_broker)) 7
     = Some 1"
  using sync_state_change [OF demo_broker_inv demo_key_valid demo_generation, of 0 deterministic_ops
      "fst (dispatch deterministic_ops (new_request 9 (demo_key 0)) demo_broker)"
      "snd (dispatch deterministic_ops (new_request 9 (demo_key 0)) demo_broker)"]
  by (simp add: new_request_def demo_key_def)

text \<open>
  A request whose expected generation is not the session's is refused with
  \<open>StaleGeneration\<close> and the current generation, and changes nothing: not the table, not the
  backend, not the registry.
\<close>

theorem sync_stale_refused:
  assumes "validate_request q = Inr ()" "session_generation s sid = Some g"
    and "generation_checked (rq_command q)" "command_session_id (rq_command q) = Some sid"
    and "expected_generation (rq_command q) = Some e" "e \<noteq> g"
  shows "broker_handle ops q s = (s, error_envelope q (BR_StaleGeneration sid e g))
    \<and> rp_generation (snd (broker_handle ops q s)) = Some g"
  using assms stale_command [OF assms(2,6,3,4,5), of ops "rq_request_id q"]
  by (simp add: broker_handle_def dispatch_def error_envelope_def failure_envelope_def Let_def)

theorem sync_stale_refused_witness:
  "fst (broker_handle deterministic_ops (new_request 9 (demo_key 5)) demo_broker) = demo_broker"
  using sync_stale_refused [OF demo_key_valid demo_generation, of 5 5 deterministic_ops]
  by (simp add: new_request_def demo_key_def)

text \<open>
  Every answer of the synchronous broker is an envelope that validates, whatever the
  backend answers, unless the request asks for the health of a backend that reports no frame
  limit.
\<close>

theorem sync_answers_valid:
  assumes "sync_inv s"
    and "rq_command q \<noteq> HealthCmd \<or> hr_max_frame_bytes (be_health ops (bk_backend s)) \<noteq> 0"
  shows "validate_response (snd (broker_handle ops q s)) = Inr ()"
  using assms by (intro broker_handle_valid) auto

theorem sync_answers_valid_witness:
  "validate_response (snd (broker_handle deterministic_ops (new_request 9 (demo_key 0)) demo_broker))
     = Inr ()"
  by (rule sync_answers_valid [OF demo_broker_inv]) (simp add: new_request_def demo_key_def)

text \<open>
  A backend that reports a zero frame limit makes the broker's health answer
  invalid: the handler marks the status but leaves the limit at zero, so the envelope cannot
  be validated and no peer can read it.
\<close>

theorem sync_health_without_limit:
  assumes "hr_max_frame_bytes (be_health ops (bk_backend s)) = 0" "rid \<noteq> 0"
  shows "validate_response (snd (broker_handle ops (new_request rid HealthCmd) s))
    = Inl (VE_InvalidFrameLimit 0)"
  using assms check_detail_ok
  by (simp add: broker_handle_def dispatch_def validate_request_def new_request_def
      broker_health_def validate_response_def success_def validate_id_def reject_if_def)

definition no_limit_ops :: "unit backend_ops" where
  "no_limit_ops =
     \<lparr>be_execute = (\<lambda>b cmd f. (b, Inl BE_Timeout)), be_health = (\<lambda>b. health_ready 0)\<rparr>"

theorem sync_health_without_limit_witness:
  "validate_response (snd (broker_handle no_limit_ops (new_request 1 HealthCmd)
     (broker_with_config () default_broker_config))) = Inl (VE_InvalidFrameLimit 0)"
  by (rule sync_health_without_limit) (simp_all add: no_limit_ops_def health_ready_def)

text \<open>
  An enhancement token that is not current at some point is never current again, through
  any further sequence of fewer than \<open>2 ^ 64\<close> requests: model output for an older composition
  cannot come back to life.
\<close>

theorem sync_token_stays_stale:
  assumes "sync_inv s" "sync_enhancement_token s sid = Some t" "length qs + length rs < 2 ^ 64"
    and "\<not> is_current (bk_cells (broker_run ops qs s)) t"
  shows "\<not> is_current (bk_cells (broker_run ops rs (broker_run ops qs s))) t"
  using assms by (rule sync_stale_forever)

theorem sync_token_stays_stale_witness:
  "\<not> is_current (bk_cells (broker_run deterministic_ops [new_request 10 (demo_key 1)]
      (broker_run deterministic_ops [new_request 9 (demo_key 0)] demo_broker)))
     (the (sync_enhancement_token demo_broker 7))"
proof (rule sync_token_stays_stale [OF demo_broker_inv])
  show t: "sync_enhancement_token demo_broker 7 = Some (the (sync_enhancement_token demo_broker 7))"
    by (simp add: sync_enhancement_token_def demo_broker_def new_session_def)
  have change: "state_change (demo_key 0) 7 0" by (simp add: demo_key_def)
  have g: "session_generation (fst (broker_command deterministic_ops 9 (demo_key 0) demo_broker)) 7
      = Some (0 + 1)"
    using state_change_answers [OF demo_generation _ change, of deterministic_ops 9]
    by (simp add: answers_generation_def)
  have "\<not> is_current (bk_cells (fst (broker_command deterministic_ops 9 (demo_key 0) demo_broker)))
      (the (sync_enhancement_token demo_broker 7))"
    by (rule moved_not_current [OF demo_broker_inv state_change_keeps [OF change] t demo_generation g]) simp
  then show "\<not> is_current (bk_cells (broker_run deterministic_ops [new_request 9 (demo_key 0)] demo_broker))
      (the (sync_enhancement_token demo_broker 7))"
    using demo_key_valid [of 0] by (simp add: broker_handle_state new_request_def)
qed simp

text \<open>
  The deterministic backend edits by scalar index: a validated replacement inside the
  composition is the list edit \<open>take start, new text, drop end\<close>, a range that ends beyond it
  is refused with the composition unchanged, and \<open>replace_range\<close> never panics although it
  works with byte offsets.
\<close>

theorem det_replace_is_list_edit:
  assumes "validate_range r = Inr ()" "fmlookup (db_sessions b) sid = Some t" "db_fail_next b = None"
  shows "det_execute b (EditCmd \<lparr>eq_session_id = sid, eq_generation = g, eq_action = Replace r v\<rparr>) False =
    Some (if unat (range_end r) \<le> length t
          then (let t' = take (unat (range_start r)) t @ v @ drop (unat (range_end r)) t in
            (det_put sid t' b,
             Inr (EditResp \<lparr>dr_session_id = sid, dr_generation = 0, dr_preedit = t',
               dr_consumed = True, dr_candidates = [], dr_focused_index = None,
               dr_fallback = FM_None\<rparr>)))
          else (b, Inl out_of_range))"
  using assms by (simp add: det_execute_def replace_range_spec validate_range_def not_less Let_def)

theorem det_replace_is_list_edit_witness:
  "det_execute (det_put 7 [0x3042, 98, 99] det_new)
     (EditCmd \<lparr>eq_session_id = 7, eq_generation = 0,
        eq_action = Replace \<lparr>range_start = 1, range_end = 2\<rparr> [120]\<rparr>) False =
   Some (det_put 7 [0x3042, 120, 99] (det_put 7 [0x3042, 98, 99] det_new),
     Inr (EditResp \<lparr>dr_session_id = 7, dr_generation = 0, dr_preedit = [0x3042, 120, 99],
        dr_consumed = True, dr_candidates = [], dr_focused_index = None, dr_fallback = FM_None\<rparr>))"
  by (subst det_replace_is_list_edit [of "\<lparr>range_start = 1, range_end = 2\<rparr>" _ 7 "[0x3042, 98, 99]"])
    (simp_all add: validate_range_def det_put_def det_new_def Let_def)

end
