(* ===== verification/Session_Broker.thy ===== *)
theory Session_Broker
  imports Generation Validation_Facts
begin

text \<open>
  The asynchronous \<open>SessionBroker<B>\<close> of \<open>kanai-broker/src/session.rs\<close>. A session entry is
  an address: its data (\<open>last_valid\<close>, \<open>owner\<close> and the constant fields) lives in one heap, its
  clock, epoch and active flag in the cell of the same address. Every operation is split where
  the source awaits: a start under the operation lock, the backend call, and a finish; the
  handlers compose the three, \<open>Session_Interleaving\<close> interleaves them.
\<close>

section \<open>State\<close>

record session_entry =
  se_last_valid :: "composition_state option"
  se_owner :: "rstr option"
  se_field_class :: field_class
  se_rerank_only :: bool

record session_broker =
  sb_config :: broker_config
  sb_sessions :: "(u64, nat) fmap"
  sb_entries :: "nat \<Rightarrow> session_entry"
  sb_cells :: cells
  sb_next :: nat
  sb_invalidated :: "u64 fset"
  sb_cancellations :: cancellations

definition new_entry :: "field_class \<Rightarrow> bool \<Rightarrow> session_entry" where
  "new_entry fclass rerank =
     \<lparr>se_last_valid = None, se_owner = None, se_field_class = fclass, se_rerank_only = rerank\<rparr>"

definition session_broker_new :: "broker_config \<Rightarrow> session_broker" where
  "session_broker_new cfg =
     \<lparr>sb_config = cfg, sb_sessions = fmempty, sb_entries = (\<lambda>_. new_entry Regular False),
      sb_cells = (\<lambda>_. new_cell 0), sb_next = 0, sb_invalidated = {||},
      sb_cancellations = no_cancellations\<rparr>"

definition entry_of :: "session_broker \<Rightarrow> u64 \<Rightarrow> nat option" where
  "entry_of s sid = fmlookup (sb_sessions s) sid"

definition session_count :: "session_broker \<Rightarrow> nat" where
  "session_count s = fmlen (sb_sessions s)"

definition entry_generation :: "session_broker \<Rightarrow> u64 \<Rightarrow> u64 option" where
  "entry_generation s sid = map_option (\<lambda>a. gc_clock (sb_cells s a)) (entry_of s sid)"

definition entry_token :: "session_broker \<Rightarrow> u64 \<Rightarrow> nat \<Rightarrow> generation_token" where
  "entry_token s sid a =
     from_shared sid (gc_clock (sb_cells s a)) (sb_cells s) a (se_field_class (sb_entries s a))"

definition enhancement_token :: "session_broker \<Rightarrow> u64 \<Rightarrow> generation_token option" where
  "enhancement_token s sid = map_option (entry_token s sid) (entry_of s sid)"

section \<open>Failures\<close>

definition session_failure ::
  "u64 \<Rightarrow> u64 option \<Rightarrow> error_code \<Rightarrow> rstr \<Rightarrow> fallback_mode \<Rightarrow> response_envelope" where
  "session_failure rid g code message fallback =
     failure_envelope rid g (with_generation g (with_fallback fallback (new_error code message False)))"

definition duplicate_request :: "u64 \<Rightarrow> response_envelope" where
  "duplicate_request rid =
     session_failure rid None EC_InvalidRequest
       (lit ''request '' @ decw rid @ lit '' is already active'') FM_None"

definition unknown_session :: "u64 \<Rightarrow> u64 \<Rightarrow> u64 \<Rightarrow> response_envelope" where
  "unknown_session rid sid g =
     session_failure rid (Some g) EC_UnknownSession
       (lit ''session '' @ decw sid @ lit '' does not exist'') FM_None"

definition stale_failure :: "u64 \<Rightarrow> u64 \<Rightarrow> u64 \<Rightarrow> u64 \<Rightarrow> response_envelope" where
  "stale_failure rid sid expected current =
     session_failure rid (Some current) EC_StaleGeneration
       (lit ''stale generation '' @ decw expected @ lit '' for session '' @ decw sid
          @ lit ''; current generation is '' @ decw current) FM_None"

definition validation_failure :: "u64 \<Rightarrow> u64 option \<Rightarrow> validation_error \<Rightarrow> response_envelope" where
  "validation_failure rid g e =
     session_failure rid g
       (case e of VE_UnsupportedVersion _ _ \<Rightarrow> EC_UnsupportedVersion | _ \<Rightarrow> EC_InvalidRequest)
       (validation_message e) FM_None"

definition backend_failure :: "u64 \<Rightarrow> u64 \<Rightarrow> backend_error \<Rightarrow> response_envelope" where
  "backend_failure rid g e =
     session_failure rid (Some g) (backend_error_code e)
       (public_backend_message (backend_error_code e)) FM_DirectInput"

section \<open>State changes\<close>

definition set_cell :: "nat \<Rightarrow> gen_cell \<Rightarrow> session_broker \<Rightarrow> session_broker" where
  "set_cell a c s = s\<lparr>sb_cells := (sb_cells s)(a := c)\<rparr>"

definition set_entry :: "nat \<Rightarrow> session_entry \<Rightarrow> session_broker \<Rightarrow> session_broker" where
  "set_entry a e s = s\<lparr>sb_entries := (sb_entries s)(a := e)\<rparr>"

definition register_request :: "u64 \<Rightarrow> session_broker \<Rightarrow> session_broker \<times> nat option" where
  "register_request rid s =
     (let (c1, token) = new_token (sb_cancellations s) in
      case register_token rid token c1 of
        Inl _ \<Rightarrow> (s\<lparr>sb_cancellations := c1\<rparr>, None)
      | Inr c2 \<Rightarrow> (s\<lparr>sb_cancellations := c2\<rparr>, Some token))"

definition finish_registration :: "u64 \<Rightarrow> session_broker \<Rightarrow> session_broker" where
  "finish_registration rid s = s\<lparr>sb_cancellations := finish_request rid (sb_cancellations s)\<rparr>"

text \<open>\<open>Arc::ptr_eq\<close> of the table's entry and the one the caller holds.\<close>

definition ensure_entry :: "u64 \<Rightarrow> u64 \<Rightarrow> nat \<Rightarrow> session_broker \<Rightarrow> response_envelope + unit" where
  "ensure_entry rid sid a s =
     (case entry_of s sid of
        None \<Rightarrow> Inl (unknown_session rid sid 0)
      | Some current \<Rightarrow> if current \<noteq> a then Inl (unknown_session rid sid 0) else Inr ())"

definition rerank_only_failure :: "u64 \<Rightarrow> u64 option \<Rightarrow> response_envelope" where
  "rerank_only_failure rid g =
     session_failure rid g EC_InvalidRequest
       (lit ''rerank-only session cannot execute composition operations'') FM_None"

definition exhausted_failure :: "u64 \<Rightarrow> u64 \<Rightarrow> response_envelope" where
  "exhausted_failure rid current =
     session_failure rid (Some current) EC_GenerationExhausted
       (lit ''session generation is exhausted'') FM_None"

text \<open>The atomics after \<open>ensure_entry\<close> in \<open>begin_state_change\<close> and \<open>begin_cancel\<close>.\<close>

definition advance_entry ::
  "u64 \<Rightarrow> u64 \<Rightarrow> nat \<Rightarrow> u64 option \<Rightarrow> session_broker \<Rightarrow>
   session_broker \<times> (response_envelope + u64)" where
  "advance_entry rid sid a expected s =
     (let cell = sb_cells s a; current = gc_clock cell in
      if se_rerank_only (sb_entries s a) then (s, Inl (rerank_only_failure rid expected))
      else if \<not> gc_active cell
      then (s, Inl (unknown_session rid sid (case expected of None \<Rightarrow> 0 | Some e \<Rightarrow> e)))
      else if expected \<noteq> None \<and> expected \<noteq> Some current
      then (s, Inl (stale_failure rid sid (the expected) current))
      else case checked_add_u64 current 1 of
        None \<Rightarrow> (s, Inl (exhausted_failure rid current))
      | Some g \<Rightarrow> (set_cell a (bump_cell g cell) s, Inr g))"

definition begin_state_change ::
  "u64 \<Rightarrow> u64 \<Rightarrow> nat \<Rightarrow> u64 \<Rightarrow> session_broker \<Rightarrow> session_broker \<times> (response_envelope + u64)" where
  "begin_state_change rid sid a expected s =
     (case ensure_entry rid sid a s of
        Inl resp \<Rightarrow> (s, Inl resp)
      | Inr _ \<Rightarrow> advance_entry rid sid a (Some expected) s)"

definition begin_cancel ::
  "u64 \<Rightarrow> u64 \<Rightarrow> nat \<Rightarrow> u64 option \<Rightarrow> session_broker \<Rightarrow>
   session_broker \<times> (response_envelope + u64)" where
  "begin_cancel rid sid a expected s =
     (case ensure_entry rid sid a s of
        Inl resp \<Rightarrow> (s, Inl resp)
      | Inr _ \<Rightarrow> advance_entry rid sid a expected s)"

text \<open>\<open>clock.compare_exchange(attempted, expected)\<close>; the epoch stays advanced.\<close>

definition rollback_state_change :: "nat \<Rightarrow> u64 \<Rightarrow> u64 \<Rightarrow> session_broker \<Rightarrow> session_broker" where
  "rollback_state_change a expected attempted s =
     (if gc_clock (sb_cells s a) = attempted
      then set_cell a ((sb_cells s a)\<lparr>gc_clock := expected\<rparr>) s else s)"

definition remember_state :: "u64 \<Rightarrow> composition_state \<Rightarrow> session_broker \<Rightarrow> session_broker" where
  "remember_state sid st s =
     (case entry_of s sid of
        None \<Rightarrow> s
      | Some a \<Rightarrow> set_entry a ((sb_entries s a)\<lparr>se_last_valid := Some st\<rparr>) s)"

definition clear_state :: "u64 \<Rightarrow> nat \<Rightarrow> session_broker \<Rightarrow> session_broker" where
  "clear_state sid a s =
     (if entry_of s sid = Some a
      then set_entry a ((sb_entries s a)\<lparr>se_last_valid := None\<rparr>) s else s)"

definition invalidate_all_sessions :: "session_broker \<Rightarrow> session_broker" where
  "invalidate_all_sessions s = s\<lparr>
     sb_sessions := fmempty,
     sb_cells := (\<lambda>a. if a |\<in>| fmran (sb_sessions s) then (sb_cells s a)\<lparr>gc_active := False\<rparr>
                      else sb_cells s a),
     sb_entries := (\<lambda>a. if a |\<in>| fmran (sb_sessions s) then (sb_entries s a)\<lparr>se_last_valid := None\<rparr>
                        else sb_entries s a),
     sb_invalidated := sb_invalidated s |\<union>| fmdom (sb_sessions s)\<rparr>"

definition invalidate_session ::
  "u64 \<Rightarrow> u64 \<Rightarrow> session_broker \<Rightarrow> session_broker \<times> response_envelope" where
  "invalidate_session rid g s =
     (invalidate_all_sessions s,
      session_failure rid (Some g) EC_BackendUnavailable
        (lit ''Mozc session invalidated after backend failure'') FM_DirectInput)"

definition session_fallback_state :: "session_broker \<Rightarrow> u64 \<Rightarrow> composition_state option" where
  "session_fallback_state s sid =
     (if bc_fallback (sb_config s) \<noteq> LastValidPreedit then None
      else Option.bind (entry_of s sid) (\<lambda>a. se_last_valid (sb_entries s a)))"

definition fallback_key :: "u64 \<Rightarrow> u64 \<Rightarrow> u64 \<Rightarrow> composition_state option \<Rightarrow> response_envelope" where
  "fallback_key rid sid g st =
     (let (state, fallback) = fallback_of st in
      success rid (KeyResp \<lparr>kr_session_id = sid, kr_generation = g, kr_preedit = st_preedit state,
        kr_consumed = False, kr_candidates = st_candidates state,
        kr_focused_index = st_focused_index state, kr_fallback = fallback\<rparr>))"

definition fallback_edit :: "u64 \<Rightarrow> u64 \<Rightarrow> u64 \<Rightarrow> composition_state option \<Rightarrow> response_envelope" where
  "fallback_edit rid sid g st =
     (let (state, fallback) = fallback_of st in
      success rid (EditResp \<lparr>dr_session_id = sid, dr_generation = g, dr_preedit = st_preedit state,
        dr_consumed = False, dr_candidates = st_candidates state,
        dr_focused_index = st_focused_index state, dr_fallback = fallback\<rparr>))"

definition fallback_convert ::
  "u64 \<Rightarrow> convert_request \<Rightarrow> u64 \<Rightarrow> composition_state option \<Rightarrow> response_envelope" where
  "fallback_convert rid c g st =
     (let (state, fallback) = fallback_of st in
      success rid (ConvertResp \<lparr>vr_session_id = cv_session_id c, vr_generation = g,
        vr_preedit = st_preedit state, vr_consumed = False, vr_candidates = st_candidates state,
        vr_focused_index = st_focused_index state, vr_page = cv_page c,
        vr_page_size = cv_page_size c, vr_has_more = False, vr_fallback = fallback\<rparr>))"

section \<open>Finishing an operation\<close>

text \<open>
  What each handler does with the backend's result, after \<open>cancellations.finish\<close>. \<open>a\<close> is the
  entry the handler holds and \<open>g\<close> the generation it published.
\<close>

type_synonym backend_result = "backend_error + response_payload"

definition finish_key ::
  "u64 \<Rightarrow> key_request \<Rightarrow> nat \<Rightarrow> u64 \<Rightarrow> backend_result \<Rightarrow> session_broker \<Rightarrow>
   session_broker \<times> response_envelope" where
  "finish_key rid c a g result s =
     (let sid = kq_session_id c; fallback = session_fallback_state s sid in
      case result of
        Inr (KeyResp r) \<Rightarrow>
          (let r' = r\<lparr>kr_generation := g, kr_fallback := FM_None\<rparr> in
           if kr_session_id r = sid \<and> is_ok (validate_payload (KeyResp r'))
           then (remember_state sid (key_state r') s, success rid (KeyResp r'))
           else invalidate_session rid g s)
      | Inr _ \<Rightarrow> invalidate_session rid g s
      | Inl BE_Cancelled \<Rightarrow>
          (rollback_state_change a (kq_generation c) g s,
           fallback_key rid sid (kq_generation c) fallback)
      | Inl (BE_Rejected _) \<Rightarrow>
          (rollback_state_change a (kq_generation c) g s,
           fallback_key rid sid (kq_generation c) fallback)
      | Inl _ \<Rightarrow> invalidate_session rid g s)"

definition finish_edit ::
  "u64 \<Rightarrow> edit_request \<Rightarrow> nat \<Rightarrow> u64 \<Rightarrow> backend_result \<Rightarrow> session_broker \<Rightarrow>
   session_broker \<times> response_envelope" where
  "finish_edit rid c a g result s =
     (let sid = eq_session_id c; fallback = session_fallback_state s sid in
      case result of
        Inr (EditResp r) \<Rightarrow>
          (let r' = r\<lparr>dr_generation := g, dr_fallback := FM_None\<rparr> in
           if dr_session_id r = sid \<and> is_ok (validate_payload (EditResp r'))
           then (remember_state sid (edit_state r') s, success rid (EditResp r'))
           else invalidate_session rid g s)
      | Inr _ \<Rightarrow> invalidate_session rid g s
      | Inl BE_Cancelled \<Rightarrow>
          (rollback_state_change a (eq_generation c) g s,
           fallback_edit rid sid (eq_generation c) fallback)
      | Inl (BE_Rejected _) \<Rightarrow>
          (rollback_state_change a (eq_generation c) g s,
           fallback_edit rid sid (eq_generation c) fallback)
      | Inl _ \<Rightarrow> invalidate_session rid g s)"

definition finish_convert ::
  "u64 \<Rightarrow> convert_request \<Rightarrow> nat \<Rightarrow> u64 \<Rightarrow> backend_result \<Rightarrow> session_broker \<Rightarrow>
   session_broker \<times> response_envelope" where
  "finish_convert rid c a g result s =
     (let sid = cv_session_id c; fallback = session_fallback_state s sid in
      case result of
        Inr (ConvertResp r) \<Rightarrow>
          (let r' = r\<lparr>vr_generation := g, vr_fallback := FM_None\<rparr> in
           if vr_session_id r = sid \<and> is_ok (validate_payload (ConvertResp r'))
           then (remember_state sid (convert_state r') s, success rid (ConvertResp r'))
           else invalidate_session rid g s)
      | Inr _ \<Rightarrow> invalidate_session rid g s
      | Inl BE_Cancelled \<Rightarrow>
          (rollback_state_change a (cv_generation c) g s,
           fallback_convert rid c (cv_generation c) fallback)
      | Inl (BE_Rejected _) \<Rightarrow>
          (rollback_state_change a (cv_generation c) g s,
           fallback_convert rid c (cv_generation c) fallback)
      | Inl _ \<Rightarrow> invalidate_session rid g s)"

definition finish_commit ::
  "u64 \<Rightarrow> commit_request \<Rightarrow> nat \<Rightarrow> u64 \<Rightarrow> backend_result \<Rightarrow> session_broker \<Rightarrow>
   session_broker \<times> response_envelope" where
  "finish_commit rid c a g result s =
     (let sid = cm_session_id c in
      case result of
        Inr (CommitResp r) \<Rightarrow>
          (let r' = r\<lparr>mr_generation := g\<rparr> in
           if mr_session_id r = sid \<and> is_ok (validate_payload (CommitResp r'))
           then (clear_state sid a s, success rid (CommitResp r'))
           else invalidate_session rid g s)
      | Inr _ \<Rightarrow> invalidate_session rid g s
      | Inl BE_Cancelled \<Rightarrow>
          (rollback_state_change a (cm_generation c) g s,
           backend_failure rid (cm_generation c) BE_Cancelled)
      | Inl (BE_Rejected m) \<Rightarrow>
          (rollback_state_change a (cm_generation c) g s,
           backend_failure rid (cm_generation c) (BE_Rejected m))
      | Inl _ \<Rightarrow> invalidate_session rid g s)"

definition finish_cancel ::
  "u64 \<Rightarrow> cancel_request \<Rightarrow> nat \<Rightarrow> u64 \<Rightarrow> u64 \<Rightarrow> backend_result \<Rightarrow> session_broker \<Rightarrow>
   session_broker \<times> response_envelope" where
  "finish_cancel rid c a expected g result s =
     (case result of
        Inr _ \<Rightarrow>
          (s, success rid (CancelResp \<lparr>xr_session_id = cc_session_id c, xr_generation = g,
                xr_target_request_id = cc_target_request_id c\<rparr>))
      | Inl BE_Cancelled \<Rightarrow>
          (rollback_state_change a expected g s, backend_failure rid expected BE_Cancelled)
      | Inl (BE_Rejected m) \<Rightarrow>
          (rollback_state_change a expected g s, backend_failure rid expected (BE_Rejected m))
      | Inl _ \<Rightarrow> invalidate_session rid g s)"

definition focus_lost_ok :: "u64 \<Rightarrow> u64 \<Rightarrow> u64 \<Rightarrow> response_envelope" where
  "focus_lost_ok rid sid g =
     success rid (FocusLostResp \<lparr>fr_session_id = sid, fr_generation = g\<rparr>)"

definition finish_focus_lost ::
  "u64 \<Rightarrow> focus_lost_request \<Rightarrow> u64 \<Rightarrow> backend_result \<Rightarrow> session_broker \<Rightarrow>
   session_broker \<times> response_envelope" where
  "finish_focus_lost rid c g result s =
     (case result of
        Inl BE_SessionInvalidated \<Rightarrow> invalidate_session rid g s
      | _ \<Rightarrow> (s\<lparr>sb_sessions := fmdrop (fl_session_id c) (sb_sessions s)\<rparr>,
              focus_lost_ok rid (fl_session_id c) g))"

definition finish_create ::
  "u64 \<Rightarrow> create_session_request \<Rightarrow> backend_result \<Rightarrow> session_broker \<Rightarrow>
   session_broker \<times> response_envelope" where
  "finish_create rid c result s =
     (let sid = cs_session_id c;
          created = (\<lambda>f. (s, success rid (CreatedResp \<lparr>sc_session_id = sid, sc_generation = 0,
                                              sc_fallback = f\<rparr>))) in
      case result of
        Inr (CreatedResp r) \<Rightarrow> created (if sc_session_id r = sid then FM_None else FM_DirectInput)
      | Inl BE_SessionInvalidated \<Rightarrow> invalidate_session rid 0 s
      | _ \<Rightarrow> created FM_DirectInput)"

section \<open>Starting an operation\<close>

text \<open>
  Under the entry's operation lock: register the request, publish the next generation, and on
  an error take the registration back. The answer is either the final response or the
  cancellation token and the published generation.
\<close>

definition begin_operation ::
  "u64 \<Rightarrow> (session_broker \<Rightarrow> session_broker \<times> (response_envelope + u64)) \<Rightarrow> session_broker \<Rightarrow>
   session_broker \<times> (response_envelope + nat \<times> u64)" where
  "begin_operation rid begin s =
     (case register_request rid s of
        (s1, None) \<Rightarrow> (s1, Inl (duplicate_request rid))
      | (s1, Some token) \<Rightarrow>
          (case begin s1 of
             (s2, Inl resp) \<Rightarrow> (finish_registration rid s2, Inl resp)
           | (s2, Inr g) \<Rightarrow> (s2, Inr (token, g))))"

definition start_change ::
  "u64 \<Rightarrow> u64 \<Rightarrow> u64 \<Rightarrow> nat \<Rightarrow> session_broker \<Rightarrow>
   session_broker \<times> (response_envelope + nat \<times> u64)" where
  "start_change rid sid expected a = begin_operation rid (begin_state_change rid sid a expected)"

definition cancel_expected :: "cancel_request \<Rightarrow> nat \<Rightarrow> session_broker \<Rightarrow> u64" where
  "cancel_expected c a s =
     (case cc_generation c of Some e \<Rightarrow> e | None \<Rightarrow> gc_clock (sb_cells s a))"

definition start_cancel ::
  "u64 \<Rightarrow> cancel_request \<Rightarrow> nat \<Rightarrow> session_broker \<Rightarrow>
   session_broker \<times> (response_envelope + nat \<times> u64)" where
  "start_cancel rid c a s =
     (case begin_operation rid (begin_cancel rid (cc_session_id c) a (cc_generation c)) s of
        (s1, Inl resp) \<Rightarrow> (s1, Inl resp)
      | (s1, Inr tg) \<Rightarrow>
          (case cc_target_request_id c of
             None \<Rightarrow> (s1, Inr tg)
           | Some target \<Rightarrow>
               (s1\<lparr>sb_cancellations := fst (cancel_request target (sb_cancellations s1))\<rparr>, Inr tg)))"

definition deactivate :: "nat \<Rightarrow> session_broker \<Rightarrow> session_broker" where
  "deactivate a s = set_cell a ((sb_cells s a)\<lparr>gc_active := False\<rparr>) s"

definition drop_entry :: "u64 \<Rightarrow> nat \<Rightarrow> session_broker \<Rightarrow> session_broker" where
  "drop_entry sid a s =
     (if entry_of s sid = Some a then s\<lparr>sb_sessions := fmdrop sid (sb_sessions s)\<rparr> else s)"

definition start_focus_lost ::
  "u64 \<Rightarrow> focus_lost_request \<Rightarrow> nat \<Rightarrow> session_broker \<Rightarrow>
   session_broker \<times> (response_envelope + nat \<times> u64)" where
  "start_focus_lost rid c a s =
     (let sid = fl_session_id c in
      if se_rerank_only (sb_entries s a) then
        (let current = gc_clock (sb_cells s a) in
         if fl_generation c \<noteq> current
         then (s, Inl (stale_failure rid sid (fl_generation c) current))
         else (drop_entry sid a (deactivate a s), Inl (focus_lost_ok rid sid current)))
      else case start_change rid sid (fl_generation c) a s of
        (s1, Inl resp) \<Rightarrow> (s1, Inl resp)
      | (s1, Inr tg) \<Rightarrow> (deactivate a s1, Inr tg))"

section \<open>The handlers\<close>

text \<open>
  One operation without interruption: find the entry, start, call the backend, take the
  registration back, finish.
\<close>

definition run_operation ::
  "'b backend_ops \<Rightarrow> u64 \<Rightarrow> u64 \<Rightarrow> u64 \<Rightarrow>
   (nat \<Rightarrow> session_broker \<Rightarrow> session_broker \<times> (response_envelope + nat \<times> u64)) \<Rightarrow>
   (u64 \<Rightarrow> request_command) \<Rightarrow>
   (nat \<Rightarrow> u64 \<Rightarrow> backend_result \<Rightarrow> session_broker \<Rightarrow> session_broker \<times> response_envelope) \<Rightarrow>
   session_broker \<times> 'b \<Rightarrow> (session_broker \<times> 'b) \<times> response_envelope" where
  "run_operation ops rid sid hint start cmd finish sb =
     (case sb of (s, b) \<Rightarrow>
      case entry_of s sid of
        None \<Rightarrow> ((s, b), unknown_session rid sid hint)
      | Some a \<Rightarrow>
     (case start a s of
        (s1, Inl resp) \<Rightarrow> ((s1, b), resp)
      | (s1, Inr (token, g)) \<Rightarrow>
          (let (b', result) = be_execute ops b (cmd g) (is_cancelled (sb_cancellations s1) token);
               (s2, resp) = finish a g result (finish_registration rid s1)
           in ((s2, b'), resp))))"

definition session_key where
  "session_key ops rid c =
     run_operation ops rid (kq_session_id c) (kq_generation c)
       (start_change rid (kq_session_id c) (kq_generation c)) (\<lambda>_. KeyCmd c) (finish_key rid c)"

definition session_edit where
  "session_edit ops rid c =
     run_operation ops rid (eq_session_id c) (eq_generation c)
       (start_change rid (eq_session_id c) (eq_generation c)) (\<lambda>_. EditCmd c) (finish_edit rid c)"

definition session_convert where
  "session_convert ops rid c =
     run_operation ops rid (cv_session_id c) (cv_generation c)
       (start_change rid (cv_session_id c) (cv_generation c))
       (\<lambda>g. ConvertCmd (c\<lparr>cv_generation := g\<rparr>)) (finish_convert rid c)"

definition session_commit where
  "session_commit ops rid c =
     run_operation ops rid (cm_session_id c) (cm_generation c)
       (start_change rid (cm_session_id c) (cm_generation c)) (\<lambda>_. CommitCmd c)
       (finish_commit rid c)"

definition session_cancel where
  "session_cancel ops rid c sb =
     run_operation ops rid (cc_session_id c) (case cc_generation c of None \<Rightarrow> 0 | Some g \<Rightarrow> g)
       (start_cancel rid c) (\<lambda>_. CancelCmd c)
       (\<lambda>a. finish_cancel rid c a (cancel_expected c a (fst sb))) sb"

definition session_focus_lost where
  "session_focus_lost ops rid c =
     run_operation ops rid (fl_session_id c) (fl_generation c)
       (start_focus_lost rid c) (\<lambda>_. FocusLostCmd c) (\<lambda>_. finish_focus_lost rid c)"

definition insert_session :: "u64 \<Rightarrow> field_class \<Rightarrow> bool \<Rightarrow> session_broker \<Rightarrow> session_broker" where
  "insert_session sid fclass rerank s = s\<lparr>
     sb_sessions := fmupd sid (sb_next s) (sb_sessions s),
     sb_entries := (sb_entries s)(sb_next s := new_entry fclass rerank),
     sb_cells := (sb_cells s)(sb_next s := new_cell 0),
     sb_next := Suc (sb_next s)\<rparr>"

definition tombstone_failure :: "u64 \<Rightarrow> u64 \<Rightarrow> response_envelope" where
  "tombstone_failure rid g =
     session_failure rid (Some g) EC_BackendUnavailable
       (lit ''session id was invalidated; create a new session id'') FM_DirectInput"

definition limit_failure :: "u64 \<Rightarrow> u64 option \<Rightarrow> response_envelope" where
  "limit_failure rid g =
     session_failure rid g EC_BackendUnavailable (lit ''session limit reached'') FM_None"

text \<open>The part of \<open>create_session\<close> under the session-table lock.\<close>

definition admit_session ::
  "u64 \<Rightarrow> create_session_request \<Rightarrow> session_broker \<Rightarrow> session_broker \<times> (response_envelope + unit)" where
  "admit_session rid c s =
     (if entry_of s (cs_session_id c) \<noteq> None
      then (s, Inl (session_failure rid (Some 0) EC_AlreadyExists
                      (lit ''session already exists'') FM_None))
      else if session_count s \<ge> unat (bc_max_sessions (sb_config s))
      then (s, Inl (limit_failure rid None))
      else (insert_session (cs_session_id c) (cs_field_class c) False s, Inr ()))"

definition session_create ::
  "'b backend_ops \<Rightarrow> u64 \<Rightarrow> create_session_request \<Rightarrow> session_broker \<times> 'b \<Rightarrow>
   (session_broker \<times> 'b) \<times> response_envelope" where
  "session_create ops rid c sb =
     (case sb of (s, b) \<Rightarrow>
      if cs_session_id c |\<in>| sb_invalidated s then ((s, b), tombstone_failure rid 0)
      else case admit_session rid c s of
        (s1, Inl resp) \<Rightarrow> ((s1, b), resp)
      | (s1, Inr _) \<Rightarrow>
     (case register_request rid s1 of
        (s2, None) \<Rightarrow>
          ((s2\<lparr>sb_sessions := fmdrop (cs_session_id c) (sb_sessions s2)\<rparr>, b),
           session_failure rid (Some 0) EC_InvalidRequest
             (lit ''request id is already active'') FM_None)
      | (s2, Some token) \<Rightarrow>
          (let (b', result) = be_execute ops b (CreateSessionCmd c)
                 (is_cancelled (sb_cancellations s2) token);
               (s3, resp) = finish_create rid c result (finish_registration rid s2)
           in ((s3, b'), resp))))"

definition find_or_insert ::
  "u64 \<Rightarrow> prepare_rerank_session_request \<Rightarrow> session_broker \<Rightarrow> session_broker \<times> (response_envelope + nat)" where
  "find_or_insert rid c s =
     (case entry_of s (pr_session_id c) of
        Some a \<Rightarrow> (s, Inr a)
      | None \<Rightarrow>
          if session_count s \<ge> unat (bc_max_sessions (sb_config s))
          then (s, Inl (limit_failure rid (Some (pr_generation c))))
          else (insert_session (pr_session_id c) (pr_field_class c) True s, Inr (sb_next s)))"

definition prepared :: "u64 \<Rightarrow> u64 \<Rightarrow> u64 \<Rightarrow> response_envelope" where
  "prepared rid sid g = success rid (GenerationResp \<lparr>gr_session_id = sid, gr_generation = g\<rparr>)"

text \<open>The part of \<open>prepare_rerank_session\<close> under the operation lock.\<close>

definition prepare_entry ::
  "u64 \<Rightarrow> prepare_rerank_session_request \<Rightarrow> nat \<Rightarrow> session_broker \<Rightarrow> session_broker \<times> response_envelope" where
  "prepare_entry rid c a s =
     (let g = pr_generation c in
      if \<not> se_rerank_only (sb_entries s a)
      then (s, session_failure rid (Some g) EC_InvalidRequest
                 (lit ''a full Mozc session cannot be adopted as a rerank-only session'') FM_None)
      else if se_field_class (sb_entries s a) \<noteq> pr_field_class c
      then (s, session_failure rid (Some g) EC_InvalidRequest
                 (lit ''field class cannot change for a rerank session'') FM_None)
      else case register_request rid s of
        (s1, None) \<Rightarrow> (s1, duplicate_request rid)
      | (s1, Some _) \<Rightarrow>
          (let s2 = finish_registration rid s1; cell = sb_cells s2 a; current = gc_clock cell in
           if g < current then (s2, stale_failure rid (pr_session_id c) g current)
           else if g > current
           then (set_cell a ((bump_cell g cell)\<lparr>gc_active := True\<rparr>) s2,
                 prepared rid (pr_session_id c) g)
           else (s2, prepared rid (pr_session_id c) current)))"

definition session_prepare ::
  "u64 \<Rightarrow> prepare_rerank_session_request \<Rightarrow> session_broker \<Rightarrow> session_broker \<times> response_envelope" where
  "session_prepare rid c s =
     (if pr_session_id c |\<in>| sb_invalidated s then (s, tombstone_failure rid (pr_generation c))
      else case find_or_insert rid c s of
        (s1, Inl resp) \<Rightarrow> (s1, resp)
      | (s1, Inr a) \<Rightarrow> prepare_entry rid c a s1)"

definition frame_limit_checked :: "health_response \<Rightarrow> health_response" where
  "frame_limit_checked h =
     (let h1 = h\<lparr>hr_protocol_version := PROTOCOL_VERSION\<rparr> in
      if hr_max_frame_bytes h1 = 0
      then h1\<lparr>hr_status := Unavailable, hr_detail := lit ''backend returned an invalid frame limit''\<rparr>
      else h1)"

definition detail_checked :: "health_response \<Rightarrow> health_response" where
  "detail_checked h =
     (let h1 = (if hr_detail h = [] then h\<lparr>hr_detail := lit ''ready''\<rparr> else h);
          h2 = (if has_control (hr_detail h1)
                then h1\<lparr>hr_status := Unavailable,
                        hr_detail := lit ''backend returned invalid health details''\<rparr>
                else h1)
      in if blen (hr_detail h2) > 512
         then h2\<lparr>hr_detail := str_truncate (hr_detail h2) (boundary_below (hr_detail h2) 512)\<rparr>
         else h2)"

definition session_health ::
  "'b backend_ops \<Rightarrow> u64 \<Rightarrow> session_broker \<times> 'b \<Rightarrow> (session_broker \<times> 'b) \<times> response_envelope" where
  "session_health ops rid sb =
     (case sb of (s, b) \<Rightarrow>
      let h = frame_limit_checked (be_health ops b);
          s' = (if hr_status h = Unavailable then invalidate_all_sessions s else s)
      in ((s', b), success rid (HealthResp (detail_checked h))))"

definition session_generation_response :: "u64 \<Rightarrow> generation_request \<Rightarrow> session_broker \<Rightarrow> response_envelope" where
  "session_generation_response rid c s =
     (case entry_generation s (gq_session_id c) of
        None \<Rightarrow> session_failure rid None EC_UnknownSession (lit ''session does not exist'') FM_None
      | Some g \<Rightarrow> prepared rid (gq_session_id c) g)"

definition requires_async :: "request_envelope \<Rightarrow> response_envelope" where
  "requires_async q =
     session_failure (rq_request_id q) (expected_generation (rq_command q))
       EC_EnhancementRequiresAsync (lit ''optional enhancements require the async queue'') FM_None"

definition session_command ::
  "'b backend_ops \<Rightarrow> request_envelope \<Rightarrow> session_broker \<times> 'b \<Rightarrow>
   (session_broker \<times> 'b) \<times> response_envelope" where
  "session_command ops q sb =
     (let rid = rq_request_id q in
      case rq_command q of
        CreateSessionCmd c \<Rightarrow> session_create ops rid c sb
      | PrepareRerankSessionCmd c \<Rightarrow>
          (case session_prepare rid c (fst sb) of (s, resp) \<Rightarrow> ((s, snd sb), resp))
      | KeyCmd c \<Rightarrow> session_key ops rid c sb
      | EditCmd c \<Rightarrow> session_edit ops rid c sb
      | ConvertCmd c \<Rightarrow> session_convert ops rid c sb
      | CommitCmd c \<Rightarrow> session_commit ops rid c sb
      | CancelCmd c \<Rightarrow> session_cancel ops rid c sb
      | FocusLostCmd c \<Rightarrow> session_focus_lost ops rid c sb
      | HealthCmd \<Rightarrow> session_health ops rid sb
      | GenerationCmd c \<Rightarrow> (sb, session_generation_response rid c (fst sb))
      | RerankCandidatesCmd c \<Rightarrow> (sb, requires_async q)
      | SemanticAssistCmd c \<Rightarrow> (sb, requires_async q))"

definition session_handle ::
  "'b backend_ops \<Rightarrow> request_envelope \<Rightarrow> session_broker \<times> 'b \<Rightarrow>
   (session_broker \<times> 'b) \<times> response_envelope" where
  "session_handle ops q sb =
     (case validate_request q of
        Inl e \<Rightarrow> (sb, validation_failure (rq_request_id q) (expected_generation (rq_command q)) e)
      | Inr _ \<Rightarrow> session_command ops q sb)"

section \<open>Session ownership\<close>

definition bind_session_owner :: "u64 \<Rightarrow> rstr \<Rightarrow> session_broker \<Rightarrow> session_broker \<times> bool" where
  "bind_session_owner sid owner s =
     (if owner = [] then (s, False)
      else case entry_of s sid of
        None \<Rightarrow> (s, False)
      | Some a \<Rightarrow>
          if se_owner (sb_entries s a) \<noteq> None then (s, False)
          else (set_entry a ((sb_entries s a)\<lparr>se_owner := Some owner\<rparr>) s, True))"

definition session_owned_by :: "session_broker \<Rightarrow> u64 \<Rightarrow> rstr \<Rightarrow> bool" where
  "session_owned_by s sid owner \<longleftrightarrow>
     (case entry_of s sid of
        None \<Rightarrow> False
      | Some a \<Rightarrow> se_owner (sb_entries s a) = Some owner)"

definition foreign_session :: "u64 \<Rightarrow> u64 option \<Rightarrow> response_envelope" where
  "foreign_session rid g =
     session_failure rid g EC_UnknownSession
       (lit ''session does not exist for this authenticated peer'') FM_None"

definition owner_exempt :: "request_command \<Rightarrow> bool" where
  "owner_exempt cmd \<longleftrightarrow>
     (case cmd of CreateSessionCmd _ \<Rightarrow> True | PrepareRerankSessionCmd _ \<Rightarrow> True | _ \<Rightarrow> False)"

definition foreign_to :: "session_broker \<Rightarrow> rstr \<Rightarrow> request_command \<Rightarrow> bool" where
  "foreign_to s owner cmd \<longleftrightarrow>
     (case command_session_id cmd of
        None \<Rightarrow> False
      | Some sid \<Rightarrow> \<not> session_owned_by s sid owner)"

definition handle_for_peer ::
  "'b backend_ops \<Rightarrow> request_envelope \<Rightarrow> rstr \<Rightarrow> session_broker \<times> 'b \<Rightarrow>
   (session_broker \<times> 'b) \<times> response_envelope" where
  "handle_for_peer ops q owner sb =
     (if \<not> owner_exempt (rq_command q) \<and> foreign_to (fst sb) owner (rq_command q)
      then (sb, foreign_session (rq_request_id q) (expected_generation (rq_command q)))
      else case session_handle ops q sb of
        ((s, b), resp) \<Rightarrow>
          (case payload_of resp of
             Some (CreatedResp r) \<Rightarrow> ((fst (bind_session_owner (sc_session_id r) owner s), b), resp)
           | Some (GenerationResp r) \<Rightarrow> ((fst (bind_session_owner (gr_session_id r) owner s), b), resp)
           | _ \<Rightarrow> ((s, b), resp)))"

end
