(* ===== verification/Session_Facts.thy ===== *)
theory Session_Facts
  imports Session_Broker Sync_Replies
begin

text \<open>
  What the operations of the asynchronous broker keep: the table invariant, the
  configuration, the constant fields and owners of the entries, the tombstones, and the
  evolution of the cells. The lemmas are about the pieces an operation is cut into, so both
  the uninterrupted handlers and the interleaved steps use them.
\<close>

section \<open>The invariant\<close>

definition entries_ok :: "session_broker \<Rightarrow> bool" where
  "entries_ok s \<longleftrightarrow>
     (\<forall>sid a. entry_of s sid = Some a \<longrightarrow> a < sb_next s) \<and>
     (\<forall>sid sid' a. entry_of s sid = Some a \<longrightarrow> entry_of s sid' = Some a \<longrightarrow> sid = sid') \<and>
     (\<forall>a. state_ok (se_last_valid (sb_entries s a)))"

definition bounded :: "session_broker \<Rightarrow> bool" where
  "bounded s \<longleftrightarrow> session_count s \<le> unat (bc_max_sessions (sb_config s))"

definition tombstones_dead :: "session_broker \<Rightarrow> bool" where
  "tombstones_dead s \<longleftrightarrow> (\<forall>sid. sid |\<in>| sb_invalidated s \<longrightarrow> entry_of s sid = None)"

definition constant_entry :: "session_entry \<Rightarrow> session_entry \<Rightarrow> bool" where
  "constant_entry e e' \<longleftrightarrow>
     se_field_class e' = se_field_class e \<and> se_rerank_only e' = se_rerank_only e \<and>
     (se_owner e \<noteq> None \<longrightarrow> se_owner e' = se_owner e)"

lemma constant_entry_refl [simp]: "constant_entry e e"
  by (simp add: constant_entry_def)

lemma constant_entry_trans: "constant_entry a b \<Longrightarrow> constant_entry b c \<Longrightarrow> constant_entry a c"
  by (auto simp: constant_entry_def)

definition skeeps :: "nat \<Rightarrow> session_broker \<Rightarrow> session_broker \<Rightarrow> bool" where
  "skeeps k s s' \<longleftrightarrow>
     sb_config s' = sb_config s \<and> sb_next s \<le> sb_next s' \<and>
     (\<forall>a < sb_next s. evolves k (sb_cells s a) (sb_cells s' a)) \<and>
     (\<forall>a < sb_next s. constant_entry (sb_entries s a) (sb_entries s' a)) \<and>
     sb_invalidated s |\<subseteq>| sb_invalidated s' \<and>
     (entries_ok s \<longrightarrow> entries_ok s') \<and> (bounded s \<longrightarrow> bounded s')"

lemma skeeps_refl [simp, intro]: "skeeps k s s"
  by (auto simp: skeeps_def)

lemma skeepsD:
  assumes "skeeps k s s'"
  shows "sb_config s' = sb_config s" "sb_next s \<le> sb_next s'"
    "a < sb_next s \<Longrightarrow> evolves k (sb_cells s a) (sb_cells s' a)"
    "a < sb_next s \<Longrightarrow> constant_entry (sb_entries s a) (sb_entries s' a)"
    "sb_invalidated s |\<subseteq>| sb_invalidated s'"
    "entries_ok s \<Longrightarrow> entries_ok s'" "bounded s \<Longrightarrow> bounded s'"
  using assms by (simp_all add: skeeps_def)

lemma skeepsI:
  assumes "sb_config s' = sb_config s" "sb_next s \<le> sb_next s'"
    "\<And>a. a < sb_next s \<Longrightarrow> evolves k (sb_cells s a) (sb_cells s' a)"
    "\<And>a. a < sb_next s \<Longrightarrow> constant_entry (sb_entries s a) (sb_entries s' a)"
    "sb_invalidated s |\<subseteq>| sb_invalidated s'"
    "entries_ok s \<Longrightarrow> entries_ok s'" "bounded s \<Longrightarrow> bounded s'"
  shows "skeeps k s s'"
  using assms by (simp add: skeeps_def)

lemma skeeps_trans:
  assumes j: "skeeps j a b" and k: "skeeps k b c"
  shows "skeeps (j + k) a c"
proof (rule skeepsI)
  fix x assume x: "x < sb_next a"
  then have x': "x < sb_next b" using skeepsD(2) [OF j] by simp
  show "evolves (j + k) (sb_cells a x) (sb_cells c x)"
    by (rule evolves_trans [OF skeepsD(3) [OF j x] skeepsD(3) [OF k x']])
  show "constant_entry (sb_entries a x) (sb_entries c x)"
    by (rule constant_entry_trans [OF skeepsD(4) [OF j x] skeepsD(4) [OF k x']])
next
  show "sb_next a \<le> sb_next c" using skeepsD(2) [OF j] skeepsD(2) [OF k] by simp
  show "sb_invalidated a |\<subseteq>| sb_invalidated c"
    by (rule order_trans [OF skeepsD(5) [OF j] skeepsD(5) [OF k]])
qed (simp_all only: skeepsD(1,6,7) [OF j] skeepsD(1,6,7) [OF k])

lemma skeeps_mono: "skeeps j a b \<Longrightarrow> j \<le> k \<Longrightarrow> skeeps k a b"
  by (rule skeepsI) (auto dest: skeepsD intro: evolves_mono [OF skeepsD(3)])

lemma skeeps_then: "skeeps k a b \<Longrightarrow> skeeps 0 b c \<Longrightarrow> skeeps k a c"
  using skeeps_trans [of k a b 0 c] by simp

lemma skeeps_first: "skeeps 0 a b \<Longrightarrow> skeeps k b c \<Longrightarrow> skeeps k a c"
  using skeeps_trans [of 0 a b k c] by simp

section \<open>Primitive moves\<close>

lemma cancellations_skeeps: "skeeps k s (s\<lparr>sb_cancellations := c\<rparr>)"
  by (simp add: skeeps_def entries_ok_def bounded_def entry_of_def session_count_def)

lemma register_request_eq:
  "register_request rid s = (s', r) \<Longrightarrow> \<exists>c. s' = s\<lparr>sb_cancellations := c\<rparr>"
  by (auto simp: register_request_def Let_def new_token_def split: sum.splits)

lemma register_request_skeeps: "register_request rid s = (s', r) \<Longrightarrow> skeeps k s s'"
  using register_request_eq [of rid s s' r] cancellations_skeeps by auto

lemma finish_registration_skeeps: "skeeps k s (finish_registration rid s)"
  by (simp add: finish_registration_def cancellations_skeeps)

lemma set_cell_skeeps: "evolves k (sb_cells s a) c \<Longrightarrow> skeeps k s (set_cell a c s)"
  by (simp add: skeeps_def set_cell_def entries_ok_def bounded_def entry_of_def session_count_def)

lemma set_entry_skeeps:
  "constant_entry (sb_entries s a) e \<Longrightarrow> state_ok (se_last_valid e) \<Longrightarrow> skeeps k s (set_entry a e s)"
  by (auto simp: skeeps_def set_entry_def entries_ok_def bounded_def entry_of_def session_count_def)

lemma fmlookup_drop_Some: "fmlookup (fmdrop k m) x = Some y \<Longrightarrow> fmlookup m x = Some y"
  by (simp split: if_splits)

lemma drop_session_skeeps: "skeeps k s (s\<lparr>sb_sessions := fmdrop sid (sb_sessions s)\<rparr>)"
  using fmlen_drop_le [of sid "sb_sessions s"]
  by (auto simp: skeeps_def entries_ok_def bounded_def entry_of_def session_count_def
      split: if_splits)

lemma invalidate_all_skeeps: "skeeps k s (invalidate_all_sessions s)"
  by (auto simp: skeeps_def invalidate_all_sessions_def entries_ok_def bounded_def entry_of_def
      session_count_def constant_entry_def)

lemma insert_session_skeeps:
  assumes "entry_of s sid = None" "session_count s < unat (bc_max_sessions (sb_config s))"
  shows "skeeps k s (insert_session sid fc rerank s)"
proof -
  have "entries_ok (insert_session sid fc rerank s)" if "entries_ok s"
    using that
    by (auto simp: entries_ok_def entry_of_def insert_session_def new_entry_def
        dest: less_imp_neq) fastforce+
  moreover have "session_count (insert_session sid fc rerank s) = Suc (session_count s)"
    using assms(1) by (simp add: session_count_def insert_session_def entry_of_def fmlen_upd_new)
  ultimately show ?thesis
    using assms(2) by (auto simp: skeeps_def insert_session_def bounded_def)
qed

lemma rollback_skeeps:
  "expected \<le> attempted \<Longrightarrow> skeeps k s (rollback_state_change a expected attempted s)"
  by (auto simp: rollback_state_change_def intro!: set_cell_skeeps evolves_lower)

lemma deactivate_skeeps: "skeeps k s (deactivate a s)"
  by (auto simp: deactivate_def intro!: set_cell_skeeps evolves_deactivate)

lemma remember_state_skeeps: "state_ok (Some st) \<Longrightarrow> skeeps k s (remember_state sid st s)"
  by (auto simp: remember_state_def constant_entry_def intro!: set_entry_skeeps split: option.splits)

lemma clear_state_skeeps: "skeeps k s (clear_state sid a s)"
  by (auto simp: clear_state_def constant_entry_def intro!: set_entry_skeeps)

lemma drop_entry_skeeps: "skeeps k s (drop_entry sid a s)"
  by (simp add: drop_entry_def drop_session_skeeps)

lemma invalidate_session_skeeps: "skeeps k s (fst (invalidate_session rid g s))"
  by (simp add: invalidate_session_def invalidate_all_skeeps)

section \<open>Starting and finishing\<close>

lemma advance_entry_Inr:
  assumes "advance_entry rid sid a expected s = (s', Inr g)"
  shows "checked_add_u64 (gc_clock (sb_cells s a)) 1 = Some g"
    "s' = set_cell a (bump_cell g (sb_cells s a)) s"
    "expected \<noteq> None \<Longrightarrow> expected = Some (gc_clock (sb_cells s a))"
    "gc_active (sb_cells s a)" "\<not> se_rerank_only (sb_entries s a)"
  using assms by (auto simp: advance_entry_def Let_def split: if_splits option.splits)

lemma advance_entry_Inl: "advance_entry rid sid a expected s = (s', Inl resp) \<Longrightarrow> s' = s"
  by (auto simp: advance_entry_def Let_def split: if_splits option.splits)

lemma advance_entry_skeeps: "advance_entry rid sid a expected s = (s', r) \<Longrightarrow> skeeps 1 s s'"
proof (cases r)
  case (Inr g)
  moreover assume "advance_entry rid sid a expected s = (s', r)"
  ultimately show ?thesis
    using advance_entry_Inr(2) [of rid sid a expected s s' g]
    by (auto intro!: set_cell_skeeps evolves_bump)
qed (auto dest: advance_entry_Inl)

lemma begin_state_change_skeeps: "begin_state_change rid sid a e s = (s', r) \<Longrightarrow> skeeps 1 s s'"
  by (auto simp: begin_state_change_def split: sum.splits dest: advance_entry_skeeps)

lemma begin_cancel_skeeps: "begin_cancel rid sid a e s = (s', r) \<Longrightarrow> skeeps 1 s s'"
  by (auto simp: begin_cancel_def split: sum.splits dest: advance_entry_skeeps)

lemma begin_operation_skeeps:
  assumes "begin_operation rid begin s = (s', r)" "\<And>s1 s2 q. begin s1 = (s2, q) \<Longrightarrow> skeeps 1 s1 s2"
  shows "skeeps 1 s s'"
proof -
  obtain s1 tok where r1: "register_request rid s = (s1, tok)" by fastforce
  have k1: "skeeps 0 s s1" by (rule register_request_skeeps [OF r1])
  show ?thesis
  proof (cases tok)
    case None
    with assms(1) r1 skeeps_mono [OF k1, of 1] show ?thesis by (simp add: begin_operation_def)
  next
    case (Some token)
    obtain s2 q where q: "begin s1 = (s2, q)" by fastforce
    have "skeeps 1 s s2" by (rule skeeps_first [OF k1 assms(2) [OF q]])
    then show ?thesis
      using assms(1) r1 Some q skeeps_then [OF _ finish_registration_skeeps]
      by (auto simp: begin_operation_def split: sum.splits)
  qed
qed

lemma start_change_skeeps: "start_change rid sid e a s = (s', r) \<Longrightarrow> skeeps 1 s s'"
  unfolding start_change_def
  by (erule begin_operation_skeeps) (rule begin_state_change_skeeps)

lemma start_cancel_skeeps:
  assumes "start_cancel rid c a s = (s', r)"
  shows "skeeps 1 s s'"
proof -
  obtain s1 q where q: "begin_operation rid (begin_cancel rid (cc_session_id c) a (cc_generation c)) s = (s1, q)"
    by fastforce
  have k: "skeeps 1 s s1" using q by (rule begin_operation_skeeps) (rule begin_cancel_skeeps)
  show ?thesis
    using assms q k skeeps_then [OF k cancellations_skeeps]
    by (auto simp: start_cancel_def split: sum.splits option.splits)
qed

lemma start_focus_lost_skeeps:
  assumes "start_focus_lost rid c a s = (s', r)"
  shows "skeeps 1 s s'"
proof -
  obtain s1 q where q: "start_change rid (fl_session_id c) (fl_generation c) a s = (s1, q)"
    by fastforce
  have k: "skeeps 1 s s1" by (rule start_change_skeeps [OF q])
  have d: "skeeps 1 s (drop_entry (fl_session_id c) a (deactivate a s))"
    by (rule skeeps_then [OF deactivate_skeeps drop_entry_skeeps])
  show ?thesis
    using assms q k d skeeps_then [OF k deactivate_skeeps]
    by (auto simp: start_focus_lost_def Let_def split: sum.splits if_splits)
qed

lemma begin_state_change_Inr:
  assumes "begin_state_change rid sid a e s = (s', Inr g)"
  shows "checked_add_u64 e 1 = Some g"
  using assms advance_entry_Inr [of rid sid a "Some e" s s' g]
  by (auto simp: begin_state_change_def split: sum.splits)

lemma begin_operation_Inr:
  "begin_operation rid begin s = (s', Inr (token, g)) \<Longrightarrow>
   \<exists>s1. register_request rid s = (s1, Some token) \<and> begin s1 = (s', Inr g)"
  by (auto simp: begin_operation_def split: prod.splits option.splits sum.splits)

lemma start_change_Inr:
  assumes "start_change rid sid e a s = (s', Inr (token, g))"
  shows "e \<le> g"
  using assms checked_succ_Some_less [of e g]
  by (auto simp: start_change_def dest!: begin_operation_Inr begin_state_change_Inr)

lemma start_cancel_Inr:
  assumes "start_cancel rid c a s = (s', Inr (token, g))"
  shows "cancel_expected c a s \<le> g"
proof -
  obtain s2 where "begin_operation rid (begin_cancel rid (cc_session_id c) a (cc_generation c)) s
      = (s2, Inr (token, g))"
    using assms by (auto simp: start_cancel_def split: prod.splits sum.splits option.splits)
  then obtain s1 where s1: "register_request rid s = (s1, Some token)"
    "begin_cancel rid (cc_session_id c) a (cc_generation c) s1 = (s2, Inr g)"
    by (auto dest!: begin_operation_Inr)
  have "sb_cells s1 = sb_cells s" using register_request_eq [OF s1(1)] by auto
  moreover have "advance_entry rid (cc_session_id c) a (cc_generation c) s1 = (s2, Inr g)"
    using s1(2) by (auto simp: begin_cancel_def split: sum.splits)
  ultimately show ?thesis
    using advance_entry_Inr [of rid "cc_session_id c" a "cc_generation c" s1 s2 g]
      checked_succ_Some_less [of "gc_clock (sb_cells s a)" g]
    by (auto simp: cancel_expected_def split: option.splits)
qed

lemmas finish_skeeps_intros =
  remember_state_skeeps payload_state_ok rollback_skeeps invalidate_session_skeeps
  clear_state_skeeps drop_session_skeeps skeeps_refl

lemma finish_key_skeeps: "kq_generation c \<le> g \<Longrightarrow> skeeps k s (fst (finish_key rid c a g r s))"
  by (auto simp: finish_key_def Let_def intro!: finish_skeeps_intros
      simp del: validate_payload.simps state_ok_simps
      split: sum.split response_payload.split backend_error.split)

lemma finish_edit_skeeps: "eq_generation c \<le> g \<Longrightarrow> skeeps k s (fst (finish_edit rid c a g r s))"
  by (auto simp: finish_edit_def Let_def intro!: finish_skeeps_intros
      simp del: validate_payload.simps state_ok_simps
      split: sum.split response_payload.split backend_error.split)

lemma finish_convert_skeeps:
  "cv_generation c \<le> g \<Longrightarrow> skeeps k s (fst (finish_convert rid c a g r s))"
  by (auto simp: finish_convert_def Let_def intro!: finish_skeeps_intros
      simp del: validate_payload.simps state_ok_simps
      split: sum.split response_payload.split backend_error.split)

lemma finish_commit_skeeps:
  "cm_generation c \<le> g \<Longrightarrow> skeeps k s (fst (finish_commit rid c a g r s))"
  by (auto simp: finish_commit_def Let_def intro!: finish_skeeps_intros
      simp del: validate_payload.simps
      split: sum.split response_payload.split backend_error.split)

lemma finish_cancel_skeeps: "e \<le> g \<Longrightarrow> skeeps k s (fst (finish_cancel rid c a e g r s))"
  by (auto simp: finish_cancel_def intro!: finish_skeeps_intros
      split: sum.split backend_error.split)

lemma finish_focus_lost_skeeps: "skeeps k s (fst (finish_focus_lost rid c g r s))"
  by (auto simp: finish_focus_lost_def intro!: finish_skeeps_intros
      split: sum.split backend_error.split)

lemma finish_create_skeeps: "skeeps k s (fst (finish_create rid c r s))"
  by (auto simp: finish_create_def Let_def intro!: finish_skeeps_intros
      split: sum.split response_payload.split backend_error.split)

end
