(* ===== verification/Session_Transaction.thy ===== *)
theory Session_Transaction
  imports Session_Facts Deterministic_Backend
begin

text \<open>
  A composition operation of the asynchronous broker is a transaction. The abstract view of
  the broker is the map from live sessions to generations; the backend's result is committed,
  rolled back or answered by invalidating every session, and the view moves accordingly.
\<close>

section \<open>The abstract view\<close>

definition session_view :: "session_broker \<Rightarrow> (u64, u64) fmap" where
  "session_view s = fmmap (\<lambda>a. gc_clock (sb_cells s a)) (sb_sessions s)"

datatype verdict = Committed | RolledBack | Invalidated

text \<open>The payload the broker would publish: its own generation, no fallback.\<close>

fun settle :: "u64 \<Rightarrow> response_payload \<Rightarrow> response_payload" where
  "settle g (KeyResp r) = KeyResp (r\<lparr>kr_generation := g, kr_fallback := FM_None\<rparr>)"
| "settle g (EditResp r) = EditResp (r\<lparr>dr_generation := g, dr_fallback := FM_None\<rparr>)"
| "settle g (ConvertResp r) = ConvertResp (r\<lparr>vr_generation := g, vr_fallback := FM_None\<rparr>)"
| "settle g (CommitResp r) = CommitResp (r\<lparr>mr_generation := g\<rparr>)"
| "settle g p = p"

definition verdict_of :: "request_command \<Rightarrow> u64 \<Rightarrow> backend_result \<Rightarrow> verdict" where
  "verdict_of cmd g r =
     (case r of
        Inr p \<Rightarrow>
          (case cmd of
             CancelCmd _ \<Rightarrow> Committed
           | _ \<Rightarrow> if answers_command cmd p \<and> is_ok (validate_payload (settle g p))
                 then Committed else Invalidated)
      | Inl BE_Cancelled \<Rightarrow> RolledBack
      | Inl (BE_Rejected _) \<Rightarrow> RolledBack
      | Inl _ \<Rightarrow> Invalidated)"

definition view_after :: "verdict \<Rightarrow> u64 \<Rightarrow> u64 \<Rightarrow> (u64, u64) fmap \<Rightarrow> (u64, u64) fmap" where
  "view_after v sid g view =
     (case v of Committed \<Rightarrow> fmupd sid g view | RolledBack \<Rightarrow> view | Invalidated \<Rightarrow> fmempty)"

lemma view_lookup: "fmlookup (session_view s) sid = entry_generation s sid"
  by (simp add: session_view_def entry_generation_def entry_of_def)

section \<open>Starting\<close>

text \<open>
  \<open>opened rid a g s s1\<close>: apart from the registry, which is whole again once the registration
  is taken back, \<open>s1\<close> is \<open>s\<close> with the entry's cell bumped to \<open>g\<close>.
\<close>

definition opened :: "u64 \<Rightarrow> nat \<Rightarrow> u64 \<Rightarrow> session_broker \<Rightarrow> session_broker \<Rightarrow> bool" where
  "opened rid a g s s1 \<longleftrightarrow>
     (\<exists>c. s1 = set_cell a (bump_cell g (sb_cells s a)) (s\<lparr>sb_cancellations := c\<rparr>) \<and>
          cn_tokens (finish_request rid c) = cn_tokens (sb_cancellations s) \<and>
          fmlookup (cn_tokens c) rid \<noteq> None)"

definition refused :: "session_broker \<Rightarrow> session_broker \<Rightarrow> bool" where
  "refused s s1 \<longleftrightarrow>
     (\<exists>c. s1 = s\<lparr>sb_cancellations := c\<rparr> \<and> cn_tokens c = cn_tokens (sb_cancellations s))"

lemma register_request_Some:
  assumes "register_request rid s = (s1, Some token)"
  shows "\<exists>c. s1 = s\<lparr>sb_cancellations := c\<rparr> \<and>
    cn_tokens (finish_request rid c) = cn_tokens (sb_cancellations s) \<and>
    fmlookup (cn_tokens (sb_cancellations s)) rid = None \<and>
    fmlookup (cn_tokens c) rid = Some token \<and> \<not> cn_flags c token"
  using assms finish_registered [of rid]
  by (auto simp: register_request_def Let_def new_token_def register_token_Inr_iff
      split: sum.splits dest: finish_registered)

lemma register_request_None:
  assumes "register_request rid s = (s1, None)"
  shows "refused s s1" "fmlookup (cn_tokens (sb_cancellations s)) rid \<noteq> None"
  using assms
  by (auto simp: refused_def register_request_def Let_def new_token_def register_token_def
      split: sum.splits if_splits)

lemma advance_entry_canc:
  "advance_entry rid sid a e (s\<lparr>sb_cancellations := c\<rparr>) =
     (case advance_entry rid sid a e s of (s', r) \<Rightarrow> (s'\<lparr>sb_cancellations := c\<rparr>, r))"
  by (auto simp: advance_entry_def Let_def set_cell_def split: option.splits)

lemma set_cell_canc:
  "finish_registration rid (set_cell a x (s\<lparr>sb_cancellations := c\<rparr>)) =
     set_cell a x (s\<lparr>sb_cancellations := finish_request rid c\<rparr>)"
  by (simp add: finish_registration_def set_cell_def)

lemma begin_refused:
  assumes "begin_operation rid begin s = (s1, Inl resp)"
    and "\<And>c s2 r. begin (s\<lparr>sb_cancellations := c\<rparr>) = (s2, Inl r) \<Longrightarrow> s2 = s\<lparr>sb_cancellations := c\<rparr>"
  shows "refused s s1"
proof (cases "register_request rid s")
  case (Pair s0 tok)
  show ?thesis
  proof (cases tok)
    case None
    with assms(1) Pair show ?thesis
      by (auto simp: begin_operation_def dest: register_request_None(1))
  next
    case (Some token)
    obtain c where c: "s0 = s\<lparr>sb_cancellations := c\<rparr>"
      "cn_tokens (finish_request rid c) = cn_tokens (sb_cancellations s)"
      using register_request_Some Pair Some by blast
    with assms(1) Pair Some show ?thesis
      by (auto simp: begin_operation_def refused_def finish_registration_def dest!: assms(2)
          split: prod.splits sum.splits)
  qed
qed

lemma begin_opened:
  assumes "begin_operation rid begin s = (s1, Inr (token, g))"
    and "\<And>c s2. begin (s\<lparr>sb_cancellations := c\<rparr>) = (s2, Inr g) \<Longrightarrow>
      s2 = set_cell a (bump_cell g (sb_cells s a)) (s\<lparr>sb_cancellations := c\<rparr>)"
  shows "opened rid a g s s1"
proof -
  obtain s0 where r: "register_request rid s = (s0, Some token)" "begin s0 = (s1, Inr g)"
    using begin_operation_Inr [OF assms(1)] by blast
  obtain c where c: "s0 = s\<lparr>sb_cancellations := c\<rparr>"
    "cn_tokens (finish_request rid c) = cn_tokens (sb_cancellations s)"
    "fmlookup (cn_tokens c) rid \<noteq> None"
    using register_request_Some [OF r(1)] by blast
  with r(2) assms(2) have "s1 = set_cell a (bump_cell g (sb_cells s a)) (s\<lparr>sb_cancellations := c\<rparr>)"
    by simp
  with c show ?thesis by (auto simp: opened_def)
qed

lemma ensure_entry_canc [simp]: "ensure_entry rid sid a (s\<lparr>sb_cancellations := c\<rparr>) = ensure_entry rid sid a s"
  by (simp add: ensure_entry_def entry_of_def)

lemma ensure_entry_Inr: "ensure_entry rid sid a s = Inr u \<longleftrightarrow> entry_of s sid = Some a"
  by (auto simp: ensure_entry_def split: option.splits)

lemma start_change_opened:
  "start_change rid sid e a s = (s1, Inr (token, g)) \<Longrightarrow> opened rid a g s s1"
  unfolding start_change_def
  by (erule begin_opened)
    (auto simp: begin_state_change_def split: sum.splits dest!: advance_entry_Inr(2))

lemma start_change_refused: "start_change rid sid e a s = (s1, Inl resp) \<Longrightarrow> refused s s1"
  unfolding start_change_def
  by (erule begin_refused)
    (auto simp: begin_state_change_def split: sum.splits dest!: advance_entry_Inl)

lemma start_cancel_opened:
  assumes "start_cancel rid c a s = (s1, Inr (token, g))"
  shows "opened rid a g s s1"
proof -
  obtain s0 where s0: "begin_operation rid (begin_cancel rid (cc_session_id c) a (cc_generation c)) s
      = (s0, Inr (token, g))"
    and s1: "s1 = s0 \<or> (\<exists>t. s1 = s0\<lparr>sb_cancellations := fst (cancel_request t (sb_cancellations s0))\<rparr>)"
    using assms by (auto simp: start_cancel_def split: prod.splits sum.splits option.splits)
  have "opened rid a g s s0"
    using s0 by (rule begin_opened)
      (auto simp: begin_cancel_def split: sum.splits dest!: advance_entry_Inr(2))
  then obtain c where c: "s0 = set_cell a (bump_cell g (sb_cells s a)) (s\<lparr>sb_cancellations := c\<rparr>)"
    "cn_tokens (finish_request rid c) = cn_tokens (sb_cancellations s)"
    "fmlookup (cn_tokens c) rid \<noteq> None"
    by (auto simp: opened_def)
  have "opened rid a g s (s0\<lparr>sb_cancellations := fst (cancel_request t (sb_cancellations s0))\<rparr>)" for t
    unfolding opened_def
    by (rule exI [of _ "fst (cancel_request t c)"]) (use c in \<open>simp add: set_cell_def\<close>)
  with \<open>opened rid a g s s0\<close> s1 show ?thesis by blast
qed

lemma opened_finish:
  "opened rid a g s s1 \<Longrightarrow>
   \<exists>c. finish_registration rid s1 = set_cell a (bump_cell g (sb_cells s a)) (s\<lparr>sb_cancellations := c\<rparr>)
     \<and> cn_tokens c = cn_tokens (sb_cancellations s)"
  by (auto simp: opened_def set_cell_canc)

section \<open>Finishing\<close>

text \<open>
  What a finish does with the state, by verdict: a commit keeps the table and the cells, a
  rollback is \<open>rollback_state_change\<close>, an invalidation is \<open>invalidate_all_sessions\<close>.
\<close>

definition finishes ::
  "request_command \<Rightarrow> nat \<Rightarrow> u64 \<Rightarrow> u64 \<Rightarrow> backend_result \<Rightarrow> session_broker \<Rightarrow>
   session_broker \<times> response_envelope \<Rightarrow> bool" where
  "finishes cmd a e g r s out \<longleftrightarrow>
     (case verdict_of cmd g r of
        Committed \<Rightarrow> sb_sessions (fst out) = sb_sessions s \<and> sb_cells (fst out) = sb_cells s \<and>
          sb_invalidated (fst out) = sb_invalidated s \<and> rp_generation (snd out) = Some g
      | RolledBack \<Rightarrow> fst out = rollback_state_change a e g s \<and> rp_generation (snd out) = Some e
      | Invalidated \<Rightarrow> fst out = invalidate_all_sessions s \<and> rp_generation (snd out) = Some g)"

lemma finish_frames [simp]:
  "sb_sessions (remember_state sid st s) = sb_sessions s" "sb_cells (remember_state sid st s) = sb_cells s"
  "sb_invalidated (remember_state sid st s) = sb_invalidated s"
  "sb_sessions (clear_state sid a s) = sb_sessions s" "sb_cells (clear_state sid a s) = sb_cells s"
  "sb_invalidated (clear_state sid a s) = sb_invalidated s"
  "sb_cancellations (remember_state sid st s) = sb_cancellations s"
  "sb_cancellations (clear_state sid a s) = sb_cancellations s"
  "sb_cancellations (rollback_state_change a e g s) = sb_cancellations s"
  "sb_cancellations (invalidate_all_sessions s) = sb_cancellations s"
  by (auto simp: remember_state_def clear_state_def set_entry_def rollback_state_change_def
      set_cell_def invalidate_all_sessions_def split: option.splits)

lemma generation_of_failures [simp]:
  "rp_generation (session_failure rid g code m f) = g"
  "rp_generation (backend_failure rid e b) = Some e"
  "rp_generation (fallback_key rid sid e st) = Some e"
  "rp_generation (fallback_edit rid sid e st) = Some e"
  "rp_generation (fallback_convert rid cv e st) = Some e"
  by (simp_all add: session_failure_def failure_envelope_def backend_failure_def success_def
      fallback_key_def fallback_edit_def fallback_convert_def split: prod.splits)

lemma rp_generation_success [simp]: "rp_generation (success rid p) = payload_generation p"
  by (simp add: success_def)

lemmas verdict_simps = finishes_def verdict_of_def answers_command_def invalidate_session_def Let_def

lemma finish_key_finishes: "finishes (KeyCmd c) a (kq_generation c) g r s (finish_key rid c a g r s)"
  by (auto simp: finish_key_def verdict_simps simp del: validate_payload.simps
      split: sum.split response_payload.split backend_error.split)

lemma finish_edit_finishes: "finishes (EditCmd c) a (eq_generation c) g r s (finish_edit rid c a g r s)"
  by (auto simp: finish_edit_def verdict_simps simp del: validate_payload.simps
      split: sum.split response_payload.split backend_error.split)

lemma finish_convert_finishes:
  "finishes (ConvertCmd (c\<lparr>cv_generation := x\<rparr>)) a (cv_generation c) g r s (finish_convert rid c a g r s)"
  by (auto simp: finish_convert_def verdict_simps simp del: validate_payload.simps
      split: sum.split response_payload.split backend_error.split)

lemma finish_commit_finishes:
  "finishes (CommitCmd c) a (cm_generation c) g r s (finish_commit rid c a g r s)"
  by (auto simp: finish_commit_def verdict_simps simp del: validate_payload.simps
      split: sum.split response_payload.split backend_error.split)

lemma finish_cancel_finishes: "finishes (CancelCmd c) a e g r s (finish_cancel rid c a e g r s)"
  by (auto simp: finish_cancel_def verdict_simps split: sum.split backend_error.split)

section \<open>The transaction\<close>

lemma view_set_cell:
  assumes "entries_ok s" "entry_of s sid = Some a"
  shows "session_view (set_cell a c (s\<lparr>sb_cancellations := x\<rparr>)) = fmupd sid (gc_clock c) (session_view s)"
proof (rule fmap_ext)
  fix y
  show "fmlookup (session_view (set_cell a c (s\<lparr>sb_cancellations := x\<rparr>))) y =
      fmlookup (fmupd sid (gc_clock c) (session_view s)) y"
  proof (cases "y = sid")
    case True
    with assms(2) show ?thesis
      by (simp add: view_lookup entry_generation_def entry_of_def set_cell_def)
  next
    case False
    then have "entry_of s y \<noteq> Some a"
      using assms unfolding entries_ok_def by blast
    with False show ?thesis
      by (cases "entry_of s y") (simp_all add: view_lookup entry_generation_def entry_of_def set_cell_def)
  qed
qed

lemma view_invalidated [simp]: "session_view (invalidate_all_sessions s) = fmempty"
  by (rule fmap_ext) (simp add: view_lookup entry_generation_def entry_of_def invalidate_all_sessions_def)

lemma view_cong:
  "sb_sessions s' = sb_sessions s \<Longrightarrow> sb_cells s' = sb_cells s \<Longrightarrow> session_view s' = session_view s"
  by (simp add: session_view_def)

text \<open>
  Opened on a session at generation \<open>e\<close>, the finished operation leaves the view the verdict
  prescribes, and the entry's epoch has moved in every case.
\<close>

lemma finished_view:
  assumes ok: "entries_ok s" and a: "entry_of s sid = Some a" and e: "gc_clock (sb_cells s a) = e"
    and started: "opened rid a g s s1"
    and f: "finishes cmd a e g r (finish_registration rid s1) (s', resp)"
  shows "session_view s' = view_after (verdict_of cmd g r) sid g (session_view s) \<and>
    gc_epoch (sb_cells s' a) = gc_epoch (sb_cells s a) + 1 \<and>
    rp_generation resp = Some (if verdict_of cmd g r = RolledBack then e else g)"
proof -
  obtain c where s1: "finish_registration rid s1 =
      set_cell a (bump_cell g (sb_cells s a)) (s\<lparr>sb_cancellations := c\<rparr>)"
    using opened_finish [OF started] by blast
  have bumped: "session_view (finish_registration rid s1) = fmupd sid g (session_view s)"
    unfolding s1 using view_set_cell [OF ok a, of "bump_cell g (sb_cells s a)" c] by simp
  have reverted: "rollback_state_change a e g (finish_registration rid s1) =
      set_cell a ((bump_cell g (sb_cells s a))\<lparr>gc_clock := e\<rparr>) (s\<lparr>sb_cancellations := c\<rparr>)"
    unfolding s1 by (simp add: rollback_state_change_def set_cell_def)
  have same: "fmupd sid e (session_view s) = session_view s"
    using a e by (intro fmap_ext) (auto simp: view_lookup entry_generation_def)
  show ?thesis
  proof (cases "verdict_of cmd g r")
    case Committed
    with f have "session_view s' = session_view (finish_registration rid s1)"
      "sb_cells s' = sb_cells (finish_registration rid s1)" "rp_generation resp = Some g"
      by (auto simp: finishes_def intro: view_cong)
    with Committed bumped show ?thesis by (simp add: view_after_def s1 set_cell_def)
  next
    case RolledBack
    with f have s': "s' = set_cell a ((bump_cell g (sb_cells s a))\<lparr>gc_clock := e\<rparr>) (s\<lparr>sb_cancellations := c\<rparr>)"
      and "rp_generation resp = Some e"
      by (auto simp: finishes_def reverted)
    with RolledBack same show ?thesis
      unfolding s' view_set_cell [OF ok a] by (simp add: view_after_def set_cell_def)
  next
    case Invalidated
    with f have s': "s' = invalidate_all_sessions (finish_registration rid s1)"
      and "rp_generation resp = Some g"
      by (auto simp: finishes_def)
    moreover have "session_view s' = fmempty" unfolding s' by simp
    moreover have "gc_epoch (sb_cells s' a) = gc_epoch (sb_cells s a) + 1"
      by (simp add: s' invalidate_all_sessions_def s1 set_cell_def)
    ultimately show ?thesis using Invalidated by (simp add: view_after_def)
  qed
qed

text \<open>When a start succeeds: the entry is there, live, a full session and at the expected generation.\<close>

definition ready :: "session_broker \<Rightarrow> u64 \<Rightarrow> nat \<Rightarrow> u64 \<Rightarrow> u64 \<Rightarrow> bool" where
  "ready s sid a e rid \<longleftrightarrow>
     entry_of s sid = Some a \<and> gc_active (sb_cells s a) \<and> \<not> se_rerank_only (sb_entries s a) \<and>
     gc_clock (sb_cells s a) = e \<and> e \<noteq> - 1 \<and> fmlookup (cn_tokens (sb_cancellations s)) rid = None"

lemma ready_register:
  assumes "fmlookup (cn_tokens (sb_cancellations s)) rid = None"
  shows "\<exists>c. register_request rid s = (s\<lparr>sb_cancellations := c\<rparr>, Some (cn_next (sb_cancellations s))) \<and>
    cn_tokens c = fmupd rid (cn_next (sb_cancellations s)) (cn_tokens (sb_cancellations s)) \<and>
    \<not> cn_flags c (cn_next (sb_cancellations s))"
  using assms by (auto simp: register_request_def Let_def new_token_def register_token_def)

lemma ready_advance:
  assumes "ready s sid a e rid" "x = None \<or> x = Some e"
  shows "advance_entry rid sid a x (s\<lparr>sb_cancellations := c\<rparr>) =
    (set_cell a (bump_cell (e + 1) (sb_cells s a)) (s\<lparr>sb_cancellations := c\<rparr>), Inr (e + 1))"
proof -
  obtain g where "checked_add_u64 e 1 = Some g"
    using assms(1) checked_succ_None_iff by (fastforce simp: ready_def)
  then have "checked_add_u64 e 1 = Some (e + 1)" using checked_succ_Some_eq [of e g] by simp
  then show ?thesis using assms by (auto simp: advance_entry_def Let_def ready_def)
qed

lemma ready_start_change:
  assumes "ready s sid a e rid"
  shows "\<exists>s1 token. start_change rid sid e a s = (s1, Inr (token, e + 1)) \<and>
    \<not> is_cancelled (sb_cancellations s1) token"
proof -
  obtain c where "register_request rid s = (s\<lparr>sb_cancellations := c\<rparr>, Some (cn_next (sb_cancellations s)))"
    "\<not> cn_flags c (cn_next (sb_cancellations s))"
    using ready_register [of s rid] assms by (auto simp: ready_def)
  moreover have "ensure_entry rid sid a s = Inr ()"
    using assms by (simp add: ensure_entry_Inr ready_def)
  ultimately show ?thesis
    using ready_advance [OF assms, of "Some e" c]
    by (auto simp: start_change_def begin_operation_def begin_state_change_def is_cancelled_def
        set_cell_def)
qed

lemma ready_start_cancel:
  assumes "ready s sid a e rid" "cc_session_id c = sid" "cc_generation c = None \<or> cc_generation c = Some e"
  shows "\<exists>s1 token. start_cancel rid c a s = (s1, Inr (token, e + 1)) \<and>
    (is_cancelled (sb_cancellations s1) token \<longrightarrow> cc_target_request_id c \<noteq> None)"
proof -
  obtain x where "register_request rid s = (s\<lparr>sb_cancellations := x\<rparr>, Some (cn_next (sb_cancellations s)))"
    "\<not> cn_flags x (cn_next (sb_cancellations s))"
    using ready_register [of s rid] assms by (auto simp: ready_def)
  moreover have "ensure_entry rid sid a s = Inr ()"
    using assms by (simp add: ensure_entry_Inr ready_def)
  ultimately show ?thesis
    using ready_advance [OF assms(1,3), of x] assms(2)
    by (auto simp: start_cancel_def begin_operation_def begin_cancel_def is_cancelled_def
        set_cell_def split: option.splits)
qed

text \<open>The outcome of an operation on \<open>sid\<close> at generation \<open>e\<close>, given the backend's result.\<close>

definition transacted ::
  "u64 \<Rightarrow> u64 \<Rightarrow> verdict \<Rightarrow> session_broker \<Rightarrow> session_broker \<times> response_envelope \<Rightarrow> bool" where
  "transacted sid e v s out \<longleftrightarrow>
     session_view (fst out) = view_after v sid (e + 1) (session_view s) \<and>
     rp_generation (snd out) = Some (if v = RolledBack then e else e + 1) \<and>
     (\<forall>t. enhancement_token s sid = Some t \<longrightarrow> \<not> is_current (sb_cells (fst out)) t)"

lemma run_transaction:
  assumes ok: "entries_ok s" and a: "entry_of s sid = Some a" and e: "gc_clock (sb_cells s a) = e"
    and start: "start a s = (s1, Inr (token, e + 1))" and opn: "opened rid a (e + 1) s s1"
    and fin: "\<And>r s2. finishes (cmd (e + 1)) a e (e + 1) r s2 (finish a (e + 1) r s2)"
    and ex: "be_execute ops b (cmd (e + 1)) (is_cancelled (sb_cancellations s1) token) = (b', r)"
  shows "\<exists>s' resp. run_operation ops rid sid hint start cmd finish (s, b) = ((s', b'), resp) \<and>
    transacted sid e (verdict_of (cmd (e + 1)) (e + 1) r) s (s', resp)"
proof -
  obtain s' resp where out: "finish a (e + 1) r (finish_registration rid s1) = (s', resp)"
    by fastforce
  have "finishes (cmd (e + 1)) a e (e + 1) r (finish_registration rid s1) (s', resp)"
    using fin [of r "finish_registration rid s1"] by (simp add: out)
  note fv = finished_view [OF ok a e opn this]
  have "\<not> is_current (sb_cells s') t" if "enhancement_token s sid = Some t" for t
    using that a fv by (auto simp: enhancement_token_def entry_token_def from_shared_def is_current_def)
  with fv have "transacted sid e (verdict_of (cmd (e + 1)) (e + 1) r) s (s', resp)"
    by (simp add: transacted_def)
  then show ?thesis
    using a start ex out by (auto simp: run_operation_def)
qed

text \<open>A composition operation on session \<open>sid\<close> at generation \<open>e\<close>, and what the backend sees.\<close>

fun composes :: "request_command \<Rightarrow> u64 \<Rightarrow> u64 \<Rightarrow> bool" where
  "composes (KeyCmd c) sid e \<longleftrightarrow> kq_session_id c = sid \<and> kq_generation c = e"
| "composes (EditCmd c) sid e \<longleftrightarrow> eq_session_id c = sid \<and> eq_generation c = e"
| "composes (ConvertCmd c) sid e \<longleftrightarrow> cv_session_id c = sid \<and> cv_generation c = e"
| "composes (CommitCmd c) sid e \<longleftrightarrow> cm_session_id c = sid \<and> cm_generation c = e"
| "composes (CancelCmd c) sid e \<longleftrightarrow> cc_session_id c = sid \<and>
     (cc_generation c = None \<or> cc_generation c = Some e)"
| "composes _ sid e \<longleftrightarrow> False"

fun backend_command :: "u64 \<Rightarrow> request_command \<Rightarrow> request_command" where
  "backend_command g (ConvertCmd c) = ConvertCmd (c\<lparr>cv_generation := g\<rparr>)"
| "backend_command g cmd = cmd"

fun cancels_something :: "request_command \<Rightarrow> bool" where
  "cancels_something (CancelCmd c) \<longleftrightarrow> cc_target_request_id c \<noteq> None"
| "cancels_something _ \<longleftrightarrow> False"

lemma handle_transaction:
  assumes "entries_ok s" "ready s sid a e (rq_request_id q)"
    and "validate_request q = Inr ()" "composes (rq_command q) sid e"
  shows "\<exists>flag b' r s' resp. (flag \<longrightarrow> cancels_something (rq_command q)) \<and>
    be_execute ops b (backend_command (e + 1) (rq_command q)) flag = (b', r) \<and>
    session_handle ops q (s, b) = ((s', b'), resp) \<and>
    transacted sid e (verdict_of (backend_command (e + 1) (rq_command q)) (e + 1) r) s (s', resp)"
proof -
  let ?rid = "rq_request_id q"
  have a: "entry_of s sid = Some a" and e: "gc_clock (sb_cells s a) = e"
    using assms(2) by (simp_all add: ready_def)
  have h: "session_handle ops q (s, b) = session_command ops q (s, b)"
    using assms(3) by (simp add: session_handle_def)
  obtain s1 token where st: "start_change ?rid sid e a s = (s1, Inr (token, e + 1))"
    "\<not> is_cancelled (sb_cancellations s1) token"
    using ready_start_change [OF assms(2)] by blast
  note run = run_transaction [OF assms(1) a e, where rid = ?rid]
  note opn = start_change_opened [OF st(1)]
  show ?thesis
  proof (cases "rq_command q")
    case (KeyCmd c)
    then have c: "kq_session_id c = sid" "kq_generation c = e" using assms(4) by auto
    obtain b' r where x: "be_execute ops b (KeyCmd c) False = (b', r)" by fastforce
    have "\<exists>s' resp. run_operation ops ?rid sid e (start_change ?rid sid e) (\<lambda>_. KeyCmd c)
        (finish_key ?rid c) (s, b) = ((s', b'), resp) \<and>
        transacted sid e (verdict_of (KeyCmd c) (e + 1) r) s (s', resp)"
      by (rule run [where start = "start_change ?rid sid e" and cmd = "\<lambda>_. KeyCmd c", OF st(1) opn])
        (use finish_key_finishes c x st(2) in \<open>auto\<close>)
    then show ?thesis
      using x h KeyCmd c by (auto simp: session_command_def session_key_def)
  next
    case (EditCmd c)
    then have c: "eq_session_id c = sid" "eq_generation c = e" using assms(4) by auto
    obtain b' r where x: "be_execute ops b (EditCmd c) False = (b', r)" by fastforce
    have "\<exists>s' resp. run_operation ops ?rid sid e (start_change ?rid sid e) (\<lambda>_. EditCmd c)
        (finish_edit ?rid c) (s, b) = ((s', b'), resp) \<and>
        transacted sid e (verdict_of (EditCmd c) (e + 1) r) s (s', resp)"
      by (rule run [where start = "start_change ?rid sid e" and cmd = "\<lambda>_. EditCmd c", OF st(1) opn])
        (use finish_edit_finishes c x st(2) in \<open>auto\<close>)
    then show ?thesis
      using x h EditCmd c by (auto simp: session_command_def session_edit_def)
  next
    case (CommitCmd c)
    then have c: "cm_session_id c = sid" "cm_generation c = e" using assms(4) by auto
    obtain b' r where x: "be_execute ops b (CommitCmd c) False = (b', r)" by fastforce
    have "\<exists>s' resp. run_operation ops ?rid sid e (start_change ?rid sid e) (\<lambda>_. CommitCmd c)
        (finish_commit ?rid c) (s, b) = ((s', b'), resp) \<and>
        transacted sid e (verdict_of (CommitCmd c) (e + 1) r) s (s', resp)"
      by (rule run [where start = "start_change ?rid sid e" and cmd = "\<lambda>_. CommitCmd c", OF st(1) opn])
        (use finish_commit_finishes c x st(2) in \<open>auto\<close>)
    then show ?thesis
      using x h CommitCmd c by (auto simp: session_command_def session_commit_def)
  next
    case (ConvertCmd c)
    then have c: "cv_session_id c = sid" "cv_generation c = e" using assms(4) by auto
    obtain b' r where x: "be_execute ops b (ConvertCmd (c\<lparr>cv_generation := e + 1\<rparr>)) False = (b', r)" by fastforce
    have "\<exists>s' resp. run_operation ops ?rid sid e (start_change ?rid sid e) (\<lambda>g. ConvertCmd (c\<lparr>cv_generation := g\<rparr>))
        (finish_convert ?rid c) (s, b) = ((s', b'), resp) \<and>
        transacted sid e (verdict_of (ConvertCmd (c\<lparr>cv_generation := e + 1\<rparr>)) (e + 1) r) s (s', resp)"
      by (rule run [where start = "start_change ?rid sid e" and cmd = "\<lambda>g. ConvertCmd (c\<lparr>cv_generation := g\<rparr>)", OF st(1) opn])
        (use finish_convert_finishes c x st(2) in \<open>auto\<close>)
    then show ?thesis
      using x h ConvertCmd c by (auto simp: session_command_def session_convert_def)
  next
    case (CancelCmd c)
    then have c: "cc_session_id c = sid" "cc_generation c = None \<or> cc_generation c = Some e"
      using assms(4) by auto
    obtain s2 tok where st2: "start_cancel ?rid c a s = (s2, Inr (tok, e + 1))"
      "is_cancelled (sb_cancellations s2) tok \<longrightarrow> cc_target_request_id c \<noteq> None"
      using ready_start_cancel [OF assms(2) c] by blast
    have ce: "cancel_expected c a s = e" using c e by (auto simp: cancel_expected_def)
    obtain b' r where x: "be_execute ops b (CancelCmd c) (is_cancelled (sb_cancellations s2) tok) = (b', r)"
      by fastforce
    have "\<exists>s' resp. run_operation ops ?rid sid (case cc_generation c of None \<Rightarrow> 0 | Some g \<Rightarrow> g)
        (start_cancel ?rid c) (\<lambda>_. CancelCmd c)
        (\<lambda>a. finish_cancel ?rid c a (cancel_expected c a s)) (s, b) = ((s', b'), resp) \<and>
        transacted sid e (verdict_of (CancelCmd c) (e + 1) r) s (s', resp)"
      by (rule run [where start = "start_cancel ?rid c", OF st2(1) start_cancel_opened [OF st2(1)] _ x])
        (simp add: ce finish_cancel_finishes)
    moreover have "session_command ops q (s, b) = session_cancel ops ?rid c (s, b)"
      using CancelCmd by (simp add: session_command_def Let_def)
    ultimately obtain s' resp where
      "session_handle ops q (s, b) = ((s', b'), resp)"
      "transacted sid e (verdict_of (CancelCmd c) (e + 1) r) s (s', resp)"
      using h c(1) by (auto simp: session_cancel_def)
    moreover have "is_cancelled (sb_cancellations s2) tok \<longrightarrow> cancels_something (rq_command q)"
      using st2(2) CancelCmd by simp
    ultimately show ?thesis
      using x CancelCmd
      by (intro exI [of _ "is_cancelled (sb_cancellations s2) tok"] exI [of _ b'] exI [of _ r]
          exI [of _ s'] exI [of _ resp]) simp
  qed (use assms(4) in simp_all)
qed

end
