(* ===== verification/Session_Handlers.thy ===== *)
theory Session_Handlers
  imports Session_Transaction
begin

text \<open>
  The uninterrupted handlers of the asynchronous broker as a whole: each request takes back
  its registration, never revives an invalidated session id, leaves every listed session
  active, and is one step of a \<open>generation_owner\<close>; every answer is a valid envelope.
\<close>

section \<open>Settled states\<close>

definition live_active :: "session_broker \<Rightarrow> bool" where
  "live_active s \<longleftrightarrow> (\<forall>sid a. entry_of s sid = Some a \<longrightarrow> gc_active (sb_cells s a))"

definition settled :: "nat \<Rightarrow> session_broker \<Rightarrow> session_broker \<Rightarrow> bool" where
  "settled k s s' \<longleftrightarrow>
     skeeps k s s' \<and> cn_tokens (sb_cancellations s') = cn_tokens (sb_cancellations s) \<and>
     (tombstones_dead s \<longrightarrow> tombstones_dead s') \<and>
     (entries_ok s \<longrightarrow> live_active s \<longrightarrow> live_active s')"

lemma settledI:
  "skeeps k s s' \<Longrightarrow> cn_tokens (sb_cancellations s') = cn_tokens (sb_cancellations s) \<Longrightarrow>
   (tombstones_dead s \<Longrightarrow> tombstones_dead s') \<Longrightarrow>
   (entries_ok s \<Longrightarrow> live_active s \<Longrightarrow> live_active s') \<Longrightarrow> settled k s s'"
  by (simp add: settled_def)

lemma settledD:
  assumes "settled k s s'"
  shows "skeeps k s s'" "cn_tokens (sb_cancellations s') = cn_tokens (sb_cancellations s)"
    "tombstones_dead s \<Longrightarrow> tombstones_dead s'"
    "entries_ok s \<Longrightarrow> live_active s \<Longrightarrow> live_active s'"
  using assms by (simp_all add: settled_def)

lemma settled_refl [simp, intro]: "settled k s s"
  by (simp add: settled_def)

lemma settled_trans:
  assumes j: "settled j a b" and k: "settled k b c"
  shows "settled (j + k) a c"
proof (rule settledI)
  show "skeeps (j + k) a c" by (rule skeeps_trans [OF settledD(1) [OF j] settledD(1) [OF k]])
qed (use settledD [OF j] settledD [OF k] skeepsD(6) [OF settledD(1) [OF j]] in simp_all)

lemma settled_mono: "settled j a b \<Longrightarrow> j \<le> k \<Longrightarrow> settled k a b"
  by (auto simp: settled_def intro: skeeps_mono)

lemma settled_then: "settled k a b \<Longrightarrow> settled 0 b c \<Longrightarrow> settled k a c"
  using settled_trans [of k a b 0 c] by simp

lemma settled_first: "settled 0 a b \<Longrightarrow> settled k b c \<Longrightarrow> settled k a c"
  using settled_trans [of 0 a b k c] by simp

lemma canc_settled:
  "cn_tokens c = cn_tokens (sb_cancellations s) \<Longrightarrow> settled k s (s\<lparr>sb_cancellations := c\<rparr>)"
  by (rule settledI) (simp_all add: cancellations_skeeps tombstones_dead_def live_active_def entry_of_def)

lemma refused_settled: "refused s s1 \<Longrightarrow> settled k s s1"
  by (auto simp: refused_def intro: canc_settled)

lemma set_cell_settled:
  "evolves k (sb_cells s a) c \<Longrightarrow> (gc_active (sb_cells s a) \<Longrightarrow> gc_active c) \<Longrightarrow>
   settled k s (set_cell a c s)"
  by (rule settledI)
    (auto simp: set_cell_skeeps tombstones_dead_def live_active_def entry_of_def,
     auto simp: set_cell_def)

lemma set_entry_settled:
  "constant_entry (sb_entries s a) e \<Longrightarrow> state_ok (se_last_valid e) \<Longrightarrow> settled k s (set_entry a e s)"
  by (rule settledI)
    (auto simp: set_entry_skeeps, auto simp: set_entry_def tombstones_dead_def live_active_def entry_of_def)

lemma rollback_settled:
  "expected \<le> attempted \<Longrightarrow> settled k s (rollback_state_change a expected attempted s)"
  by (auto simp: rollback_state_change_def intro!: set_cell_settled evolves_lower)

lemma remember_state_settled: "state_ok (Some st) \<Longrightarrow> settled k s (remember_state sid st s)"
  by (auto simp: remember_state_def constant_entry_def intro!: set_entry_settled split: option.splits)

lemma clear_state_settled: "settled k s (clear_state sid a s)"
  by (auto simp: clear_state_def constant_entry_def intro!: set_entry_settled)

lemma invalidate_all_settled: "settled k s (invalidate_all_sessions s)"
  by (rule settledI)
    (simp_all add: invalidate_all_skeeps,
     auto simp: invalidate_all_sessions_def tombstones_dead_def live_active_def entry_of_def)

lemma invalidate_session_settled: "settled k s (fst (invalidate_session rid g s))"
  by (simp add: invalidate_session_def invalidate_all_settled)

lemma drop_session_settled: "settled k s (s\<lparr>sb_sessions := fmdrop sid (sb_sessions s)\<rparr>)"
  by (rule settledI)
    (simp_all add: drop_session_skeeps,
     auto simp: tombstones_dead_def live_active_def entry_of_def split: if_splits)

lemma insert_session_settled:
  assumes "entry_of s sid = None" "session_count s < unat (bc_max_sessions (sb_config s))"
    and "sid |\<notin>| sb_invalidated s"
  shows "settled k s (insert_session sid fc rerank s)"
proof (rule settledI)
  show "skeeps k s (insert_session sid fc rerank s)" by (rule insert_session_skeeps [OF assms(1,2)])
  show "tombstones_dead (insert_session sid fc rerank s)" if "tombstones_dead s"
    using that assms(3) by (auto simp: tombstones_dead_def insert_session_def entry_of_def)
  show "live_active (insert_session sid fc rerank s)" if "entries_ok s" "live_active s"
    using that by (auto simp: live_active_def insert_session_def entry_of_def new_cell_def)
qed (simp add: insert_session_def)

text \<open>A cell that is cleared together with its table entry.\<close>

lemma retire_settled:
  assumes ent: "entry_of s sid = Some a" and c: "evolves k (sb_cells s a) c"
  shows "settled k s ((set_cell a c s)\<lparr>sb_sessions := fmdrop sid (sb_sessions s)\<rparr>)" (is "settled k s ?s'")
proof (rule settledI)
  have "skeeps k s ((set_cell a c s)\<lparr>sb_sessions := fmdrop sid (sb_sessions (set_cell a c s))\<rparr>)"
    by (rule skeeps_then [OF set_cell_skeeps [OF c] drop_session_skeeps])
  then show "skeeps k s ?s'" by (simp add: set_cell_def)
  show "live_active ?s'" if "entries_ok s" "live_active s"
  proof -
    have "x = sid" if "entry_of s x = Some a" for x
      using \<open>entries_ok s\<close> ent that unfolding entries_ok_def by blast
    then show ?thesis
      using \<open>live_active s\<close> by (auto simp: live_active_def set_cell_def entry_of_def split: if_splits)
  qed
qed (auto simp: set_cell_def tombstones_dead_def entry_of_def)

section \<open>Operations settle\<close>

lemmas finish_settled_intros =
  remember_state_settled payload_state_ok rollback_settled invalidate_session_settled
  clear_state_settled drop_session_settled settled_refl

lemma finish_key_settled: "kq_generation c \<le> g \<Longrightarrow> settled k s (fst (finish_key rid c a g r s))"
  by (auto simp: finish_key_def Let_def intro!: finish_settled_intros
      simp del: validate_payload.simps state_ok_simps
      split: sum.split response_payload.split backend_error.split)

lemma finish_edit_settled: "eq_generation c \<le> g \<Longrightarrow> settled k s (fst (finish_edit rid c a g r s))"
  by (auto simp: finish_edit_def Let_def intro!: finish_settled_intros
      simp del: validate_payload.simps state_ok_simps
      split: sum.split response_payload.split backend_error.split)

lemma finish_convert_settled:
  "cv_generation c \<le> g \<Longrightarrow> settled k s (fst (finish_convert rid c a g r s))"
  by (auto simp: finish_convert_def Let_def intro!: finish_settled_intros
      simp del: validate_payload.simps state_ok_simps
      split: sum.split response_payload.split backend_error.split)

lemma finish_commit_settled:
  "cm_generation c \<le> g \<Longrightarrow> settled k s (fst (finish_commit rid c a g r s))"
  by (auto simp: finish_commit_def Let_def intro!: finish_settled_intros
      simp del: validate_payload.simps
      split: sum.split response_payload.split backend_error.split)

lemma finish_cancel_settled: "e \<le> g \<Longrightarrow> settled k s (fst (finish_cancel rid c a e g r s))"
  by (auto simp: finish_cancel_def intro!: finish_settled_intros
      split: sum.split backend_error.split)

lemma finish_create_settled: "settled k s (fst (finish_create rid c r s))"
  by (auto simp: finish_create_def Let_def intro!: finish_settled_intros
      split: sum.split response_payload.split backend_error.split)

lemma opened_settled:
  assumes "opened rid a g s s1"
  shows "settled 1 s (finish_registration rid s1)"
proof -
  obtain c where c: "finish_registration rid s1 =
      set_cell a (bump_cell g (sb_cells s a)) (s\<lparr>sb_cancellations := c\<rparr>)"
    "cn_tokens c = cn_tokens (sb_cancellations s)"
    using opened_finish [OF assms] by blast
  have "settled 1 (s\<lparr>sb_cancellations := c\<rparr>) (finish_registration rid s1)"
    unfolding c(1) by (rule set_cell_settled) (auto intro: evolves_bump)
  then show ?thesis by (rule settled_first [OF canc_settled [OF c(2)]])
qed

lemma run_operation_settled:
  assumes refused: "\<And>a s1 resp. start a s = (s1, Inl resp) \<Longrightarrow> settled 1 s s1"
    and opens: "\<And>a s1 token g. start a s = (s1, Inr (token, g)) \<Longrightarrow> opened rid a g s s1"
    and finish: "\<And>a s1 token g r s2. start a s = (s1, Inr (token, g)) \<Longrightarrow> settled 0 s2 (fst (finish a g r s2))"
  shows "settled 1 s (fst (fst (run_operation ops rid sid hint start cmd finish (s, b))))"
proof (cases "entry_of s sid")
  case (Some a)
  obtain s1 res where s1: "start a s = (s1, res)" by fastforce
  show ?thesis
  proof (cases res)
    case (Inl resp)
    with s1 Some refused show ?thesis by (simp add: run_operation_def)
  next
    case (Inr tg)
    then obtain token g where tg: "start a s = (s1, Inr (token, g))" using s1 by (cases tg) auto
    have "settled 1 s (fst (finish a g r (finish_registration rid s1)))" for r
      by (rule settled_then [OF opened_settled [OF opens [OF tg]] finish [OF tg]])
    with tg Some show ?thesis by (simp add: run_operation_def Let_def split: prod.splits) (metis fst_conv)
  qed
qed (simp add: run_operation_def)

lemma start_change_settles: "start_change rid sid e a s = (s1, Inl resp) \<Longrightarrow> settled 1 s s1"
  by (rule refused_settled [OF start_change_refused])

lemma session_key_settled: "settled 1 s (fst (fst (session_key ops rid c (s, b))))"
  unfolding session_key_def
  by (rule run_operation_settled)
    (auto intro: start_change_settles start_change_opened finish_key_settled start_change_Inr
      simp del: One_nat_def)

lemma session_edit_settled: "settled 1 s (fst (fst (session_edit ops rid c (s, b))))"
  unfolding session_edit_def
  by (rule run_operation_settled)
    (auto intro: start_change_settles start_change_opened finish_edit_settled start_change_Inr
      simp del: One_nat_def)

lemma session_convert_settled: "settled 1 s (fst (fst (session_convert ops rid c (s, b))))"
  unfolding session_convert_def
  by (rule run_operation_settled)
    (auto intro: start_change_settles start_change_opened finish_convert_settled start_change_Inr
      simp del: One_nat_def)

lemma session_commit_settled: "settled 1 s (fst (fst (session_commit ops rid c (s, b))))"
  unfolding session_commit_def
  by (rule run_operation_settled)
    (auto intro: start_change_settles start_change_opened finish_commit_settled start_change_Inr
      simp del: One_nat_def)

lemma start_cancel_settles:
  assumes "start_cancel rid c a s = (s1, Inl resp)"
  shows "settled 1 s s1"
proof -
  have "begin_operation rid (begin_cancel rid (cc_session_id c) a (cc_generation c)) s = (s1, Inl resp)"
    using assms by (auto simp: start_cancel_def split: prod.splits sum.splits option.splits)
  then have "refused s s1"
    by (rule begin_refused) (auto simp: begin_cancel_def split: sum.splits dest!: advance_entry_Inl)
  then show ?thesis by (rule refused_settled)
qed

lemma session_cancel_settled: "settled 1 s (fst (fst (session_cancel ops rid c (s, b))))"
  unfolding session_cancel_def
  by (rule run_operation_settled)
    (auto intro: start_cancel_settles start_cancel_opened finish_cancel_settled start_cancel_Inr
      simp del: One_nat_def)

lemma start_focus_lost_Inl:
  assumes "start_focus_lost rid c a s = (s1, Inl resp)" "entry_of s (fl_session_id c) = Some a"
  shows "settled 1 s s1"
proof (cases "se_rerank_only (sb_entries s a)")
  case True
  have "settled 1 s ((set_cell a ((sb_cells s a)\<lparr>gc_active := False\<rparr>) s)
      \<lparr>sb_sessions := fmdrop (fl_session_id c) (sb_sessions s)\<rparr>)"
    by (rule retire_settled [OF assms(2)]) auto
  with True assms show ?thesis
    by (auto simp: start_focus_lost_def Let_def drop_entry_def deactivate_def set_cell_def
        entry_of_def split: if_splits)
next
  case False
  with assms(1) show ?thesis
    by (auto simp: start_focus_lost_def Let_def simp del: One_nat_def
        split: prod.splits sum.splits dest: start_change_settles)
qed

lemma start_focus_lost_Inr:
  assumes "start_focus_lost rid c a s = (s1, Inr (token, g))"
  shows "\<exists>x. finish_registration rid s1 =
      set_cell a ((bump_cell g (sb_cells s a))\<lparr>gc_active := False\<rparr>) (s\<lparr>sb_cancellations := x\<rparr>) \<and>
      cn_tokens x = cn_tokens (sb_cancellations s)"
proof -
  obtain s0 where s0: "start_change rid (fl_session_id c) (fl_generation c) a s = (s0, Inr (token, g))"
    "s1 = deactivate a s0"
    using assms by (auto simp: start_focus_lost_def Let_def split: if_splits prod.splits sum.splits)
  obtain x where "s0 = set_cell a (bump_cell g (sb_cells s a)) (s\<lparr>sb_cancellations := x\<rparr>)"
    "cn_tokens (finish_request rid x) = cn_tokens (sb_cancellations s)"
    using start_change_opened [OF s0(1)] by (auto simp: opened_def)
  with s0(2) show ?thesis
    by (auto simp: deactivate_def finish_registration_def set_cell_def
        intro!: exI [of _ "finish_request rid x"])
qed

lemma session_focus_lost_settled: "settled 1 s (fst (fst (session_focus_lost ops rid c (s, b))))"
proof (cases "entry_of s (fl_session_id c)")
  case (Some a)
  obtain s1 res where s1: "start_focus_lost rid c a s = (s1, res)" by fastforce
  show ?thesis
  proof (cases res)
    case (Inl resp)
    with s1 Some start_focus_lost_Inl [of rid c a s s1 resp] show ?thesis
      by (simp add: session_focus_lost_def run_operation_def)
  next
    case (Inr tg)
    then obtain token g where tg: "start_focus_lost rid c a s = (s1, Inr (token, g))"
      using s1 by (cases tg) auto
    obtain x where x: "finish_registration rid s1 =
        set_cell a ((bump_cell g (sb_cells s a))\<lparr>gc_active := False\<rparr>) (s\<lparr>sb_cancellations := x\<rparr>)"
      "cn_tokens x = cn_tokens (sb_cancellations s)"
      using start_focus_lost_Inr [OF tg] by blast
    let ?t = "s\<lparr>sb_cancellations := x\<rparr>"
    have t: "settled 0 s ?t" by (rule canc_settled [OF x(2)])
    have ev: "evolves 1 (sb_cells ?t a) ((bump_cell g (sb_cells s a))\<lparr>gc_active := False\<rparr>)"
      by (simp add: evolves_bump)
    have "settled 1 ?t ((set_cell a ((bump_cell g (sb_cells s a))\<lparr>gc_active := False\<rparr>) ?t)
        \<lparr>sb_sessions := fmdrop (fl_session_id c) (sb_sessions ?t)\<rparr>)"
      by (rule retire_settled [OF _ ev]) (use Some in \<open>simp add: entry_of_def\<close>)
    then have drop: "settled 1 s ((finish_registration rid s1)
        \<lparr>sb_sessions := fmdrop (fl_session_id c) (sb_sessions (finish_registration rid s1))\<rparr>)"
      unfolding x(1) using settled_first [OF t] by (simp add: set_cell_def)
    have "skeeps 1 s (invalidate_all_sessions (finish_registration rid s1))"
      unfolding x(1)
      by (rule skeeps_first [OF settledD(1) [OF t] skeeps_then [OF set_cell_skeeps [OF ev] invalidate_all_skeeps]])
    then have inv: "settled 1 s (invalidate_all_sessions (finish_registration rid s1))"
      by (rule settledI)
        (use x in \<open>auto simp: invalidate_all_sessions_def tombstones_dead_def live_active_def entry_of_def set_cell_def\<close>)
    have "settled 1 s (fst (finish_focus_lost rid c g r (finish_registration rid s1)))" for r
      using drop inv
      by (auto simp: finish_focus_lost_def invalidate_session_def simp del: One_nat_def
          split: sum.split backend_error.split)
    with tg Some show ?thesis
      by (simp add: session_focus_lost_def run_operation_def Let_def split: prod.splits) (metis fst_conv)
  qed
qed (simp add: session_focus_lost_def run_operation_def)

lemma register_settles:
  "register_request rid s = (s1, None) \<Longrightarrow> settled k s s1"
  "register_request rid s = (s1, Some token) \<Longrightarrow> settled k s (finish_registration rid s1)"
proof -
  show "register_request rid s = (s1, None) \<Longrightarrow> settled k s s1"
    by (rule refused_settled [OF register_request_None(1)])
  assume "register_request rid s = (s1, Some token)"
  then obtain c where "s1 = s\<lparr>sb_cancellations := c\<rparr>"
    "cn_tokens (finish_request rid c) = cn_tokens (sb_cancellations s)"
    using register_request_Some by blast
  then show "settled k s (finish_registration rid s1)"
    by (simp add: finish_registration_def canc_settled)
qed

lemma session_create_settled: "settled 1 s (fst (fst (session_create ops rid c (s, b))))"
proof (cases "cs_session_id c |\<in>| sb_invalidated s")
  case False
  obtain s1 r where r: "admit_session rid c s = (s1, r)" by fastforce
  show ?thesis
  proof (cases r)
    case (Inl resp)
    with r have "s1 = s" by (auto simp: admit_session_def split: if_splits)
    with False r Inl show ?thesis by (simp add: session_create_def)
  next
    case (Inr u)
    with r have s1: "s1 = insert_session (cs_session_id c) (cs_field_class c) False s"
      and "entry_of s (cs_session_id c) = None"
      and "session_count s < unat (bc_max_sessions (sb_config s))"
      by (auto simp: admit_session_def not_le split: if_splits)
    then have k1: "settled 1 s s1" using False by (simp add: insert_session_settled)
    obtain s2 tok where tok: "register_request rid s1 = (s2, tok)" by fastforce
    show ?thesis
    proof (cases tok)
      case None
      have "settled 1 s (s2\<lparr>sb_sessions := fmdrop (cs_session_id c) (sb_sessions s2)\<rparr>)"
        using tok None
        by (intro settled_then [OF settled_then [OF k1 register_settles(1)] drop_session_settled]) simp
      with False r Inr tok None show ?thesis by (simp add: session_create_def)
    next
      case (Some token)
      have "settled 1 s (fst (finish_create rid c res (finish_registration rid s2)))" for res
        using tok Some
        by (intro settled_then [OF settled_then [OF k1 register_settles(2)] finish_create_settled]) simp
      with False r Inr tok Some show ?thesis
        by (simp add: session_create_def Let_def split: prod.splits) (metis fst_conv)
    qed
  qed
qed (simp add: session_create_def)

lemma find_or_insert_settled:
  assumes "find_or_insert rid c s = (s1, r)" "pr_session_id c |\<notin>| sb_invalidated s"
  shows "settled 0 s s1"
  using assms
  by (auto simp: find_or_insert_def not_le intro!: insert_session_settled split: option.splits if_splits)

lemma prepare_entry_settled: "settled 1 s (fst (prepare_entry rid c a s))"
proof -
  obtain s1 tok where tok: "register_request rid s = (s1, tok)" by fastforce
  show ?thesis
  proof (cases tok)
    case None
    with tok register_settles(1) [of rid s s1] show ?thesis
      by (auto simp: prepare_entry_def Let_def)
  next
    case (Some token)
    have k: "settled 1 s (finish_registration rid s1)"
      using register_settles(2) [of rid s s1 token] tok Some by simp
    have k0: "settled 0 s (finish_registration rid s1)"
      using register_settles(2) [of rid s s1 token] tok Some by simp
    have "settled 1 (finish_registration rid s1)
        (set_cell a ((bump_cell g (sb_cells (finish_registration rid s1) a))\<lparr>gc_active := True\<rparr>)
          (finish_registration rid s1))" for g
      by (rule set_cell_settled) (auto intro: evolves_bump)
    from settled_first [OF k0 this] show ?thesis
      using tok Some k by (auto simp: prepare_entry_def Let_def simp del: One_nat_def)
  qed
qed

lemma session_prepare_settled: "settled 1 s (fst (session_prepare rid c s))"
proof (cases "pr_session_id c |\<in>| sb_invalidated s")
  case False
  obtain s1 r where r: "find_or_insert rid c s = (s1, r)" by fastforce
  have k: "settled 0 s s1" by (rule find_or_insert_settled [OF r False])
  have k1: "settled 1 s s1" by (rule settled_mono [OF k]) simp
  have "settled 1 s (fst (prepare_entry rid c a s1))" for a
    by (rule settled_first [OF k prepare_entry_settled])
  with False r k1 show ?thesis by (auto simp: session_prepare_def simp del: One_nat_def split: sum.split)
qed (simp add: session_prepare_def)

lemma session_health_settled: "settled 1 s (fst (fst (session_health ops rid (s, b))))"
  by (simp add: session_health_def Let_def invalidate_all_settled)

lemma session_command_settled: "settled 1 s (fst (fst (session_command ops q (s, b))))"
proof (cases "rq_command q")
  case (PrepareRerankSessionCmd c)
  then show ?thesis
    using session_prepare_settled [of s "rq_request_id q" c]
    by (cases "session_prepare (rq_request_id q) c s") (simp add: session_command_def Let_def)
qed (simp_all add: session_command_def Let_def session_create_settled session_key_settled
    session_edit_settled session_convert_settled session_commit_settled session_cancel_settled
    session_focus_lost_settled session_health_settled del: One_nat_def)

lemma session_handle_settled: "settled 1 s (fst (fst (session_handle ops q (s, b))))"
  by (auto simp: session_handle_def session_command_settled simp del: One_nat_def split: sum.split)

lemma set_owner_settled:
  assumes "se_owner (sb_entries s a) = None"
  shows "settled k s (set_entry a ((sb_entries s a)\<lparr>se_owner := Some owner\<rparr>) s)"
  using assms
  by (intro settledI skeepsI)
    (auto simp: set_entry_def entries_ok_def bounded_def tombstones_dead_def live_active_def
      entry_of_def session_count_def constant_entry_def)

lemma bind_owner_settled: "settled k s (fst (bind_session_owner sid owner s))"
  by (auto simp: bind_session_owner_def set_owner_settled split: option.splits)

lemma handle_for_peer_settled: "settled 1 s (fst (fst (handle_for_peer ops q owner (s, b))))"
proof -
  obtain s1 b1 resp where h: "session_handle ops q (s, b) = ((s1, b1), resp)"
    by (metis prod.exhaust)
  have k: "settled 1 s s1" using session_handle_settled [of s ops q b] h by simp
  have "settled 1 s (fst (bind_session_owner sid owner s1))" for sid
    by (rule settled_then [OF k bind_owner_settled])
  with k h show ?thesis
    by (auto simp: handle_for_peer_def simp del: One_nat_def split: option.split response_payload.split)
qed

section \<open>Runs and token holders\<close>

text \<open>A sequence of requests of authenticated peers.\<close>

fun peer_run ::
  "'b backend_ops \<Rightarrow> (rstr \<times> request_envelope) list \<Rightarrow> session_broker \<times> 'b \<Rightarrow> session_broker \<times> 'b" where
  "peer_run ops [] sb = sb"
| "peer_run ops ((owner, q) # qs) sb = peer_run ops qs (fst (handle_for_peer ops q owner sb))"

definition session_inv :: "session_broker \<Rightarrow> bool" where
  "session_inv s \<longleftrightarrow> entries_ok s \<and> bounded s \<and> tombstones_dead s \<and> live_active s \<and>
     cn_tokens (sb_cancellations s) = fmempty"

lemma settled_inv: "settled k s s' \<Longrightarrow> session_inv s \<Longrightarrow> session_inv s'"
  using settledD [of k s s'] skeepsD(6,7) [of k s s'] by (simp add: session_inv_def)

lemma session_inv_new: "session_inv (session_broker_new cfg)"
  by (simp add: session_inv_def session_broker_new_def entries_ok_def bounded_def tombstones_dead_def
      live_active_def entry_of_def session_count_def new_entry_def no_cancellations_def)

interpretation session: generation_owner
  "\<lambda>(sb :: session_broker \<times> 'b) sb'. \<exists>ops owner q. sb' = fst (handle_for_peer ops q owner sb)"
  "\<lambda>sb. sb_cells (fst sb)" "\<lambda>sb a. a < sb_next (fst sb)" 1
proof
  fix sb sb' :: "session_broker \<times> 'b" and a
  assume "\<exists>ops owner q. sb' = fst (handle_for_peer ops q owner sb)" and a: "a < sb_next (fst sb)"
  then obtain ops owner q where sb': "sb' = fst (handle_for_peer ops q owner sb)" by blast
  have k: "skeeps 1 (fst sb) (fst sb')"
    using handle_for_peer_settled [of "fst sb" ops q owner "snd sb"] sb' by (simp add: settled_def)
  show "evolves 1 (sb_cells (fst sb) a) (sb_cells (fst sb') a)" by (rule skeepsD(3) [OF k a])
  show "a < sb_next (fst sb')" using skeepsD(2) [OF k] a by simp
qed

lemma peer_run_steps: "session.steps (length qs) sb (peer_run ops qs sb)"
proof (induction qs arbitrary: sb)
  case (Cons oq qs)
  obtain owner q where oq: "oq = (owner, q)" by fastforce
  show ?case
    unfolding oq peer_run.simps list.size One_nat_def add_Suc_right Nat.add_0_right
    by (rule session.steps_more [OF _ Cons.IH]) blast
qed (simp add: session.steps_none)

lemma peer_run_inv: "session_inv (fst sb) \<Longrightarrow> session_inv (fst (peer_run ops qs sb))"
proof (induction qs arbitrary: sb)
  case (Cons oq qs)
  obtain s b where sb: "sb = (s, b)" by fastforce
  obtain owner q where oq: "oq = (owner, q)" by fastforce
  have "session_inv (fst (fst (handle_for_peer ops q owner (s, b))))"
    using settled_inv [OF handle_for_peer_settled] Cons.prems sb by simp
  then show ?case using Cons.IH by (simp add: sb oq)
qed simp

lemma session_token_taken:
  assumes "session_inv s" "enhancement_token s sid = Some t"
  shows "gt_cell t < sb_next s" "gt_token_epoch t = gc_epoch (sb_cells s (gt_cell t))"
    "gt_generation t = gc_clock (sb_cells s (gt_cell t))" "is_current (sb_cells s) t"
  using assms
  by (auto simp: session_inv_def entries_ok_def live_active_def enhancement_token_def
      entry_token_def from_shared_def is_current_def)

lemma session_stale_forever:
  assumes "session_inv s" "enhancement_token s sid = Some t" "length qs + length rs < 2 ^ 64"
    and "\<not> is_current (sb_cells (fst (peer_run ops qs (s, b)))) t"
  shows "\<not> is_current (sb_cells (fst (peer_run ops rs (peer_run ops qs (s, b))))) t"
  using session.stale_forever [OF peer_run_steps peer_run_steps, of qs rs t "(s, b)" ops ops] assms
    session_token_taken [OF assms(1,2)] by simp

end
