(* ===== verification/Session_Correct.thy ===== *)
theory Session_Correct
  imports Session_Handlers
begin

text \<open>
  The properties of the asynchronous broker: answers are valid, composition operations are
  transactions, the table and its tombstones stay consistent, tokens stay stale, and peers are
  kept apart, with the one command that is not checked.
\<close>

section \<open>Answers are valid\<close>

lemma valid_session_failure:
  "m \<noteq> [] \<Longrightarrow> msg_ok 512 m \<Longrightarrow> validate_response (session_failure rid g code m f) = Inr ()"
  unfolding session_failure_def by (rule valid_failure) simp_all

lemma valid_failures:
  "validate_response (duplicate_request rid) = Inr ()"
  "validate_response (unknown_session rid sid g) = Inr ()"
  "validate_response (stale_failure rid sid e c) = Inr ()"
  "validate_response (validation_failure rid h ve) = Inr ()"
  "validate_response (backend_failure rid g be) = Inr ()"
  "validate_response (rerank_only_failure rid h) = Inr ()"
  "validate_response (exhausted_failure rid g) = Inr ()"
  "validate_response (tombstone_failure rid g) = Inr ()"
  "validate_response (limit_failure rid h) = Inr ()"
  "validate_response (requires_async q) = Inr ()"
  "validate_response (foreign_session rid h) = Inr ()"
  unfolding duplicate_request_def unknown_session_def stale_failure_def validation_failure_def
    backend_failure_def rerank_only_failure_def exhausted_failure_def tombstone_failure_def
    limit_failure_def requires_async_def foreign_session_def
  by (auto intro!: valid_session_failure msg_ok_append [OF msg_ok_lit [OF _ order_refl]]
      msg_ok_append [OF msg_ok_decw] validation_message_ok [THEN msg_ok_mono]
      msg_ok_decw [THEN msg_ok_mono] msg_ok_lit public_backend_message_ok)

lemma session_fallback_ok: "entries_ok s \<Longrightarrow> state_ok (session_fallback_state s sid)"
  by (auto simp: session_fallback_state_def entries_ok_def split: bind_splits)

lemma valid_fallbacks:
  assumes "state_ok st" "rid \<noteq> 0"
  shows "sid \<noteq> 0 \<Longrightarrow> validate_response (fallback_key rid sid g st) = Inr ()"
    "sid \<noteq> 0 \<Longrightarrow> validate_response (fallback_edit rid sid g st) = Inr ()"
    "validate_command (ConvertCmd c) = Inr () \<Longrightarrow> validate_response (fallback_convert rid c g st) = Inr ()"
  using valid_fallback_state [OF assms(1)] assms(2)
  by (auto simp: fallback_key_def fallback_edit_def fallback_convert_def intro!: valid_success
      split: prod.splits)

lemma valid_invalidate: "validate_response (snd (invalidate_session rid g s)) = Inr ()"
  by (auto simp: invalidate_session_def intro!: valid_session_failure msg_ok_lit)

lemma valid_focus_lost_ok: "rid \<noteq> 0 \<Longrightarrow> sid \<noteq> 0 \<Longrightarrow> validate_response (focus_lost_ok rid sid g) = Inr ()"
  by (auto simp: focus_lost_ok_def intro!: valid_success)

lemma valid_prepared: "rid \<noteq> 0 \<Longrightarrow> sid \<noteq> 0 \<Longrightarrow> validate_response (prepared rid sid g) = Inr ()"
  by (auto simp: prepared_def intro!: valid_success)

lemmas valid_answers = valid_failures valid_fallbacks valid_invalidate valid_focus_lost_ok
  valid_prepared session_fallback_ok valid_success

lemma valid_finishes:
  assumes "rid \<noteq> 0" "entries_ok s"
  shows "kq_session_id kc \<noteq> 0 \<Longrightarrow> validate_response (snd (finish_key rid kc a g r s)) = Inr ()"
    "eq_session_id ec \<noteq> 0 \<Longrightarrow> validate_response (snd (finish_edit rid ec a g r s)) = Inr ()"
    "validate_command (ConvertCmd vc) = Inr () \<Longrightarrow>
       validate_response (snd (finish_convert rid vc a g r s)) = Inr ()"
    "validate_response (snd (finish_commit rid cm a g r s)) = Inr ()"
    "validate_command (CancelCmd cc) = Inr () \<Longrightarrow>
       validate_response (snd (finish_cancel rid cc a e g r s)) = Inr ()"
    "fl_session_id fc \<noteq> 0 \<Longrightarrow> validate_response (snd (finish_focus_lost rid fc g r s)) = Inr ()"
    "cs_session_id sc \<noteq> 0 \<Longrightarrow> validate_response (snd (finish_create rid sc r s)) = Inr ()"
proof -
  show "kq_session_id kc \<noteq> 0 \<Longrightarrow> validate_response (snd (finish_key rid kc a g r s)) = Inr ()"
    using assms by (auto simp: finish_key_def Let_def is_ok_unit_iff simp del: validate_payload.simps
        intro!: valid_answers split: sum.split response_payload.split backend_error.split)
  show "eq_session_id ec \<noteq> 0 \<Longrightarrow> validate_response (snd (finish_edit rid ec a g r s)) = Inr ()"
    using assms by (auto simp: finish_edit_def Let_def is_ok_unit_iff simp del: validate_payload.simps
        intro!: valid_answers split: sum.split response_payload.split backend_error.split)
  show "validate_command (ConvertCmd vc) = Inr () \<Longrightarrow>
       validate_response (snd (finish_convert rid vc a g r s)) = Inr ()"
    using assms by (auto simp: finish_convert_def Let_def is_ok_unit_iff
        simp del: validate_payload.simps validate_command.simps
        intro!: valid_answers split: sum.split response_payload.split backend_error.split)
  show "validate_response (snd (finish_commit rid cm a g r s)) = Inr ()"
    using assms by (auto simp: finish_commit_def Let_def is_ok_unit_iff simp del: validate_payload.simps
        intro!: valid_answers split: sum.split response_payload.split backend_error.split)
  show "validate_command (CancelCmd cc) = Inr () \<Longrightarrow>
       validate_response (snd (finish_cancel rid cc a e g r s)) = Inr ()"
    using assms by (auto simp: finish_cancel_def intro!: valid_answers
        split: sum.split backend_error.split)
  show "fl_session_id fc \<noteq> 0 \<Longrightarrow> validate_response (snd (finish_focus_lost rid fc g r s)) = Inr ()"
    using assms by (auto simp: finish_focus_lost_def intro!: valid_answers
        split: sum.split backend_error.split)
  show "cs_session_id sc \<noteq> 0 \<Longrightarrow> validate_response (snd (finish_create rid sc r s)) = Inr ()"
    using assms by (auto simp: finish_create_def Let_def intro!: valid_answers
        split: sum.split response_payload.split backend_error.split)
qed

lemma advance_entry_valid:
  "advance_entry rid sid a e s = (s', Inl resp) \<Longrightarrow> validate_response resp = Inr ()"
  by (auto simp: advance_entry_def Let_def valid_failures split: if_splits option.splits)

lemma ensure_entry_valid: "ensure_entry rid sid a s = Inl resp \<Longrightarrow> validate_response resp = Inr ()"
  by (auto simp: ensure_entry_def valid_failures split: option.splits if_splits)

lemma start_change_valid:
  "start_change rid sid e a s = (s', Inl resp) \<Longrightarrow> validate_response resp = Inr ()"
  by (auto simp: start_change_def begin_operation_def begin_state_change_def valid_failures
      split: prod.splits option.splits sum.splits dest: advance_entry_valid ensure_entry_valid)

lemma start_cancel_valid:
  "start_cancel rid c a s = (s', Inl resp) \<Longrightarrow> validate_response resp = Inr ()"
  by (auto simp: start_cancel_def begin_operation_def begin_cancel_def valid_failures
      split: prod.splits option.splits sum.splits dest: advance_entry_valid ensure_entry_valid)

lemma start_focus_lost_valid:
  "rid \<noteq> 0 \<Longrightarrow> fl_session_id c \<noteq> 0 \<Longrightarrow> start_focus_lost rid c a s = (s', Inl resp) \<Longrightarrow>
   validate_response resp = Inr ()"
  by (auto simp: start_focus_lost_def Let_def valid_failures valid_focus_lost_ok
      split: if_splits prod.splits sum.splits dest: start_change_valid)

lemma run_operation_valid:
  assumes "entries_ok s"
    and "\<And>a s1 resp. start a s = (s1, Inl resp) \<Longrightarrow> validate_response resp = Inr ()"
    and "\<And>a s1 tg. start a s = (s1, Inr tg) \<Longrightarrow> skeeps 1 s s1"
    and "\<And>a g r s2. entries_ok s2 \<Longrightarrow> validate_response (snd (finish a g r s2)) = Inr ()"
  shows "validate_response (snd (run_operation ops rid sid hint start cmd finish (s, b))) = Inr ()"
proof (cases "entry_of s sid")
  case (Some a)
  obtain s1 res where s1: "start a s = (s1, res)" by fastforce
  show ?thesis
  proof (cases res)
    case (Inl resp)
    with s1 Some assms(2) show ?thesis by (simp add: run_operation_def)
  next
    case (Inr tg)
    then obtain token g where tg: "start a s = (s1, Inr (token, g))" using s1 by (cases tg) auto
    have "entries_ok s1" by (rule skeepsD(6) [OF assms(3) [OF tg] assms(1)])
    then have "entries_ok (finish_registration rid s1)"
      by (rule skeepsD(6) [OF finish_registration_skeeps [where k = 0]])
    then have "validate_response (snd (finish a g r (finish_registration rid s1))) = Inr ()" for r
      by (rule assms(4))
    with tg Some show ?thesis by (simp add: run_operation_def Let_def split: prod.splits) (metis snd_conv)
  qed
qed (simp add: run_operation_def valid_failures)

lemma detail_checked_eq: "detail_checked h = check_detail h"
  by (simp add: detail_checked_def check_detail_def truncate_detail_def Let_def)

lemma session_health_valid:
  "rid \<noteq> 0 \<Longrightarrow> hr_max_frame_bytes (be_health ops b) \<noteq> 0 \<Longrightarrow>
   validate_response (snd (session_health ops rid (s, b))) = Inr ()"
  by (auto simp: session_health_def Let_def detail_checked_eq frame_limit_checked_def valid_health_iff
      simp del: validate_payload.simps intro!: valid_success)

lemma session_create_valid:
  "rid \<noteq> 0 \<Longrightarrow> cs_session_id c \<noteq> 0 \<Longrightarrow> entries_ok s \<Longrightarrow>
   validate_response (snd (session_create ops rid c (s, b))) = Inr ()"
proof (cases "cs_session_id c |\<in>| sb_invalidated s")
  case False
  assume nz: "rid \<noteq> 0" "cs_session_id c \<noteq> 0" and ok: "entries_ok s"
  obtain s1 r where r: "admit_session rid c s = (s1, r)" by fastforce
  obtain s2 tok where tok: "register_request rid s1 = (s2, tok)" by fastforce
  have adm: "validate_response resp = Inr ()" if "r = Inl resp" for resp
    using r that by (auto simp: admit_session_def valid_failures split: if_splits
        intro!: valid_session_failure msg_ok_lit)
  have dup: "validate_response (session_failure rid (Some 0) EC_InvalidRequest
      (lit ''request id is already active'') FM_None) = Inr ()"
    by (auto intro!: valid_session_failure msg_ok_lit)
  have "validate_response (snd (finish_create rid c x y)) = Inr ()" for x y
    using nz by (auto simp: finish_create_def Let_def intro!: valid_answers
        split: sum.split response_payload.split backend_error.split)
  with False r tok adm dup show ?thesis
    by (cases r; cases tok) (simp_all add: session_create_def Let_def split: prod.splits, metis snd_conv)
qed (simp add: session_create_def valid_failures)

lemma prepare_entry_valid:
  assumes "rid \<noteq> 0" "pr_session_id c \<noteq> 0"
  shows "validate_response (snd (prepare_entry rid c a s)) = Inr ()"
proof -
  obtain s1 tok where tok: "register_request rid s = (s1, tok)" by fastforce
  have "validate_response (session_failure rid (Some g) EC_InvalidRequest
      (lit ''a full Mozc session cannot be adopted as a rerank-only session'') FM_None) = Inr ()"
    "validate_response (session_failure rid (Some g) EC_InvalidRequest
      (lit ''field class cannot change for a rerank session'') FM_None) = Inr ()" for g
    by (auto intro!: valid_session_failure msg_ok_lit)
  with tok show ?thesis
    by (cases tok) (simp_all add: prepare_entry_def Let_def valid_failures valid_prepared assms)
qed

lemma session_prepare_valid:
  "rid \<noteq> 0 \<Longrightarrow> pr_session_id c \<noteq> 0 \<Longrightarrow> validate_response (snd (session_prepare rid c s)) = Inr ()"
  by (auto simp: session_prepare_def find_or_insert_def valid_failures prepare_entry_valid
      split: option.splits)

lemma session_handle_valid:
  assumes ok: "entries_ok s"
    and hl: "rq_command q = HealthCmd \<Longrightarrow> hr_max_frame_bytes (be_health ops b) \<noteq> 0"
  shows "validate_response (snd (session_handle ops q (s, b))) = Inr ()"
proof (cases "validate_request q")
  case (Inr u)
  then have rid: "rq_request_id q \<noteq> 0" and cmd: "validate_command (rq_command q) = Inr ()"
    by (auto simp: validate_request_def)
  note run = run_operation_valid [OF ok]
  have "validate_response (snd (session_command ops q (s, b))) = Inr ()"
  proof (cases "rq_command q")
    case (KeyCmd c)
    with rid cmd show ?thesis
      by (simp add: session_command_def Let_def session_key_def)
        (rule run, erule start_change_valid, erule start_change_skeeps, rule valid_finishes(1), simp_all)
  next
    case (EditCmd c)
    with rid cmd show ?thesis
      by (simp add: session_command_def Let_def session_edit_def)
        (rule run, erule start_change_valid, erule start_change_skeeps, rule valid_finishes(2), simp_all)
  next
    case (ConvertCmd c)
    with rid cmd show ?thesis
      by (simp add: session_command_def Let_def session_convert_def del: validate_command.simps)
        (rule run, erule start_change_valid, erule start_change_skeeps, rule valid_finishes(3), simp_all)
  next
    case (CommitCmd c)
    with rid cmd show ?thesis
      by (simp add: session_command_def Let_def session_commit_def)
        (rule run, erule start_change_valid, erule start_change_skeeps, rule valid_finishes(4), simp_all)
  next
    case (CancelCmd c)
    with rid cmd show ?thesis
      by (simp add: session_command_def Let_def session_cancel_def del: validate_command.simps)
        (rule run, erule start_cancel_valid, erule start_cancel_skeeps, rule valid_finishes(5), simp_all)
  next
    case (FocusLostCmd c)
    with rid cmd show ?thesis
      by (simp add: session_command_def Let_def session_focus_lost_def)
        (rule run, erule (2) start_focus_lost_valid, erule start_focus_lost_skeeps, rule valid_finishes(6), simp_all)
  next
    case (CreateSessionCmd c)
    with rid cmd ok show ?thesis
      by (simp add: session_command_def Let_def session_create_valid)
  next
    case (PrepareRerankSessionCmd c)
    with rid cmd session_prepare_valid [of "rq_request_id q" c s] show ?thesis
      by (cases "session_prepare (rq_request_id q) c s") (simp add: session_command_def Let_def)
  next
    case (GenerationCmd c)
    with rid cmd show ?thesis
      by (auto simp: session_command_def Let_def session_generation_response_def valid_prepared
          intro!: valid_session_failure msg_ok_lit split: option.split)
  next
    case HealthCmd
    with rid hl show ?thesis by (simp add: session_command_def Let_def session_health_valid)
  qed (simp_all add: session_command_def Let_def valid_failures)
  with Inr show ?thesis by (simp add: session_handle_def)
qed (simp add: session_handle_def valid_failures)

section \<open>Lost sessions\<close>

lemma unknown_operation:
  "entry_of s sid = None \<Longrightarrow>
   run_operation ops rid sid hint start cmd finish (s, b) = ((s, b), unknown_session rid sid hint)"
  by (simp add: run_operation_def)

text \<open>A request for a session that is not in the table leaves the table empty of it.\<close>

lemma tombstone_refused:
  assumes "sid |\<in>| sb_invalidated s" "validate_request q = Inr ()"
    and "rq_command q = CreateSessionCmd c \<and> cs_session_id c = sid \<or>
         rq_command q = PrepareRerankSessionCmd p \<and> pr_session_id p = sid"
  shows "fst (session_handle ops q (s, b)) = (s, b) \<and>
    map_option er_code (error_of (snd (session_handle ops q (s, b)))) = Some EC_BackendUnavailable"
  using assms
  by (auto simp: session_handle_def session_command_def session_create_def session_prepare_def
      tombstone_failure_def session_failure_def Let_def)

lemma peer_run_grows: "sb_invalidated (fst sb) |\<subseteq>| sb_invalidated (fst (peer_run ops qs sb))"
proof (induction qs arbitrary: sb)
  case (Cons oq qs)
  obtain s b where sb: "sb = (s, b)" by fastforce
  obtain owner q where oq: "oq = (owner, q)" by fastforce
  have "skeeps 1 s (fst (fst (handle_for_peer ops q owner (s, b))))"
    by (rule settledD(1) [OF handle_for_peer_settled])
  then have "sb_invalidated s |\<subseteq>| sb_invalidated (fst (fst (handle_for_peer ops q owner (s, b))))"
    by (rule skeepsD(5))
  then show ?case
    using Cons.IH [of "fst (handle_for_peer ops q owner (s, b))"]
    by (simp add: sb oq)
qed simp

section \<open>A concrete broker\<close>

definition demo_empty :: session_broker where
  "demo_empty = session_broker_new default_broker_config"

definition demo_sessions :: session_broker where
  "demo_sessions =
     fst (bind_session_owner 7 [97] (insert_session 7 Regular False demo_empty))"

definition demo_rerank :: session_broker where
  "demo_rerank =
     fst (bind_session_owner 7 [97] (insert_session 7 Regular True demo_empty))"

lemma demo_empty_inv: "session_inv demo_empty"
  by (simp add: demo_empty_def session_inv_new)

lemma demo_insert_inv: "session_inv (fst (bind_session_owner 7 [97] (insert_session 7 Regular x demo_empty)))"
proof -
  have "settled 0 demo_empty (insert_session 7 Regular x demo_empty)"
    by (rule insert_session_settled)
      (simp_all add: demo_empty_def session_broker_new_def entry_of_def session_count_def
        default_broker_config_def)
  from settled_then [OF this bind_owner_settled] show ?thesis
    by (rule settled_inv [OF _ demo_empty_inv])
qed

lemma demo_empty_none: "entry_of demo_empty sid = None"
  by (simp add: demo_empty_def session_broker_new_def entry_of_def)

lemma demo_inv: "session_inv demo_sessions" "session_inv demo_rerank"
  unfolding demo_sessions_def demo_rerank_def by (rule demo_insert_inv)+

lemma demo_entry:
  "entry_of demo_sessions 7 = Some 0" "sb_cells demo_sessions 0 = new_cell 0"
  "se_rerank_only (sb_entries demo_sessions 0) = False" "se_owner (sb_entries demo_sessions 0) = Some [97]"
  "entry_of demo_rerank 7 = Some 0" "sb_cells demo_rerank 0 = new_cell 0"
  "se_rerank_only (sb_entries demo_rerank 0) = True" "se_owner (sb_entries demo_rerank 0) = Some [97]"
  "se_field_class (sb_entries demo_rerank 0) = Regular"
  by (simp_all add: demo_sessions_def demo_rerank_def bind_session_owner_def insert_session_def
      demo_empty_def session_broker_new_def entry_of_def set_entry_def new_entry_def)

lemma demo_tokens: "cn_tokens (sb_cancellations demo_sessions) = fmempty"
  using demo_inv(1) by (simp add: session_inv_def)

lemma demo_ready: "ready demo_sessions 7 0 0 9"
  by (simp add: ready_def demo_entry demo_tokens new_cell_def)

definition demo_edit :: "u64 \<Rightarrow> request_envelope" where
  "demo_edit g = new_request 9 (EditCmd \<lparr>eq_session_id = 7, eq_generation = g, eq_action = Reset\<rparr>)"

lemma demo_edit_valid: "validate_request (demo_edit g) = Inr ()"
  by (simp add: demo_edit_def validate_request_def new_request_def)

definition failing_ops :: "unit backend_ops" where
  "failing_ops = \<lparr>be_execute = (\<lambda>b cmd f. (b, Inl BE_Timeout)), be_health = (\<lambda>b. health_ready 1)\<rparr>"

lemma demo_edit_moves:
  "\<exists>s' resp. session_handle failing_ops (demo_edit 0) (demo_sessions, ()) = ((s', ()), resp) \<and>
     transacted 7 0 Invalidated demo_sessions (s', resp)"
proof -
  have r: "ready demo_sessions 7 0 0 (rq_request_id (demo_edit 0))"
    "composes (rq_command (demo_edit 0)) 7 0"
    using demo_ready by (simp_all add: demo_edit_def new_request_def)
  have "entries_ok demo_sessions" using demo_inv(1) by (simp add: session_inv_def)
  from handle_transaction [OF this r(1) demo_edit_valid r(2), of failing_ops "()"] show ?thesis
    by (auto simp: failing_ops_def verdict_of_def)
qed

lemma demo_edit_owned: "\<not> foreign_to demo_sessions [97] (rq_command (demo_edit 0))"
  by (simp add: foreign_to_def demo_edit_def new_request_def session_owned_by_def demo_entry)

section \<open>Properties\<close>

text \<open>
  C8. A key, edit, convert, commit or cancel operation on a live session is a transaction on
  the abstract view (live sessions to generations): if the backend's answer is of the right
  kind and valid, the session moves to the next generation and nothing else changes; if the
  backend cancelled or rejected it, the view is as before; on any other failure every session
  is gone. The answer carries the resulting generation, and in every case a token taken before
  is not current any more.
\<close>

theorem session_transaction:
  assumes "session_inv s" "ready s sid a e (rq_request_id q)"
    and "validate_request q = Inr ()" "composes (rq_command q) sid e"
  shows "\<exists>flag b' r s' resp. (flag \<longrightarrow> cancels_something (rq_command q)) \<and>
    be_execute ops b (backend_command (e + 1) (rq_command q)) flag = (b', r) \<and>
    session_handle ops q (s, b) = ((s', b'), resp) \<and>
    transacted sid e (verdict_of (backend_command (e + 1) (rq_command q)) (e + 1) r) s (s', resp)"
proof (rule handle_transaction)
  show "entries_ok s" using assms(1) by (simp add: session_inv_def)
qed (rule assms)+

theorem session_transaction_witness:
  "\<exists>s' resp. session_handle failing_ops (demo_edit 0) (demo_sessions, ()) = ((s', ()), resp) \<and>
     session_view s' = fmempty \<and> rp_generation resp = Some 1"
proof -
  have "ready demo_sessions 7 0 0 (rq_request_id (demo_edit 0))"
    "composes (rq_command (demo_edit 0)) 7 0"
    using demo_ready by (simp_all add: demo_edit_def new_request_def)
  from session_transaction [OF demo_inv(1) this(1) demo_edit_valid this(2), of failing_ops "()"]
  show ?thesis
    by (auto simp: failing_ops_def verdict_of_def transacted_def view_after_def)
qed

text \<open>
  The session table of the asynchronous broker is consistent after any sequence of
  requests of any peers over any backend: at most \<open>max_sessions\<close> sessions, on distinct
  entries whose cells are active and whose remembered compositions are valid, no invalidated
  id among them, and no registration left behind.
\<close>

theorem session_table_consistent:
  "session_inv (fst (peer_run ops qs (session_broker_new cfg, b)))"
  by (rule peer_run_inv) (simp add: session_inv_new)

text \<open>
  A session id that was invalidated stays dead: after any further requests it names no
  session, and creating or preparing it is refused.
\<close>

theorem invalidated_stays_dead:
  assumes "session_inv s" "sid |\<in>| sb_invalidated s"
    and "validate_request q = Inr ()" "rq_command q = CreateSessionCmd c" "cs_session_id c = sid"
    and "peer_run ops qs (s, b) = (s', b')"
  shows "entry_of s' sid = None \<and> fst (session_handle ops q (s', b')) = (s', b') \<and>
    map_option er_code (error_of (snd (session_handle ops q (s', b')))) = Some EC_BackendUnavailable"
proof -
  have "sid |\<in>| sb_invalidated s'"
    using peer_run_grows [of "(s, b)" ops qs] assms(2,6) by auto
  moreover have "session_inv s'" using peer_run_inv [of "(s, b)" ops qs] assms(1,6) by simp
  ultimately show ?thesis
    using tombstone_refused [of sid s' q c _ ops b'] assms(3-5)
    by (auto simp: session_inv_def tombstones_dead_def)
qed

definition demo_create :: request_envelope where
  "demo_create = new_request 3 (CreateSessionCmd
     \<lparr>cs_session_id = 7, cs_locale = [106, 97], cs_field_class = Regular\<rparr>)"

theorem invalidated_stays_dead_witness:
  "entry_of (invalidate_all_sessions demo_sessions) 7 = None"
  using invalidated_stays_dead [of "invalidate_all_sessions demo_sessions" 7 demo_create
      "\<lparr>cs_session_id = 7, cs_locale = [106, 97], cs_field_class = Regular\<rparr>" failing_ops "[]"
      "()" "invalidate_all_sessions demo_sessions" "()"]
    settled_inv [OF invalidate_all_settled [where k = 0] demo_inv(1)] demo_entry(1)
  by (simp add: demo_create_def new_request_def validate_request_def invalidate_all_sessions_def
      validate_text_iff limit_defs utf8_len_def is_control_def entry_of_def fmdomI)

text \<open>
  C33. Every answer of the asynchronous broker to an authenticated peer is an envelope that
  validates, except the health of a backend without a frame limit.
\<close>

theorem session_answers_valid:
  assumes "session_inv s"
    and "rq_command q \<noteq> HealthCmd \<or> hr_max_frame_bytes (be_health ops b) \<noteq> 0"
  shows "validate_response (snd (handle_for_peer ops q owner (s, b))) = Inr ()"
proof -
  have v: "validate_response (snd (session_handle ops q (s, b))) = Inr ()"
    using assms by (intro session_handle_valid) (auto simp: session_inv_def)
  obtain s1 b1 resp where h: "session_handle ops q (s, b) = ((s1, b1), resp)"
    by (metis prod.exhaust)
  with v show ?thesis
    by (auto simp: handle_for_peer_def valid_failures split: option.split response_payload.split)
qed

theorem session_answers_valid_witness:
  "validate_response (snd (handle_for_peer failing_ops (demo_edit 0) [97] (demo_sessions, ()))) = Inr ()"
  by (rule session_answers_valid [OF demo_inv(1)]) (simp add: failing_ops_def health_ready_def)

text \<open>
  A token of the asynchronous broker that is not current at some point is never current
  again through fewer than \<open>2 ^ 64\<close> further requests, rollbacks included: a rollback restores
  the generation but not the epoch.
\<close>

theorem session_token_stays_stale:
  assumes "session_inv s" "enhancement_token s sid = Some t" "length qs + length rs < 2 ^ 64"
    and "\<not> is_current (sb_cells (fst (peer_run ops qs (s, b)))) t"
  shows "\<not> is_current (sb_cells (fst (peer_run ops rs (peer_run ops qs (s, b))))) t"
  using assms by (rule session_stale_forever)

theorem session_token_stays_stale_witness:
  "\<not> is_current (sb_cells (fst (peer_run failing_ops [([97], demo_edit 1)]
      (peer_run failing_ops [([97], demo_edit 0)] (demo_sessions, ())))))
     (the (enhancement_token demo_sessions 7))"
proof (rule session_token_stays_stale [OF demo_inv(1)])
  show t: "enhancement_token demo_sessions 7 = Some (the (enhancement_token demo_sessions 7))"
    by (simp add: enhancement_token_def demo_entry)
  obtain s' resp where h: "session_handle failing_ops (demo_edit 0) (demo_sessions, ()) = ((s', ()), resp)"
    and tr: "transacted 7 0 Invalidated demo_sessions (s', resp)"
    using demo_edit_moves by blast
  have stale: "\<not> is_current (sb_cells s') (the (enhancement_token demo_sessions 7))"
    using tr t by (simp add: transacted_def)
  have cells: "sb_cells (fst (bind_session_owner x y s')) = sb_cells s'" for x y
    by (auto simp: bind_session_owner_def set_entry_def split: option.splits)
  show "\<not> is_current (sb_cells (fst (peer_run failing_ops [([97], demo_edit 0)] (demo_sessions, ()))))
      (the (enhancement_token demo_sessions 7))"
    using stale h demo_edit_owned
    by (auto simp: handle_for_peer_def cells split: option.split response_payload.split)
qed simp

text \<open>
  Peers are kept apart: a checked request for a session another peer owns changes nothing
  and is answered exactly as if the session did not exist.
\<close>

theorem peer_isolation:
  assumes "\<not> owner_exempt (rq_command q)" "command_session_id (rq_command q) = Some sid"
    and "entry_of s sid = Some a" "se_owner (sb_entries s a) = Some owner" "owner \<noteq> other"
    and "entry_of s0 sid = None"
  shows "fst (handle_for_peer ops q other (s, b)) = (s, b) \<and>
    snd (handle_for_peer ops q other (s, b)) = snd (handle_for_peer ops q other (s0, b0))"
  using assms by (simp add: handle_for_peer_def foreign_to_def session_owned_by_def)

theorem peer_isolation_witness:
  "fst (handle_for_peer failing_ops (demo_edit 0) [98] (demo_sessions, ())) = (demo_sessions, ())"
  using peer_isolation [of "demo_edit 0" 7 demo_sessions 0 "[97]" "[98]" demo_empty failing_ops "()" "()"]
  by (simp add: demo_entry demo_empty_none owner_exempt_def demo_edit_def new_request_def)

text \<open>
  The exemption of \<open>PrepareRerankSession\<close> breaks that isolation: a peer that does not own
  a rerank session advances it by naming its id, field class and a later generation, gets a
  success, and makes the owner's enhancement tokens stale; the owner does not change.
\<close>

theorem foreign_prepare_advances:
  assumes "session_inv s" "entry_of s sid = Some a" "se_rerank_only (sb_entries s a)"
    and "se_owner (sb_entries s a) = Some owner" "owner \<noteq> other"
    and "validate_request q = Inr ()" "rq_command q = PrepareRerankSessionCmd c"
    and "pr_session_id c = sid" "pr_field_class c = se_field_class (sb_entries s a)"
    and "gc_clock (sb_cells s a) < pr_generation c"
  shows "\<exists>s'. handle_for_peer ops q other (s, b) = ((s', b), prepared (rq_request_id q) sid (pr_generation c))
    \<and> entry_generation s' sid = Some (pr_generation c)
    \<and> se_owner (sb_entries s' a) = Some owner
    \<and> (\<forall>t. enhancement_token s sid = Some t \<longrightarrow> \<not> is_current (sb_cells s') t)"
proof -
  let ?rid = "rq_request_id q" and ?g = "pr_generation c"
  have inv: "tombstones_dead s" "cn_tokens (sb_cancellations s) = fmempty"
    using assms(1) by (simp_all add: session_inv_def)
  then have alive: "sid |\<notin>| sb_invalidated s" using assms(2) by (auto simp: tombstones_dead_def)
  obtain x where reg: "register_request ?rid s = (s\<lparr>sb_cancellations := x\<rparr>, Some (cn_next (sb_cancellations s)))"
    using ready_register [of s ?rid] inv(2) by auto
  let ?s' = "set_cell a ((bump_cell ?g (sb_cells s a))\<lparr>gc_active := True\<rparr>)
      (s\<lparr>sb_cancellations := finish_request ?rid x\<rparr>)"
  have "prepare_entry ?rid c a s = (?s', prepared ?rid sid ?g)"
    using assms(3,8-10) reg
    by (simp add: prepare_entry_def Let_def finish_registration_def set_cell_def not_less_iff_gr_or_eq)
  then have prep: "session_prepare ?rid c s = (?s', prepared ?rid sid ?g)"
    using assms(2,8) alive by (simp add: session_prepare_def find_or_insert_def)
  have "fst (bind_session_owner sid other ?s') = ?s'"
    using assms(2,4) by (simp add: bind_session_owner_def set_cell_def entry_of_def)
  then have "handle_for_peer ops q other (s, b) = ((?s', b), prepared ?rid sid ?g)"
    using assms(6,7) prep
    by (simp add: handle_for_peer_def owner_exempt_def session_handle_def session_command_def Let_def
        prepared_def)
  moreover have "entry_generation ?s' sid = Some ?g" "se_owner (sb_entries ?s' a) = Some owner"
    using assms(2,4) by (simp_all add: entry_generation_def entry_of_def set_cell_def)
  moreover have "\<not> is_current (sb_cells ?s') t" if "enhancement_token s sid = Some t" for t
    using that assms(2) by (auto simp: enhancement_token_def entry_token_def from_shared_def
        is_current_def set_cell_def)
  ultimately show ?thesis by (intro exI [of _ ?s']) simp
qed

definition demo_prepare :: prepare_rerank_session_request where
  "demo_prepare = \<lparr>pr_session_id = 7, pr_generation = 5, pr_field_class = Regular\<rparr>"

theorem foreign_prepare_advances_witness:
  "\<exists>s'. handle_for_peer failing_ops (new_request 9 (PrepareRerankSessionCmd demo_prepare)) [98]
      (demo_rerank, ()) = ((s', ()), prepared 9 7 5) \<and> entry_generation s' 7 = Some 5"
  using foreign_prepare_advances [OF demo_inv(2) demo_entry(5) _ demo_entry(8), of "[98]"
      "new_request 9 (PrepareRerankSessionCmd demo_prepare)" demo_prepare failing_ops "()"]
  by (auto simp: demo_entry new_request_def validate_request_def demo_prepare_def new_cell_def)

end
