(* ===== verification/Session_Interleaving.thy ===== *)
theory Session_Interleaving
  imports Session_Correct
begin

text \<open>
  The asynchronous broker under concurrency: a step relation over a pool of tasks, one step
  per section the source runs without awaiting or re-locking. The table lock, the registry
  lock and the tombstone lock protect single steps; the per-session operation lock is held
  across the backend call. Backend results are arbitrary. The three stages of
  \<open>invalidate_all_sessions\<close> are separate steps, as are the tombstone check and the admission
  of \<open>create_session\<close>.
\<close>

section \<open>Tasks\<close>

text \<open>
  \<open>Waiting\<close> has looked up its entry and waits for the operation lock, \<open>Locked\<close> holds it,
  \<open>Running\<close> is inside the backend with its expected and published generation, \<open>Drained\<close> and
  \<open>Marked\<close> are in the middle of \<open>invalidate_all_sessions\<close> with the drained table, still
  holding the operation lock of the given entry if any.
\<close>

datatype task =
    Admitting u64 create_session_request
  | Registering u64 create_session_request
  | Creating u64 create_session_request
  | Preparing u64 prepare_rerank_session_request
  | Waiting u64 request_command nat
  | Locked u64 request_command nat
  | Running u64 request_command nat u64 u64
  | Drained "nat option" "(u64, nat) fmap"
  | Marked "nat option" "(u64, nat) fmap"

record system =
  sy_broker :: session_broker
  sy_tasks :: "(nat, task) fmap"
  sy_locked :: "nat \<Rightarrow> bool"

section \<open>Operations by command\<close>

fun is_operation :: "request_command \<Rightarrow> bool" where
  "is_operation (KeyCmd c) \<longleftrightarrow> True"
| "is_operation (EditCmd c) \<longleftrightarrow> True"
| "is_operation (ConvertCmd c) \<longleftrightarrow> True"
| "is_operation (CommitCmd c) \<longleftrightarrow> True"
| "is_operation (CancelCmd c) \<longleftrightarrow> True"
| "is_operation (FocusLostCmd c) \<longleftrightarrow> True"
| "is_operation _ \<longleftrightarrow> False"

fun start_operation ::
  "u64 \<Rightarrow> request_command \<Rightarrow> nat \<Rightarrow> session_broker \<Rightarrow> session_broker \<times> (response_envelope + nat \<times> u64)" where
  "start_operation rid (KeyCmd c) a s = start_change rid (kq_session_id c) (kq_generation c) a s"
| "start_operation rid (EditCmd c) a s = start_change rid (eq_session_id c) (eq_generation c) a s"
| "start_operation rid (ConvertCmd c) a s = start_change rid (cv_session_id c) (cv_generation c) a s"
| "start_operation rid (CommitCmd c) a s = start_change rid (cm_session_id c) (cm_generation c) a s"
| "start_operation rid (CancelCmd c) a s = start_cancel rid c a s"
| "start_operation rid (FocusLostCmd c) a s = start_focus_lost rid c a s"
| "start_operation rid _ a s = (s, Inl (duplicate_request rid))"

fun operation_expected :: "request_command \<Rightarrow> nat \<Rightarrow> session_broker \<Rightarrow> u64" where
  "operation_expected (CancelCmd c) a s = cancel_expected c a s"
| "operation_expected cmd a s = (case expected_generation cmd of Some e \<Rightarrow> e | None \<Rightarrow> 0)"

fun finish_operation ::
  "u64 \<Rightarrow> request_command \<Rightarrow> nat \<Rightarrow> u64 \<Rightarrow> u64 \<Rightarrow> backend_result \<Rightarrow> session_broker \<Rightarrow>
   session_broker \<times> response_envelope" where
  "finish_operation rid (KeyCmd c) a e g r s = finish_key rid c a g r s"
| "finish_operation rid (EditCmd c) a e g r s = finish_edit rid c a g r s"
| "finish_operation rid (ConvertCmd c) a e g r s = finish_convert rid c a g r s"
| "finish_operation rid (CommitCmd c) a e g r s = finish_commit rid c a g r s"
| "finish_operation rid (CancelCmd c) a e g r s = finish_cancel rid c a e g r s"
| "finish_operation rid (FocusLostCmd c) a e g r s = finish_focus_lost rid c g r s"
| "finish_operation rid _ a e g r s = (s, duplicate_request rid)"

definition operation_verdict :: "request_command \<Rightarrow> u64 \<Rightarrow> backend_result \<Rightarrow> verdict" where
  "operation_verdict cmd g r =
     (case cmd of
        FocusLostCmd _ \<Rightarrow> (case r of Inl BE_SessionInvalidated \<Rightarrow> Invalidated | _ \<Rightarrow> Committed)
      | _ \<Rightarrow> verdict_of cmd g r)"

section \<open>The stages of an invalidation\<close>

definition drain_sessions :: "session_broker \<Rightarrow> session_broker" where
  "drain_sessions s = s\<lparr>sb_sessions := fmempty\<rparr>"

definition mark_entries :: "(u64, nat) fmap \<Rightarrow> session_broker \<Rightarrow> session_broker" where
  "mark_entries m s = s\<lparr>
     sb_cells := (\<lambda>a. if a |\<in>| fmran m then (sb_cells s a)\<lparr>gc_active := False\<rparr> else sb_cells s a),
     sb_entries := (\<lambda>a. if a |\<in>| fmran m then (sb_entries s a)\<lparr>se_last_valid := None\<rparr>
                        else sb_entries s a)\<rparr>"

definition bury_sessions :: "(u64, nat) fmap \<Rightarrow> session_broker \<Rightarrow> session_broker" where
  "bury_sessions m s = s\<lparr>sb_invalidated := sb_invalidated s |\<union>| fmdom m\<rparr>"

lemma invalidate_stages:
  "invalidate_all_sessions s = bury_sessions (sb_sessions s) (mark_entries (sb_sessions s) (drain_sessions s))"
  by (simp add: invalidate_all_sessions_def bury_sessions_def mark_entries_def drain_sessions_def
      cong: if_cong)

section \<open>Steps\<close>

definition set_broker :: "session_broker \<Rightarrow> system \<Rightarrow> system" where
  "set_broker s S = S\<lparr>sy_broker := s\<rparr>"

definition put_task :: "nat \<Rightarrow> task \<Rightarrow> system \<Rightarrow> system" where
  "put_task i t S = S\<lparr>sy_tasks := fmupd i t (sy_tasks S)\<rparr>"

definition end_task :: "nat \<Rightarrow> system \<Rightarrow> system" where
  "end_task i S = S\<lparr>sy_tasks := fmdrop i (sy_tasks S)\<rparr>"

definition set_lock :: "nat option \<Rightarrow> bool \<Rightarrow> system \<Rightarrow> system" where
  "set_lock h x S =
     (case h of None \<Rightarrow> S | Some a \<Rightarrow> S\<lparr>sy_locked := (sy_locked S)(a := x)\<rparr>)"

definition task_of :: "system \<Rightarrow> nat \<Rightarrow> task option" where
  "task_of S i = fmlookup (sy_tasks S) i"

inductive step :: "system \<Rightarrow> system \<Rightarrow> bool" where
  create_check:
    "task_of S i = None \<Longrightarrow> cs_session_id c |\<notin>| sb_invalidated (sy_broker S) \<Longrightarrow>
     step S (put_task i (Admitting rid c) S)"
| create_admit:
    "task_of S i = Some (Admitting rid c) \<Longrightarrow> admit_session rid c (sy_broker S) = (s, Inr ()) \<Longrightarrow>
     step S (put_task i (Registering rid c) (set_broker s S))"
| create_refuse:
    "task_of S i = Some (Admitting rid c) \<Longrightarrow> admit_session rid c (sy_broker S) = (s, Inl resp) \<Longrightarrow>
     step S (end_task i (set_broker s S))"
| create_register:
    "task_of S i = Some (Registering rid c) \<Longrightarrow>
     register_request rid (sy_broker S) = (s, Some token) \<Longrightarrow>
     step S (put_task i (Creating rid c) (set_broker s S))"
| create_duplicate:
    "task_of S i = Some (Registering rid c) \<Longrightarrow> register_request rid (sy_broker S) = (s, None) \<Longrightarrow>
     step S (end_task i (set_broker (s\<lparr>sb_sessions := fmdrop (cs_session_id c) (sb_sessions s)\<rparr>) S))"
| create_finish:
    "task_of S i = Some (Creating rid c) \<Longrightarrow> r \<noteq> Inl BE_SessionInvalidated \<Longrightarrow>
     s = finish_registration rid (sy_broker S) \<Longrightarrow>
     step S (end_task i (set_broker (fst (finish_create rid c r s)) S))"
| create_lost:
    "task_of S i = Some (Creating rid c) \<Longrightarrow> s = finish_registration rid (sy_broker S) \<Longrightarrow>
     step S (put_task i (Drained None (sb_sessions s)) (set_broker (drain_sessions s) S))"
| prepare_check:
    "task_of S i = None \<Longrightarrow> pr_session_id p |\<notin>| sb_invalidated (sy_broker S) \<Longrightarrow>
     step S (put_task i (Preparing rid p) S)"
| prepare_find:
    "task_of S i = Some (Preparing rid p) \<Longrightarrow> find_or_insert rid p (sy_broker S) = (s, Inr a) \<Longrightarrow>
     step S (put_task i (Waiting rid (PrepareRerankSessionCmd p) a) (set_broker s S))"
| prepare_limit:
    "task_of S i = Some (Preparing rid p) \<Longrightarrow> find_or_insert rid p (sy_broker S) = (s, Inl resp) \<Longrightarrow>
     step S (end_task i (set_broker s S))"
| find_entry:
    "task_of S i = None \<Longrightarrow> is_operation cmd \<Longrightarrow> command_session_id cmd = Some sid \<Longrightarrow>
     entry_of (sy_broker S) sid = Some a \<Longrightarrow> step S (put_task i (Waiting rid cmd a) S)"
| acquire:
    "task_of S i = Some (Waiting rid cmd a) \<Longrightarrow> \<not> sy_locked S a \<Longrightarrow>
     step S (put_task i (Locked rid cmd a) (set_lock (Some a) True S))"
| prepare_run:
    "task_of S i = Some (Locked rid (PrepareRerankSessionCmd p) a) \<Longrightarrow>
     step S (end_task i (set_lock (Some a) False
       (set_broker (fst (prepare_entry rid p a (sy_broker S))) S)))"
| begin_run:
    "task_of S i = Some (Locked rid cmd a) \<Longrightarrow> is_operation cmd \<Longrightarrow>
     start_operation rid cmd a (sy_broker S) = (s, Inr (token, g)) \<Longrightarrow>
     step S (put_task i (Running rid cmd a (operation_expected cmd a (sy_broker S)) g) (set_broker s S))"
| begin_refuse:
    "task_of S i = Some (Locked rid cmd a) \<Longrightarrow> is_operation cmd \<Longrightarrow>
     start_operation rid cmd a (sy_broker S) = (s, Inl resp) \<Longrightarrow>
     step S (end_task i (set_lock (Some a) False (set_broker s S)))"
| finish_run:
    "task_of S i = Some (Running rid cmd a e g) \<Longrightarrow> operation_verdict cmd g r \<noteq> Invalidated \<Longrightarrow>
     s = finish_registration rid (sy_broker S) \<Longrightarrow>
     step S (end_task i (set_lock (Some a) False (set_broker (fst (finish_operation rid cmd a e g r s)) S)))"
| run_lost:
    "task_of S i = Some (Running rid cmd a e g) \<Longrightarrow> s = finish_registration rid (sy_broker S) \<Longrightarrow>
     step S (put_task i (Drained (Some a) (sb_sessions s)) (set_broker (drain_sessions s) S))"
| health_lost:
    "task_of S i = None \<Longrightarrow>
     step S (put_task i (Drained None (sb_sessions (sy_broker S))) (set_broker (drain_sessions (sy_broker S)) S))"
| mark:
    "task_of S i = Some (Drained h m) \<Longrightarrow>
     step S (put_task i (Marked h m) (set_broker (mark_entries m (sy_broker S)) S))"
| bury:
    "task_of S i = Some (Marked h m) \<Longrightarrow>
     step S (end_task i (set_lock h False (set_broker (bury_sessions m (sy_broker S)) S)))"
| bind_owner:
    "step S (set_broker (fst (bind_session_owner sid owner (sy_broker S))) S)"

inductive reachable :: "broker_config \<Rightarrow> system \<Rightarrow> bool" for cfg where
  start: "reachable cfg \<lparr>sy_broker = session_broker_new cfg, sy_tasks = fmempty, sy_locked = (\<lambda>_. False)\<rparr>"
| more: "reachable cfg S \<Longrightarrow> step S S' \<Longrightarrow> reachable cfg S'"

lemma system_simps [simp]:
  "sy_broker (set_broker s S) = s" "sy_tasks (set_broker s S) = sy_tasks S"
  "sy_locked (set_broker s S) = sy_locked S"
  "sy_broker (put_task i t S) = sy_broker S" "sy_locked (put_task i t S) = sy_locked S"
  "sy_broker (end_task i S) = sy_broker S" "sy_locked (end_task i S) = sy_locked S"
  "sy_broker (set_lock h x S) = sy_broker S" "sy_tasks (set_lock h x S) = sy_tasks S"
  "task_of (set_broker s S) = task_of S" "task_of (set_lock h x S) = task_of S"
  "task_of (put_task i t S) = (task_of S)(i := Some t)"
  "task_of (end_task i S) = (task_of S)(i := None)"
  "sy_locked (set_lock None x S) = sy_locked S"
  "sy_locked (set_lock (Some a) x S) = (sy_locked S)(a := x)"
  by (auto simp: set_broker_def put_task_def end_task_def set_lock_def task_of_def fun_eq_iff
      split: option.splits)

end
