(* ===== verification/Session_Concurrency.thy ===== *)
theory Session_Concurrency
  imports Session_Interleaving
begin

text \<open>
  Invariants of the interleaved broker, by rule induction over the steps: the operation lock
  excludes, a running operation's published generation stands until it finishes, the registry
  holds exactly the running requests, the table stays bounded, and tokens stay stale. The last
  part is a run in which an id ends up both live and tombstoned.
\<close>

section \<open>The operation lock\<close>

fun holder :: "task \<Rightarrow> nat option" where
  "holder (Locked rid cmd a) = Some a"
| "holder (Running rid cmd a e g) = Some a"
| "holder (Drained h m) = h"
| "holder (Marked h m) = h"
| "holder _ = None"

definition held :: "system \<Rightarrow> nat \<Rightarrow> nat option" where
  "held S i = Option.bind (task_of S i) holder"

definition exclusive :: "(nat \<Rightarrow> 'x option) \<Rightarrow> ('x \<Rightarrow> bool) \<Rightarrow> bool" where
  "exclusive hl lk \<longleftrightarrow> (\<forall>a. lk a \<longleftrightarrow> (\<exists>i. hl i = Some a)) \<and>
     (\<forall>i j a. hl i = Some a \<longrightarrow> hl j = Some a \<longrightarrow> i = j)"

definition lock_inv :: "system \<Rightarrow> bool" where
  "lock_inv S \<longleftrightarrow> exclusive (held S) (sy_locked S)"

lemma held_simps [simp]:
  "held (set_broker s S) = held S" "held (set_lock h x S) = held S"
  "held (put_task i t S) = (held S)(i := holder t)"
  "held (end_task i S) = (held S)(i := None)"
  by (auto simp: held_def fun_eq_iff)

lemma lock_inv_broker [simp]: "lock_inv (set_broker s S) = lock_inv S"
  by (simp add: lock_inv_def)

lemma lock_inv_put:
  assumes "lock_inv S" "held S i = holder t"
  shows "lock_inv (put_task i t S)"
proof -
  have "(held S)(i := holder t) = held S" using assms(2) by (metis fun_upd_triv)
  with assms(1) show ?thesis by (simp add: lock_inv_def)
qed

lemma lock_inv_end:
  assumes "lock_inv S" "held S i = None"
  shows "lock_inv (end_task i S)"
proof -
  have "(held S)(i := None) = held S" using assms(2) by (metis fun_upd_triv)
  with assms(1) show ?thesis by (simp add: lock_inv_def)
qed

lemma exclusive_acquire:
  assumes "exclusive hl lk" "\<not> lk a" "hl i = None"
  shows "exclusive (hl(i := Some a)) (lk(a := True))"
  using assms unfolding exclusive_def by (auto split: if_splits) (metis option.distinct(1))

lemma exclusive_release:
  assumes "exclusive hl lk" "hl i = Some a"
  shows "exclusive (hl(i := None)) (lk(a := False))"
  using assms unfolding exclusive_def by (auto split: if_splits) (metis option.inject)

lemma lock_inv_acquire:
  "lock_inv S \<Longrightarrow> \<not> sy_locked S a \<Longrightarrow> held S i = None \<Longrightarrow> holder t = Some a \<Longrightarrow>
   lock_inv (put_task i t (set_lock (Some a) True S))"
  by (simp add: lock_inv_def exclusive_acquire)

lemma lock_inv_release:
  "lock_inv S \<Longrightarrow> held S i = Some a \<Longrightarrow> lock_inv (end_task i (set_lock (Some a) False S))"
  by (simp add: lock_inv_def exclusive_release)

lemma lock_inv_release_opt:
  assumes "lock_inv S" "held S i = h"
  shows "lock_inv (end_task i (set_lock h False S))"
proof (cases h)
  case None
  then have "set_lock h False S = S" by (simp add: set_lock_def)
  then show ?thesis using assms None by (simp only: lock_inv_end)
next
  case (Some a)
  then show ?thesis using assms by (simp add: lock_inv_release)
qed

lemma held_task: "task_of S i = Some t \<Longrightarrow> held S i = holder t" "task_of S i = None \<Longrightarrow> held S i = None"
  by (simp_all add: held_def)

lemma step_lock_inv:
  assumes "step S S'" "lock_inv S"
  shows "lock_inv S'"
  using assms(1)
proof cases
  case (acquire i rid cmd a)
  then show ?thesis by (auto simp: held_task intro!: lock_inv_acquire assms(2))
qed (auto simp: held_task assms(2) intro!: lock_inv_put lock_inv_end lock_inv_release lock_inv_release_opt)

section \<open>Published generations stand\<close>

text \<open>\<open>quiet H s s'\<close>: outside the entries \<open>H\<close> no clock changes.\<close>

definition quiet :: "nat option \<Rightarrow> session_broker \<Rightarrow> session_broker \<Rightarrow> bool" where
  "quiet h s s' \<longleftrightarrow> sb_next s \<le> sb_next s' \<and>
     (\<forall>x < sb_next s. h \<noteq> Some x \<longrightarrow> gc_clock (sb_cells s' x) = gc_clock (sb_cells s x))"

lemma quiet_cells: "sb_cells s' = sb_cells s \<Longrightarrow> sb_next s' = sb_next s \<Longrightarrow> quiet h s s'"
  by (simp add: quiet_def)

lemma quiet_refl [simp]: "quiet h s s"
  by (simp add: quiet_def)

lemma quiet_trans: "quiet h a b \<Longrightarrow> quiet h b c \<Longrightarrow> quiet h a c"
  by (auto simp: quiet_def)

lemma quiet_set_cell: "quiet (Some a) s (set_cell a c s)"
  by (simp add: quiet_def set_cell_def)

lemma quiet_register: "register_request rid s = (s', r) \<Longrightarrow> quiet h s s'"
  by (auto dest!: register_request_eq simp: quiet_def)

lemma finish_registration_frame [simp]:
  "sb_cells (finish_registration rid s) = sb_cells s" "sb_next (finish_registration rid s) = sb_next s"
  "sb_sessions (finish_registration rid s) = sb_sessions s"
  by (simp_all add: finish_registration_def)

lemma quiet_finish_registration: "quiet h s (finish_registration rid s)"
  by (simp add: quiet_def)

lemma quiet_insert: "quiet h s (insert_session sid fc x s)"
  by (simp add: quiet_def insert_session_def)

lemma quiet_invalidate: "quiet h s (invalidate_all_sessions s)"
  by (simp add: quiet_def invalidate_all_sessions_def)

lemma quiet_stages: "quiet h s (drain_sessions s)" "quiet h s (mark_entries m s)" "quiet h s (bury_sessions m s)"
  by (simp_all add: quiet_def drain_sessions_def mark_entries_def bury_sessions_def)

lemma quiet_bind: "quiet h s (fst (bind_session_owner sid owner s))"
  by (auto simp: quiet_def bind_session_owner_def set_entry_def split: option.splits)

lemma quiet_admit: "admit_session rid c s = (s', r) \<Longrightarrow> quiet h s s'"
  by (auto simp: admit_session_def quiet_insert split: if_splits)

lemma quiet_find: "find_or_insert rid c s = (s', r) \<Longrightarrow> quiet h s s'"
  by (auto simp: find_or_insert_def quiet_insert split: option.splits if_splits)

lemma quiet_sessions: "quiet h s s' \<Longrightarrow> quiet h s (s'\<lparr>sb_sessions := m\<rparr>)"
  by (simp add: quiet_def)

lemma quiet_finish_create: "quiet h s (fst (finish_create rid c r s))"
  by (auto simp: finish_create_def Let_def invalidate_session_def quiet_invalidate
      split: sum.split response_payload.split backend_error.split)

lemma quiet_finish_frames:
  "quiet h s (remember_state sid st s)" "quiet h s (clear_state sid a s)"
  "quiet (Some a) s (rollback_state_change a e g s)" "quiet h s (fst (invalidate_session rid g s))"
  by (auto simp: quiet_def remember_state_def clear_state_def set_entry_def rollback_state_change_def
      set_cell_def invalidate_session_def invalidate_all_sessions_def split: option.splits)

lemma quiet_finish: "quiet (Some a) s (fst (finish_operation rid cmd a e g r s))"
proof (cases cmd)
  case (KeyCmd c) then show ?thesis
    by (auto simp: finish_key_def Let_def quiet_finish_frames simp del: validate_payload.simps
        split: sum.split response_payload.split backend_error.split)
next
  case (EditCmd c) then show ?thesis
    by (auto simp: finish_edit_def Let_def quiet_finish_frames simp del: validate_payload.simps
        split: sum.split response_payload.split backend_error.split)
next
  case (ConvertCmd c) then show ?thesis
    by (auto simp: finish_convert_def Let_def quiet_finish_frames simp del: validate_payload.simps
        split: sum.split response_payload.split backend_error.split)
next
  case (CommitCmd c) then show ?thesis
    by (auto simp: finish_commit_def Let_def quiet_finish_frames simp del: validate_payload.simps
        split: sum.split response_payload.split backend_error.split)
next
  case (CancelCmd c) then show ?thesis
    by (auto simp: finish_cancel_def quiet_finish_frames split: sum.split backend_error.split)
next
  case (FocusLostCmd c) then show ?thesis
    by (auto simp: finish_focus_lost_def quiet_finish_frames quiet_sessions
        split: sum.split backend_error.split)
qed simp_all

lemma opened_quiet: "opened rid a g s s1 \<Longrightarrow> quiet (Some a) s s1"
  by (auto simp: opened_def quiet_def set_cell_def)

lemma refused_quiet: "refused s s1 \<Longrightarrow> quiet h s s1"
  by (auto simp: refused_def quiet_def)

lemma refused_refl: "refused s s"
  unfolding refused_def by (rule exI [of _ "sb_cancellations s"]) simp

lemma opened_clock: "opened rid a g s s1 \<Longrightarrow> gc_clock (sb_cells s1 a) = g"
  by (auto simp: opened_def set_cell_def)

lemma deactivate_clock [simp]: "gc_clock (sb_cells (deactivate a s) x) = gc_clock (sb_cells s x)"
  "sb_next (deactivate a s) = sb_next s"
  by (simp_all add: deactivate_def set_cell_def)

lemma drop_entry_frame [simp]: "sb_cells (drop_entry sid a s) = sb_cells s" "sb_next (drop_entry sid a s) = sb_next s"
  by (simp_all add: drop_entry_def)

lemma start_cancel_refused: "start_cancel rid c a s = (s1, Inl resp) \<Longrightarrow> refused s s1"
proof -
  assume "start_cancel rid c a s = (s1, Inl resp)"
  then have "begin_operation rid (begin_cancel rid (cc_session_id c) a (cc_generation c)) s = (s1, Inl resp)"
    by (auto simp: start_cancel_def split: prod.splits sum.splits option.splits)
  then show "refused s s1"
    by (rule begin_refused) (auto simp: begin_cancel_def split: sum.splits dest!: advance_entry_Inl)
qed

lemma start_cancel_less:
  assumes "start_cancel rid c a s = (s', Inr (token, g))"
  shows "cancel_expected c a s < g"
proof -
  have "opened rid a g s s'" by (rule start_cancel_opened [OF assms])
  obtain s2 where "begin_operation rid (begin_cancel rid (cc_session_id c) a (cc_generation c)) s
      = (s2, Inr (token, g))"
    using assms by (auto simp: start_cancel_def split: prod.splits sum.splits option.splits)
  then obtain s1 where s1: "register_request rid s = (s1, Some token)"
    "begin_cancel rid (cc_session_id c) a (cc_generation c) s1 = (s2, Inr g)"
    by (auto dest!: begin_operation_Inr)
  have "sb_cells s1 = sb_cells s" using register_request_eq [OF s1(1)] by auto
  moreover have "advance_entry rid (cc_session_id c) a (cc_generation c) s1 = (s2, Inr g)"
    using s1(2) by (auto simp: begin_cancel_def split: sum.splits)
  ultimately show ?thesis
    using advance_entry_Inr [of rid "cc_session_id c" a "cc_generation c" s1 s2 g]
      checked_succ_Some_less [of "gc_clock (sb_cells s a)" g]
    by (auto simp: cancel_expected_def split: option.splits)
qed

text \<open>What a start does, by outcome: a full start opens the entry (and focus loss clears it).\<close>

lemma start_operation_Inr:
  assumes "start_operation rid cmd a s = (s1, Inr (token, g))" "is_operation cmd"
  shows "\<exists>s0. opened rid a g s s0 \<and> (s1 = s0 \<or> s1 = deactivate a s0)"
proof (cases cmd)
  case (FocusLostCmd c)
  with assms(1) show ?thesis
    by (auto simp: start_focus_lost_def Let_def split: if_splits prod.splits sum.splits
        dest: start_change_opened)
qed (use assms in \<open>auto dest: start_change_opened start_cancel_opened\<close>)

lemma start_operation_Inl:
  assumes "start_operation rid cmd a s = (s1, Inl resp)" "is_operation cmd"
  shows "refused s s1 \<or> (\<exists>sid. s1 = drop_entry sid a (deactivate a s))"
proof (cases cmd)
  case (FocusLostCmd c)
  with assms(1) show ?thesis
    by (auto simp: start_focus_lost_def Let_def refused_refl split: if_splits prod.splits sum.splits
        dest!: start_change_refused)
qed (use assms in \<open>auto dest: start_change_refused start_cancel_refused\<close>)

lemma quiet_start:
  assumes "start_operation rid cmd a s = (s1, r)" "is_operation cmd"
  shows "quiet (Some a) s s1"
proof (cases r)
  case (Inl resp)
  with start_operation_Inl [of rid cmd a s s1 resp] refused_quiet [of s s1 "Some a"] assms
  show ?thesis by (auto simp: quiet_def)
next
  case (Inr tg)
  then obtain s0 where "opened rid a (snd tg) s s0" "s1 = s0 \<or> s1 = deactivate a s0"
    using start_operation_Inr [of rid cmd a s s1 "fst tg" "snd tg"] assms by auto
  then show ?thesis using opened_quiet [of rid a "snd tg" s s0] by (auto simp: quiet_def)
qed

lemma quiet_prepare: "quiet (Some a) s (fst (prepare_entry rid c a s))"
proof -
  obtain s1 tok where tok: "register_request rid s = (s1, tok)" by fastforce
  have "quiet (Some a) s s1" by (rule quiet_register [OF tok])
  then have "quiet (Some a) s (finish_registration rid s1)"
    "quiet (Some a) s (set_cell a x (finish_registration rid s1))" for x
    by (simp_all add: quiet_def set_cell_def)
  with \<open>quiet (Some a) s s1\<close> tok show ?thesis
    by (cases tok) (simp_all add: prepare_entry_def Let_def)
qed

section \<open>Running operations\<close>

definition expects :: "request_command \<Rightarrow> u64 \<Rightarrow> bool" where
  "expects cmd e \<longleftrightarrow> (case cmd of CancelCmd _ \<Rightarrow> True | _ \<Rightarrow> expected_generation cmd = Some e)"

definition lockable :: "request_command \<Rightarrow> bool" where
  "lockable cmd \<longleftrightarrow> is_operation cmd \<or> (\<exists>p. cmd = PrepareRerankSessionCmd p)"

fun task_ok :: "session_broker \<Rightarrow> task \<Rightarrow> bool" where
  "task_ok s (Waiting rid cmd a) \<longleftrightarrow> a < sb_next s"
| "task_ok s (Locked rid cmd a) \<longleftrightarrow> a < sb_next s"
| "task_ok s (Running rid cmd a e g) \<longleftrightarrow>
     a < sb_next s \<and> is_operation cmd \<and> expects cmd e \<and> e < g \<and> gc_clock (sb_cells s a) = g"
| "task_ok s _ \<longleftrightarrow> True"

definition tasks_ok :: "system \<Rightarrow> bool" where
  "tasks_ok S \<longleftrightarrow> (\<forall>i t. task_of S i = Some t \<longrightarrow> task_ok (sy_broker S) t)"

lemma task_ok_quiet:
  assumes "task_ok s t" "quiet h s s'" "holder t = None \<or> holder t \<noteq> h"
  shows "task_ok s' t"
  using assms by (cases t) (auto simp: quiet_def)

text \<open>A step of task \<open>i\<close> that is quiet outside the entry \<open>i\<close> holds keeps the other tasks.\<close>

lemma other_task_ok:
  assumes "lock_inv S" "tasks_ok S" "quiet (held S i) (sy_broker S) s'" "task_of S j = Some t" "j \<noteq> i"
  shows "task_ok s' t"
proof (rule task_ok_quiet [OF _ assms(3)])
  show "task_ok (sy_broker S) t" using assms(2,4) by (simp add: tasks_ok_def)
  show "holder t = None \<or> holder t \<noteq> held S i"
    using held_task(1) [OF assms(4)] assms(1,5) unfolding lock_inv_def exclusive_def
    by (cases "holder t") (simp, metis)
qed

lemma tasks_ok_put:
  assumes "lock_inv S" "tasks_ok S" "quiet (held S i) (sy_broker S) s'" "task_ok s' t"
  shows "tasks_ok (put_task i t (set_broker s' S))"
  using other_task_ok [OF assms(1-3)] assms(4) by (auto simp: tasks_ok_def)

lemma tasks_ok_end:
  assumes "lock_inv S" "tasks_ok S" "quiet (held S i) (sy_broker S) s'"
  shows "tasks_ok (end_task i (set_lock h x (set_broker s' S)))"
  using other_task_ok [OF assms(1-3)] by (auto simp: tasks_ok_def)

lemma tasks_ok_end':
  assumes "lock_inv S" "tasks_ok S" "quiet (held S i) (sy_broker S) s'"
  shows "tasks_ok (end_task i (set_broker s' S))"
  using tasks_ok_end [OF assms, of None] by (simp add: set_lock_def)

lemma set_broker_same [simp]: "set_broker (sy_broker S) S = S"
  by (simp add: set_broker_def)

lemma tasks_ok_put_same:
  assumes "lock_inv S" "tasks_ok S" "task_ok (sy_broker S) t"
  shows "tasks_ok (put_task i t S)"
  using tasks_ok_put [OF assms(1,2) quiet_refl assms(3), of i] by simp

lemma start_operation_facts:
  assumes "start_operation rid cmd a s = (s1, Inr (token, g))" "is_operation cmd"
  shows "gc_clock (sb_cells s1 a) = g" "operation_expected cmd a s < g"
    "expects cmd (operation_expected cmd a s)"
proof -
  show "gc_clock (sb_cells s1 a) = g"
    using start_operation_Inr [OF assms] by (auto dest: opened_clock)
  have sc: "e < g" if "start_change rid sid e a s = (s0, Inr (token, g))" for sid e s0
    using that checked_succ_Some_less [of e g]
    by (auto simp: start_change_def dest!: begin_operation_Inr begin_state_change_Inr)
  show "operation_expected cmd a s < g"
  proof (cases cmd)
    case (CancelCmd c)
    have "start_cancel rid c a s = (s1, Inr (token, g))" using assms CancelCmd by simp
    then have "cancel_expected c a s < g" by (rule start_cancel_less)
    with CancelCmd show ?thesis by simp
  next
    case (FocusLostCmd c)
    then obtain s0 where "start_change rid (fl_session_id c) (fl_generation c) a s = (s0, Inr (token, g))"
      using assms(1) by (auto simp: start_focus_lost_def Let_def split: if_splits prod.splits sum.splits)
    from sc [OF this] FocusLostCmd show ?thesis by simp
  qed (use assms sc in auto)
  show "expects cmd (operation_expected cmd a s)"
    using assms(2) by (cases cmd) (simp_all add: expects_def)
qed

lemma step_tasks_ok:
  assumes "step S S'" "lock_inv S" "tasks_ok S" "entries_ok (sy_broker S)"
  shows "tasks_ok S'"
proof -
  note put = tasks_ok_put [OF assms(2,3)] and fin = tasks_ok_end [OF assms(2,3)]
    and fin' = tasks_ok_end' [OF assms(2,3)] and same = tasks_ok_put_same [OF assms(2,3)]
  have old: "task_ok (sy_broker S) t" if "task_of S i = Some t" for i t
    using assms(3) that by (simp add: tasks_ok_def)
  show ?thesis
    using assms(1)
  proof cases
    case (create_check i c rid)
    then show ?thesis by (auto intro: same)
  next
    case (create_admit i rid c s)
    then show ?thesis by (auto intro: put quiet_admit)
  next
    case (create_refuse i rid c s resp)
    then show ?thesis by (auto intro: fin' quiet_admit)
  next
    case (create_register i rid c s token)
    then show ?thesis by (auto intro: put quiet_register)
  next
    case (create_duplicate i rid c s)
    then show ?thesis by (auto intro: fin' quiet_register quiet_sessions)
  next
    case (create_finish i rid c r s)
    then show ?thesis
      by (auto intro!: fin' quiet_trans [OF quiet_finish_registration quiet_finish_create])
  next
    case (create_lost i rid c s)
    then show ?thesis by (auto intro!: put quiet_trans [OF quiet_finish_registration quiet_stages(1)])
  next
    case (prepare_check i p rid)
    then show ?thesis by (auto intro: same)
  next
    case (prepare_find i rid p s a)
    moreover have "a < sb_next s"
      using prepare_find(3) assms(4)
      by (auto simp: find_or_insert_def insert_session_def entries_ok_def split: option.splits if_splits)
    ultimately show ?thesis by (auto intro: put quiet_find)
  next
    case (prepare_limit i rid p s resp)
    then show ?thesis by (auto intro: fin' quiet_find)
  next
    case (find_entry i cmd sid a rid)
    then show ?thesis using assms(4) by (auto intro!: same simp: entries_ok_def)
  next
    case (acquire i rid cmd a)
    then show ?thesis using old [of i] same [of "Locked rid cmd a" i]
      by (simp add: tasks_ok_def)
  next
    case (prepare_run i rid p a)
    then show ?thesis by (auto simp: held_task intro!: fin quiet_prepare)
  next
    case (begin_run i rid cmd a s token g)
    have q: "quiet (Some a) (sy_broker S) s" by (rule quiet_start [OF begin_run(4,3)])
    have "a < sb_next s" using old [OF begin_run(2)] q by (simp add: quiet_def)
    then show ?thesis
      using begin_run q start_operation_facts [OF begin_run(4,3)]
      by (auto simp: held_task intro!: put)
  next
    case (begin_refuse i rid cmd a s resp)
    have q: "quiet (Some a) (sy_broker S) s" by (rule quiet_start [OF begin_refuse(4,3)])
    then show ?thesis using begin_refuse by (auto simp: held_task intro!: fin)
  next
    case (finish_run i rid cmd a e g r s)
    then show ?thesis
      by (auto simp: held_task intro!: fin quiet_trans [OF quiet_finish_registration quiet_finish])
  next
    case (run_lost i rid cmd a e g s)
    then show ?thesis by (auto intro!: put quiet_trans [OF quiet_finish_registration quiet_stages(1)])
  next
    case (health_lost i)
    then show ?thesis by (auto intro!: put quiet_stages)
  next
    case (mark i h m)
    then show ?thesis by (auto intro!: put quiet_stages)
  next
    case (bury i h m)
    then show ?thesis by (auto intro!: fin quiet_stages)
  next
    case (bind_owner sid owner)
    have "task_ok (fst (bind_session_owner sid owner (sy_broker S))) t" if "task_of S i = Some t" for i t
      by (rule task_ok_quiet [OF old [OF that] quiet_bind [where h = None]]) auto
    with bind_owner show ?thesis by (auto simp: tasks_ok_def)
  qed
qed

section \<open>The table and the cells\<close>

lemma drain_skeeps: "skeeps k s (drain_sessions s)"
  by (auto simp: skeeps_def drain_sessions_def entries_ok_def bounded_def entry_of_def session_count_def)

lemma mark_skeeps: "skeeps k s (mark_entries m s)"
  by (auto simp: skeeps_def mark_entries_def entries_ok_def bounded_def entry_of_def session_count_def
      constant_entry_def)

lemma bury_skeeps: "skeeps k s (bury_sessions m s)"
  by (auto simp: skeeps_def bury_sessions_def entries_ok_def bounded_def entry_of_def session_count_def)

lemma admit_skeeps: "admit_session rid c s = (s', r) \<Longrightarrow> skeeps k s s'"
  by (auto simp: admit_session_def not_le insert_session_skeeps split: if_splits)

lemma find_skeeps: "find_or_insert rid c s = (s', r) \<Longrightarrow> skeeps k s s'"
  by (auto simp: find_or_insert_def not_le insert_session_skeeps split: option.splits if_splits)

lemma start_operation_skeeps:
  "start_operation rid cmd a s = (s', r) \<Longrightarrow> is_operation cmd \<Longrightarrow> skeeps 1 s s'"
  by (cases cmd) (auto simp del: One_nat_def
      dest: start_change_skeeps start_cancel_skeeps start_focus_lost_skeeps)

lemma finish_operation_skeeps:
  "expects cmd e \<Longrightarrow> e < g \<Longrightarrow> skeeps k s (fst (finish_operation rid cmd a e g r s))"
  by (cases cmd) (auto simp: expects_def intro!: finish_key_skeeps finish_edit_skeeps
      finish_convert_skeeps finish_commit_skeeps finish_cancel_skeeps finish_focus_lost_skeeps)

lemma step_skeeps:
  assumes "step S S'" "tasks_ok S"
  shows "skeeps 1 (sy_broker S) (sy_broker S')"
  using assms(1)
proof cases
  case (create_finish i rid c r s)
  then show ?thesis
    by (auto intro!: skeeps_then [OF finish_registration_skeeps finish_create_skeeps])
next
  case (create_lost i rid c s)
  then show ?thesis by (auto intro!: skeeps_then [OF finish_registration_skeeps drain_skeeps])
next
  case (prepare_run i rid p a)
  then show ?thesis using settledD(1) [OF prepare_entry_settled] by simp
next
  case (finish_run i rid cmd a e g r s)
  have "task_ok (sy_broker S) (Running rid cmd a e g)"
    using assms(2) finish_run(2) unfolding tasks_ok_def by blast
  then have "expects cmd e" "e < g" by simp_all
  with finish_run show ?thesis
    by (auto intro!: skeeps_then [OF finish_registration_skeeps finish_operation_skeeps])
next
  case (run_lost i rid cmd a e g s)
  then show ?thesis by (auto intro!: skeeps_then [OF finish_registration_skeeps drain_skeeps])
next
  case (create_duplicate i rid c s)
  then show ?thesis
    using skeeps_then [OF register_request_skeeps [OF create_duplicate(3)] drop_session_skeeps] by simp
next
  case (bind_owner sid owner)
  then show ?thesis using settledD(1) [OF bind_owner_settled] by simp
qed (auto simp del: One_nat_def simp: drain_skeeps mark_skeeps bury_skeeps
    dest: admit_skeeps find_skeeps register_request_skeeps start_operation_skeeps)

section \<open>The registry\<close>

fun registers :: "task \<Rightarrow> u64 option" where
  "registers (Creating rid c) = Some rid"
| "registers (Running rid cmd a e g) = Some rid"
| "registers _ = None"

definition registered :: "system \<Rightarrow> nat \<Rightarrow> u64 option" where
  "registered S i = Option.bind (task_of S i) registers"

definition in_registry :: "session_broker \<Rightarrow> u64 \<Rightarrow> bool" where
  "in_registry s rid \<longleftrightarrow> fmlookup (cn_tokens (sb_cancellations s)) rid \<noteq> None"

definition registry_inv :: "system \<Rightarrow> bool" where
  "registry_inv S \<longleftrightarrow> exclusive (registered S) (in_registry (sy_broker S))"

lemma registered_simps [simp]:
  "registered (set_broker s S) = registered S" "registered (set_lock h x S) = registered S"
  "registered (put_task i t S) = (registered S)(i := registers t)"
  "registered (end_task i S) = (registered S)(i := None)"
  by (auto simp: registered_def fun_eq_iff)

lemma registered_task:
  "task_of S i = Some t \<Longrightarrow> registered S i = registers t" "task_of S i = None \<Longrightarrow> registered S i = None"
  by (simp_all add: registered_def)

lemma registry_same:
  assumes "registry_inv S" "registered S i = x"
  shows "exclusive ((registered S)(i := x)) (in_registry (sy_broker S))"
proof -
  have "(registered S)(i := x) = registered S" using assms(2) by (metis fun_upd_triv)
  with assms(1) show ?thesis by (simp add: registry_inv_def)
qed

lemma registry_enter:
  "registry_inv S \<Longrightarrow> \<not> in_registry (sy_broker S) rid \<Longrightarrow> registered S i = None \<Longrightarrow>
   exclusive ((registered S)(i := Some rid)) ((in_registry (sy_broker S))(rid := True))"
  by (simp add: registry_inv_def exclusive_acquire)

lemma registry_leave:
  "registry_inv S \<Longrightarrow> registered S i = Some rid \<Longrightarrow>
   exclusive ((registered S)(i := None)) ((in_registry (sy_broker S))(rid := False))"
  by (simp add: registry_inv_def exclusive_release)

lemma in_registry_cong:
  "cn_tokens (sb_cancellations s') = cn_tokens (sb_cancellations s) \<Longrightarrow> in_registry s' = in_registry s"
  by (simp add: in_registry_def fun_eq_iff)

lemma in_registry_frames [simp]:
  "in_registry (insert_session sid fc x s) = in_registry s" "in_registry (drain_sessions s) = in_registry s"
  "in_registry (mark_entries m s) = in_registry s" "in_registry (bury_sessions m s) = in_registry s"
  "in_registry (s\<lparr>sb_sessions := t\<rparr>) = in_registry s"
  "in_registry (deactivate a s) = in_registry s" "in_registry (drop_entry sid a s) = in_registry s"
  "in_registry (set_cell a c s) = in_registry s"
  "in_registry (finish_registration rid s) = (in_registry s)(rid := False)"
  by (auto simp: insert_session_def drain_sessions_def mark_entries_def bury_sessions_def
      deactivate_def set_cell_def drop_entry_def finish_registration_def in_registry_def fun_eq_iff)

lemma in_registry_settled: "settled k s s' \<Longrightarrow> in_registry s' = in_registry s"
  by (rule in_registry_cong) (rule settledD(2))

lemma in_registry_refused: "refused s s' \<Longrightarrow> in_registry s' = in_registry s"
  by (rule in_registry_cong) (auto simp: refused_def)

lemma in_registry_opened:
  assumes "opened rid a g s s1"
  shows "in_registry s1 = (in_registry s)(rid := True)" "\<not> in_registry s rid"
proof -
  obtain c where c: "sb_cancellations s1 = c" "fmdrop rid (cn_tokens c) = cn_tokens (sb_cancellations s)"
    "fmlookup (cn_tokens c) rid \<noteq> None"
    using assms by (auto simp: opened_def set_cell_def)
  have l: "fmlookup (cn_tokens (sb_cancellations s)) x = (if x = rid then None else fmlookup (cn_tokens c) x)" for x
    by (simp flip: c(2))
  show "in_registry s1 = (in_registry s)(rid := True)" "\<not> in_registry s rid"
    using c by (auto simp: in_registry_def l fun_eq_iff)
qed

lemma in_registry_register:
  "register_request rid s = (s1, Some token) \<Longrightarrow>
   in_registry s1 = (in_registry s)(rid := True) \<and> \<not> in_registry s rid"
  by (auto simp: register_request_def Let_def new_token_def register_token_Inr_iff in_registry_def
      fun_eq_iff split: sum.splits)

lemma finish_operation_registry: "in_registry (fst (finish_operation rid cmd a e g r s)) = in_registry s"
proof (rule in_registry_cong)
  show "cn_tokens (sb_cancellations (fst (finish_operation rid cmd a e g r s))) = cn_tokens (sb_cancellations s)"
    by (cases cmd)
      (auto simp: finish_key_def finish_edit_def finish_convert_def finish_commit_def finish_cancel_def
        finish_focus_lost_def invalidate_session_def Let_def simp del: validate_payload.simps
        split: sum.split response_payload.split backend_error.split)
qed

lemma step_registry_inv:
  assumes "step S S'" "registry_inv S" "tasks_ok S"
  shows "registry_inv S'"
proof -
  note same = registry_same [OF assms(2)] and enter = registry_enter [OF assms(2)]
    and leave = registry_leave [OF assms(2)]
  show ?thesis
    using assms(1)
  proof cases
    case (create_admit i rid c s)
    then show ?thesis
      by (auto simp: registry_inv_def registered_task admit_session_def intro!: same split: if_splits)
  next
    case (create_refuse i rid c s resp)
    then show ?thesis
      by (auto simp: registry_inv_def registered_task admit_session_def intro!: same split: if_splits)
  next
    case (create_register i rid c s token)
    then show ?thesis
      using in_registry_register [OF create_register(3)] by (auto simp: registry_inv_def registered_task intro!: enter)
  next
    case (create_duplicate i rid c s)
    then show ?thesis
      using in_registry_refused [OF register_request_None(1) [OF create_duplicate(3)]]
      by (auto simp: registry_inv_def registered_task intro!: same)
  next
    case (create_finish i rid c r s)
    have "in_registry (fst (finish_create rid c r s)) = in_registry s"
      by (rule in_registry_settled [OF finish_create_settled])
    with create_finish show ?thesis by (auto simp: registry_inv_def registered_task intro!: leave)
  next
    case (create_lost i rid c s)
    then show ?thesis by (auto simp: registry_inv_def registered_task intro!: leave)
  next
    case (prepare_find i rid p s a)
    then show ?thesis
      by (auto simp: registry_inv_def registered_task find_or_insert_def intro!: same split: option.splits if_splits)
  next
    case (prepare_limit i rid p s resp)
    then show ?thesis
      by (auto simp: registry_inv_def registered_task find_or_insert_def intro!: same split: option.splits if_splits)
  next
    case (prepare_run i rid p a)
    then show ?thesis
      using in_registry_settled [OF prepare_entry_settled, of rid p a "sy_broker S"]
      by (auto simp: registry_inv_def registered_task intro!: same)
  next
    case (begin_run i rid cmd a s token g)
    obtain s0 where s0: "opened rid a g (sy_broker S) s0" "s = s0 \<or> s = deactivate a s0"
      using start_operation_Inr [OF begin_run(4,3)] by blast
    then have "in_registry s = (in_registry (sy_broker S))(rid := True)" "\<not> in_registry (sy_broker S) rid"
      using in_registry_opened [OF s0(1)] by auto
    with begin_run show ?thesis by (auto simp: registry_inv_def registered_task intro!: enter)
  next
    case (begin_refuse i rid cmd a s resp)
    have "in_registry s = in_registry (sy_broker S)"
      using start_operation_Inl [OF begin_refuse(4,3)] by (auto dest: in_registry_refused)
    with begin_refuse show ?thesis by (auto simp: registry_inv_def registered_task intro!: same)
  next
    case (finish_run i rid cmd a e g r s)
    then show ?thesis by (auto simp: registry_inv_def registered_task finish_operation_registry intro!: leave)
  next
    case (run_lost i rid cmd a e g s)
    then show ?thesis by (auto simp: registry_inv_def registered_task intro!: leave)
  next
    case (bind_owner sid owner)
    then show ?thesis
      using in_registry_settled [OF bind_owner_settled, of sid owner "sy_broker S"] assms(2)
      by (simp add: registry_inv_def)
  qed (auto simp: registry_inv_def registered_task intro!: same)
qed

end
