(* ===== verification/Interleaving_Correct.thy ===== *)
theory Interleaving_Correct
  imports Session_Concurrency
begin

text \<open>
  The properties of the broker under every interleaving of its tasks: what holds in each
  reachable state, what a started operation may rely on until it finishes, and the one race the
  locks leave open, as a run.
\<close>

section \<open>The invariant of reachable states\<close>

definition sys_inv :: "system \<Rightarrow> bool" where
  "sys_inv S \<longleftrightarrow> lock_inv S \<and> tasks_ok S \<and> registry_inv S \<and>
     entries_ok (sy_broker S) \<and> bounded (sy_broker S)"

lemma sys_invD:
  assumes "sys_inv S"
  shows "lock_inv S" "tasks_ok S" "registry_inv S" "entries_ok (sy_broker S)" "bounded (sy_broker S)"
  using assms by (simp_all add: sys_inv_def)

lemma step_sys_inv: "step S S' \<Longrightarrow> sys_inv S \<Longrightarrow> sys_inv S'"
  using step_skeeps [of S S'] step_lock_inv [of S S'] step_tasks_ok [of S S'] step_registry_inv [of S S']
  by (auto simp: sys_inv_def dest: skeepsD(6,7))

lemma start_sys_inv:
  "sys_inv \<lparr>sy_broker = session_broker_new cfg, sy_tasks = fmempty, sy_locked = (\<lambda>_. False)\<rparr>"
  using session_inv_new [of cfg]
  by (auto simp: sys_inv_def session_inv_def lock_inv_def registry_inv_def tasks_ok_def exclusive_def
      held_def registered_def task_of_def in_registry_def)

lemma reachable_sys_inv: "reachable cfg S \<Longrightarrow> sys_inv S"
  by (induction rule: reachable.induct) (auto intro: start_sys_inv step_sys_inv)

lemma reachable_config: "reachable cfg S \<Longrightarrow> sb_config (sy_broker S) = cfg"
proof (induction rule: reachable.induct)
  case (more S S')
  then show ?case using skeepsD(1) [OF step_skeeps] sys_invD(2) [OF reachable_sys_inv] by auto
qed (simp add: session_broker_new_def)

section \<open>Runs\<close>

inductive run_of :: "nat \<Rightarrow> system \<Rightarrow> system \<Rightarrow> bool" where
  run_none: "run_of 0 S S"
| run_more: "step S S' \<Longrightarrow> run_of n S' S'' \<Longrightarrow> run_of (Suc n) S S''"

lemma run_reachable: "run_of n S S' \<Longrightarrow> reachable cfg S \<Longrightarrow> reachable cfg S'"
  by (induction rule: run_of.induct) (auto intro: reachable.more)

interpretation interleaved: generation_owner
  "\<lambda>S S'. sys_inv S \<and> step S S'" "\<lambda>S. sb_cells (sy_broker S)" "\<lambda>S a. a < sb_next (sy_broker S)" 1
proof
  fix S S' a
  assume "sys_inv S \<and> step S S'" and a: "a < sb_next (sy_broker S)"
  then have k: "skeeps 1 (sy_broker S) (sy_broker S')" using step_skeeps sys_invD(2) by blast
  show "evolves 1 (sb_cells (sy_broker S) a) (sb_cells (sy_broker S') a)" by (rule skeepsD(3) [OF k a])
  show "a < sb_next (sy_broker S')" using skeepsD(2) [OF k] a by simp
qed

lemma run_steps: "run_of n S S' \<Longrightarrow> sys_inv S \<Longrightarrow> interleaved.steps n S S'"
  by (induction rule: run_of.induct) (auto intro: interleaved.steps.intros step_sys_inv)

lemma run_sys_inv: "run_of n S S' \<Longrightarrow> sys_inv S \<Longrightarrow> sys_inv S'"
  by (induction rule: run_of.induct) (auto intro: step_sys_inv)

lemma interleaved_stale:
  assumes "sys_inv S" "enhancement_token (sy_broker S) sid = Some t" "run_of m S S'" "run_of n S' S''"
    and "m + n < 2 ^ 64" "\<not> is_current (sb_cells (sy_broker S')) t"
  shows "\<not> is_current (sb_cells (sy_broker S'')) t"
proof (rule interleaved.stale_forever)
  show "interleaved.steps m S S'" by (rule run_steps [OF assms(3,1)])
  show "interleaved.steps n S' S''" by (rule run_steps [OF assms(4) run_sys_inv [OF assms(3,1)]])
  show "(m + n) * 1 < 2 ^ 64" using assms(5) by simp
  show "gt_cell t < sb_next (sy_broker S)"
    "gt_token_epoch t = gc_epoch (sb_cells (sy_broker S) (gt_cell t))"
    "gt_generation t = gc_clock (sb_cells (sy_broker S) (gt_cell t))"
    using sys_invD(4) [OF assms(1)] assms(2)
    by (auto simp: entries_ok_def enhancement_token_def entry_token_def from_shared_def)
qed (rule assms(6))

section \<open>Rolling back\<close>

lemma finish_rolls_back:
  assumes "operation_verdict cmd g r = RolledBack" "expects cmd e" "is_operation cmd"
    and "gc_clock (sb_cells s a) = g"
  shows "sb_cells (fst (finish_operation rid cmd a e g r s))
    = (sb_cells s)(a := (sb_cells s a)\<lparr>gc_clock := e\<rparr>)"
proof (cases cmd)
  case (KeyCmd c) then show ?thesis
    using finish_key_finishes [of c a g r s rid] assms
    by (simp add: operation_verdict_def expects_def finishes_def rollback_state_change_def set_cell_def)
next
  case (EditCmd c) then show ?thesis
    using finish_edit_finishes [of c a g r s rid] assms
    by (simp add: operation_verdict_def expects_def finishes_def rollback_state_change_def set_cell_def)
next
  case (ConvertCmd c) then show ?thesis
    using finish_convert_finishes [where c = c and x = "cv_generation c" and a = a and g = g and r = r and s = s and rid = rid] assms
    by (simp add: operation_verdict_def expects_def finishes_def rollback_state_change_def set_cell_def)
next
  case (CommitCmd c) then show ?thesis
    using finish_commit_finishes [of c a g r s rid] assms
    by (simp add: operation_verdict_def expects_def finishes_def rollback_state_change_def set_cell_def)
next
  case (CancelCmd c) then show ?thesis
    using finish_cancel_finishes [of c a e g r s rid] assms
    by (simp add: operation_verdict_def finishes_def rollback_state_change_def set_cell_def)
next
  case (FocusLostCmd c) then show ?thesis using assms(1)
    by (simp add: operation_verdict_def split: sum.splits backend_error.splits)
qed (use assms(3) in simp_all)

lemma running_facts:
  assumes "sys_inv S" "task_of S i = Some (Running rid cmd a e g)"
  shows "gc_clock (sb_cells (sy_broker S) a) = g" "expects cmd e" "is_operation cmd" "e < g"
    "sy_locked S a" "in_registry (sy_broker S) rid"
    "held S j = Some a \<Longrightarrow> j = i" "registered S j = Some rid \<Longrightarrow> j = i"
proof -
  have ok: "task_ok (sy_broker S) (Running rid cmd a e g)"
    using sys_invD(2) [OF assms(1)] assms(2) unfolding tasks_ok_def by blast
  then show "gc_clock (sb_cells (sy_broker S) a) = g" "expects cmd e" "is_operation cmd" "e < g"
    by simp_all
  have h: "held S i = Some a" and r: "registered S i = Some rid"
    using assms(2) by (simp_all add: held_task registered_task)
  show "sy_locked S a" "held S j = Some a \<Longrightarrow> j = i"
    using sys_invD(1) [OF assms(1)] h unfolding lock_inv_def exclusive_def by blast+
  show "in_registry (sy_broker S) rid" "registered S j = Some rid \<Longrightarrow> j = i"
    using sys_invD(3) [OF assms(1)] r unfolding registry_inv_def exclusive_def by blast+
qed

section \<open>Tombstones\<close>

fun checked_for :: "u64 \<Rightarrow> task \<Rightarrow> bool" where
  "checked_for sid (Admitting rid c) \<longleftrightarrow> cs_session_id c = sid"
| "checked_for sid (Preparing rid p) \<longleftrightarrow> pr_session_id p = sid"
| "checked_for sid _ \<longleftrightarrow> False"

definition buried :: "u64 \<Rightarrow> system \<Rightarrow> bool" where
  "buried sid S \<longleftrightarrow> sid |\<in>| sb_invalidated (sy_broker S) \<and> entry_of (sy_broker S) sid = None \<and>
     (\<forall>i t. task_of S i = Some t \<longrightarrow> \<not> checked_for sid t)"

definition dies :: "session_broker \<Rightarrow> session_broker \<Rightarrow> bool" where
  "dies s s' \<longleftrightarrow> (\<forall>sid. entry_of s sid = None \<longrightarrow> entry_of s' sid = None)"

lemma dies_same: "sb_sessions s' = sb_sessions s \<Longrightarrow> dies s s'"
  by (simp add: dies_def entry_of_def)

lemma dies_trans: "dies a b \<Longrightarrow> dies b c \<Longrightarrow> dies a c"
  by (simp add: dies_def)

lemma dies_frames:
  "dies s (finish_registration rid s)" "dies s (drain_sessions s)" "dies s (mark_entries m s)"
  "dies s (bury_sessions m s)" "dies s (invalidate_all_sessions s)" "dies s (deactivate a s)"
  "dies s (drop_entry sid a s)" "dies s (s\<lparr>sb_sessions := fmdrop sid (sb_sessions s)\<rparr>)"
  "dies s (fst (bind_session_owner sid owner s))" "dies s (fst (finish_create rid c r s))"
  by (auto simp: dies_def entry_of_def drain_sessions_def mark_entries_def bury_sessions_def
      invalidate_all_sessions_def deactivate_def set_cell_def drop_entry_def bind_session_owner_def
      set_entry_def finish_create_def invalidate_session_def Let_def
      split: option.splits sum.split response_payload.split backend_error.split)

lemma dies_register: "register_request rid s = (s', r) \<Longrightarrow> dies s s'"
  by (auto dest!: register_request_eq intro!: dies_same)

lemma dies_finish: "dies s (fst (finish_operation rid cmd a e g r s))"
proof (cases cmd)
  case (KeyCmd c) then show ?thesis
    by (auto simp: finish_key_def Let_def invalidate_session_def rollback_state_change_def set_cell_def
        intro: dies_same dies_frames simp del: validate_payload.simps
        split: sum.split response_payload.split backend_error.split)
next
  case (EditCmd c) then show ?thesis
    by (auto simp: finish_edit_def Let_def invalidate_session_def rollback_state_change_def set_cell_def
        intro: dies_same dies_frames simp del: validate_payload.simps
        split: sum.split response_payload.split backend_error.split)
next
  case (ConvertCmd c) then show ?thesis
    by (auto simp: finish_convert_def Let_def invalidate_session_def rollback_state_change_def set_cell_def
        intro: dies_same dies_frames simp del: validate_payload.simps
        split: sum.split response_payload.split backend_error.split)
next
  case (CommitCmd c) then show ?thesis
    by (auto simp: finish_commit_def Let_def invalidate_session_def rollback_state_change_def set_cell_def
        intro: dies_same dies_frames simp del: validate_payload.simps
        split: sum.split response_payload.split backend_error.split)
next
  case (CancelCmd c) then show ?thesis
    by (auto simp: finish_cancel_def invalidate_session_def rollback_state_change_def set_cell_def
        intro: dies_same dies_frames split: sum.split backend_error.split)
next
  case (FocusLostCmd c) then show ?thesis
    by (auto simp: finish_focus_lost_def invalidate_session_def intro: dies_same dies_frames
        split: sum.split backend_error.split)
qed (simp_all add: dies_same)

lemma dies_start:
  assumes "start_operation rid cmd a s = (s1, r)" "is_operation cmd"
  shows "dies s s1"
proof (cases r)
  case (Inl resp)
  with start_operation_Inl [of rid cmd a s s1 resp] assms
  have "refused s s1 \<or> (\<exists>sid. s1 = drop_entry sid a (deactivate a s))" by blast
  then show ?thesis
    by (auto simp: refused_def intro: dies_same dies_trans [OF dies_frames(6) dies_frames(7)])
next
  case (Inr tg)
  then obtain s0 where "opened rid a (snd tg) s s0" "s1 = s0 \<or> s1 = deactivate a s0"
    using start_operation_Inr [of rid cmd a s s1 "fst tg" "snd tg"] assms by auto
  then show ?thesis
    by (auto simp: opened_def set_cell_def deactivate_def intro!: dies_same)
qed

lemma prepare_entry_dies: "dies s (fst (prepare_entry rid c a s))"
  by (auto simp: prepare_entry_def Let_def finish_registration_def set_cell_def
      dest!: register_request_eq intro!: dies_same split: prod.splits option.splits)

text \<open>An id becomes live only through a task that has passed its tombstone check.\<close>

lemma step_live:
  assumes "step S S'" "entry_of (sy_broker S) sid = None" "entry_of (sy_broker S') sid \<noteq> None"
  shows "\<exists>i t. task_of S i = Some t \<and> checked_for sid t"
proof (rule ccontr)
  assume no: "\<not> ?thesis"
  have "dies (sy_broker S) (sy_broker S') \<or> entry_of (sy_broker S') sid = None"
    using assms(1)
  proof cases
    case (create_admit i rid c s)
    then have "cs_session_id c \<noteq> sid" using no by (metis checked_for.simps(1))
    with create_admit assms(2) show ?thesis
      by (auto simp: admit_session_def insert_session_def entry_of_def split: if_splits)
  next
    case (prepare_find i rid p s a)
    then have "pr_session_id p \<noteq> sid" using no by (metis checked_for.simps(2))
    with prepare_find assms(2) show ?thesis
      by (auto simp: find_or_insert_def insert_session_def entry_of_def split: if_splits option.splits)
  next
    case (prepare_limit i rid p s resp)
    then show ?thesis
      by (auto simp: find_or_insert_def intro!: dies_same split: if_splits option.splits)
  next
    case (create_refuse i rid c s resp)
    then show ?thesis by (auto simp: admit_session_def intro!: dies_same split: if_splits)
  next
    case (create_duplicate i rid c s)
    then show ?thesis by (auto intro: dies_trans [OF dies_register dies_frames(8)])
  next
    case (create_finish i rid c r s)
    then show ?thesis by (auto intro: dies_trans [OF dies_frames(1) dies_frames(10)])
  next
    case (create_lost i rid c s)
    then show ?thesis by (auto intro: dies_trans [OF dies_frames(1) dies_frames(2)])
  next
    case (run_lost i rid cmd a e g s)
    then show ?thesis by (auto intro: dies_trans [OF dies_frames(1) dies_frames(2)])
  next
    case (finish_run i rid cmd a e g r s)
    then show ?thesis by (auto intro: dies_trans [OF dies_frames(1) dies_finish])
  qed (auto intro: dies_same dies_frames dies_register dies_start prepare_entry_dies)
  with assms(2,3) show False by (auto simp: dies_def)
qed

lemma step_buried:
  assumes "step S S'" "buried sid S" "sys_inv S"
  shows "buried sid S'"
proof -
  have "sid |\<in>| sb_invalidated (sy_broker S')"
    using skeepsD(5) [OF step_skeeps [OF assms(1) sys_invD(2) [OF assms(3)]]] assms(2)
    by (auto simp: buried_def)
  moreover have "entry_of (sy_broker S') sid = None"
  proof (rule ccontr)
    assume live: "entry_of (sy_broker S') sid \<noteq> None"
    have "entry_of (sy_broker S) sid = None" using assms(2) by (simp add: buried_def)
    then obtain i t where "task_of S i = Some t" "checked_for sid t"
      using step_live [OF assms(1) _ live] by blast
    then show False using assms(2) by (simp add: buried_def)
  qed
  moreover have "\<not> checked_for sid t" if "task_of S' i = Some t" for i t
    using assms(1) that assms(2) unfolding buried_def
    by cases (auto split: if_splits)
  ultimately show ?thesis by (simp add: buried_def)
qed

lemma run_buried: "run_of n S S' \<Longrightarrow> buried sid S \<Longrightarrow> sys_inv S \<Longrightarrow> buried sid S'"
  by (induction rule: run_of.induct) (auto intro: step_buried step_sys_inv)

section \<open>Building runs\<close>

text \<open>
  A creation that passed its check, run to its end, and an invalidation run to its end, with
  nothing in between. Both leave the registry as it was.
\<close>

lemma three_steps:
  "reachable cfg S \<Longrightarrow> step S S1 \<Longrightarrow> step S1 S2 \<Longrightarrow> step S2 S3 \<Longrightarrow> reachable cfg S3"
  by (rule reachable.more [OF reachable.more [OF reachable.more]])

lemma finish_create_timeout: "fst (finish_create rid c (Inl BE_Timeout) s) = s"
  by (simp add: finish_create_def Let_def)

lemma create_run:
  assumes "reachable cfg S" "task_of S i = Some (Admitting rid c)"
    and "entry_of (sy_broker S) (cs_session_id c) = None"
    and "session_count (sy_broker S) < unat (bc_max_sessions (sb_config (sy_broker S)))"
    and "\<not> in_registry (sy_broker S) rid"
  shows "\<exists>S' x. reachable cfg S' \<and> task_of S' = (task_of S)(i := None) \<and> sy_locked S' = sy_locked S \<and>
    sy_broker S' = (insert_session (cs_session_id c) (cs_field_class c) False (sy_broker S))
      \<lparr>sb_cancellations := x\<rparr> \<and> cn_tokens x = cn_tokens (sb_cancellations (sy_broker S))"
proof -
  define s1 where "s1 = insert_session (cs_session_id c) (cs_field_class c) False (sy_broker S)"
  define S1 where "S1 = put_task i (Registering rid c) (set_broker s1 S)"
  have reg: "fmlookup (cn_tokens (sb_cancellations s1)) rid = None"
    using assms(5) by (simp add: s1_def insert_session_def in_registry_def)
  obtain x token where x: "register_request rid s1 = (s1\<lparr>sb_cancellations := x\<rparr>, Some token)"
    "cn_tokens x = fmupd rid token (cn_tokens (sb_cancellations s1))"
    using ready_register [OF reg] by blast
  define S2 where "S2 = put_task i (Creating rid c) (set_broker (s1\<lparr>sb_cancellations := x\<rparr>) S1)"
  define s3 where "s3 = finish_registration rid (s1\<lparr>sb_cancellations := x\<rparr>)"
  have "step S S1"
    unfolding S1_def using assms
    by (intro create_admit) (simp_all add: admit_session_def s1_def not_le)
  moreover have "step S1 S2"
    unfolding S2_def by (rule create_register [OF _ _]) (simp_all add: S1_def x)
  moreover have "step S2 (end_task i (set_broker (fst (finish_create rid c (Inl BE_Timeout) s3)) S2))"
    by (rule create_finish) (simp_all add: S2_def s3_def)
  ultimately have "reachable cfg (end_task i (set_broker s3 S2))"
    using three_steps [OF assms(1)] by (simp add: finish_create_timeout)
  moreover have "s3 = s1\<lparr>sb_cancellations := finish_request rid x\<rparr>"
    by (simp add: s3_def finish_registration_def)
  moreover have "cn_tokens (finish_request rid x) = cn_tokens (sb_cancellations (sy_broker S))"
    using x(2) reg by (auto simp: finish_request_def s1_def insert_session_def intro!: fmap_ext)
  ultimately show ?thesis
    by (intro exI [of _ "end_task i (set_broker s3 S2)"] exI [of _ "finish_request rid x"])
      (simp add: S2_def S1_def s1_def)
qed

lemma invalidate_run:
  assumes "task_of S i = None"
  shows "\<exists>S'. run_of 3 S S' \<and> task_of S' = task_of S \<and> sy_locked S' = sy_locked S \<and>
    sy_broker S' = invalidate_all_sessions (sy_broker S)"
proof -
  define m where "m = sb_sessions (sy_broker S)"
  define S1 where "S1 = put_task i (Drained None m) (set_broker (drain_sessions (sy_broker S)) S)"
  define S2 where "S2 = put_task i (Marked None m) (set_broker (mark_entries m (sy_broker S1)) S1)"
  define S3 where "S3 = end_task i (set_lock None False (set_broker (bury_sessions m (sy_broker S2)) S2))"
  have "step S S1" unfolding S1_def m_def by (rule health_lost) (rule assms)
  moreover have "step S1 S2" unfolding S2_def by (rule mark) (simp add: S1_def)
  moreover have "step S2 S3" unfolding S3_def by (rule bury) (simp add: S2_def)
  ultimately have "run_of 3 S S3" by (auto simp: numeral_3_eq_3 intro!: run_of.intros)
  moreover have "sy_broker S3 = invalidate_all_sessions (sy_broker S)"
    by (simp add: S3_def S2_def S1_def m_def invalidate_stages)
  ultimately show ?thesis
    using assms by (intro exI [of _ S3]) (auto simp: S3_def S2_def S1_def fun_eq_iff)
qed

abbreviation idle_system :: "broker_config \<Rightarrow> system" where
  "idle_system cfg \<equiv> \<lparr>sy_broker = session_broker_new cfg, sy_tasks = fmempty, sy_locked = (\<lambda>_. False)\<rparr>"

lemma idle_facts:
  "reachable cfg (idle_system cfg)" "task_of (idle_system cfg) i = None"
  "entry_of (session_broker_new cfg) sid = None" "sb_invalidated (session_broker_new cfg) = {||}"
  "session_count (session_broker_new cfg) = 0" "sb_config (session_broker_new cfg) = cfg"
  "\<not> in_registry (session_broker_new cfg) rid"
proof -
  show "reachable cfg (idle_system cfg)" by (rule reachable.start)
  show "\<not> in_registry (session_broker_new cfg) rid"
    using session_inv_new [of cfg] by (simp add: in_registry_def session_inv_def)
qed (simp_all add: task_of_def session_broker_new_def entry_of_def session_count_def)

definition create_of :: "u64 \<Rightarrow> create_session_request" where
  "create_of sid = \<lparr>cs_session_id = sid, cs_locale = lit ''ja'', cs_field_class = Regular\<rparr>"

lemma one_session:
  assumes "0 < unat (bc_max_sessions cfg)"
  shows "\<exists>S x. reachable cfg S \<and> (\<forall>i. task_of S i = None) \<and> (\<forall>a. \<not> sy_locked S a) \<and>
    sy_broker S = (insert_session sid Regular False (session_broker_new cfg))\<lparr>sb_cancellations := x\<rparr> \<and>
    cn_tokens x = fmempty"
proof -
  have "reachable cfg (put_task 0 (Admitting 2 (create_of sid)) (idle_system cfg))"
    by (rule reachable.more [OF idle_facts(1)], rule create_check) (simp_all add: idle_facts)
  from create_run [OF this, of 0 2 "create_of sid"] assms show ?thesis
    using session_inv_new [of cfg]
    by (simp add: idle_facts create_of_def session_inv_def) (force simp: idle_facts)
qed

lemma race:
  assumes "0 < unat (bc_max_sessions cfg)"
  shows "\<exists>S. reachable cfg S \<and> (\<forall>i. task_of S i = None) \<and>
    entry_of (sy_broker S) sid \<noteq> None \<and> sid |\<in>| sb_invalidated (sy_broker S)"
proof -
  define c where "c = create_of sid"
  define S1 where "S1 = put_task 0 (Admitting 1 c) (idle_system cfg)"
  define S2 where "S2 = put_task 1 (Admitting 2 c) S1"
  have "reachable cfg S1"
    unfolding S1_def by (rule reachable.more [OF idle_facts(1)], rule create_check) (simp_all add: idle_facts)
  then have r2: "reachable cfg S2"
    unfolding S2_def by (rule reachable.more, intro create_check) (simp_all add: S1_def idle_facts)
  have b2: "sy_broker S2 = session_broker_new cfg"
    "task_of S2 = (\<lambda>i. None)(0 := Some (Admitting 1 c), 1 := Some (Admitting 2 c))"
    by (auto simp: S2_def S1_def idle_facts fun_eq_iff)
  obtain S3 x where r3: "reachable cfg S3" and t3: "task_of S3 = (task_of S2)(1 := None)"
    and b3: "sy_broker S3 = (insert_session sid Regular False (sy_broker S2))\<lparr>sb_cancellations := x\<rparr>"
    "cn_tokens x = cn_tokens (sb_cancellations (sy_broker S2))"
    using create_run [OF r2, of 1 2 c] assms by (auto simp: b2 idle_facts c_def create_of_def)
  obtain S4 where r4: "reachable cfg S4" and t4: "task_of S4 = task_of S3"
    and b4: "sy_broker S4 = invalidate_all_sessions (sy_broker S3)"
    using invalidate_run [of S3 1] t3 run_reachable [OF _ r3] by (auto simp: b2)
  have f4: "entry_of (sy_broker S4) sid = None" "sid |\<in>| sb_invalidated (sy_broker S4)"
    "session_count (sy_broker S4) = 0" "sb_config (sy_broker S4) = cfg" "\<not> in_registry (sy_broker S4) 1"
    "task_of S4 0 = Some (Admitting 1 c)"
    using b3 session_inv_new [of cfg]
    by (simp_all add: b4 b2 t4 t3 invalidate_all_sessions_def entry_of_def session_count_def
        insert_session_def idle_facts in_registry_def session_inv_def)
  obtain S5 y where "reachable cfg S5" "task_of S5 = (task_of S4)(0 := None)"
    "sy_broker S5 = (insert_session sid Regular False (sy_broker S4))\<lparr>sb_cancellations := y\<rparr>"
    using create_run [OF r4 f4(6)] f4 assms by (auto simp: c_def create_of_def)
  then show ?thesis
    using f4(2) t4 t3 by (intro exI [of _ S5]) (auto simp: b2 insert_session_def entry_of_def)
qed

lemma one_running:
  assumes "0 < unat (bc_max_sessions cfg)" "cmd = EditCmd \<lparr>eq_session_id = sid, eq_generation = 0, eq_action = Reset\<rparr>"
  shows "\<exists>S. reachable cfg S \<and> task_of S = (\<lambda>i. None)(0 := Some (Running 9 cmd 0 0 1)) \<and>
    entry_of (sy_broker S) sid = Some 0"
proof -
  obtain S x where S: "reachable cfg S" "task_of S = (\<lambda>i. None)" "\<not> sy_locked S 0"
    "sy_broker S = (insert_session sid Regular False (session_broker_new cfg))\<lparr>sb_cancellations := x\<rparr>"
    "cn_tokens x = fmempty"
    using one_session [OF assms(1), of sid] by blast
  define S1 where "S1 = put_task 0 (Waiting 9 cmd 0) S"
  define S2 where "S2 = put_task 0 (Locked 9 cmd 0) (set_lock (Some 0) True S1)"
  have e: "entry_of (sy_broker S) sid = Some 0"
    by (simp add: S entry_of_def insert_session_def session_broker_new_def)
  have r: "ready (sy_broker S) sid 0 0 9"
    by (simp add: ready_def S entry_of_def insert_session_def session_broker_new_def new_cell_def
        new_entry_def)
  then obtain s1 token where s1: "start_change 9 sid 0 0 (sy_broker S) = (s1, Inr (token, 1))"
    using ready_start_change [OF r] by auto
  have "step S S1"
    unfolding S1_def by (rule find_entry [where sid = sid]) (simp_all add: assms(2) S(2) e)
  moreover have "step S1 S2"
    unfolding S2_def by (rule acquire) (simp_all add: S1_def S(3))
  moreover have "step S2 (put_task 0 (Running 9 cmd 0 (operation_expected cmd 0 (sy_broker S2)) 1) (set_broker s1 S2))"
    by (rule begin_run [where token = token]) (simp_all add: S2_def S1_def assms(2) s1)
  ultimately have "reachable cfg (put_task 0 (Running 9 cmd 0 (operation_expected cmd 0 (sy_broker S2)) 1) (set_broker s1 S2))"
    by (rule three_steps [OF S(1)])
  moreover have "entry_of s1 sid = Some 0"
    using start_change_opened [OF s1] e by (auto simp: opened_def set_cell_def entry_of_def)
  moreover have "operation_expected cmd 0 (sy_broker S2) = 0" by (simp add: assms(2))
  ultimately show ?thesis
    by (intro exI [of _ "put_task 0 (Running 9 cmd 0 0 1) (set_broker s1 S2)"])
      (auto simp: S2_def S1_def S(2) fun_eq_iff)
qed

section \<open>The properties\<close>

text \<open>
  Under every interleaving the session table stays within the configured limit, no two
  session ids share an entry, and every remembered preedit is a valid composition state.
\<close>

theorem interleaved_table_consistent:
  assumes "reachable cfg S"
  shows "session_count (sy_broker S) \<le> unat (bc_max_sessions cfg) \<and>
    (\<forall>sid sid' a. entry_of (sy_broker S) sid = Some a \<and> entry_of (sy_broker S) sid' = Some a \<longrightarrow> sid = sid') \<and>
    (\<forall>a. state_ok (se_last_valid (sb_entries (sy_broker S) a)))"
  using sys_invD(4,5) [OF reachable_sys_inv [OF assms]] reachable_config [OF assms]
  unfolding entries_ok_def bounded_def by metis

theorem interleaved_table_consistent_witness:
  "\<exists>S :: system. entry_of (sy_broker S) 7 \<noteq> None \<and> session_count (sy_broker S) \<le> unat (bc_max_sessions default_broker_config)"
proof -
  obtain S where "reachable default_broker_config S" "entry_of (sy_broker S) 7 \<noteq> None"
    using race [of default_broker_config 7] by (auto simp: default_broker_config_def)
  with interleaved_table_consistent [of default_broker_config S] show ?thesis by blast
qed

text \<open>
  Nothing leaks: in every reachable state the cancellation registry holds exactly the
  requests of the tasks inside the backend, and an operation lock is taken exactly while some
  task holds it.
\<close>

theorem registry_and_locks_exact:
  assumes "reachable cfg S"
  shows "(in_registry (sy_broker S) rid \<longleftrightarrow> (\<exists>i t. task_of S i = Some t \<and> registers t = Some rid)) \<and>
    (sy_locked S a \<longleftrightarrow> (\<exists>i t. task_of S i = Some t \<and> holder t = Some a))"
  using sys_invD(1,3) [OF reachable_sys_inv [OF assms]]
  unfolding lock_inv_def registry_inv_def exclusive_def held_def registered_def
  by (simp add: bind_eq_Some_conv)

theorem registry_and_locks_exact_witness:
  "\<exists>S :: system. entry_of (sy_broker S) 7 \<noteq> None \<and> \<not> in_registry (sy_broker S) 1 \<and> \<not> sy_locked S 0"
proof -
  obtain S where "reachable default_broker_config S" "entry_of (sy_broker S) 7 \<noteq> None"
    "\<forall>i. task_of S i = None"
    using race [of default_broker_config 7] by (auto simp: default_broker_config_def)
  with registry_and_locks_exact [of default_broker_config S 1 0] show ?thesis by auto
qed

text \<open>
  C23. A running operation is alone: its entry's lock is taken, the generation it published is
  still the entry's clock and above the one it expected, and no other task holds the lock or
  the request id.
\<close>

theorem running_operation_exclusive:
  assumes "reachable cfg S" "task_of S i = Some (Running rid cmd a e g)"
    and "task_of S j = Some t" "j \<noteq> i"
  shows "sy_locked S a \<and> gc_clock (sb_cells (sy_broker S) a) = g \<and> e < g \<and>
    holder t \<noteq> Some a \<and> registers t \<noteq> Some rid"
  using running_facts [OF reachable_sys_inv [OF assms(1)] assms(2)] assms(3,4)
  by (metis held_task(1) registered_task(1))

theorem running_operation_exclusive_witness:
  "\<exists>S :: system. task_of S 1 = Some (Waiting 8 (EditCmd \<lparr>eq_session_id = 7, eq_generation = 0, eq_action = Reset\<rparr>) 0) \<and>
     sy_locked S 0 \<and> gc_clock (sb_cells (sy_broker S) 0) = 1"
proof -
  define cmd where "cmd = EditCmd \<lparr>eq_session_id = 7, eq_generation = 0, eq_action = Reset\<rparr>"
  obtain S where S: "reachable default_broker_config S"
    "task_of S = (\<lambda>i. None)(0 := Some (Running 9 cmd 0 0 1))" "entry_of (sy_broker S) 7 = Some 0"
    using one_running [of default_broker_config cmd 7] by (auto simp: default_broker_config_def cmd_def)
  define S1 where "S1 = put_task 1 (Waiting 8 cmd 0) S"
  have "step S S1"
    unfolding S1_def by (rule find_entry [of _ _ _ 7]) (simp_all add: S(2,3) cmd_def)
  then have r: "reachable default_broker_config S1" by (rule reachable.more [OF S(1)])
  have t: "task_of S1 0 = Some (Running 9 cmd 0 0 1)" "task_of S1 1 = Some (Waiting 8 cmd 0)"
    by (simp_all add: S1_def S(2))
  from running_operation_exclusive [OF r t] t(2) show ?thesis unfolding cmd_def by auto
qed

text \<open>
  C16. A rollback always succeeds: whatever ran in between, when the backend cancels or rejects
  a running operation, finishing it restores exactly the generation it expected, and nothing
  else changes in the cells; in particular the epoch stays advanced.
\<close>

theorem interleaved_rollback:
  assumes "reachable cfg S" "task_of S i = Some (Running rid cmd a e g)"
    and "operation_verdict cmd g r = RolledBack"
  shows "sb_cells (fst (finish_operation rid cmd a e g r (finish_registration rid (sy_broker S))))
    = (sb_cells (sy_broker S))(a := (sb_cells (sy_broker S) a)\<lparr>gc_clock := e\<rparr>)"
  using finish_rolls_back [OF assms(3), of e "finish_registration rid (sy_broker S)" a rid]
    running_facts(1,2,3) [OF reachable_sys_inv [OF assms(1)] assms(2)]
  by simp

theorem interleaved_rollback_witness:
  "\<exists>S :: system. gc_clock (sb_cells (sy_broker S) 0) = 1 \<and>
     gc_clock (sb_cells (fst (finish_operation 9
       (EditCmd \<lparr>eq_session_id = 7, eq_generation = 0, eq_action = Reset\<rparr>) 0 0 1 (Inl BE_Cancelled)
       (finish_registration 9 (sy_broker S)))) 0) = 0"
proof -
  define cmd where "cmd = EditCmd \<lparr>eq_session_id = 7, eq_generation = 0, eq_action = Reset\<rparr>"
  obtain S where S: "reachable default_broker_config S" "task_of S 0 = Some (Running 9 cmd 0 0 1)"
    using one_running [of default_broker_config cmd 7] by (auto simp: default_broker_config_def cmd_def)
  have "operation_verdict cmd 1 (Inl BE_Cancelled) = RolledBack"
    by (simp add: operation_verdict_def verdict_of_def cmd_def)
  from interleaved_rollback [OF S this] running_facts(1) [OF reachable_sys_inv [OF S(1)] S(2)]
  have "gc_clock (sb_cells (sy_broker S) 0) = 1 \<and>
     gc_clock (sb_cells (fst (finish_operation 9 cmd 0 0 1 (Inl BE_Cancelled)
       (finish_registration 9 (sy_broker S)))) 0) = 0"
    by simp
  then show ?thesis unfolding cmd_def by (rule exI)
qed

text \<open>
  Tokens stay stale under every interleaving: once a token the broker handed out is not
  current, it is not current after any continuation of fewer than \<open>2 ^ 64\<close> steps, rollbacks
  and rerank advances included.
\<close>

theorem interleaved_token_stays_stale:
  assumes "reachable cfg S" "enhancement_token (sy_broker S) sid = Some t"
    and "run_of m S S'" "run_of n S' S''" "m + n < 2 ^ 64"
    and "\<not> is_current (sb_cells (sy_broker S')) t"
  shows "\<not> is_current (sb_cells (sy_broker S'')) t"
  by (rule interleaved_stale [OF reachable_sys_inv [OF assms(1)] assms(2-6)])

theorem interleaved_token_stays_stale_witness:
  "\<exists>(S :: system) t. enhancement_token (sy_broker S) 7 = Some t \<and>
     \<not> is_current (sb_cells (invalidate_all_sessions (invalidate_all_sessions (sy_broker S)))) t"
proof -
  obtain S x where S: "reachable default_broker_config S" "\<forall>i. task_of S i = None"
    "sy_broker S = (insert_session 7 Regular False (session_broker_new default_broker_config))\<lparr>sb_cancellations := x\<rparr>"
    using one_session [of default_broker_config 7] by (auto simp: default_broker_config_def)
  obtain S' where S': "run_of 3 S S'" "task_of S' = task_of S"
    "sy_broker S' = invalidate_all_sessions (sy_broker S)"
    using invalidate_run [of S 0] S(2) by auto
  obtain S'' where S'': "run_of 3 S' S''" "sy_broker S'' = invalidate_all_sessions (sy_broker S')"
    using invalidate_run [of S' 0] S(2) S'(2) by auto
  have e: "fmlookup (sb_sessions (sy_broker S)) 7 = Some 0"
    by (simp add: S(3) insert_session_def session_broker_new_def)
  then obtain t where t: "enhancement_token (sy_broker S) 7 = Some t" "gt_cell t = 0"
    by (auto simp: enhancement_token_def entry_of_def entry_token_def from_shared_def)
  have "0 |\<in>| fmran (sb_sessions (sy_broker S))" using e by (rule fmranI)
  then have "\<not> is_current (sb_cells (sy_broker S')) t"
    by (simp add: S'(3) is_current_def t(2) invalidate_all_sessions_def)
  from interleaved_token_stays_stale [OF S(1) t(1) S'(1) S''(1) _ this] show ?thesis
    using t(1) S''(2) S'(3) by auto
qed

text \<open>
  A tombstone stands as long as no task is between its tombstone check and its admission
  for that id: from such a state the id never becomes live again.
\<close>

theorem tombstone_stands:
  assumes "reachable cfg S" "sid |\<in>| sb_invalidated (sy_broker S)" "entry_of (sy_broker S) sid = None"
    and "\<And>i t. task_of S i = Some t \<Longrightarrow> \<not> checked_for sid t" "run_of n S S'"
  shows "entry_of (sy_broker S') sid = None"
  using run_buried [OF assms(5) _ reachable_sys_inv [OF assms(1)], of sid] assms(2-4)
  by (auto simp: buried_def)

theorem tombstone_stands_witness:
  "\<exists>S :: system. 7 |\<in>| sb_invalidated (sy_broker S) \<and> entry_of (sy_broker S) 7 = None"
proof -
  obtain S x where S: "reachable default_broker_config S" "\<forall>i. task_of S i = None"
    "sy_broker S = (insert_session 7 Regular False (session_broker_new default_broker_config))\<lparr>sb_cancellations := x\<rparr>"
    using one_session [of default_broker_config 7] by (auto simp: default_broker_config_def)
  obtain S' where S': "run_of 3 S S'" "task_of S' = task_of S"
    "sy_broker S' = invalidate_all_sessions (sy_broker S)"
    using invalidate_run [of S 0] S(2) by auto
  obtain S'' where S'': "run_of 3 S' S''" "sy_broker S'' = invalidate_all_sessions (sy_broker S')"
    using invalidate_run [of S' 0] S(2) S'(2) by auto
  have "7 |\<in>| sb_invalidated (sy_broker S')" "entry_of (sy_broker S') 7 = None"
    by (simp_all add: S'(3) S(3) invalidate_all_sessions_def insert_session_def entry_of_def)
  moreover from tombstone_stands [OF run_reachable [OF S'(1) S(1)] this _ S''(1)] S(2) S'(2)
  have "entry_of (sy_broker S'') 7 = None" by simp
  ultimately show ?thesis by (intro exI [of _ S'']) (simp add: S''(2) invalidate_all_sessions_def)
qed

text \<open>
  Without that condition it does not stand: the check and the admission of
  \<open>create_session\<close> take different locks, so a creation that checked before a backend loss
  revives the id after it, and the broker ends idle with an id both live and tombstoned.
\<close>

theorem tombstoned_session_revives:
  assumes "0 < unat (bc_max_sessions cfg)"
  shows "\<exists>S. reachable cfg S \<and> (\<forall>i. task_of S i = None) \<and>
    entry_of (sy_broker S) sid \<noteq> None \<and> sid |\<in>| sb_invalidated (sy_broker S)"
  using assms by (rule race)

theorem tombstoned_session_revives_witness:
  "\<exists>S. reachable default_broker_config S \<and> (\<forall>i. task_of S i = None) \<and>
    entry_of (sy_broker S) 7 \<noteq> None \<and> 7 |\<in>| sb_invalidated (sy_broker S)"
  by (rule tombstoned_session_revives) (simp add: default_broker_config_def)

end
