(* ===== verification/Enhancement.thy ===== *)
theory Enhancement
  imports Generation Validation_Facts
begin

text \<open>
  The optional enhancement executor of \<open>kanai-broker/src/enhancement.rs\<close>: admission of a
  rerank or semantic-assist request, the call of an arbitrary provider under a deadline, and
  the policy that turns its result into a response. The provider is a parameter. What other
  tasks do while the provider is awaited (new generations, cancellations, other registrations)
  is part of its result.
\<close>

section \<open>Errors and outputs\<close>

datatype enhancement_error =
    EE_InvalidRequest validation_error
  | EE_Disabled
  | EE_SecureField
  | EE_RemoteProvider
  | EE_ProviderUnavailable rstr
  | EE_ProviderTimeout
  | EE_Cancelled
  | EE_InvalidOutput rstr
  | EE_Rejected rstr
  | EE_StaleGeneration u64 u64

record rerank_output =
  ro_candidates :: "candidate list"
  ro_adopted :: bool
  ro_metrics :: enhancement_metrics

record semantic_assist_output =
  ao_assist :: "rstr option"
  ao_applied :: bool
  ao_metrics :: enhancement_metrics

datatype admission_error = AE_Stale u64 | AE_SecureField | AE_Invalid rstr

text \<open>
  The atomics the coordinator reads and the registry it keeps: the generation cells of the
  session owner and the cancellation flags with the coordinator's own registrations.
\<close>

record enhancement_world =
  ew_cells :: cells
  ew_cancellations :: cancellations

text \<open>
  A provider's answer under \<open>tokio::time::timeout\<close>: \<open>None\<close> when the deadline elapsed, with the
  measured time in microseconds and the world at that moment.
\<close>

type_synonym 'o awaited = "(enhancement_error + 'o) option \<times> nat \<times> enhancement_world"

record enhancement_backend =
  eb_provider_id :: rstr
  eb_locality :: provider_locality
  eb_rerank :: "candidate_rerank_request \<Rightarrow> nat \<Rightarrow> enhancement_world \<Rightarrow> rerank_output awaited"
  eb_assist :: "semantic_assist_request \<Rightarrow> nat \<Rightarrow> enhancement_world \<Rightarrow> semantic_assist_output awaited"

record coordinator =
  co_backend :: enhancement_backend
  co_policy :: enhancement_policy

definition coordinator_new :: "enhancement_backend \<Rightarrow> coordinator" where
  "coordinator_new b = \<lparr>co_backend = b, co_policy = Disabled\<rparr>"

section \<open>Failures\<close>

definition enhancement_failure ::
  "u64 \<Rightarrow> u64 option \<Rightarrow> error_code \<Rightarrow> rstr \<Rightarrow> response_envelope" where
  "enhancement_failure rid g code message =
     failure_envelope rid g (with_generation g (with_fallback FM_None (new_error code message False)))"

definition current_generation :: "generation_token \<Rightarrow> enhancement_world \<Rightarrow> u64" where
  "current_generation t w = gc_clock (ew_cells w (gt_cell t))"

definition stale_enhancement :: "u64 \<Rightarrow> generation_token \<Rightarrow> enhancement_world \<Rightarrow> response_envelope" where
  "stale_enhancement rid t w =
     enhancement_failure rid (Some (current_generation t w)) EC_StaleGeneration
       (lit ''enhancement result belongs to an old session generation'')"

fun reason_for_error :: "enhancement_error \<Rightarrow> enhancement_reason" where
  "reason_for_error EE_ProviderTimeout = ER_ProviderTimeout"
| "reason_for_error (EE_ProviderUnavailable _) = ER_ProviderUnavailable"
| "reason_for_error EE_RemoteProvider = ER_ProviderUnavailable"
| "reason_for_error (EE_Rejected _) = ER_ProviderRejected"
| "reason_for_error (EE_InvalidOutput _) = ER_InvalidResult"
| "reason_for_error EE_Cancelled = ER_Cancelled"
| "reason_for_error (EE_StaleGeneration _ _) = ER_StaleGeneration"
| "reason_for_error (EE_InvalidRequest _) = ER_ProviderRejected"
| "reason_for_error EE_Disabled = ER_ProviderRejected"
| "reason_for_error EE_SecureField = ER_SecureField"

section \<open>Baseline responses\<close>

text \<open>\<open>elapsed.as_micros().min(u128::from(u64::MAX)) as u64\<close>.\<close>

definition clamp_micros :: "nat \<Rightarrow> u64" where
  "clamp_micros n = of_nat (min n (2 ^ 64 - 1))"

definition provider_id :: "coordinator \<Rightarrow> rstr" where
  "provider_id co =
     (let p = eb_provider_id (co_backend co) in
      if p = [] \<or> blen p > MAX_PROVIDER_ID_BYTES \<or> has_control p then lit ''local'' else p)"

definition fallback_provider :: "coordinator \<Rightarrow> enhancement_status \<Rightarrow> enhancement_reason \<Rightarrow> rstr" where
  "fallback_provider co status reason =
     (if status = ES_Skipped \<and> reason = ER_SecureField then lit ''none'' else provider_id co)"

definition rerank_fallback ::
  "coordinator \<Rightarrow> u64 \<Rightarrow> generation_token \<Rightarrow> candidate list \<Rightarrow> enhancement_status \<Rightarrow>
   enhancement_reason \<Rightarrow> u32 \<Rightarrow> nat \<Rightarrow> response_envelope" where
  "rerank_fallback co rid t baseline status reason deadline elapsed =
     success rid (RerankCandidatesResp \<lparr>cr_session_id = gt_session_id t,
       cr_generation = gt_generation t, cr_status = status, cr_baseline = baseline, cr_ai = baseline,
       cr_adopted = False,
       cr_metrics = (baseline_metrics CandidateRerank (fallback_provider co status reason) Local
           (of_nat (length baseline)) deadline)\<lparr>em_ai_latency_micros := clamp_micros elapsed\<rparr>,
       cr_fallback = FM_LastValidPreedit, cr_reason = reason\<rparr>)"

definition semantic_fallback ::
  "coordinator \<Rightarrow> u64 \<Rightarrow> generation_token \<Rightarrow> rstr \<Rightarrow> enhancement_status \<Rightarrow>
   enhancement_reason \<Rightarrow> u32 \<Rightarrow> nat \<Rightarrow> response_envelope" where
  "semantic_fallback co rid t baseline status reason deadline elapsed =
     success rid (SemanticAssistResp \<lparr>ar_session_id = gt_session_id t,
       ar_generation = gt_generation t, ar_status = status, ar_baseline_text = baseline,
       ar_assist = None, ar_applied = False,
       ar_metrics = (baseline_metrics SemanticAssist (fallback_provider co status reason) Local
           0 deadline)\<lparr>em_ai_latency_micros := clamp_micros elapsed\<rparr>,
       ar_fallback = FM_LastValidPreedit, ar_reason = reason\<rparr>)"

definition skip_response ::
  "coordinator \<Rightarrow> u64 \<Rightarrow> generation_token \<Rightarrow> request_command \<Rightarrow> enhancement_reason \<Rightarrow>
   enhancement_world \<Rightarrow> response_envelope" where
  "skip_response co rid t cmd reason w =
     (let status = (if reason = ER_ProviderRejected then ES_Rejected else ES_Skipped) in
      case cmd of
        RerankCandidatesCmd r \<Rightarrow>
          rerank_fallback co rid t (rr_candidates r) status reason (rr_deadline_ms r) 0
      | SemanticAssistCmd r \<Rightarrow>
          semantic_fallback co rid t (sa_text r) status reason (sa_deadline_ms r) 0
      | _ \<Rightarrow> enhancement_failure rid (Some (current_generation t w)) EC_InvalidRequest
               (lit ''not an enhancement command''))"

definition fallback_without_provider where
  "fallback_without_provider co rid t cmd reason w = skip_response co rid t cmd reason w"

definition cancelled_enhancement ::
  "coordinator \<Rightarrow> u64 \<Rightarrow> generation_token \<Rightarrow> request_command \<Rightarrow> enhancement_world \<Rightarrow>
   response_envelope" where
  "cancelled_enhancement co rid t cmd w =
     (case cmd of
        RerankCandidatesCmd r \<Rightarrow>
          rerank_fallback co rid t (rr_candidates r) ES_Cancelled ER_Cancelled (rr_deadline_ms r) 0
      | SemanticAssistCmd r \<Rightarrow>
          semantic_fallback co rid t (sa_text r) ES_Cancelled ER_Cancelled (sa_deadline_ms r) 0
      | _ \<Rightarrow> enhancement_failure rid (Some (current_generation t w)) EC_Cancelled
               (lit ''enhancement request was cancelled''))"

section \<open>Admission\<close>

definition admit :: "generation_token \<Rightarrow> request_command \<Rightarrow> enhancement_world \<Rightarrow> admission_error + unit" where
  "admit t cmd w =
     (case (case cmd of
              RerankCandidatesCmd r \<Rightarrow> Some (rr_session_id r, rr_generation r)
            | SemanticAssistCmd r \<Rightarrow> Some (sa_session_id r, sa_generation r)
            | _ \<Rightarrow> None) of
        None \<Rightarrow> Inl (AE_Invalid (lit ''not an enhancement command''))
      | Some (sid, g) \<Rightarrow>
          seq (reject_if (sid \<noteq> gt_session_id t \<or> g \<noteq> gt_generation t \<or> \<not> is_current (ew_cells w) t)
                 (AE_Stale (current_generation t w)))
              (reject_if (gt_secure_field_policy t = Prohibit \<or> is_secure (gt_field_class t))
                 AE_SecureField))"

section \<open>The provider's result\<close>

definition changed_positions :: "candidate list \<Rightarrow> candidate list \<Rightarrow> u16" where
  "changed_positions baseline ai =
     of_nat (length (filter (\<lambda>(i, c). i \<ge> length ai \<or> cand_id (ai ! i) \<noteq> cand_id c)
       (enumerate 0 baseline)))"

definition valid_rerank_output :: "candidate list \<Rightarrow> rerank_output \<Rightarrow> bool" where
  "valid_rerank_output baseline out \<longleftrightarrow>
     length (ro_candidates out) \<le> MAX_CANDIDATES \<and>
     list_all (\<lambda>c. is_ok (validate_candidate c)) (ro_candidates out) \<and>
     is_ok (validate_ai_candidates baseline (ro_candidates out)) \<and>
     em_feature (ro_metrics out) = CandidateRerank \<and> em_provider (ro_metrics out) \<noteq> [] \<and>
     em_deadline_ms (ro_metrics out) \<noteq> 0 \<and>
     em_deadline_ms (ro_metrics out) \<le> MAX_ENHANCEMENT_DEADLINE_MS"

definition applied_rerank ::
  "coordinator \<Rightarrow> u64 \<Rightarrow> generation_token \<Rightarrow> candidate_rerank_request \<Rightarrow> rerank_output \<Rightarrow> nat \<Rightarrow>
   response_envelope" where
  "applied_rerank co rid t r out elapsed =
     (let baseline = rr_candidates r; ai = ro_candidates out; changed = changed_positions baseline ai in
      success rid (RerankCandidatesResp \<lparr>cr_session_id = gt_session_id t,
        cr_generation = gt_generation t, cr_status = ES_Applied, cr_baseline = baseline, cr_ai = ai,
        cr_adopted = ro_adopted out,
        cr_metrics = (ro_metrics out)\<lparr>em_feature := CandidateRerank, em_provider := provider_id co,
          em_locality := Local, em_baseline_candidate_count := of_nat (length baseline),
          em_ai_candidate_count := of_nat (length ai),
          em_baseline_latency_micros := rr_baseline_latency_micros r,
          em_deadline_ms := rr_deadline_ms r, em_ai_latency_micros := clamp_micros elapsed,
          em_changed_positions := changed,
          em_adopted_count := (if ro_adopted out then changed else 0)\<rparr>,
        cr_fallback = (if ro_adopted out then FM_None else FM_LastValidPreedit),
        cr_reason = (if ro_adopted out then ER_None else ER_NoChange)\<rparr>))"

definition rerank_result ::
  "coordinator \<Rightarrow> u64 \<Rightarrow> candidate_rerank_request \<Rightarrow> generation_token \<Rightarrow> nat \<Rightarrow>
   rerank_output awaited \<Rightarrow> enhancement_world \<times> response_envelope" where
  "rerank_result co rid r t token aw =
     (case aw of (result, elapsed, w) \<Rightarrow>
      if is_cancelled (ew_cancellations w) token
      then (w, cancelled_enhancement co rid t (RerankCandidatesCmd r) w)
      else if \<not> is_current (ew_cells w) t then (w, stale_enhancement rid t w)
      else let fallback = (\<lambda>status reason.
             rerank_fallback co rid t (rr_candidates r) status reason (rr_deadline_ms r) elapsed) in
      case result of
        Some (Inr out) \<Rightarrow>
          (w, if valid_rerank_output (rr_candidates r) out then applied_rerank co rid t r out elapsed
              else fallback ES_Fallback ER_InvalidResult)
      | Some (Inl (EE_StaleGeneration _ _)) \<Rightarrow> (w, stale_enhancement rid t w)
      | Some (Inl EE_ProviderTimeout) \<Rightarrow> (w, fallback ES_TimedOut ER_ProviderTimeout)
      | Some (Inl EE_Cancelled) \<Rightarrow> (w, cancelled_enhancement co rid t (RerankCandidatesCmd r) w)
      | Some (Inl e) \<Rightarrow> (w, fallback ES_Fallback (reason_for_error e))
      | None \<Rightarrow>
          (w\<lparr>ew_cancellations := cancel_token token (ew_cancellations w)\<rparr>,
           fallback ES_TimedOut ER_ProviderTimeout))"

definition rerank ::
  "coordinator \<Rightarrow> u64 \<Rightarrow> candidate_rerank_request \<Rightarrow> generation_token \<Rightarrow> nat \<Rightarrow>
   enhancement_world \<Rightarrow> enhancement_world \<times> response_envelope" where
  "rerank co rid r t token w =
     (if rr_candidates r = []
      then (w, rerank_fallback co rid t [] ES_Skipped ER_NoBaseline (rr_deadline_ms r) 0)
      else rerank_result co rid r t token (eb_rerank (co_backend co) r token w))"

definition assist_valid :: "rstr option \<Rightarrow> bool" where
  "assist_valid a = (case a of None \<Rightarrow> True
     | Some s \<Rightarrow> s \<noteq> [] \<and> blen s \<le> MAX_ASSIST_TEXT_BYTES \<and> \<not> has_control s)"

definition applied_assist ::
  "coordinator \<Rightarrow> u64 \<Rightarrow> generation_token \<Rightarrow> semantic_assist_request \<Rightarrow> semantic_assist_output \<Rightarrow>
   nat \<Rightarrow> response_envelope" where
  "applied_assist co rid t r out elapsed =
     success rid (SemanticAssistResp \<lparr>ar_session_id = gt_session_id t,
       ar_generation = gt_generation t, ar_status = ES_Applied, ar_baseline_text = sa_text r,
       ar_assist = ao_assist out, ar_applied = ao_applied out,
       ar_metrics = (ao_metrics out)\<lparr>em_feature := SemanticAssist, em_provider := provider_id co,
         em_locality := Local, em_baseline_candidate_count := 0, em_ai_candidate_count := 0,
         em_changed_positions := 0, em_adopted_count := 0,
         em_baseline_latency_micros := sa_baseline_latency_micros r,
         em_deadline_ms := sa_deadline_ms r, em_ai_latency_micros := clamp_micros elapsed\<rparr>,
       ar_fallback = (if ao_applied out then FM_None else FM_LastValidPreedit),
       ar_reason = (if ao_applied out then ER_None else ER_NoChange)\<rparr>)"

definition assist_result ::
  "coordinator \<Rightarrow> u64 \<Rightarrow> semantic_assist_request \<Rightarrow> generation_token \<Rightarrow> nat \<Rightarrow>
   semantic_assist_output awaited \<Rightarrow> enhancement_world \<times> response_envelope" where
  "assist_result co rid r t token aw =
     (case aw of (result, elapsed, w) \<Rightarrow>
      if is_cancelled (ew_cancellations w) token
      then (w, cancelled_enhancement co rid t (SemanticAssistCmd r) w)
      else if \<not> is_current (ew_cells w) t then (w, stale_enhancement rid t w)
      else let fallback = (\<lambda>status reason.
             semantic_fallback co rid t (sa_text r) status reason (sa_deadline_ms r) elapsed) in
      case result of
        Some (Inr out) \<Rightarrow>
          (w, if (ao_applied out \<and> ao_assist out = None) \<or> \<not> assist_valid (ao_assist out)
              then fallback ES_Fallback ER_InvalidResult
              else applied_assist co rid t r out elapsed)
      | Some (Inl (EE_StaleGeneration _ _)) \<Rightarrow> (w, stale_enhancement rid t w)
      | Some (Inl EE_ProviderTimeout) \<Rightarrow> (w, fallback ES_TimedOut ER_ProviderTimeout)
      | Some (Inl EE_Cancelled) \<Rightarrow> (w, cancelled_enhancement co rid t (SemanticAssistCmd r) w)
      | Some (Inl e) \<Rightarrow> (w, fallback ES_Fallback (reason_for_error e))
      | None \<Rightarrow>
          (w\<lparr>ew_cancellations := cancel_token token (ew_cancellations w)\<rparr>,
           fallback ES_TimedOut ER_ProviderTimeout))"

definition semantic_assist ::
  "coordinator \<Rightarrow> u64 \<Rightarrow> semantic_assist_request \<Rightarrow> generation_token \<Rightarrow> nat \<Rightarrow>
   enhancement_world \<Rightarrow> enhancement_world \<times> response_envelope" where
  "semantic_assist co rid r t token w =
     (if \<not> sa_consent r
      then (w, semantic_fallback co rid t (sa_text r) ES_Skipped ER_ConsentRequired (sa_deadline_ms r) 0)
      else assist_result co rid r t token (eb_assist (co_backend co) r token w))"

section \<open>Handling a request\<close>

text \<open>\<open>CancellationRegistration::drop\<close>.\<close>

definition drop_registration :: "u64 \<Rightarrow> nat \<Rightarrow> enhancement_world \<Rightarrow> enhancement_world" where
  "drop_registration rid token w =
     w\<lparr>ew_cancellations := finish_request rid (cancel_token token (ew_cancellations w))\<rparr>"

text \<open>Everything between the registration and the drop of its guard.\<close>

definition registered_handle ::
  "coordinator \<Rightarrow> request_envelope \<Rightarrow> generation_token \<Rightarrow> nat \<Rightarrow> enhancement_world \<Rightarrow>
   enhancement_world \<times> response_envelope" where
  "registered_handle co q t token w =
     (let rid = rq_request_id q; cmd = rq_command q in
      case admit t cmd w of
        Inl (AE_Stale current) \<Rightarrow>
          (w, enhancement_failure rid (Some current) EC_StaleGeneration
                (lit ''enhancement result belongs to an old session generation''))
      | Inl (AE_Invalid message) \<Rightarrow>
          (w, enhancement_failure rid (Some (current_generation t w)) EC_InvalidRequest message)
      | Inl AE_SecureField \<Rightarrow> (w, skip_response co rid t cmd ER_SecureField w)
      | Inr _ \<Rightarrow>
          if is_cancelled (ew_cancellations w) token then (w, cancelled_enhancement co rid t cmd w)
          else if co_policy co = Disabled then (w, skip_response co rid t cmd ER_PolicyDisabled w)
          else if eb_locality (co_backend co) \<noteq> Local
          then (w, skip_response co rid t cmd ER_ProviderRejected w)
          else case cmd of
            RerankCandidatesCmd r \<Rightarrow> rerank co rid r t token w
          | SemanticAssistCmd r \<Rightarrow> semantic_assist co rid r t token w
          | _ \<Rightarrow> (w, enhancement_failure rid (Some (current_generation t w)) EC_InvalidRequest
                     (lit ''request is not an optional enhancement command'')))"

definition enhancement_handle ::
  "coordinator \<Rightarrow> request_envelope \<Rightarrow> generation_token \<Rightarrow> nat \<Rightarrow> enhancement_world \<Rightarrow>
   enhancement_world \<times> response_envelope" where
  "enhancement_handle co q t token w =
     (let rid = rq_request_id q; current = Some (current_generation t w) in
      if rq_version q \<noteq> PROTOCOL_VERSION
      then (w, enhancement_failure rid current EC_UnsupportedVersion
                 (lit ''unsupported enhancement protocol version''))
      else case validate_request q of
        Inl e \<Rightarrow> (w, enhancement_failure rid current EC_InvalidRequest (validation_message e))
      | Inr _ \<Rightarrow>
     (case register_token rid token (ew_cancellations w) of
        Inl _ \<Rightarrow> (w, enhancement_failure rid current EC_InvalidRequest
                     (lit ''enhancement request id is already active''))
      | Inr c \<Rightarrow>
          (let (w', resp) = registered_handle co q t token (w\<lparr>ew_cancellations := c\<rparr>)
           in (drop_registration rid token w', resp))))"

definition coordinator_cancel :: "u64 \<Rightarrow> enhancement_world \<Rightarrow> enhancement_world \<times> bool" where
  "coordinator_cancel rid w =
     (let (c, b) = cancel_request rid (ew_cancellations w) in (w\<lparr>ew_cancellations := c\<rparr>, b))"

end
