(* ===== verification/Queue.thy ===== *)
theory Queue
  imports Enhancement Session_Broker
begin

text \<open>
  The bounded queue in front of the enhancement executor (\<open>kanai-broker/src/queue.rs\<close>) and
  the session broker's use of it (\<open>submit_enhancement\<close> of \<open>session.rs\<close>): the sections under
  the queue's lock as functions, and the workers as a step relation. \<open>tokio::sync::Notify\<close> is
  a parameter; \<open>notify_contract\<close> states its documented behaviour.
\<close>

section \<open>The queue\<close>

definition MAX_ENHANCEMENT_QUEUE_CAPACITY :: nat where "MAX_ENHANCEMENT_QUEUE_CAPACITY = 64"
definition MAX_ENHANCEMENT_WORKERS :: nat where "MAX_ENHANCEMENT_WORKERS = 8"

datatype queue_error = QE_Full | QE_Closed | QE_InvalidCapacity | QE_InvalidWorkers | QE_NoRuntime

record enhancement_job =
  ej_envelope :: request_envelope
  ej_token :: generation_token
  ej_cancellation :: nat
  ej_reply :: nat

record queue_state =
  qs_jobs :: "enhancement_job list"
  qs_latest :: "(u64, u64 \<times> nat) fmap"
  qs_closed :: bool

definition queue_start :: "nat \<Rightarrow> nat \<Rightarrow> bool \<Rightarrow> queue_error + queue_state" where
  "queue_start capacity workers has_runtime =
     (if capacity = 0 \<or> capacity > MAX_ENHANCEMENT_QUEUE_CAPACITY then Inl QE_InvalidCapacity
      else if workers = 0 \<or> workers > MAX_ENHANCEMENT_WORKERS then Inl QE_InvalidWorkers
      else if \<not> has_runtime then Inl QE_NoRuntime
      else Inr \<lparr>qs_jobs = [], qs_latest = fmempty, qs_closed = False\<rparr>)"

definition job_session :: "enhancement_job \<Rightarrow> u64 option" where
  "job_session j = command_session_id (rq_command (ej_envelope j))"

definition job_request :: "enhancement_job \<Rightarrow> u64" where
  "job_request j = rq_request_id (ej_envelope j)"

text \<open>The newest request of a session replaces and cancels the one before it.\<close>

definition supersede ::
  "enhancement_job \<Rightarrow> queue_state \<Rightarrow> (nat \<Rightarrow> bool) \<Rightarrow> queue_state \<times> (nat \<Rightarrow> bool)" where
  "supersede j q flags =
     (case job_session j of
        None \<Rightarrow> (q, flags)
      | Some sid \<Rightarrow>
          (q\<lparr>qs_latest := fmupd sid (job_request j, ej_cancellation j) (qs_latest q)\<rparr>,
           case fmlookup (qs_latest q) sid of
             None \<Rightarrow> flags | Some (_, previous) \<Rightarrow> flags(previous := True)))"

definition enqueue ::
  "nat \<Rightarrow> enhancement_job \<Rightarrow> queue_state \<Rightarrow> (nat \<Rightarrow> bool) \<Rightarrow>
   queue_error + queue_state \<times> (nat \<Rightarrow> bool)" where
  "enqueue capacity j q flags =
     (if qs_closed q then Inl QE_Closed
      else if length (qs_jobs q) \<ge> capacity then Inl QE_Full
      else let (q', flags') = supersede j q flags in Inr (q'\<lparr>qs_jobs := qs_jobs q' @ [j]\<rparr>, flags'))"

datatype popped = Popped enhancement_job queue_state | PopStop | PopWait

definition pop_job :: "queue_state \<Rightarrow> popped" where
  "pop_job q =
     (case qs_jobs q of
        j # js \<Rightarrow> Popped j (q\<lparr>qs_jobs := js\<rparr>)
      | [] \<Rightarrow> if qs_closed q then PopStop else PopWait)"

definition finish_latest :: "u64 option \<Rightarrow> u64 \<Rightarrow> queue_state \<Rightarrow> queue_state" where
  "finish_latest session rid q =
     (case session of
        None \<Rightarrow> q
      | Some sid \<Rightarrow>
          (case fmlookup (qs_latest q) sid of
             Some (latest, _) \<Rightarrow>
               if latest = rid then q\<lparr>qs_latest := fmdrop sid (qs_latest q)\<rparr> else q
           | None \<Rightarrow> q))"

definition close_queue :: "queue_state \<Rightarrow> (nat \<Rightarrow> bool) \<Rightarrow> queue_state \<times> (nat \<Rightarrow> bool)" where
  "close_queue q flags =
     (q\<lparr>qs_latest := fmempty, qs_closed := True\<rparr>,
      \<lambda>t. flags t \<or> t |\<in>| snd |`| fmran (qs_latest q))"

definition pending :: "queue_state \<Rightarrow> nat" where
  "pending q = length (qs_jobs q)"

definition overflow_response ::
  "coordinator \<Rightarrow> u64 \<Rightarrow> generation_token \<Rightarrow> request_command \<Rightarrow> enhancement_world \<Rightarrow> response_envelope" where
  "overflow_response co rid t cmd w = fallback_without_provider co rid t cmd ER_ProviderUnavailable w"

section \<open>Submission by the session broker\<close>

definition is_enhancement :: "request_command \<Rightarrow> bool" where
  "is_enhancement cmd \<longleftrightarrow>
     (case cmd of RerankCandidatesCmd _ \<Rightarrow> True | SemanticAssistCmd _ \<Rightarrow> True | _ \<Rightarrow> False)"

definition begin_submission :: "session_broker \<Rightarrow> request_envelope \<Rightarrow> response_envelope + generation_token" where
  "begin_submission s q =
     (let rid = rq_request_id q; cmd = rq_command q in
      case validate_request q of
        Inl e \<Rightarrow> Inl (validation_failure rid (expected_generation cmd) e)
      | Inr _ \<Rightarrow>
          if \<not> is_enhancement cmd
          then Inl (session_failure rid None EC_InvalidRequest
                 (lit ''request is not an optional enhancement'') FM_None)
          else case command_session_id cmd of
            None \<Rightarrow> Inl (session_failure rid None EC_InvalidRequest
                      (lit ''optional enhancement has no session'') FM_None)
          | Some sid \<Rightarrow>
              (case enhancement_token s sid of
                 None \<Rightarrow> Inl (session_failure rid None EC_UnknownSession
                           (lit ''enhancement session does not exist'') FM_None)
               | Some t \<Rightarrow> Inr t))"

definition begin_submission_for_peer ::
  "session_broker \<Rightarrow> request_envelope \<Rightarrow> rstr \<Rightarrow> response_envelope + generation_token" where
  "begin_submission_for_peer s q owner =
     (case command_session_id (rq_command q) of
        None \<Rightarrow> begin_submission s q
      | Some sid \<Rightarrow>
          if session_owned_by s sid owner then begin_submission s q
          else Inl (foreign_session (rq_request_id q) (expected_generation (rq_command q))))"

text \<open>What becomes of the queue's answer, the response of the coordinator or a queue error.\<close>

definition finish_submission ::
  "coordinator \<Rightarrow> request_envelope \<Rightarrow> generation_token \<Rightarrow> queue_error + response_envelope \<Rightarrow>
   enhancement_world \<Rightarrow> response_envelope" where
  "finish_submission co q t outcome w =
     (let rid = rq_request_id q in
      case outcome of
        Inr resp \<Rightarrow> resp
      | Inl QE_Full \<Rightarrow> overflow_response co rid t (rq_command q) w
      | Inl QE_Closed \<Rightarrow> overflow_response co rid t (rq_command q) w
      | Inl _ \<Rightarrow> session_failure rid (Some (gt_generation t)) EC_Internal
                   (lit ''optional enhancement queue is not configured'') FM_LastValidPreedit)"

section \<open>The notifier\<close>

text \<open>
  \<open>tokio::sync::Notify\<close> as the queue uses it: \<open>nt_enroll i\<close> is worker \<open>i\<close> calling
  \<open>notified().await\<close>. The observers say whether a permit is stored and which workers wait.
\<close>

record 'n notify_ops =
  nt_one :: "'n \<Rightarrow> 'n"
  nt_all :: "'n \<Rightarrow> 'n"
  nt_enroll :: "nat \<Rightarrow> 'n \<Rightarrow> 'n"
  nt_permit :: "'n \<Rightarrow> bool"
  nt_waiters :: "'n \<Rightarrow> nat set"

text \<open>
  The documented behaviour: \<open>notify_one\<close> wakes one waiter or else stores the permit,
  \<open>notify_waiters\<close> wakes the waiters and stores nothing, \<open>notified\<close> takes the permit or waits.
\<close>

definition notify_contract :: "'n notify_ops \<Rightarrow> bool" where
  "notify_contract nt \<longleftrightarrow> (\<forall>n i.
     (if nt_waiters nt n = {} then nt_permit nt (nt_one nt n) \<and> nt_waiters nt (nt_one nt n) = {}
      else nt_permit nt (nt_one nt n) = nt_permit nt n \<and>
        (\<exists>k \<in> nt_waiters nt n. nt_waiters nt (nt_one nt n) = nt_waiters nt n - {k})) \<and>
     nt_permit nt (nt_all nt n) = nt_permit nt n \<and> nt_waiters nt (nt_all nt n) = {} \<and>
     \<not> nt_permit nt (nt_enroll nt i n) \<and>
     nt_waiters nt (nt_enroll nt i n) =
       (if nt_permit nt n then nt_waiters nt n else insert i (nt_waiters nt n)))"

definition notify_fresh :: "'n notify_ops \<Rightarrow> 'n \<Rightarrow> bool" where
  "notify_fresh nt n \<longleftrightarrow> \<not> nt_permit nt n \<and> nt_waiters nt n = {}"

section \<open>The workers\<close>

text \<open>
  \<open>Polling\<close> is about to lock the queue, \<open>Parking\<close> has found it empty and released the lock but
  not yet called \<open>notified()\<close>, \<open>Parked\<close> has, \<open>Handling\<close> runs a job, \<open>Finishing\<close> is about to
  take back the session's entry.
\<close>

datatype worker =
    Polling | Parking | Parked | Handling enhancement_job | Finishing "u64 option" u64 | Stopped

record 'n pool =
  po_queue :: queue_state
  po_flags :: "nat \<Rightarrow> bool"
  po_workers :: "nat \<Rightarrow> worker"
  po_notify :: 'n
  po_replies :: "(nat \<times> response_envelope) list"

definition set_worker :: "nat \<Rightarrow> worker \<Rightarrow> 'n pool \<Rightarrow> 'n pool" where
  "set_worker i x P = P\<lparr>po_workers := (po_workers P)(i := x)\<rparr>"

definition set_queue :: "queue_state \<Rightarrow> 'n pool \<Rightarrow> 'n pool" where
  "set_queue q P = P\<lparr>po_queue := q\<rparr>"

definition set_flags :: "(nat \<Rightarrow> bool) \<Rightarrow> 'n pool \<Rightarrow> 'n pool" where
  "set_flags flags P = P\<lparr>po_flags := flags\<rparr>"

definition set_notify :: "'n \<Rightarrow> 'n pool \<Rightarrow> 'n pool" where
  "set_notify n P = P\<lparr>po_notify := n\<rparr>"

definition reply_to :: "nat \<Rightarrow> response_envelope \<Rightarrow> 'n pool \<Rightarrow> 'n pool" where
  "reply_to ch resp P = P\<lparr>po_replies := (ch, resp) # po_replies P\<rparr>"

text \<open>
  One step of a worker. A job whose client has gone is not handled; otherwise its answer is the
  coordinator's, in whatever world the coordinator ran, with whatever tokens were cancelled
  meanwhile.
\<close>

inductive worker_step :: "'n notify_ops \<Rightarrow> coordinator \<Rightarrow> nat \<Rightarrow> 'n pool \<Rightarrow> 'n pool \<Rightarrow> bool"
  for nt :: "'n notify_ops" and co :: coordinator and workers :: nat where
  take_job:
    "i < workers \<Longrightarrow> po_workers P i = Polling \<Longrightarrow> pop_job (po_queue P) = Popped j q \<Longrightarrow>
     worker_step nt co workers P (set_worker i (Handling j) (set_queue q P))"
| look_empty:
    "i < workers \<Longrightarrow> po_workers P i = Polling \<Longrightarrow> pop_job (po_queue P) = PopWait \<Longrightarrow>
     worker_step nt co workers P (set_worker i Parking P)"
| park:
    "i < workers \<Longrightarrow> po_workers P i = Parking \<Longrightarrow>
     worker_step nt co workers P (set_worker i Parked (set_notify (nt_enroll nt i (po_notify P)) P))"
| resume:
    "i < workers \<Longrightarrow> po_workers P i = Parked \<Longrightarrow> i \<notin> nt_waiters nt (po_notify P) \<Longrightarrow>
     worker_step nt co workers P (set_worker i Polling P)"
| answer_job:
    "i < workers \<Longrightarrow> po_workers P i = Handling j \<Longrightarrow>
     resp = snd (enhancement_handle co (ej_envelope j) (ej_token j) (ej_cancellation j) w) \<Longrightarrow>
     (\<And>t. po_flags P t \<Longrightarrow> flags t) \<Longrightarrow>
     worker_step nt co workers P
       (set_worker i (Finishing (job_session j) (job_request j))
         (set_flags flags (reply_to (ej_reply j) resp P)))"
| skip_job:
    "i < workers \<Longrightarrow> po_workers P i = Handling j \<Longrightarrow>
     worker_step nt co workers P (set_worker i (Finishing (job_session j) (job_request j)) P)"
| release:
    "i < workers \<Longrightarrow> po_workers P i = Finishing session rid \<Longrightarrow>
     worker_step nt co workers P
       (set_worker i Polling (set_queue (finish_latest session rid (po_queue P)) P))"
| stop_worker:
    "i < workers \<Longrightarrow> po_workers P i = Polling \<Longrightarrow> pop_job (po_queue P) = PopStop \<Longrightarrow>
     worker_step nt co workers P (set_worker i Stopped P)"

text \<open>
  What clients and other tasks do: submit a job that \<open>ok\<close> allows, close the queue, cancel
  tokens.
\<close>

inductive client_step ::
  "'n notify_ops \<Rightarrow> nat \<Rightarrow> ('n pool \<Rightarrow> enhancement_job \<Rightarrow> bool) \<Rightarrow> 'n pool \<Rightarrow> 'n pool \<Rightarrow> bool"
  for nt :: "'n notify_ops" and capacity :: nat and ok :: "'n pool \<Rightarrow> enhancement_job \<Rightarrow> bool" where
  submit:
    "ok P j \<Longrightarrow> enqueue capacity j (po_queue P) (po_flags P) = Inr (q, flags) \<Longrightarrow>
     client_step nt capacity ok P
       (set_notify (nt_one nt (po_notify P)) (set_flags flags (set_queue q P)))"
| close:
    "close_queue (po_queue P) (po_flags P) = (q, flags) \<Longrightarrow>
     client_step nt capacity ok P
       (set_notify (nt_all nt (po_notify P)) (set_flags flags (set_queue q P)))"
| cancel:
    "(\<And>t. po_flags P t \<Longrightarrow> flags t) \<Longrightarrow> client_step nt capacity ok P (set_flags flags P)"

definition pool_new :: "'n \<Rightarrow> 'n pool" where
  "pool_new n = \<lparr>po_queue = \<lparr>qs_jobs = [], qs_latest = fmempty, qs_closed = False\<rparr>,
     po_flags = (\<lambda>_. False), po_workers = (\<lambda>_. Polling), po_notify = n, po_replies = []\<rparr>"

inductive pool_reachable ::
  "'n notify_ops \<Rightarrow> coordinator \<Rightarrow> nat \<Rightarrow> nat \<Rightarrow> ('n pool \<Rightarrow> enhancement_job \<Rightarrow> bool) \<Rightarrow> 'n \<Rightarrow> 'n pool \<Rightarrow> bool"
  for nt :: "'n notify_ops" and co :: coordinator and capacity workers :: nat
    and ok :: "'n pool \<Rightarrow> enhancement_job \<Rightarrow> bool" and n0 :: 'n where
  pool_start: "pool_reachable nt co capacity workers ok n0 (pool_new n0)"
| pool_work: "pool_reachable nt co capacity workers ok n0 P \<Longrightarrow> worker_step nt co workers P P' \<Longrightarrow>
    pool_reachable nt co capacity workers ok n0 P'"
| pool_client: "pool_reachable nt co capacity workers ok n0 P \<Longrightarrow> client_step nt capacity ok P P' \<Longrightarrow>
    pool_reachable nt co capacity workers ok n0 P'"

lemma pool_simps [simp]:
  "po_queue (set_worker i x P) = po_queue P" "po_queue (set_queue q P) = q"
  "po_queue (set_flags f P) = po_queue P" "po_queue (set_notify n P) = po_queue P"
  "po_queue (reply_to ch r P) = po_queue P"
  "po_flags (set_worker i x P) = po_flags P" "po_flags (set_queue q P) = po_flags P"
  "po_flags (set_flags f P) = f" "po_flags (set_notify n P) = po_flags P"
  "po_flags (reply_to ch r P) = po_flags P"
  "po_workers (set_worker i x P) = (po_workers P)(i := x)" "po_workers (set_queue q P) = po_workers P"
  "po_workers (set_flags f P) = po_workers P" "po_workers (set_notify n P) = po_workers P"
  "po_workers (reply_to ch r P) = po_workers P"
  "po_notify (set_worker i x P) = po_notify P" "po_notify (set_queue q P) = po_notify P"
  "po_notify (set_flags f P) = po_notify P" "po_notify (set_notify n P) = n"
  "po_notify (reply_to ch r P) = po_notify P"
  "po_replies (set_worker i x P) = po_replies P" "po_replies (set_queue q P) = po_replies P"
  "po_replies (set_flags f P) = po_replies P" "po_replies (set_notify n P) = po_replies P"
  "po_replies (reply_to ch r P) = (ch, r) # po_replies P"
  by (simp_all add: set_worker_def set_queue_def set_flags_def set_notify_def reply_to_def)

end
