(* ===== verification/Enhancement_Correct.thy ===== *)
theory Enhancement_Correct
  imports Enhancement Sync_Replies
begin

text \<open>
  What the enhancement executor promises whatever its provider does: every response is valid, a
  rerank answer is a reordering of the request's candidates, a result is applied only while the
  token is current, and a provider sees nothing of a secure field.
\<close>

lemma reject_if_simps [simp]: "reject_if True e = Inl e" "reject_if False e = Inr ()"
  by (simp_all add: reject_if_def)

section \<open>Valid responses\<close>

lemma valid_enhancement_failure:
  "m \<noteq> [] \<Longrightarrow> msg_ok 512 m \<Longrightarrow> validate_response (enhancement_failure rid g code m) = Inr ()"
  unfolding enhancement_failure_def by (rule valid_failure) simp_all

lemma valid_stale_enhancement: "validate_response (stale_enhancement rid t w) = Inr ()"
  by (auto simp: stale_enhancement_def intro!: valid_enhancement_failure msg_ok_lit)

lemma provider_id_ok:
  "provider_id co \<noteq> []" "blen (provider_id co) \<le> MAX_PROVIDER_ID_BYTES" "\<not> has_control (provider_id co)"
  by (auto simp: provider_id_def Let_def lit_def limit_defs utf8_len_def is_control_def)

lemma fallback_provider_ok:
  "fallback_provider co st rs \<noteq> []" "blen (fallback_provider co st rs) \<le> MAX_PROVIDER_ID_BYTES"
  "\<not> has_control (fallback_provider co st rs)"
  using provider_id_ok [of co]
  by (auto simp: fallback_provider_def lit_def limit_defs utf8_len_def is_control_def)

lemma few_fits: "n \<le> MAX_CANDIDATES \<Longrightarrow> unat (of_nat n :: u16) = n"
  by (simp add: limit_defs unat_of_nat)

lemmas count_fits = few_fits [of "length cs" for cs]

lemma distinct_candidates: "bounded_candidates cs \<Longrightarrow> distinct cs"
  by (simp add: bounded_candidates_def distinct_map)

lemma metrics_ok:
  assumes "unat (em_baseline_candidate_count m) \<le> MAX_CANDIDATES" "unat (em_ai_candidate_count m) \<le> MAX_CANDIDATES"
    and "unat (em_changed_positions m) \<le> MAX_CANDIDATES" "em_adopted_count m \<le> em_ai_candidate_count m"
    and "em_deadline_ms m \<noteq> 0" "em_deadline_ms m \<le> MAX_ENHANCEMENT_DEADLINE_MS"
    and "em_provider m \<noteq> []" "blen (em_provider m) \<le> MAX_PROVIDER_ID_BYTES" "\<not> has_control (em_provider m)"
  shows "validate_metrics m = Inr ()"
proof -
  have "em_changed_positions m \<le> of_nat MAX_CANDIDATES"
    using assms(3) by (simp add: word_le_nat_alt limit_defs)
  then show ?thesis
    using assms by (simp add: validate_metrics_def validate_text_iff not_less)
qed

lemma baseline_metrics_simps [simp]:
  "em_feature (baseline_metrics f p l n d) = f" "em_provider (baseline_metrics f p l n d) = p"
  "em_baseline_candidate_count (baseline_metrics f p l n d) = n"
  "em_ai_candidate_count (baseline_metrics f p l n d) = n"
  "em_changed_positions (baseline_metrics f p l n d) = 0"
  "em_adopted_count (baseline_metrics f p l n d) = 0" "em_deadline_ms (baseline_metrics f p l n d) = d"
  by (simp_all add: baseline_metrics_def)

lemma valid_rerank_payload:
  assumes "bounded_candidates (cr_baseline r)" "mset (cr_ai r) = mset (cr_baseline r)" "cr_session_id r \<noteq> 0"
    and "em_feature (cr_metrics r) = CandidateRerank" "validate_metrics (cr_metrics r) = Inr ()"
    and "em_baseline_candidate_count (cr_metrics r) = of_nat (length (cr_baseline r))"
    and "em_ai_candidate_count (cr_metrics r) = of_nat (length (cr_ai r))"
  shows "validate_payload (RerankCandidatesResp r) = Inr ()"
proof -
  have len: "length (cr_ai r) = length (cr_baseline r)" using assms(2) by (metis size_mset)
  have few: "length (cr_baseline r) \<le> MAX_CANDIDATES" using assms(1) by (simp add: bounded_candidates_def)
  have "bounded_candidates (cr_ai r)" by (rule bounded_candidates_mset [OF assms(2) [symmetric] assms(1)])
  then show ?thesis
    unfolding validate_payload.simps seq_Inr_iff reject_if_Inr_iff validate_id_iff candidate_list_accepts
      permutation_accepts
    using assms(1-5) distinct_candidates [OF assms(1)] assms(6,7) [THEN arg_cong, of unat]
    unfolding len count_fits [OF few] by blast
qed

lemma valid_rerank_fallback:
  assumes "bounded_candidates cs" "rid \<noteq> 0" "gt_session_id t \<noteq> 0"
    and "d \<noteq> 0" "d \<le> MAX_ENHANCEMENT_DEADLINE_MS"
  shows "validate_response (rerank_fallback co rid t cs st rs d e) = Inr ()"
  unfolding rerank_fallback_def
proof (rule valid_success [OF assms(2) valid_rerank_payload], simp_all only: candidate_rerank_response.simps)
  have few: "length cs \<le> MAX_CANDIDATES" using assms(1) by (simp add: bounded_candidates_def)
  show "validate_metrics (baseline_metrics CandidateRerank (fallback_provider co st rs) Local
      (of_nat (length cs)) d\<lparr>em_ai_latency_micros := clamp_micros e\<rparr>) = Inr ()"
    using assms(4,5) few count_fits [OF few] fallback_provider_ok [of co st rs] by (intro metrics_ok) simp_all
qed (use assms in simp_all)

lemma valid_semantic_fallback:
  assumes "blen text \<le> MAX_ASSIST_TEXT_BYTES" "\<not> has_control text" "rid \<noteq> 0" "gt_session_id t \<noteq> 0"
    and "d \<noteq> 0" "d \<le> MAX_ENHANCEMENT_DEADLINE_MS"
  shows "validate_response (semantic_fallback co rid t text st rs d e) = Inr ()"
  unfolding semantic_fallback_def
  using assms fallback_provider_ok [of co st rs]
  by (intro valid_success) (simp_all add: validate_text_allow_empty_iff metrics_ok)

lemma changed_positions_le:
  "length cs \<le> MAX_CANDIDATES \<Longrightarrow> unat (changed_positions cs ai) \<le> length cs"
proof -
  assume l: "length cs \<le> MAX_CANDIDATES"
  define n where "n = length (filter (\<lambda>(i, c). i \<ge> length ai \<or> cand_id (ai ! i) \<noteq> cand_id c) (enumerate 0 cs))"
  have "n \<le> length cs" unfolding n_def by (rule order_trans [OF length_filter_le]) simp
  moreover have "unat (of_nat n :: u16) = n"
    using calculation l by (intro few_fits) simp
  ultimately show ?thesis by (simp add: changed_positions_def n_def)
qed

text \<open>What an accepted rerank output is, with the request's candidates already validated.\<close>

lemma valid_rerank_output_permutes:
  assumes "valid_rerank_output cs out"
  shows "mset (ro_candidates out) = mset cs"
  using assms by (simp add: valid_rerank_output_def is_ok_unit_iff permutation_accepts)

lemma valid_applied_rerank:
  assumes "bounded_candidates (rr_candidates r)" "valid_rerank_output (rr_candidates r) out"
    and "rid \<noteq> 0" "gt_session_id t \<noteq> 0" "rr_deadline_ms r \<noteq> 0" "rr_deadline_ms r \<le> MAX_ENHANCEMENT_DEADLINE_MS"
  shows "validate_response (applied_rerank co rid t r out e) = Inr ()"
proof -
  note perm = valid_rerank_output_permutes [OF assms(2)]
  have ai: "bounded_candidates (ro_candidates out)"
    by (rule bounded_candidates_mset [OF perm [symmetric] assms(1)])
  have len: "length (ro_candidates out) = length (rr_candidates r)" using perm by (metis size_mset)
  have few: "length (rr_candidates r) \<le> MAX_CANDIDATES" using assms(1) by (simp add: bounded_candidates_def)
  have ch: "unat (changed_positions (rr_candidates r) (ro_candidates out)) \<le> length (rr_candidates r)"
    by (rule changed_positions_le [OF few])
  then have "changed_positions (rr_candidates r) (ro_candidates out) \<le> of_nat (length (rr_candidates r))"
    using count_fits [OF few] by (simp add: word_le_nat_alt)
  with ch few show ?thesis
    unfolding applied_rerank_def Let_def
    using assms ai perm distinct_candidates [OF assms(1)] provider_id_ok [of co] len
    by (intro valid_success) (simp_all add: candidate_list_accepts permutation_accepts count_fits metrics_ok)
qed

lemma valid_applied_assist:
  assumes "blen (sa_text r) \<le> MAX_ASSIST_TEXT_BYTES" "\<not> has_control (sa_text r)"
    and "assist_valid (ao_assist out)" "\<not> (ao_applied out \<and> ao_assist out = None)"
    and "rid \<noteq> 0" "gt_session_id t \<noteq> 0" "sa_deadline_ms r \<noteq> 0" "sa_deadline_ms r \<le> MAX_ENHANCEMENT_DEADLINE_MS"
  shows "validate_response (applied_assist co rid t r out e) = Inr ()"
  unfolding applied_assist_def
  using assms provider_id_ok [of co]
  by (intro valid_success)
    (auto simp: assist_valid_def validate_text_iff validate_text_allow_empty_iff metrics_ok split: option.splits)

text \<open>A validated request for the token's session, as the handlers see it.\<close>

definition rerank_ready :: "u64 \<Rightarrow> candidate_rerank_request \<Rightarrow> generation_token \<Rightarrow> bool" where
  "rerank_ready rid r t \<longleftrightarrow> rid \<noteq> 0 \<and> gt_session_id t \<noteq> 0 \<and> bounded_candidates (rr_candidates r) \<and>
     rr_deadline_ms r \<noteq> 0 \<and> rr_deadline_ms r \<le> MAX_ENHANCEMENT_DEADLINE_MS"

definition assist_ready :: "u64 \<Rightarrow> semantic_assist_request \<Rightarrow> generation_token \<Rightarrow> bool" where
  "assist_ready rid r t \<longleftrightarrow> rid \<noteq> 0 \<and> gt_session_id t \<noteq> 0 \<and>
     blen (sa_text r) \<le> MAX_ASSIST_TEXT_BYTES \<and> \<not> has_control (sa_text r) \<and>
     sa_deadline_ms r \<noteq> 0 \<and> sa_deadline_ms r \<le> MAX_ENHANCEMENT_DEADLINE_MS"

lemma ready_of_valid:
  "validate_request q = Inr () \<Longrightarrow> rq_command q = RerankCandidatesCmd r \<Longrightarrow>
   rr_session_id r = gt_session_id t \<Longrightarrow> rerank_ready (rq_request_id q) r t"
  "validate_request q = Inr () \<Longrightarrow> rq_command q = SemanticAssistCmd a \<Longrightarrow>
   sa_session_id a = gt_session_id t \<Longrightarrow> assist_ready (rq_request_id q) a t"
  by (auto simp: validate_request_def rerank_ready_def assist_ready_def validate_rerank_request_def
      validate_assist_request_def candidate_list_accepts validate_deadline_iff validate_text_iff)

lemma rerank_valid:
  assumes "rerank_ready rid r t"
  shows "validate_response (snd (rerank co rid r t token w)) = Inr ()"
proof -
  have fb: "validate_response (rerank_fallback co rid t (rr_candidates r) st rs (rr_deadline_ms r) e) = Inr ()"
    for st rs e
    using assms by (intro valid_rerank_fallback) (simp_all add: rerank_ready_def)
  have "bounded_candidates []" by (simp add: bounded_candidates_def total_bytes_def)
  then have "validate_response (rerank_fallback co rid t [] st rs (rr_deadline_ms r) e) = Inr ()" for st rs e
    using assms by (intro valid_rerank_fallback) (simp_all add: rerank_ready_def)
  with fb show ?thesis
    using assms
    by (auto simp: rerank_def rerank_result_def Let_def cancelled_enhancement_def valid_stale_enhancement
        rerank_ready_def intro!: valid_applied_rerank
        split: prod.split option.split sum.split enhancement_error.split)
qed

lemma assist_valid_response:
  assumes "assist_ready rid r t"
  shows "validate_response (snd (semantic_assist co rid r t token w)) = Inr ()"
proof -
  have "validate_response (semantic_fallback co rid t (sa_text r) st rs (sa_deadline_ms r) e) = Inr ()"
    for st rs e
    using assms by (intro valid_semantic_fallback) (simp_all add: assist_ready_def)
  then show ?thesis
    using assms
    by (auto simp: semantic_assist_def assist_result_def Let_def cancelled_enhancement_def
        valid_stale_enhancement assist_ready_def intro!: valid_applied_assist
        split: prod.split option.split sum.split enhancement_error.split)
qed

lemma skip_valid:
  "rerank_ready rid r t \<Longrightarrow>
   validate_response (skip_response co rid t (RerankCandidatesCmd r) rs w) = Inr () \<and>
   validate_response (cancelled_enhancement co rid t (RerankCandidatesCmd r) w) = Inr ()"
  "assist_ready rid a t \<Longrightarrow>
   validate_response (skip_response co rid t (SemanticAssistCmd a) rs w) = Inr () \<and>
   validate_response (cancelled_enhancement co rid t (SemanticAssistCmd a) w) = Inr ()"
  by (auto simp: skip_response_def cancelled_enhancement_def rerank_ready_def assist_ready_def Let_def
      intro!: valid_rerank_fallback valid_semantic_fallback)

text \<open>The three ways admission ends.\<close>

lemma admit_cases:
  obtains (other) m where "admit t cmd w = Inl (AE_Invalid m)" "m = lit ''not an enhancement command''"
  | (stale) "admit t cmd w = Inl (AE_Stale (current_generation t w))"
  | (rerank) r where "cmd = RerankCandidatesCmd r" "rr_session_id r = gt_session_id t"
      "rr_generation r = gt_generation t" "is_current (ew_cells w) t"
      "admit t cmd w = (if gt_secure_field_policy t = Prohibit \<or> is_secure (gt_field_class t)
         then Inl AE_SecureField else Inr ())"
  | (assist) r where "cmd = SemanticAssistCmd r" "sa_session_id r = gt_session_id t"
      "sa_generation r = gt_generation t" "is_current (ew_cells w) t"
      "admit t cmd w = (if gt_secure_field_policy t = Prohibit \<or> is_secure (gt_field_class t)
         then Inl AE_SecureField else Inr ())"
proof (cases "\<exists>m. admit t cmd w = Inl (AE_Invalid m)")
  case True
  then show ?thesis using other by (auto simp: admit_def seq_Inl_iff split: request_command.splits)
next
  case valid: False
  show ?thesis
  proof (cases "admit t cmd w = Inl (AE_Stale (current_generation t w))")
    case True
    then show ?thesis by (rule stale)
  next
    case False
    show ?thesis
    proof (cases cmd)
      case (RerankCandidatesCmd r)
      with False have "rr_session_id r = gt_session_id t" "rr_generation r = gt_generation t" "is_current (ew_cells w) t"
        by (auto simp: admit_def seq_Inl_iff)
      with RerankCandidatesCmd show ?thesis by (intro rerank) (auto simp: admit_def reject_if_def)
    next
      case (SemanticAssistCmd r)
      with False have "sa_session_id r = gt_session_id t" "sa_generation r = gt_generation t" "is_current (ew_cells w) t"
        by (auto simp: admit_def seq_Inl_iff)
      with SemanticAssistCmd show ?thesis by (intro assist) (auto simp: admit_def reject_if_def)
    qed (use valid in \<open>simp_all add: admit_def\<close>)
  qed
qed

lemma registered_handle_valid:
  assumes "validate_request q = Inr ()"
  shows "validate_response (snd (registered_handle co q t token w)) = Inr ()"
proof (cases rule: admit_cases [of t "rq_command q" w])
  case (rerank r)
  note ready = ready_of_valid(1) [OF assms rerank(1,2)]
  show ?thesis
    using rerank(1,5) skip_valid(1) [OF ready] rerank_valid [OF ready]
    by (simp add: registered_handle_def Let_def)
next
  case (assist r)
  note ready = ready_of_valid(2) [OF assms assist(1,2)]
  show ?thesis
    using assist(1,5) skip_valid(2) [OF ready] assist_valid_response [OF ready]
    by (simp add: registered_handle_def Let_def)
qed (auto simp: registered_handle_def Let_def intro!: valid_enhancement_failure msg_ok_lit)

section \<open>What may be applied\<close>

definition applied :: "response_envelope \<Rightarrow> bool" where
  "applied resp \<longleftrightarrow>
     (case rp_outcome resp of
        Success (RerankCandidatesResp r) \<Rightarrow> cr_status r = ES_Applied
      | Success (SemanticAssistResp r) \<Rightarrow> ar_status r = ES_Applied
      | _ \<Rightarrow> False)"

lemma not_applied [simp]:
  "\<not> applied (enhancement_failure rid g code m)" "\<not> applied (stale_enhancement rid t w)"
  "applied (rerank_fallback co rid t cs st rs d e) \<longleftrightarrow> st = ES_Applied"
  "applied (semantic_fallback co rid t s st rs d e) \<longleftrightarrow> st = ES_Applied"
  "\<not> applied (skip_response co rid t cmd rs w)" "\<not> applied (cancelled_enhancement co rid t cmd w)"
  by (simp_all add: applied_def enhancement_failure_def failure_envelope_def stale_enhancement_def
      rerank_fallback_def semantic_fallback_def success_def skip_response_def cancelled_enhancement_def
      split: request_command.split)

lemma rerank_applied:
  "applied (snd (rerank co rid r t token w)) \<Longrightarrow> is_current (ew_cells (fst (rerank co rid r t token w))) t"
  by (auto simp: rerank_def rerank_result_def Let_def
      split: prod.splits option.splits sum.splits enhancement_error.splits if_splits)

lemma assist_applied:
  "applied (snd (semantic_assist co rid r t token w)) \<Longrightarrow>
   is_current (ew_cells (fst (semantic_assist co rid r t token w))) t"
  by (auto simp: semantic_assist_def assist_result_def Let_def
      split: prod.splits option.splits sum.splits enhancement_error.splits if_splits)

text \<open>The conditions under which a provider is called at all.\<close>

definition consults :: "coordinator \<Rightarrow> generation_token \<Rightarrow> nat \<Rightarrow> enhancement_world \<Rightarrow> bool" where
  "consults co t token w \<longleftrightarrow>
     is_current (ew_cells w) t \<and> gt_secure_field_policy t \<noteq> Prohibit \<and> \<not> is_secure (gt_field_class t) \<and>
     \<not> is_cancelled (ew_cancellations w) token \<and> co_policy co = LocalQualityOnly \<and>
     eb_locality (co_backend co) = Local"

lemma registered_applied:
  assumes "applied (snd (registered_handle co q t token w))"
  shows "consults co t token w \<and> is_current (ew_cells (fst (registered_handle co q t token w))) t"
proof (cases rule: admit_cases [of t "rq_command q" w])
  case (rerank r)
  have "co_policy co = Disabled \<or> co_policy co = LocalQualityOnly" by (cases "co_policy co") auto
  then show ?thesis
    using assms rerank(1,4,5) rerank_applied [of co "rq_request_id q" r t token w]
    by (auto simp: registered_handle_def Let_def consults_def split: if_splits)
next
  case (assist r)
  have "co_policy co = Disabled \<or> co_policy co = LocalQualityOnly" by (cases "co_policy co") auto
  then show ?thesis
    using assms assist(1,4,5) assist_applied [of co "rq_request_id q" r t token w]
    by (auto simp: registered_handle_def Let_def consults_def split: if_splits)
qed (use assms in \<open>auto simp: registered_handle_def Let_def\<close>)

lemma valid_version: "validate_request q = Inr () \<Longrightarrow> rq_version q = PROTOCOL_VERSION"
  by (simp add: validate_request_def)

lemma handle_registered:
  assumes "register_token (rq_request_id q) token (ew_cancellations w) = Inr c"
    and "validate_request q = Inr ()"
  shows "enhancement_handle co q t token w =
    (let (w', resp) = registered_handle co q t token (w\<lparr>ew_cancellations := c\<rparr>)
     in (drop_registration (rq_request_id q) token w', resp))"
  using assms valid_version [OF assms(2)] by (simp add: enhancement_handle_def Let_def)

lemma handle_cases:
  obtains (refused) m code where "enhancement_handle co q t token w =
      (w, enhancement_failure (rq_request_id q) (Some (current_generation t w)) code m)"
      "m \<noteq> []" "msg_ok 512 m"
      "is_ok (validate_request q) \<Longrightarrow> fmlookup (cn_tokens (ew_cancellations w)) (rq_request_id q) \<noteq> None"
  | (registered) c where "register_token (rq_request_id q) token (ew_cancellations w) = Inr c"
      "validate_request q = Inr ()"
proof (cases "rq_version q = PROTOCOL_VERSION")
  case False
  then show ?thesis
    by (intro refused [of EC_UnsupportedVersion "lit ''unsupported enhancement protocol version''"])
      (simp_all add: enhancement_handle_def msg_ok_lit is_ok_unit_iff validate_request_def)
next
  case version: True
  show ?thesis
  proof (cases "validate_request q")
    case (Inl e)
    with version show ?thesis
      by (intro refused [of EC_InvalidRequest "validation_message e"])
        (simp_all add: enhancement_handle_def msg_ok_mono [OF validation_message_ok])
  next
    case (Inr u)
    show ?thesis
    proof (cases "register_token (rq_request_id q) token (ew_cancellations w)")
      case (Inl e)
      with version \<open>validate_request q = Inr u\<close> show ?thesis
        by (intro refused [of EC_InvalidRequest "lit ''enhancement request id is already active''"])
          (simp_all add: enhancement_handle_def msg_ok_lit register_token_def split: if_splits)
    qed (use Inr registered in simp)
  qed
qed

lemma handle_valid: "validate_response (snd (enhancement_handle co q t token w)) = Inr ()"
proof (cases rule: handle_cases [of co q t token w])
  case (refused m code)
  then show ?thesis by (simp add: valid_enhancement_failure)
next
  case (registered c)
  then show ?thesis
    using registered_handle_valid [OF registered(2)] handle_registered [OF registered]
    by (simp add: case_prod_unfold Let_def)
qed

section \<open>Reorderings\<close>

definition reorders :: "request_command \<Rightarrow> response_envelope \<Rightarrow> bool" where
  "reorders cmd resp \<longleftrightarrow>
     (\<forall>r. rp_outcome resp = Success (RerankCandidatesResp r) \<longrightarrow>
        (\<exists>req. cmd = RerankCandidatesCmd req \<and> cr_baseline r = rr_candidates req \<and>
           mset (cr_ai r) = mset (rr_candidates req) \<and>
           (cr_status r \<noteq> ES_Applied \<longrightarrow> cr_ai r = rr_candidates req \<and> \<not> cr_adopted r)))"

lemma reorders_simps [simp]:
  "reorders cmd (enhancement_failure rid g code m)" "reorders cmd (stale_enhancement rid t w)"
  "reorders cmd (semantic_fallback co rid t s st rs d e)"
  "reorders cmd (applied_assist co rid t a ao e)"
  "reorders (RerankCandidatesCmd r) (rerank_fallback co rid t (rr_candidates r) st rs d e)"
  "reorders cmd (skip_response co rid t cmd rs w)" "reorders cmd (cancelled_enhancement co rid t cmd w)"
  by (auto simp: reorders_def enhancement_failure_def failure_envelope_def stale_enhancement_def
      rerank_fallback_def semantic_fallback_def applied_assist_def success_def skip_response_def
      cancelled_enhancement_def split: request_command.splits)

lemma applied_rerank_reorders:
  "valid_rerank_output (rr_candidates r) out \<Longrightarrow>
   reorders (RerankCandidatesCmd r) (applied_rerank co rid t r out e)"
  by (auto simp: reorders_def applied_rerank_def Let_def success_def valid_rerank_output_permutes)

lemma rerank_reorders_candidates: "reorders (RerankCandidatesCmd r) (snd (rerank co rid r t token w))"
proof (cases "rr_candidates r = []")
  case True
  then have "reorders (RerankCandidatesCmd r) (rerank_fallback co rid t [] st rs d e)" for st rs d e
    using reorders_simps(5) [of r] by simp
  with True show ?thesis by (simp add: rerank_def)
next
  case False
  then show ?thesis
    by (auto simp: rerank_def rerank_result_def Let_def applied_rerank_reorders
        split: prod.split option.split sum.split enhancement_error.split)
qed

lemma assist_reorders: "reorders cmd (snd (semantic_assist co rid r t token w))"
  by (auto simp: semantic_assist_def assist_result_def Let_def cancelled_enhancement_def
      split: prod.split option.split sum.split enhancement_error.split)

lemma registered_reorders: "reorders (rq_command q) (snd (registered_handle co q t token w))"
proof (cases rule: admit_cases [of t "rq_command q" w])
  case (rerank r)
  then show ?thesis
    using reorders_simps(6,7) [of "RerankCandidatesCmd r"]
    by (auto simp: registered_handle_def Let_def rerank_reorders_candidates)
next
  case (assist r)
  then show ?thesis
    using reorders_simps(6,7) [of "SemanticAssistCmd r"]
    by (auto simp: registered_handle_def Let_def assist_reorders)
qed (auto simp: registered_handle_def Let_def)

section \<open>The registration\<close>

text \<open>A provider that leaves the coordinator's registrations alone.\<close>

definition keeps_registrations :: "enhancement_backend \<Rightarrow> bool" where
  "keeps_registrations b \<longleftrightarrow>
     (\<forall>r token w. cn_tokens (ew_cancellations (snd (snd (eb_rerank b r token w)))) = cn_tokens (ew_cancellations w)) \<and>
     (\<forall>r token w. cn_tokens (ew_cancellations (snd (snd (eb_assist b r token w)))) = cn_tokens (ew_cancellations w))"

lemma rerank_registrations:
  assumes "keeps_registrations (co_backend co)"
  shows "cn_tokens (ew_cancellations (fst (rerank co rid r t token w))) = cn_tokens (ew_cancellations w)"
proof -
  obtain x e w' where x: "eb_rerank (co_backend co) r token w = (x, e, w')" using prod_cases3 by blast
  then have "cn_tokens (ew_cancellations w') = cn_tokens (ew_cancellations w)"
    using assms unfolding keeps_registrations_def by (metis snd_conv)
  with x show ?thesis
    by (auto simp: rerank_def rerank_result_def Let_def
        split: option.split sum.split enhancement_error.split)
qed

lemma assist_registrations:
  assumes "keeps_registrations (co_backend co)"
  shows "cn_tokens (ew_cancellations (fst (semantic_assist co rid r t token w))) = cn_tokens (ew_cancellations w)"
proof -
  obtain x e w' where x: "eb_assist (co_backend co) r token w = (x, e, w')" using prod_cases3 by blast
  then have "cn_tokens (ew_cancellations w') = cn_tokens (ew_cancellations w)"
    using assms unfolding keeps_registrations_def by (metis snd_conv)
  with x show ?thesis
    by (auto simp: semantic_assist_def assist_result_def Let_def
        split: option.split sum.split enhancement_error.split)
qed

lemma registered_registrations:
  "keeps_registrations (co_backend co) \<Longrightarrow>
   cn_tokens (ew_cancellations (fst (registered_handle co q t token w))) = cn_tokens (ew_cancellations w)"
  by (simp add: registered_handle_def Let_def rerank_registrations assist_registrations
      split: sum.split admission_error.split request_command.split)

lemma drop_registration_simps [simp]:
  "ew_cells (drop_registration rid token w) = ew_cells w"
  "cn_tokens (ew_cancellations (drop_registration rid token w)) = fmdrop rid (cn_tokens (ew_cancellations w))"
  "is_cancelled (ew_cancellations (drop_registration rid token w)) token"
  by (simp_all add: drop_registration_def is_cancelled_def cancel_token_def finish_request_def)

section \<open>A concrete provider\<close>

definition reversing_backend :: enhancement_backend where
  "reversing_backend = \<lparr>eb_provider_id = lit ''reverse'', eb_locality = Local,
     eb_rerank = (\<lambda>r token w. (Some (Inr \<lparr>ro_candidates = rev (rr_candidates r), ro_adopted = True,
        ro_metrics = baseline_metrics CandidateRerank (lit ''reverse'') Local 2 100\<rparr>), 5, w)),
     eb_assist = (\<lambda>r token w. (None, 0, w))\<rparr>"

definition demo_coordinator :: coordinator where
  "demo_coordinator = \<lparr>co_backend = reversing_backend, co_policy = LocalQualityOnly\<rparr>"

definition demo_world :: enhancement_world where
  "demo_world = \<lparr>ew_cells = (\<lambda>_. new_cell 1), ew_cancellations = no_cancellations\<rparr>"

definition demo_token :: "field_class \<Rightarrow> generation_token" where
  "demo_token fc = from_shared 7 1 (ew_cells demo_world) 0 fc"

definition demo_rerank_request :: request_envelope where
  "demo_rerank_request = \<lparr>rq_version = PROTOCOL_VERSION, rq_request_id = 9,
     rq_command = RerankCandidatesCmd \<lparr>rr_session_id = 7, rr_generation = 1,
       rr_candidates = demo_candidates, rr_context_before = [], rr_context_after = [],
       rr_policy_version = lit ''v1'', rr_deadline_ms = 100, rr_baseline_latency_micros = 10\<rparr>\<rparr>"

lemma demo_request_valid: "validate_request demo_rerank_request = Inr ()"
  by (simp add: demo_rerank_request_def validate_request_def validate_rerank_request_def
      demo_candidates_def candidate_list_accepts bounded_candidates_def total_bytes_def
      candidate_bytes_def validate_candidate_def validate_text_iff validate_text_allow_empty_iff
      validate_deadline_iff limit_defs utf8_len_def is_control_def lit_def)

lemma demo_admits:
  "\<not> is_secure fc \<Longrightarrow> consults demo_coordinator (demo_token fc) 0 demo_world"
  by (simp add: consults_def demo_coordinator_def demo_token_def from_shared_def is_current_def
      demo_world_def new_cell_def is_cancelled_def no_cancellations_def field_policy_def
      reversing_backend_def)

lemma demo_output_valid:
  "valid_rerank_output demo_candidates \<lparr>ro_candidates = rev demo_candidates, ro_adopted = True,
     ro_metrics = baseline_metrics CandidateRerank (lit ''reverse'') Local 2 100\<rparr>"
  by (simp add: valid_rerank_output_def is_ok_unit_iff permutation_accepts demo_candidates_def
      validate_candidate_def validate_text_iff limit_defs utf8_len_def is_control_def)

lemma demo_answer:
  "snd (enhancement_handle demo_coordinator demo_rerank_request (demo_token Regular) 0 demo_world) =
   applied_rerank demo_coordinator 9 (demo_token Regular)
     (case rq_command demo_rerank_request of RerankCandidatesCmd r \<Rightarrow> r)
     \<lparr>ro_candidates = rev demo_candidates, ro_adopted = True,
      ro_metrics = baseline_metrics CandidateRerank (lit ''reverse'') Local 2 100\<rparr> 5"
proof -
  define c where "c = no_cancellations\<lparr>cn_tokens := fmupd 9 0 (cn_tokens no_cancellations)\<rparr>"
  have reg: "register_token (rq_request_id demo_rerank_request) 0 (ew_cancellations demo_world) = Inr c"
    by (simp add: register_token_def demo_world_def no_cancellations_def demo_rerank_request_def c_def)
  show ?thesis
    unfolding handle_registered [OF reg demo_request_valid]
    using demo_output_valid
    by (simp add: registered_handle_def Let_def demo_rerank_request_def admit_def demo_token_def
        from_shared_def is_current_def demo_world_def new_cell_def field_policy_def is_secure_def c_def
        is_cancelled_def no_cancellations_def demo_coordinator_def reversing_backend_def rerank_def
        rerank_result_def demo_candidates_def split: prod.split)
qed

section \<open>Properties\<close>

text \<open>
  Whatever the provider does, whatever happens while it runs and whatever the request was,
  the enhancement executor's response is valid for the wire.
\<close>

theorem enhancement_answers_valid:
  "validate_response (snd (enhancement_handle co q t token w)) = Inr ()"
  by (rule handle_valid)

text \<open>
  C32. A rerank answer never changes the candidate set: its baseline is the request's candidate
  list, the AI list is a permutation of it, and unless the provider's result was applied the AI
  list is the baseline in its order and nothing is adopted.
\<close>

theorem enhancement_only_reorders:
  assumes "rp_outcome (snd (enhancement_handle co q t token w)) = Success (RerankCandidatesResp r)"
  shows "\<exists>req. rq_command q = RerankCandidatesCmd req \<and> cr_baseline r = rr_candidates req \<and>
    mset (cr_ai r) = mset (rr_candidates req) \<and>
    (cr_status r \<noteq> ES_Applied \<longrightarrow> cr_ai r = rr_candidates req \<and> \<not> cr_adopted r)"
proof -
  have "reorders (rq_command q) (snd (enhancement_handle co q t token w))"
  proof (cases rule: handle_cases [of co q t token w])
    case (registered c)
    then show ?thesis
      using registered_reorders [of q co t token] handle_registered [OF registered]
      by (simp add: case_prod_unfold Let_def)
  qed simp
  with assms show ?thesis by (simp add: reorders_def)
qed

theorem enhancement_only_reorders_witness:
  "\<exists>r. rp_outcome (snd (enhancement_handle demo_coordinator demo_rerank_request (demo_token Regular) 0 demo_world))
      = Success (RerankCandidatesResp r) \<and> cr_ai r = rev demo_candidates \<and> mset (cr_ai r) = mset demo_candidates"
proof -
  obtain r where r: "rp_outcome (snd (enhancement_handle demo_coordinator demo_rerank_request
      (demo_token Regular) 0 demo_world)) = Success (RerankCandidatesResp r)" "cr_ai r = rev demo_candidates"
    unfolding demo_answer by (simp add: applied_rerank_def Let_def success_def)
  from enhancement_only_reorders [OF r(1)] r show ?thesis
    by (auto simp: demo_rerank_request_def)
qed



text \<open>
  A provider that must not be asked is not asked: for a secure field, a stale or cancelled
  request, a disabled policy or a provider that is not local, the answer and the world after it
  do not depend on what the provider would do.
\<close>

theorem provider_not_consulted:
  assumes "\<not> consults co t token w"
    and "eb_provider_id b = eb_provider_id (co_backend co)" "eb_locality b = eb_locality (co_backend co)"
  shows "enhancement_handle (co\<lparr>co_backend := b\<rparr>) q t token w = enhancement_handle co q t token w"
proof -
  let ?co = "co\<lparr>co_backend := b\<rparr>"
  have "provider_id ?co = provider_id co" using assms(2) by (simp add: provider_id_def)
  then have pol: "fallback_provider ?co st rs = fallback_provider co st rs" for st rs
    by (simp add: fallback_provider_def)
  have "registered_handle ?co q t token (w\<lparr>ew_cancellations := c\<rparr>)
      = registered_handle co q t token (w\<lparr>ew_cancellations := c\<rparr>)"
    if "is_cancelled c token = is_cancelled (ew_cancellations w) token" for c
  proof (cases rule: admit_cases [of t "rq_command q" "w\<lparr>ew_cancellations := c\<rparr>"])
    case (rerank r)
    then show ?thesis
      using assms that enhancement_policy.exhaust [of "co_policy co"]
      by (auto simp: registered_handle_def Let_def consults_def skip_response_def
          cancelled_enhancement_def rerank_fallback_def pol)
  next
    case (assist r)
    then show ?thesis
      using assms that enhancement_policy.exhaust [of "co_policy co"]
      by (auto simp: registered_handle_def Let_def consults_def skip_response_def
          cancelled_enhancement_def semantic_fallback_def pol)
  qed (simp_all add: registered_handle_def Let_def)
  moreover have "is_cancelled c token = is_cancelled (ew_cancellations w) token"
    if "register_token rid token (ew_cancellations w) = Inr c" for rid c
    using that by (auto simp: register_token_Inr_iff is_cancelled_def)
  ultimately show ?thesis
    by (simp add: enhancement_handle_def Let_def split: sum.split)
qed

theorem provider_not_consulted_witness:
  "enhancement_handle (demo_coordinator\<lparr>co_backend := reversing_backend
      \<lparr>eb_rerank := \<lambda>r token w. (None, 0, w)\<rparr>\<rparr>) demo_rerank_request (demo_token Password) 0 demo_world
   = enhancement_handle demo_coordinator demo_rerank_request (demo_token Password) 0 demo_world"
  by (rule provider_not_consulted)
    (simp_all add: consults_def demo_coordinator_def demo_token_def from_shared_def is_secure_def)

text \<open>
  No registration leaks: if the provider leaves the coordinator's registrations alone, they
  are after the request exactly what they were before it, on every path, and a request that was
  registered ends with its own token cancelled, so that a provider still running can stop.
\<close>

theorem enhancement_registration_released:
  assumes "keeps_registrations (co_backend co)"
  shows "cn_tokens (ew_cancellations (fst (enhancement_handle co q t token w))) = cn_tokens (ew_cancellations w) \<and>
    (is_ok (validate_request q) \<and> fmlookup (cn_tokens (ew_cancellations w)) (rq_request_id q) = None \<longrightarrow>
       is_cancelled (ew_cancellations (fst (enhancement_handle co q t token w))) token)"
proof (cases rule: handle_cases [of co q t token w])
  case (refused m code)
  then show ?thesis by auto
next
  case (registered c)
  then show ?thesis
    using registered_registrations [OF assms, of q t token "w\<lparr>ew_cancellations := c\<rparr>"]
      handle_registered [OF registered] finish_registered [OF registered(1)]
    by (simp add: case_prod_unfold Let_def)
qed

theorem enhancement_registration_released_witness:
  "cn_tokens (ew_cancellations (fst (enhancement_handle demo_coordinator demo_rerank_request
     (demo_token Regular) 0 demo_world))) = fmempty"
proof -
  have "keeps_registrations (co_backend demo_coordinator)"
    by (simp add: keeps_registrations_def demo_coordinator_def reversing_backend_def)
  from enhancement_registration_released [OF this, of demo_rerank_request "demo_token Regular" 0 demo_world]
  show ?thesis by (simp add: demo_world_def no_cancellations_def)
qed

end
