(* ===== verification/Queue_Correct.thy ===== *)
theory Queue_Correct
  imports Queue Enhancement_Correct Session_Correct
begin

text \<open>
  What the queue promises: it is bounded, it never gets stuck while a job waits, its workers
  finish everything in a bounded number of steps, and a session has one live request as long as
  request ids are not reused; and where the promises end.
\<close>

section \<open>Progress\<close>

text \<open>A worker that will look at the queue by itself.\<close>

definition awake :: "'n notify_ops \<Rightarrow> 'n pool \<Rightarrow> nat \<Rightarrow> bool" where
  "awake nt P i \<longleftrightarrow>
     (case po_workers P i of
        Polling \<Rightarrow> True | Parking \<Rightarrow> False | Parked \<Rightarrow> i \<notin> nt_waiters nt (po_notify P)
      | Handling _ \<Rightarrow> True | Finishing _ _ \<Rightarrow> True | Stopped \<Rightarrow> False)"

definition pool_inv :: "'n notify_ops \<Rightarrow> nat \<Rightarrow> nat \<Rightarrow> 'n pool \<Rightarrow> bool" where
  "pool_inv nt capacity workers P \<longleftrightarrow>
     length (qs_jobs (po_queue P)) \<le> capacity \<and>
     nt_waiters nt (po_notify P) \<subseteq> {i. i < workers \<and> po_workers P i = Parked} \<and>
     (nt_permit nt (po_notify P) \<longrightarrow> nt_waiters nt (po_notify P) = {}) \<and>
     (qs_jobs (po_queue P) \<noteq> [] \<longrightarrow> nt_permit nt (po_notify P) \<or> (\<exists>i < workers. awake nt P i)) \<and>
     (\<forall>i. po_workers P i = Stopped \<longrightarrow> qs_closed (po_queue P) \<and> qs_jobs (po_queue P) = [])"

lemma pool_invD:
  assumes "pool_inv nt capacity workers P"
  shows "length (qs_jobs (po_queue P)) \<le> capacity"
    "i \<in> nt_waiters nt (po_notify P) \<Longrightarrow> i < workers \<and> po_workers P i = Parked"
    "nt_permit nt (po_notify P) \<Longrightarrow> nt_waiters nt (po_notify P) = {}"
    "qs_jobs (po_queue P) \<noteq> [] \<Longrightarrow> nt_permit nt (po_notify P) \<or> (\<exists>i < workers. awake nt P i)"
    "po_workers P i = Stopped \<Longrightarrow> qs_closed (po_queue P) \<and> qs_jobs (po_queue P) = []"
  using assms by (auto simp: pool_inv_def)

lemma pool_invI:
  assumes "length (qs_jobs (po_queue P)) \<le> capacity"
    "\<And>i. i \<in> nt_waiters nt (po_notify P) \<Longrightarrow> i < workers \<and> po_workers P i = Parked"
    "nt_permit nt (po_notify P) \<Longrightarrow> nt_waiters nt (po_notify P) = {}"
    "qs_jobs (po_queue P) \<noteq> [] \<Longrightarrow> nt_permit nt (po_notify P) \<or> (\<exists>i < workers. awake nt P i)"
    "\<And>i. po_workers P i = Stopped \<Longrightarrow> qs_closed (po_queue P) \<and> qs_jobs (po_queue P) = []"
  shows "pool_inv nt capacity workers P"
  using assms by (auto simp: pool_inv_def)

lemma pop_job_iff:
  "pop_job q = Popped j q' \<longleftrightarrow> (\<exists>js. qs_jobs q = j # js \<and> q' = q\<lparr>qs_jobs := js\<rparr>)"
  "pop_job q = PopWait \<longleftrightarrow> qs_jobs q = [] \<and> \<not> qs_closed q"
  "pop_job q = PopStop \<longleftrightarrow> qs_jobs q = [] \<and> qs_closed q"
  by (auto simp: pop_job_def split: list.split)

lemma finish_latest_simps [simp]:
  "qs_jobs (finish_latest s r q) = qs_jobs q" "qs_closed (finish_latest s r q) = qs_closed q"
  by (auto simp: finish_latest_def split: option.split)

lemma supersede_simps:
  "supersede j q flags = (q', flags') \<Longrightarrow> qs_jobs q' = qs_jobs q \<and> qs_closed q' = qs_closed q"
  by (auto simp: supersede_def split: option.splits)

lemma enqueue_Inr:
  assumes "enqueue capacity j q flags = Inr (q', flags')"
  shows "\<not> qs_closed q" "\<not> qs_closed q'" "length (qs_jobs q) < capacity" "qs_jobs q' = qs_jobs q @ [j]"
  using assms supersede_simps [of j q flags]
  by (auto simp: enqueue_def split: if_splits prod.splits)

lemma close_queue_simps:
  "close_queue q flags = (q', flags') \<Longrightarrow> qs_jobs q' = qs_jobs q \<and> qs_closed q'"
  by (auto simp: close_queue_def)

lemma notify_contractD:
  assumes "notify_contract nt"
  shows "nt_waiters nt n = {} \<Longrightarrow> nt_permit nt (nt_one nt n) \<and> nt_waiters nt (nt_one nt n) = {}"
    "nt_waiters nt n \<noteq> {} \<Longrightarrow> nt_permit nt (nt_one nt n) = nt_permit nt n \<and>
        (\<exists>k \<in> nt_waiters nt n. nt_waiters nt (nt_one nt n) = nt_waiters nt n - {k})"
    "nt_permit nt (nt_all nt n) = nt_permit nt n" "nt_waiters nt (nt_all nt n) = {}"
    "\<not> nt_permit nt (nt_enroll nt i n)"
    "nt_waiters nt (nt_enroll nt i n) =
       (if nt_permit nt n then nt_waiters nt n else insert i (nt_waiters nt n))"
  using assms unfolding notify_contract_def by meson+

lemma worker_step_inv:
  assumes "worker_step nt co workers P P'" "notify_contract nt" "pool_inv nt capacity workers P"
  shows "pool_inv nt capacity workers P'"
proof -
  note inv = pool_invD [OF assms(3)]
  have one: "qs_jobs (po_queue P) \<noteq> [] \<Longrightarrow> nt_permit nt (po_notify P) \<or> (\<exists>k < workers. awake nt P k)"
    by (rule inv(4))
  show ?thesis
    using assms(1)
  proof cases
    case (take_job i j q)
    then show ?thesis
      using inv(1-3,5)
      by (intro pool_invI) (auto simp: pop_job_iff awake_def split: if_splits)
  next
    case (look_empty i)
    then show ?thesis
      using inv by (intro pool_invI) (auto simp: pop_job_iff split: if_splits)
  next
    case (park i)
    note enroll = notify_contractD(5,6) [OF assms(2), of i "po_notify P"]
    have i: "i \<notin> nt_waiters nt (po_notify P)" using inv(2) park(3) by auto
    show ?thesis
    proof (rule pool_invI)
      assume "qs_jobs (po_queue P') \<noteq> []"
      then have "nt_permit nt (po_notify P) \<or> (\<exists>k < workers. awake nt P k)" using park inv(4) by simp
      then show "nt_permit nt (po_notify P') \<or> (\<exists>k < workers. awake nt P' k)"
      proof
        assume "nt_permit nt (po_notify P)"
        then have "awake nt P' i" using park i enroll by (simp add: awake_def)
        with park(2) show ?thesis by blast
      next
        assume "\<exists>k < workers. awake nt P k"
        then obtain k where k: "k < workers" "awake nt P k" by blast
        then have "k \<noteq> i" using park(3) by (auto simp: awake_def)
        with k have "awake nt P' k" using park enroll by (auto simp: awake_def split: worker.splits)
        with k show ?thesis by blast
      qed
    qed (use park inv enroll in \<open>auto split: if_splits\<close>)
  next
    case (resume i)
    then show ?thesis
      using inv by (intro pool_invI) (auto simp: awake_def split: if_splits)
  next
    case (answer_job i j resp w flags)
    then show ?thesis
      using inv by (intro pool_invI) (auto simp: awake_def split: if_splits)
  next
    case (skip_job i j)
    then show ?thesis
      using inv by (intro pool_invI) (auto simp: awake_def split: if_splits)
  next
    case (release i session rid)
    then show ?thesis
      using inv by (intro pool_invI) (auto simp: awake_def split: if_splits)
  next
    case (stop_worker i)
    then show ?thesis
      using inv by (intro pool_invI) (auto simp: pop_job_iff split: if_splits)
  qed
qed

lemma client_step_inv:
  assumes "client_step nt capacity ok P P'" "notify_contract nt" "pool_inv nt capacity workers P"
  shows "pool_inv nt capacity workers P'"
  using assms(1)
proof cases
  case (submit j q flags)
  note inv = pool_invD [OF assms(3)] and q = enqueue_Inr [OF submit(3)]
    and one = notify_contractD(1,2) [OF assms(2), of "po_notify P"]
  show ?thesis
  proof (cases "nt_waiters nt (po_notify P) = {}")
    case True
    then show ?thesis using submit inv q one(1) by (intro pool_invI) auto
  next
    case False
    then obtain k where k: "k \<in> nt_waiters nt (po_notify P)"
      "nt_waiters nt (nt_one nt (po_notify P)) = nt_waiters nt (po_notify P) - {k}"
      "nt_permit nt (nt_one nt (po_notify P)) = nt_permit nt (po_notify P)"
      using one(2) by blast
    then have "k < workers" "awake nt P' k" using inv(2) submit by (auto simp: awake_def)
    with k submit inv q show ?thesis by (intro pool_invI) auto
  qed
next
  case (close q flags)
  note inv = pool_invD [OF assms(3)] and all = notify_contractD(3,4) [OF assms(2), of "po_notify P"]
  have "awake nt P' k" if "awake nt P k" for k
    using that close all by (auto simp: awake_def split: worker.splits)
  then show ?thesis
    using close inv all close_queue_simps [OF close(2)] by (intro pool_invI) auto
next
  case (cancel flags)
  then have "awake nt P' k = awake nt P k" for k by (simp add: awake_def split: worker.split)
  then show ?thesis using cancel pool_invD [OF assms(3)] by (intro pool_invI) auto
qed

lemma pool_reachable_inv:
  assumes "pool_reachable nt co capacity workers ok n0 P" "notify_contract nt" "notify_fresh nt n0"
  shows "pool_inv nt capacity workers P"
  using assms(1)
proof induction
  case pool_start
  show ?case using assms(3) by (intro pool_invI) (auto simp: pool_new_def notify_fresh_def)
qed (auto intro: worker_step_inv client_step_inv assms(2))

section \<open>Termination\<close>

text \<open>How much the workers still have to do.\<close>

definition worker_weight :: "'n notify_ops \<Rightarrow> 'n pool \<Rightarrow> nat \<Rightarrow> nat" where
  "worker_weight nt P i =
     (case po_workers P i of
        Polling \<Rightarrow> 2 | Parking \<Rightarrow> 1
      | Parked \<Rightarrow> (if i \<in> nt_waiters nt (po_notify P) then 0 else 3)
      | Handling _ \<Rightarrow> 4 | Finishing _ _ \<Rightarrow> 3 | Stopped \<Rightarrow> 0)"

definition pool_weight :: "'n notify_ops \<Rightarrow> nat \<Rightarrow> 'n pool \<Rightarrow> nat" where
  "pool_weight nt workers P =
     3 * length (qs_jobs (po_queue P)) + (if nt_permit nt (po_notify P) then 3 else 0) +
     (\<Sum>i<workers. worker_weight nt P i)"

lemma sum_change:
  fixes f g :: "nat \<Rightarrow> nat"
  assumes "i < n" "\<And>k. k \<noteq> i \<Longrightarrow> g k = f k" "g i + d = f i + e"
  shows "(\<Sum>k<n. g k) + d = (\<Sum>k<n. f k) + e"
proof -
  have "(\<Sum>k<n. g k) = g i + (\<Sum>k\<in>{..<n} - {i}. g k)" "(\<Sum>k<n. f k) = f i + (\<Sum>k\<in>{..<n} - {i}. f k)"
    using assms(1) by (simp_all add: sum.remove)
  moreover have "(\<Sum>k\<in>{..<n} - {i}. g k) = (\<Sum>k\<in>{..<n} - {i}. f k)"
    by (rule sum.cong) (auto simp: assms(2))
  ultimately show ?thesis using assms(3) by simp
qed

lemma worker_step_weight:
  assumes "worker_step nt co workers P P'" "notify_contract nt" "pool_inv nt capacity workers P"
  shows "pool_weight nt workers P' < pool_weight nt workers P"
  using assms(1)
proof cases
  case (take_job i j q)
  have "(\<Sum>k<workers. worker_weight nt P' k) + 0 = (\<Sum>k<workers. worker_weight nt P k) + 2"
    by (rule sum_change [OF take_job(2)]) (simp_all add: take_job worker_weight_def)
  then show ?thesis using take_job by (auto simp: pool_weight_def pop_job_iff)
next
  case (look_empty i)
  have "(\<Sum>k<workers. worker_weight nt P' k) + 1 = (\<Sum>k<workers. worker_weight nt P k) + 0"
    by (rule sum_change [OF look_empty(2)]) (simp_all add: look_empty worker_weight_def)
  then show ?thesis using look_empty by (simp add: pool_weight_def)
next
  case (park i)
  note enroll = notify_contractD(5,6) [OF assms(2), of i "po_notify P"]
  have i: "i \<notin> nt_waiters nt (po_notify P)" using pool_invD(2) [OF assms(3)] park(3) by auto
  have same: "k \<noteq> i \<Longrightarrow> worker_weight nt P' k = worker_weight nt P k" for k
    using park enroll by (simp add: worker_weight_def split: worker.split)
  show ?thesis
  proof (cases "nt_permit nt (po_notify P)")
    case True
    have "(\<Sum>k<workers. worker_weight nt P' k) + 0 = (\<Sum>k<workers. worker_weight nt P k) + 2"
      by (rule sum_change [OF park(2) same]) (use park True enroll i in \<open>simp_all add: worker_weight_def\<close>)
    then show ?thesis using park True enroll by (simp add: pool_weight_def)
  next
    case False
    have "(\<Sum>k<workers. worker_weight nt P' k) + 1 = (\<Sum>k<workers. worker_weight nt P k) + 0"
      by (rule sum_change [OF park(2) same]) (use park False enroll i in \<open>simp_all add: worker_weight_def\<close>)
    then show ?thesis using park False enroll by (simp add: pool_weight_def)
  qed
next
  case (resume i)
  have "(\<Sum>k<workers. worker_weight nt P' k) + 1 = (\<Sum>k<workers. worker_weight nt P k) + 0"
    by (rule sum_change [OF resume(2)]) (simp_all add: resume worker_weight_def)
  then show ?thesis using resume by (simp add: pool_weight_def)
next
  case (answer_job i j resp w flags)
  have "(\<Sum>k<workers. worker_weight nt P' k) + 1 = (\<Sum>k<workers. worker_weight nt P k) + 0"
    by (rule sum_change [OF answer_job(2)]) (simp_all add: answer_job(1,3) worker_weight_def)
  then show ?thesis using answer_job(1) by (simp add: pool_weight_def)
next
  case (skip_job i j)
  have "(\<Sum>k<workers. worker_weight nt P' k) + 1 = (\<Sum>k<workers. worker_weight nt P k) + 0"
    by (rule sum_change [OF skip_job(2)]) (simp_all add: skip_job worker_weight_def)
  then show ?thesis using skip_job by (simp add: pool_weight_def)
next
  case (release i session rid)
  have "(\<Sum>k<workers. worker_weight nt P' k) + 1 = (\<Sum>k<workers. worker_weight nt P k) + 0"
    by (rule sum_change [OF release(2)]) (simp_all add: release worker_weight_def)
  then show ?thesis using release by (simp add: pool_weight_def)
next
  case (stop_worker i)
  have "(\<Sum>k<workers. worker_weight nt P' k) + 2 = (\<Sum>k<workers. worker_weight nt P k) + 0"
    by (rule sum_change [OF stop_worker(2)]) (simp_all add: stop_worker worker_weight_def)
  then show ?thesis using stop_worker by (simp add: pool_weight_def)
qed

text \<open>A pool on which no worker can move: no job is queued or handled, and each worker sleeps or
  has stopped.\<close>

definition idle :: "'n notify_ops \<Rightarrow> coordinator \<Rightarrow> nat \<Rightarrow> 'n pool \<Rightarrow> bool" where
  "idle nt co workers P \<longleftrightarrow> (\<forall>P'. \<not> worker_step nt co workers P P')"

lemma idle_worker:
  assumes "idle nt co workers P" "i < workers"
  shows "po_workers P i = Stopped \<or> po_workers P i = Parked \<and> i \<in> nt_waiters nt (po_notify P)"
proof (cases "po_workers P i")
  case Polling
  then show ?thesis
    using assms take_job [OF assms(2) Polling] look_empty [OF assms(2) Polling]
      stop_worker [OF assms(2) Polling] by (cases "pop_job (po_queue P)") (auto simp: idle_def)
next
  case Parking
  then show ?thesis using assms park [OF assms(2) Parking] by (auto simp: idle_def)
next
  case Parked
  then show ?thesis using assms resume [OF assms(2) Parked] by (auto simp: idle_def)
next
  case (Handling j)
  then show ?thesis using assms skip_job [OF assms(2) Handling] by (auto simp: idle_def)
next
  case (Finishing session rid)
  then show ?thesis using assms release [OF assms(2) Finishing] by (auto simp: idle_def)
qed simp

lemma idle_empty:
  assumes "idle nt co workers P" "pool_inv nt capacity workers P" "0 < workers"
  shows "qs_jobs (po_queue P) = []"
proof (rule ccontr)
  assume jobs: "qs_jobs (po_queue P) \<noteq> []"
  have w: "po_workers P i = Parked \<and> i \<in> nt_waiters nt (po_notify P)" if "i < workers" for i
    using idle_worker [OF assms(1) that] pool_invD(5) [OF assms(2), of i] jobs by auto
  then have "\<not> awake nt P i" if "i < workers" for i using that by (simp add: awake_def)
  moreover have "\<not> nt_permit nt (po_notify P)"
    using w [OF assms(3)] pool_invD(3) [OF assms(2)] by auto
  ultimately show False using pool_invD(4) [OF assms(2) jobs] by blast
qed

inductive worker_run :: "'n notify_ops \<Rightarrow> coordinator \<Rightarrow> nat \<Rightarrow> nat \<Rightarrow> 'n pool \<Rightarrow> 'n pool \<Rightarrow> bool"
  for nt :: "'n notify_ops" and co :: coordinator and workers :: nat where
  worker_none: "worker_run nt co workers 0 P P"
| worker_more: "worker_step nt co workers P P' \<Longrightarrow> worker_run nt co workers n P' P'' \<Longrightarrow>
    worker_run nt co workers (Suc n) P P''"

lemma worker_run_bound:
  "worker_run nt co workers n P P' \<Longrightarrow> notify_contract nt \<Longrightarrow> pool_inv nt capacity workers P \<Longrightarrow>
   n + pool_weight nt workers P' \<le> pool_weight nt workers P \<and> pool_inv nt capacity workers P'"
proof (induction rule: worker_run.induct)
  case (worker_more P P' n P'')
  then show ?case
    using worker_step_weight [of nt co workers P P' capacity] worker_step_inv [of nt co workers P P' capacity]
    by fastforce
qed simp

lemma worker_run_exists:
  assumes "notify_contract nt" "pool_inv nt capacity workers P"
  shows "\<exists>n P'. worker_run nt co workers n P P' \<and> idle nt co workers P'"
  using assms(2)
proof (induction "pool_weight nt workers P" arbitrary: P rule: less_induct)
  case less
  show ?case
  proof (cases "idle nt co workers P")
    case True
    then show ?thesis using worker_none by blast
  next
    case False
    then obtain P' where P': "worker_step nt co workers P P'" by (auto simp: idle_def)
    then obtain n P'' where "worker_run nt co workers n P' P''" "idle nt co workers P''"
      using less(1) worker_step_weight [OF P' assms(1) less(2)] worker_step_inv [OF P' assms(1) less(2)]
      by blast
    with P' show ?thesis using worker_more by blast
  qed
qed

section \<open>One live request per session\<close>

definition held_jobs :: "nat \<Rightarrow> 'n pool \<Rightarrow> enhancement_job set" where
  "held_jobs workers P = set (qs_jobs (po_queue P)) \<union> {j. \<exists>i < workers. po_workers P i = Handling j}"

text \<open>The requests a session has in the queue or at a worker, the finished one included.\<close>

fun job_key :: "enhancement_job \<Rightarrow> u64 option \<times> u64" where
  "job_key j = (job_session j, job_request j)"

fun worker_key :: "worker \<Rightarrow> (u64 option \<times> u64) option" where
  "worker_key (Handling j) = Some (job_key j)"
| "worker_key (Finishing session rid) = Some (session, rid)"
| "worker_key _ = None"

definition fresh_request :: "nat \<Rightarrow> 'n pool \<Rightarrow> enhancement_job \<Rightarrow> bool" where
  "fresh_request workers P j \<longleftrightarrow>
     job_key j \<notin> job_key ` set (qs_jobs (po_queue P)) \<and>
     (\<forall>i < workers. worker_key (po_workers P i) \<noteq> Some (job_key j))"

definition keys_inv :: "nat \<Rightarrow> 'n pool \<Rightarrow> bool" where
  "keys_inv workers P \<longleftrightarrow>
     distinct (map job_key (qs_jobs (po_queue P))) \<and>
     (\<forall>i < workers. \<forall>k. worker_key (po_workers P i) = Some k \<longrightarrow>
        k \<notin> job_key ` set (qs_jobs (po_queue P)) \<and>
        (\<forall>j < workers. worker_key (po_workers P j) = Some k \<longrightarrow> j = i))"

definition latest_inv :: "nat \<Rightarrow> 'n pool \<Rightarrow> bool" where
  "latest_inv workers P \<longleftrightarrow>
     (\<forall>j \<in> held_jobs workers P. \<forall>sid. job_session j = Some sid \<longrightarrow>
        po_flags P (ej_cancellation j) \<or>
        fmlookup (qs_latest (po_queue P)) sid = Some (job_request j, ej_cancellation j)) \<and>
     (qs_closed (po_queue P) \<longrightarrow> qs_latest (po_queue P) = fmempty)"

lemma worker_step_keys:
  assumes "worker_step nt co workers P P'" "keys_inv workers P"
  shows "keys_inv workers P'"
  using assms(1)
proof cases
  case (take_job i j q)
  then show ?thesis using assms(2)
    by (auto simp: keys_inv_def pop_job_iff split: if_splits)
next
  case (answer_job i j resp w flags)
  then show ?thesis using assms(2)
    by (auto simp: keys_inv_def split: if_splits)
next
  case (skip_job i j)
  then show ?thesis using assms(2)
    by (auto simp: keys_inv_def split: if_splits)
qed (use assms(2) in \<open>auto simp: keys_inv_def split: if_splits\<close>)

lemma client_step_keys:
  assumes "client_step nt capacity (fresh_request workers) P P'" "keys_inv workers P"
  shows "keys_inv workers P'"
  using assms(1)
proof cases
  case (submit j q flags)
  then show ?thesis
    using assms(2) enqueue_Inr(4) [OF submit(3)] by (auto simp: keys_inv_def fresh_request_def)
next
  case (close q flags)
  then show ?thesis using assms(2) close_queue_simps [OF close(2)] by (simp add: keys_inv_def)
next
  case (cancel flags)
  then show ?thesis using assms(2) by (simp add: keys_inv_def)
qed

lemma latest_mono:
  assumes "latest_inv workers P" "held_jobs workers P' \<subseteq> held_jobs workers P"
    and "\<And>t. po_flags P t \<Longrightarrow> po_flags P' t" "qs_latest (po_queue P') = qs_latest (po_queue P)"
    and "qs_closed (po_queue P') = qs_closed (po_queue P)"
  shows "latest_inv workers P'"
  using assms unfolding latest_inv_def by (metis subsetD)

lemma worker_step_latest:
  assumes "worker_step nt co workers P P'" "latest_inv workers P" "keys_inv workers P"
  shows "latest_inv workers P'"
  using assms(1)
proof cases
  case (release i session rid)
  have sub: "held_jobs workers P' \<subseteq> held_jobs workers P"
    using release by (auto simp: held_jobs_def split: if_splits)
  have "po_flags P' (ej_cancellation j) \<or>
      fmlookup (qs_latest (po_queue P')) sid = Some (job_request j, ej_cancellation j)"
    if j: "j \<in> held_jobs workers P'" "job_session j = Some sid" for j sid
  proof -
    have "po_flags P (ej_cancellation j) \<or>
        fmlookup (qs_latest (po_queue P)) sid = Some (job_request j, ej_cancellation j)"
      using assms(2) j sub by (auto simp: latest_inv_def)
    moreover have "(Some sid, job_request j) \<noteq> (session, rid)"
    proof
      assume "(Some sid, job_request j) = (session, rid)"
      then have k: "worker_key (po_workers P i) = Some (job_key j)" using release j(2) by simp
      show False
      proof (cases "j \<in> set (qs_jobs (po_queue P))")
        case True
        then show ?thesis using assms(3) k release(2) unfolding keys_inv_def by blast
      next
        case False
        then obtain l where l: "l < workers" "po_workers P' l = Handling j"
          using j(1) release by (auto simp: held_jobs_def)
        then have "l \<noteq> i" "worker_key (po_workers P l) = Some (job_key j)"
          using release by (auto split: if_splits)
        then show ?thesis using assms(3) k l(1) release(2) unfolding keys_inv_def by blast
      qed
    qed
    ultimately show ?thesis
      using release by (auto simp: finish_latest_def split: option.splits)
  qed
  moreover have "qs_closed (po_queue P') \<longrightarrow> qs_latest (po_queue P') = fmempty"
    using assms(2) release by (auto simp: latest_inv_def finish_latest_def split: option.splits)
  ultimately show ?thesis by (simp add: latest_inv_def)
next
  case (take_job i j q)
  then have "held_jobs workers P' \<subseteq> held_jobs workers P"
    by (auto simp: held_jobs_def pop_job_iff split: if_splits)
  with take_job show ?thesis
    by (intro latest_mono [OF assms(2)]) (auto simp: pop_job_iff)
next
  case (answer_job i j resp w flags)
  then have "held_jobs workers P' \<subseteq> held_jobs workers P"
    by (auto simp: held_jobs_def split: if_splits)
  with answer_job show ?thesis by (intro latest_mono [OF assms(2)]) auto
qed (use assms(2) in \<open>auto simp: latest_inv_def held_jobs_def split: if_splits\<close>)

lemma client_step_latest:
  assumes "client_step nt capacity ok P P'" "latest_inv workers P"
  shows "latest_inv workers P'"
  using assms(1)
proof cases
  case (submit j q flags)
  note q = enqueue_Inr [OF submit(3)]
  have held: "held_jobs workers P' = insert j (held_jobs workers P)"
    using submit q by (auto simp: held_jobs_def)
  obtain q0 where q0: "supersede j (po_queue P) (po_flags P) = (q0, flags)" "q = q0\<lparr>qs_jobs := qs_jobs q0 @ [j]\<rparr>"
    using submit(3) by (auto simp: enqueue_def split: if_splits prod.splits)
  have "flags (ej_cancellation x) \<or> fmlookup (qs_latest q) sid = Some (job_request x, ej_cancellation x)"
    if x: "x \<in> insert j (held_jobs workers P)" "job_session x = Some sid" for x sid
  proof (cases "x = j")
    case True
    then show ?thesis using q0 x(2) by (auto simp: supersede_def split: option.splits)
  next
    case False
    then have "po_flags P (ej_cancellation x) \<or>
        fmlookup (qs_latest (po_queue P)) sid = Some (job_request x, ej_cancellation x)"
      using x assms(2) by (auto simp: latest_inv_def)
    then show ?thesis using q0 by (auto simp: supersede_def split: option.splits if_splits)
  qed
  then show ?thesis using submit q held by (auto simp: latest_inv_def)
next
  case (close q flags)
  have dead: "flags (ej_cancellation x)" if "x \<in> held_jobs workers P" "job_session x = Some sid" for x sid
  proof -
    have "po_flags P (ej_cancellation x) \<or>
        fmlookup (qs_latest (po_queue P)) sid = Some (job_request x, ej_cancellation x)"
      using that assms(2) by (auto simp: latest_inv_def)
    then show ?thesis
    proof
      assume "fmlookup (qs_latest (po_queue P)) sid = Some (job_request x, ej_cancellation x)"
      then have "(job_request x, ej_cancellation x) |\<in>| fmran (qs_latest (po_queue P))" by (rule fmranI)
      then have "ej_cancellation x |\<in>| snd |`| fmran (qs_latest (po_queue P))" by (rule rev_fimage_eqI) simp
      then show ?thesis using close(2) by (auto simp: close_queue_def)
    qed (use close(2) in \<open>auto simp: close_queue_def\<close>)
  qed
  have "held_jobs workers P' = held_jobs workers P" "po_flags P' = flags" "qs_latest (po_queue P') = fmempty"
    using close by (auto simp: held_jobs_def close_queue_def)
  with dead show ?thesis by (simp add: latest_inv_def)
next
  case (cancel flags)
  then show ?thesis by (intro latest_mono [OF assms(2)]) (auto simp: held_jobs_def)
qed

lemma careful_inv:
  assumes "pool_reachable nt co capacity workers (fresh_request workers) n0 P"
  shows "keys_inv workers P \<and> latest_inv workers P"
  using assms
proof induction
  case pool_start
  show ?case by (auto simp: pool_new_def keys_inv_def latest_inv_def held_jobs_def)
qed (auto intro: worker_step_keys worker_step_latest client_step_keys client_step_latest)

section \<open>Replies and submissions\<close>

lemma replies_valid:
  "pool_reachable nt co capacity workers ok n0 P \<Longrightarrow>
   \<forall>(ch, resp) \<in> set (po_replies P). validate_response resp = Inr ()"
proof (induction rule: pool_reachable.induct)
  case (pool_work P P')
  from pool_work(2) show ?case
  proof cases
    case (answer_job i j resp w flags)
    then show ?thesis using pool_work(3) handle_valid by auto
  qed (use pool_work(3) in auto)
next
  case (pool_client P P')
  from pool_client(2) show ?case by cases (use pool_client(3) in auto)
qed (simp add: pool_new_def)

lemma begin_submission_Inr:
  assumes "begin_submission s q = Inr t"
  shows "validate_request q = Inr ()" "is_enhancement (rq_command q)"
    "\<exists>sid. command_session_id (rq_command q) = Some sid \<and> enhancement_token s sid = Some t \<and> gt_session_id t = sid"
  using assms
  by (auto simp: begin_submission_def Let_def enhancement_token_def entry_token_def from_shared_def
      split: sum.splits if_splits option.splits)

lemma overflow_valid:
  assumes "begin_submission s q = Inr t"
  shows "validate_response (overflow_response co (rq_request_id q) t (rq_command q) w) = Inr ()"
proof -
  note b = begin_submission_Inr [OF assms]
  obtain sid where sid: "command_session_id (rq_command q) = Some sid" "gt_session_id t = sid" using b(3) by blast
  show ?thesis
  proof (cases "rq_command q")
    case (RerankCandidatesCmd r)
    then have "rr_session_id r = gt_session_id t" using sid by simp
    from skip_valid(1) [OF ready_of_valid(1) [OF b(1) RerankCandidatesCmd this]] RerankCandidatesCmd
    show ?thesis by (simp add: overflow_response_def fallback_without_provider_def)
  next
    case (SemanticAssistCmd r)
    then have "sa_session_id r = gt_session_id t" using sid by simp
    from skip_valid(2) [OF ready_of_valid(2) [OF b(1) SemanticAssistCmd this]] SemanticAssistCmd
    show ?thesis by (simp add: overflow_response_def fallback_without_provider_def)
  qed (use b(2) in \<open>simp_all add: is_enhancement_def\<close>)
qed

section \<open>A concrete notifier and queue\<close>

definition fifo_notify :: "(bool \<times> nat list) notify_ops" where
  "fifo_notify = \<lparr>
     nt_one = (\<lambda>(p, ws). case ws of [] \<Rightarrow> (True, []) | k # ks \<Rightarrow> (p, removeAll k ks)),
     nt_all = (\<lambda>(p, ws). (p, [])),
     nt_enroll = (\<lambda>i (p, ws). if p then (False, ws) else (False, ws @ [i])),
     nt_permit = fst, nt_waiters = (\<lambda>(p, ws). set ws)\<rparr>"

lemma fifo_contract: "notify_contract fifo_notify" "notify_fresh fifo_notify (False, [])"
  by (auto simp: notify_contract_def notify_fresh_def fifo_notify_def split: list.split)

definition demo_job :: "u64 \<Rightarrow> nat \<Rightarrow> enhancement_job" where
  "demo_job rid token = \<lparr>ej_envelope = demo_rerank_request\<lparr>rq_request_id := rid\<rparr>,
     ej_token = demo_token Regular, ej_cancellation = token, ej_reply = token\<rparr>"

lemma demo_job_simps [simp]:
  "job_session (demo_job rid token) = Some 7" "job_request (demo_job rid token) = rid"
  "ej_cancellation (demo_job rid token) = token"
  by (simp_all add: demo_job_def job_session_def job_request_def demo_rerank_request_def)

lemma pool_new_simps [simp]:
  "po_queue (pool_new n) = \<lparr>qs_jobs = [], qs_latest = fmempty, qs_closed = False\<rparr>"
  "po_flags (pool_new n) = (\<lambda>_. False)" "po_workers (pool_new n) = (\<lambda>_. Polling)" "po_notify (pool_new n) = n"
  by (simp_all add: pool_new_def)

text \<open>One job submitted and nothing else done.\<close>

definition one_job :: "'n notify_ops \<Rightarrow> 'n \<Rightarrow> 'n pool" where
  "one_job nt n0 =
     set_notify (nt_one nt n0) (set_flags (\<lambda>_. False) (set_queue \<lparr>qs_jobs = [demo_job 1 0],
       qs_latest = fmupd 7 (1, 0) fmempty, qs_closed = False\<rparr> (pool_new n0)))"

lemma one_job_step:
  assumes "0 < capacity" "ok (pool_new n0) (demo_job 1 0)"
  shows "client_step nt capacity ok (pool_new n0) (one_job nt n0)"
proof -
  have "enqueue capacity (demo_job 1 0) (po_queue (pool_new n0)) (po_flags (pool_new n0)) =
      Inr (\<lparr>qs_jobs = [demo_job 1 0], qs_latest = fmupd 7 (1, 0) fmempty, qs_closed = False\<rparr>, \<lambda>_. False)"
    using assms(1) by (simp add: enqueue_def supersede_def)
  from submit [where nt = nt and ok = ok, OF assms(2) this] show ?thesis by (simp add: one_job_def)
qed

lemma one_job_reachable:
  assumes "0 < capacity" "ok (pool_new n0) (demo_job 1 0)"
  shows "pool_reachable nt co capacity workers ok n0 (one_job nt n0)"
  by (rule pool_client [OF pool_start])
    (rule one_job_step [where ok = ok and capacity = capacity and nt = nt and ?n0.0 = n0, OF assms])

text \<open>
  The same request id used again while its first job is at a worker: the worker's release takes
  back the entry of the second job, and a third one does not cancel it.
\<close>

lemma reused_id_run:
  assumes "2 \<le> capacity" "0 < workers"
  shows "\<exists>P. pool_reachable nt co capacity workers (\<lambda>_ _. True) n0 P \<and>
    qs_jobs (po_queue P) = [demo_job 1 1, demo_job 2 2] \<and> \<not> po_flags P 1 \<and> \<not> po_flags P 2"
proof -
  let ?R = "pool_reachable nt co capacity workers (\<lambda>_ _. True) n0"
  let ?q = "\<lambda>js l. \<lparr>qs_jobs = js, qs_latest = l, qs_closed = False\<rparr>"
  define P1 where "P1 = one_job nt n0"
  define P2 where "P2 = set_worker 0 (Handling (demo_job 1 0)) (set_queue (?q [] (fmupd 7 (1, 0) fmempty)) P1)"
  define P3 where "P3 = set_notify (nt_one nt (po_notify P2)) (set_flags ((po_flags P2)(0 := True))
    (set_queue (?q [demo_job 1 1] (fmupd 7 (1, 1) (fmupd 7 (1, 0) fmempty))) P2))"
  define P4 where "P4 = set_worker 0 (Finishing (Some 7) 1) P3"
  define P5 where "P5 = set_worker 0 Polling (set_queue (finish_latest (Some 7) 1 (po_queue P4)) P4)"
  define P6 where "P6 = set_notify (nt_one nt (po_notify P5)) (set_flags (po_flags P5)
    (set_queue (?q [demo_job 1 1, demo_job 2 2] (fmupd 7 (2, 2) fmempty)) P5))"
  have q1: "po_queue P1 = ?q [demo_job 1 0] (fmupd 7 (1, 0) fmempty)" "po_workers P1 = (\<lambda>_. Polling)"
    "po_flags P1 = (\<lambda>_. False)"
    by (simp_all add: P1_def one_job_def)
  have q5: "po_queue P5 = ?q [demo_job 1 1] fmempty" "po_flags P5 = (\<lambda>_. False)(0 := True)"
    by (auto simp: P5_def P4_def P3_def P2_def finish_latest_def q1 intro!: fmap_ext)
  have r1: "?R P1" unfolding P1_def by (rule one_job_reachable) (use assms in simp_all)
  have s1: "worker_step nt co workers P1 P2"
    unfolding P2_def using assms by (intro take_job) (simp_all add: q1 pop_job_iff)
  have s2: "client_step nt capacity (\<lambda>_ _. True) P2 P3"
    unfolding P3_def using assms
    by (intro submit [where j = "demo_job 1 1"]) (simp_all add: P2_def q1 enqueue_def supersede_def)
  have s3: "worker_step nt co workers P3 P4"
    unfolding P4_def using assms skip_job [where nt = nt and co = co and workers = workers and P = P3 and i = 0
        and j = "demo_job 1 0"] by (simp add: P3_def P2_def)
  have s4: "worker_step nt co workers P4 P5"
    unfolding P5_def using assms by (intro release) (simp_all add: P4_def)
  have s5: "client_step nt capacity (\<lambda>_ _. True) P5 P6"
    unfolding P6_def using assms
    by (intro submit [where j = "demo_job 2 2"]) (simp_all add: q5 enqueue_def supersede_def)
  have "?R P6"
    by (rule pool_client [OF pool_work [OF pool_work [OF pool_client [OF pool_work [OF r1 s1] s2] s3] s4] s5])
  moreover have "qs_jobs (po_queue P6) = [demo_job 1 1, demo_job 2 2]" "\<not> po_flags P6 1" "\<not> po_flags P6 2"
    by (simp_all add: P6_def q5)
  ultimately show ?thesis by metis
qed

text \<open>The queue is closed between a worker's look and its call of \<open>notified()\<close>.\<close>

lemma stranded_run:
  assumes "notify_contract nt" "notify_fresh nt n0"
  shows "\<exists>P. pool_reachable nt co capacity 1 ok n0 P \<and> qs_closed (po_queue P) \<and>
    idle nt co 1 P \<and> po_workers P 0 = Parked"
proof -
  define P1 where "P1 = set_worker 0 Parking (pool_new n0)"
  define P2 where "P2 = set_notify (nt_all nt n0) (set_flags (\<lambda>_. False)
    (set_queue \<lparr>qs_jobs = [], qs_latest = fmempty, qs_closed = True\<rparr> P1))"
  define P3 where "P3 = set_worker 0 Parked (set_notify (nt_enroll nt 0 (po_notify P2)) P2)"
  have s1: "worker_step nt co 1 (pool_new n0) P1"
    unfolding P1_def by (rule look_empty) (simp_all add: pop_job_iff)
  have s2: "client_step nt capacity ok P1 P2"
    unfolding P2_def using close [where nt = nt and capacity = capacity and ok = ok and P = P1]
    by (simp add: P1_def close_queue_def)
  have s3: "worker_step nt co 1 P2 P3"
    unfolding P3_def by (rule park) (simp_all add: P2_def P1_def)
  have "pool_reachable nt co capacity 1 ok n0 P3"
    by (rule pool_work [OF pool_client [OF pool_work [OF pool_start s1] s2] s3])
  moreover have w: "nt_waiters nt (po_notify P3) = {0}" "po_workers P3 0 = Parked"
    using assms notify_contractD [OF assms(1)] by (simp_all add: P3_def P2_def notify_fresh_def)
  have "\<not> worker_step nt co 1 P3 P'" for P'
  proof
    assume "worker_step nt co 1 P3 P'"
    then show False by cases (use w in simp_all)
  qed
  then have "idle nt co 1 P3" by (simp add: idle_def)
  moreover have "qs_closed (po_queue P3)" by (simp add: P3_def P2_def)
  ultimately show ?thesis
    using w(2) by (intro exI [of _ P3]) simp
qed

section \<open>Properties\<close>

text \<open>
  C34. The workers' runs end: without new submissions the workers make at most
  \<open>3 * capacity + 4 * workers + 3\<close> steps, and when none can move no job is left in the queue or
  at a worker.
\<close>

theorem queue_drains:
  assumes "pool_reachable nt co capacity workers ok n0 P" "notify_contract nt" "notify_fresh nt n0"
    and "0 < workers" "worker_run nt co workers n P P'"
  shows "n \<le> 3 * capacity + 4 * workers + 3 \<and>
    (idle nt co workers P' \<longrightarrow> qs_jobs (po_queue P') = [] \<and>
       (\<forall>i < workers. po_workers P' i = Stopped \<or> po_workers P' i = Parked))"
proof -
  note inv = pool_reachable_inv [OF assms(1-3)]
  note run = worker_run_bound [OF assms(5,2) inv]
  have "(\<Sum>i<workers. worker_weight nt P i) \<le> (\<Sum>i<workers. 4)"
    by (rule sum_mono) (simp add: worker_weight_def split: worker.split)
  then have "pool_weight nt workers P \<le> 3 * capacity + 4 * workers + 3"
    using pool_invD(1) [OF inv] by (auto simp: pool_weight_def)
  moreover have "qs_jobs (po_queue P') = []" if "idle nt co workers P'"
    by (rule idle_empty [OF that _ assms(4)]) (use run in blast)
  ultimately show ?thesis using run idle_worker [of nt co workers P'] by auto
qed

theorem queue_drains_witness:
  "\<exists>P. worker_run fifo_notify demo_coordinator 1 1 (one_job fifo_notify (False, [])) P \<and>
    (idle fifo_notify demo_coordinator 1 P \<longrightarrow> qs_jobs (po_queue P) = [])"
proof -
  let ?P = "one_job fifo_notify (False, [])"
  let ?P' = "set_worker 0 (Handling (demo_job 1 0)) (set_queue (po_queue ?P\<lparr>qs_jobs := []\<rparr>) ?P)"
  have r: "pool_reachable fifo_notify demo_coordinator 1 1 (\<lambda>_ _. True) (False, []) ?P"
    by (rule one_job_reachable) simp_all
  have "worker_step fifo_notify demo_coordinator 1 ?P ?P'"
    by (intro take_job) (simp_all add: one_job_def pop_job_iff)
  then have run: "worker_run fifo_notify demo_coordinator 1 (Suc 0) ?P ?P'"
    by (rule worker_more [OF _ worker_none])
  from queue_drains [OF r fifo_contract _ run] run show ?thesis by auto
qed

text \<open>
  C35. No wakeup of a waiting job is lost: while a job is queued some worker can move, although
  workers look at the queue, release its lock and only then start to wait.
\<close>

theorem queue_never_stuck:
  assumes "pool_reachable nt co capacity workers ok n0 P" "notify_contract nt" "notify_fresh nt n0"
    and "0 < workers" "qs_jobs (po_queue P) \<noteq> []"
  shows "\<exists>P'. worker_step nt co workers P P'"
  using idle_empty [OF _ pool_reachable_inv [OF assms(1-3)] assms(4)] assms(5) by (auto simp: idle_def)

theorem queue_never_stuck_witness:
  "\<exists>P'. worker_step fifo_notify demo_coordinator 1 (one_job fifo_notify (False, [])) P'"
proof (rule queue_never_stuck)
  show "pool_reachable fifo_notify demo_coordinator 1 1 (\<lambda>_ _. True) (False, []) (one_job fifo_notify (False, []))"
    by (rule one_job_reachable) simp_all
qed (simp_all add: fifo_contract one_job_def)

text \<open>
  C36. As long as clients do not reuse a request id of the same session that is still in flight,
  a session has at most one live request: two jobs of a session in the queue or at workers whose
  tokens are not cancelled are the same request; and a closed queue has none.
\<close>

theorem one_live_request_per_session:
  assumes "pool_reachable nt co capacity workers (fresh_request workers) n0 P"
    and "j \<in> held_jobs workers P" "j' \<in> held_jobs workers P"
    and "job_session j = Some sid" "job_session j' = Some sid"
    and "\<not> po_flags P (ej_cancellation j)" "\<not> po_flags P (ej_cancellation j')"
  shows "job_request j = job_request j' \<and> ej_cancellation j = ej_cancellation j' \<and> \<not> qs_closed (po_queue P)"
proof -
  have inv: "latest_inv workers P" using careful_inv [OF assms(1)] by (rule conjunct2)
  have "fmlookup (qs_latest (po_queue P)) sid = Some (job_request j, ej_cancellation j)"
    "fmlookup (qs_latest (po_queue P)) sid = Some (job_request j', ej_cancellation j')"
    using inv assms(2-7) unfolding latest_inv_def by metis+
  moreover have "qs_closed (po_queue P) \<longrightarrow> qs_latest (po_queue P) = fmempty"
    using inv by (simp add: latest_inv_def)
  ultimately show ?thesis by auto
qed

theorem one_live_request_per_session_witness:
  "\<not> qs_closed (po_queue (one_job fifo_notify (False, [])))"
proof -
  have "pool_reachable fifo_notify demo_coordinator 1 1 (fresh_request 1) (False, []) (one_job fifo_notify (False, []))"
    by (rule one_job_reachable) (simp_all add: fresh_request_def)
  from one_live_request_per_session [OF this, of "demo_job 1 0" "demo_job 1 0" 7] show ?thesis
    by (simp add: held_jobs_def one_job_def)
qed

text \<open>
  That condition is needed: with a reused id a session ends up with two live queued requests,
  neither cancelled, because the release of the first job takes back the second job's entry.
\<close>

theorem reused_id_two_live_requests:
  assumes "2 \<le> capacity" "0 < workers"
  shows "\<exists>P j j'. pool_reachable nt co capacity workers (\<lambda>_ _. True) n0 P \<and>
    j \<in> held_jobs workers P \<and> j' \<in> held_jobs workers P \<and> job_session j = job_session j' \<and>
    job_request j \<noteq> job_request j' \<and> \<not> po_flags P (ej_cancellation j) \<and> \<not> po_flags P (ej_cancellation j')"
proof -
  obtain P where "pool_reachable nt co capacity workers (\<lambda>_ _. True) n0 P"
    "qs_jobs (po_queue P) = [demo_job 1 1, demo_job 2 2]" "\<not> po_flags P 1" "\<not> po_flags P 2"
    using reused_id_run [OF assms, of nt co n0] by (elim exE conjE)
  then show ?thesis
    by (intro exI [of _ P] exI [of _ "demo_job 1 1"] exI [of _ "demo_job 2 2"]) (simp add: held_jobs_def)
qed

theorem reused_id_two_live_requests_witness:
  "\<exists>P j j'. pool_reachable fifo_notify demo_coordinator 2 1 (\<lambda>_ _. True) (False, []) P \<and>
    j \<in> held_jobs 1 P \<and> j' \<in> held_jobs 1 P \<and> job_session j = job_session j' \<and>
    job_request j \<noteq> job_request j' \<and> \<not> po_flags P (ej_cancellation j) \<and> \<not> po_flags P (ej_cancellation j')"
  by (rule reused_id_two_live_requests) simp_all

text \<open>
  Closing can strand a worker: if the queue is closed between a worker's look at it and its
  call of \<open>notified()\<close>, the wakeup of \<open>notify_waiters\<close> is lost and the worker waits for ever,
  whatever the notifier does within its contract.
\<close>

theorem close_can_strand_worker:
  assumes "notify_contract nt" "notify_fresh nt n0"
  shows "\<exists>P. pool_reachable nt co capacity 1 ok n0 P \<and> qs_closed (po_queue P) \<and>
    idle nt co 1 P \<and> po_workers P 0 = Parked"
  using assms by (rule stranded_run)

theorem close_can_strand_worker_witness:
  "\<exists>P. pool_reachable fifo_notify demo_coordinator 4 1 (\<lambda>_ _. True) (False, []) P \<and>
    qs_closed (po_queue P) \<and> idle fifo_notify demo_coordinator 1 P \<and> po_workers P 0 = Parked"
  by (rule close_can_strand_worker [OF fifo_contract])

text \<open>
  Every answer an enhancement request gets is valid for the wire: a refusal before the queue,
  every reply the workers give, and the baseline returned when the queue is full or closed.
\<close>

theorem submission_answers_valid:
  assumes "pool_reachable nt co capacity workers ok n0 P"
  shows "(\<forall>resp. begin_submission s q = Inl resp \<longrightarrow> validate_response resp = Inr ()) \<and>
    (\<forall>ch resp. (ch, resp) \<in> set (po_replies P) \<longrightarrow> validate_response resp = Inr ()) \<and>
    (\<forall>t e. begin_submission s q = Inr t \<longrightarrow> validate_response (finish_submission co q t (Inl e) w) = Inr ())"
proof (intro conjI allI impI)
  fix resp assume "begin_submission s q = Inl resp"
  then show "validate_response resp = Inr ()"
    by (auto simp: begin_submission_def Let_def valid_failures intro!: valid_session_failure msg_ok_lit
        split: sum.splits if_splits option.splits)
next
  fix ch resp assume "(ch, resp) \<in> set (po_replies P)"
  then show "validate_response resp = Inr ()" using replies_valid [OF assms] by auto
next
  fix t e assume "begin_submission s q = Inr t"
  then show "validate_response (finish_submission co q t (Inl e) w) = Inr ()"
    using overflow_valid by (cases e) (auto simp: finish_submission_def intro!: valid_session_failure msg_ok_lit)
qed

theorem submission_answers_valid_witness:
  "\<forall>cfg. \<exists>resp. begin_submission (session_broker_new cfg) demo_rerank_request = Inl resp \<and>
    validate_response resp = Inr ()"
proof
  fix cfg
  have "pool_reachable fifo_notify demo_coordinator 1 1 (\<lambda>_ _. True) (False, []) (one_job fifo_notify (False, []))"
    by (rule one_job_reachable) simp_all
  note valid = submission_answers_valid [OF this, of "session_broker_new cfg" demo_rerank_request]
  have "enhancement_token (session_broker_new cfg) sid = None" for sid
    by (simp add: enhancement_token_def entry_of_def session_broker_new_def)
  then obtain resp where "begin_submission (session_broker_new cfg) demo_rerank_request = Inl resp"
    using demo_request_valid by (auto simp: begin_submission_def Let_def demo_rerank_request_def is_enhancement_def
        split: option.split)
  with valid show "\<exists>resp. begin_submission (session_broker_new cfg) demo_rerank_request = Inl resp \<and>
    validate_response resp = Inr ()"
    by blast
qed

end
