(* ===== verification/Framed_Io.thy ===== *)
theory Framed_Io
  imports Frame
begin

text \<open>
  The two transports of \<open>kanai-broker\<close> under the framing: \<open>FramedIo\<close> over a blocking stream
  and the in-memory \<open>MemoryTransport\<close> (\<open>frame.rs\<close>, and their \<open>Transport\<close> side in
  \<open>transport.rs\<close>). The stream is what its \<open>read\<close> and \<open>write\<close> calls return, in any chunking,
  with interruptions and failures; the loops of the standard library's \<open>read_exact\<close> and
  \<open>write_all\<close> are written out.
\<close>

section \<open>The stream\<close>

datatype io_event = Chunk "u8 list" | Interrupted | IoFailure rstr
datatype read_outcome = Bytes "u8 list" | ReadInterrupted | ReadFailed rstr

text \<open>One \<open>read\<close> into a buffer of \<open>k\<close> bytes; nothing left is the end of the stream.\<close>

fun io_read :: "nat \<Rightarrow> io_event list \<Rightarrow> read_outcome \<times> io_event list" where
  "io_read k [] = (Bytes [], [])"
| "io_read k (Chunk c # es) =
     (Bytes (take k c), if drop k c = [] then es else Chunk (drop k c) # es)"
| "io_read k (Interrupted # es) = (ReadInterrupted, es)"
| "io_read k (IoFailure e # es) = (ReadFailed e, es)"

fun event_weight :: "io_event \<Rightarrow> nat" where
  "event_weight (Chunk c) = Suc (length c)"
| "event_weight _ = 1"

definition io_weight :: "io_event list \<Rightarrow> nat" where
  "io_weight es = sum_list (map event_weight es)"

lemma io_weight_simps [simp]:
  "io_weight [] = 0" "io_weight (e # es) = event_weight e + io_weight es"
  by (simp_all add: io_weight_def)

text \<open>A read that does not meet the end of the stream consumes something of it.\<close>

lemma io_read_weight:
  "io_read k es = (r, es') \<Longrightarrow> 0 < k \<Longrightarrow> r \<noteq> Bytes [] \<Longrightarrow> io_weight es' < io_weight es"
  by (cases "(k, es)" rule: io_read.cases) (auto split: if_splits)

section \<open>Reading\<close>

text \<open>\<open>read_header\<close>, with the bytes read so far; \<open>None\<close> is a clean end before the first byte.\<close>

function read_header_loop ::
  "io_event list \<Rightarrow> u8 list \<Rightarrow> io_event list \<times> (frame_error + u8 list option)" where
  "read_header_loop es header =
     (if length header < FRAME_HEADER_BYTES
      then case io_read (FRAME_HEADER_BYTES - length header) es of
          (Bytes [], es') \<Rightarrow>
            (es', if header = [] then Inr None
                  else Inl (IoError (lit ''unexpected end of frame header'')))
        | (Bytes (b # bs), es') \<Rightarrow> read_header_loop es' (header @ b # bs)
        | (ReadInterrupted, es') \<Rightarrow> read_header_loop es' header
        | (ReadFailed e, es') \<Rightarrow> (es', Inl (IoError e))
      else (es, Inr (Some header)))"
  by pat_completeness auto
termination
  by (relation "measure (\<lambda>(es, header). io_weight es)") (auto dest!: sym [of _ "io_read _ _"] io_read_weight)

declare read_header_loop.simps [simp del]

definition read_header :: "io_event list \<Rightarrow> io_event list \<times> (frame_error + u8 list option)" where
  "read_header es = read_header_loop es []"

text \<open>\<open>Read::read_exact\<close> of the standard library for the \<open>n\<close> bytes still missing.\<close>

function read_exact ::
  "io_event list \<Rightarrow> nat \<Rightarrow> u8 list \<Rightarrow> io_event list \<times> (rstr + u8 list)" where
  "read_exact es n got =
     (if length got < n
      then case io_read (n - length got) es of
          (Bytes [], es') \<Rightarrow> (es', Inl (lit ''failed to fill whole buffer''))
        | (Bytes (b # bs), es') \<Rightarrow> read_exact es' n (got @ b # bs)
        | (ReadInterrupted, es') \<Rightarrow> read_exact es' n got
        | (ReadFailed e, es') \<Rightarrow> (es', Inl e)
      else (es, Inr got))"
  by pat_completeness auto
termination
  by (relation "measure (\<lambda>(es, n, got). io_weight es)") (auto dest!: sym [of _ "io_read _ _"] io_read_weight)

declare read_exact.simps [simp del]

section \<open>Writing\<close>

datatype io_accept = Accept nat | WriteInterrupted | WriteFailed rstr

text \<open>
  \<open>Write::write_all\<close>: what the sink's \<open>write\<close> calls answer, the bytes left and those already
  out. A sink with no answers left takes everything.
\<close>

function write_all ::
  "io_accept list \<Rightarrow> u8 list \<Rightarrow> u8 list \<Rightarrow> io_accept list \<times> u8 list \<times> (rstr + unit)" where
  "write_all [] bytes out = ([], out @ bytes, Inr ())"
| "write_all (a # as) bytes out =
     (if bytes = [] then (a # as, out, Inr ())
      else case a of
          Accept n \<Rightarrow> if n = 0 then (as, out, Inl (lit ''failed to write whole buffer''))
                     else write_all as (drop n bytes) (out @ take n bytes)
        | WriteInterrupted \<Rightarrow> write_all as bytes out
        | WriteFailed e \<Rightarrow> (as, out, Inl e))"
  by pat_completeness auto
termination by (relation "measure (\<lambda>(as, bytes, out). length as)") auto

section \<open>FramedIo\<close>

record framed_io =
  fi_input :: "io_event list"
  fi_sink :: "io_accept list"
  fi_output :: "u8 list"
  fi_max_frame_bytes :: nat

definition framed_new :: "io_event list \<Rightarrow> io_accept list \<Rightarrow> nat \<Rightarrow> frame_error + framed_io" where
  "framed_new input sink max_frame_bytes =
     bind_result (codec_new max_frame_bytes)
       (\<lambda>m. Inr \<lparr>fi_input = input, fi_sink = sink, fi_output = [], fi_max_frame_bytes = m\<rparr>)"

definition send_payload :: "u8 list \<Rightarrow> framed_io \<Rightarrow> framed_io \<times> (frame_error + unit)" where
  "send_payload payload io =
     (case encode (fi_max_frame_bytes io) payload of
        Inl e \<Rightarrow> (io, Inl e)
      | Inr frame \<Rightarrow>
          (case write_all (fi_sink io) frame (fi_output io) of
             (sink, out, r) \<Rightarrow>
               (io\<lparr>fi_sink := sink, fi_output := out\<rparr>, case r of Inl e \<Rightarrow> Inl (IoError e) | Inr u \<Rightarrow> Inr u)))"

definition receive_payload :: "framed_io \<Rightarrow> framed_io \<times> (frame_error + u8 list option)" where
  "receive_payload io =
     (case read_header (fi_input io) of
        (es, Inl e) \<Rightarrow> (io\<lparr>fi_input := es\<rparr>, Inl e)
      | (es, Inr None) \<Rightarrow> (io\<lparr>fi_input := es\<rparr>, Inr None)
      | (es, Inr (Some header)) \<Rightarrow>
          (case parse_payload_len header (fi_max_frame_bytes io) of
             Inl e \<Rightarrow> (io\<lparr>fi_input := es\<rparr>, Inl e)
           | Inr n \<Rightarrow>
               (case read_exact es n [] of
                  (es', Inl e) \<Rightarrow> (io\<lparr>fi_input := es'\<rparr>, Inl (IoError e))
                | (es', Inr payload) \<Rightarrow> (io\<lparr>fi_input := es'\<rparr>, Inr (Some payload)))))"

text \<open>Sending a list of payloads and receiving a number of times; the first error ends both.\<close>

fun send_payloads :: "u8 list list \<Rightarrow> framed_io \<Rightarrow> framed_io \<times> (frame_error + unit)" where
  "send_payloads [] io = (io, Inr ())"
| "send_payloads (p # ps) io =
     (case send_payload p io of (io', Inl e) \<Rightarrow> (io', Inl e) | (io', Inr _) \<Rightarrow> send_payloads ps io')"

fun receive_payloads :: "nat \<Rightarrow> framed_io \<Rightarrow> framed_io \<times> (frame_error + u8 list option list)" where
  "receive_payloads 0 io = (io, Inr [])"
| "receive_payloads (Suc n) io =
     (case receive_payload io of
        (io', Inl e) \<Rightarrow> (io', Inl e)
      | (io', Inr p) \<Rightarrow>
          (case receive_payloads n io' of
             (io'', Inl e) \<Rightarrow> (io'', Inl e)
           | (io'', Inr ps) \<Rightarrow> (io'', Inr (p # ps))))"

section \<open>The in-memory transport\<close>

record memory_transport =
  mt_incoming :: "u8 list list"
  mt_outgoing :: "u8 list list"
  mt_max_frame_bytes :: nat
  mt_max_queued_bytes :: nat
  mt_queued_bytes :: nat
  mt_closed :: bool

definition memory_with_queue_limit :: "nat \<Rightarrow> nat \<Rightarrow> frame_error + memory_transport" where
  "memory_with_queue_limit max_frame max_queued =
     bind_result (codec_new max_frame) (\<lambda>m.
       if max_queued = 0 then Inl (InvalidLimit 0)
       else Inr \<lparr>mt_incoming = [], mt_outgoing = [], mt_max_frame_bytes = m,
                 mt_max_queued_bytes = max_queued, mt_queued_bytes = 0, mt_closed = False\<rparr>)"

text \<open>\<open>new\<close>: \<open>saturating_mul (8)\<close> of the limit, and never below it.\<close>

definition memory_new :: "nat \<Rightarrow> frame_error + memory_transport" where
  "memory_new max_frame =
     bind_result (codec_new max_frame) (\<lambda>m.
       Inr \<lparr>mt_incoming = [], mt_outgoing = [], mt_max_frame_bytes = m,
            mt_max_queued_bytes = max (min (m * 8) (2 ^ 64 - 1)) m, mt_queued_bytes = 0, mt_closed = False\<rparr>)"

definition reserve :: "nat \<Rightarrow> memory_transport \<Rightarrow> frame_error + nat" where
  "reserve n t =
     (if mt_closed t then Inl (IoError (lit ''transport is closed''))
      else if mt_queued_bytes t + n \<ge> 2 ^ 64 then Inl BufferOverflow
      else if mt_queued_bytes t + n > mt_max_queued_bytes t then Inl BufferOverflow
      else Inr (mt_queued_bytes t + n))"

definition enqueue_incoming :: "u8 list \<Rightarrow> memory_transport \<Rightarrow> memory_transport \<times> (frame_error + unit)" where
  "enqueue_incoming frame t =
     (case reserve (length frame) t of
        Inl e \<Rightarrow> (t, Inl e)
      | Inr n \<Rightarrow> (t\<lparr>mt_queued_bytes := n, mt_incoming := mt_incoming t @ [frame]\<rparr>, Inr ()))"

definition push_incoming :: "u8 list \<Rightarrow> memory_transport \<Rightarrow> memory_transport \<times> (frame_error + unit)" where
  "push_incoming payload t =
     (case frame_with_limit payload (mt_max_frame_bytes t) of
        Inl e \<Rightarrow> (t, Inl e) | Inr frame \<Rightarrow> enqueue_incoming frame t)"

definition enqueue_out :: "u8 list \<Rightarrow> memory_transport \<Rightarrow> memory_transport \<times> (frame_error + unit)" where
  "enqueue_out frame t =
     (case reserve (length frame) t of
        Inl e \<Rightarrow> (t, Inl e)
      | Inr n \<Rightarrow> (t\<lparr>mt_queued_bytes := n, mt_outgoing := mt_outgoing t @ [frame]\<rparr>, Inr ()))"

definition pop_incoming :: "memory_transport \<Rightarrow> memory_transport \<times> u8 list option" where
  "pop_incoming t =
     (case mt_incoming t of
        [] \<Rightarrow> (t, None)
      | frame # rest \<Rightarrow>
          (t\<lparr>mt_incoming := rest, mt_queued_bytes := mt_queued_bytes t - length frame\<rparr>, Some frame))"

definition take_outgoing :: "memory_transport \<Rightarrow> memory_transport \<times> u8 list list" where
  "take_outgoing t =
     (t\<lparr>mt_outgoing := [], mt_queued_bytes := mt_queued_bytes t - sum_list (map length (mt_outgoing t))\<rparr>,
      mt_outgoing t)"

definition memory_close :: "memory_transport \<Rightarrow> memory_transport" where
  "memory_close t = t\<lparr>mt_closed := True\<rparr>"

end
