(* ===== verification/Transport.thy ===== *)
theory Transport
  imports Framed_Io Validation
begin

text \<open>
  The transport seam of \<open>kanai-broker/src/transport.rs\<close>: the \<open>Transport\<close> operations of the two
  transports, the wire functions of \<open>protocol.rs\<close>, the authentication handshake and the wrapper
  that lets nothing through before it. The JSON texts of \<open>serde_json\<close> are a parameter.
\<close>

section \<open>Errors and their texts\<close>

definition MAX_AUTH_PROOF_BYTES :: nat where "MAX_AUTH_PROOF_BYTES = 512"
definition AUTH_NONCE_BYTES :: nat where "AUTH_NONCE_BYTES = 32"

datatype transport_error =
    TE_Io rstr
  | TE_Frame frame_error
  | TE_Closed
  | TE_Unauthenticated
  | TE_AuthenticationFailed rstr
  | TE_PeerRejected rstr
  | TE_Protocol rstr

fun frame_error_text :: "frame_error \<Rightarrow> rstr" where
  "frame_error_text EmptyPayload = lit ''frame payload must not be empty''"
| "frame_error_text (PayloadTooLarge n m) =
     lit ''frame payload is '' @ dec n @ lit '' bytes; maximum is '' @ dec m @ lit '' bytes''"
| "frame_error_text (InvalidLimit m) =
     lit ''frame limit must be greater than zero (got '' @ dec m @ lit '')''"
| "frame_error_text InvalidMagic = lit ''invalid frame magic''"
| "frame_error_text ZeroLength = lit ''frame payload length is zero''"
| "frame_error_text LengthOverflow = lit ''frame payload length is not representable on the wire''"
| "frame_error_text TruncatedHeader = lit ''truncated frame header''"
| "frame_error_text TruncatedPayload = lit ''truncated frame payload''"
| "frame_error_text TrailingBytes = lit ''frame input contains trailing bytes''"
| "frame_error_text BufferOverflow = lit ''frame decoder buffer exceeded its bounded limit''"
| "frame_error_text IncompleteFrame = lit ''frame decoder ended with an incomplete frame''"
| "frame_error_text (IoError e) = lit ''frame I/O failed: '' @ e"

fun transport_error_text :: "transport_error \<Rightarrow> rstr" where
  "transport_error_text (TE_Io e) = lit ''transport I/O failed: '' @ e"
| "transport_error_text (TE_Frame e) = lit ''transport frame failed: '' @ frame_error_text e"
| "transport_error_text TE_Closed = lit ''transport is closed''"
| "transport_error_text TE_Unauthenticated = lit ''transport authentication is required''"
| "transport_error_text (TE_AuthenticationFailed e) = lit ''transport authentication failed: '' @ e"
| "transport_error_text (TE_PeerRejected e) = lit ''peer was rejected: '' @ e"
| "transport_error_text (TE_Protocol e) = lit ''transport protocol failed: '' @ e"

section \<open>Requests and responses on the wire\<close>

datatype protocol_error =
  PE_Encode rstr | PE_Decode rstr | PE_Validation validation_error | PE_Frame frame_error

fun protocol_error_text :: "protocol_error \<Rightarrow> rstr" where
  "protocol_error_text (PE_Encode e) = lit ''failed to encode protocol JSON: '' @ e"
| "protocol_error_text (PE_Decode e) = lit ''failed to decode protocol JSON: '' @ e"
| "protocol_error_text (PE_Validation e) = lit ''protocol validation failed: '' @ validation_message e"
| "protocol_error_text (PE_Frame e) = lit ''frame error: '' @ frame_error_text e"

record auth_request =
  ar_version :: u16
  ar_client_id :: rstr
  ar_nonce :: "u8 list"
  ar_proof :: "u8 list"

record auth_response =
  as_version :: u16
  as_accepted :: bool
  as_peer :: "rstr option"
  as_error :: "rstr option"

text \<open>\<open>serde_json\<close> with its error texts.\<close>

record json_codec =
  js_write_request :: "request_envelope \<Rightarrow> rstr + u8 list"
  js_read_request :: "u8 list \<Rightarrow> rstr + request_envelope"
  js_write_response :: "response_envelope \<Rightarrow> rstr + u8 list"
  js_read_response :: "u8 list \<Rightarrow> rstr + response_envelope"
  js_read_auth :: "u8 list \<Rightarrow> rstr + auth_request"
  js_write_auth :: "auth_response \<Rightarrow> rstr + u8 list"

definition map_error :: "('e \<Rightarrow> 'f) \<Rightarrow> 'e + 'a \<Rightarrow> 'f + 'a" where
  "map_error f r = (case r of Inl e \<Rightarrow> Inl (f e) | Inr x \<Rightarrow> Inr x)"

definition encode_request :: "json_codec \<Rightarrow> request_envelope \<Rightarrow> protocol_error + u8 list" where
  "encode_request js q =
     seq (map_error PE_Validation (validate_request q)) (map_error PE_Encode (js_write_request js q))"

definition decode_request :: "json_codec \<Rightarrow> u8 list \<Rightarrow> protocol_error + request_envelope" where
  "decode_request js bytes =
     bind_result (map_error PE_Decode (js_read_request js bytes))
       (\<lambda>q. seq (map_error PE_Validation (validate_request q)) (Inr q))"

definition encode_response :: "json_codec \<Rightarrow> response_envelope \<Rightarrow> protocol_error + u8 list" where
  "encode_response js r =
     seq (map_error PE_Validation (validate_response r)) (map_error PE_Encode (js_write_response js r))"

definition decode_response :: "json_codec \<Rightarrow> u8 list \<Rightarrow> protocol_error + response_envelope" where
  "decode_response js bytes =
     bind_result (map_error PE_Decode (js_read_response js bytes))
       (\<lambda>r. seq (map_error PE_Validation (validate_response r)) (Inr r))"

section \<open>The Transport operations\<close>

record 't transport_ops =
  to_max_frame_bytes :: "'t \<Rightarrow> nat"
  to_send :: "u8 list \<Rightarrow> 't \<Rightarrow> 't \<times> (transport_error + unit)"
  to_receive :: "'t \<Rightarrow> 't \<times> (transport_error + u8 list option)"

definition framed_send :: "u8 list \<Rightarrow> framed_io \<Rightarrow> framed_io \<times> (transport_error + unit)" where
  "framed_send frame io = (case send_payload frame io of (io', r) \<Rightarrow> (io', map_error TE_Frame r))"

definition framed_receive :: "framed_io \<Rightarrow> framed_io \<times> (transport_error + u8 list option)" where
  "framed_receive io =
     (case receive_payload io of
        (io', Inl e) \<Rightarrow> (io', Inl (TE_Frame e))
      | (io', Inr None) \<Rightarrow> (io', Inr None)
      | (io', Inr (Some payload)) \<Rightarrow>
          (io', map_error TE_Frame (map_sum id Some (frame_with_limit payload (fi_max_frame_bytes io')))))"

definition framed_ops :: "framed_io transport_ops" where
  "framed_ops = \<lparr>to_max_frame_bytes = fi_max_frame_bytes, to_send = framed_send, to_receive = framed_receive\<rparr>"

definition memory_send :: "u8 list \<Rightarrow> memory_transport \<Rightarrow> memory_transport \<times> (transport_error + unit)" where
  "memory_send frame t =
     (if mt_closed t then (t, Inl TE_Closed)
      else if length frame > mt_max_frame_bytes t
      then (t, Inl (TE_Frame (PayloadTooLarge (length frame) (mt_max_frame_bytes t))))
      else case enqueue_out frame t of (t', r) \<Rightarrow> (t', map_error TE_Frame r))"

definition memory_receive :: "memory_transport \<Rightarrow> memory_transport \<times> (transport_error + u8 list option)" where
  "memory_receive t =
     (if mt_closed t \<and> mt_incoming t = [] then (t, Inr None)
      else case pop_incoming t of (t', frame) \<Rightarrow> (t', Inr frame))"

definition memory_ops :: "memory_transport transport_ops" where
  "memory_ops = \<lparr>to_max_frame_bytes = mt_max_frame_bytes, to_send = memory_send, to_receive = memory_receive\<rparr>"

text \<open>Sending and receiving the two kinds of envelope over any transport.\<close>

definition send_framed :: "'t transport_ops \<Rightarrow> u8 list \<Rightarrow> 't \<Rightarrow> 't \<times> (transport_error + unit)" where
  "send_framed ops payload t =
     (case frame_with_limit payload (to_max_frame_bytes ops t) of
        Inl e \<Rightarrow> (t, Inl (TE_Frame e)) | Inr frame \<Rightarrow> to_send ops frame t)"

definition protocol_failure :: "protocol_error \<Rightarrow> transport_error" where
  "protocol_failure e = TE_Protocol (protocol_error_text e)"

definition send_request ::
  "json_codec \<Rightarrow> 't transport_ops \<Rightarrow> request_envelope \<Rightarrow> 't \<Rightarrow> 't \<times> (transport_error + unit)" where
  "send_request js ops q t =
     (case encode_request js q of
        Inl e \<Rightarrow> (t, Inl (protocol_failure e)) | Inr payload \<Rightarrow> send_framed ops payload t)"

definition send_response ::
  "json_codec \<Rightarrow> 't transport_ops \<Rightarrow> response_envelope \<Rightarrow> 't \<Rightarrow> 't \<times> (transport_error + unit)" where
  "send_response js ops r t =
     (case encode_response js r of
        Inl e \<Rightarrow> (t, Inl (protocol_failure e)) | Inr payload \<Rightarrow> send_framed ops payload t)"

definition receive_with ::
  "(u8 list \<Rightarrow> protocol_error + 'a) \<Rightarrow> 't transport_ops \<Rightarrow> 't \<Rightarrow> 't \<times> (transport_error + 'a option)" where
  "receive_with decode_payload ops t =
     (case to_receive ops t of
        (t', Inl e) \<Rightarrow> (t', Inl e)
      | (t', Inr None) \<Rightarrow> (t', Inr None)
      | (t', Inr (Some frame)) \<Rightarrow>
          (t', map_error protocol_failure (map_sum id Some (decode_payload frame))))"

definition receive_request ::
  "json_codec \<Rightarrow> 't transport_ops \<Rightarrow> 't \<Rightarrow> 't \<times> (transport_error + request_envelope option)" where
  "receive_request js = receive_with (decode_request js)"

definition receive_response ::
  "json_codec \<Rightarrow> 't transport_ops \<Rightarrow> 't \<Rightarrow> 't \<times> (transport_error + response_envelope option)" where
  "receive_response js = receive_with (decode_response js)"

section \<open>Authentication\<close>

definition validate_client_id :: "rstr \<Rightarrow> transport_error + unit" where
  "validate_client_id client_id =
     seq (reject_if (client_id = []) (TE_AuthenticationFailed (lit ''client id must not be empty'')))
    (seq (reject_if (blen client_id > MAX_CLIENT_ID_BYTES)
            (TE_AuthenticationFailed (lit ''client id is too long'')))
         (reject_if (has_control client_id)
            (TE_AuthenticationFailed (lit ''client id contains a control character''))))"

definition zero_nonce :: "u8 list \<Rightarrow> bool" where
  "zero_nonce nonce \<longleftrightarrow> list_all (\<lambda>b. b = 0) nonce"

definition nonce_failure :: transport_error where
  "nonce_failure = TE_AuthenticationFailed (lit ''auth nonce must not be all zero'')"

definition validate_auth_request :: "auth_request \<Rightarrow> transport_error + unit" where
  "validate_auth_request q =
     seq (reject_if (ar_version q \<noteq> PROTOCOL_VERSION)
            (TE_AuthenticationFailed (lit ''unsupported auth version '' @ decw (ar_version q))))
    (seq (validate_client_id (ar_client_id q))
    (seq (reject_if (zero_nonce (ar_nonce q)) nonce_failure)
         (reject_if (ar_proof q = [] \<or> length (ar_proof q) > MAX_AUTH_PROOF_BYTES)
            (TE_AuthenticationFailed (lit ''auth proof has an invalid length'')))))"

definition auth_accepted :: "rstr \<Rightarrow> auth_response" where
  "auth_accepted peer =
     \<lparr>as_version = PROTOCOL_VERSION, as_accepted = True, as_peer = Some peer, as_error = None\<rparr>"

definition auth_rejected :: "rstr \<Rightarrow> auth_response" where
  "auth_rejected e =
     \<lparr>as_version = PROTOCOL_VERSION, as_accepted = False, as_peer = None, as_error = Some e\<rparr>"

definition validate_auth_response :: "auth_response \<Rightarrow> transport_error + unit" where
  "validate_auth_response r =
     seq (reject_if (as_version r \<noteq> PROTOCOL_VERSION)
            (TE_Protocol (lit ''unsupported auth response version '' @ decw (as_version r))))
    (seq (reject_if (as_accepted r \<and> as_peer r = None)
            (TE_Protocol (lit ''accepted auth response has no peer'')))
    (seq (case as_peer r of None \<Rightarrow> Inr () | Some peer \<Rightarrow> validate_client_id peer)
    (seq (reject_if (\<not> as_accepted r \<and> as_error r = None)
            (TE_Protocol (lit ''rejected auth response has no reason'')))
         (reject_if (case as_error r of None \<Rightarrow> False | Some e \<Rightarrow> blen e > 512 \<or> has_control e)
            (TE_Protocol (lit ''auth response error is not bounded''))))))"

type_synonym authenticator = "auth_request \<Rightarrow> transport_error + rstr"

definition shared_secret_new :: "u8 list \<Rightarrow> transport_error + u8 list" where
  "shared_secret_new bytes =
     (if bytes = [] then Inl (TE_AuthenticationFailed (lit ''shared secret must not be empty''))
      else if length bytes > MAX_AUTH_PROOF_BYTES
      then Inl (TE_AuthenticationFailed
             (lit ''shared secret exceeds '' @ dec MAX_AUTH_PROOF_BYTES @ lit '' bytes''))
      else Inr bytes)"

text \<open>The loop of \<open>constant_time_eq\<close>, on \<open>usize\<close>.\<close>

definition byte_at :: "u8 list \<Rightarrow> nat \<Rightarrow> u8" where
  "byte_at bs i = (if i < length bs then bs ! i else 0)"

fun eq_loop :: "u8 list \<Rightarrow> u8 list \<Rightarrow> nat list \<Rightarrow> usize \<Rightarrow> usize" where
  "eq_loop l r [] difference = difference"
| "eq_loop l r (i # is) difference =
     eq_loop l r is (or difference (ucast (xor (byte_at l i) (byte_at r i))))"

definition constant_time_eq :: "u8 list \<Rightarrow> u8 list \<Rightarrow> bool" where
  "constant_time_eq l r \<longleftrightarrow>
     eq_loop l r [0..<max (length l) (length r)] (xor (of_nat (length l)) (of_nat (length r))) = 0"

definition make_request_with_nonce ::
  "u8 list \<Rightarrow> rstr \<Rightarrow> u8 list \<Rightarrow> transport_error + auth_request" where
  "make_request_with_nonce secret client_id nonce =
     seq (validate_client_id client_id)
    (seq (reject_if (zero_nonce nonce) nonce_failure)
         (Inr \<lparr>ar_version = PROTOCOL_VERSION, ar_client_id = client_id, ar_nonce = nonce, ar_proof = secret\<rparr>))"

definition make_request :: "u8 list \<Rightarrow> rstr \<Rightarrow> transport_error + auth_request" where
  "make_request secret client_id = make_request_with_nonce secret client_id (replicate AUTH_NONCE_BYTES 1)"

definition shared_secret_authenticate :: "u8 list \<Rightarrow> rstr option \<Rightarrow> authenticator" where
  "shared_secret_authenticate secret expected q =
     seq (validate_auth_request q)
    (seq (reject_if (case expected of None \<Rightarrow> False | Some e \<Rightarrow> ar_client_id q \<noteq> e)
            (TE_PeerRejected (lit ''client id is not allowed'')))
    (seq (reject_if (\<not> constant_time_eq secret (ar_proof q))
            (TE_AuthenticationFailed (lit ''auth proof did not match'')))
         (Inr (ar_client_id q))))"

section \<open>The authenticated wrapper\<close>

record 't authenticated =
  at_inner :: 't
  at_peer :: "rstr option"

definition authenticated_new :: "'t \<Rightarrow> 't authenticated" where
  "authenticated_new t = \<lparr>at_inner = t, at_peer = None\<rparr>"

definition accept ::
  "authenticator \<Rightarrow> auth_request \<Rightarrow> 't authenticated \<Rightarrow> 't authenticated \<times> (transport_error + rstr)" where
  "accept auth q t =
     (if at_peer t \<noteq> None
      then (t, Inl (TE_AuthenticationFailed (lit ''transport is already authenticated'')))
      else case validate_auth_request q of
          Inl e \<Rightarrow> (t, Inl e)
        | Inr _ \<Rightarrow>
            (case auth q of Inl e \<Rightarrow> (t, Inl e) | Inr peer \<Rightarrow> (t\<lparr>at_peer := Some peer\<rparr>, Inr peer)))"

definition accept_json ::
  "json_codec \<Rightarrow> authenticator \<Rightarrow> u8 list \<Rightarrow> 't authenticated \<Rightarrow>
   't authenticated \<times> (transport_error + auth_response)" where
  "accept_json js auth payload t =
     (case js_read_auth js payload of
        Inl e \<Rightarrow> (t, Inl (TE_Protocol e))
      | Inr q \<Rightarrow>
          (case accept auth q t of
             (t', Inr peer) \<Rightarrow>
               (t', seq (validate_auth_response (auth_accepted peer)) (Inr (auth_accepted peer)))
           | (t', Inl e) \<Rightarrow> (t', Inr (auth_rejected (transport_error_text e)))))"

definition authenticated_send ::
  "'t transport_ops \<Rightarrow> u8 list \<Rightarrow> 't authenticated \<Rightarrow> 't authenticated \<times> (transport_error + unit)" where
  "authenticated_send ops frame t =
     (if at_peer t = None then (t, Inl TE_Unauthenticated)
      else let m = to_max_frame_bytes ops (at_inner t) in
        if length frame > m then (t, Inl (TE_Frame (PayloadTooLarge (length frame) m)))
        else case to_send ops frame (at_inner t) of (u, r) \<Rightarrow> (t\<lparr>at_inner := u\<rparr>, r))"

definition authenticated_receive ::
  "'t transport_ops \<Rightarrow> 't authenticated \<Rightarrow> 't authenticated \<times> (transport_error + u8 list option)" where
  "authenticated_receive ops t =
     (if at_peer t = None then (t, Inl TE_Unauthenticated)
      else case to_receive ops (at_inner t) of
          (u, Inl e) \<Rightarrow> (t\<lparr>at_inner := u\<rparr>, Inl e)
        | (u, Inr None) \<Rightarrow> (t\<lparr>at_inner := u\<rparr>, Inr None)
        | (u, Inr (Some frame)) \<Rightarrow>
            (t\<lparr>at_inner := u\<rparr>,
             let m = to_max_frame_bytes ops u in
             if length frame > m then Inl (TE_Frame (PayloadTooLarge (length frame) m))
             else Inr (Some frame)))"

definition authenticated_ops :: "'t transport_ops \<Rightarrow> 't authenticated transport_ops" where
  "authenticated_ops ops =
     \<lparr>to_max_frame_bytes = (\<lambda>t. to_max_frame_bytes ops (at_inner t)),
      to_send = authenticated_send ops, to_receive = authenticated_receive ops\<rparr>"

end
