(* ===== verification/Service.thy ===== *)
theory Service
  imports Transport Queue
begin

text \<open>
  One authenticated request on a connection (\<open>kanai-broker/src/service.rs\<close>): the handshake,
  the request, the cancellation of queued work, the dispatch to the session broker or the
  enhancement queue, and the answer. Transport, session backend, authenticator, JSON texts and
  what the queue answers to a submission are parameters.
\<close>

record ('t, 'b) service =
  sv_transport :: 't
  sv_broker :: session_broker
  sv_backend :: 'b
  sv_world :: enhancement_world

text \<open>The code the service is connected to.\<close>

record ('t, 'b) service_env =
  se_json :: json_codec
  se_transport :: "'t transport_ops"
  se_backend :: "'b backend_ops"
  se_authenticator :: authenticator
  se_coordinator :: coordinator
  se_submit :: "request_envelope \<Rightarrow> generation_token \<Rightarrow> enhancement_world \<Rightarrow>
    (queue_error + response_envelope) \<times> enhancement_world"

definition send_auth ::
  "('t, 'b) service_env \<Rightarrow> auth_response \<Rightarrow> 't \<Rightarrow> 't \<times> (transport_error + unit)" where
  "send_auth env r t =
     (case js_write_auth (se_json env) r of
        Inl e \<Rightarrow> (t, Inl (TE_Protocol (lit ''failed to encode response JSON: '' @ e)))
      | Inr payload \<Rightarrow> send_framed (se_transport env) payload t)"

definition auth_failed :: rstr where "auth_failed = lit ''peer authentication failed''"

text \<open>The handshake: the authenticated peer, or why the connection ends.\<close>

definition serve_handshake ::
  "('t, 'b) service_env \<Rightarrow> 't \<Rightarrow> 't \<times> (transport_error + rstr)" where
  "serve_handshake env t =
     (case to_receive (se_transport env) t of
        (t1, Inl e) \<Rightarrow> (t1, Inl e)
      | (t1, Inr None) \<Rightarrow> (t1, Inl TE_Closed)
      | (t1, Inr (Some frame)) \<Rightarrow>
          (case js_read_auth (se_json env) frame of
             Inl e \<Rightarrow> (t1, Inl (TE_Protocol e))
           | Inr q \<Rightarrow>
               (case se_authenticator env q of
                  Inr peer \<Rightarrow>
                    (case send_auth env (auth_accepted peer) t1 of
                       (t2, Inl e) \<Rightarrow> (t2, Inl e) | (t2, Inr _) \<Rightarrow> (t2, Inr peer))
                | Inl _ \<Rightarrow>
                    (case send_auth env (auth_rejected auth_failed) t1 of
                       (t2, Inl e) \<Rightarrow> (t2, Inl e)
                     | (t2, Inr _) \<Rightarrow> (t2, Inl (TE_AuthenticationFailed auth_failed))))))"

definition serve_receive ::
  "('t, 'b) service_env \<Rightarrow> 't \<Rightarrow> 't \<times> (transport_error + request_envelope)" where
  "serve_receive env t =
     (case to_receive (se_transport env) t of
        (t1, Inl e) \<Rightarrow> (t1, Inl e)
      | (t1, Inr None) \<Rightarrow> (t1, Inl TE_Closed)
      | (t1, Inr (Some frame)) \<Rightarrow>
          (t1, map_error protocol_failure (decode_request (se_json env) frame)))"

definition serve_cancel ::
  "session_broker \<Rightarrow> request_envelope \<Rightarrow> rstr \<Rightarrow> enhancement_world \<Rightarrow> enhancement_world" where
  "serve_cancel s q peer w =
     (case rq_command q of
        CancelCmd c \<Rightarrow>
          (case cc_target_request_id c of
             Some target \<Rightarrow>
               if session_owned_by s (cc_session_id c) peer then fst (coordinator_cancel target w) else w
           | None \<Rightarrow> w)
      | _ \<Rightarrow> w)"

definition serve_enhancement ::
  "('t, 'b) service_env \<Rightarrow> request_envelope \<Rightarrow> rstr \<Rightarrow> session_broker \<Rightarrow> enhancement_world \<Rightarrow>
   enhancement_world \<times> response_envelope" where
  "serve_enhancement env q peer s w =
     (case begin_submission_for_peer s q peer of
        Inl resp \<Rightarrow> (w, resp)
      | Inr token \<Rightarrow>
          (case se_submit env q token w of
             (outcome, w') \<Rightarrow> (w', finish_submission (se_coordinator env) q token outcome w')))"

definition serve_dispatch ::
  "('t, 'b) service_env \<Rightarrow> request_envelope \<Rightarrow> rstr \<Rightarrow> ('t, 'b) service \<Rightarrow>
   ('t, 'b) service \<times> response_envelope" where
  "serve_dispatch env q peer sv =
     (let w = serve_cancel (sv_broker sv) q peer (sv_world sv) in
      if is_enhancement (rq_command q)
      then case serve_enhancement env q peer (sv_broker sv) w of
          (w', resp) \<Rightarrow> (sv\<lparr>sv_world := w'\<rparr>, resp)
      else case handle_for_peer (se_backend env) q peer (sv_broker sv, sv_backend sv) of
          ((s, b), resp) \<Rightarrow> (sv\<lparr>sv_broker := s, sv_backend := b, sv_world := w\<rparr>, resp))"

definition serve_authenticated_request ::
  "('t, 'b) service_env \<Rightarrow> ('t, 'b) service \<Rightarrow>
   ('t, 'b) service \<times> (transport_error + response_envelope)" where
  "serve_authenticated_request env sv =
     (case serve_handshake env (sv_transport sv) of
        (t1, Inl e) \<Rightarrow> (sv\<lparr>sv_transport := t1\<rparr>, Inl e)
      | (t1, Inr peer) \<Rightarrow>
          (case serve_receive env t1 of
             (t2, Inl e) \<Rightarrow> (sv\<lparr>sv_transport := t2\<rparr>, Inl e)
           | (t2, Inr q) \<Rightarrow>
               (case serve_dispatch env q peer (sv\<lparr>sv_transport := t2\<rparr>) of
                  (sv', resp) \<Rightarrow>
                    (case send_response (se_json env) (se_transport env) resp (sv_transport sv') of
                       (t3, r) \<Rightarrow> (sv'\<lparr>sv_transport := t3\<rparr>, map_sum id (\<lambda>_. resp) r)))))"

end
