(* ===== verification/Framed_Io_Correct.thy ===== *)
theory Framed_Io_Correct
  imports Framed_Io
begin

text \<open>
  The blocking reader and writer of \<open>Framed_Io\<close>: what is written frame by frame is read back
  frame by frame, whatever the two streams do in between short of failing, and the accounting
  of the in-memory transport is exact.
\<close>

section \<open>Reading a stream that does not fail\<close>

fun stream_of :: "io_event list \<Rightarrow> u8 list" where
  "stream_of [] = []"
| "stream_of (Chunk c # es) = c @ stream_of es"
| "stream_of (_ # es) = stream_of es"

definition steady :: "io_event list \<Rightarrow> bool" where
  "steady es \<longleftrightarrow> (\<forall>e \<in> set es. case e of Chunk c \<Rightarrow> c \<noteq> [] | Interrupted \<Rightarrow> True | IoFailure _ \<Rightarrow> False)"

lemma steady_simps [simp]:
  "steady []" "steady (Chunk c # es) \<longleftrightarrow> c \<noteq> [] \<and> steady es"
  "steady (Interrupted # es) \<longleftrightarrow> steady es" "\<not> steady (IoFailure x # es)"
  by (auto simp: steady_def)

lemma io_read_steady:
  assumes "steady es" "0 < k"
  obtains (ended) "es = []" "io_read k es = (Bytes [], [])"
  | (bytes) b bs es' where "io_read k es = (Bytes (b # bs), es')" "steady es'"
      "stream_of es = (b # bs) @ stream_of es'" "length (b # bs) \<le> k"
  | (again) es' where "io_read k es = (ReadInterrupted, es')" "steady es'" "stream_of es = stream_of es'"
proof (cases "(k, es)" rule: io_read.cases)
  case (2 k' c es')
  then have ne: "take k c \<noteq> []" using assms by simp
  then obtain b bs where b: "take k c = b # bs" by (cases "take k c") simp
  have "io_read k es = (Bytes (b # bs), if drop k c = [] then es' else Chunk (drop k c) # es')"
    using 2 b by simp
  moreover have "stream_of es = (b # bs) @ stream_of (if drop k c = [] then es' else Chunk (drop k c) # es')"
    using 2 append_take_drop_id [of k c] unfolding b by auto
  moreover have "length (b # bs) \<le> k" unfolding b [symmetric] by simp
  ultimately show ?thesis using 2 assms(1) by (intro bytes) simp_all
qed (use assms ended again in auto)

lemma read_exact_stream:
  "steady es \<Longrightarrow> length got \<le> n \<Longrightarrow> n - length got \<le> length (stream_of es) \<Longrightarrow>
   \<exists>es'. read_exact es n got = (es', Inr (got @ take (n - length got) (stream_of es))) \<and> steady es' \<and>
     stream_of es' = drop (n - length got) (stream_of es)"
proof (induction es n got rule: read_exact.induct)
  case (1 es n got)
  show ?case
  proof (cases "length got < n")
    case True
    then have pos: "0 < n - length got" by simp
    show ?thesis
    proof (rule io_read_steady [OF 1(3) pos])
      assume "es = []"
      then show ?thesis using 1 True by simp
    next
      fix b bs es' assume r: "io_read (n - length got) es = (Bytes (b # bs), es')" "steady es'"
        "stream_of es = (b # bs) @ stream_of es'" "length (b # bs) \<le> n - length got"
      have step: "read_exact es n got = read_exact es' n (got @ b # bs)"
        using True r by (simp add: read_exact.simps [of es n got])
      have "\<exists>es''. read_exact es' n (got @ b # bs)
          = (es'', Inr ((got @ b # bs) @ take (n - length (got @ b # bs)) (stream_of es'))) \<and> steady es'' \<and>
          stream_of es'' = drop (n - length (got @ b # bs)) (stream_of es')"
        using True r 1(5) by (intro 1(1) [OF True r(1) [symmetric]]) auto
      then show ?thesis using r(4) unfolding step r(3) by (auto simp: take_Cons' drop_Cons' diff_Suc_less)
    next
      fix es' assume r: "io_read (n - length got) es = (ReadInterrupted, es')" "steady es'"
        "stream_of es = stream_of es'"
      then show ?thesis
        using 1(2) [OF True r(1) [symmetric]] 1(4,5) True by (simp add: read_exact.simps [of es n got])
    qed
  next
    case False
    then show ?thesis using 1 by (simp add: read_exact.simps [of es n got])
  qed
qed

lemma read_header_stream:
  "steady es \<Longrightarrow> length h \<le> FRAME_HEADER_BYTES \<Longrightarrow>
   FRAME_HEADER_BYTES - length h \<le> length (stream_of es) \<Longrightarrow>
   \<exists>es'. read_header_loop es h = (es', Inr (Some (h @ take (FRAME_HEADER_BYTES - length h) (stream_of es)))) \<and>
     steady es' \<and> stream_of es' = drop (FRAME_HEADER_BYTES - length h) (stream_of es)"
proof (induction es h rule: read_header_loop.induct)
  case (1 es h)
  show ?case
  proof (cases "length h < FRAME_HEADER_BYTES")
    case True
    then have pos: "0 < FRAME_HEADER_BYTES - length h" by simp
    show ?thesis
    proof (rule io_read_steady [OF 1(3) pos])
      assume "es = []"
      then show ?thesis using 1 True by simp
    next
      fix b bs es' assume r: "io_read (FRAME_HEADER_BYTES - length h) es = (Bytes (b # bs), es')" "steady es'"
        "stream_of es = (b # bs) @ stream_of es'" "length (b # bs) \<le> FRAME_HEADER_BYTES - length h"
      have step: "read_header_loop es h = read_header_loop es' (h @ b # bs)"
        using True r by (simp add: read_header_loop.simps [of es h])
      have "\<exists>es''. read_header_loop es' (h @ b # bs)
          = (es'', Inr (Some ((h @ b # bs) @ take (FRAME_HEADER_BYTES - length (h @ b # bs)) (stream_of es')))) \<and>
          steady es'' \<and> stream_of es'' = drop (FRAME_HEADER_BYTES - length (h @ b # bs)) (stream_of es')"
        using True r 1(5) by (intro 1(1) [OF True r(1) [symmetric]]) auto
      then show ?thesis using r(4) unfolding step r(3) by (auto simp: take_Cons' drop_Cons' diff_Suc_less)
    next
      fix es' assume r: "io_read (FRAME_HEADER_BYTES - length h) es = (ReadInterrupted, es')" "steady es'"
        "stream_of es = stream_of es'"
      then show ?thesis
        using 1(2) [OF True r(1) [symmetric]] 1(4,5) True by (simp add: read_header_loop.simps [of es h])
    qed
  next
    case False
    then show ?thesis using 1 by (simp add: read_header_loop.simps [of es h])
  qed
qed

lemma read_header_end: "steady es \<Longrightarrow> stream_of es = [] \<Longrightarrow> \<exists>es'. read_header_loop es [] = (es', Inr None) \<and> es' = []"
proof (induction es)
  case (Cons e es)
  then show ?case by (cases e) (simp_all add: read_header_loop.simps [of "_ # _"] frame_consts)
qed (simp add: read_header_loop.simps frame_consts)

text \<open>One frame at the head of the stream is received whole and leaves the rest.\<close>

lemma receive_frame:
  assumes "steady (fi_input io)" "stream_of (fi_input io) = wire p @ rest" "acceptable (fi_max_frame_bytes io) p"
  shows "\<exists>es. receive_payload io = (io\<lparr>fi_input := es\<rparr>, Inr (Some p)) \<and> steady es \<and> stream_of es = rest"
proof -
  have h: "take FRAME_HEADER_BYTES (wire p) = FRAME_MAGIC @ to_be_bytes (of_nat (length p))"
    "drop FRAME_HEADER_BYTES (wire p) = p"
    by (simp_all add: wire_def FRAME_HEADER_BYTES_def)
  obtain es where es: "read_header (fi_input io) = (es, Inr (Some (FRAME_MAGIC @ to_be_bytes (of_nat (length p)))))"
    "steady es" "stream_of es = p @ rest"
    using read_header_stream [OF assms(1), of "[]"] assms(2) h by (auto simp: read_header_def)
  have n: "parse_payload_len (FRAME_MAGIC @ to_be_bytes (of_nat (length p))) (fi_max_frame_bytes io) = Inr (length p)"
    using parse_header [OF assms(3), of "[]"] by simp
  obtain es' where "read_exact es (length p) [] = (es', Inr p)" "steady es'" "stream_of es' = rest"
    using read_exact_stream [OF es(2), of "[]" "length p"] es(3) by auto
  then show ?thesis using es n by (auto simp: receive_payload_def)
qed

lemma receive_end:
  assumes "steady (fi_input io)" "stream_of (fi_input io) = []"
  shows "receive_payload io = (io\<lparr>fi_input := []\<rparr>, Inr None)"
  using read_header_end [OF assms] by (auto simp: receive_payload_def read_header_def)

lemma receive_stream:
  assumes "\<And>p. p \<in> set ps \<Longrightarrow> acceptable (fi_max_frame_bytes io) p"
    and "steady (fi_input io)" "stream_of (fi_input io) = concat (map wire ps)"
  shows "receive_payloads (Suc (length ps)) io = (io\<lparr>fi_input := []\<rparr>, Inr (map Some ps @ [None]))"
  using assms
proof (induction ps arbitrary: io)
  case Nil
  then show ?case by (simp add: receive_end)
next
  case (Cons p ps)
  obtain es where es: "receive_payload io = (io\<lparr>fi_input := es\<rparr>, Inr (Some p))" "steady es"
    "stream_of es = concat (map wire ps)"
    using receive_frame [of io p "concat (map wire ps)"] Cons.prems by auto
  have "receive_payloads (Suc (length ps)) (io\<lparr>fi_input := es\<rparr>)
      = (io\<lparr>fi_input := []\<rparr>, Inr (map Some ps @ [None]))"
    using Cons.IH [of "io\<lparr>fi_input := es\<rparr>"] Cons.prems(1) es by simp
  then show ?case using es(1) by simp
qed

section \<open>Writing to a sink that does not fail\<close>

definition willing :: "io_accept list \<Rightarrow> bool" where
  "willing as \<longleftrightarrow> (\<forall>a \<in> set as. case a of Accept n \<Rightarrow> n \<noteq> 0 | WriteInterrupted \<Rightarrow> True | WriteFailed _ \<Rightarrow> False)"

lemma willing_simps [simp]:
  "willing []" "willing (Accept n # as) \<longleftrightarrow> 0 < n \<and> willing as"
  "willing (WriteInterrupted # as) \<longleftrightarrow> willing as" "\<not> willing (WriteFailed e # as)"
  by (auto simp: willing_def)

lemma write_all_willing:
  "willing as \<Longrightarrow> \<exists>as'. write_all as bytes out = (as', out @ bytes, Inr ()) \<and> willing as'"
proof (induction as arbitrary: bytes out)
  case (Cons a as)
  show ?case
  proof (cases a)
    case (Accept n)
    have "\<exists>as'. write_all as (drop n bytes) (out @ take n bytes)
        = (as', (out @ take n bytes) @ drop n bytes, Inr ()) \<and> willing as'"
      using Cons.prems Accept by (intro Cons.IH) simp
    then show ?thesis using Cons.prems Accept by auto
  qed (use Cons in auto)
qed simp

lemma send_stream:
  assumes "\<And>p. p \<in> set ps \<Longrightarrow> acceptable (fi_max_frame_bytes io) p" "willing (fi_sink io)"
  shows "\<exists>io'. send_payloads ps io = (io', Inr ()) \<and> fi_output io' = fi_output io @ concat (map wire ps) \<and>
    fi_input io' = fi_input io"
  using assms
proof (induction ps arbitrary: io)
  case (Cons p ps)
  have e: "encode (fi_max_frame_bytes io) p = Inr (wire p)"
    using Cons.prems by (simp add: encode_Inr_iff)
  obtain as where as: "write_all (fi_sink io) (wire p) (fi_output io) = (as, fi_output io @ wire p, Inr ())" "willing as"
    using write_all_willing [OF Cons.prems(2)] by blast
  have "send_payload p io = (io\<lparr>fi_sink := as, fi_output := fi_output io @ wire p\<rparr>, Inr ())"
    using e as by (simp add: send_payload_def)
  with Cons.IH [of "io\<lparr>fi_sink := as, fi_output := fi_output io @ wire p\<rparr>"] Cons.prems(1) as(2)
  show ?case by simp
qed simp

section \<open>The in-memory transport\<close>

text \<open>\<open>mt_queued_bytes\<close> is exactly what waits in the two queues, within the configured bound.\<close>

definition queued :: "memory_transport \<Rightarrow> nat" where
  "queued t = sum_list (map length (mt_incoming t)) + sum_list (map length (mt_outgoing t))"

definition memory_inv :: "memory_transport \<Rightarrow> bool" where
  "memory_inv t \<longleftrightarrow> mt_queued_bytes t = queued t \<and> queued t \<le> mt_max_queued_bytes t \<and>
     (\<forall>p \<in> set (mt_incoming t). acceptable (mt_max_frame_bytes t) p)"

lemma memory_new_inv: "memory_new m = Inr t \<Longrightarrow> memory_inv t"
  by (auto simp: memory_new_def bind_result_Inr_iff memory_inv_def queued_def)

lemma memory_with_queue_limit_inv: "memory_with_queue_limit m k = Inr t \<Longrightarrow> memory_inv t"
  by (auto simp: memory_with_queue_limit_def bind_result_Inr_iff memory_inv_def queued_def split: if_splits)

lemma reserve_Inr: "reserve n t = Inr k \<longleftrightarrow>
    \<not> mt_closed t \<and> k = mt_queued_bytes t + n \<and> k < 2 ^ 64 \<and> k \<le> mt_max_queued_bytes t"
  by (auto simp: reserve_def)

lemma enqueue_out_inv: "memory_inv t \<Longrightarrow> memory_inv (fst (enqueue_out p t))"
  by (auto simp: enqueue_out_def memory_inv_def queued_def reserve_Inr split: sum.split)

lemma push_incoming_inv: "memory_inv t \<Longrightarrow> memory_inv (fst (push_incoming p t))"
  by (auto simp: push_incoming_def enqueue_incoming_def memory_inv_def queued_def reserve_Inr
      frame_with_limit_def acceptable_iff split: sum.split)

lemma pop_incoming_inv:
  "memory_inv t \<Longrightarrow> memory_inv (fst (pop_incoming t)) \<and>
   (\<forall>p. snd (pop_incoming t) = Some p \<longrightarrow> acceptable (mt_max_frame_bytes t) p)"
  by (auto simp: pop_incoming_def memory_inv_def queued_def split: list.split)

lemma take_outgoing_inv: "memory_inv t \<Longrightarrow> memory_inv (fst (take_outgoing t))"
  by (simp add: take_outgoing_def memory_inv_def queued_def)

lemma memory_max [simp]:
  "mt_max_frame_bytes (fst (enqueue_out p t)) = mt_max_frame_bytes t"
  "mt_max_frame_bytes (fst (pop_incoming t)) = mt_max_frame_bytes t"
  by (simp_all add: enqueue_out_def pop_incoming_def split: sum.split list.split)

section \<open>Properties\<close>

text \<open>
  C39. Framing survives any stream: payloads sent over a sink that accepts them in pieces of any
  size, and interrupts as often as it likes, are received one for one and in order from a
  stream that delivers the same bytes in any other pieces, and then the end is seen as a clean
  end.
\<close>

theorem framed_io_roundtrip:
  assumes "\<forall>p \<in> set ps. acceptable m p"
    and "willing (fi_sink a)" "fi_max_frame_bytes a = m" "fi_output a = []"
    and "steady (fi_input b)" "fi_max_frame_bytes b = m"
    and "stream_of (fi_input b) = fi_output (fst (send_payloads ps a))"
  shows "snd (send_payloads ps a) = Inr () \<and>
    snd (receive_payloads (Suc (length ps)) b) = Inr (map Some ps @ [None])"
proof -
  obtain a' where "send_payloads ps a = (a', Inr ())" "fi_output a' = concat (map wire ps)"
    using send_stream [of ps a] assms by auto
  then show ?thesis using receive_stream [of ps b] assms by simp
qed

theorem framed_io_roundtrip_witness:
  "snd (receive_payloads 2 \<lparr>fi_input = [Chunk [75, 66], Interrupted, Chunk [70, 49, 0, 0, 0], Chunk [1, 9]],
     fi_sink = [], fi_output = [], fi_max_frame_bytes = 4\<rparr>) = Inr [Some [9], None]"
proof -
  let ?a = "\<lparr>fi_input = [], fi_sink = [Accept 3, WriteInterrupted], fi_output = [], fi_max_frame_bytes = 4\<rparr>"
  let ?b = "\<lparr>fi_input = [Chunk [75, 66], Interrupted, Chunk [70, 49, 0, 0, 0], Chunk [1, 9]],
     fi_sink = [], fi_output = [], fi_max_frame_bytes = 4\<rparr>"
  have w: "wire [9] = [75, 66, 70, 49, 0, 0, 0, 1, 9]"
    by (simp add: wire_def FRAME_MAGIC_def to_be_bytes_def)
  have "fi_output (fst (send_payloads [[9]] ?a)) = wire [9]"
    using send_stream [of "[[9]]" ?a] by (auto simp: acceptable_def U32_MAX_def)
  then have "snd (send_payloads [[9]] ?a) = Inr () \<and>
      snd (receive_payloads (Suc (length [[9 :: u8]])) ?b) = Inr (map Some [[9]] @ [None])"
    by (intro framed_io_roundtrip [where m = 4]) (simp_all add: w acceptable_def U32_MAX_def)
  then show ?thesis by (simp add: numeral_2_eq_2)
qed

end
