(* ===== verification/Transport_Correct.thy ===== *)
theory Transport_Correct
  imports Transport Framed_Io_Correct
begin

text \<open>
  The contract of a bounded transport as a locale, provided by the framed stream, the in-memory
  transport and the authenticated wrapper over each; the comparison of secrets; and the wrapper's
  gate before authentication.
\<close>

section \<open>Comparing secrets\<close>

lemma ucast_xor_0: "(ucast (xor a b :: u8) :: usize) = 0 \<longleftrightarrow> a = b"
proof
  assume z: "(ucast (xor a b :: u8) :: usize) = 0"
  show "a = b"
  proof (rule bit_word_eqI)
    fix n assume "n < LENGTH(8)"
    then have "bit (ucast (xor a b) :: usize) n \<longleftrightarrow> bit a n \<noteq> bit b n"
      by (auto simp: bit_simps)
    with z show "bit a n = bit b n" by simp
  qed
qed simp

lemma eq_loop_0: "eq_loop l r is d = 0 \<longleftrightarrow> d = 0 \<and> (\<forall>i \<in> set is. byte_at l i = byte_at r i)"
  by (induction l r "is" d rule: eq_loop.induct) (auto simp: or_eq_0_iff ucast_xor_0)

lemma xor_word_0: "xor a b = 0 \<longleftrightarrow> a = (b :: usize)"
proof
  assume "xor a b = 0"
  then have "xor a (xor a b) = a" by simp
  then show "a = b" by (simp add: xor.assoc [symmetric])
qed simp

lemma constant_time_eq_iff:
  assumes "length l < 2 ^ 64" "length r < 2 ^ 64"
  shows "constant_time_eq l r \<longleftrightarrow> l = r"
proof -
  have "(of_nat (length l) :: usize) = of_nat (length r) \<longleftrightarrow> length l = length r"
    using assms by (simp add: word_of_nat_eq_iff take_bit_nat_eq_self)
  then show ?thesis
    by (auto simp: constant_time_eq_def eq_loop_0 xor_word_0 byte_at_def intro: nth_equalityI)
qed

section \<open>The contract of a bounded transport\<close>

text \<open>
  \<open>good\<close> is the transport's own invariant: operations keep it and the frame limit, and what is
  received is a frame the limit allows.
\<close>

lemma map_sum_Some_iff [simp]: "map_sum id Some r = Inr (Some x) \<longleftrightarrow> r = Inr x"
  by (cases r) simp_all

lemma map_error_Inr_iff [simp]: "map_error f r = Inr x \<longleftrightarrow> r = Inr x"
  by (cases r) (simp_all add: map_error_def)

locale bounded_transport =
  fixes ops :: "'t transport_ops" and good :: "'t \<Rightarrow> bool"
  assumes send_keeps: "good t \<Longrightarrow> good (fst (to_send ops p t)) \<and>
      to_max_frame_bytes ops (fst (to_send ops p t)) = to_max_frame_bytes ops t"
    and receive_keeps: "good t \<Longrightarrow> good (fst (to_receive ops t)) \<and>
      to_max_frame_bytes ops (fst (to_receive ops t)) = to_max_frame_bytes ops t"
    and receive_bounded: "good t \<Longrightarrow> snd (to_receive ops t) = Inr (Some p) \<Longrightarrow>
      acceptable (to_max_frame_bytes ops t) p"
begin

lemma send_framed_keeps:
  "good t \<Longrightarrow> good (fst (send_framed ops p t)) \<and>
   to_max_frame_bytes ops (fst (send_framed ops p t)) = to_max_frame_bytes ops t"
  using send_keeps by (auto simp: send_framed_def split: sum.split)

lemma receive_with_keeps:
  "good t \<Longrightarrow> good (fst (receive_with d ops t)) \<and>
   to_max_frame_bytes ops (fst (receive_with d ops t)) = to_max_frame_bytes ops t"
  using receive_keeps [of t] by (auto simp: receive_with_def split: prod.split sum.split option.split)

lemma receive_with_Some:
  assumes "good t" "snd (receive_with d ops t) = Inr (Some x)"
  shows "\<exists>p. acceptable (to_max_frame_bytes ops t) p \<and> d p = Inr x"
proof -
  obtain t' r where r: "to_receive ops t = (t', r)" by fastforce
  with assms(2) obtain p where "r = Inr (Some p)" "d p = Inr x"
    by (auto simp: receive_with_def split: sum.splits option.splits)
  with r receive_bounded [OF assms(1)] show ?thesis by auto
qed

text \<open>The wrapper is a bounded transport again.\<close>

lemma wrapped:
  "bounded_transport (authenticated_ops ops) (\<lambda>t. good (at_inner t))"
proof
  fix t :: "'t authenticated" and p
  assume g: "good (at_inner t)"
  show "good (at_inner (fst (to_send (authenticated_ops ops) p t))) \<and>
      to_max_frame_bytes (authenticated_ops ops) (fst (to_send (authenticated_ops ops) p t))
      = to_max_frame_bytes (authenticated_ops ops) t"
    using send_keeps [OF g, of p] g
    by (auto simp: authenticated_ops_def authenticated_send_def Let_def split: prod.split)
  show "good (at_inner (fst (to_receive (authenticated_ops ops) t))) \<and>
      to_max_frame_bytes (authenticated_ops ops) (fst (to_receive (authenticated_ops ops) t))
      = to_max_frame_bytes (authenticated_ops ops) t"
    using receive_keeps [OF g] g
    by (auto simp: authenticated_ops_def authenticated_receive_def Let_def
        split: prod.split sum.split option.split)
  show "acceptable (to_max_frame_bytes (authenticated_ops ops) t) p"
    if "snd (to_receive (authenticated_ops ops) t) = Inr (Some p)"
    using receive_bounded [OF g, of p] that
    by (auto simp: authenticated_ops_def authenticated_receive_def Let_def
        split: prod.splits sum.splits option.splits if_splits)
qed

end

section \<open>The providers\<close>

lemma send_payload_max [simp]: "fi_max_frame_bytes (fst (send_payload p io)) = fi_max_frame_bytes io"
  by (auto simp: send_payload_def split: sum.split prod.split)

lemma receive_payload_max [simp]: "fi_max_frame_bytes (fst (receive_payload io)) = fi_max_frame_bytes io"
  by (auto simp: receive_payload_def split: sum.split prod.split option.split)

interpretation framed: bounded_transport framed_ops "\<lambda>_. True"
proof
  fix t p
  show "True \<and> to_max_frame_bytes framed_ops (fst (to_send framed_ops p t)) = to_max_frame_bytes framed_ops t"
    by (simp add: framed_ops_def framed_send_def case_prod_unfold)
  have m: "fi_max_frame_bytes (fst (framed_receive t)) = fi_max_frame_bytes t"
    using receive_payload_max [of t]
    by (cases "receive_payload t") (auto simp: framed_receive_def split: sum.split option.split)
  then show "True \<and> to_max_frame_bytes framed_ops (fst (to_receive framed_ops t)) = to_max_frame_bytes framed_ops t"
    by (simp add: framed_ops_def)
  show "acceptable (to_max_frame_bytes framed_ops t) p" if "snd (to_receive framed_ops t) = Inr (Some p)"
    using that receive_payload_max [of t]
    by (cases "receive_payload t") (auto simp: framed_ops_def framed_receive_def frame_with_limit_def acceptable_iff
        split: prod.splits sum.splits option.splits)
qed

interpretation memory: bounded_transport memory_ops memory_inv
proof
  fix t p assume inv: "memory_inv t"
  show "memory_inv (fst (to_send memory_ops p t)) \<and>
      to_max_frame_bytes memory_ops (fst (to_send memory_ops p t)) = to_max_frame_bytes memory_ops t"
    using inv enqueue_out_inv [OF inv, of p] by (simp add: memory_ops_def memory_send_def case_prod_unfold)
  show "memory_inv (fst (to_receive memory_ops t)) \<and>
      to_max_frame_bytes memory_ops (fst (to_receive memory_ops t)) = to_max_frame_bytes memory_ops t"
    using inv pop_incoming_inv [OF inv] by (simp add: memory_ops_def memory_receive_def case_prod_unfold)
  show "acceptable (to_max_frame_bytes memory_ops t) p" if "snd (to_receive memory_ops t) = Inr (Some p)"
    using that pop_incoming_inv [OF inv]
    by (auto simp: memory_ops_def memory_receive_def split: prod.splits if_splits)
qed

interpretation framed_authenticated: bounded_transport "authenticated_ops framed_ops" "\<lambda>_. True"
  using framed.wrapped by simp

interpretation memory_authenticated:
  bounded_transport "authenticated_ops memory_ops" "\<lambda>t. memory_inv (at_inner t)"
  by (rule memory.wrapped)

section \<open>The gate\<close>

text \<open>What the owner of a wrapped transport can do with it.\<close>

datatype wrapper_op = AcceptOp auth_request | SendOp "u8 list" | ReceiveOp

datatype wrapper_result =
    Accepted "transport_error + rstr"
  | Sent "transport_error + unit"
  | Received "transport_error + u8 list option"

fun wrapper_step ::
  "authenticator \<Rightarrow> 't transport_ops \<Rightarrow> wrapper_op \<Rightarrow> 't authenticated \<Rightarrow> 't authenticated \<times> wrapper_result" where
  "wrapper_step auth ops (AcceptOp q) t = (case accept auth q t of (t', r) \<Rightarrow> (t', Accepted r))"
| "wrapper_step auth ops (SendOp p) t = (case authenticated_send ops p t of (t', r) \<Rightarrow> (t', Sent r))"
| "wrapper_step auth ops ReceiveOp t = (case authenticated_receive ops t of (t', r) \<Rightarrow> (t', Received r))"

fun wrapper_run ::
  "authenticator \<Rightarrow> 't transport_ops \<Rightarrow> wrapper_op list \<Rightarrow> 't authenticated \<Rightarrow> 't authenticated \<times> wrapper_result list" where
  "wrapper_run auth ops [] t = (t, [])"
| "wrapper_run auth ops (x # xs) t =
     (case wrapper_step auth ops x t of
        (t', r) \<Rightarrow> (case wrapper_run auth ops xs t' of (t'', rs) \<Rightarrow> (t'', r # rs)))"

definition admits_peer :: "authenticator \<Rightarrow> rstr \<Rightarrow> wrapper_op \<Rightarrow> bool" where
  "admits_peer auth peer x \<longleftrightarrow>
     (\<exists>q. x = AcceptOp q \<and> validate_auth_request q = Inr () \<and> auth q = Inr peer)"

lemma closed_step:
  assumes "at_peer t = None" "\<And>peer. \<not> admits_peer auth peer x"
  shows "fst (wrapper_step auth ops x t) = t"
  using assms
  by (cases x) (auto simp: accept_def admits_peer_def authenticated_send_def authenticated_receive_def split: sum.splits)

lemma closed_run:
  assumes "at_peer t = None" "\<And>peer x. x \<in> set xs \<Longrightarrow> \<not> admits_peer auth peer x"
  shows "fst (wrapper_run auth ops xs t) = t"
  using assms
proof (induction xs)
  case (Cons x xs)
  then show ?case using closed_step [of t auth x ops] by (auto split: prod.split)
qed simp

lemma open_step: "at_peer t = Some peer \<Longrightarrow> at_peer (fst (wrapper_step auth ops x t)) = Some peer"
  by (cases x) (auto simp: accept_def authenticated_send_def authenticated_receive_def Let_def
      split: prod.split sum.split option.split)

lemma open_run: "at_peer t = Some peer \<Longrightarrow> at_peer (fst (wrapper_run auth ops xs t)) = Some peer"
proof (induction xs arbitrary: t)
  case (Cons x xs)
  then show ?case by (simp add: case_prod_unfold open_step)
qed simp

lemma admitting_step:
  assumes "at_peer t = None" "admits_peer auth peer x"
  shows "at_peer (fst (wrapper_step auth ops x t)) = Some peer"
  using assms by (auto simp: admits_peer_def accept_def)

lemma wrapper_run_append:
  "fst (wrapper_run auth ops (xs @ ys) t) = fst (wrapper_run auth ops ys (fst (wrapper_run auth ops xs t)))"
  by (induction xs arbitrary: t) (simp_all add: case_prod_unfold)

section \<open>Properties\<close>



text \<open>
  The shared-secret authenticator is exact: it accepts precisely the well-formed requests of
  an allowed client that carry the secret, and accepts the ones it makes itself. The comparison,
  which inspects every byte of the longer operand, is equality.
\<close>

theorem shared_secret_exact:
  assumes "shared_secret_new bytes = Inr secret" "length (ar_proof q) < 2 ^ 64"
  shows "(shared_secret_authenticate secret expected q = Inr peer \<longleftrightarrow>
      validate_auth_request q = Inr () \<and> (\<forall>e. expected = Some e \<longrightarrow> ar_client_id q = e) \<and>
      ar_proof q = bytes \<and> peer = ar_client_id q) \<and>
    (\<forall>client r. make_request secret client = Inr r \<longrightarrow> shared_secret_authenticate secret None r = Inr client)"
proof -
  have s: "secret = bytes" "bytes \<noteq> []" "length bytes \<le> MAX_AUTH_PROOF_BYTES"
    using assms(1) by (auto simp: shared_secret_new_def split: if_splits)
  have eq: "constant_time_eq secret p \<longleftrightarrow> p = bytes" if "length p < 2 ^ 64" for p
    using constant_time_eq_iff [of secret p] that s by (auto simp: MAX_AUTH_PROOF_BYTES_def)
  show ?thesis
    using s assms(2) eq [OF assms(2)] eq [of bytes]
    by (auto simp: shared_secret_authenticate_def make_request_def make_request_with_nonce_def
        validate_auth_request_def MAX_AUTH_PROOF_BYTES_def split: option.split)
qed

theorem shared_secret_exact_witness:
  "shared_secret_authenticate [7, 7] (Some [97])
     \<lparr>ar_version = PROTOCOL_VERSION, ar_client_id = [97], ar_nonce = [1], ar_proof = [7, 7]\<rparr> = Inr [97]"
proof -
  let ?q = "\<lparr>ar_version = PROTOCOL_VERSION, ar_client_id = [97], ar_nonce = [1], ar_proof = [7, 7]\<rparr>"
  have "shared_secret_new [7, 7] = Inr [7, 7]" by (simp add: shared_secret_new_def MAX_AUTH_PROOF_BYTES_def)
  moreover have "validate_auth_request ?q = Inr ()"
    by (simp add: validate_auth_request_def validate_client_id_def zero_nonce_def MAX_AUTH_PROOF_BYTES_def
        MAX_CLIENT_ID_BYTES_def utf8_len_def has_control_def is_control_def)
  ultimately show ?thesis using shared_secret_exact [of "[7, 7]" "[7, 7]" ?q "Some [97]" "[97]"] by simp
qed

end
