(* ===== verification/Service_Correct.thy ===== *)
theory Service_Correct
  imports Service Transport_Correct Enhancement_Correct Session_Correct
begin

text \<open>
  What a connection may do: nothing before its handshake is accepted, then one request as the
  authenticated peer; and where that is not enough.
\<close>

section \<open>The phases\<close>

text \<open>What a connection can change besides its own transport.\<close>

definition shared_state :: "('t, 'b) service \<Rightarrow> session_broker \<times> 'b \<times> enhancement_world" where
  "shared_state sv = (sv_broker sv, sv_backend sv, sv_world sv)"

lemma shared_state_transport [simp]: "shared_state (sv\<lparr>sv_transport := t\<rparr>) = shared_state sv"
  by (simp add: shared_state_def)

lemma serve_handshake_Inr:
  assumes "serve_handshake env t = (t', Inr peer)"
  obtains t1 frame q where "to_receive (se_transport env) t = (t1, Inr (Some frame))"
    "js_read_auth (se_json env) frame = Inr q" "se_authenticator env q = Inr peer"
    "send_auth env (auth_accepted peer) t1 = (t', Inr ())"
  using assms by (auto simp: serve_handshake_def split: prod.splits sum.splits option.splits)

lemma serve_receive_Inr:
  assumes "serve_receive env t = (t', Inr q)"
  obtains frame where "to_receive (se_transport env) t = (t', Inr (Some frame))"
    "decode_request (se_json env) frame = Inr q" "validate_request q = Inr ()"
  using assms
  by (auto simp: serve_receive_def decode_request_def bind_result_Inr_iff
      split: prod.splits sum.splits option.splits)

lemma serve_stages:
  assumes "serve_authenticated_request env sv = (sv', r)"
  obtains (closed) "shared_state sv' = shared_state sv" "\<not> is_ok r"
  | (served) t1 peer t2 q sv2 resp where
      "serve_handshake env (sv_transport sv) = (t1, Inr peer)" "serve_receive env t1 = (t2, Inr q)"
      "serve_dispatch env q peer (sv\<lparr>sv_transport := t2\<rparr>) = (sv2, resp)"
      "shared_state sv' = shared_state sv2"
      "r = map_sum id (\<lambda>_. resp) (snd (send_response (se_json env) (se_transport env) resp (sv_transport sv2)))"
proof -
  obtain t1 h where h: "serve_handshake env (sv_transport sv) = (t1, h)" by fastforce
  show thesis
  proof (cases h)
    case (Inl e)
    then show ?thesis using assms h by (intro closed) (auto simp: serve_authenticated_request_def)
  next
    case (Inr peer)
    obtain t2 x where x: "serve_receive env t1 = (t2, x)" by fastforce
    show ?thesis
    proof (cases x)
      case (Inl e)
      then show ?thesis using assms h x Inr by (intro closed) (auto simp: serve_authenticated_request_def)
    next
      case q: (Inr q)
      obtain sv2 resp where d: "serve_dispatch env q peer (sv\<lparr>sv_transport := t2\<rparr>) = (sv2, resp)" by fastforce
      show ?thesis
        by (rule served [OF h [unfolded Inr] x [unfolded q] d])
          (use assms h x d Inr q in \<open>auto simp: serve_authenticated_request_def split: prod.splits\<close>)
    qed
  qed
qed

lemma send_response_valid:
  "snd (send_response js ops resp t) = Inr u \<Longrightarrow> validate_response resp = Inr ()"
  by (auto simp: send_response_def encode_response_def split: sum.splits)

text \<open>What one request of an authenticated peer does to the shared state.\<close>

definition peer_effect ::
  "('t, 'b) service_env \<Rightarrow> request_envelope \<Rightarrow> rstr \<Rightarrow> session_broker \<times> 'b \<times> enhancement_world \<Rightarrow>
   (session_broker \<times> 'b \<times> enhancement_world) \<times> response_envelope" where
  "peer_effect env q peer sbw =
     (case sbw of (s, b, w) \<Rightarrow>
        if is_enhancement (rq_command q)
        then case serve_enhancement env q peer s w of (w', resp) \<Rightarrow> ((s, b, w'), resp)
        else case handle_for_peer (se_backend env) q peer (s, b) of
            ((s', b'), resp) \<Rightarrow> ((s', b', serve_cancel s q peer w), resp))"

lemma dispatch_effect:
  assumes "serve_dispatch env q peer sv = (sv', resp)"
  shows "(shared_state sv', resp) = peer_effect env q peer (shared_state sv)"
proof -
  have "serve_cancel s q peer w = w" if "is_enhancement (rq_command q)" for s w
    using that by (auto simp: is_enhancement_def serve_cancel_def split: request_command.splits)
  then show ?thesis
    using assms by (auto simp: serve_dispatch_def peer_effect_def shared_state_def Let_def split: prod.splits if_splits)
qed

lemma serve_cancel_cases:
  "serve_cancel s q peer w = w \<or>
   (\<exists>sid target. command_session_id (rq_command q) = Some sid \<and> session_owned_by s sid peer \<and>
      serve_cancel s q peer w = fst (coordinator_cancel target w))"
  by (auto simp: serve_cancel_def command_session_id.simps split: request_command.split option.split)

section \<open>The transport under the service\<close>

context bounded_transport
begin

lemma serve_keeps:
  assumes "se_transport env = ops" "good (sv_transport sv)"
  shows "good (sv_transport (fst (serve_authenticated_request env sv)))"
proof -
  have sa: "good (fst (send_auth env r t))" if "good t" for r t
    using send_framed_keeps [OF that] that by (simp add: send_auth_def assms(1) split: sum.split)
  have rk: "good (fst (to_receive ops t))" if "good t" for t
    using receive_keeps [OF that] by simp
  have hs: "good (fst (serve_handshake env t))" if "good t" for t
    using rk [OF that] sa
    by (simp add: serve_handshake_def assms(1) case_prod_unfold split: sum.split option.split)
  have rc: "good (fst (serve_receive env t))" if "good t" for t
    using rk [OF that] by (simp add: serve_receive_def assms(1) case_prod_unfold split: sum.split option.split)
  have dp: "sv_transport (fst (serve_dispatch env q peer sv)) = sv_transport sv" for q peer sv
    by (simp add: serve_dispatch_def Let_def case_prod_unfold)
  have sr: "good (fst (send_response js ops resp t))" if "good t" for js resp t
    using send_framed_keeps [OF that] that by (simp add: send_response_def split: sum.split)
  show ?thesis
    using hs [OF assms(2)] rc [OF hs [OF assms(2)]] sr
    by (simp add: serve_authenticated_request_def assms(1) case_prod_unfold dp split: sum.split)
qed

end

section \<open>A connection\<close>

text \<open>Peer \<open>b\<close> on an in-memory transport, sending one request to the broker with peer \<open>a\<close>'s session 7.\<close>

definition demo_env :: "request_envelope \<Rightarrow> (memory_transport, unit) service_env" where
  "demo_env q = \<lparr>se_json = \<lparr>js_write_request = (\<lambda>_. Inr [3]), js_read_request = (\<lambda>_. Inr q),
       js_write_response = (\<lambda>_. Inr [4]), js_read_response = (\<lambda>_. Inl []),
       js_read_auth = (\<lambda>_. Inr \<lparr>ar_version = PROTOCOL_VERSION, ar_client_id = [98], ar_nonce = [1], ar_proof = [7]\<rparr>),
       js_write_auth = (\<lambda>_. Inr [5])\<rparr>,
     se_transport = memory_ops, se_backend = failing_ops, se_authenticator = (\<lambda>q. Inr (ar_client_id q)),
     se_coordinator = demo_coordinator, se_submit = (\<lambda>q t w. (Inl QE_Full, w))\<rparr>"

definition demo_wire :: "u8 list list \<Rightarrow> u8 list list \<Rightarrow> memory_transport" where
  "demo_wire ins outs = \<lparr>mt_incoming = ins, mt_outgoing = outs, mt_max_frame_bytes = 4, mt_max_queued_bytes = 9,
     mt_queued_bytes = length ins + length outs, mt_closed = False\<rparr>"

definition demo_connection :: "session_broker \<Rightarrow> (memory_transport, unit) service" where
  "demo_connection s = \<lparr>sv_transport = demo_wire [[1], [2]] [], sv_broker = s, sv_backend = (), sv_world = demo_world\<rparr>"

lemma demo_wire_simps [simp]:
  "memory_receive (demo_wire [] outs) = (demo_wire [] outs, Inr None)"
  "memory_receive (demo_wire ([b] # ins) outs) = (demo_wire ins outs, Inr (Some [b]))"
  "length ins + length outs < 9 \<Longrightarrow>
   send_framed memory_ops [b] (demo_wire ins outs) = (demo_wire ins (outs @ [[b]]), Inr ())"
  by (simp_all add: demo_wire_def memory_receive_def pop_incoming_def send_framed_def memory_ops_def memory_send_def
      enqueue_out_def reserve_def frame_with_limit_def validate_payload_length_def U32_MAX_def map_error_def)

lemma demo_handshake: "serve_handshake (demo_env q) (demo_wire [[1], [2]] []) = (demo_wire [[2]] [[5]], Inr [98])"
  by (simp add: serve_handshake_def demo_env_def send_auth_def memory_ops_def [THEN arg_cong [of _ _ to_receive]])

lemma demo_request:
  "validate_request q = Inr () \<Longrightarrow> serve_receive (demo_env q) (demo_wire [[2]] [[5]]) = (demo_wire [] [[5]], Inr q)"
  by (simp add: serve_receive_def demo_env_def memory_ops_def decode_request_def map_error_def)

section \<open>Properties\<close>

text \<open>
  C29. No application frame before authentication: a connection that answers a request or changes
  anything but its own transport has had a handshake accepted, and what it changes and answers
  is one validated request of exactly the peer the authenticator named.
\<close>

theorem service_acts_as_authenticated_peer:
  assumes "serve_authenticated_request env sv = (sv', r)"
    and "shared_state sv' \<noteq> shared_state sv \<or> is_ok r"
  shows "\<exists>t1 frame auth peer q resp.
    to_receive (se_transport env) (sv_transport sv) = (t1, Inr (Some frame)) \<and>
    js_read_auth (se_json env) frame = Inr auth \<and> se_authenticator env auth = Inr peer \<and>
    validate_request q = Inr () \<and>
    (shared_state sv', resp) = peer_effect env q peer (shared_state sv) \<and>
    (is_ok r \<longrightarrow> r = Inr resp \<and> validate_response resp = Inr ())"
  using assms(1)
proof (cases rule: serve_stages)
  case closed
  with assms(2) show ?thesis by simp
next
  case (served t1 peer t2 q sv2 resp)
  obtain u frame auth where h: "to_receive (se_transport env) (sv_transport sv) = (u, Inr (Some frame))"
    "js_read_auth (se_json env) frame = Inr auth" "se_authenticator env auth = Inr peer"
    using serve_handshake_Inr [OF served(1)] by metis
  have q: "validate_request q = Inr ()" using serve_receive_Inr [OF served(2)] by metis
  have e: "(shared_state sv', resp) = peer_effect env q peer (shared_state sv)"
    using dispatch_effect [OF served(3)] served(4) by simp
  have "r = Inr resp \<and> validate_response resp = Inr ()" if ok: "is_ok r"
  proof -
    obtain x where "snd (send_response (se_json env) (se_transport env) resp (sv_transport sv2)) = Inr x"
      using ok served(5)
      by (cases "snd (send_response (se_json env) (se_transport env) resp (sv_transport sv2))") auto
    with served(5) show ?thesis using send_response_valid by fastforce
  qed
  with h q e show ?thesis by blast
qed

theorem service_acts_as_authenticated_peer_witness:
  "\<exists>q peer resp. validate_request q = Inr () \<and> validate_response resp = Inr () \<and>
     (shared_state (fst (serve_authenticated_request (demo_env (demo_edit 0)) (demo_connection demo_sessions))), resp)
     = peer_effect (demo_env (demo_edit 0)) q peer (shared_state (demo_connection demo_sessions))"
proof -
  let ?r = "serve_authenticated_request (demo_env (demo_edit 0)) (demo_connection demo_sessions)"
  have "foreign_to demo_sessions [98] (rq_command (demo_edit 0))"
    by (simp add: foreign_to_def demo_edit_def new_request_def session_owned_by_def demo_entry)
  moreover have "validate_response (foreign_session rid g) = Inr ()" for rid g
    unfolding foreign_session_def by (intro valid_session_failure msg_ok_lit) simp_all
  ultimately have "is_ok (snd ?r)"
    using demo_edit_valid [of 0]
    by (simp add: serve_authenticated_request_def demo_connection_def demo_handshake demo_request
        serve_dispatch_def handle_for_peer_def is_enhancement_def demo_edit_def new_request_def owner_exempt_def
        send_response_def encode_response_def map_error_def)
      (simp add: demo_env_def)
  from service_acts_as_authenticated_peer [OF surjective_pairing disjI2 [OF this]] this show ?thesis by blast
qed

text \<open>
  C30. A connection cannot act in another peer's session: a checked request for it changes
  nothing that is shared, cancels nothing, and is answered as an unknown session.
\<close>

theorem service_isolates_peers:
  assumes "serve_handshake env (sv_transport sv) = (t1, Inr peer)" "serve_receive env t1 = (t2, Inr q)"
    and "\<not> owner_exempt (rq_command q)" "command_session_id (rq_command q) = Some sid"
    and "entry_of (sv_broker sv) sid = Some a" "se_owner (sb_entries (sv_broker sv) a) = Some owner" "owner \<noteq> peer"
  shows "shared_state (fst (serve_authenticated_request env sv)) = shared_state sv \<and>
    (\<forall>resp. snd (serve_authenticated_request env sv) = Inr resp \<longrightarrow>
       resp = foreign_session (rq_request_id q) (expected_generation (rq_command q)))"
proof -
  have own: "\<not> session_owned_by (sv_broker sv) sid peer"
    using assms(5-7) by (simp add: session_owned_by_def)
  have cancel: "serve_cancel (sv_broker sv) q peer w = w" for w
    using serve_cancel_cases [of "sv_broker sv" q peer w] own assms(4) by auto
  have effect: "peer_effect env q peer (shared_state sv)
      = (shared_state sv, foreign_session (rq_request_id q) (expected_generation (rq_command q)))"
    using assms(3,4) own cancel
    by (simp add: peer_effect_def shared_state_def serve_enhancement_def begin_submission_for_peer_def
        handle_for_peer_def foreign_to_def)
  obtain sv' r where r: "serve_authenticated_request env sv = (sv', r)" by fastforce
  show ?thesis
    using r
  proof (cases rule: serve_stages)
    case closed
    then show ?thesis using r by auto
  next
    case (served t1' peer' t2' q' sv2 resp)
    then have "(shared_state sv', resp) = peer_effect env q peer (shared_state sv)"
      using dispatch_effect [OF served(3)] assms(1,2) by simp
    then show ?thesis
      using r served(5) effect
      by (cases "snd (send_response (se_json env) (se_transport env) resp (sv_transport sv2))") auto
  qed
qed

theorem service_isolates_peers_witness:
  "shared_state (fst (serve_authenticated_request (demo_env (demo_edit 0)) (demo_connection demo_sessions)))
     = shared_state (demo_connection demo_sessions)"
proof -
  let ?sv = "demo_connection demo_sessions"
  have "serve_handshake (demo_env (demo_edit 0)) (sv_transport ?sv) = (demo_wire [[2]] [[5]], Inr [98])"
    by (simp add: demo_connection_def demo_handshake)
  from service_isolates_peers [OF this demo_request [OF demo_edit_valid], of 7 0 "[97]"] show ?thesis
    by (simp add: demo_connection_def demo_entry owner_exempt_def demo_edit_def new_request_def)
qed

text \<open>
  Cancellation crosses that border: a peer that owns any session can cancel any registered
  enhancement, whoever's it is, by naming its request id as the target.
\<close>

theorem service_cancels_across_peers:
  assumes "serve_handshake env (sv_transport sv) = (t1, Inr peer)" "serve_receive env t1 = (t2, Inr q)"
    and "rq_command q = CancelCmd c" "cc_target_request_id c = Some target"
    and "session_owned_by (sv_broker sv) (cc_session_id c) peer"
    and "fmlookup (cn_tokens (ew_cancellations (sv_world sv))) target = Some token"
  shows "is_cancelled (ew_cancellations (sv_world (fst (serve_authenticated_request env sv)))) token"
proof -
  have d: "is_cancelled (ew_cancellations (sv_world (fst (serve_dispatch env q peer (sv\<lparr>sv_transport := t2\<rparr>))))) token"
    using assms(3-6)
    by (simp add: serve_dispatch_def is_enhancement_def serve_cancel_def coordinator_cancel_def cancel_request_def
        is_cancelled_def cancel_token_def Let_def case_prod_unfold)
  obtain sv2 resp where "serve_dispatch env q peer (sv\<lparr>sv_transport := t2\<rparr>) = (sv2, resp)" by fastforce
  then show ?thesis
    using assms(1,2) d by (simp add: serve_authenticated_request_def case_prod_unfold)
qed

text \<open>The request id 5 of peer \<open>a\<close>'s session 7 is in flight, and peer \<open>b\<close> owns session 8.\<close>

theorem service_cancels_across_peers_witness:
  "\<exists>s w. session_owned_by s 7 [97] \<and> session_owned_by s 8 [98] \<and> \<not> is_cancelled (ew_cancellations w) 0 \<and>
    is_cancelled (ew_cancellations (sv_world (fst (serve_authenticated_request
      (demo_env (new_request 9 (CancelCmd \<lparr>cc_session_id = 8, cc_target_request_id = Some 5, cc_generation = None\<rparr>)))
      ((demo_connection s)\<lparr>sv_world := w\<rparr>))))) 0"
proof -
  let ?s = "fst (bind_session_owner 8 [98] (insert_session 8 Regular False demo_sessions))"
  let ?w = "demo_world\<lparr>ew_cancellations := (ew_cancellations demo_world)\<lparr>cn_tokens := fmupd 5 0 fmempty\<rparr>\<rparr>"
  let ?q = "new_request 9 (CancelCmd \<lparr>cc_session_id = 8, cc_target_request_id = Some 5, cc_generation = None\<rparr>)"
  have own: "session_owned_by ?s 7 [97]" "session_owned_by ?s 8 [98]"
    by (simp_all add: session_owned_by_def bind_session_owner_def insert_session_def demo_sessions_def
        demo_empty_def session_broker_new_def entry_of_def set_entry_def new_entry_def)
  have v: "validate_request ?q = Inr ()"
    by (simp add: validate_request_def new_request_def validate_id_def)
  have "is_cancelled (ew_cancellations (sv_world (fst (serve_authenticated_request (demo_env ?q)
      ((demo_connection ?s)\<lparr>sv_world := ?w\<rparr>))))) 0"
    by (rule service_cancels_across_peers [OF _ demo_request [OF v], where target = 5
          and c = "\<lparr>cc_session_id = 8, cc_target_request_id = Some 5, cc_generation = None\<rparr>"])
      (use own(2) in \<open>simp_all add: demo_connection_def demo_handshake new_request_def\<close>)
  moreover have "\<not> is_cancelled (ew_cancellations ?w) 0"
    by (simp add: is_cancelled_def demo_world_def no_cancellations_def)
  ultimately show ?thesis
    by (intro exI [of _ ?s] exI [of _ ?w] conjI own)
qed

end
