(* ===== verification/Supervisor.thy ===== *)
theory Supervisor
  imports Prelude
begin

text \<open>
  The lifecycle of the local runtime process (\<open>kanai-broker/src/runtime_supervisor.rs\<close>): the
  sections under the lifecycle lock as functions on \<open>lifecycle\<close>, and the tasks the supervisor
  spawns as a step relation, one step per section or adapter answer. Process factory, child and
  clock are the environment: a step exists for every answer they may give. Durations are
  nanoseconds.
\<close>

section \<open>Configuration\<close>

definition MAX_RUNTIME_RESTARTS :: nat where "MAX_RUNTIME_RESTARTS = 16"
definition MAX_RUNTIME_BACKOFF :: nat where "MAX_RUNTIME_BACKOFF = 60 * 10 ^ 9"
definition MAX_STOP_CONFIRM_TIMEOUT :: nat where "MAX_STOP_CONFIRM_TIMEOUT = 300 * 10 ^ 9"
definition STOP_NONE :: nat where "STOP_NONE = 0"
definition STOP_GRACEFUL :: nat where "STOP_GRACEFUL = 1"
definition STOP_FORCE :: nat where "STOP_FORCE = 2"
definition STOP_CONFIRM_TIMEOUT :: nat where "STOP_CONFIRM_TIMEOUT = 30 * 10 ^ 9"

text \<open>The largest \<open>Duration\<close>, where \<open>saturating_mul\<close> stops.\<close>

definition MAX_DURATION :: nat where "MAX_DURATION = (2 ^ 64 - 1) * 10 ^ 9 + 999999999"

datatype config_error = InvalidRestartLimit | InvalidBackoff | InvalidStopConfirmTimeout

datatype process_error = Unavailable | Rejected | WaitFailed

record supervisor_config =
  sc_max_restarts :: nat
  sc_initial_backoff :: nat
  sc_max_backoff :: nat
  sc_stop_confirm_timeout :: nat

definition default_supervisor_config :: supervisor_config where
  "default_supervisor_config = \<lparr>sc_max_restarts = 3, sc_initial_backoff = 100 * 10 ^ 6,
     sc_max_backoff = 2 * 10 ^ 9, sc_stop_confirm_timeout = STOP_CONFIRM_TIMEOUT\<rparr>"

definition validate_config :: "supervisor_config \<Rightarrow> config_error + unit" where
  "validate_config c =
     seq (reject_if (sc_max_restarts c > MAX_RUNTIME_RESTARTS) InvalidRestartLimit)
    (seq (reject_if (sc_initial_backoff c > MAX_RUNTIME_BACKOFF \<or> sc_max_backoff c > MAX_RUNTIME_BACKOFF \<or>
             sc_initial_backoff c > sc_max_backoff c) InvalidBackoff)
         (reject_if (sc_stop_confirm_timeout c = 0 \<or> sc_stop_confirm_timeout c > MAX_STOP_CONFIRM_TIMEOUT)
            InvalidStopConfirmTimeout))"

definition delay_for :: "supervisor_config \<Rightarrow> nat \<Rightarrow> nat" where
  "delay_for c restart_attempt =
     (if sc_initial_backoff c = 0 \<or> sc_max_backoff c = 0 then 0
      else let exponent = min (restart_attempt - 1) 31; multiplier = unat (push_bit exponent (1 :: u32)) in
        min (min (sc_initial_backoff c * multiplier) MAX_DURATION) (sc_max_backoff c))"

section \<open>The lifecycle\<close>

datatype supervisor_state = Idle | Starting | Running | BackingOff | Stopping | Failed

datatype runtime_failure =
    StartFailure process_error
  | UnexpectedExit "process_error option"
  | StartCancelled
  | RestartFailure "process_error option"
  | RestartLimitExceeded nat "process_error option"
  | StopFailure process_error

datatype supervisor_error =
    AlreadyRunning
  | InvalidState supervisor_state
  | StartFailed process_error
  | StartWasCancelled
  | StopFailed process_error
  | NoRuntime
  | SupervisorUnavailable

text \<open>
  The active child is named by its generation; signals are named by numbers. The snapshot is
  state, restarts and error.
\<close>

record lifecycle =
  lc_state :: supervisor_state
  lc_restarts :: nat
  lc_error :: "runtime_failure option"
  lc_active :: "u64 option"
  lc_next :: u64
  lc_backoff_owner :: "u64 option"
  lc_backoff_signal :: "nat option"
  lc_starting :: "u64 option"
  lc_start_signal :: "nat option"
  lc_stop_error :: "process_error option"

definition lifecycle_new :: lifecycle where
  "lifecycle_new = \<lparr>lc_state = Idle, lc_restarts = 0, lc_error = None, lc_active = None, lc_next = 1,
     lc_backoff_owner = None, lc_backoff_signal = None, lc_starting = None, lc_start_signal = None,
     lc_stop_error = None\<rparr>"

definition no_backoff :: "lifecycle \<Rightarrow> lifecycle" where
  "no_backoff l = l\<lparr>lc_backoff_owner := None, lc_backoff_signal := None\<rparr>"

definition no_start :: "lifecycle \<Rightarrow> lifecycle" where
  "no_start l = l\<lparr>lc_starting := None, lc_start_signal := None\<rparr>"

section \<open>The sections under the lock\<close>

definition start_section :: "nat \<Rightarrow> lifecycle \<Rightarrow> supervisor_error + lifecycle \<times> u64" where
  "start_section signal l =
     (case lc_state l of
        Idle \<Rightarrow>
          Inr ((no_backoff l)\<lparr>lc_next := lc_next l + 1, lc_starting := Some (lc_next l),
                 lc_start_signal := Some signal, lc_active := None, lc_stop_error := None, lc_restarts := 0,
                 lc_error := None, lc_state := Starting\<rparr>, lc_next l)
      | Running \<Rightarrow> Inl AlreadyRunning
      | state \<Rightarrow> Inl (InvalidState state))"

text \<open>What a section does besides: wake a signal, or set a child's stop mode and wake its monitor.\<close>

datatype section_effect = NoEffect | Wake nat | StopChild u64 nat

definition wake :: "nat option \<Rightarrow> section_effect" where
  "wake s = (case s of None \<Rightarrow> NoEffect | Some n \<Rightarrow> Wake n)"

definition cancel_start_after_caller_drop :: "u64 \<Rightarrow> lifecycle \<Rightarrow> lifecycle \<times> section_effect" where
  "cancel_start_after_caller_drop g l =
     (if lc_state l = Starting \<and> lc_starting l = Some g
      then ((no_backoff (no_start l))\<lparr>lc_error := Some StartCancelled, lc_state := Failed\<rparr>, wake (lc_start_signal l))
      else if lc_state l = Running \<and> lc_active l = Some g
      then (l\<lparr>lc_state := Stopping\<rparr>, StopChild g STOP_FORCE)
      else (l, NoEffect))"

text \<open>
  \<open>request_stop\<close> up to its wait; the result is a final answer, or \<open>None\<close> when the caller
  waits for the monitor. \<open>modes\<close> is the stop mode of every child.
\<close>

definition request_stop ::
  "nat \<Rightarrow> (u64 \<Rightarrow> nat) \<Rightarrow> lifecycle \<Rightarrow> lifecycle \<times> section_effect \<times> (supervisor_error + unit) option" where
  "request_stop requested modes l =
     (if lc_state l = Idle \<or> lc_state l = Failed then (l, NoEffect, Some (Inr ()))
      else if lc_state l = Starting
      then ((no_backoff l)\<lparr>lc_start_signal := None, lc_starting := None, lc_error := Some StartCancelled,
              lc_state := Failed\<rparr>, wake (lc_start_signal l), Some (Inr ()))
      else if lc_state l = BackingOff
      then ((no_backoff l)\<lparr>lc_restarts := 0, lc_error := None, lc_state := Idle\<rparr>,
            wake (lc_backoff_signal l), Some (Inr ()))
      else case lc_active l of
          None \<Rightarrow> (l, NoEffect, Some (Inl SupervisorUnavailable))
        | Some g \<Rightarrow>
            (l\<lparr>lc_error := (if lc_state l = Stopping then lc_error l else None), lc_state := Stopping\<rparr>,
             StopChild g (if requested = STOP_FORCE \<or> modes g = STOP_FORCE then STOP_FORCE else STOP_GRACEFUL),
             None))"

text \<open>\<open>wait_for_stop\<close> on one published snapshot, \<open>None\<close> for waiting on, and the caller's answer.\<close>

definition wait_for_stop :: "lifecycle \<Rightarrow> (supervisor_error + unit) option" where
  "wait_for_stop l =
     (case lc_state l of
        Stopping \<Rightarrow> None
      | Idle \<Rightarrow> Some (Inr ())
      | Failed \<Rightarrow>
          Some (Inl (case lc_error l of Some (StopFailure e) \<Rightarrow> StopFailed e | _ \<Rightarrow> SupervisorUnavailable))
      | Starting \<Rightarrow> Some (Inl StartWasCancelled)
      | _ \<Rightarrow> Some (Inr ()))"

definition stop_answer :: "lifecycle \<Rightarrow> supervisor_error + unit" where
  "stop_answer l =
     (case (lc_state l, lc_error l) of
        (Failed, Some (StopFailure e)) \<Rightarrow> Inl (StopFailed e) | _ \<Rightarrow> Inr ())"

definition attach_child :: "u64 \<Rightarrow> lifecycle \<Rightarrow> lifecycle" where
  "attach_child g l =
     (no_backoff (no_start l))\<lparr>lc_active := Some g, lc_stop_error := None, lc_state := Running\<rparr>"

text \<open>The factory returned a child for generation \<open>g\<close>: it is attached, or it is late.\<close>

definition finish_start :: "bool \<Rightarrow> u64 \<Rightarrow> lifecycle \<Rightarrow> lifecycle \<times> bool" where
  "finish_start closed g l =
     (if \<not> closed \<and> lc_state l = Starting \<and> lc_starting l = Some g then (attach_child g l, True) else (l, False))"

definition late_answer :: "lifecycle \<Rightarrow> supervisor_error" where
  "late_answer l = (case lc_error l of Some (StopFailure e) \<Rightarrow> StopFailed e | _ \<Rightarrow> StartWasCancelled)"

definition start_refused :: "bool \<Rightarrow> u64 \<Rightarrow> process_error \<Rightarrow> lifecycle \<Rightarrow> lifecycle \<times> supervisor_error" where
  "start_refused closed g source l =
     (if \<not> closed \<and> lc_state l = Starting \<and> lc_starting l = Some g
      then ((no_start l)\<lparr>lc_error := Some (StartFailure source), lc_state := Failed\<rparr>, StartFailed source)
      else (l, StartWasCancelled))"

definition cancelled_or_stop_failed :: "runtime_failure option \<Rightarrow> bool" where
  "cancelled_or_stop_failed e \<longleftrightarrow>
     (case e of Some StartCancelled \<Rightarrow> True | Some (StopFailure _) \<Rightarrow> True | _ \<Rightarrow> False)"

definition stop_late_child :: "u64 \<Rightarrow> process_error + unit \<Rightarrow> lifecycle \<Rightarrow> lifecycle" where
  "stop_late_child g result l =
     (if \<not> (lc_starting l = Some g \<or> cancelled_or_stop_failed (lc_error l)) then l
      else (no_backoff (no_start l))
        \<lparr>lc_error := (case result of
             Inl source \<Rightarrow> Some (StopFailure source)
           | Inr _ \<Rightarrow> (case lc_error l of Some (StopFailure e) \<Rightarrow> Some (StopFailure e) | _ \<Rightarrow> Some StartCancelled)),
         lc_state := Failed\<rparr>)"

definition record_stop_error :: "u64 \<Rightarrow> process_error \<Rightarrow> lifecycle \<Rightarrow> lifecycle" where
  "record_stop_error g e l =
     (if lc_active l = Some g
      then l\<lparr>lc_stop_error := Some e, lc_error := Some (StopFailure e), lc_state := Failed\<rparr> else l)"

text \<open>
  The head of the loop of \<open>handle_child_exit\<close>: the delay to back off for, or \<open>None\<close> when
  the task ends.
\<close>

definition child_exit ::
  "bool \<Rightarrow> supervisor_config \<Rightarrow> u64 \<Rightarrow> process_error option \<Rightarrow> bool \<Rightarrow> nat \<Rightarrow> lifecycle \<Rightarrow>
   lifecycle \<times> nat option" where
  "child_exit closed c g cause first signal l =
     (if closed then (l, None)
      else if lc_state l = Failed then ((no_backoff (no_start l))\<lparr>lc_active := None\<rparr>, None)
      else if \<not> (lc_active l = Some g \<or> lc_state l = BackingOff \<and> lc_backoff_owner l = Some g) then (l, None)
      else let l1 = l\<lparr>lc_active := None, lc_stop_error := None\<rparr> in
        if lc_state l = Stopping
        then (case lc_stop_error l of
            Some source \<Rightarrow> ((no_backoff (no_start l1))\<lparr>lc_error := Some (StopFailure source), lc_state := Failed\<rparr>, None)
          | None \<Rightarrow> ((no_backoff (no_start l1))\<lparr>lc_restarts := 0, lc_error := None, lc_state := Idle\<rparr>, None))
        else if lc_restarts l \<ge> sc_max_restarts c
        then ((no_backoff l1)\<lparr>lc_error := Some (RestartLimitExceeded (sc_max_restarts c) cause), lc_state := Failed\<rparr>, None)
        else (l1\<lparr>lc_restarts := lc_restarts l + 1, lc_backoff_owner := Some g, lc_backoff_signal := Some signal,
                 lc_error := Some (if first then UnexpectedExit cause else RestartFailure cause),
                 lc_state := BackingOff\<rparr>, Some (delay_for c (lc_restarts l + 1))))"

definition clear_backoff :: "u64 \<Rightarrow> lifecycle \<Rightarrow> lifecycle" where
  "clear_backoff g l =
     (if lc_backoff_owner l = Some g \<and> lc_state l = BackingOff
      then (no_backoff l)\<lparr>lc_restarts := 0, lc_error := None, lc_state := Idle\<rparr> else l)"

definition begin_replacement :: "bool \<Rightarrow> u64 \<Rightarrow> nat \<Rightarrow> lifecycle \<Rightarrow> (lifecycle \<times> u64) option" where
  "begin_replacement closed g signal l =
     (if closed \<or> lc_state l \<noteq> BackingOff \<or> lc_backoff_owner l \<noteq> Some g then None
      else Some ((no_backoff l)\<lparr>lc_next := lc_next l + 1, lc_starting := Some (lc_next l),
             lc_start_signal := Some signal, lc_error := None, lc_state := Starting\<rparr>, lc_next l))"

text \<open>The factory failed for the replacement \<open>r\<close> of \<open>g\<close>: the flag says whether the loop goes on.\<close>

definition replacement_failed ::
  "bool \<Rightarrow> supervisor_config \<Rightarrow> u64 \<Rightarrow> u64 \<Rightarrow> process_error \<Rightarrow> nat \<Rightarrow> lifecycle \<Rightarrow> lifecycle \<times> bool" where
  "replacement_failed closed c g r source signal l =
     (if closed \<or> lc_state l \<noteq> Starting \<or> lc_starting l \<noteq> Some r then (l, False)
      else if lc_restarts l \<ge> sc_max_restarts c
      then ((no_backoff (no_start l))\<lparr>lc_error := Some (RestartLimitExceeded (sc_max_restarts c) (Some source)),
              lc_state := Failed\<rparr>, False)
      else ((no_start l)\<lparr>lc_backoff_owner := Some g, lc_backoff_signal := Some signal,
              lc_error := Some (RestartFailure (Some source)), lc_state := BackingOff\<rparr>, True))"

text \<open>\<open>verify_connection\<close>, with the children's own check.\<close>

definition verify_connection :: "(u64 \<Rightarrow> bool) \<Rightarrow> lifecycle \<Rightarrow> bool" where
  "verify_connection owns l \<longleftrightarrow>
     lc_state l = Running \<and> (case lc_active l of None \<Rightarrow> False | Some g \<Rightarrow> owns g)"

section \<open>The tasks\<close>

text \<open>
  Where a spawned task is: waiting for the factory (\<open>InitialStart\<close>, \<open>Replacing\<close> of the child
  \<open>g\<close> by \<open>r\<close>), for the forced stop of a late child, spawned as a monitor but not yet run, in
  the monitor's loop with what it has handled, whether an error stands, whether it has seen the
  shutdown and whether it subscribed early enough to see it, waiting for a stop it issued, past
  it, waiting for the forced stop of a shutdown or for a stop after the exit, about to take the lock after the exit, in the
  backoff, after it, about to clear it, or about to cancel the start of a caller that has gone.
\<close>

datatype runtime_task =
    NoTask
  | InitialStart u64
  | Replacing u64 u64 bool
  | LateStop u64
  | Spawned u64
  | Watching u64 nat bool bool bool
  | Issuing u64 nat nat bool
  | Issued u64 nat bool
  | Forcing u64
  | LastIssuing u64 "process_error option" bool
  | Exiting u64 "process_error option" bool bool
  | Waiting u64 nat bool
  | WaitOver u64 bool
  | Clearing u64
  | CallerGone u64

record supervisor =
  sp_life :: lifecycle
  sp_modes :: "u64 \<Rightarrow> nat"
  sp_permits :: "u64 \<Rightarrow> bool"
  sp_notified :: "nat \<Rightarrow> bool"
  sp_callers :: "u64 \<Rightarrow> nat option"
  sp_next_signal :: nat
  sp_closed :: bool
  sp_shutdown :: bool
  sp_tasks :: "nat \<Rightarrow> runtime_task"
  sp_users :: nat
  sp_starts :: nat

text \<open>
  \<open>sp_callers\<close> are the pending calls of \<open>start\<close>, by generation, with their start signal.
  \<open>sp_users\<close> counts accepted calls of \<open>start\<close>, \<open>sp_starts\<close> calls of the process factory.
\<close>

definition supervisor_new :: supervisor where
  "supervisor_new = \<lparr>sp_life = lifecycle_new, sp_modes = (\<lambda>_. STOP_NONE), sp_permits = (\<lambda>_. False),
     sp_notified = (\<lambda>_. False), sp_callers = (\<lambda>_. None), sp_next_signal = 0, sp_closed = False, sp_shutdown = False,
     sp_tasks = (\<lambda>_. NoTask), sp_users = 0, sp_starts = 0\<rparr>"

definition supervisor_create :: "supervisor_config \<Rightarrow> config_error + supervisor" where
  "supervisor_create c = seq (validate_config c) (Inr supervisor_new)"

definition set_task :: "nat \<Rightarrow> runtime_task \<Rightarrow> supervisor \<Rightarrow> supervisor" where
  "set_task i t S = S\<lparr>sp_tasks := (sp_tasks S)(i := t)\<rparr>"

definition set_life :: "lifecycle \<Rightarrow> supervisor \<Rightarrow> supervisor" where
  "set_life l S = S\<lparr>sp_life := l\<rparr>"

definition apply_effect :: "section_effect \<Rightarrow> supervisor \<Rightarrow> supervisor" where
  "apply_effect e S =
     (case e of
        NoEffect \<Rightarrow> S
      | Wake n \<Rightarrow> S\<lparr>sp_notified := (sp_notified S)(n := True)\<rparr>
      | StopChild g mode \<Rightarrow>
          S\<lparr>sp_modes := (sp_modes S)(g := mode), sp_permits := (sp_permits S)(g := True)\<rparr>)"

definition new_signal :: "supervisor \<Rightarrow> supervisor" where
  "new_signal S = S\<lparr>sp_next_signal := sp_next_signal S + 1\<rparr>"

definition new_child :: "u64 \<Rightarrow> supervisor \<Rightarrow> supervisor" where
  "new_child g S = S\<lparr>sp_modes := (sp_modes S)(g := STOP_NONE), sp_permits := (sp_permits S)(g := False)\<rparr>"

definition count_start :: "supervisor \<Rightarrow> supervisor" where
  "count_start S = S\<lparr>sp_starts := sp_starts S + 1\<rparr>"

text \<open>
  One step. Callers act while the supervisor exists; a call of \<open>start\<close> returns when its task
  has answered or its signal was woken, or its caller drops it before.
\<close>

inductive supervisor_step :: "supervisor_config \<Rightarrow> supervisor \<Rightarrow> supervisor \<Rightarrow> bool"
  for c :: supervisor_config where
  user_start: "\<not> sp_closed S \<Longrightarrow> start_section (sp_next_signal S) (sp_life S) = Inr (l, g) \<Longrightarrow>
    sp_tasks S i = NoTask \<Longrightarrow>
    supervisor_step c S ((set_task i (InitialStart g) (count_start (new_signal (set_life l S))))
      \<lparr>sp_users := sp_users S + 1, sp_callers := (sp_callers S)(g := Some (sp_next_signal S))\<rparr>)"
| start_returned: "sp_callers S g = Some n \<Longrightarrow>
    sp_notified S n \<or> (\<forall>i. sp_tasks S i \<noteq> InitialStart g \<and> sp_tasks S i \<noteq> LateStop g) \<Longrightarrow>
    supervisor_step c S (S\<lparr>sp_callers := (sp_callers S)(g := None)\<rparr>)"
| user_stop: "\<not> sp_closed S \<Longrightarrow> mode \<in> {STOP_GRACEFUL, STOP_FORCE} \<Longrightarrow>
    request_stop mode (sp_modes S) (sp_life S) = (l, e, r) \<Longrightarrow>
    supervisor_step c S (apply_effect e (set_life l S))"
| caller_dropped: "sp_callers S g = Some n \<Longrightarrow> sp_tasks S i = NoTask \<Longrightarrow>
    supervisor_step c S ((set_task i (CallerGone g) S)\<lparr>sp_callers := (sp_callers S)(g := None)\<rparr>)"
| caller_gone: "sp_tasks S i = CallerGone g \<Longrightarrow> cancel_start_after_caller_drop g (sp_life S) = (l, e) \<Longrightarrow>
    supervisor_step c S (set_task i NoTask (apply_effect e (set_life l S)))"
| drop_close: "supervisor_step c S (S\<lparr>sp_closed := True\<rparr>)"
| drop_shutdown: "sp_closed S \<Longrightarrow> supervisor_step c S (S\<lparr>sp_shutdown := True\<rparr>)"
| started: "sp_tasks S i = InitialStart g \<Longrightarrow> finish_start (sp_closed S) g (sp_life S) = (l, True) \<Longrightarrow>
    supervisor_step c S (set_task i (Spawned g) (new_child g (set_life l S)))"
| started_late: "sp_tasks S i = InitialStart g \<Longrightarrow> finish_start (sp_closed S) g (sp_life S) = (l, False) \<Longrightarrow>
    supervisor_step c S (set_task i (LateStop g) S)"
| not_started: "sp_tasks S i = InitialStart g \<Longrightarrow> start_refused (sp_closed S) g source (sp_life S) = (l, r) \<Longrightarrow>
    supervisor_step c S (set_task i NoTask (set_life l S))"
| late_stopped: "sp_tasks S i = LateStop g \<Longrightarrow>
    supervisor_step c S (set_task i NoTask (set_life (stop_late_child g result (sp_life S)) S))"
| subscribe: "sp_tasks S i = Spawned g \<Longrightarrow>
    supervisor_step c S (set_task i (Watching g STOP_NONE False False (\<not> sp_shutdown S)) S)"
| issue: "sp_tasks S i = Watching g handled False False sees \<Longrightarrow> handled < sp_modes S g \<Longrightarrow>
    supervisor_step c S (set_task i (Issuing g (sp_modes S g) handled sees) S)"
| upgrade: "sp_tasks S i = Issuing g STOP_GRACEFUL handled sees \<Longrightarrow> sp_modes S g = STOP_FORCE \<Longrightarrow>
    supervisor_step c S (set_task i (Issuing g STOP_FORCE handled sees) S)"
| upgrade_signalled: "sp_tasks S i = Issuing g STOP_GRACEFUL handled sees \<Longrightarrow> sp_modes S g = STOP_FORCE \<Longrightarrow>
    sp_permits S g \<Longrightarrow>
    supervisor_step c S ((set_task i (Issuing g STOP_FORCE handled sees) S)\<lparr>sp_permits := (sp_permits S)(g := False)\<rparr>)"
| stop_accepted: "sp_tasks S i = Issuing g mode handled sees \<Longrightarrow>
    \<not> (mode = STOP_GRACEFUL \<and> sp_modes S g = STOP_FORCE) \<Longrightarrow>
    supervisor_step c S (set_task i (Issued g mode sees) S)"
| issued: "sp_tasks S i = Issued g mode sees \<Longrightarrow>
    supervisor_step c S (set_task i (Watching g (max (sp_modes S g) mode) False False sees) S)"
| issue_failed: "sp_tasks S i = Issuing g mode handled sees \<Longrightarrow>
    supervisor_step c S
      (set_task i (Watching g handled True False sees) (set_life (record_stop_error g e (sp_life S)) S))"
| stop_signalled: "sp_tasks S i = Watching g handled err False sees \<Longrightarrow> sp_permits S g \<Longrightarrow>
    supervisor_step c S
      ((set_task i (Watching g handled (err \<and> \<not> handled < sp_modes S g) False sees) S)
        \<lparr>sp_permits := (sp_permits S)(g := False)\<rparr>)"
| see_shutdown: "sp_tasks S i = Watching g handled err False True \<Longrightarrow> sp_shutdown S \<Longrightarrow>
    supervisor_step c S ((set_task i (Forcing g) S)\<lparr>sp_modes := (sp_modes S)(g := STOP_FORCE)\<rparr>)"
| shutdown_in_stop: "sp_tasks S i = Issuing g STOP_GRACEFUL handled True \<Longrightarrow> sp_shutdown S \<Longrightarrow>
    supervisor_step c S ((set_task i (Issuing g STOP_FORCE handled False) S)\<lparr>sp_modes := (sp_modes S)(g := STOP_FORCE)\<rparr>)"
| forced: "sp_tasks S i = Forcing g \<Longrightarrow>
    supervisor_step c S (set_task i (Watching g STOP_FORCE False True False) S)"
| force_failed: "sp_tasks S i = Forcing g \<Longrightarrow>
    supervisor_step c S (set_task i (Watching g STOP_FORCE False True False)
      (set_life (record_stop_error g e (sp_life S)) S))"
| exited: "sp_tasks S i = Watching g handled err seen sees \<Longrightarrow>
    \<not> (handled < sp_modes S g \<and> \<not> err \<and> \<not> seen) \<Longrightarrow>
    supervisor_step c S (set_task i (Exiting g cause True sees) S)"
| exited_in_stop: "sp_tasks S i = Watching g handled False False sees \<Longrightarrow> handled < sp_modes S g \<Longrightarrow>
    supervisor_step c S (set_task i (LastIssuing g cause sees) S)"
| last_issued: "sp_tasks S i = LastIssuing g cause sees \<Longrightarrow>
    supervisor_step c S (set_task i (Exiting g cause True sees) S)"
| last_issue_failed: "sp_tasks S i = LastIssuing g cause sees \<Longrightarrow>
    supervisor_step c S
      (set_task i (Exiting g cause True sees) (set_life (record_stop_error g e (sp_life S)) S))"
| exit_done: "sp_tasks S i = Exiting g cause first sees \<Longrightarrow>
    child_exit (sp_closed S) c g cause first (sp_next_signal S) (sp_life S) = (l, None) \<Longrightarrow>
    supervisor_step c S (set_task i NoTask (set_life l S))"
| exit_backoff: "sp_tasks S i = Exiting g cause first sees \<Longrightarrow>
    child_exit (sp_closed S) c g cause first (sp_next_signal S) (sp_life S) = (l, Some delay) \<Longrightarrow>
    supervisor_step c S (set_task i (Waiting g (sp_next_signal S) sees) (new_signal (set_life l S)))"
| backoff_elapsed: "sp_tasks S i = Waiting g signal sees \<Longrightarrow>
    supervisor_step c S (set_task i (WaitOver g sees) S)"
| backoff_signalled: "sp_tasks S i = Waiting g signal sees \<Longrightarrow> sp_notified S signal \<or> sees \<and> sp_shutdown S \<Longrightarrow>
    supervisor_step c S (set_task i (Clearing g) S)"
| backoff_cleared: "sp_tasks S i = Clearing g \<Longrightarrow>
    supervisor_step c S (set_task i NoTask (set_life (clear_backoff g (sp_life S)) S))"
| replace: "sp_tasks S i = WaitOver g sees \<Longrightarrow>
    begin_replacement (sp_closed S) g (sp_next_signal S) (sp_life S) = Some (l, r) \<Longrightarrow>
    supervisor_step c S (set_task i (Replacing g r sees) (count_start (new_signal (set_life l S))))"
| replace_refused: "sp_tasks S i = WaitOver g sees \<Longrightarrow>
    begin_replacement (sp_closed S) g (sp_next_signal S) (sp_life S) = None \<Longrightarrow>
    supervisor_step c S (set_task i NoTask S)"
| replaced: "sp_tasks S i = Replacing g r sees \<Longrightarrow> finish_start (sp_closed S) r (sp_life S) = (l, True) \<Longrightarrow>
    supervisor_step c S (set_task i (Spawned r) (new_child r (set_life l S)))"
| replaced_late: "sp_tasks S i = Replacing g r sees \<Longrightarrow> finish_start (sp_closed S) r (sp_life S) = (l, False) \<Longrightarrow>
    supervisor_step c S (set_task i (LateStop r) S)"
| not_replaced: "sp_tasks S i = Replacing g r sees \<Longrightarrow>
    replacement_failed (sp_closed S) c g r source (sp_next_signal S) (sp_life S) = (l, goes_on) \<Longrightarrow>
    supervisor_step c S (set_task i (if goes_on then Exiting g (Some source) False sees else NoTask)
      (new_signal (set_life l S)))"

inductive supervisor_run :: "supervisor_config \<Rightarrow> supervisor \<Rightarrow> nat \<Rightarrow> supervisor \<Rightarrow> bool"
  for c :: supervisor_config and S0 :: supervisor where
  run_none: "supervisor_run c S0 0 S0"
| run_more: "supervisor_run c S0 n S \<Longrightarrow> supervisor_step c S S' \<Longrightarrow> supervisor_run c S0 (Suc n) S'"

end
