(* ===== verification/Supervisor_Correct.thy ===== *)
theory Supervisor_Correct
  imports Supervisor
begin

text \<open>
  The supervisor's guarantees over every interleaving of callers, tasks and adapter answers, and
  the two ways in which it loses a live child.
\<close>

section \<open>What a task is to the supervisor\<close>

datatype role = NoRole | Starter u64 "u64 option" | Late u64 | Keeper u64 | Leaver u64 | Pauser u64

fun task_role :: "runtime_task \<Rightarrow> role" where
  "task_role NoTask = NoRole"
| "task_role (InitialStart g) = Starter g None"
| "task_role (Replacing g r _) = Starter r (Some g)"
| "task_role (LateStop g) = Late g"
| "task_role (Spawned g) = Keeper g"
| "task_role (Watching g _ _ _ _) = Keeper g"
| "task_role (Issuing g _ _ _) = Keeper g"
| "task_role (Issued g _ _) = Keeper g"
| "task_role (Forcing g) = Keeper g"
| "task_role (LastIssuing g _ _) = Leaver g"
| "task_role (Exiting g _ _ _) = Leaver g"
| "task_role (Waiting g _ _) = Pauser g"
| "task_role (WaitOver g _) = Pauser g"
| "task_role (Clearing g) = Pauser g"
| "task_role (CallerGone g) = NoRole"

text \<open>A holder has, or may be about to have, a child that is alive.\<close>

fun child_holder :: "role \<Rightarrow> bool" where
  "child_holder (Starter _ _) = True" | "child_holder (Late _) = True" | "child_holder (Keeper _) = True" | "child_holder _ = False"

fun gens :: "role \<Rightarrow> u64 set" where
  "gens NoRole = {}"
| "gens (Starter g m) = insert g (set_option m)"
| "gens (Late g) = {g}"
| "gens (Keeper g) = {g}"
| "gens (Leaver g) = {g}"
| "gens (Pauser g) = {g}"

definition roles :: "supervisor \<Rightarrow> nat \<Rightarrow> role" where
  "roles S i = task_role (sp_tasks S i)"

text \<open>The generations in use are below the next one and used by one task each.\<close>

definition gens_ok :: "u64 \<Rightarrow> (nat \<Rightarrow> role) \<Rightarrow> bool" where
  "gens_ok next R \<longleftrightarrow> (\<forall>i. \<forall>g \<in> gens (R i). g < next) \<and> (\<forall>i j. i \<noteq> j \<longrightarrow> gens (R i) \<inter> gens (R j) = {})"

definition one_holder :: "(nat \<Rightarrow> role) \<Rightarrow> bool" where
  "one_holder R \<longleftrightarrow> (\<forall>i j. child_holder (R i) \<longrightarrow> child_holder (R j) \<longrightarrow> i = j)"

text \<open>What a holder is in each state of the lifecycle.\<close>

definition held_as :: "lifecycle \<Rightarrow> role \<Rightarrow> bool" where
  "held_as l r \<longleftrightarrow>
     (case lc_state l of
        Idle \<Rightarrow> False
      | BackingOff \<Rightarrow> False
      | Starting \<Rightarrow> (\<exists>g. lc_starting l = Some g \<and> ((\<exists>m. r = Starter g m) \<or> r = Late g))
      | Running \<Rightarrow> (\<exists>g. lc_active l = Some g \<and> r = Keeper g)
      | Stopping \<Rightarrow> (\<exists>g. lc_active l = Some g \<and> r = Keeper g)
      | Failed \<Rightarrow> True)"

definition life_ok :: "supervisor_config \<Rightarrow> lifecycle \<Rightarrow> bool" where
  "life_ok c l \<longleftrightarrow> lc_restarts l \<le> sc_max_restarts c \<and>
     (lc_state l \<in> {Running, Stopping} \<longrightarrow> lc_active l \<noteq> None) \<and>
     (lc_state l \<in> {Idle, Starting, BackingOff} \<longrightarrow> lc_active l = None)"

definition monitored :: "lifecycle \<Rightarrow> (nat \<Rightarrow> role) \<Rightarrow> bool" where
  "monitored l R \<longleftrightarrow>
     (lc_state l \<in> {Running, Stopping} \<longrightarrow> (\<exists>i g. lc_active l = Some g \<and> (R i = Keeper g \<or> R i = Leaver g)))"

definition backoff_awaited :: "lifecycle \<Rightarrow> (nat \<Rightarrow> role) \<Rightarrow> bool" where
  "backoff_awaited l R \<longleftrightarrow> (\<exists>i g. lc_backoff_owner l = Some g \<and> R i = Pauser g)"

text \<open>How many more times the factory may still be called before the next call of \<open>start\<close>.\<close>

definition slack :: "supervisor_config \<Rightarrow> lifecycle \<Rightarrow> (nat \<Rightarrow> role) \<Rightarrow> nat" where
  "slack c l R =
     (case lc_state l of
        Idle \<Rightarrow> 0 | Failed \<Rightarrow> 0
      | BackingOff \<Rightarrow> sc_max_restarts c - lc_restarts l + of_bool (backoff_awaited l R)
      | _ \<Rightarrow> sc_max_restarts c - lc_restarts l)"

definition view_ok ::
  "supervisor_config \<Rightarrow> bool \<Rightarrow> lifecycle \<Rightarrow> (nat \<Rightarrow> role) \<Rightarrow> nat \<Rightarrow> nat \<Rightarrow> bool" where
  "view_ok c closed l R starts users \<longleftrightarrow>
     life_ok c l \<and> gens_ok (lc_next l) R \<and> one_holder R \<and> (\<forall>i. child_holder (R i) \<longrightarrow> held_as l (R i)) \<and>
     (\<not> closed \<longrightarrow> monitored l R) \<and> starts + slack c l R \<le> (sc_max_restarts c + 1) * users"

definition supervisor_inv :: "supervisor_config \<Rightarrow> supervisor \<Rightarrow> bool" where
  "supervisor_inv c S \<longleftrightarrow>
     view_ok c (sp_closed S) (sp_life S) (roles S) (sp_starts S) (sp_users S)"

lemma roles_set_task [simp]: "roles (set_task i t S) = (roles S)(i := task_role t)"
  by (auto simp: roles_def set_task_def)

lemma supervisor_simps [simp]:
  "sp_life (set_task i t S) = sp_life S" "sp_closed (set_task i t S) = sp_closed S"
  "sp_starts (set_task i t S) = sp_starts S" "sp_users (set_task i t S) = sp_users S"
  "sp_life (set_life l S) = l" "sp_closed (set_life l S) = sp_closed S" "roles (set_life l S) = roles S"
  "sp_starts (set_life l S) = sp_starts S" "sp_users (set_life l S) = sp_users S"
  "sp_life (new_signal S) = sp_life S" "sp_closed (new_signal S) = sp_closed S" "roles (new_signal S) = roles S"
  "sp_starts (new_signal S) = sp_starts S" "sp_users (new_signal S) = sp_users S"
  "sp_life (new_child g S) = sp_life S" "sp_closed (new_child g S) = sp_closed S" "roles (new_child g S) = roles S"
  "sp_starts (new_child g S) = sp_starts S" "sp_users (new_child g S) = sp_users S"
  "sp_life (count_start S) = sp_life S" "sp_closed (count_start S) = sp_closed S" "roles (count_start S) = roles S"
  "sp_starts (count_start S) = sp_starts S + 1" "sp_users (count_start S) = sp_users S"
  "sp_life (apply_effect e S) = sp_life S" "sp_closed (apply_effect e S) = sp_closed S"
  "roles (apply_effect e S) = roles S"
  "sp_starts (apply_effect e S) = sp_starts S" "sp_users (apply_effect e S) = sp_users S"
  by (simp_all add: set_task_def set_life_def new_signal_def new_child_def count_start_def apply_effect_def
      roles_def fun_eq_iff split: section_effect.split)

lemma roles_updates [simp]:
  "roles (S\<lparr>sp_modes := x\<rparr>) = roles S" "roles (S\<lparr>sp_permits := y\<rparr>) = roles S"
  "roles (S\<lparr>sp_users := n\<rparr>) = roles S" "roles (S\<lparr>sp_callers := z\<rparr>) = roles S" "roles (S\<lparr>sp_closed := b\<rparr>) = roles S" "roles (S\<lparr>sp_shutdown := b\<rparr>) = roles S"
  by (simp_all add: roles_def fun_eq_iff)

section \<open>Moves of one task\<close>

text \<open>A task that gives up rights: same generations or fewer, no new child_holder, no new wait.\<close>

definition weaker :: "role \<Rightarrow> role \<Rightarrow> bool" where
  "weaker r r' \<longleftrightarrow> r' = r \<or> (\<exists>g. r = Keeper g \<and> r' = Leaver g) \<or> (\<exists>g m. r = Starter g m \<and> r' = Late g) \<or>
     (\<exists>g. r = Pauser g \<and> r' = NoRole) \<or> (\<exists>g. r = Late g \<and> r' = NoRole) \<or> (\<exists>g m. r = Starter g m \<and> r' = NoRole)"

lemma weaker_gens: "weaker r r' \<Longrightarrow> gens r' \<subseteq> gens r"
  by (auto simp: weaker_def)

lemma weaker_holder: "weaker r r' \<Longrightarrow> child_holder r' \<Longrightarrow> child_holder r"
  by (auto simp: weaker_def)

lemma weaker_held: "weaker r r' \<Longrightarrow> child_holder r' \<Longrightarrow> held_as l r \<Longrightarrow> held_as l r'"
  by (auto simp: weaker_def held_as_def split: supervisor_state.splits)

lemma gens_ok_weaker: "gens_ok n R \<Longrightarrow> weaker (R i) r \<Longrightarrow> gens_ok n (R(i := r))"
  unfolding gens_ok_def using weaker_gens [of "R i" r] by (auto; blast)

lemma one_holder_weaker: "one_holder R \<Longrightarrow> weaker (R i) r \<Longrightarrow> one_holder (R(i := r))"
  unfolding one_holder_def using weaker_holder [of "R i" r] by auto

lemma backoff_awaited_weaker: "backoff_awaited l (R(i := r)) \<Longrightarrow> weaker (R i) r \<Longrightarrow> backoff_awaited l R"
  by (auto simp: backoff_awaited_def weaker_def split: if_splits)

lemma slack_weaker: "weaker (R i) r \<Longrightarrow> slack c l (R(i := r)) \<le> slack c l R"
  using backoff_awaited_weaker [of l R i r] by (auto simp: slack_def split: supervisor_state.split)

lemma slack_drop: "\<forall>g. r \<noteq> Pauser g \<Longrightarrow> slack c l (R(i := r)) \<le> slack c l R"
proof -
  assume r: "\<forall>g. r \<noteq> Pauser g"
  have "backoff_awaited l (R(i := r)) \<Longrightarrow> backoff_awaited l R"
    using r by (auto simp: backoff_awaited_def split: if_splits)
  then show ?thesis by (auto simp: slack_def split: supervisor_state.split)
qed

lemma monitored_weaker:
  assumes "monitored l R" "weaker (R i) r"
  shows "monitored l (R(i := r))"
proof -
  have "r = Keeper g \<or> r = Leaver g" if "R i = Keeper g \<or> R i = Leaver g" for g
    using that assms(2) by (auto simp: weaker_def)
  with assms(1) show ?thesis by (fastforce simp: monitored_def)
qed

lemma view_weaker:
  assumes v: "view_ok c closed l R starts users" and w: "weaker (R i) r"
  shows "view_ok c closed l (R(i := r)) starts users"
  unfolding view_ok_def
proof (intro conjI allI impI)
  show "life_ok c l" using v by (simp add: view_ok_def)
  show "gens_ok (lc_next l) (R(i := r))" using v w by (intro gens_ok_weaker) (simp_all add: view_ok_def)
  show "one_holder (R(i := r))" using v w by (intro one_holder_weaker) (simp_all add: view_ok_def)
  show "held_as l ((R(i := r)) j)" if "child_holder ((R(i := r)) j)" for j
    using that v weaker_holder [OF w] weaker_held [OF w] by (cases "j = i") (auto simp: view_ok_def)
  show "monitored l (R(i := r))" if "\<not> closed"
    using v w that by (intro monitored_weaker) (simp_all add: view_ok_def)
  show "starts + slack c l (R(i := r)) \<le> (sc_max_restarts c + 1) * users"
    using v slack_weaker [of R i r c l, OF w] by (simp add: view_ok_def)
qed

lemma view_closed: "view_ok c closed l R starts users \<Longrightarrow> view_ok c True l R starts users"
  by (simp add: view_ok_def)

section \<open>The sections\<close>

text \<open>Sections that end in \<open>Failed\<close>, or in \<open>Idle\<close> with no child_holder left, keep the invariant.\<close>

lemma view_failed:
  assumes "view_ok c closed l R starts users" "lc_state l' = Failed" "lc_restarts l' = lc_restarts l"
    "lc_next l' = lc_next l"
  shows "view_ok c closed l' R starts users"
  using assms by (auto simp: view_ok_def life_ok_def held_as_def monitored_def slack_def)

lemma view_idle:
  assumes "view_ok c closed l R starts users" "lc_state l' = Idle" "lc_restarts l' = 0"
    "lc_next l' = lc_next l" "lc_active l' = None" "\<And>i. \<not> child_holder (R i)"
  shows "view_ok c closed l' R starts users"
  using assms by (auto simp: view_ok_def life_ok_def held_as_def monitored_def slack_def)

lemma no_holder:
  "view_ok c closed l R starts users \<Longrightarrow> lc_state l \<in> {Idle, BackingOff} \<Longrightarrow> \<not> child_holder (R i)"
  by (auto simp: view_ok_def held_as_def)

lemma no_parts [simp]:
  "lc_state (no_backoff l) = lc_state l" "lc_restarts (no_backoff l) = lc_restarts l"
  "lc_next (no_backoff l) = lc_next l" "lc_active (no_backoff l) = lc_active l"
  "lc_starting (no_backoff l) = lc_starting l" "lc_backoff_owner (no_backoff l) = None"
  "lc_state (no_start l) = lc_state l" "lc_restarts (no_start l) = lc_restarts l"
  "lc_next (no_start l) = lc_next l" "lc_active (no_start l) = lc_active l"
  "lc_backoff_owner (no_start l) = lc_backoff_owner l" "lc_starting (no_start l) = None"
  by (simp_all add: no_backoff_def no_start_def)

lemma view_record_stop_error:
  "view_ok c closed l R starts users \<Longrightarrow> view_ok c closed (record_stop_error g e l) R starts users"
  by (auto simp: record_stop_error_def intro: view_failed)

lemma view_stop_late_child:
  "view_ok c closed l R starts users \<Longrightarrow> view_ok c closed (stop_late_child g r l) R starts users"
  by (auto simp: stop_late_child_def intro: view_failed)

text \<open>The child becomes the subject of a stop: \<open>Running\<close> or \<open>Stopping\<close> to \<open>Stopping\<close>.\<close>

lemma view_stopping:
  assumes "view_ok c closed l R starts users" "lc_state l \<in> {Running, Stopping}" "lc_state l' = Stopping"
    "lc_restarts l' = lc_restarts l" "lc_next l' = lc_next l" "lc_active l' = lc_active l"
  shows "view_ok c closed l' R starts users"
  using assms by (auto simp: view_ok_def life_ok_def held_as_def monitored_def slack_def split: supervisor_state.splits)

lemma view_caller_dropped:
  assumes "view_ok c closed l R starts users" "cancel_start_after_caller_drop g l = (l', e)"
  shows "view_ok c closed l' R starts users"
  using assms by (auto simp: cancel_start_after_caller_drop_def split: if_splits intro: view_failed view_stopping)

lemma view_request_stop:
  assumes "view_ok c closed l R starts users" "request_stop mode modes l = (l', e, r)"
  shows "view_ok c closed l' R starts users"
proof -
  have idle: "view_ok c closed ((no_backoff l)\<lparr>lc_restarts := 0, lc_error := None, lc_state := Idle\<rparr>) R starts users"
    if "lc_state l = BackingOff"
    by (rule view_idle [OF assms(1)])
      (use that assms(1) no_holder [OF assms(1)] in \<open>auto simp: view_ok_def life_ok_def\<close>)
  show ?thesis
    using assms idle by (cases "lc_state l")
      (auto simp: request_stop_def split: if_splits option.splits intro: view_failed view_stopping)
qed

lemma view_clear_backoff:
  assumes "view_ok c closed l R starts users"
  shows "view_ok c closed (clear_backoff g l) R starts users"
proof -
  have "view_ok c closed ((no_backoff l)\<lparr>lc_restarts := 0, lc_error := None, lc_state := Idle\<rparr>) R starts users"
    if "lc_state l = BackingOff"
    by (rule view_idle [OF assms])
      (use that assms no_holder [OF assms] in \<open>auto simp: view_ok_def life_ok_def\<close>)
  with assms show ?thesis by (simp add: clear_backoff_def)
qed

lemma view_refused:
  assumes "view_ok c closed l R starts users" "start_refused closed g source l = (l', r)"
  shows "view_ok c closed l' R starts users"
  using assms by (auto simp: start_refused_def split: if_splits intro: view_failed)

text \<open>A new generation: nothing holds a child, and the task that starts it holds the right to.\<close>

lemma gens_ok_new:
  assumes "gens_ok n R" "gens r \<subseteq> insert n (gens (R i))" "n < n + 1"
  shows "gens_ok (n + 1) (R(i := r))"
proof -
  have below: "g < n" if "g \<in> gens (R j)" for g j using assms(1) that by (auto simp: gens_ok_def)
  have new: "n \<notin> gens (R j)" for j using below by auto
  have "g < n + 1" if "g \<in> gens ((R(i := r)) j)" for g j
  proof -
    have "g = n \<or> (\<exists>k. g \<in> gens (R k))" using that assms(2) by (cases "j = i") auto
    then show ?thesis using below assms(3) less_trans by metis
  qed
  moreover have "gens ((R(i := r)) j) \<inter> gens ((R(i := r)) k) = {}" if "j \<noteq> k" for j k
  proof -
    have apart: "gens r \<inter> gens (R m) = {}" if "m \<noteq> i" for m
    proof -
      have "gens (R i) \<inter> gens (R m) = {}" using assms(1) that by (simp add: gens_ok_def)
      with assms(2) new [of m] show ?thesis by blast
    qed
    have "gens (R j) \<inter> gens (R k) = {}" using assms(1) that by (simp add: gens_ok_def)
    then show ?thesis
      using that apart [of j] apart [of k] by (cases "j = i"; cases "k = i") (simp_all add: Int_commute)
  qed
  ultimately show ?thesis by (auto simp: gens_ok_def)
qed

lemma view_start:
  assumes v: "view_ok c closed l R starts users" and r: "start_section signal l = Inr (l', g)"
    and n: "lc_next l < lc_next l + 1" and i: "R i = NoRole"
  shows "view_ok c closed l' (R(i := Starter g None)) (starts + 1) (users + 1)"
proof -
  have l: "lc_state l = Idle" "g = lc_next l" "lc_state l' = Starting" "lc_starting l' = Some g" "lc_active l' = None"
    "lc_restarts l' = 0" "lc_next l' = lc_next l + 1"
    using r by (auto simp: start_section_def split: supervisor_state.splits)
  note none = no_holder [OF v]
  have "gens_ok (lc_next l') (R(i := Starter g None))"
    unfolding l(7) by (rule gens_ok_new) (use v n l(2) in \<open>auto simp: view_ok_def\<close>)
  moreover have "starts + slack c l' (R(i := Starter g None)) + 1 \<le> (sc_max_restarts c + 1) * (users + 1)"
    using v l by (simp add: view_ok_def slack_def)
  ultimately show ?thesis
    using none l by (auto simp: view_ok_def life_ok_def held_as_def one_holder_def monitored_def)
qed

lemma view_replacement:
  assumes v: "view_ok c closed l R starts users" and r: "begin_replacement closed g signal l = Some (l', g')"
    and n: "lc_next l < lc_next l + 1" and i: "R i = Pauser g"
  shows "view_ok c closed l' (R(i := Starter g' (Some g))) (starts + 1) users"
proof -
  have l: "lc_state l = BackingOff" "lc_backoff_owner l = Some g" "g' = lc_next l" "lc_state l' = Starting"
    "lc_starting l' = Some g'" "lc_active l' = lc_active l" "lc_restarts l' = lc_restarts l" "lc_next l' = lc_next l + 1"
    using r by (auto simp: begin_replacement_def split: if_splits)
  note none = no_holder [OF v]
  have "gens_ok (lc_next l') (R(i := Starter g' (Some g)))"
    unfolding l(8) by (rule gens_ok_new) (use v n i l(3) in \<open>auto simp: view_ok_def\<close>)
  moreover have "backoff_awaited l R" using i l(2) by (auto simp: backoff_awaited_def)
  then have "starts + slack c l' (R(i := Starter g' (Some g))) + 1 \<le> (sc_max_restarts c + 1) * users"
    using v l by (simp add: view_ok_def slack_def)
  ultimately show ?thesis
    using none l v by (auto simp: view_ok_def life_ok_def held_as_def one_holder_def monitored_def)
qed

text \<open>The factory's child is attached: the starter becomes the keeper.\<close>

lemma view_attach:
  assumes v: "view_ok c closed l R starts users" and r: "finish_start closed g l = (l', True)"
    and i: "R i = Starter g m"
  shows "view_ok c closed l' (R(i := Keeper g)) starts users"
proof -
  have l: "lc_state l = Starting" "lc_state l' = Running" "lc_active l' = Some g" "lc_restarts l' = lc_restarts l"
    "lc_next l' = lc_next l"
    using r by (auto simp: finish_start_def attach_child_def split: if_splits)
  have only: "\<not> child_holder (R j)" if "j \<noteq> i" for j
  proof
    assume "child_holder (R j)"
    with v i that show False by (auto simp: view_ok_def one_holder_def)
  qed
  have "gens (Keeper g) \<subseteq> gens (R i)" using i by simp
  then have "gens_ok (lc_next l') (R(i := Keeper g))"
    using v l(5) unfolding view_ok_def gens_ok_def by (auto; blast)
  then show ?thesis
    using v only l by (auto simp: view_ok_def life_ok_def held_as_def one_holder_def monitored_def slack_def)
qed

text \<open>The child has exited and its monitor acts on it, or its replacement could not be started.\<close>

lemma leaver_alone:
  assumes "view_ok c closed l R starts users" "R i = Leaver g" "lc_active l = Some g"
    "lc_state l \<in> {Running, Stopping}"
  shows "\<not> child_holder (R j)"
proof
  assume "child_holder (R j)"
  with assms have "R j = Keeper g" by (auto simp: view_ok_def held_as_def)
  with assms(1,2) have "i \<noteq> j" "gens (R i) \<inter> gens (R j) \<noteq> {}" by auto
  with assms(1) show False by (auto simp: view_ok_def gens_ok_def)
qed

lemma owned_alone:
  assumes "view_ok c closed l R starts users" "R i = Leaver g"
    and "lc_active l = Some g \<or> lc_state l = BackingOff \<and> lc_backoff_owner l = Some g" "lc_state l \<noteq> Failed"
  shows "\<not> child_holder (R j)"
proof (cases "lc_state l = BackingOff")
  case True
  with no_holder [OF assms(1)] show ?thesis by simp
next
  case False
  with assms(3) have a: "lc_active l = Some g" by simp
  then have "lc_state l \<in> {Running, Stopping}"
    using assms(1,4) by (cases "lc_state l") (auto simp: view_ok_def life_ok_def)
  with leaver_alone [OF assms(1,2) a] show ?thesis .
qed

lemma gens_ok_same: "gens_ok n R \<Longrightarrow> gens r \<subseteq> gens (R i) \<Longrightarrow> gens_ok n (R(i := r))"
  unfolding gens_ok_def by (auto; blast)

lemma view_exit_backoff:
  assumes v: "view_ok c closed l R starts users"
    and r: "child_exit closed c g cause first signal l = (l', Some delay)" and i: "R i = Leaver g"
  shows "view_ok c closed l' (R(i := Pauser g)) starts users"
proof -
  have own: "lc_active l = Some g \<or> lc_state l = BackingOff \<and> lc_backoff_owner l = Some g"
    and l: "lc_state l \<noteq> Failed" "lc_state l \<noteq> Stopping" "lc_restarts l < sc_max_restarts c"
    and l': "lc_state l' = BackingOff" "lc_restarts l' = lc_restarts l + 1" "lc_active l' = None" "lc_next l' = lc_next l"
    using r by (auto simp: child_exit_def Let_def split: if_splits option.splits)
  note alone = owned_alone [OF v i own l(1)]
  have "gens_ok (lc_next l) (R(i := Pauser g))"
    by (rule gens_ok_same) (use v i in \<open>auto simp: view_ok_def\<close>)
  moreover have "lc_state l \<in> {Running, BackingOff}"
    using own l v by (cases "lc_state l") (auto simp: view_ok_def life_ok_def)
  then have "slack c l' (R(i := Pauser g)) \<le> slack c l R"
    using l(3) l' by (auto simp: slack_def)
  moreover have "\<not> child_holder ((R(i := Pauser g)) j)" for j using alone by (cases "j = i") auto
  ultimately show ?thesis
    using v l(3) l' by (auto simp: view_ok_def life_ok_def one_holder_def monitored_def)
qed

lemma view_exit_done:
  assumes v: "view_ok c closed l R starts users"
    and r: "child_exit closed c g cause first signal l = (l', None)" and i: "R i = Leaver g"
  shows "view_ok c closed l' (R(i := NoRole)) starts users"
proof -
  have g: "gens_ok (lc_next l) (R(i := NoRole))" by (rule gens_ok_same) (use v in \<open>auto simp: view_ok_def\<close>)
  consider (closed) "closed" "l' = l" | (foreign) "\<not> closed" "l' = l" "lc_active l \<noteq> Some g"
    | (failed) "lc_state l' = Failed" "lc_restarts l' = lc_restarts l" "lc_next l' = lc_next l"
    | (idle) "lc_state l = Stopping" "lc_active l = Some g" "lc_state l' = Idle" "lc_restarts l' = 0"
        "lc_active l' = None" "lc_next l' = lc_next l"
    using r by (auto simp: child_exit_def Let_def split: if_splits option.splits)
  then show ?thesis
  proof cases
    case closed
    then show ?thesis
      using v g slack_drop [of NoRole c l R i] by (simp add: view_ok_def one_holder_def)
  next
    case foreign
    have "monitored l (R(i := NoRole))"
      unfolding monitored_def
    proof
      assume "lc_state l \<in> {Running, Stopping}"
      then obtain j h where j: "lc_active l = Some h" "R j = Keeper h \<or> R j = Leaver h"
        using v foreign(1) by (auto simp: view_ok_def monitored_def)
      with i foreign(3) have "j \<noteq> i" by auto
      with j show "\<exists>k g. lc_active l = Some g \<and> ((R(i := NoRole)) k = Keeper g \<or> (R(i := NoRole)) k = Leaver g)"
        by (intro exI [of _ j] exI [of _ h]) simp
    qed
    then show ?thesis
      using v g foreign slack_drop [of NoRole c l R i] by (simp add: view_ok_def one_holder_def)
  next
    case failed
    have "view_ok c closed l' R starts users" by (rule view_failed [OF v failed])
    then show ?thesis
      using g i failed by (auto simp: view_ok_def one_holder_def held_as_def monitored_def slack_def)
  next
    case idle
    have "view_ok c closed l' R starts users"
      by (rule view_idle [OF v idle(3,4,6,5)]) (use leaver_alone [OF v i] idle in simp)
    then show ?thesis
      using g i idle by (auto simp: view_ok_def one_holder_def held_as_def monitored_def slack_def)
  qed
qed

lemma view_not_replaced:
  assumes v: "view_ok c closed l R starts users"
    and r: "replacement_failed closed c g s source signal l = (l', goes_on)" and i: "R i = Starter s (Some g)"
  shows "view_ok c closed l' (R(i := if goes_on then Leaver g else NoRole)) starts users"
proof (cases goes_on)
  case False
  have "view_ok c closed l' R starts users"
    using r v False by (auto simp: replacement_failed_def split: if_splits intro: view_failed)
  then show ?thesis using view_weaker [of c closed l' R starts users i NoRole] i False by (simp add: weaker_def)
next
  case True
  have l: "lc_state l = Starting" "lc_restarts l < sc_max_restarts c"
    and l': "lc_state l' = BackingOff" "lc_restarts l' = lc_restarts l" "lc_active l' = lc_active l"
      "lc_next l' = lc_next l" "lc_backoff_owner l' = Some g"
    using r True by (auto simp: replacement_failed_def split: if_splits)
  have g: "gens_ok (lc_next l) (R(i := Leaver g))" by (rule gens_ok_same) (use v i in \<open>auto simp: view_ok_def\<close>)
  have "\<not> backoff_awaited l' (R(i := Leaver g))"
  proof
    assume "backoff_awaited l' (R(i := Leaver g))"
    then obtain j where j: "j \<noteq> i" "R j = Pauser g" using l'(5) by (auto simp: backoff_awaited_def split: if_splits)
    then have "gens (R i) \<inter> gens (R j) \<noteq> {}" using i by auto
    with v j(1) show False by (auto simp: view_ok_def gens_ok_def)
  qed
  moreover have "\<not> child_holder ((R(i := Leaver g)) j)" for j
    using v i by (cases "j = i") (auto simp: view_ok_def one_holder_def)
  ultimately show ?thesis
    using v g l l' True by (auto simp: view_ok_def life_ok_def one_holder_def monitored_def slack_def)
qed

section \<open>The supervisor\<close>

lemma supervisor_inv_new: "supervisor_inv c supervisor_new"
  by (simp add: supervisor_inv_def supervisor_new_def lifecycle_new_def view_ok_def life_ok_def gens_ok_def
      one_holder_def roles_def slack_def monitored_def)

text \<open>A step that keeps the section's invariant and weakens one task.\<close>

lemma inv_move:
  assumes "view_ok c (sp_closed S') (sp_life S') (roles S) (sp_starts S') (sp_users S')"
    "roles S' = (roles S)(i := r)" "weaker (roles S i) r"
  shows "supervisor_inv c S'"
  unfolding supervisor_inv_def assms(2) by (rule view_weaker [OF assms(1,3)])

lemma inv_view: "supervisor_inv c S \<Longrightarrow> view_ok c (sp_closed S) (sp_life S) (roles S) (sp_starts S) (sp_users S)"
  by (simp add: supervisor_inv_def)

lemma weaker_simps [simp]:
  "weaker r r" "weaker (Keeper g) (Leaver g)" "weaker (Starter g m) (Late g)" "weaker (Pauser g) NoRole"
  "weaker (Late g) NoRole" "weaker (Starter g m) NoRole"
  by (auto simp: weaker_def)

lemma roles_at: "sp_tasks S i = t \<Longrightarrow> roles S i = task_role t"
  by (simp add: roles_def)

lemma step_inv:
  assumes inv: "supervisor_inv c S" and "supervisor_step c S S'" and n: "lc_next (sp_life S) < lc_next (sp_life S) + 1"
  shows "supervisor_inv c S'"
  using assms(2)
proof cases
  case (user_start l g i)
  show ?thesis
    using view_start [OF inv_view [OF inv] user_start(3) n roles_at [OF user_start(4), simplified]] user_start(1)
    by (simp add: supervisor_inv_def)
next
  case (user_stop mode l e r)
  show ?thesis
    using view_request_stop [OF inv_view [OF inv] user_stop(4)] user_stop(1) by (simp add: supervisor_inv_def)
next
  case (caller_gone i g l e)
  have "view_ok c (sp_closed S) l (roles S) (sp_starts S) (sp_users S)"
    by (rule view_caller_dropped [OF inv_view [OF inv] caller_gone(3)])
  then show ?thesis
    unfolding caller_gone(1)
    by (intro inv_move [where S = S and i = i and r = NoRole]) (simp_all add: roles_at [OF caller_gone(2)])
next
  case drop_close
  then show ?thesis using view_closed [OF inv_view [OF inv]] by (simp add: supervisor_inv_def)
next
  case drop_shutdown
  then show ?thesis using inv by (simp add: supervisor_inv_def)
next
  case (started i g l)
  show ?thesis
    using view_attach [OF inv_view [OF inv] started(3) roles_at [OF started(2), simplified]] started(1)
    by (simp add: supervisor_inv_def)
next
  case (not_started i g source l r)
  have "view_ok c (sp_closed S) l (roles S) (sp_starts S) (sp_users S)"
    by (rule view_refused [OF inv_view [OF inv] not_started(3)])
  moreover have "weaker (roles S i) NoRole" using roles_at [OF not_started(2)] by simp
  ultimately show ?thesis
    unfolding not_started(1)
    by (intro inv_move [where S = S and i = i and r = NoRole]) (simp_all add: roles_at [OF not_started(2)] )
next
  case (late_stopped i g result)
  have "view_ok c (sp_closed S) (stop_late_child g result (sp_life S)) (roles S) (sp_starts S) (sp_users S)"
    by (rule view_stop_late_child [OF inv_view [OF inv]])
  then show ?thesis
    unfolding late_stopped(1)
    by (intro inv_move [where S = S and i = i and r = NoRole]) (simp_all add: roles_at [OF late_stopped(2)])
next
  case (exit_done i g cause first sees l)
  show ?thesis
    using view_exit_done [OF inv_view [OF inv] exit_done(3) roles_at [OF exit_done(2), simplified]] exit_done(1)
    by (simp add: supervisor_inv_def)
next
  case (exit_backoff i g cause first sees l delay)
  show ?thesis
    using view_exit_backoff [OF inv_view [OF inv] exit_backoff(3) roles_at [OF exit_backoff(2), simplified]]
      exit_backoff(1)
    by (simp add: supervisor_inv_def)
next
  case (backoff_cleared i g)
  have "view_ok c (sp_closed S) (clear_backoff g (sp_life S)) (roles S) (sp_starts S) (sp_users S)"
    by (rule view_clear_backoff [OF inv_view [OF inv]])
  then show ?thesis
    unfolding backoff_cleared(1)
    by (intro inv_move [where S = S and i = i and r = NoRole]) (simp_all add: roles_at [OF backoff_cleared(2)])
next
  case (replace i g sees l r)
  show ?thesis
    using view_replacement [OF inv_view [OF inv] replace(3) n roles_at [OF replace(2), simplified]] replace(1)
    by (simp add: supervisor_inv_def)
next
  case (replaced i g r sees l)
  show ?thesis
    using view_attach [OF inv_view [OF inv] replaced(3) roles_at [OF replaced(2), simplified]] replaced(1)
    by (simp add: supervisor_inv_def)
next
  case (not_replaced i g r sees source l goes_on)
  show ?thesis
    using view_not_replaced [OF inv_view [OF inv] not_replaced(3) roles_at [OF not_replaced(2), simplified]]
      not_replaced(1)
    by (simp add: supervisor_inv_def if_distrib [of task_role] cong: if_cong)
qed (simp_all add: supervisor_inv_def view_weaker view_record_stop_error inv_view [OF inv] roles_def)

lemma step_next:
  "supervisor_step c S S' \<Longrightarrow>
   lc_next (sp_life S') = lc_next (sp_life S) \<or> lc_next (sp_life S') = lc_next (sp_life S) + 1"
  by (erule supervisor_step.cases)
    (auto simp: start_section_def request_stop_def cancel_start_after_caller_drop_def finish_start_def attach_child_def
      start_refused_def stop_late_child_def record_stop_error_def child_exit_def clear_backoff_def
      begin_replacement_def replacement_failed_def Let_def split: supervisor_state.splits if_splits option.splits)

lemma unat_succ_le: "unat (x + 1 :: u64) \<le> unat x + 1"
  by (simp add: unat_word_ariths)

lemma less_succ: "unat (x :: u64) + 1 < 2 ^ 64 \<Longrightarrow> x < x + 1"
  by (simp add: word_less_nat_alt unat_word_ariths)

text \<open>Every step takes at most one generation, so fewer than \<open>2 ^ 64 - 2\<close> steps keep them apart.\<close>

lemma run_inv:
  "supervisor_run c supervisor_new n S \<Longrightarrow> n + 2 \<le> 2 ^ 64 \<Longrightarrow>
   supervisor_inv c S \<and> unat (lc_next (sp_life S)) \<le> n + 1"
proof (induction rule: supervisor_run.induct)
  case run_none
  show ?case using supervisor_inv_new by (simp add: supervisor_new_def lifecycle_new_def)
next
  case (run_more n S S')
  then have inv: "supervisor_inv c S" and le: "unat (lc_next (sp_life S)) \<le> n + 1" by simp_all
  have "lc_next (sp_life S) < lc_next (sp_life S) + 1"
    by (rule less_succ) (use le run_more.prems in simp)
  from step_inv [OF inv run_more.hyps(2) this] step_next [OF run_more.hyps(2)] le
    unat_succ_le [of "lc_next (sp_life S)"]
  show ?case by auto
qed

section \<open>After a failure\<close>

lemma failed_step:
  "supervisor_step c S S' \<Longrightarrow> lc_state (sp_life S) = Failed \<Longrightarrow>
   lc_state (sp_life S') = Failed \<and> sp_starts S' = sp_starts S \<and> sp_users S' = sp_users S"
  by (erule supervisor_step.cases)
    (auto simp: start_section_def request_stop_def cancel_start_after_caller_drop_def finish_start_def
      start_refused_def stop_late_child_def record_stop_error_def child_exit_def clear_backoff_def
      begin_replacement_def replacement_failed_def Let_def split: if_splits)

text \<open>What keeps a force stop from a child with a graceful stop that failed.\<close>

definition beyond_force :: "u64 \<Rightarrow> supervisor \<Rightarrow> bool" where
  "beyond_force g S \<longleftrightarrow> lc_state (sp_life S) = Failed \<and> (sp_shutdown S \<longrightarrow> sp_closed S) \<and>
     (\<not> sp_closed S \<longrightarrow> sp_modes S g = STOP_GRACEFUL)"

lemma closed_stays: "supervisor_step c S S' \<Longrightarrow> sp_closed S \<Longrightarrow> sp_closed S'"
  by (erule supervisor_step.cases) (auto simp: set_task_def set_life_def new_signal_def new_child_def count_start_def)

lemma beyond_force_step:
  assumes "supervisor_step c S S'" "beyond_force g S"
  shows "beyond_force g S'"
proof -
  have f: "lc_state (sp_life S) = Failed" using assms(2) by (simp add: beyond_force_def)
  have "sp_closed S \<Longrightarrow> sp_closed S'" by (rule closed_stays [OF assms(1)])
  moreover have "(sp_shutdown S' \<longrightarrow> sp_closed S') \<and> (\<not> sp_closed S' \<longrightarrow> sp_modes S' g = STOP_GRACEFUL)"
    if "\<not> sp_closed S"
    using assms that f
    by (auto simp: beyond_force_def set_task_def set_life_def new_signal_def new_child_def count_start_def
        start_section_def request_stop_def cancel_start_after_caller_drop_def finish_start_def apply_effect_def
        elim!: supervisor_step.cases)
  ultimately show ?thesis
    using failed_step [OF assms(1) f] by (auto simp: beyond_force_def)
qed

lemma beyond_force_run: "supervisor_run c S n S' \<Longrightarrow> beyond_force g S \<Longrightarrow> beyond_force g S'"
  by (induction rule: supervisor_run.induct) (auto intro: beyond_force_step)

lemma failed_run:
  "supervisor_run c S n S' \<Longrightarrow> lc_state (sp_life S) = Failed \<Longrightarrow>
   lc_state (sp_life S') = Failed \<and> sp_starts S' = sp_starts S \<and> sp_users S' = sp_users S"
proof (induction rule: supervisor_run.induct)
  case (run_more n S' S'')
  then show ?case using failed_step [of c S' S''] by simp
qed simp

section \<open>After a drop\<close>

text \<open>A child whose monitor subscribed after the shutdown was sent.\<close>

definition orphaned :: "u64 \<Rightarrow> supervisor \<Rightarrow> bool" where
  "orphaned g S \<longleftrightarrow> sp_closed S \<and> sp_callers S = (\<lambda>_. None) \<and> sp_modes S g = STOP_NONE \<and> \<not> sp_permits S g \<and>
     (\<forall>i. i \<noteq> 0 \<longrightarrow> sp_tasks S i = NoTask) \<and>
     (sp_tasks S 0 = Watching g STOP_NONE False False False \<or>
      (\<exists>cause. sp_tasks S 0 = Exiting g cause True False) \<or> sp_tasks S 0 = NoTask)"

lemma orphaned_step:
  assumes "supervisor_step c S S'" "orphaned g S"
  shows "orphaned g S'"
proof -
  define t where "t = sp_tasks S 0"
  have tasks: "sp_tasks S = (\<lambda>i. if i = 0 then t else NoTask)"
    using assms(2) by (auto simp: orphaned_def t_def)
  have o: "sp_closed S" "sp_callers S = (\<lambda>_. None)" "sp_modes S g = STOP_NONE" "\<not> sp_permits S g"
    using assms(2) by (simp_all add: orphaned_def)
  have "t = Watching g STOP_NONE False False False \<or> (\<exists>cause. t = Exiting g cause True False) \<or> t = NoTask"
    using assms(2) by (simp add: orphaned_def t_def)
  with assms(1) show ?thesis
    by cases (auto simp: orphaned_def o tasks set_task_def set_life_def child_exit_def STOP_NONE_def split: if_splits)
qed

lemma orphaned_run: "supervisor_run c S n S' \<Longrightarrow> orphaned g S \<Longrightarrow> orphaned g S'"
  by (induction rule: supervisor_run.induct) (auto intro: orphaned_step)

section \<open>Concrete runs\<close>

text \<open>A supervisor whose first child has just been attached and whose caller has its answer.\<close>

definition attached_life :: lifecycle where
  "attached_life = lifecycle_new\<lparr>lc_state := Running, lc_active := Some 1, lc_next := 2\<rparr>"

definition one_child :: "supervisor \<Rightarrow> bool" where
  "one_child S \<longleftrightarrow> sp_life S = attached_life \<and> sp_tasks S = (\<lambda>i. if i = 0 then Spawned 1 else NoTask) \<and>
     sp_callers S = (\<lambda>_. None) \<and> sp_modes S = (\<lambda>_. STOP_NONE) \<and> sp_permits S = (\<lambda>_. False) \<and>
     \<not> sp_closed S \<and> \<not> sp_shutdown S"

lemma attached_run: "\<exists>S. supervisor_run c supervisor_new 3 S \<and> one_child S"
proof -
  define l1 where "l1 = lifecycle_new\<lparr>lc_state := Starting, lc_next := 2, lc_starting := Some 1, lc_start_signal := Some 0\<rparr>"
  define S1 where "S1 = (set_task 0 (InitialStart 1) (count_start (new_signal (set_life l1 supervisor_new))))
      \<lparr>sp_users := sp_users supervisor_new + 1,
       sp_callers := (sp_callers supervisor_new)(1 := Some (sp_next_signal supervisor_new))\<rparr>"
  define S2 where "S2 = set_task 0 (Spawned 1) (new_child 1 (set_life attached_life S1))"
  define S3 where "S3 = S2\<lparr>sp_callers := (sp_callers S2)(1 := None)\<rparr>"
  have "supervisor_step c supervisor_new S1"
    unfolding S1_def
    by (rule user_start) (simp_all add: supervisor_new_def start_section_def lifecycle_new_def l1_def no_backoff_def)
  moreover have "supervisor_step c S1 S2"
    unfolding S2_def
    by (rule started) (simp_all add: S1_def finish_start_def attach_child_def l1_def attached_life_def set_task_def
        no_backoff_def no_start_def lifecycle_new_def supervisor_new_def new_signal_def count_start_def set_life_def)
  moreover have "supervisor_step c S2 S3"
    unfolding S3_def
    by (rule start_returned [where n = 0])
      (simp_all add: S1_def S2_def set_task_def supervisor_new_def new_signal_def count_start_def set_life_def new_child_def)
  ultimately have "supervisor_run c supervisor_new (Suc (Suc (Suc 0))) S3"
    by (intro run_more [OF run_more [OF run_more [OF run_none]]])
  moreover have "one_child S3"
    by (auto simp: one_child_def S1_def S2_def S3_def set_task_def supervisor_new_def new_signal_def count_start_def
        set_life_def new_child_def fun_eq_iff)
  ultimately show ?thesis by (auto simp: numeral_3_eq_3)
qed

lemma run_then: "supervisor_run c S0 n S \<Longrightarrow> supervisor_step c S S' \<Longrightarrow> supervisor_run c S0 (n + 1) S'"
  using run_more by fastforce

lemma force_lost_run:
  "\<exists>S. supervisor_run c supervisor_new 7 S \<and> sp_tasks S 0 = Watching 1 STOP_NONE True False True \<and>
     lc_active (sp_life S) = Some 1 \<and> \<not> sp_closed S \<and> beyond_force 1 S"
proof -
  obtain S3 where r: "supervisor_run c supervisor_new 3 S3" and one: "one_child S3" using attached_run by blast
  define S4 where "S4 = set_task 0 (Watching 1 STOP_NONE False False (\<not> sp_shutdown S3)) S3"
  define S5 where "S5 = apply_effect (StopChild 1 STOP_GRACEFUL) (set_life (attached_life\<lparr>lc_state := Stopping\<rparr>) S4)"
  define S6 where "S6 = set_task 0 (Issuing 1 (sp_modes S5 1) STOP_NONE True) S5"
  define S7 where "S7 = set_task 0 (Watching 1 STOP_NONE True False True)
      (set_life (record_stop_error 1 Rejected (sp_life S6)) S6)"
  note d = one [unfolded one_child_def] STOP_NONE_def STOP_GRACEFUL_def STOP_FORCE_def set_task_def set_life_def
    apply_effect_def attached_life_def lifecycle_new_def
  have "supervisor_step c S3 S4" unfolding S4_def by (rule subscribe) (simp add: d)
  moreover have "supervisor_step c S4 S5"
    unfolding S5_def by (rule user_stop [where mode = STOP_GRACEFUL]) (simp_all add: S4_def request_stop_def d)
  moreover have "supervisor_step c S5 S6"
    unfolding S6_def by (rule issue) (simp_all add: S4_def S5_def d)
  moreover have "supervisor_step c S6 S7"
    unfolding S7_def by (rule issue_failed) (simp add: S6_def d)
  ultimately have "supervisor_run c supervisor_new (3 + 1 + 1 + 1 + 1) S7"
    by (intro run_then [OF run_then [OF run_then [OF run_then [OF r]]]])
  moreover have "sp_tasks S7 0 = Watching 1 STOP_NONE True False True" "lc_active (sp_life S7) = Some 1"
    "\<not> sp_closed S7" "beyond_force 1 S7"
    by (simp_all add: S4_def S5_def S6_def S7_def record_stop_error_def beyond_force_def d)
  ultimately show ?thesis by auto
qed

lemma orphan_run:
  "\<exists>S. supervisor_run c supervisor_new 6 S \<and> sp_tasks S 0 = Watching 1 STOP_NONE False False False \<and>
     sp_shutdown S \<and> orphaned 1 S"
proof -
  obtain S3 where r: "supervisor_run c supervisor_new 3 S3" and one: "one_child S3" using attached_run by blast
  define S4 where "S4 = S3\<lparr>sp_closed := True\<rparr>"
  define S5 where "S5 = S4\<lparr>sp_shutdown := True\<rparr>"
  define S6 where "S6 = set_task 0 (Watching 1 STOP_NONE False False (\<not> sp_shutdown S5)) S5"
  note d = one [unfolded one_child_def] set_task_def
  have "supervisor_step c S3 S4" unfolding S4_def by (rule drop_close)
  moreover have "supervisor_step c S4 S5" unfolding S5_def by (rule drop_shutdown) (simp add: S4_def)
  moreover have "supervisor_step c S5 S6"
    unfolding S6_def by (rule subscribe) (simp add: S4_def S5_def d)
  ultimately have "supervisor_run c supervisor_new (3 + 1 + 1 + 1) S6"
    by (intro run_then [OF run_then [OF run_then [OF r]]])
  moreover have "sp_tasks S6 0 = Watching 1 STOP_NONE False False False" "sp_shutdown S6" "orphaned 1 S6"
    by (simp_all add: S4_def S5_def S6_def orphaned_def d)
  ultimately show ?thesis by auto
qed

section \<open>Properties\<close>

text \<open>
  C37. At most one child: in every interleaving of fewer than \<open>2 ^ 64 - 1\<close> steps at most one task
  has, starts or still stops a child. None does while the supervisor is idle or backs off; while
  it runs or stops, it is the monitor of the attached generation, and until the supervisor is
  dropped that monitor exists.
\<close>

theorem supervisor_one_child:
  assumes "supervisor_run c supervisor_new n S" "n + 2 \<le> 2 ^ 64"
  shows "(\<forall>i j. child_holder (roles S i) \<longrightarrow> child_holder (roles S j) \<longrightarrow> i = j) \<and>
    (lc_state (sp_life S) \<in> {Idle, BackingOff} \<longrightarrow> (\<forall>i. \<not> child_holder (roles S i))) \<and>
    (lc_state (sp_life S) \<in> {Running, Stopping} \<longrightarrow> (\<exists>g. lc_active (sp_life S) = Some g \<and>
       (\<forall>i. child_holder (roles S i) \<longrightarrow> roles S i = Keeper g) \<and>
       (\<not> sp_closed S \<longrightarrow> (\<exists>i. roles S i = Keeper g \<or> roles S i = Leaver g))))"
proof -
  have v: "view_ok c (sp_closed S) (sp_life S) (roles S) (sp_starts S) (sp_users S)"
    using run_inv [OF assms] by (intro inv_view) simp
  then have "lc_state (sp_life S) \<in> {Running, Stopping} \<longrightarrow> (\<exists>g. lc_active (sp_life S) = Some g \<and>
       (\<forall>i. child_holder (roles S i) \<longrightarrow> roles S i = Keeper g) \<and>
       (\<not> sp_closed S \<longrightarrow> (\<exists>i. roles S i = Keeper g \<or> roles S i = Leaver g)))"
    by (auto simp: view_ok_def life_ok_def held_as_def monitored_def)
  then show ?thesis using v no_holder [OF v] by (auto simp: view_ok_def one_holder_def)
qed

theorem supervisor_one_child_witness:
  "\<exists>S. supervisor_run default_supervisor_config supervisor_new 3 S \<and> roles S 0 = Keeper 1 \<and>
     \<not> child_holder (roles S 1)"
proof -
  obtain S where r: "supervisor_run default_supervisor_config supervisor_new 3 S" "one_child S"
    using attached_run by blast
  from supervisor_one_child [OF r(1)] have "\<forall>i j. child_holder (roles S i) \<longrightarrow> child_holder (roles S j) \<longrightarrow> i = j" by simp
  moreover have "roles S 0 = Keeper 1" using r(2) by (simp add: roles_def one_child_def)
  ultimately show ?thesis using r(1) by (metis child_holder.simps(3) zero_neq_one)
qed

text \<open>
  C38. Restarts are bounded: the process factory is called at most \<open>max_restarts + 1\<close> times per
  accepted call of \<open>start\<close>, whatever the children and the factory do, and the snapshot never
  shows more automatic restarts than configured.
\<close>

theorem supervisor_restarts_bounded:
  assumes "supervisor_run c supervisor_new n S" "n + 2 \<le> 2 ^ 64"
  shows "sp_starts S \<le> (sc_max_restarts c + 1) * sp_users S \<and> lc_restarts (sp_life S) \<le> sc_max_restarts c"
proof -
  have "supervisor_inv c S" using run_inv [OF assms] by simp
  then show ?thesis by (auto simp: supervisor_inv_def view_ok_def life_ok_def)
qed

theorem supervisor_restarts_bounded_witness:
  "\<exists>S. supervisor_run default_supervisor_config supervisor_new 7 S \<and> sp_starts S \<le> 4 * sp_users S"
proof -
  obtain S where r: "supervisor_run default_supervisor_config supervisor_new 7 S"
    using force_lost_run by blast
  from supervisor_restarts_bounded [OF r] r show ?thesis by (auto simp: default_supervisor_config_def)
qed

text \<open>
  A failed supervisor stays failed, accepts no start and never calls the factory again.
\<close>

theorem supervisor_failed_is_terminal:
  assumes "supervisor_run c S n S'" "lc_state (sp_life S) = Failed"
  shows "lc_state (sp_life S') = Failed \<and> sp_starts S' = sp_starts S \<and> sp_users S' = sp_users S"
  using assms by (rule failed_run)

theorem supervisor_failed_is_terminal_witness:
  "\<exists>S :: supervisor. lc_state (sp_life S) = Failed \<and> supervisor_run default_supervisor_config supervisor_new 7 S"
proof -
  obtain S where r: "supervisor_run default_supervisor_config supervisor_new 7 S" "beyond_force 1 S"
    using force_lost_run by blast
  from r(2) have "lc_state (sp_life S) = Failed" by (simp add: beyond_force_def)
  from supervisor_failed_is_terminal [OF run_none this] r(1) show ?thesis by blast
qed

text \<open>
  A failed graceful stop makes the child immune: the supervisor is then failed with the child
  still attached and alive, every force stop is answered with success without any effect, and
  until the supervisor is dropped the child's stop mode stays graceful.
\<close>

theorem force_stop_ignored_after_error:
  "\<exists>S. supervisor_run c supervisor_new 7 S \<and> sp_tasks S 0 = Watching 1 STOP_NONE True False True \<and>
     lc_active (sp_life S) = Some 1 \<and> \<not> sp_closed S \<and>
     (\<forall>n S'. supervisor_run c S n S' \<longrightarrow>
        request_stop STOP_FORCE (sp_modes S') (sp_life S') = (sp_life S', NoEffect, Some (Inr ())) \<and>
        (sp_closed S' \<or> sp_modes S' 1 = STOP_GRACEFUL))"
proof -
  obtain S where s: "supervisor_run c supervisor_new 7 S" "sp_tasks S 0 = Watching 1 STOP_NONE True False True"
    "lc_active (sp_life S) = Some 1" "\<not> sp_closed S" "beyond_force 1 S"
    using force_lost_run by blast
  have "request_stop STOP_FORCE (sp_modes S') (sp_life S') = (sp_life S', NoEffect, Some (Inr ())) \<and>
      (sp_closed S' \<or> sp_modes S' 1 = STOP_GRACEFUL)" if "supervisor_run c S n S'" for n S'
    using beyond_force_run [OF that s(5)] by (auto simp: beyond_force_def request_stop_def)
  with s(1-4) show ?thesis by blast
qed

theorem force_stop_ignored_after_error_witness:
  "\<exists>S :: supervisor. sp_tasks S 0 = Watching 1 STOP_NONE True False True \<and>
     request_stop STOP_FORCE (sp_modes S) (sp_life S) = (sp_life S, NoEffect, Some (Inr ()))"
proof -
  from force_stop_ignored_after_error [of default_supervisor_config]
  obtain S where s: "sp_tasks S 0 = Watching 1 STOP_NONE True False True"
    "\<forall>n S'. supervisor_run default_supervisor_config S n S' \<longrightarrow>
        request_stop STOP_FORCE (sp_modes S') (sp_life S') = (sp_life S', NoEffect, Some (Inr ())) \<and>
        (sp_closed S' \<or> sp_modes S' 1 = STOP_GRACEFUL)"
    by (elim exE conjE)
  from s(2) [rule_format, OF run_none] s(1) show ?thesis by (intro exI [of _ S]) simp
qed

text \<open>
  Dropping the supervisor can orphan a child: if the shutdown is sent before a fresh
  monitor has run for the first time, its subscription misses it, and from then on nothing but
  the child's own exit ever moves that monitor: no stop is issued.
\<close>

theorem supervisor_drop_orphans_child:
  "\<exists>S. supervisor_run c supervisor_new 6 S \<and> sp_closed S \<and> sp_shutdown S \<and>
     sp_tasks S 0 = Watching 1 STOP_NONE False False False \<and>
     (\<forall>n S'. supervisor_run c S n S' \<longrightarrow> sp_modes S' 1 = STOP_NONE \<and>
        (sp_tasks S' 0 = Watching 1 STOP_NONE False False False \<or>
         (\<exists>cause. sp_tasks S' 0 = Exiting 1 cause True False) \<or> sp_tasks S' 0 = NoTask))"
proof -
  obtain S where s: "supervisor_run c supervisor_new 6 S" "sp_tasks S 0 = Watching 1 STOP_NONE False False False"
    "sp_shutdown S" "orphaned 1 S"
    using orphan_run by blast
  have "sp_closed S" using s(4) by (simp add: orphaned_def)
  moreover have "sp_modes S' 1 = STOP_NONE \<and> (sp_tasks S' 0 = Watching 1 STOP_NONE False False False \<or>
      (\<exists>cause. sp_tasks S' 0 = Exiting 1 cause True False) \<or> sp_tasks S' 0 = NoTask)"
    if "supervisor_run c S n S'" for n S'
    using orphaned_run [OF that s(4)] by (simp add: orphaned_def)
  ultimately show ?thesis using s(1-3) by blast
qed

theorem supervisor_drop_orphans_child_witness:
  "\<exists>S :: supervisor. sp_shutdown S \<and> sp_tasks S 0 = Watching 1 STOP_NONE False False False \<and> sp_modes S 1 = STOP_NONE"
proof -
  from supervisor_drop_orphans_child [of default_supervisor_config]
  obtain S where s: "sp_shutdown S" "sp_tasks S 0 = Watching 1 STOP_NONE False False False"
    "\<forall>n S'. supervisor_run default_supervisor_config S n S' \<longrightarrow> sp_modes S' 1 = STOP_NONE \<and>
        (sp_tasks S' 0 = Watching 1 STOP_NONE False False False \<or>
         (\<exists>cause. sp_tasks S' 0 = Exiting 1 cause True False) \<or> sp_tasks S' 0 = NoTask)"
    by (elim exE conjE)
  from s(3) [rule_format, OF run_none] s(1,2) show ?thesis by (intro exI [of _ S]) simp
qed

text \<open>
  The backoff of a valid configuration is the plain capped exponential for every attempt the
  restart limit allows: no shift or multiplication saturates, delays never decrease and none
  exceeds a minute.
\<close>

theorem backoff_is_capped_exponential:
  assumes "validate_config c = Inr ()" "1 \<le> k" "k \<le> sc_max_restarts c"
  shows "delay_for c k = min (sc_initial_backoff c * 2 ^ (k - 1)) (sc_max_backoff c) \<and>
    delay_for c k \<le> MAX_RUNTIME_BACKOFF \<and> (\<forall>j \<le> k. delay_for c j \<le> delay_for c k)"
proof -
  have v: "sc_max_restarts c \<le> 16" "sc_max_backoff c \<le> MAX_RUNTIME_BACKOFF" "sc_initial_backoff c \<le> sc_max_backoff c"
    using assms(1) by (auto simp: validate_config_def MAX_RUNTIME_RESTARTS_def)
  have p: "unat (push_bit e (1 :: u32)) = 2 ^ e" if "e \<le> 31" for e
  proof -
    have "(2 :: nat) ^ e \<le> 2 ^ 31" using that by (intro power_increasing) simp_all
    then have "unat (of_nat (2 ^ e) :: u32) = 2 ^ e"
      unfolding unat_of_nat by (intro mod_less) simp
    then show ?thesis by (simp add: push_bit_eq_mult)
  qed
  have d: "delay_for c j = min (sc_initial_backoff c * 2 ^ (j - 1)) (sc_max_backoff c)" if "j \<le> 16" for j
  proof -
    have "sc_max_backoff c \<le> MAX_DURATION" using v(2) by (simp add: MAX_RUNTIME_BACKOFF_def MAX_DURATION_def)
    then show ?thesis using that p [of "j - 1"] v(3) by (auto simp: delay_for_def Let_def min_def)
  qed
  have "delay_for c j \<le> delay_for c k" if "j \<le> k" for j
  proof -
    have "(2 :: nat) ^ (j - 1) \<le> 2 ^ (k - 1)" using that by (intro power_increasing) simp_all
    then have "sc_initial_backoff c * 2 ^ (j - 1) \<le> sc_initial_backoff c * 2 ^ (k - 1)" by simp
    then show ?thesis using d [of j] d [of k] that assms(3) v(1) by (simp add: min_le_iff_disj)
  qed
  then show ?thesis using d [of k] assms(3) v by simp
qed

theorem backoff_is_capped_exponential_witness:
  "delay_for default_supervisor_config 3 = 400 * 10 ^ 6"
  using backoff_is_capped_exponential [of default_supervisor_config 3]
  by (simp add: validate_config_def default_supervisor_config_def MAX_RUNTIME_RESTARTS_def MAX_RUNTIME_BACKOFF_def
      MAX_STOP_CONFIRM_TIMEOUT_def STOP_CONFIRM_TIMEOUT_def)

end
