(* ===== verification/Core_Types.thy ===== *)
theory Core_Types
  imports Prelude
begin

unbundle bit_operations_syntax

text \<open>
  The candidate types of \<open>kanai-core/src/types.rs\<close>, and what the core uses of \<open>char\<close>, \<open>str\<close>
  and \<open>f64\<close>. A float is its 64 bits: its class, sign and order are computed from them, its
  arithmetic (rounding, \<open>log2\<close>, \<open>powf\<close>) is the parameter \<open>float_ops\<close>.
\<close>

section \<open>Text\<close>

text \<open>\<open>char::is_whitespace\<close>: the Unicode property White\_Space.\<close>

definition is_whitespace :: "rchar \<Rightarrow> bool" where
  "is_whitespace c \<longleftrightarrow> 9 \<le> c \<and> c \<le> 13 \<or> c \<in> {32, 133, 160, 5760, 8232, 8233, 8239, 8287, 12288} \<or>
     8192 \<le> c \<and> c \<le> 8202"

definition is_blank :: "rchar \<Rightarrow> bool" where
  "is_blank c \<longleftrightarrow> is_control c \<or> is_whitespace c"

definition trim_start :: "rstr \<Rightarrow> rstr" where
  "trim_start s = dropWhile is_whitespace s"

definition trim_end :: "rstr \<Rightarrow> rstr" where
  "trim_end s = rev (dropWhile is_whitespace (rev s))"

definition trim :: "rstr \<Rightarrow> rstr" where
  "trim s = trim_end (trim_start s)"

definition ascii_lower :: "rchar \<Rightarrow> rchar" where
  "ascii_lower c = (if 65 \<le> c \<and> c \<le> 90 then c + 32 else c)"

definition eq_ignore_ascii_case :: "rstr \<Rightarrow> rstr \<Rightarrow> bool" where
  "eq_ignore_ascii_case s t \<longleftrightarrow> map ascii_lower s = map ascii_lower t"

text \<open>\<open>str::contains\<close> of a string.\<close>

fun str_contains :: "rstr \<Rightarrow> rstr \<Rightarrow> bool" where
  "str_contains [] t \<longleftrightarrow> t = []"
| "str_contains (c # s) t \<longleftrightarrow> take (length t) (c # s) = t \<or> str_contains s t"

section \<open>Floats\<close>

type_synonym f64 = "64 word"

definition float_magnitude :: "f64 \<Rightarrow> nat" where
  "float_magnitude x = unat (x AND mask 63)"

definition float_negative :: "f64 \<Rightarrow> bool" where
  "float_negative x \<longleftrightarrow> bit x 63"

text \<open>The bits of infinity: below it are the finite magnitudes, above it the NaNs.\<close>

definition float_infinity :: nat where "float_infinity = 0x7FF0000000000000"

definition is_finite :: "f64 \<Rightarrow> bool" where
  "is_finite x \<longleftrightarrow> float_magnitude x < float_infinity"

definition is_nan :: "f64 \<Rightarrow> bool" where
  "is_nan x \<longleftrightarrow> float_infinity < float_magnitude x"

text \<open>\<open>total_cmp\<close> compares these keys; \<open><\<close> compares the values, in which both zeros are equal.\<close>

definition total_key :: "f64 \<Rightarrow> int" where
  "total_key x = (if float_negative x then - int (float_magnitude x) - 1 else int (float_magnitude x))"

definition float_value :: "f64 \<Rightarrow> int" where
  "float_value x = (if float_negative x then - int (float_magnitude x) else int (float_magnitude x))"

definition float_less :: "f64 \<Rightarrow> f64 \<Rightarrow> bool" where
  "float_less x y \<longleftrightarrow> \<not> is_nan x \<and> \<not> is_nan y \<and> float_value x < float_value y"

definition float_le :: "f64 \<Rightarrow> f64 \<Rightarrow> bool" where
  "float_le x y \<longleftrightarrow> \<not> is_nan x \<and> \<not> is_nan y \<and> float_value x \<le> float_value y"

text \<open>The constants of the core, as bits.\<close>

definition F0 :: f64 where "F0 = 0"
definition F1 :: f64 where "F1 = 0x3FF0000000000000"
definition F2 :: f64 where "F2 = 0x4000000000000000"
definition F3 :: f64 where "F3 = 0x4008000000000000"
definition F4 :: f64 where "F4 = 0x4010000000000000"
definition F8 :: f64 where "F8 = 0x4020000000000000"
definition F16 :: f64 where "F16 = 0x4030000000000000"
definition F18 :: f64 where "F18 = 0x4032000000000000"
definition F24 :: f64 where "F24 = 0x4038000000000000"
definition F36 :: f64 where "F36 = 0x4042000000000000"
definition F42 :: f64 where "F42 = 0x4045000000000000"
definition F300 :: f64 where "F300 = 0x4072C00000000000"
definition F500 :: f64 where "F500 = 0x407F400000000000"
definition F920 :: f64 where "F920 = 0x408CC00000000000"
definition F86400000 :: f64 where "F86400000 = 0x4194997000000000"
definition F0_75 :: f64 where "F0_75 = 0x3FE8000000000000"

definition float_neg :: "f64 \<Rightarrow> f64" where
  "float_neg x = x XOR 0x8000000000000000"

record float_ops =
  fo_add :: "f64 \<Rightarrow> f64 \<Rightarrow> f64"
  fo_mul :: "f64 \<Rightarrow> f64 \<Rightarrow> f64"
  fo_div :: "f64 \<Rightarrow> f64 \<Rightarrow> f64"
  fo_of_nat :: "nat \<Rightarrow> f64"
  fo_log2 :: "f64 \<Rightarrow> f64"
  fo_powf :: "f64 \<Rightarrow> f64 \<Rightarrow> f64"
  fo_max :: "f64 \<Rightarrow> f64 \<Rightarrow> f64"
  fo_percent :: "f64 \<Rightarrow> rstr"

text \<open>\<open>f64::clamp\<close>.\<close>

definition float_clamp :: "f64 \<Rightarrow> f64 \<Rightarrow> f64 \<Rightarrow> f64" where
  "float_clamp x lo hi = (let y = if float_less x lo then lo else x in if float_less hi y then hi else y)"

section \<open>Candidates\<close>

type_synonym i32 = "32 word"

datatype candidate_origin =
    OConversion | OPrediction | OSuggestion | OUserDictionary | OUserHistory
  | OTypingCorrection | OSpellingCorrection | OUnknown rstr

definition origin_from_attributes :: "rstr list \<Rightarrow> candidate_origin" where
  "origin_from_attributes attributes =
     (let has = (\<lambda>name. list_ex (\<lambda>v. eq_ignore_ascii_case v (lit name)) attributes) in
      if has ''typingCorrection'' then OTypingCorrection
      else if has ''spellingCorrection'' then OSpellingCorrection
      else if has ''userHistory'' then OUserHistory
      else if has ''userDictionary'' then OUserDictionary
      else OConversion)"

text \<open>The labels are the code points of the source's Japanese literals.\<close>

fun origin_label :: "candidate_origin \<Rightarrow> rstr" where
  "origin_label OConversion = [25991, 33032, 22793, 25563]"
| "origin_label OPrediction = [20104, 28204, 22793, 25563]"
| "origin_label OSuggestion = [20837, 21147, 35036, 21161]"
| "origin_label OUserDictionary = [12518, 12540, 12470, 12540, 36766, 26360]"
| "origin_label OUserHistory = [23398, 32722, 23653, 27508]"
| "origin_label OTypingCorrection = [25171, 37749, 12511, 12473, 20462, 24489]"
| "origin_label OSpellingCorrection = [32180, 12426, 20462, 27491]"
| "origin_label (OUnknown v) = v"

record preedit_segment =
  ps_value :: rstr
  ps_reading :: "rstr option"
  ps_highlighted :: bool

record conversion_candidate =
  cd_id :: i32
  cd_text :: rstr
  cd_reading :: "rstr option"
  cd_provider_rank :: nat
  cd_description :: "rstr option"
  cd_origin :: candidate_origin
  cd_attributes :: "rstr list"
  cd_log :: "rstr option"

record candidate_adjustments =
  ad_mozc :: f64
  ad_learning :: f64
  ad_domain :: f64
  ad_user_word :: f64
  ad_context :: f64

record personalized_candidate =
  pc_candidate :: conversion_candidate
  pc_score :: f64
  pc_adjustments :: candidate_adjustments
  pc_explanation :: rstr

definition pc_id :: "personalized_candidate \<Rightarrow> i32" where
  "pc_id c = cd_id (pc_candidate c)"

record conversion_result =
  cv_provider :: rstr
  cv_reading :: rstr
  cv_preedit :: rstr
  cv_segments :: "preedit_segment list"
  cv_candidates :: "conversion_candidate list"
  cv_focused_index :: "nat option"
  cv_consumed :: bool
  cv_elapsed :: nat

record conversion_request =
  cn_romaji :: rstr
  cn_context_before :: rstr
  cn_context_after :: rstr
  cn_limit :: nat
  cn_revision :: u64
  cn_convert :: bool

definition default_limit :: nat where "default_limit = 9"

definition conversion_request_new :: "rstr \<Rightarrow> conversion_request" where
  "conversion_request_new romaji = \<lparr>cn_romaji = romaji, cn_context_before = [], cn_context_after = [],
     cn_limit = default_limit, cn_revision = 0, cn_convert = True\<rparr>"

datatype provider_error =
    PV_Unavailable rstr | PV_InvalidRequest rstr | PV_UnknownCandidate i32 | PV_Io rstr
  | PV_Timeout nat | PV_Protocol rstr

record commit_result =
  ci_text :: rstr
  ci_elapsed_millis :: u64

definition dec_i32 :: "i32 \<Rightarrow> rstr" where
  "dec_i32 i = (if sint i < 0 then 45 # dec (nat (- sint i)) else dec (nat (sint i)))"

text \<open>\<open>Display\<close> of a provider error; \<open>debug\<close> renders a duration.\<close>

fun provider_error_text :: "(nat \<Rightarrow> rstr) \<Rightarrow> provider_error \<Rightarrow> rstr" where
  "provider_error_text debug (PV_Unavailable s) = lit ''conversion provider is unavailable: '' @ s"
| "provider_error_text debug (PV_InvalidRequest s) = lit ''invalid conversion request: '' @ s"
| "provider_error_text debug (PV_UnknownCandidate i) = lit ''candidate was not produced by this session: '' @ dec_i32 i"
| "provider_error_text debug (PV_Io s) = lit ''provider I/O failed: '' @ s"
| "provider_error_text debug (PV_Timeout d) = lit ''provider timed out after '' @ debug d"
| "provider_error_text debug (PV_Protocol s) = lit ''provider returned malformed data: '' @ s"

end
