(* ===== verification/Local_Context.thy ===== *)
theory Local_Context
  imports Core_Types
begin

text \<open>
  The context window of the ranking path: \<open>BoundedLocalContext\<close> of \<open>kanai-core/src/ai.rs\<close> and
  \<open>ExtractedContext\<close> of \<open>kanai-core/src/pipeline.rs\<close>. Both read a bounded piece of the text
  around the caret, drop control characters and collapse white space; the lemmas bound what
  they keep and what they look at.
\<close>

definition MAX_LOCAL_QUALITY_CONTEXT_CHARS :: nat where "MAX_LOCAL_QUALITY_CONTEXT_CHARS = 32"

definition scan_limit :: "nat \<Rightarrow> nat" where
  "scan_limit limit = max (limit * 4) limit"

section \<open>\<open>BoundedLocalContext\<close>\<close>

text \<open>The array and its length are the list of the first \<open>len\<close> characters.\<close>

record bounded_context =
  bc_values :: rstr
  bc_before_len :: nat

definition EMPTY_CONTEXT :: bounded_context where
  "EMPTY_CONTEXT = \<lparr>bc_values = [], bc_before_len = 0\<rparr>"

text \<open>The scan of the text before the caret, from the caret back, with its pending space.\<close>

fun scan_before :: "nat \<Rightarrow> rstr \<Rightarrow> bool \<Rightarrow> rstr \<Rightarrow> rstr \<times> bool" where
  "scan_before limit out pending [] = (out, pending)"
| "scan_before limit out pending (c # cs) =
    (if is_blank c then scan_before limit out (pending \<or> out \<noteq> []) cs
     else
       let (out, pending) = (if pending \<and> out \<noteq> [] then (out @ [32], False) else (out, pending))
       in if length out = limit then (out, pending)
          else if Suc (length out) = limit then (out @ [c], pending)
          else scan_before limit (out @ [c]) pending cs)"

fun scan_after :: "nat \<Rightarrow> rstr \<Rightarrow> bool \<Rightarrow> rstr \<Rightarrow> rstr" where
  "scan_after limit out pending [] = out"
| "scan_after limit out pending (c # cs) =
    (if length out = limit then out
     else if is_blank c then scan_after limit out (pending \<or> out \<noteq> []) cs
     else if pending then
       (if Suc (length out) = limit then out @ [32]
        else scan_after limit (out @ [32, c]) False cs)
     else scan_after limit (out @ [c]) pending cs)"

definition context_bounded :: "rstr \<Rightarrow> rstr \<Rightarrow> nat \<Rightarrow> bounded_context" where
  "context_bounded before after limit =
    (if limit = 0 then EMPTY_CONTEXT
     else
       let limit = min limit MAX_LOCAL_QUALITY_CONTEXT_CHARS;
           (reversed, pending) = scan_before limit [] False (take (scan_limit limit) (rev before));
           values = rev reversed
       in \<lparr>bc_values = scan_after limit values pending (take (scan_limit limit) after),
           bc_before_len = length values\<rparr>)"

fun match_back :: "rstr \<Rightarrow> rstr \<Rightarrow> bool" where
  "match_back [] text \<longleftrightarrow> True"
| "match_back (e # es) [] \<longleftrightarrow> False"
| "match_back (e # es) (c # cs) \<longleftrightarrow> c = e \<and> match_back es cs"

definition context_ends_with :: "bounded_context \<Rightarrow> rstr \<Rightarrow> bool" where
  "context_ends_with ctx suffix =
    (let text = dropWhile (\<lambda>c. c = 32) (rev (take (bc_before_len ctx) (bc_values ctx)))
     in case rev suffix of [] \<Rightarrow> False | first # rest \<Rightarrow> match_back (first # rest) text)"

definition context_contains :: "bounded_context \<Rightarrow> rstr \<Rightarrow> bool" where
  "context_contains ctx needle =
    (if needle = [] \<or> length needle > length (bc_values ctx) then False
     else list_ex (\<lambda>start. take (length needle) (drop start (bc_values ctx)) = needle)
            [0..<Suc (length (bc_values ctx) - length needle)])"

section \<open>\<open>ExtractedContext\<close>\<close>

record extracted_context =
  ec_before :: rstr
  ec_after :: rstr

fun tail_loop :: "nat \<Rightarrow> rstr \<Rightarrow> bool \<Rightarrow> rstr \<Rightarrow> rstr" where
  "tail_loop limit out pending [] = out"
| "tail_loop limit out pending (c # cs) =
    (if is_blank c then tail_loop limit out (pending \<or> out \<noteq> []) cs
     else if pending \<and> out \<noteq> [] \<and> length out = limit then out
     else
       let (out, pending) = (if pending \<and> out \<noteq> [] then (out @ [32], False) else (out, pending))
       in if length out = limit then out else tail_loop limit (out @ [c]) pending cs)"

definition normalized_tail :: "rstr \<Rightarrow> nat \<Rightarrow> rstr" where
  "normalized_tail value limit =
    (if limit = 0 then [] else rev (tail_loop limit [] False (take (scan_limit limit) (rev value))))"

fun head_loop :: "nat \<Rightarrow> rstr \<Rightarrow> bool \<Rightarrow> rstr \<Rightarrow> rstr" where
  "head_loop limit out pending [] = out"
| "head_loop limit out pending (c # cs) =
    (if is_blank c then head_loop limit out (pending \<or> out \<noteq> []) cs
     else if pending \<and> length out = limit then out
     else
       let (out, pending) = (if pending then (out @ [32], False) else (out, pending))
       in if length out = limit then out else head_loop limit (out @ [c]) pending cs)"

definition normalized_head :: "rstr \<Rightarrow> nat \<Rightarrow> rstr" where
  "normalized_head value limit =
    (if limit = 0 then [] else head_loop limit [] False (take (scan_limit limit) value))"

definition extract_context :: "conversion_request \<Rightarrow> nat \<Rightarrow> extracted_context" where
  "extract_context request max_context_chars =
    (let limit = min max_context_chars MAX_LOCAL_QUALITY_CONTEXT_CHARS in
     if limit = 0 then \<lparr>ec_before = [], ec_after = []\<rparr>
     else
       let before = normalized_tail (cn_context_before request) limit;
           remaining = limit - length before
       in \<lparr>ec_before = before, ec_after = normalized_head (cn_context_after request) remaining\<rparr>)"

definition ec_len :: "extracted_context \<Rightarrow> nat" where
  "ec_len c = length (ec_before c) + length (ec_after c)"

section \<open>What is kept\<close>

text \<open>
  Normalised text: every character is a space or no blank at all, and no two spaces meet.
\<close>

fun normalised :: "rstr \<Rightarrow> bool" where
  "normalised [] \<longleftrightarrow> True"
| "normalised [c] \<longleftrightarrow> c = 32 \<or> \<not> is_blank c"
| "normalised (c # d # s) \<longleftrightarrow> (c = 32 \<or> \<not> is_blank c) \<and> \<not> (c = 32 \<and> d = 32) \<and> normalised (d # s)"

lemma blank_space [simp]: "is_blank 32"
  by (simp add: is_blank_def is_whitespace_def)

lemma normalised_snoc:
  "normalised (s @ [c]) \<longleftrightarrow> normalised s \<and> (c = 32 \<or> \<not> is_blank c) \<and> \<not> (c = 32 \<and> s \<noteq> [] \<and> last s = 32)"
  by (induction s rule: normalised.induct) auto

lemma normalised_Cons:
  "normalised (c # s) \<longleftrightarrow> normalised s \<and> (c = 32 \<or> \<not> is_blank c) \<and> \<not> (c = 32 \<and> s \<noteq> [] \<and> hd s = 32)"
  by (cases s) auto

lemma normalised_rev [simp]: "normalised (rev s) \<longleftrightarrow> normalised s"
  by (induction s) (auto simp: normalised_snoc normalised_Cons last_rev)

lemma normalised_no_control: "normalised s \<Longrightarrow> \<not> has_control s"
  by (induction s rule: normalised.induct)
    (auto simp: is_blank_def is_control_def)

text \<open>One step of every scan keeps the output normalised and its last character no space.\<close>

definition open_end :: "rstr \<Rightarrow> bool" where
  "open_end s \<longleftrightarrow> normalised s \<and> (s = [] \<or> last s \<noteq> 32)"

lemma open_end_snoc: "open_end s \<Longrightarrow> \<not> is_blank c \<Longrightarrow> open_end (s @ [c])"
  by (auto simp: open_end_def normalised_snoc)

lemma open_end_space: "open_end s \<Longrightarrow> normalised (s @ [32])"
  by (auto simp: open_end_def normalised_snoc)

lemma open_end_space_snoc: "open_end s \<Longrightarrow> \<not> is_blank c \<Longrightarrow> open_end (s @ [32, c])"
  using normalised_snoc [of "s @ [32]" c]
  by (auto simp: open_end_def normalised_snoc)

lemma open_end_normalised: "open_end s \<Longrightarrow> normalised s"
  by (simp add: open_end_def)

text \<open>What a scan returns: normalised text within the limit.\<close>

definition kept_within :: "nat \<Rightarrow> rstr \<Rightarrow> bool" where
  "kept_within limit s \<longleftrightarrow> normalised s \<and> length s \<le> limit"

lemma kept_within_open: "open_end s \<Longrightarrow> length s \<le> limit \<Longrightarrow> kept_within limit s"
  by (simp add: kept_within_def open_end_def)

lemma kept_within_snoc:
  "open_end s \<Longrightarrow> Suc (length s) \<le> limit \<Longrightarrow> kept_within limit (s @ [32])"
  "open_end s \<Longrightarrow> \<not> is_blank c \<Longrightarrow> Suc (length s) \<le> limit \<Longrightarrow> kept_within limit (s @ [c])"
  "open_end s \<Longrightarrow> \<not> is_blank c \<Longrightarrow> Suc (Suc (length s)) \<le> limit \<Longrightarrow> kept_within limit (s @ [32, c])"
  by (auto simp: kept_within_def intro: open_end_space open_end_normalised open_end_snoc open_end_space_snoc)

lemmas window_hints = open_end_snoc open_end_space_snoc kept_within_snoc

lemma scan_before_kept:
  "open_end out \<Longrightarrow> length out < limit \<Longrightarrow> kept_within limit (fst (scan_before limit out p cs))"
proof (induction cs arbitrary: limit out p)
  case (Cons c cs)
  have "\<not> is_blank c \<Longrightarrow> open_end [c]" using open_end_snoc [of "[]" c] by (simp add: open_end_def)
  then show ?case using Cons.prems
    by (auto simp: Let_def intro!: Cons.IH window_hints window_hints [of "[]", simplified] intro: kept_within_open)
qed (auto intro: kept_within_open)

lemma scan_after_kept:
  "open_end out \<Longrightarrow> length out \<le> limit \<Longrightarrow> kept_within limit (scan_after limit out p cs)"
proof (induction cs arbitrary: limit out p)
  case (Cons c cs)
  have "\<not> is_blank c \<Longrightarrow> open_end [c]" using open_end_snoc [of "[]" c] by (simp add: open_end_def)
  then show ?case using Cons.prems
    by (auto simp: Let_def intro!: Cons.IH window_hints window_hints [of "[]", simplified] intro: kept_within_open)
qed (auto intro: kept_within_open)

lemma tail_loop_kept:
  "open_end out \<Longrightarrow> length out \<le> limit \<Longrightarrow> kept_within limit (tail_loop limit out p cs)"
proof (induction cs arbitrary: limit out p)
  case (Cons c cs)
  have "\<not> is_blank c \<Longrightarrow> open_end [c]" using open_end_snoc [of "[]" c] by (simp add: open_end_def)
  then show ?case using Cons.prems
    by (auto simp: Let_def intro!: Cons.IH window_hints window_hints [of "[]", simplified] intro: kept_within_open)
qed (auto intro: kept_within_open)

lemma head_loop_kept:
  "open_end out \<Longrightarrow> length out \<le> limit \<Longrightarrow> kept_within limit (head_loop limit out p cs)"
proof (induction cs arbitrary: limit out p)
  case (Cons c cs)
  have "\<not> is_blank c \<Longrightarrow> open_end [c]" using open_end_snoc [of "[]" c] by (simp add: open_end_def)
  then show ?case using Cons.prems
    by (auto simp: Let_def intro!: Cons.IH window_hints window_hints [of "[]", simplified] intro: kept_within_open)
qed (auto intro: kept_within_open)

lemma scan_before_first:
  "(out \<noteq> [] \<Longrightarrow> \<not> is_blank (hd out)) \<Longrightarrow> fst (scan_before limit out p cs) \<noteq> [] \<Longrightarrow>
     \<not> is_blank (hd (fst (scan_before limit out p cs)))"
proof (induction cs arbitrary: out p)
  case (Cons c cs)
  then show ?case
    by (cases "out = []") (auto simp: Let_def split: if_splits)
qed simp

lemma scan_before_open:
  assumes "0 < limit"
  shows "open_end (rev (fst (scan_before limit [] False cs)))"
    and "length (fst (scan_before limit [] False cs)) \<le> limit"
  using scan_before_kept [of "[]" limit False cs] scan_before_first [of "[]" limit False cs] assms
  by (auto simp: kept_within_def open_end_def last_rev)

text \<open>What both windows keep, whatever the text around the caret is.\<close>

lemma context_bounded_kept:
  "kept_within (min limit MAX_LOCAL_QUALITY_CONTEXT_CHARS) (bc_values (context_bounded before after limit))"
proof (cases "limit = 0")
  case False
  then have "0 < min limit MAX_LOCAL_QUALITY_CONTEXT_CHARS"
    by (simp add: MAX_LOCAL_QUALITY_CONTEXT_CHARS_def)
  from scan_before_open [OF this] False show ?thesis
    by (auto simp: context_bounded_def Let_def case_prod_unfold intro!: scan_after_kept)
qed (auto simp: context_bounded_def EMPTY_CONTEXT_def kept_within_def)

lemma scan_after_extends: "\<exists>t. scan_after limit out p cs = out @ t"
  by (induction cs arbitrary: out p) (auto, (metis append.assoc)+)

lemma context_bounded_before_len:
  "bc_before_len (context_bounded before after limit) \<le> length (bc_values (context_bounded before after limit))"
proof -
  have "length out \<le> length (scan_after n out p cs)" for n out p cs
    using scan_after_extends [of n out p cs] by auto
  from this [of "rev s" for s] show ?thesis
    by (simp add: context_bounded_def Let_def case_prod_unfold EMPTY_CONTEXT_def)
qed

lemma normalized_tail_kept: "kept_within limit (normalized_tail value limit)"
  using tail_loop_kept [of "[]" limit False] by (auto simp: normalized_tail_def kept_within_def open_end_def)

lemma normalized_head_kept: "kept_within limit (normalized_head value limit)"
  using head_loop_kept [of "[]" limit False] by (auto simp: normalized_head_def kept_within_def open_end_def)

text \<open>And what they look at: four characters for every one they may keep.\<close>

lemma normalized_tail_local:
  "scan_limit limit \<le> length s \<Longrightarrow> normalized_tail (t @ s) limit = normalized_tail s limit"
  by (simp add: normalized_tail_def)

lemma normalized_head_local:
  "scan_limit limit \<le> length s \<Longrightarrow> normalized_head (s @ t) limit = normalized_head s limit"
  by (simp add: normalized_head_def)

lemma context_bounded_local:
  assumes "4 * limit \<le> length before" "4 * limit \<le> length after"
  shows "context_bounded (far @ before) (after @ beyond) limit = context_bounded before after limit"
proof -
  have "scan_limit (min limit MAX_LOCAL_QUALITY_CONTEXT_CHARS) \<le> 4 * limit"
    by (simp add: scan_limit_def)
  with assms show ?thesis by (simp add: context_bounded_def Let_def)
qed

section \<open>The window is bounded, normalised and local\<close>

text \<open>
  The context window that ranking sees is bounded, normalised and local: it holds at most
  32 characters and no more than the configuration admits, no control character, no white
  space but single spaces, with the part before the caret inside it; and it does not depend
  on any text farther than four times the limit from the caret.
\<close>
theorem context_window_bounded:
  fixes ctx :: bounded_context
  assumes "4 * limit \<le> length before" "4 * limit \<le> length after"
    and "ctx = context_bounded (far @ before) (after @ beyond) limit"
  shows "ctx = context_bounded before after limit \<and> length (bc_values ctx) \<le> min limit 32 \<and>
    bc_before_len ctx \<le> length (bc_values ctx) \<and>
    normalised (bc_values ctx) \<and> \<not> has_control (bc_values ctx)"
  using context_bounded_local [OF assms(1,2)] context_bounded_kept [of limit "far @ before" "after @ beyond"]
    context_bounded_before_len normalised_no_control assms(3)
  by (simp add: kept_within_def MAX_LOCAL_QUALITY_CONTEXT_CHARS_def)

lemma context_window_bounded_witness:
  "length (bc_values (context_bounded (lit ''zzz'' @ lit '' a  b c d'') (lit '' e f g h'' @ lit ''x'') 2)) \<le> min 2 32"
proof -
  have "4 * 2 \<le> length (lit '' a  b c d'')" "4 * 2 \<le> length (lit '' e f g h'')"
    by (simp_all add: lit_def)
  from context_window_bounded [OF this refl, of "lit ''zzz''" "lit ''x''"] show ?thesis by blast
qed

text \<open>
  The two windows differ in one point: \<open>bounded\<close> starts the scan after the caret with the
  pending space of the scan before it, which stands for white space at the far end of the
  window, not at the caret.
\<close>

lemma bounded_context_leaks_space:
  "bc_values (context_bounded (lit '' a'') (lit ''b'') 8) = lit ''a b''"
  "bc_values (context_bounded (lit ''a '') (lit ''b'') 8) = lit ''ab''"
  "extract_context \<lparr>cn_romaji = [], cn_context_before = lit '' a'', cn_context_after = lit ''b'',
     cn_limit = 9, cn_revision = 0, cn_convert = True\<rparr> 8 = \<lparr>ec_before = lit ''a'', ec_after = lit ''b''\<rparr>"
  by (simp_all add: context_bounded_def extract_context_def normalized_tail_def normalized_head_def
      scan_limit_def MAX_LOCAL_QUALITY_CONTEXT_CHARS_def lit_def Let_def is_blank_def is_control_def
      is_whitespace_def)

section \<open>Matching a candidate against the window\<close>

lemma match_back_take:
  "match_back es s \<longleftrightarrow> take (length es) s = es"
  by (induction es s rule: match_back.induct) auto

lemma context_before_open: "open_end (take (bc_before_len (context_bounded b a limit)) (bc_values (context_bounded b a limit)))"
proof (cases "limit = 0")
  case False
  define l where "l = min limit MAX_LOCAL_QUALITY_CONTEXT_CHARS"
  define r where "r = scan_before l [] False (take (scan_limit l) (rev b))"
  from False have "0 < l" by (simp add: l_def MAX_LOCAL_QUALITY_CONTEXT_CHARS_def)
  then have "open_end (rev (fst r))" unfolding r_def by (rule scan_before_open)
  moreover obtain t where "scan_after l (rev (fst r)) (snd r) (take (scan_limit l) a) = rev (fst r) @ t"
    using scan_after_extends by blast
  ultimately show ?thesis using False
    by (simp add: context_bounded_def Let_def case_prod_unfold flip: l_def r_def)
qed (simp add: context_bounded_def EMPTY_CONTEXT_def open_end_def)

lemma open_end_dropWhile: "open_end s \<Longrightarrow> dropWhile (\<lambda>c. c = 32) (rev s) = rev s"
  by (cases s rule: rev_cases) (auto simp: open_end_def)

lemma context_ends_with_iff:
  assumes "ctx = context_bounded b a limit"
  shows "context_ends_with ctx suffix \<longleftrightarrow> suffix \<noteq> [] \<and> (\<exists>t. take (bc_before_len ctx) (bc_values ctx) = t @ suffix)"
proof -
  define w where "w = take (bc_before_len ctx) (bc_values ctx)"
  have w: "dropWhile (\<lambda>c. c = 32) (rev w) = rev w"
    unfolding w_def assms by (rule open_end_dropWhile [OF context_before_open])
  have "take (length suffix) (rev w) = rev suffix \<longleftrightarrow> (\<exists>t. w = t @ suffix)"
  proof
    assume "take (length suffix) (rev w) = rev suffix"
    then have "rev w = rev suffix @ drop (length suffix) (rev w)" by (metis append_take_drop_id)
    then have "w = rev (drop (length suffix) (rev w)) @ suffix" by (metis rev_append rev_rev_ident)
    then show "\<exists>t. w = t @ suffix" ..
  qed auto
  moreover have "context_ends_with ctx suffix \<longleftrightarrow> suffix \<noteq> [] \<and> match_back (rev suffix) (rev w)"
    by (cases suffix rule: rev_cases) (simp_all add: context_ends_with_def w flip: w_def)
  ultimately show ?thesis unfolding w_def by (simp add: match_back_take)
qed

lemma context_contains_iff:
  "context_contains ctx needle \<longleftrightarrow> needle \<noteq> [] \<and> (\<exists>s t. bc_values ctx = s @ needle @ t)"
proof
  let ?v = "bc_values ctx" and ?n = "length needle"
  assume "context_contains ctx needle"
  then obtain i where "needle \<noteq> []" "take ?n (drop i ?v) = needle"
    unfolding context_contains_def list_ex_iff by (metis (no_types, lifting))
  then have "?v = take i ?v @ needle @ drop (i + ?n) ?v"
    by (metis append_take_drop_id drop_drop add.commute)
  with \<open>needle \<noteq> []\<close> show "needle \<noteq> [] \<and> (\<exists>s t. ?v = s @ needle @ t)" by blast
next
  let ?v = "bc_values ctx" and ?n = "length needle"
  assume "needle \<noteq> [] \<and> (\<exists>s t. ?v = s @ needle @ t)"
  then obtain s t where v: "needle \<noteq> []" "?v = s @ needle @ t" by blast
  have "length s \<in> set [0..<Suc (length ?v - ?n)]" using v by simp
  moreover have "take ?n (drop (length s) ?v) = needle" using v by simp
  ultimately have "list_ex (\<lambda>i. take ?n (drop i ?v) = needle) [0..<Suc (length ?v - ?n)]"
    unfolding list_ex_iff by blast
  with v show "context_contains ctx needle" by (simp add: context_contains_def)
qed

end
