(* ===== verification/Order_Cache.thy ===== *)
theory Order_Cache
  imports Main
begin

text \<open>
  The least-recently-used caches of \<open>kanai-core/src/ai.rs\<close>: a \<open>VecDeque\<close> of keyed entries,
  the oldest in front. The source writes the two operations out twice, once for each entry
  type; here they are one polymorphic pair.
\<close>

type_synonym ('k, 'v) order_cache = "('k \<times> 'v) list"

section \<open>The operations\<close>

definition drop_key :: "'k \<Rightarrow> ('k, 'v) order_cache \<Rightarrow> ('k, 'v) order_cache" where
  "drop_key k cache = takeWhile (\<lambda>e. fst e \<noteq> k) cache @ tl (dropWhile (\<lambda>e. fst e \<noteq> k) cache)"

definition lookup_cache :: "'k \<Rightarrow> ('k, 'v) order_cache \<Rightarrow> 'v option \<times> ('k, 'v) order_cache" where
  "lookup_cache k cache =
    (case dropWhile (\<lambda>e. fst e \<noteq> k) cache of
       [] \<Rightarrow> (None, cache)
     | entry # _ \<Rightarrow> (Some (snd entry), drop_key k cache @ [entry]))"

text \<open>The \<open>while\<close> loop drops the oldest entries until one more fits.\<close>

fun make_room :: "nat \<Rightarrow> ('k, 'v) order_cache \<Rightarrow> ('k, 'v) order_cache" where
  "make_room limit [] = []"
| "make_room limit (e # cache) = (if length (e # cache) \<ge> limit then make_room limit cache else e # cache)"

definition insert_cache :: "nat \<Rightarrow> 'k \<Rightarrow> 'v \<Rightarrow> ('k, 'v) order_cache \<Rightarrow> ('k, 'v) order_cache" where
  "insert_cache limit k v cache =
    (if limit = 0 then cache
     else make_room limit (if k \<in> fst ` set cache then drop_key k cache else cache) @ [(k, v)])"

section \<open>Caches with distinct keys\<close>

definition cache_wf :: "nat \<Rightarrow> ('k, 'v) order_cache \<Rightarrow> bool" where
  "cache_wf limit cache \<longleftrightarrow> distinct (map fst cache) \<and> length cache \<le> limit"

lemma drop_key_absent: "k \<notin> fst ` set cache \<Longrightarrow> drop_key k cache = cache"
  by (induction cache) (auto simp: drop_key_def)

lemma drop_key_filter: "distinct (map fst cache) \<Longrightarrow> drop_key k cache = filter (\<lambda>e. fst e \<noteq> k) cache"
proof (induction cache)
  case (Cons e cache)
  have "k \<notin> fst ` set cache \<Longrightarrow> filter (\<lambda>e. fst e \<noteq> k) cache = cache"
    by (rule filter_True) auto
  with Cons show ?case by (auto simp: drop_key_def)
qed (simp add: drop_key_def)

lemma dropWhile_key:
  "dropWhile (\<lambda>e. fst e \<noteq> k) cache = [] \<Longrightarrow> map_of cache k = None"
  "dropWhile (\<lambda>e. fst e \<noteq> k) cache = e # r \<Longrightarrow> fst e = k \<and> map_of cache k = Some (snd e)"
proof (induction cache)
  case (Cons a cache)
  { case 1 with Cons show ?case by (cases "fst a = k") auto
  next
    case 2 with Cons show ?case by (cases "fst a = k") auto }
qed simp_all

lemma lookup_cache_eq:
  assumes "distinct (map fst cache)"
  shows "lookup_cache k cache =
     (case map_of cache k of None \<Rightarrow> (None, cache)
      | Some v \<Rightarrow> (Some v, filter (\<lambda>e. fst e \<noteq> k) cache @ [(k, v)]))"
proof (cases "dropWhile (\<lambda>e. fst e \<noteq> k) cache")
  case Nil
  then have "map_of cache k = None" by (rule dropWhile_key)
  then show ?thesis by (simp add: lookup_cache_def Nil)
next
  case (Cons e r)
  from dropWhile_key(2) [OF this] have "map_of cache k = Some (snd e)" "e = (k, snd e)" by (auto simp: prod_eq_iff)
  with Cons show ?thesis by (simp add: lookup_cache_def drop_key_filter [OF assms])
qed

lemma make_room_eq: "0 < limit \<Longrightarrow> make_room limit cache = drop (Suc (length cache) - limit) cache"
  by (induction limit cache rule: make_room.induct) (auto simp: Suc_diff_le drop_Cons')

lemma insert_cache_eq:
  assumes "distinct (map fst cache)" "0 < limit"
  shows "insert_cache limit k v cache =
    (let rest = filter (\<lambda>e. fst e \<noteq> k) cache in drop (Suc (length rest) - limit) rest @ [(k, v)])"
proof -
  have "k \<notin> fst ` set cache \<Longrightarrow> filter (\<lambda>e. fst e \<noteq> k) cache = cache"
    by (rule filter_True) auto
  then show ?thesis
    using assms by (simp add: insert_cache_def drop_key_filter make_room_eq Let_def)
qed

lemma map_of_filter_key: "map_of (filter (\<lambda>e. fst e \<noteq> k) cache) j = (if j = k then None else map_of cache j)"
  by (induction cache) auto

lemma distinct_filter_key: "distinct (map fst cache) \<Longrightarrow> distinct (map fst (filter P cache))"
  by (induction cache) auto

lemma length_filter_key:
  "distinct (map fst cache) \<Longrightarrow> map_of cache k = Some v \<Longrightarrow>
     Suc (length (filter (\<lambda>e. fst e \<noteq> k) cache)) = length cache"
proof (induction cache)
  case (Cons e cache)
  have "k \<notin> fst ` set cache \<Longrightarrow> filter (\<lambda>e. fst e \<noteq> k) cache = cache"
    by (rule filter_True) auto
  with Cons show ?case by (auto split: if_splits)
qed simp

lemma map_of_drop_distinct:
  assumes "distinct (map fst cache)"
  shows "map_of (drop n cache) j = map_of cache j \<or> map_of (drop n cache) j = None"
proof (cases "map_of (drop n cache) j")
  case (Some v)
  then have "(j, v) \<in> set cache" by (meson in_set_dropD map_of_SomeD)
  with Some assms show ?thesis by simp
qed simp

lemma lookup_cache_wf:
  "cache_wf limit cache \<Longrightarrow> cache_wf limit (snd (lookup_cache k cache))"
  by (auto simp: cache_wf_def lookup_cache_eq length_filter_key distinct_filter_key split: option.split)

lemma insert_cache_wf:
  "cache_wf limit cache \<Longrightarrow> cache_wf limit (insert_cache limit k v cache)"
proof (cases "limit = 0")
  case False
  assume wf: "cache_wf limit cache"
  let ?r = "filter (\<lambda>e. fst e \<noteq> k) cache"
  have "distinct (map fst ?r)" using wf by (simp add: cache_wf_def distinct_filter_key)
  then have "distinct (map fst (drop (Suc (length ?r) - limit) ?r))" by (simp add: drop_map [symmetric])
  moreover have "k \<notin> fst ` set (drop (Suc (length ?r) - limit) ?r)" by (auto dest: in_set_dropD)
  ultimately show ?thesis
    using wf False by (auto simp: cache_wf_def insert_cache_eq Let_def)
qed (simp add: insert_cache_def)

section \<open>The contract of a cache\<close>

text \<open>
  What the ranking engine needs: the operations keep the cache within its bounds, a lookup
  changes no entry, and an insertion changes only its own entry, except that it may forget
  others. A client that inserts only values that are right for their key then only ever reads
  such values.
\<close>

locale keyed_cache =
  fixes wf :: "'c \<Rightarrow> bool"
    and entry :: "'c \<Rightarrow> 'k \<Rightarrow> 'v option"
    and lookup :: "'k \<Rightarrow> 'c \<Rightarrow> 'v option \<times> 'c"
    and insert :: "'k \<Rightarrow> 'v \<Rightarrow> 'c \<Rightarrow> 'c"
  assumes lookup_value: "wf c \<Longrightarrow> fst (lookup k c) = entry c k"
    and lookup_entry: "wf c \<Longrightarrow> entry (snd (lookup k c)) = entry c"
    and lookup_wf: "wf c \<Longrightarrow> wf (snd (lookup k c))"
    and insert_wf: "wf c \<Longrightarrow> wf (insert k v c)"
    and insert_entry: "wf c \<Longrightarrow> entry (insert k v c) j \<in> {if j = k then Some v else entry c j, None}"
begin

definition sound :: "('k \<Rightarrow> 'v \<Rightarrow> bool) \<Rightarrow> 'c \<Rightarrow> bool" where
  "sound right c \<longleftrightarrow> wf c \<and> (\<forall>k v. entry c k = Some v \<longrightarrow> right k v)"

lemma sound_lookup: "sound right c \<Longrightarrow> sound right (snd (lookup k c))"
  by (simp add: sound_def lookup_wf lookup_entry)

lemma sound_hit: "sound right c \<Longrightarrow> fst (lookup k c) = Some v \<Longrightarrow> right k v"
  by (simp add: sound_def lookup_value)

lemma sound_insert:
  assumes s: "sound right c" and r: "right k v"
  shows "sound right (insert k v c)"
proof -
  have "right j w" if "entry (insert k v c) j = Some w" for j w
    using that s r insert_entry [of c k v j] by (cases "j = k") (auto simp: sound_def)
  with s show ?thesis by (simp add: sound_def insert_wf)
qed

end

lemma insert_cache_entry:
  assumes "cache_wf limit cache"
  shows "map_of (insert_cache limit k v cache) j \<in> {if j = k then Some v else map_of cache j, None}"
proof (cases "limit = 0")
  case True
  with assms show ?thesis by (simp add: cache_wf_def insert_cache_def)
next
  case False
  let ?r = "filter (\<lambda>e. fst e \<noteq> k) cache"
  have "distinct (map fst ?r)" using assms by (simp add: cache_wf_def distinct_filter_key)
  from map_of_drop_distinct [OF this, of "Suc (length ?r) - limit" j] show ?thesis
    using False assms
    by (auto simp: cache_wf_def insert_cache_eq Let_def map_add_def map_of_filter_key split: option.split)
qed

lemma insert_cache_hit:
  assumes "cache_wf limit cache" "0 < limit"
  shows "map_of (insert_cache limit k v cache) k = Some v"
proof -
  have "(k, v) \<in> set (insert_cache limit k v cache)" using assms(2) by (simp add: insert_cache_def)
  then have "map_of (insert_cache limit k v cache) k \<noteq> None"
    by (metis map_of_eq_None_iff fst_conv image_eqI)
  with insert_cache_entry [OF assms(1), of k v k] show ?thesis by simp
qed

interpretation lru_cache: keyed_cache "cache_wf limit" map_of lookup_cache "insert_cache limit" for limit :: nat
proof
  fix c :: "('a, 'b) order_cache" and k j :: 'a and v :: 'b
  assume wf: "cache_wf limit c"
  show "fst (lookup_cache k c) = map_of c k"
    using wf by (simp add: cache_wf_def lookup_cache_eq split: option.split)
  show "map_of (snd (lookup_cache k c)) = map_of c"
    using wf by (auto simp: cache_wf_def lookup_cache_eq fun_eq_iff map_add_def map_of_filter_key split: option.split)
qed (fact lookup_cache_wf insert_cache_wf insert_cache_entry)+

section \<open>The least recently used goes first\<close>

text \<open>A run of operations on the cache.\<close>

datatype ('k, 'v) cache_op = CLookup 'k | CInsert 'k 'v

fun op_key :: "('k, 'v) cache_op \<Rightarrow> 'k" where
  "op_key (CLookup k) = k"
| "op_key (CInsert k v) = k"

fun cache_step :: "nat \<Rightarrow> ('k, 'v) cache_op \<Rightarrow> ('k, 'v) order_cache \<Rightarrow> ('k, 'v) order_cache" where
  "cache_step limit (CLookup k) cache = snd (lookup_cache k cache)"
| "cache_step limit (CInsert k v) cache = insert_cache limit k v cache"

text \<open>An entry and what was used since: the entries behind it have their keys in \<open>K\<close>.\<close>

definition behind_in :: "'k set \<Rightarrow> 'k \<Rightarrow> 'v \<Rightarrow> ('k, 'v) order_cache \<Rightarrow> bool" where
  "behind_in K k v cache \<longleftrightarrow> (\<exists>older newer. cache = older @ (k, v) # newer \<and> fst ` set newer \<subseteq> K)"

lemma behind_split:
  assumes "behind_in K k v cache" "j \<noteq> k"
  obtains older newer where "filter (\<lambda>e. fst e \<noteq> j) cache = older @ (k, v) # newer" "fst ` set newer \<subseteq> K"
proof -
  obtain older newer where c: "cache = older @ (k, v) # newer" "fst ` set newer \<subseteq> K"
    using assms by (auto simp: behind_in_def)
  then have "filter (\<lambda>e. fst e \<noteq> j) cache = filter (\<lambda>e. fst e \<noteq> j) older @ (k, v) # filter (\<lambda>e. fst e \<noteq> j) newer"
    using assms by simp
  moreover have "fst ` set (filter (\<lambda>e. fst e \<noteq> j) newer) \<subseteq> K" using c by auto
  ultimately show ?thesis using that by blast
qed

lemma behind_snoc:
  assumes "cache = older @ (k, v) # newer" "fst ` set newer \<subseteq> K"
  shows "behind_in (insert j K) k v (cache @ [(j, w)])"
  unfolding behind_in_def using assms by (intro exI [of _ older] exI [of _ "newer @ [(j, w)]"]) auto

lemma behind_mono: "behind_in K k v cache \<Longrightarrow> K \<subseteq> L \<Longrightarrow> behind_in L k v cache"
  by (auto simp: behind_in_def) (metis order_trans)

lemma behind_lookup:
  assumes b: "behind_in K k v cache" and wf: "cache_wf limit cache" and j: "j \<noteq> k"
  shows "behind_in (insert j K) k v (snd (lookup_cache j cache))"
proof (cases "map_of cache j")
  case None
  with wf behind_mono [OF b subset_insertI] show ?thesis by (simp add: cache_wf_def lookup_cache_eq)
next
  case (Some w)
  obtain older newer where "filter (\<lambda>e. fst e \<noteq> j) cache = older @ (k, v) # newer" "fst ` set newer \<subseteq> K"
    using behind_split [OF b j] .
  from behind_snoc [OF this] Some wf show ?thesis by (simp add: cache_wf_def lookup_cache_eq)
qed

lemma behind_insert:
  assumes b: "behind_in K k v cache" and wf: "cache_wf limit cache" and j: "j \<noteq> k"
    and K: "finite K" "card (insert j K) < limit"
  shows "behind_in (insert j K) k v (insert_cache limit j w cache)"
proof -
  obtain older newer where f: "filter (\<lambda>e. fst e \<noteq> j) cache = older @ (k, v) # newer" "fst ` set newer \<subseteq> K"
    using behind_split [OF b j] .
  have "distinct (map fst (filter (\<lambda>e. fst e \<noteq> j) cache))" using wf by (simp add: cache_wf_def distinct_filter_key)
  then have "distinct (map fst newer)" by (simp add: f)
  from distinct_card [OF this] have "length newer = card (fst ` set newer)" by simp
  moreover have "j \<notin> fst ` set newer"
  proof
    assume "j \<in> fst ` set newer"
    then have "j \<in> fst ` set (filter (\<lambda>e. fst e \<noteq> j) cache)" by (simp add: f image_Un)
    then show False by auto
  qed
  ultimately have "Suc (length newer) = card (insert j (fst ` set newer))" by simp
  also have "\<dots> \<le> card (insert j K)" using f K by (intro card_mono) auto
  finally have n: "Suc (length newer) < limit" using K by simp
  define d where "d = Suc (length (older @ (k, v) # newer)) - limit"
  have "d \<le> length older" using n by (simp add: d_def)
  then have "drop d (older @ (k, v) # newer) = drop d older @ (k, v) # newer" by simp
  from behind_snoc [OF this f(2), of j w] show ?thesis
    using wf n by (simp add: cache_wf_def insert_cache_eq Let_def f d_def)
qed

lemma behind_hit:
  assumes b: "behind_in K k v cache" and wf: "cache_wf limit cache"
  shows "fst (lookup_cache k cache) = Some v"
proof -
  have "(k, v) \<in> set cache" using b by (auto simp: behind_in_def)
  then have "map_of cache k = Some v" using wf by (simp add: cache_wf_def)
  then show ?thesis using wf by (simp add: cache_wf_def lookup_cache_eq)
qed

lemma cache_step_wf: "cache_wf limit cache \<Longrightarrow> cache_wf limit (cache_step limit x cache)"
  by (cases x) (simp_all add: lookup_cache_wf insert_cache_wf)

lemma cache_run_wf: "cache_wf limit cache \<Longrightarrow> cache_wf limit (fold (cache_step limit) ops cache)"
  by (induction ops arbitrary: cache) (simp_all add: cache_step_wf)

lemma behind_run:
  assumes "behind_in K k v cache" "cache_wf limit cache" "finite K"
    "k \<notin> op_key ` set ops" "card (op_key ` set ops \<union> K) < limit"
  shows "behind_in (op_key ` set ops \<union> K) k v (fold (cache_step limit) ops cache)"
  using assms
proof (induction ops arbitrary: K cache)
  case (Cons x ops)
  let ?K = "insert (op_key x) K"
  have "card ?K \<le> card (op_key ` set (x # ops) \<union> K)" using Cons.prems(3) by (intro card_mono) auto
  then have c: "card ?K < limit" using Cons.prems(5) by simp
  have "op_key x \<noteq> k" using Cons.prems(4) by auto
  then have "behind_in ?K k v (cache_step limit x cache)"
    using behind_lookup [OF Cons.prems(1,2)] behind_insert [OF Cons.prems(1,2) _ Cons.prems(3)] c
    by (cases x) auto
  from Cons.IH [OF this cache_step_wf [OF Cons.prems(2)]] Cons.prems show ?case by simp
qed simp



end
