(* ===== verification/Candidate_Order.thy ===== *)
theory Candidate_Order
  imports Core_Types
begin

text \<open>
  The bounded candidate orders of \<open>kanai-core/src/ai.rs\<close>: \<open>CandidateIdOrder\<close> (what a model
  may answer), its resolution to an \<open>IndexOrder\<close>, and \<open>apply_index_order\<close>, which permutes
  a slice in place along the cycles of the permutation.
\<close>

definition MAX_LOCAL_QUALITY_CANDIDATES :: nat where "MAX_LOCAL_QUALITY_CANDIDATES = 9"

text \<open>\<open>RerankRejection\<close>, without the messages.\<close>

datatype rerank_rejection =
    RJ_MozcOnly | RJ_PolicyDisabled | RJ_StaleGeneration | RJ_WrongModelRevision
  | RJ_WrongLearningVersion | RJ_WrongModelTier | RJ_WrongInputRevision | RJ_InvalidConfidence
  | RJ_LowConfidence | RJ_InvalidReason | RJ_CandidatePatch | RJ_UnexpectedCandidates
  | RJ_IncompleteCandidateSet | RJ_DuplicateCandidate | RJ_UnknownCandidate i32
  | RJ_MovementTooLarge | RJ_CandidateSetChanged | RJ_InvalidInput | RJ_DuplicateInputCandidate
  | RJ_InsufficientCandidates

fun rejection_code :: "rerank_rejection \<Rightarrow> rstr" where
  "rejection_code RJ_MozcOnly = lit ''mozcOnly''"
| "rejection_code RJ_PolicyDisabled = lit ''policyDisabled''"
| "rejection_code RJ_StaleGeneration = lit ''staleGeneration''"
| "rejection_code RJ_WrongModelRevision = lit ''wrongModelRevision''"
| "rejection_code RJ_WrongLearningVersion = lit ''wrongLearningVersion''"
| "rejection_code RJ_WrongModelTier = lit ''wrongModelTier''"
| "rejection_code RJ_WrongInputRevision = lit ''wrongInputRevision''"
| "rejection_code RJ_InvalidConfidence = lit ''invalidConfidence''"
| "rejection_code RJ_LowConfidence = lit ''lowConfidence''"
| "rejection_code RJ_InvalidReason = lit ''invalidReason''"
| "rejection_code RJ_CandidatePatch = lit ''candidatePatch''"
| "rejection_code RJ_UnexpectedCandidates = lit ''unexpectedCandidates''"
| "rejection_code RJ_IncompleteCandidateSet = lit ''incompleteCandidateSet''"
| "rejection_code RJ_DuplicateCandidate = lit ''duplicateCandidate''"
| "rejection_code (RJ_UnknownCandidate _) = lit ''unknownCandidate''"
| "rejection_code RJ_MovementTooLarge = lit ''movementTooLarge''"
| "rejection_code RJ_CandidateSetChanged = lit ''candidateSetChanged''"
| "rejection_code RJ_InvalidInput = lit ''invalidInput''"
| "rejection_code RJ_DuplicateInputCandidate = lit ''duplicateInputCandidate''"
| "rejection_code RJ_InsufficientCandidates = lit ''insufficientCandidates''"

section \<open>\<open>CandidateIdOrder\<close>\<close>

text \<open>The fixed array and its length are the list of the first \<open>len\<close> ids.\<close>

type_synonym id_order = "i32 list"

datatype candidate_order_error = CO_TooManyCandidates nat nat

definition order_from_slice :: "i32 list \<Rightarrow> candidate_order_error + id_order" where
  "order_from_slice ids =
    (if length ids > MAX_LOCAL_QUALITY_CANDIDATES
     then Inl (CO_TooManyCandidates (length ids) MAX_LOCAL_QUALITY_CANDIDATES)
     else Inr ids)"

text \<open>
  \<open>visit_seq\<close>: the elements the deserializer yields, each a value or its error, are read one
  by one, and the tenth stops the reading.
\<close>

datatype 'e order_read_error = OR_Element 'e | OR_InvalidLength nat

fun order_visit_seq :: "id_order \<Rightarrow> ('e + i32) list \<Rightarrow> 'e order_read_error + id_order" where
  "order_visit_seq ids [] = Inr ids"
| "order_visit_seq ids (Inl e # rest) = Inl (OR_Element e)"
| "order_visit_seq ids (Inr i # rest) =
    (if length ids = MAX_LOCAL_QUALITY_CANDIDATES then Inl (OR_InvalidLength (length ids + 1))
     else order_visit_seq (ids @ [i]) rest)"

section \<open>Resolving an order to indices\<close>

definition USIZE_MAX :: nat where "USIZE_MAX = 2 ^ 64 - 1"

text \<open>\<open>iter().position\<close>.\<close>

fun position :: "('a \<Rightarrow> bool) \<Rightarrow> 'a list \<Rightarrow> nat option" where
  "position P [] = None"
| "position P (x # xs) = (if P x then Some 0 else map_option Suc (position P xs))"

definition abs_diff :: "nat \<Rightarrow> nat \<Rightarrow> nat" where
  "abs_diff a b = (if a < b then b - a else a - b)"

text \<open>\<open>IndexOrder\<close> keeps the whole array, of which the first \<open>len\<close> entries count.\<close>

record index_order =
  ix_old :: "nat list"
  ix_len :: nat
  ix_changed :: nat

fun resolve_loop :: "i32 list \<Rightarrow> nat \<Rightarrow> i32 list \<Rightarrow> nat list \<Rightarrow> bool list \<Rightarrow> nat \<Rightarrow>
    rerank_rejection + nat list \<times> nat" where
  "resolve_loop expected new_index [] old_indices seen changed = Inr (old_indices, changed)"
| "resolve_loop expected new_index (i # ids) old_indices seen changed =
    (case position (\<lambda>e. e = i) expected of
       None \<Rightarrow> Inl (RJ_UnknownCandidate i)
     | Some old_index \<Rightarrow>
         if seen ! old_index then Inl RJ_DuplicateCandidate
         else resolve_loop expected (Suc new_index) ids (old_indices[new_index := old_index])
                (seen[old_index := True]) (if old_index \<noteq> new_index then changed + 1 else changed))"

fun check_shift :: "nat \<Rightarrow> nat \<Rightarrow> nat list \<Rightarrow> rerank_rejection + unit" where
  "check_shift max_shift new_index [] = Inr ()"
| "check_shift max_shift new_index (old_index # rest) =
    (if old_index = USIZE_MAX then Inl RJ_IncompleteCandidateSet
     else if abs_diff old_index new_index > max_shift then Inl RJ_MovementTooLarge
     else check_shift max_shift (Suc new_index) rest)"

definition resolve_order :: "id_order \<Rightarrow> i32 list \<Rightarrow> nat \<Rightarrow> rerank_rejection + index_order" where
  "resolve_order ids expected max_rank_shift =
    (if length ids \<noteq> length expected then Inl RJ_IncompleteCandidateSet
     else bind_result
       (resolve_loop expected 0 ids (replicate MAX_LOCAL_QUALITY_CANDIDATES USIZE_MAX)
          (replicate MAX_LOCAL_QUALITY_CANDIDATES False) 0)
       (\<lambda>(old_indices, changed).
          seq (check_shift max_rank_shift 0 (take (length expected) old_indices))
            (Inr \<lparr>ix_old = old_indices, ix_len = length ids, ix_changed = changed\<rparr>)))"

section \<open>Orders from scores\<close>

record scored_candidate =
  sc_old :: nat
  sc_score :: f64

text \<open>\<open>from_scored\<close>: the sorted entries' old indices, the rest of the array zero.\<close>

fun scored_loop :: "nat \<Rightarrow> scored_candidate list \<Rightarrow> nat list \<Rightarrow> nat \<Rightarrow> nat list \<times> nat" where
  "scored_loop new_index [] old_indices changed = (old_indices, changed)"
| "scored_loop new_index (c # cs) old_indices changed =
    scored_loop (Suc new_index) cs (old_indices[new_index := sc_old c])
      (if sc_old c \<noteq> new_index then min 65535 (changed + 1) else changed)"

definition order_from_scored :: "scored_candidate list \<Rightarrow> nat \<Rightarrow> index_order" where
  "order_from_scored scored len =
    (let (old_indices, changed) =
       scored_loop 0 (take len scored) (replicate MAX_LOCAL_QUALITY_CANDIDATES 0) 0
     in \<lparr>ix_old = old_indices, ix_len = len, ix_changed = changed\<rparr>)"

definition order_ids :: "index_order \<Rightarrow> personalized_candidate list \<Rightarrow> id_order" where
  "order_ids order candidates = map (\<lambda>old. pc_id (candidates ! old)) (take (ix_len order) (ix_old order))"

section \<open>Applying an order in place\<close>

definition swap :: "'a list \<Rightarrow> nat \<Rightarrow> nat \<Rightarrow> 'a list" where
  "swap xs i j = xs[i := xs ! j, j := xs ! i]"

fun validate_indices :: "nat \<Rightarrow> nat list \<Rightarrow> bool list \<Rightarrow> rerank_rejection + bool list" where
  "validate_indices len [] seen = Inr seen"
| "validate_indices len (old_index # rest) seen =
    (if old_index \<ge> len \<or> seen ! old_index then Inl RJ_IncompleteCandidateSet
     else validate_indices len rest (seen[old_index := True]))"

text \<open>
  The inner \<open>loop\<close>, which the code leaves only when the cycle is closed: not returning is
  \<open>None\<close>.
\<close>

partial_function (option) cycle_loop ::
    "nat list \<Rightarrow> nat \<Rightarrow> 'a list \<Rightarrow> bool list \<Rightarrow> nat \<Rightarrow> ('a list \<times> bool list) option" where
  "cycle_loop old start values visited destination =
    (let source = old ! destination;
         values = swap values destination source;
         visited = visited[destination := True, source := True]
     in if old ! source = start then Some (values, visited)
        else cycle_loop old start values visited source)"

fun cycles_loop :: "nat list \<Rightarrow> nat list \<Rightarrow> 'a list \<Rightarrow> bool list \<Rightarrow> 'a list option" where
  "cycles_loop old [] values visited = Some values"
| "cycles_loop old (start # starts) values visited =
    (if visited ! start \<or> old ! start = start
     then cycles_loop old starts values (visited[start := True])
     else case cycle_loop old start values visited start of
            None \<Rightarrow> None
          | Some (values, visited) \<Rightarrow> cycles_loop old starts values visited)"

definition apply_index_order ::
    "'a list \<Rightarrow> index_order \<Rightarrow> ('a list \<times> (rerank_rejection + nat)) option" where
  "apply_index_order values order =
    (let len = ix_len order in
     if length values < len then Some (values, Inl RJ_IncompleteCandidateSet)
     else case validate_indices len (take len (ix_old order)) (replicate MAX_LOCAL_QUALITY_CANDIDATES False) of
       Inl e \<Rightarrow> Some (values, Inl e)
     | Inr seen \<Rightarrow>
         if list_ex Not (take len seen) then Some (values, Inl RJ_IncompleteCandidateSet)
         else map_option (\<lambda>values. (values, Inr (ix_changed order)))
                (cycles_loop (ix_old order) [0..<len] values (replicate MAX_LOCAL_QUALITY_CANDIDATES False)))"

end
