(* ===== verification/Local_Quality.thy ===== *)
theory Local_Quality
  imports Local_Context Candidate_Order Order_Cache
begin

text \<open>
  The local quality engine of \<open>kanai-core/src/ai.rs\<close>: model tiers, the configuration and its
  clamps, the deterministic ranking \<open>rank_fast\<close>, and the capture, validation and adoption of a
  semantic rerank. Float arithmetic and the hash function are parameters (\<open>float_ops\<close>,
  \<open>hasher\<close>); the clock is the answer of each deadline check, \<open>expired\<close>, and the elapsed time.
\<close>

section \<open>Tiers\<close>

datatype model_tier = MT_MozcOnly | MT_Tiny | MT_Compact | MT_Balanced

fun tier_label :: "model_tier \<Rightarrow> rstr" where
  "tier_label MT_MozcOnly = lit ''Mozc Only''"
| "tier_label MT_Tiny = [84, 105, 110, 121, 32, 183, 32, 48, 46, 54, 66]"
| "tier_label MT_Compact = [67, 111, 109, 112, 97, 99, 116, 32, 183, 32, 49, 46, 55, 66]"
| "tier_label MT_Balanced = [66, 97, 108, 97, 110, 99, 101, 100, 32, 183, 32, 52, 66]"

fun tier_model_size_b :: "model_tier \<Rightarrow> rstr option" where
  "tier_model_size_b MT_MozcOnly = None"
| "tier_model_size_b MT_Tiny = Some (lit ''0.6B'')"
| "tier_model_size_b MT_Compact = Some (lit ''1.7B'')"
| "tier_model_size_b MT_Balanced = Some (lit ''4B'')"

fun tier_recommended_ram_gib :: "model_tier \<Rightarrow> u32 option" where
  "tier_recommended_ram_gib MT_MozcOnly = Some 0"
| "tier_recommended_ram_gib MT_Tiny = Some 4"
| "tier_recommended_ram_gib MT_Compact = Some 6"
| "tier_recommended_ram_gib MT_Balanced = Some 12"

datatype quantization = Q_NotApplicable | Q_Q4Km | Q_Q4 | Q_Q5Km

fun quantization_label :: "quantization \<Rightarrow> rstr" where
  "quantization_label Q_NotApplicable = [8212]"
| "quantization_label Q_Q4Km = lit ''Q4_K_M''"
| "quantization_label Q_Q4 = lit ''Q4''"
| "quantization_label Q_Q5Km = lit ''Q5_K_M''"

record model_profile =
  mp_tier :: model_tier
  mp_parameters :: rstr
  mp_quantization :: quantization
  mp_approximate_model_mib :: u32
  mp_recommended_ram_gib :: u32
  mp_context_tokens :: u32
  mp_max_output_tokens :: u32
  mp_gpu_recommended :: bool

definition all_profiles :: "model_profile list" where
  "all_profiles =
    [\<lparr>mp_tier = MT_MozcOnly, mp_parameters = [8212], mp_quantization = Q_NotApplicable,
      mp_approximate_model_mib = 0, mp_recommended_ram_gib = 0, mp_context_tokens = 0,
      mp_max_output_tokens = 0, mp_gpu_recommended = False\<rparr>,
     \<lparr>mp_tier = MT_Tiny, mp_parameters = [8776, 48, 46, 54, 66], mp_quantization = Q_Q4Km,
      mp_approximate_model_mib = 500, mp_recommended_ram_gib = 4, mp_context_tokens = 2048,
      mp_max_output_tokens = 192, mp_gpu_recommended = False\<rparr>,
     \<lparr>mp_tier = MT_Compact, mp_parameters = [8776, 49, 46, 55, 66], mp_quantization = Q_Q4Km,
      mp_approximate_model_mib = 1200, mp_recommended_ram_gib = 6, mp_context_tokens = 4096,
      mp_max_output_tokens = 384, mp_gpu_recommended = True\<rparr>,
     \<lparr>mp_tier = MT_Balanced, mp_parameters = [8776, 52, 66], mp_quantization = Q_Q4Km,
      mp_approximate_model_mib = 2700, mp_recommended_ram_gib = 12, mp_context_tokens = 8192,
      mp_max_output_tokens = 768, mp_gpu_recommended = True\<rparr>]"

definition recommend_tier_for_memory :: "u32 \<Rightarrow> u32 \<Rightarrow> u32 \<Rightarrow> model_tier" where
  "recommend_tier_for_memory total_ram_gib available_ram_gib logical_cpus =
    (if total_ram_gib < 4 \<or> available_ram_gib < 2 then MT_MozcOnly
     else if available_ram_gib < 4 \<or> logical_cpus \<le> 3 then MT_Tiny
     else if available_ram_gib < 6 \<or> total_ram_gib < 8 then MT_Compact
     else MT_Balanced)"

definition recommend_tier :: "u32 \<Rightarrow> u32 \<Rightarrow> model_tier" where
  "recommend_tier total_ram_gib logical_cpus =
    recommend_tier_for_memory total_ram_gib total_ram_gib logical_cpus"

section \<open>Configuration\<close>

text \<open>Durations are nanoseconds.\<close>

definition MAX_LOCAL_QUALITY_CACHE_ENTRIES :: nat where "MAX_LOCAL_QUALITY_CACHE_ENTRIES = 128"
definition MAX_LOCAL_QUALITY_RANK_SHIFT :: nat where "MAX_LOCAL_QUALITY_RANK_SHIFT = 3"
definition MIN_SEMANTIC_RERANK_CONFIDENCE :: f64 where "MIN_SEMANTIC_RERANK_CONFIDENCE = F0_75"
definition DEFAULT_FAST_RANK_DEADLINE :: nat where "DEFAULT_FAST_RANK_DEADLINE = 2 * 1000000"
definition MAX_FAST_RANK_DEADLINE :: nat where "MAX_FAST_RANK_DEADLINE = 20 * 1000000"
definition LQ_MAX_READING_CHARS :: nat where "LQ_MAX_READING_CHARS = 64"
definition LQ_MAX_CANDIDATE_TEXT_CHARS :: nat where "LQ_MAX_CANDIDATE_TEXT_CHARS = 96"
definition LQ_MAX_READING_BYTES :: nat where "LQ_MAX_READING_BYTES = LQ_MAX_READING_CHARS * 4"
definition LQ_MAX_CANDIDATE_TEXT_BYTES :: nat where
  "LQ_MAX_CANDIDATE_TEXT_BYTES = LQ_MAX_CANDIDATE_TEXT_CHARS * 4"
definition FAST_CONTEXT_SUFFIX_BONUS :: f64 where "FAST_CONTEXT_SUFFIX_BONUS = F16"
definition FAST_CONTEXT_CONTAINS_BONUS :: f64 where "FAST_CONTEXT_CONTAINS_BONUS = F8"
definition FAST_READING_BONUS :: f64 where "FAST_READING_BONUS = F2"

datatype local_data_policy = DP_MozcBaseline | DP_CandidateFeatures | DP_BoundedContext

record local_quality_config =
  lc_data_policy :: local_data_policy
  lc_max_candidates :: nat
  lc_max_rank_shift :: nat
  lc_max_context_chars :: nat
  lc_cache_capacity :: nat
  lc_fast_deadline :: nat
  lc_policy_revision :: u32

definition quality_config_new :: "local_data_policy \<Rightarrow> local_quality_config" where
  "quality_config_new data_policy =
    \<lparr>lc_data_policy = data_policy, lc_max_candidates = MAX_LOCAL_QUALITY_CANDIDATES,
     lc_max_rank_shift = MAX_LOCAL_QUALITY_RANK_SHIFT,
     lc_max_context_chars = MAX_LOCAL_QUALITY_CONTEXT_CHARS, lc_cache_capacity = 64,
     lc_fast_deadline = DEFAULT_FAST_RANK_DEADLINE, lc_policy_revision = 1\<rparr>"

definition quality_config_default :: local_quality_config where
  "quality_config_default =
    \<lparr>lc_data_policy = DP_MozcBaseline, lc_max_candidates = MAX_LOCAL_QUALITY_CANDIDATES,
     lc_max_rank_shift = MAX_LOCAL_QUALITY_RANK_SHIFT,
     lc_max_context_chars = MAX_LOCAL_QUALITY_CONTEXT_CHARS, lc_cache_capacity = 64,
     lc_fast_deadline = DEFAULT_FAST_RANK_DEADLINE, lc_policy_revision = 1\<rparr>"

definition with_limits :: "nat \<Rightarrow> nat \<Rightarrow> nat \<Rightarrow> nat \<Rightarrow> local_quality_config \<Rightarrow> local_quality_config" where
  "with_limits max_candidates max_rank_shift max_context_chars cache_capacity c =
    c\<lparr>lc_max_candidates := min (max max_candidates 2) MAX_LOCAL_QUALITY_CANDIDATES,
      lc_max_rank_shift := min max_rank_shift MAX_LOCAL_QUALITY_RANK_SHIFT,
      lc_max_context_chars := min max_context_chars MAX_LOCAL_QUALITY_CONTEXT_CHARS,
      lc_cache_capacity := min cache_capacity MAX_LOCAL_QUALITY_CACHE_ENTRIES\<rparr>"

definition with_fast_deadline :: "nat \<Rightarrow> local_quality_config \<Rightarrow> local_quality_config" where
  "with_fast_deadline deadline c =
    c\<lparr>lc_fast_deadline := if deadline > MAX_FAST_RANK_DEADLINE then MAX_FAST_RANK_DEADLINE else deadline\<rparr>"

definition with_policy_revision :: "u32 \<Rightarrow> local_quality_config \<Rightarrow> local_quality_config" where
  "with_policy_revision revision c = c\<lparr>lc_policy_revision := revision\<rparr>"

definition bound_context :: "local_quality_config \<Rightarrow> rstr \<Rightarrow> rstr \<Rightarrow> bounded_context" where
  "bound_context c context_before context_after =
    (if lc_data_policy c \<noteq> DP_BoundedContext then EMPTY_CONTEXT
     else context_bounded context_before context_after (lc_max_context_chars c))"

section \<open>Requests and outcomes\<close>

record quality_request =
  lr_session_id :: u64
  lr_generation :: u64
  lr_current_generation :: "u64 option"
  lr_tier :: model_tier
  lr_reading :: rstr
  lr_context_before :: rstr
  lr_context_after :: rstr
  lr_model_revision :: u64
  lr_learning_version :: u64

datatype fast_rank_status =
    FR_Applied | FR_CacheHit | FR_Unchanged | FR_MozcOnly | FR_PolicyDisabled | FR_StaleGeneration
  | FR_SessionEnded | FR_DeadlineExceeded | FR_InvalidInput | FR_DuplicateCandidateIds
  | FR_RankShiftTooLarge | FR_InsufficientCandidates

record fast_rank_outcome =
  fr_status :: fast_rank_status
  fr_changed_positions :: nat
  fr_evaluated_candidates :: nat
  fr_cache_entries :: nat
  fr_elapsed_micros :: nat

definition used_baseline :: "fast_rank_outcome \<Rightarrow> bool" where
  "used_baseline r \<longleftrightarrow> fr_status r \<noteq> FR_Applied \<and> fr_status r \<noteq> FR_CacheHit"

definition changed_candidate :: "fast_rank_outcome \<Rightarrow> bool" where
  "changed_candidate r \<longleftrightarrow> fr_changed_positions r > 0"

section \<open>Keys and fingerprints\<close>

text \<open>
  What the code feeds to a \<open>DefaultHasher\<close>, value by value; the hasher maps the values written
  to it to its \<open>finish()\<close>.
\<close>

datatype hash_item =
    H_u8 u8 | H_u32 u32 | H_u64 u64 | H_i32 i32 | H_usize nat | H_str rstr | H_char rchar
  | H_opt_str "rstr option"

type_synonym hasher = "hash_item list \<Rightarrow> u64"

record cache_key =
  ck_primary :: u64
  ck_secondary :: u64

record candidate_fingerprint =
  cf_primary :: u64
  cf_secondary :: u64

datatype cache_operation = CO_FastRank | CO_SemanticRerank

fun model_tier_code :: "model_tier \<Rightarrow> u8" where
  "model_tier_code MT_MozcOnly = 0"
| "model_tier_code MT_Tiny = 1"
| "model_tier_code MT_Compact = 2"
| "model_tier_code MT_Balanced = 3"

fun local_data_policy_code :: "local_data_policy \<Rightarrow> u8" where
  "local_data_policy_code DP_MozcBaseline = 0"
| "local_data_policy_code DP_CandidateFeatures = 1"
| "local_data_policy_code DP_BoundedContext = 2"

fun candidate_origin_code :: "candidate_origin \<Rightarrow> u8" where
  "candidate_origin_code OConversion = 0"
| "candidate_origin_code OPrediction = 1"
| "candidate_origin_code OSuggestion = 2"
| "candidate_origin_code OUserDictionary = 3"
| "candidate_origin_code OUserHistory = 4"
| "candidate_origin_code OTypingCorrection = 5"
| "candidate_origin_code OSpellingCorrection = 6"
| "candidate_origin_code (OUnknown _) = 7"

text \<open>Both hashers of a fingerprint are fed the same values.\<close>

definition fingerprint_items :: "personalized_candidate \<Rightarrow> hash_item list" where
  "fingerprint_items c =
    [H_i32 (pc_id c), H_str (cd_text (pc_candidate c)), H_opt_str (cd_reading (pc_candidate c)),
     H_usize (cd_provider_rank (pc_candidate c)), H_u64 (pc_score c),
     H_u8 (candidate_origin_code (cd_origin (pc_candidate c)))]"

definition candidate_fingerprint_of :: "hasher \<Rightarrow> personalized_candidate \<Rightarrow> candidate_fingerprint" where
  "candidate_fingerprint_of H c =
    (let primary = fingerprint_items c; secondary = fingerprint_items c
     in \<lparr>cf_primary = H primary, cf_secondary = H secondary\<rparr>)"

definition hash_cache_header ::
    "cache_operation \<Rightarrow> quality_request \<Rightarrow> local_quality_config \<Rightarrow> bounded_context \<Rightarrow> hash_item list" where
  "hash_cache_header operation request config context =
    [H_u8 (case operation of CO_FastRank \<Rightarrow> 1 | CO_SemanticRerank \<Rightarrow> 2),
     H_u64 (lr_session_id request), H_u64 (lr_generation request),
     H_u64 (lr_model_revision request), H_u64 (lr_learning_version request),
     H_u8 (model_tier_code (lr_tier request)),
     H_u8 (local_data_policy_code (lc_data_policy config)),
     H_usize (lc_max_candidates config), H_usize (lc_max_rank_shift config),
     H_usize (lc_max_context_chars config), H_u32 (lc_policy_revision config),
     H_str (trim (lr_reading request)),
     H_u8 (of_nat (length (bc_values context))), H_u8 (of_nat (bc_before_len context))]
    @ map H_char (bc_values context)"

definition input_cache_key ::
    "hasher \<Rightarrow> cache_operation \<Rightarrow> quality_request \<Rightarrow> local_quality_config \<Rightarrow> bounded_context \<Rightarrow>
     id_order \<Rightarrow> personalized_candidate list \<Rightarrow> cache_key" where
  "input_cache_key H operation request config context ids candidates =
    (let header = hash_cache_header operation request config context @ [H_usize (length ids)] @ map H_i32 ids;
         fingerprints = map (candidate_fingerprint_of H) candidates
     in \<lparr>ck_primary = H (header @ map (\<lambda>f. H_u64 (cf_primary f)) fingerprints),
         ck_secondary = H (header @ map (\<lambda>f. H_u64 (cf_secondary f)) fingerprints)\<rparr>)"

section \<open>Validation and scores\<close>

definition valid_reading :: "rstr \<Rightarrow> bool" where
  "valid_reading reading =
    (let reading = trim reading in
     reading \<noteq> [] \<and> blen reading \<le> LQ_MAX_READING_BYTES \<and> length reading \<le> LQ_MAX_READING_CHARS \<and>
     \<not> has_control reading)"

definition valid_candidate_text :: "rstr \<Rightarrow> bool" where
  "valid_candidate_text value \<longleftrightarrow>
     value \<noteq> [] \<and> blen value \<le> LQ_MAX_CANDIDATE_TEXT_BYTES \<and> length value \<le> LQ_MAX_CANDIDATE_TEXT_CHARS \<and>
     \<not> has_control value"

fun validate_window :: "i32 list \<Rightarrow> personalized_candidate list \<Rightarrow> rerank_rejection + unit" where
  "validate_window previous [] = Inr ()"
| "validate_window previous (c # cs) =
    (if \<not> valid_candidate_text (cd_text (pc_candidate c)) then Inl RJ_InvalidInput
     else if (case cd_reading (pc_candidate c) of None \<Rightarrow> False | Some r \<Rightarrow> \<not> valid_reading r)
     then Inl RJ_InvalidInput
     else if pc_id c \<in> set previous then Inl RJ_DuplicateInputCandidate
     else validate_window (previous @ [pc_id c]) cs)"

definition validate_candidate_window :: "personalized_candidate list \<Rightarrow> rerank_rejection + unit" where
  "validate_candidate_window candidates = validate_window [] candidates"

definition source_prior :: "candidate_origin \<Rightarrow> f64" where
  "source_prior origin = (case origin of
      OTypingCorrection \<Rightarrow> F8 | OSpellingCorrection \<Rightarrow> F8 | OUserHistory \<Rightarrow> F4 | OUserDictionary \<Rightarrow> F3
    | OSuggestion \<Rightarrow> float_neg F4 | OConversion \<Rightarrow> F0 | OPrediction \<Rightarrow> F0 | OUnknown _ \<Rightarrow> F0)"

definition fast_score :: "float_ops \<Rightarrow> rstr \<Rightarrow> bounded_context \<Rightarrow> personalized_candidate \<Rightarrow> f64" where
  "fast_score F reading context c =
    (let context_affinity =
           (if context_ends_with context (cd_text (pc_candidate c)) then FAST_CONTEXT_SUFFIX_BONUS
            else if context_contains context (cd_text (pc_candidate c)) then FAST_CONTEXT_CONTAINS_BONUS
            else F0);
         reading_match =
           (case cd_reading (pc_candidate c) of None \<Rightarrow> F0
            | Some r \<Rightarrow> if trim r = reading then FAST_READING_BONUS else F0)
     in fo_add F (fo_add F (fo_add F (pc_score c) context_affinity) reading_match)
          (source_prior (cd_origin (pc_candidate c))))"

text \<open>The comparison of \<open>sort_unstable_by\<close>: the higher score first, then the smaller index.\<close>

definition scored_before :: "scored_candidate \<Rightarrow> scored_candidate \<Rightarrow> bool" where
  "scored_before left right \<longleftrightarrow>
     total_key (sc_score right) < total_key (sc_score left) \<or>
     total_key (sc_score right) = total_key (sc_score left) \<and> sc_old left \<le> sc_old right"

fun insert_scored :: "scored_candidate \<Rightarrow> scored_candidate list \<Rightarrow> scored_candidate list" where
  "insert_scored x [] = [x]"
| "insert_scored x (y # ys) = (if scored_before x y then x # y # ys else y # insert_scored x ys)"

definition sort_scored :: "scored_candidate list \<Rightarrow> scored_candidate list" where
  "sort_scored xs = foldr insert_scored xs []"

section \<open>The engine\<close>

datatype semantic_action = SA_Rerank | SA_Abstain

datatype semantic_reason =
    SE_SemanticContext | SE_AmbiguousHomophone | SE_DomainTerm | SE_IntentFit | SE_Abstain

datatype semantic_provider_error = SP_TimedOut | SP_Unavailable | SP_Cancelled | SP_MalformedResponse

fun provider_error_code :: "semantic_provider_error \<Rightarrow> rstr" where
  "provider_error_code SP_TimedOut = lit ''providerTimeout''"
| "provider_error_code SP_Unavailable = lit ''providerUnavailable''"
| "provider_error_code SP_Cancelled = lit ''cancelled''"
| "provider_error_code SP_MalformedResponse = lit ''malformedResponse''"

record semantic_decision =
  sd_action :: semantic_action
  sd_candidate_ids :: id_order
  sd_patch :: "unit option"
  sd_confidence :: f64
  sd_reason :: semantic_reason
  sd_model_tier :: model_tier
  sd_expires_at_generation :: u64
  sd_input_revision :: u64
  sd_model_revision :: u64
  sd_learning_version :: u64

record semantic_snapshot =
  sn_session_id :: u64
  sn_generation :: u64
  sn_tier :: model_tier
  sn_model_revision :: u64
  sn_learning_version :: u64
  sn_input_revision :: u64
  sn_candidate_ids :: id_order
  sn_fingerprints :: "candidate_fingerprint list"
  sn_max_rank_shift :: nat
  sn_uses_context :: bool
  sn_cache_key :: cache_key

record semantic_admission =
  sm_current_generation :: "u64 option"
  sm_current_model_revision :: u64
  sm_current_learning_version :: u64
  sm_candidates :: "personalized_candidate list"

record semantic_plan =
  sl_snapshot :: semantic_snapshot
  sl_candidate_ids :: id_order
  sl_changed_positions :: nat

datatype semantic_apply = SY_Applied nat | SY_Abstained

datatype semantic_resolution =
    SR_Applied nat | SR_Abstained | SR_Fallback semantic_provider_error | SR_Rejected rerank_rejection

fun resolution_is_applied :: "semantic_resolution \<Rightarrow> bool" where
  "resolution_is_applied (SR_Applied _) = True"
| "resolution_is_applied _ = False"

fun preserved_baseline :: "semantic_resolution \<Rightarrow> bool" where
  "preserved_baseline (SR_Applied changed) = (changed = 0)"
| "preserved_baseline _ = True"

fun reason_code :: "semantic_resolution \<Rightarrow> rstr" where
  "reason_code (SR_Applied _) = lit ''applied''"
| "reason_code SR_Abstained = lit ''abstain''"
| "reason_code (SR_Fallback e) = provider_error_code e"
| "reason_code (SR_Rejected r) = rejection_code r"

record quality_engine =
  en_config :: local_quality_config
  en_fast :: "(cache_key, id_order) order_cache"
  en_semantic :: "(cache_key, semantic_plan) order_cache"
  en_fast_limit :: nat
  en_semantic_limit :: nat

definition engine_new :: "local_quality_config \<Rightarrow> quality_engine" where
  "engine_new config =
    (let semantic_capacity = lc_cache_capacity config div 2;
         fast_capacity = lc_cache_capacity config - semantic_capacity
     in \<lparr>en_config = config, en_fast = [], en_semantic = [], en_fast_limit = fast_capacity,
         en_semantic_limit = semantic_capacity\<rparr>)"

definition engine_mozc_only :: quality_engine where
  "engine_mozc_only = engine_new (quality_config_new DP_MozcBaseline)"

definition engine_cache_entries :: "quality_engine \<Rightarrow> nat" where
  "engine_cache_entries e = length (en_fast e) + length (en_semantic e)"

definition engine_clear_cache :: "quality_engine \<Rightarrow> quality_engine" where
  "engine_clear_cache e = e\<lparr>en_fast := [], en_semantic := []\<rparr>"

definition context_for :: "quality_engine \<Rightarrow> quality_request \<Rightarrow> bounded_context" where
  "context_for e request = bound_context (en_config e) (lr_context_before request) (lr_context_after request)"

subsection \<open>\<open>rank_fast\<close>\<close>

definition fast_outcome :: "quality_engine \<Rightarrow> fast_rank_status \<Rightarrow> nat \<Rightarrow> nat \<Rightarrow> nat \<Rightarrow> fast_rank_outcome" where
  "fast_outcome e status changed evaluated elapsed =
    \<lparr>fr_status = status, fr_changed_positions = changed, fr_evaluated_candidates = evaluated,
     fr_cache_entries = min (engine_cache_entries e) 65535, fr_elapsed_micros = min elapsed (2 ^ 64 - 1)\<rparr>"

definition fast_evaluated :: "quality_engine \<Rightarrow> personalized_candidate list \<Rightarrow> nat" where
  "fast_evaluated e candidates = min (min (length candidates) (lc_max_candidates (en_config e))) 65535"

text \<open>The fallbacks before the ranking, in order; \<open>expired 0\<close> answers the first deadline check.\<close>

definition fast_guard ::
    "quality_engine \<Rightarrow> (nat \<Rightarrow> bool) \<Rightarrow> personalized_candidate list \<Rightarrow> quality_request \<Rightarrow> fast_rank_status option" where
  "fast_guard e expired window request =
    (if lr_tier request = MT_MozcOnly then Some FR_MozcOnly
     else if lc_data_policy (en_config e) = DP_MozcBaseline then Some FR_PolicyDisabled
     else if lr_current_generation request = None then Some FR_SessionEnded
     else if lr_current_generation request \<noteq> Some (lr_generation request) then Some FR_StaleGeneration
     else if length window < 2 then Some FR_InsufficientCandidates
     else if \<not> valid_reading (lr_reading request) then Some FR_InvalidInput
     else case validate_candidate_window window of
       Inl RJ_DuplicateInputCandidate \<Rightarrow> Some FR_DuplicateCandidateIds
     | Inl _ \<Rightarrow> Some FR_InvalidInput
     | Inr _ \<Rightarrow> if expired 0 then Some FR_DeadlineExceeded else None)"

text \<open>The scoring loop; the check before the candidate at \<open>i\<close> is \<open>expired (2 + i)\<close>.\<close>

fun score_loop ::
    "float_ops \<Rightarrow> (nat \<Rightarrow> bool) \<Rightarrow> rstr \<Rightarrow> bounded_context \<Rightarrow> nat \<Rightarrow> personalized_candidate list \<Rightarrow>
     fast_rank_status + scored_candidate list" where
  "score_loop F expired reading context old_index [] = Inr []"
| "score_loop F expired reading context old_index (c # cs) =
    (if expired (2 + old_index) then Inl FR_DeadlineExceeded
     else
       let score = fast_score F reading context c in
       if \<not> is_finite score then Inl FR_InvalidInput
       else bind_result (score_loop F expired reading context (Suc old_index) cs)
              (\<lambda>rest. Inr (\<lparr>sc_old = old_index, sc_score = score\<rparr> # rest)))"

definition too_far :: "index_order \<Rightarrow> nat \<Rightarrow> nat \<Rightarrow> bool" where
  "too_far order len max_shift \<longleftrightarrow>
     list_ex (\<lambda>(new_index, old_index). abs_diff old_index new_index > max_shift)
       (zip [0..<len] (take len (ix_old order)))"

text \<open>
  The ranking of a window after a cache miss: \<open>None\<close> stands for the panic of \<open>expect\<close> and for
  a loop that does not end.
\<close>

definition rank_miss ::
    "float_ops \<Rightarrow> (nat \<Rightarrow> bool) \<Rightarrow> nat \<Rightarrow> cache_key \<Rightarrow> bounded_context \<Rightarrow> quality_request \<Rightarrow> nat \<Rightarrow>
     personalized_candidate list \<Rightarrow> quality_engine \<Rightarrow>
     (quality_engine \<times> personalized_candidate list \<times> fast_rank_outcome) option" where
  "rank_miss F expired elapsed key context request evaluated candidates e =
    (let window = take evaluated candidates;
         fallback = (\<lambda>status. Some (e, candidates, fast_outcome e status 0 evaluated elapsed)) in
     case score_loop F expired (trim (lr_reading request)) context 0 window of
       Inl status \<Rightarrow> fallback status
     | Inr scored \<Rightarrow>
         let order = order_from_scored (sort_scored scored) (length window) in
         if too_far order (length window) (lc_max_rank_shift (en_config e)) then fallback FR_RankShiftTooLarge
         else if expired (2 + length window) then fallback FR_DeadlineExceeded
         else
           let ids = order_ids order window in
           case apply_index_order candidates order of
             Some (candidates', Inr changed) \<Rightarrow>
               let e = e\<lparr>en_fast := insert_cache (en_fast_limit e) key ids (en_fast e)\<rparr> in
               Some (e, candidates',
                 fast_outcome e (if changed > 0 then FR_Applied else FR_Unchanged) changed evaluated elapsed)
           | _ \<Rightarrow> None)"

definition rank_fast ::
    "float_ops \<Rightarrow> hasher \<Rightarrow> (nat \<Rightarrow> bool) \<Rightarrow> nat \<Rightarrow> personalized_candidate list \<Rightarrow> quality_request \<Rightarrow>
     quality_engine \<Rightarrow> (quality_engine \<times> personalized_candidate list \<times> fast_rank_outcome) option" where
  "rank_fast F H expired elapsed candidates request e =
    (let evaluated = fast_evaluated e candidates;
         window = take evaluated candidates in
     case fast_guard e expired window request of
       Some status \<Rightarrow> Some (e, candidates, fast_outcome e status 0 evaluated elapsed)
     | None \<Rightarrow>
         let context = context_for e request;
             ids = map pc_id window;
             key = input_cache_key H CO_FastRank request (en_config e) context ids window;
             (hit, cache) = lookup_cache key (en_fast e);
             e = e\<lparr>en_fast := cache\<rparr>;
             miss = (\<lambda>candidates. rank_miss F expired elapsed key context request evaluated candidates e) in
         case hit of None \<Rightarrow> miss candidates
         | Some order \<Rightarrow>
             (case resolve_order order ids (lc_max_rank_shift (en_config e)) of
                Inl _ \<Rightarrow> miss candidates
              | Inr index_order \<Rightarrow>
                  if expired 1 then miss candidates
                  else case apply_index_order candidates index_order of
                    None \<Rightarrow> None
                  | Some (candidates', Inl _) \<Rightarrow> miss candidates'
                  | Some (candidates', Inr changed) \<Rightarrow>
                      Some (e, candidates',
                        fast_outcome e (if changed > 0 then FR_CacheHit else FR_Unchanged) changed evaluated elapsed)))"

subsection \<open>Semantic reranks\<close>

definition capture_semantic_rerank ::
    "hasher \<Rightarrow> quality_request \<Rightarrow> personalized_candidate list \<Rightarrow> quality_engine \<Rightarrow>
     rerank_rejection + semantic_snapshot" where
  "capture_semantic_rerank H request candidates e =
    (if lr_tier request = MT_MozcOnly then Inl RJ_MozcOnly
     else if lc_data_policy (en_config e) = DP_MozcBaseline then Inl RJ_PolicyDisabled
     else if lr_current_generation request \<noteq> Some (lr_generation request) then Inl RJ_StaleGeneration
     else if \<not> valid_reading (lr_reading request) then Inl RJ_InvalidInput
     else
       let len = min (length candidates) (lc_max_candidates (en_config e)) in
       if len < 2 then Inl RJ_InsufficientCandidates
       else
         let window = take len candidates in
         seq (validate_candidate_window window)
           (let context = context_for e request;
                ids = map pc_id window;
                key = input_cache_key H CO_SemanticRerank request (en_config e) context ids window
            in Inr \<lparr>sn_session_id = lr_session_id request, sn_generation = lr_generation request,
                    sn_tier = lr_tier request, sn_model_revision = lr_model_revision request,
                    sn_learning_version = lr_learning_version request, sn_input_revision = ck_primary key,
                    sn_candidate_ids = ids, sn_fingerprints = map (candidate_fingerprint_of H) window,
                    sn_max_rank_shift = lc_max_rank_shift (en_config e),
                    sn_uses_context = (bc_values context \<noteq> []), sn_cache_key = key\<rparr>))"

definition matches_candidates :: "hasher \<Rightarrow> semantic_snapshot \<Rightarrow> personalized_candidate list \<Rightarrow> bool" where
  "matches_candidates H s candidates =
    (let len = length (sn_candidate_ids s) in
     if length candidates < len then False
     else list_all (\<lambda>index. pc_id (candidates ! index) = sn_candidate_ids s ! index \<and>
              candidate_fingerprint_of H (candidates ! index) = sn_fingerprints s ! index) [0..<len])"

definition check_admission :: "hasher \<Rightarrow> semantic_snapshot \<Rightarrow> semantic_admission \<Rightarrow> rerank_rejection + unit" where
  "check_admission H s a =
    (if sm_current_generation a \<noteq> Some (sn_generation s) then Inl RJ_StaleGeneration
     else if sm_current_model_revision a \<noteq> sn_model_revision s then Inl RJ_WrongModelRevision
     else if sm_current_learning_version a \<noteq> sn_learning_version s then Inl RJ_WrongLearningVersion
     else if \<not> matches_candidates H s (sm_candidates a) then Inl RJ_CandidateSetChanged
     else Inr ())"

definition validate_semantic_rerank ::
    "hasher \<Rightarrow> semantic_decision \<Rightarrow> semantic_snapshot \<Rightarrow> semantic_admission \<Rightarrow> rerank_rejection + semantic_plan" where
  "validate_semantic_rerank H d s a =
    seq (check_admission H s a)
      (if sd_expires_at_generation d \<noteq> sn_generation s then Inl RJ_StaleGeneration
       else if sd_input_revision d \<noteq> sn_input_revision s then Inl RJ_WrongInputRevision
       else if sd_model_revision d \<noteq> sn_model_revision s then Inl RJ_WrongModelRevision
       else if sd_learning_version d \<noteq> sn_learning_version s then Inl RJ_WrongLearningVersion
       else if sd_model_tier d \<noteq> sn_tier s then Inl RJ_WrongModelTier
       else if \<not> is_finite (sd_confidence d) \<or>
         \<not> (float_le F0 (sd_confidence d) \<and> float_le (sd_confidence d) F1) then Inl RJ_InvalidConfidence
       else if sd_patch d \<noteq> None then Inl RJ_CandidatePatch
       else case sd_action d of
         SA_Abstain \<Rightarrow>
           if sd_candidate_ids d \<noteq> [] then Inl RJ_UnexpectedCandidates
           else if sd_reason d \<noteq> SE_Abstain then Inl RJ_InvalidReason
           else Inr \<lparr>sl_snapshot = s, sl_candidate_ids = sd_candidate_ids d, sl_changed_positions = 0\<rparr>
       | SA_Rerank \<Rightarrow>
           if sd_reason d = SE_Abstain then Inl RJ_InvalidReason
           else if float_less (sd_confidence d) MIN_SEMANTIC_RERANK_CONFIDENCE then Inl RJ_LowConfidence
           else bind_result (resolve_order (sd_candidate_ids d) (sn_candidate_ids s) (sn_max_rank_shift s))
             (\<lambda>order. Inr \<lparr>sl_snapshot = s, sl_candidate_ids = sd_candidate_ids d,
                            sl_changed_positions = ix_changed order\<rparr>))"

definition plan_apply ::
    "hasher \<Rightarrow> semantic_plan \<Rightarrow> semantic_admission \<Rightarrow>
     (personalized_candidate list \<times> (rerank_rejection + semantic_apply)) option" where
  "plan_apply H plan a =
    (case check_admission H (sl_snapshot plan) a of
       Inl r \<Rightarrow> Some (sm_candidates a, Inl r)
     | Inr _ \<Rightarrow>
         if sl_candidate_ids plan = [] then Some (sm_candidates a, Inr SY_Abstained)
         else case resolve_order (sl_candidate_ids plan) (sn_candidate_ids (sl_snapshot plan))
                     (sn_max_rank_shift (sl_snapshot plan)) of
           Inl r \<Rightarrow> Some (sm_candidates a, Inl r)
         | Inr order \<Rightarrow>
             map_option (\<lambda>(candidates, applied). (candidates, map_sum id SY_Applied applied))
               (apply_index_order (sm_candidates a) order))"

definition cached_semantic_rerank :: "semantic_snapshot \<Rightarrow> quality_engine \<Rightarrow> semantic_plan option \<times> quality_engine" where
  "cached_semantic_rerank s e =
    (let (hit, cache) = lookup_cache (sn_cache_key s) (en_semantic e)
     in (case hit of None \<Rightarrow> None
         | Some plan \<Rightarrow> if sn_cache_key (sl_snapshot plan) = sn_cache_key s then Some plan else None,
         e\<lparr>en_semantic := cache\<rparr>))"

fun applied_resolution :: "rerank_rejection + semantic_apply \<Rightarrow> semantic_resolution" where
  "applied_resolution (Inr (SY_Applied changed)) = SR_Applied changed"
| "applied_resolution (Inr SY_Abstained) = SR_Abstained"
| "applied_resolution (Inl r) = SR_Rejected r"

definition resolve_semantic_rerank ::
    "hasher \<Rightarrow> semantic_snapshot \<Rightarrow> semantic_admission \<Rightarrow> semantic_provider_error + semantic_decision \<Rightarrow>
     quality_engine \<Rightarrow> (quality_engine \<times> personalized_candidate list \<times> semantic_resolution) option" where
  "resolve_semantic_rerank H s a provider_result e =
    (let (cached, e) = cached_semantic_rerank s e in
     case cached of
       Some plan \<Rightarrow>
         map_option (\<lambda>(candidates, r). (e, candidates, applied_resolution r)) (plan_apply H plan a)
     | None \<Rightarrow>
       (case provider_result of
          Inl error \<Rightarrow> Some (e, sm_candidates a, SR_Fallback error)
        | Inr decision \<Rightarrow>
          (case validate_semantic_rerank H decision s a of
             Inl r \<Rightarrow> Some (e, sm_candidates a, SR_Rejected r)
           | Inr plan \<Rightarrow>
             (case plan_apply H plan a of
                None \<Rightarrow> None
              | Some (candidates, Inl r) \<Rightarrow> Some (e, candidates, SR_Rejected r)
              | Some (candidates, Inr ap) \<Rightarrow>
                  Some (e\<lparr>en_semantic := insert_cache (en_semantic_limit e) (sn_cache_key s) plan (en_semantic e)\<rparr>,
                        candidates, applied_resolution (Inr ap))))))"

end
