(* ===== verification/Learning.thy ===== *)
theory Learning
  imports Local_Quality "HOL-Library.List_Lexorder"
begin

text \<open>
  The learning policy of \<open>kanai-core/src/learning.rs\<close>: what a commit records, and the explainable
  adjustments that it and the profile give to a candidate. Float arithmetic (\<open>float_ops\<close>) and the
  Unicode lower-case mapping (\<open>lower\<close>) are parameters; Japanese literals are their code points.
\<close>

section \<open>State\<close>

definition LEARNING_FREQUENCY_WEIGHT :: f64 where "LEARNING_FREQUENCY_WEIGHT = F300"
definition LEARNING_CONTEXT_BONUS :: f64 where "LEARNING_CONTEXT_BONUS = F18"
definition REPEATED_LEARNING_THRESHOLD :: f64 where "REPEATED_LEARNING_THRESHOLD = F500"
definition MOZC_SCORE_SCALE :: f64 where "MOZC_SCORE_SCALE = F920"
definition DOMAIN_TERM_WEIGHT :: f64 where "DOMAIN_TERM_WEIGHT = F36"

record user_profile =
  up_learning_enabled :: bool
  up_personalization_strength :: f64
  up_history_limit :: nat
  up_domain_terms :: "rstr list"
  up_recency_half_life_days :: f64
  up_model_tier :: model_tier

definition default_profile :: user_profile where
  "default_profile = \<lparr>up_learning_enabled = True, up_personalization_strength = 0x3FE5C28F5C28F5C3,
     up_history_limit = 300, up_domain_terms = [], up_recency_half_life_days = 0x4046800000000000,
     up_model_tier = MT_MozcOnly\<rparr>"

record learned_candidate =
  ln_count :: u32
  ln_last_used_at :: u64
  ln_contexts :: "(rstr, u32) fmap"

record user_word =
  uw_id :: rstr
  uw_reading :: rstr
  uw_text :: rstr
  uw_boost :: f64
  uw_created_at :: u64

definition default_word_boost :: f64 where "default_word_boost = 0x4066800000000000"

record history_entry =
  he_reading :: rstr
  he_text :: rstr
  he_at :: u64

record learning_state =
  ls_version :: u8
  ls_profile :: user_profile
  ls_learned :: "(rstr, learned_candidate) fmap"
  ls_user_words :: "user_word list"
  ls_history :: "history_entry list"

definition default_learning_state :: learning_state where
  "default_learning_state = \<lparr>ls_version = 1, ls_profile = default_profile, ls_learned = fmempty,
     ls_user_words = [], ls_history = []\<rparr>"

definition learning_key :: "rstr \<Rightarrow> rstr \<Rightarrow> rstr" where
  "learning_key reading text = reading @ [31] @ text"

section \<open>Recording\<close>

definition saturating_succ_u32 :: "u32 \<Rightarrow> u32" where
  "saturating_succ_u32 n = (if n = - 1 then - 1 else n + 1)"

definition record_learning :: "rstr \<Rightarrow> rstr \<Rightarrow> rstr \<Rightarrow> u64 \<Rightarrow> learning_state \<Rightarrow> learning_state" where
  "record_learning reading text context_tail now s =
    (if \<not> up_learning_enabled (ls_profile s) then s
     else
       let key = learning_key reading text;
           stats = (case fmlookup (ls_learned s) key of
             Some stats \<Rightarrow> stats
           | None \<Rightarrow> \<lparr>ln_count = 0, ln_last_used_at = now, ln_contexts = fmempty\<rparr>);
           stats = stats\<lparr>ln_count := saturating_succ_u32 (ln_count stats), ln_last_used_at := now\<rparr>;
           stats = (if context_tail = [] then stats
             else
               let count = (case fmlookup (ln_contexts stats) context_tail of Some n \<Rightarrow> n | None \<Rightarrow> 0)
               in stats\<lparr>ln_contexts := fmupd context_tail (saturating_succ_u32 count) (ln_contexts stats)\<rparr>);
           entry = \<lparr>he_reading = reading, he_text = text, he_at = now\<rparr>
       in s\<lparr>ls_learned := fmupd key stats (ls_learned s),
            ls_history := take (up_history_limit (ls_profile s)) (entry # ls_history s)\<rparr>)"

section \<open>Adjustments\<close>

definition context_signature :: "rstr \<Rightarrow> rstr" where
  "context_signature context = rev (take 12 (rev (trim_end context)))"

definition build_domain_terms :: "(rstr \<Rightarrow> rstr) \<Rightarrow> rstr list \<Rightarrow> rstr list" where
  "build_domain_terms lower terms =
    remdups_adj (sort (filter (\<lambda>t. t \<noteq> []) (map (\<lambda>t. lower (trim t)) terms)))"

definition explain_candidate :: "rstr \<Rightarrow> f64 \<Rightarrow> f64 \<Rightarrow> f64 \<Rightarrow> rstr" where
  "explain_candidate origin learning domain user_word =
    (if float_less F0 user_word then [12518, 12540, 12470, 12540, 36766, 26360, 12391, 20778, 20808, 12375, 12414, 12375, 12383]
     else if float_le REPEATED_LEARNING_THRESHOLD learning then
       origin @ [12539, 32368, 12426, 36820, 12375, 23398, 32722, 12391, 20778, 20808, 12375, 12414, 12375, 12383]
     else if float_less F0 learning then
       origin @ [12539, 12371, 12398, 25991, 33032, 12391, 12398, 23398, 32722, 12434, 20778, 20808, 12375, 12414, 12375, 12383]
     else if float_less F0 domain then
       origin @ [12539, 23554, 38272, 35486, 12434, 26908, 20986, 12375, 12414, 12375, 12383]
     else origin @ [12539, 77, 111, 122, 99, 32, 12398, 25991, 33032, 12473, 12467, 12450, 12434, 25505, 29992, 12375, 12414, 12375, 12383])"

definition learning_adjustment ::
    "float_ops \<Rightarrow> user_profile \<Rightarrow> learned_candidate option \<Rightarrow> rstr \<Rightarrow> u64 \<Rightarrow> f64" where
  "learning_adjustment F profile learned context_tail now =
    (if up_learning_enabled profile then
       (case learned of None \<Rightarrow> F0
        | Some stats \<Rightarrow>
            let frequency = fo_mul F LEARNING_FREQUENCY_WEIGHT
                  (fo_log2 F (fo_add F F1 (fo_of_nat F (unat (ln_count stats)))));
                age_days = fo_div F (fo_of_nat F (unat now - unat (ln_last_used_at stats))) F86400000;
                recency = fo_powf F F2
                  (fo_div F (float_neg age_days) (fo_max F (up_recency_half_life_days profile) F1));
                context_bonus =
                  (if fmlookup (ln_contexts stats) context_tail \<noteq> None then LEARNING_CONTEXT_BONUS else F0)
            in fo_mul F (fo_add F (fo_mul F frequency recency) context_bonus)
                 (float_clamp (up_personalization_strength profile) F0 F1))
     else F0)"

definition origin_adjustment :: "candidate_origin \<Rightarrow> f64" where
  "origin_adjustment origin = (case origin of
      OUserHistory \<Rightarrow> F24 | OUserDictionary \<Rightarrow> F18
    | OTypingCorrection \<Rightarrow> F42 | OSpellingCorrection \<Rightarrow> F42
    | OConversion \<Rightarrow> F0 | OPrediction \<Rightarrow> F0 | OSuggestion \<Rightarrow> float_neg F8 | OUnknown _ \<Rightarrow> F0)"

definition mozc_score :: "float_ops \<Rightarrow> nat \<Rightarrow> f64" where
  "mozc_score F provider_rank = fo_div F MOZC_SCORE_SCALE (fo_of_nat F (min (provider_rank + 1) (2 ^ 64 - 1)))"

definition personalize_candidate ::
    "float_ops \<Rightarrow> (rstr \<Rightarrow> rstr) \<Rightarrow> learning_state \<Rightarrow> rstr \<Rightarrow> rstr \<Rightarrow> rstr list \<Rightarrow> u64 \<Rightarrow> nat \<Rightarrow>
     conversion_candidate \<Rightarrow> personalized_candidate" where
  "personalize_candidate F lower s reading context_tail domain_terms now index c =
    (let learned = fmlookup (ls_learned s) (learning_key reading (cd_text c));
         learning = learning_adjustment F (ls_profile s) learned context_tail now;
         user_word = foldl (fo_max F) F0
           (map uw_boost (filter (\<lambda>w. uw_reading w = reading \<and> uw_text w = cd_text c) (ls_user_words s)));
         normalized = lower (cd_text c);
         domain = fo_mul F (fo_of_nat F (length (filter (\<lambda>t. str_contains normalized t) domain_terms)))
           DOMAIN_TERM_WEIGHT;
         context = origin_adjustment (cd_origin c);
         provider_rank = max (cd_provider_rank c) index;
         mozc = mozc_score F provider_rank
     in \<lparr>pc_candidate = c\<lparr>cd_provider_rank := provider_rank\<rparr>,
         pc_score = fo_add F (fo_add F (fo_add F (fo_add F mozc learning) domain) user_word) context,
         pc_adjustments = \<lparr>ad_mozc = mozc, ad_learning = learning, ad_domain = domain,
            ad_user_word = user_word, ad_context = context\<rparr>,
         pc_explanation = explain_candidate (origin_label (cd_origin c)) learning domain user_word\<rparr>)"

fun personalize_from ::
    "float_ops \<Rightarrow> (rstr \<Rightarrow> rstr) \<Rightarrow> learning_state \<Rightarrow> rstr \<Rightarrow> rstr \<Rightarrow> rstr list \<Rightarrow> u64 \<Rightarrow> nat \<Rightarrow>
     conversion_candidate list \<Rightarrow> personalized_candidate list" where
  "personalize_from F lower s reading tail domain_terms now index [] = []"
| "personalize_from F lower s reading tail domain_terms now index (c # cs) =
    personalize_candidate F lower s reading tail domain_terms now index c
      # personalize_from F lower s reading tail domain_terms now (Suc index) cs"

definition personalize_ordered ::
    "float_ops \<Rightarrow> (rstr \<Rightarrow> rstr) \<Rightarrow> learning_state \<Rightarrow> conversion_candidate list \<Rightarrow> rstr \<Rightarrow> rstr \<Rightarrow> u64 \<Rightarrow>
     personalized_candidate list" where
  "personalize_ordered F lower s candidates reading context_before now =
    personalize_from F lower s reading (context_signature context_before)
      (build_domain_terms lower (up_domain_terms (ls_profile s))) now 0 candidates"

text \<open>The comparison of the stable \<open>sort_by\<close>.\<close>

definition personalized_before :: "personalized_candidate \<Rightarrow> personalized_candidate \<Rightarrow> bool" where
  "personalized_before left right \<longleftrightarrow>
     total_key (pc_score right) < total_key (pc_score left) \<or>
     total_key (pc_score right) = total_key (pc_score left) \<and>
     cd_provider_rank (pc_candidate left) \<le> cd_provider_rank (pc_candidate right)"

fun insert_personalized :: "personalized_candidate \<Rightarrow> personalized_candidate list \<Rightarrow> personalized_candidate list" where
  "insert_personalized x [] = [x]"
| "insert_personalized x (y # ys) =
    (if personalized_before x y then x # y # ys else y # insert_personalized x ys)"

definition personalize ::
    "float_ops \<Rightarrow> (rstr \<Rightarrow> rstr) \<Rightarrow> learning_state \<Rightarrow> conversion_candidate list \<Rightarrow> rstr \<Rightarrow> rstr \<Rightarrow> u64 \<Rightarrow>
     personalized_candidate list" where
  "personalize F lower s candidates reading context_before now =
    foldr insert_personalized (personalize_ordered F lower s candidates reading context_before now) []"

end
