(* ===== verification/Pipeline.thy ===== *)
theory Pipeline
  imports Learning
begin

text \<open>
  The candidate pipeline of \<open>kanai-core/src/pipeline.rs\<close>: conversion with the fast ranking, the
  ticket of a semantic rerank and its application. The conversion provider and the semantic
  provider are parameters, the latter with its timeout: no answer in time is \<open>None\<close>.
\<close>

definition MAX_PIPELINE_CANDIDATES :: nat where "MAX_PIPELINE_CANDIDATES = 30"
definition DEFAULT_PIPELINE_SEMANTIC_DEADLINE :: nat where "DEFAULT_PIPELINE_SEMANTIC_DEADLINE = 250 * 1000000"
definition MAX_PIPELINE_SEMANTIC_DEADLINE :: nat where "MAX_PIPELINE_SEMANTIC_DEADLINE = 2 * 1000000000"
definition PL_MAX_READING_CHARS :: nat where "PL_MAX_READING_CHARS = 64"
definition PL_MAX_CANDIDATE_TEXT_CHARS :: nat where "PL_MAX_CANDIDATE_TEXT_CHARS = 96"
definition PL_MAX_CANDIDATE_READING_CHARS :: nat where "PL_MAX_CANDIDATE_READING_CHARS = 64"
definition MAX_SEMANTIC_CANDIDATES :: nat where "MAX_SEMANTIC_CANDIDATES = MAX_LOCAL_QUALITY_CANDIDATES"

section \<open>Sessions, tickets and outputs\<close>

record pipeline_session =
  pn_session_id :: u64
  pn_generation :: u64
  pn_current_generation :: "u64 option"
  pn_tier :: model_tier
  pn_model_revision :: u64
  pn_learning_version :: u64

definition pipeline_session_new :: "u64 \<Rightarrow> u64 \<Rightarrow> model_tier \<Rightarrow> pipeline_session" where
  "pipeline_session_new session_id generation tier =
    \<lparr>pn_session_id = session_id, pn_generation = generation, pn_current_generation = Some generation,
     pn_tier = tier, pn_model_revision = 0, pn_learning_version = 0\<rparr>"

definition pipeline_with_revisions :: "u64 \<Rightarrow> u64 \<Rightarrow> pipeline_session \<Rightarrow> pipeline_session" where
  "pipeline_with_revisions model_revision learning_version s =
    s\<lparr>pn_model_revision := model_revision, pn_learning_version := learning_version\<rparr>"

definition pipeline_is_current :: "pipeline_session \<Rightarrow> bool" where
  "pipeline_is_current s \<longleftrightarrow>
     (case pn_current_generation s of Some current \<Rightarrow> current = pn_generation s | None \<Rightarrow> False)"

record semantic_candidate =
  se_id :: i32
  se_text :: rstr
  se_reading :: "rstr option"

record semantic_input =
  si_session_id :: u64
  si_generation :: u64
  si_tier :: model_tier
  si_model_revision :: u64
  si_learning_version :: u64
  si_input_revision :: u64
  si_reading :: rstr
  si_context_before :: rstr
  si_context_after :: rstr
  si_candidates :: "semantic_candidate list"

definition pl_valid_text :: "rstr \<Rightarrow> nat \<Rightarrow> bool" where
  "pl_valid_text value max_chars \<longleftrightarrow> value \<noteq> [] \<and> length value \<le> max_chars \<and> \<not> has_control value"

definition pl_valid_optional_text :: "rstr \<Rightarrow> nat \<Rightarrow> bool" where
  "pl_valid_optional_text value max_chars \<longleftrightarrow> length value \<le> max_chars \<and> \<not> has_control value"

fun validate_semantic_candidates :: "i32 list \<Rightarrow> semantic_candidate list \<Rightarrow> rerank_rejection + unit" where
  "validate_semantic_candidates previous [] = Inr ()"
| "validate_semantic_candidates previous (c # cs) =
    (if \<not> pl_valid_text (se_text c) PL_MAX_CANDIDATE_TEXT_CHARS \<or>
        \<not> pl_valid_optional_text (case se_reading c of None \<Rightarrow> [] | Some r \<Rightarrow> r) PL_MAX_CANDIDATE_READING_CHARS
     then Inl RJ_InvalidInput
     else if se_id c \<in> set previous then Inl RJ_DuplicateInputCandidate
     else validate_semantic_candidates (previous @ [se_id c]) cs)"

definition validate_semantic_input :: "semantic_input \<Rightarrow> rerank_rejection + unit" where
  "validate_semantic_input i =
    (if si_session_id i = 0 then Inl RJ_InvalidInput
     else if \<not> pl_valid_text (si_reading i) PL_MAX_READING_CHARS then Inl RJ_InvalidInput
     else if \<not> pl_valid_optional_text (si_context_before i) MAX_LOCAL_QUALITY_CONTEXT_CHARS \<or>
       \<not> pl_valid_optional_text (si_context_after i) MAX_LOCAL_QUALITY_CONTEXT_CHARS \<or>
       length (si_context_before i) + length (si_context_after i) > MAX_LOCAL_QUALITY_CONTEXT_CHARS
     then Inl RJ_InvalidInput
     else if length (si_candidates i) < 2 \<or> length (si_candidates i) > MAX_SEMANTIC_CANDIDATES
     then Inl RJ_InsufficientCandidates
     else validate_semantic_candidates [] (si_candidates i))"

record semantic_ticket =
  tk_snapshot :: semantic_snapshot
  tk_input :: semantic_input

record semantic_report =
  sr_resolution :: semantic_resolution
  sr_confidence :: "f64 option"
  sr_reason :: "semantic_reason option"

definition report_from_resolution :: "semantic_resolution \<Rightarrow> semantic_report" where
  "report_from_resolution r = \<lparr>sr_resolution = r, sr_confidence = None, sr_reason = None\<rparr>"

record fast_output =
  ou_result :: conversion_result
  ou_baseline :: "personalized_candidate list"
  ou_candidates :: "personalized_candidate list"
  ou_focused_index :: "nat option"
  ou_context :: extracted_context
  ou_fast_rank :: fast_rank_outcome
  ou_session :: pipeline_session

record candidate_pipeline =
  pl_quality :: quality_engine
  pl_semantic_deadline :: nat

definition pipeline_new :: "local_quality_config \<Rightarrow> candidate_pipeline" where
  "pipeline_new config =
    \<lparr>pl_quality = engine_new config, pl_semantic_deadline = DEFAULT_PIPELINE_SEMANTIC_DEADLINE\<rparr>"

definition pipeline_default :: candidate_pipeline where
  "pipeline_default = pipeline_new (quality_config_new DP_CandidateFeatures)"

definition pipeline_mozc_only :: candidate_pipeline where
  "pipeline_mozc_only = pipeline_new (quality_config_new DP_MozcBaseline)"

definition with_semantic_deadline :: "nat \<Rightarrow> candidate_pipeline \<Rightarrow> candidate_pipeline" where
  "with_semantic_deadline deadline p =
    p\<lparr>pl_semantic_deadline := min deadline MAX_PIPELINE_SEMANTIC_DEADLINE\<rparr>"

definition pipeline_clear_cache :: "candidate_pipeline \<Rightarrow> candidate_pipeline" where
  "pipeline_clear_cache p = p\<lparr>pl_quality := engine_clear_cache (pl_quality p)\<rparr>"

section \<open>The fast path\<close>

definition pipeline_context :: "candidate_pipeline \<Rightarrow> conversion_request \<Rightarrow> extracted_context" where
  "pipeline_context p request =
    (if lc_data_policy (en_config (pl_quality p)) = DP_BoundedContext
     then extract_context request (lc_max_context_chars (en_config (pl_quality p)))
     else \<lparr>ec_before = [], ec_after = []\<rparr>)"

text \<open>\<open>get(index)\<close> and its candidate's id.\<close>

definition id_at :: "personalized_candidate list \<Rightarrow> nat \<Rightarrow> i32 option" where
  "id_at cs index = (if index < length cs then Some (pc_id (cs ! index)) else None)"

definition focus_of :: "personalized_candidate list \<Rightarrow> nat option \<Rightarrow> i32 option" where
  "focus_of cs focused = Option.bind focused (id_at cs)"

definition refocus :: "personalized_candidate list \<Rightarrow> i32 option \<Rightarrow> nat option" where
  "refocus cs focused_id = Option.bind focused_id (\<lambda>i. position (\<lambda>c. pc_id c = i) cs)"

definition session_request :: "pipeline_session \<Rightarrow> u64 option \<Rightarrow> rstr \<Rightarrow> extracted_context \<Rightarrow> quality_request" where
  "session_request s current_generation reading context =
    \<lparr>lr_session_id = pn_session_id s, lr_generation = pn_generation s,
     lr_current_generation = current_generation, lr_tier = pn_tier s, lr_reading = reading,
     lr_context_before = ec_before context, lr_context_after = ec_after context,
     lr_model_revision = pn_model_revision s, lr_learning_version = pn_learning_version s\<rparr>"

definition rank_result ::
    "float_ops \<Rightarrow> hasher \<Rightarrow> (nat \<Rightarrow> bool) \<Rightarrow> nat \<Rightarrow> conversion_result \<Rightarrow> conversion_request \<Rightarrow>
     pipeline_session \<Rightarrow> personalized_candidate list \<Rightarrow> candidate_pipeline \<Rightarrow>
     (candidate_pipeline \<times> fast_output) option" where
  "rank_result F H expired elapsed result request session candidates p =
    (let context = pipeline_context p request;
         baseline = take (min (cn_limit request) MAX_PIPELINE_CANDIDATES) candidates;
         focused_id = focus_of baseline (cv_focused_index result);
         quality_request = session_request session (pn_current_generation session) (cv_reading result) context
     in map_option (\<lambda>(quality, ranked, outcome).
          (p\<lparr>pl_quality := quality\<rparr>,
           \<lparr>ou_result = result, ou_baseline = baseline, ou_candidates = ranked,
            ou_focused_index = refocus ranked focused_id, ou_context = context,
            ou_fast_rank = outcome, ou_session = session\<rparr>))
          (rank_fast F H expired elapsed baseline quality_request (pl_quality p)))"

definition personalize_baseline_candidate :: "float_ops \<Rightarrow> conversion_candidate \<Rightarrow> nat \<Rightarrow> personalized_candidate" where
  "personalize_baseline_candidate F c index =
    (let provider_rank = max (cd_provider_rank c) index;
         mozc = mozc_score F provider_rank
     in \<lparr>pc_candidate = c, pc_score = mozc,
         pc_adjustments = \<lparr>ad_mozc = mozc, ad_learning = F0, ad_domain = F0, ad_user_word = F0, ad_context = F0\<rparr>,
         pc_explanation = origin_label (cd_origin c) @ [12539, 77, 111, 122, 99, 32, 12398, 20505, 35036, 38918, 24207, 12434, 25505, 29992, 12375, 12414, 12375, 12383]\<rparr>)"

definition extract_candidates :: "float_ops \<Rightarrow> conversion_result \<Rightarrow> nat \<Rightarrow> personalized_candidate list" where
  "extract_candidates F result limit =
    (let window = take (min limit MAX_PIPELINE_CANDIDATES) (cv_candidates result)
     in map (\<lambda>index. personalize_baseline_candidate F (window ! index) index) [0..<length window])"

text \<open>\<open>convert_fast\<close>: the provider's answer first, then learning or extraction, then the ranking.\<close>

definition convert_fast ::
    "float_ops \<Rightarrow> hasher \<Rightarrow> (rstr \<Rightarrow> rstr) \<Rightarrow> (nat \<Rightarrow> bool) \<Rightarrow> nat \<Rightarrow>
     (conversion_request \<Rightarrow> provider_error + conversion_result) \<Rightarrow> conversion_request \<Rightarrow> pipeline_session \<Rightarrow>
     learning_state option \<Rightarrow> u64 \<Rightarrow> candidate_pipeline \<Rightarrow>
     (candidate_pipeline \<times> (provider_error + fast_output)) option" where
  "convert_fast F H lower expired elapsed convert request session learning now p =
    (case convert request of
       Inl e \<Rightarrow> Some (p, Inl e)
     | Inr result \<Rightarrow>
         let context = pipeline_context p request;
             candidates = (case learning of
               Some s \<Rightarrow> personalize_ordered F lower s (cv_candidates result) (cv_reading result) (ec_before context) now
             | None \<Rightarrow> extract_candidates F result (cn_limit request))
         in map_option (\<lambda>(p, output). (p, Inr output))
              (rank_result F H expired elapsed result request session candidates p))"

section \<open>The semantic path\<close>

definition prepare_semantic_rerank ::
    "hasher \<Rightarrow> fast_output \<Rightarrow> pipeline_session \<Rightarrow> candidate_pipeline \<Rightarrow> rerank_rejection + semantic_ticket" where
  "prepare_semantic_rerank H output current p =
    (let session = ou_session output in
     if pn_current_generation current \<noteq> Some (pn_generation session) then Inl RJ_StaleGeneration
     else if pn_generation current \<noteq> pn_generation session \<or> pn_session_id current \<noteq> pn_session_id session
     then Inl RJ_StaleGeneration
     else if pn_tier current \<noteq> pn_tier session then Inl RJ_WrongModelTier
     else if pn_model_revision current \<noteq> pn_model_revision session then Inl RJ_WrongModelRevision
     else if pn_learning_version current \<noteq> pn_learning_version session then Inl RJ_WrongLearningVersion
     else
       let request = session_request session (pn_current_generation current) (cv_reading (ou_result output)) (ou_context output) in
       bind_result (capture_semantic_rerank H request (ou_candidates output) (pl_quality p))
         (\<lambda>snapshot.
            let candidates = map (\<lambda>c. \<lparr>se_id = pc_id c, se_text = cd_text (pc_candidate c),
                                        se_reading = cd_reading (pc_candidate c)\<rparr>)
                  (take (length (sn_candidate_ids snapshot)) (ou_candidates output));
                input = \<lparr>si_session_id = pn_session_id session, si_generation = pn_generation session,
                  si_tier = pn_tier session, si_model_revision = pn_model_revision session,
                  si_learning_version = pn_learning_version session, si_input_revision = sn_input_revision snapshot,
                  si_reading = cv_reading (ou_result output), si_context_before = ec_before (ou_context output),
                  si_context_after = ec_after (ou_context output), si_candidates = candidates\<rparr>
            in seq (validate_semantic_input input) (Inr \<lparr>tk_snapshot = snapshot, tk_input = input\<rparr>)))"

definition SEMANTIC_ATTRIBUTE :: rstr where
  "SEMANTIC_ATTRIBUTE = [12525, 12540, 12459, 12523, 65, 73, 12539, 25991, 33032, 20877, 38918, 20301]"

fun reason_label :: "semantic_reason \<Rightarrow> rstr" where
  "reason_label SE_SemanticContext = [21069, 24460, 12398, 25991, 33032]"
| "reason_label SE_AmbiguousHomophone = [21516, 38899, 30064, 32681, 12398, 25991, 33032]"
| "reason_label SE_DomainTerm = [23554, 38272, 35486]"
| "reason_label SE_IntentFit = [20837, 21147, 24847, 22259]"
| "reason_label SE_Abstain = [20445, 23432, 30340, 12394, 21028, 23450]"

text \<open>\<open>fo_percent\<close> is the rendering of \<open>confidence * 100\<close> without decimals.\<close>

definition mark_semantic_rerank ::
    "float_ops \<Rightarrow> (f64 \<times> semantic_reason) option \<Rightarrow> personalized_candidate \<Rightarrow> personalized_candidate" where
  "mark_semantic_rerank F metadata c =
    (let cand = pc_candidate c;
         attributes = (if SEMANTIC_ATTRIBUTE \<in> set (cd_attributes cand) then cd_attributes cand
                       else cd_attributes cand @ [SEMANTIC_ATTRIBUTE]);
         detail = (case metadata of
           None \<Rightarrow> [20445, 23384, 28168, 12415, 12398, 12525, 12540, 12459, 12523, 65, 73, 21028, 23450, 12391, 20877, 38918, 20301]
         | Some (confidence, reason) \<Rightarrow>
             [12525, 12540, 12459, 12523, 65, 73, 65288] @ reason_label reason @ [12289, 20449, 38972, 24230, 32] @ fo_percent F confidence @ [37, 65289, 12391, 20877, 38918, 20301]);
         explanation = pc_explanation c @ [12539] @ detail
     in c\<lparr>pc_candidate := cand\<lparr>cd_attributes := attributes\<rparr>, pc_explanation := take 240 explanation\<rparr>)"

definition ticket_mismatch :: "semantic_ticket \<Rightarrow> fast_output \<Rightarrow> pipeline_session \<Rightarrow> rerank_rejection option" where
  "ticket_mismatch ticket output current =
    (let s = tk_snapshot ticket in
     if pn_current_generation current \<noteq> Some (sn_generation s) \<or> pn_generation current \<noteq> sn_generation s \<or>
        pn_session_id current \<noteq> sn_session_id s then Some RJ_StaleGeneration
     else if pn_tier current \<noteq> sn_tier s then Some RJ_WrongModelTier
     else if pn_model_revision current \<noteq> sn_model_revision s then Some RJ_WrongModelRevision
     else if pn_learning_version current \<noteq> sn_learning_version s then Some RJ_WrongLearningVersion
     else if length (ou_candidates output) < length (sn_candidate_ids s) \<or>
       list_ex (\<lambda>(c, expected). pc_id c \<noteq> expected) (zip (ou_candidates output) (sn_candidate_ids s))
     then Some RJ_CandidateSetChanged
     else None)"

definition apply_semantic_rerank_with_report ::
    "float_ops \<Rightarrow> hasher \<Rightarrow> semantic_ticket \<Rightarrow> fast_output \<Rightarrow> pipeline_session \<Rightarrow>
     (semantic_input \<Rightarrow> (semantic_provider_error + semantic_decision) option) \<Rightarrow> candidate_pipeline \<Rightarrow>
     (candidate_pipeline \<times> fast_output \<times> semantic_report) option" where
  "apply_semantic_rerank_with_report F H ticket output current rerank p =
    (case ticket_mismatch ticket output current of
       Some r \<Rightarrow> Some (p, output, report_from_resolution (SR_Rejected r))
     | None \<Rightarrow>
         let window_len = length (sn_candidate_ids (tk_snapshot ticket));
             focused_id = focus_of (ou_candidates output) (ou_focused_index output);
             provider_result = (case rerank (tk_input ticket) of None \<Rightarrow> Inl SP_TimedOut | Some result \<Rightarrow> result);
             metadata = (case provider_result of Inl _ \<Rightarrow> None | Inr d \<Rightarrow> Some (sd_confidence d, sd_reason d));
             admission = \<lparr>sm_current_generation = pn_current_generation current,
               sm_current_model_revision = pn_model_revision current,
               sm_current_learning_version = pn_learning_version current, sm_candidates = ou_candidates output\<rparr>
         in map_option (\<lambda>(quality, candidates, resolution).
              let candidates = (case resolution of
                    SR_Applied changed \<Rightarrow>
                      if changed > 0 then map (mark_semantic_rerank F metadata) (take window_len candidates)
                        @ drop window_len candidates
                      else candidates
                  | _ \<Rightarrow> candidates)
              in (p\<lparr>pl_quality := quality\<rparr>,
                  output\<lparr>ou_candidates := candidates, ou_focused_index := refocus candidates focused_id\<rparr>,
                  \<lparr>sr_resolution = resolution, sr_confidence = map_option fst metadata,
                   sr_reason = map_option snd metadata\<rparr>))
              (resolve_semantic_rerank H (tk_snapshot ticket) admission provider_result (pl_quality p)))"

definition apply_semantic_rerank ::
    "float_ops \<Rightarrow> hasher \<Rightarrow> semantic_ticket \<Rightarrow> fast_output \<Rightarrow> pipeline_session \<Rightarrow>
     (semantic_input \<Rightarrow> (semantic_provider_error + semantic_decision) option) \<Rightarrow> candidate_pipeline \<Rightarrow>
     (candidate_pipeline \<times> fast_output \<times> semantic_resolution) option" where
  "apply_semantic_rerank F H ticket output current rerank p =
    map_option (\<lambda>(p, output, report). (p, output, sr_resolution report))
      (apply_semantic_rerank_with_report F H ticket output current rerank p)"

end
