(* ===== verification/Reranker.thy ===== *)
theory Reranker
  imports Pipeline
begin

text \<open>
  The model-backed reranker of \<open>kanai-api/src/reranker.rs\<close>: the private input built for a local
  model, the validation and application of its decision, the provider behind the semantic stage
  of the pipeline, and its two callers. The HTTP client, \<open>serde_json\<close>, the URL parser and the
  clock are parameters; Japanese literals are their code points.
\<close>

section \<open>Limits and types\<close>

definition MAX_RERANK_CANDIDATES :: nat where "MAX_RERANK_CANDIDATES = 9"
definition MAX_RANK_SHIFT :: nat where "MAX_RANK_SHIFT = 3"
definition RR_MAX_CONTEXT_CHARS :: nat where "RR_MAX_CONTEXT_CHARS = 32"
definition RR_MAX_READING_CHARS :: nat where "RR_MAX_READING_CHARS = 64"
definition MAX_CANDIDATE_VALUE_CHARS :: nat where "MAX_CANDIDATE_VALUE_CHARS = 96"
definition MAX_MODEL_CONTENT_BYTES :: nat where "MAX_MODEL_CONTENT_BYTES = 4096"
definition MAX_MODEL_RESPONSE_BYTES :: nat where "MAX_MODEL_RESPONSE_BYTES = 16 * 1024"
definition MIN_RERANK_CONFIDENCE :: f64 where "MIN_RERANK_CONFIDENCE = F0_75"
definition RERANK_REASON_CODES :: "rstr list" where
  "RERANK_REASON_CODES = [lit ''semantic_context'', lit ''ambiguous_homophone'', lit ''domain_term'',
     lit ''intent_fit'', lit ''abstain'']"

datatype ai_mode = AM_Off | AM_Auto | AM_OnDemand

datatype ai_rerank_status =
    AI_Applied | AI_Abstained | AI_Skipped | AI_Rejected | AI_Unavailable | AI_TimedOut

record ai_rerank_info =
  ai_requested_mode :: ai_mode
  ai_status :: ai_rerank_status
  ai_reason_code :: rstr
  ai_model :: "rstr option"
  ai_confidence :: "f64 option"
  ai_changed_candidates :: nat
  ai_elapsed_millis :: nat

datatype rerank_action = RA_Rerank | RA_Abstain

text \<open>\<open>patch\<close> is an arbitrary JSON value that only has to be absent.\<close>

datatype json_value =
    JNull | JBool bool | JNum f64 | JInt int | JStr rstr | JArr "json_value list"
  | JObj "(rstr \<times> json_value) list"

record rerank_decision =
  rd_action :: rerank_action
  rd_candidate_ids :: "i32 list"
  rd_patch :: "json_value option"
  rd_confidence :: f64
  rd_reason_code :: rstr
  rd_model_tier :: model_tier
  rd_expires_at_generation :: u64

datatype validated_rerank = VR_Abstain | VR_Rerank "nat list"
datatype apply_outcome = AO_Abstained | AO_Applied nat

datatype api_rejection =
    AR_Malformed | AR_LowConfidence | AR_WrongModelTier | AR_StaleGeneration | AR_UnknownCandidate
  | AR_DuplicateCandidate | AR_IncompleteCandidateSet | AR_MovementTooLarge

fun api_rejection_code :: "api_rejection \<Rightarrow> rstr" where
  "api_rejection_code AR_Malformed = lit ''malformedOutput''"
| "api_rejection_code AR_LowConfidence = lit ''lowConfidence''"
| "api_rejection_code AR_WrongModelTier = lit ''wrongModelTier''"
| "api_rejection_code AR_StaleGeneration = lit ''staleGeneration''"
| "api_rejection_code AR_UnknownCandidate = lit ''unknownCandidate''"
| "api_rejection_code AR_DuplicateCandidate = lit ''duplicateCandidate''"
| "api_rejection_code AR_IncompleteCandidateSet = lit ''incompleteCandidateSet''"
| "api_rejection_code AR_MovementTooLarge = lit ''movementTooLarge''"

datatype model_call_error = MC_Unavailable | MC_TimedOut | MC_ResponseTooLarge | MC_InvalidEnvelope

fun model_call_code :: "model_call_error \<Rightarrow> rstr" where
  "model_call_code MC_Unavailable = lit ''modelRequestFailed''"
| "model_call_code MC_TimedOut = lit ''modelTimedOut''"
| "model_call_code MC_ResponseTooLarge = lit ''modelResponseTooLarge''"
| "model_call_code MC_InvalidEnvelope = lit ''invalidModelEnvelope''"

section \<open>The assistant's configuration\<close>

text \<open>
  What the code reads of a parsed URL (\<open>reqwest::Url\<close>), and the parsers of URLs and IP
  addresses; \<open>nt_ip\<close> answers whether a literal address is a loopback address.
\<close>

record url_view =
  ul_scheme :: rstr
  ul_username :: rstr
  ul_password :: "rstr option"
  ul_query :: "rstr option"
  ul_fragment :: "rstr option"
  ul_host :: "rstr option"
  ul_text :: rstr

record net_ops =
  nt_url :: "rstr \<Rightarrow> url_view option"
  nt_ip :: "rstr \<Rightarrow> bool option"

record assistant_config =
  as_api_key :: "rstr option"
  as_base_url :: rstr
  as_model :: "rstr option"
  as_allow_remote :: bool

definition trim_end_char :: "rchar \<Rightarrow> rstr \<Rightarrow> rstr" where
  "trim_end_char c s = rev (dropWhile (\<lambda>x. x = c) (rev s))"

definition config_from_environment :: "(rstr \<Rightarrow> rstr option) \<Rightarrow> assistant_config" where
  "config_from_environment env =
    (let nonempty = (\<lambda>v. case v of None \<Rightarrow> None | Some s \<Rightarrow> if s = [] then None else Some s) in
     \<lparr>as_api_key = nonempty (env (lit ''KANA_AI_API_KEY'')),
      as_base_url = trim_end_char 47 (case env (lit ''KANA_AI_BASE_URL'') of
        None \<Rightarrow> lit ''http://127.0.0.1:8080/v1'' | Some s \<Rightarrow> s),
      as_model = nonempty (env (lit ''KANA_AI_MODEL'')),
      as_allow_remote = (case env (lit ''KANA_AI_ALLOW_REMOTE'') of
        None \<Rightarrow> False | Some s \<Rightarrow> s = lit ''1'' \<or> eq_ignore_ascii_case s (lit ''true''))\<rparr>)"

definition endpoint_url :: "net_ops \<Rightarrow> assistant_config \<Rightarrow> url_view option" where
  "endpoint_url N c =
    (case nt_url N (as_base_url c) of
       None \<Rightarrow> None
     | Some url \<Rightarrow>
         if ul_scheme url \<in> {lit ''http'', lit ''https''} \<and>
           (ul_username url = [] \<and> ul_password url = None) \<and>
           (ul_query url = None \<and> ul_fragment url = None) \<and> ul_host url \<noteq> None
         then Some url else None)"

definition is_loopback :: "net_ops \<Rightarrow> assistant_config \<Rightarrow> bool" where
  "is_loopback N c \<longleftrightarrow>
    (case endpoint_url N c of
       None \<Rightarrow> False
     | Some url \<Rightarrow> (case ul_host url of
         None \<Rightarrow> False
       | Some host \<Rightarrow> eq_ignore_ascii_case host (lit ''localhost'') \<or>
           (case nt_ip N host of None \<Rightarrow> False | Some loopback \<Rightarrow> loopback)))"

definition is_endpoint_allowed :: "net_ops \<Rightarrow> assistant_config \<Rightarrow> bool" where
  "is_endpoint_allowed N c \<longleftrightarrow> is_loopback N c \<or>
    (as_allow_remote c \<and>
      (case endpoint_url N c of None \<Rightarrow> False | Some url \<Rightarrow> ul_scheme url = lit ''https''))"

definition is_rerank_ready :: "net_ops \<Rightarrow> assistant_config \<Rightarrow> bool" where
  "is_rerank_ready N c \<longleftrightarrow> as_model c \<noteq> None \<and> is_loopback N c"

definition is_assistant_ready :: "net_ops \<Rightarrow> assistant_config \<Rightarrow> bool" where
  "is_assistant_ready N c \<longleftrightarrow> as_model c \<noteq> None \<and> is_endpoint_allowed N c"

text \<open>The setters clear parts that \<open>endpoint_url\<close> has found empty.\<close>

definition public_endpoint :: "net_ops \<Rightarrow> assistant_config \<Rightarrow> rstr" where
  "public_endpoint N c =
    (case endpoint_url N c of
       None \<Rightarrow> lit ''invalid-or-disabled''
     | Some url \<Rightarrow> trim_end_char 47 (ul_text url))"

section \<open>The private input\<close>

text \<open>\<open>normalize_complete\<close>: the loop keeps the string and whether it just wrote a space.\<close>

fun complete_loop :: "rstr \<Rightarrow> bool \<Rightarrow> rstr \<Rightarrow> rstr" where
  "complete_loop out previous_was_space [] = out"
| "complete_loop out previous_was_space (c # cs) =
    (if is_blank c
     then if out \<noteq> [] \<and> \<not> previous_was_space then complete_loop (out @ [32]) True cs
          else complete_loop out previous_was_space cs
     else complete_loop (out @ [c]) False cs)"

definition normalize_complete :: "rstr \<Rightarrow> nat \<Rightarrow> rstr option" where
  "normalize_complete value max_chars =
    (if length value > max_chars then None
     else
       let normalized = trim_end_char 32 (complete_loop [] False value)
       in if length normalized \<le> max_chars then Some normalized else None)"

fun rr_tail_loop :: "nat \<Rightarrow> rstr \<Rightarrow> bool \<Rightarrow> rstr \<Rightarrow> rstr" where
  "rr_tail_loop max_chars out pending [] = out"
| "rr_tail_loop max_chars out pending (c # cs) =
    (if is_blank c then rr_tail_loop max_chars out (pending \<or> out \<noteq> []) cs
     else
       let out = (if pending then out @ [32] else out) @ [c]
       in if length out \<ge> max_chars then out else rr_tail_loop max_chars out False cs)"

definition normalize_tail :: "rstr \<Rightarrow> nat \<Rightarrow> rstr" where
  "normalize_tail value max_chars = rev (rr_tail_loop max_chars [] False (take (scan_limit max_chars) (rev value)))"

fun rr_head_loop :: "nat \<Rightarrow> rstr \<Rightarrow> bool \<Rightarrow> rstr \<Rightarrow> rstr" where
  "rr_head_loop max_chars out pending [] = out"
| "rr_head_loop max_chars out pending (c # cs) =
    (if is_blank c then rr_head_loop max_chars out (pending \<or> out \<noteq> []) cs
     else if pending \<and> length out = max_chars then out
     else
       let out = (if pending then out @ [32] else out)
       in if length out = max_chars then out else rr_head_loop max_chars (out @ [c]) False cs)"

definition normalize_head :: "rstr \<Rightarrow> nat \<Rightarrow> rstr" where
  "normalize_head value max_chars = rr_head_loop max_chars [] False (take (scan_limit max_chars) value)"

record private_candidate =
  pv_id :: i32
  pv_value :: rstr
  pv_reading :: "rstr option"

record private_input =
  pi_reading :: rstr
  pi_context_before :: rstr
  pi_context_after :: rstr
  pi_candidates :: "private_candidate list"

definition private_candidate_of :: "i32 \<Rightarrow> rstr \<Rightarrow> rstr option \<Rightarrow> private_candidate option" where
  "private_candidate_of i value reading =
    (case normalize_complete value MAX_CANDIDATE_VALUE_CHARS of
       None \<Rightarrow> None
     | Some v \<Rightarrow> (case reading of
         None \<Rightarrow> Some \<lparr>pv_id = i, pv_value = v, pv_reading = None\<rparr>
       | Some r \<Rightarrow> (case normalize_complete r RR_MAX_READING_CHARS of
           None \<Rightarrow> None | Some r \<Rightarrow> Some \<lparr>pv_id = i, pv_value = v, pv_reading = Some r\<rparr>)))"

text \<open>\<open>collect::<Option<Vec<_>>>\<close>.\<close>

fun collect_options :: "'a option list \<Rightarrow> 'a list option" where
  "collect_options [] = Some []"
| "collect_options (None # xs) = None"
| "collect_options (Some x # xs) = map_option (Cons x) (collect_options xs)"

definition private_input_of ::
    "rstr \<Rightarrow> rstr \<Rightarrow> rstr \<Rightarrow> private_candidate option list \<Rightarrow> private_input option" where
  "private_input_of reading before after candidates =
    (if candidates = [] \<or> length candidates > MAX_RERANK_CANDIDATES then None
     else case normalize_complete reading RR_MAX_READING_CHARS of
       None \<Rightarrow> None
     | Some reading \<Rightarrow>
         let before = normalize_tail before RR_MAX_CONTEXT_CHARS;
             after = normalize_head after (RR_MAX_CONTEXT_CHARS - length before)
         in map_option (\<lambda>cs. \<lparr>pi_reading = reading, pi_context_before = before, pi_context_after = after,
              pi_candidates = cs\<rparr>) (collect_options candidates))"

definition private_build :: "rstr \<Rightarrow> rstr \<Rightarrow> rstr \<Rightarrow> personalized_candidate list \<Rightarrow> private_input option" where
  "private_build reading before after candidates =
    private_input_of reading before after
      (map (\<lambda>c. private_candidate_of (pc_id c) (cd_text (pc_candidate c)) (cd_reading (pc_candidate c))) candidates)"

definition private_from_semantic :: "semantic_input \<Rightarrow> private_input option" where
  "private_from_semantic input =
    private_input_of (si_reading input) (si_context_before input) (si_context_after input)
      (map (\<lambda>c. private_candidate_of (se_id c) (se_text c) (se_reading c)) (si_candidates input))"

section \<open>Validating and applying a decision\<close>

text \<open>\<open>seen.insert\<close> answers false for the first id that was there.\<close>

fun duplicates_from :: "i32 set \<Rightarrow> i32 list \<Rightarrow> bool" where
  "duplicates_from seen [] = False"
| "duplicates_from seen (x # xs) = (if x \<in> seen then True else duplicates_from (insert x seen) xs)"

definition has_duplicates :: "i32 list \<Rightarrow> bool" where
  "has_duplicates values = duplicates_from {} values"

fun rerank_order_loop :: "i32 list \<Rightarrow> nat \<Rightarrow> i32 list \<Rightarrow> api_rejection + nat list" where
  "rerank_order_loop expected new_index [] = Inr []"
| "rerank_order_loop expected new_index (i # ids) =
    (case position (\<lambda>e. e = i) expected of
       None \<Rightarrow> Inl AR_UnknownCandidate
     | Some old_index \<Rightarrow>
         if abs_diff old_index new_index > MAX_RANK_SHIFT then Inl AR_MovementTooLarge
         else bind_result (rerank_order_loop expected (Suc new_index) ids) (\<lambda>order. Inr (old_index # order)))"

definition validate_rerank ::
    "rerank_decision \<Rightarrow> i32 list \<Rightarrow> model_tier \<Rightarrow> u64 \<Rightarrow> nat \<Rightarrow> api_rejection + validated_rerank" where
  "validate_rerank d expected_ids expected_tier expected_generation expected_count =
    (let confidence = rd_confidence d in
     if rd_patch d \<noteq> None \<or> \<not> is_finite confidence \<or>
       \<not> (float_le MIN_RERANK_CONFIDENCE confidence \<and> float_le confidence F1)
     then if is_finite confidence \<and> float_less confidence MIN_RERANK_CONFIDENCE then Inl AR_LowConfidence
          else Inl AR_Malformed
     else if rd_model_tier d \<noteq> expected_tier then Inl AR_WrongModelTier
     else if rd_expires_at_generation d \<noteq> expected_generation then Inl AR_StaleGeneration
     else if rd_reason_code d \<notin> set RERANK_REASON_CODES then Inl AR_Malformed
     else case rd_action d of
       RA_Abstain \<Rightarrow>
         if rd_candidate_ids d \<noteq> [] \<or> rd_reason_code d \<noteq> lit ''abstain'' then Inl AR_Malformed
         else Inr VR_Abstain
     | RA_Rerank \<Rightarrow>
         if rd_reason_code d = lit ''abstain'' then Inl AR_Malformed
         else if length (rd_candidate_ids d) \<noteq> expected_count then Inl AR_IncompleteCandidateSet
         else if has_duplicates (rd_candidate_ids d) then Inl AR_DuplicateCandidate
         else bind_result (rerank_order_loop expected_ids 0 (rd_candidate_ids d))
           (\<lambda>order. if card (set order) \<noteq> expected_count then Inl AR_IncompleteCandidateSet
                    else Inr (VR_Rerank order)))"

fun api_reason_label :: "rstr \<Rightarrow> rstr" where
  "api_reason_label code =
    (if code = lit ''semantic_context'' then [21069, 24460, 12398, 25991, 33032]
     else if code = lit ''ambiguous_homophone'' then [21516, 38899, 30064, 32681, 12398, 25991, 33032]
     else if code = lit ''domain_term'' then [23554, 38272, 35486, 12392, 12398, 25972, 21512]
     else if code = lit ''intent_fit'' then [20837, 21147, 24847, 22259]
     else [20445, 23432, 30340, 12394, 21028, 26029])"

definition bounded_explanation :: "rstr \<Rightarrow> rstr" where
  "bounded_explanation value = (if length value \<le> 240 then value else take 239 value @ [8230])"

definition api_mark_semantic_rerank ::
    "float_ops \<Rightarrow> nat \<Rightarrow> nat \<Rightarrow> rerank_decision \<Rightarrow> personalized_candidate \<Rightarrow> personalized_candidate" where
  "api_mark_semantic_rerank F old_index new_index d c =
    (let cand = pc_candidate c;
         attributes = (if SEMANTIC_ATTRIBUTE \<in> set (cd_attributes cand) then cd_attributes cand
                       else cd_attributes cand @ [SEMANTIC_ATTRIBUTE]);
         explanation = [12525, 12540, 12459, 12523, 65, 73, 12398, 25991, 33032, 21028, 26029, 65288] @ api_reason_label (rd_reason_code d) @ [12289, 20449, 38972, 24230, 32] @
           fo_percent F (rd_confidence d) @ [37, 65289, 12391, 32] @ dec (old_index + 1) @ [32, 20301, 12363, 12425, 32] @
           dec (new_index + 1) @ [32, 20301, 12408, 20877, 38918, 20301]
     in c\<lparr>pc_candidate := cand\<lparr>cd_attributes := attributes\<rparr>,
          pc_explanation := bounded_explanation (pc_explanation c @ [12539] @ explanation)\<rparr>)"

definition apply_rerank ::
    "float_ops \<Rightarrow> personalized_candidate list \<Rightarrow> nat option \<Rightarrow> rerank_decision \<Rightarrow> i32 list \<Rightarrow> model_tier \<Rightarrow>
     u64 \<Rightarrow> nat \<Rightarrow> api_rejection + personalized_candidate list \<times> nat option \<times> apply_outcome" where
  "apply_rerank F candidates focused d expected_ids expected_tier expected_generation expected_count =
    (if length expected_ids \<noteq> expected_count \<or> length candidates < expected_count
     then Inl AR_IncompleteCandidateSet
     else bind_result (validate_rerank d expected_ids expected_tier expected_generation expected_count)
       (\<lambda>v. case v of
          VR_Abstain \<Rightarrow> Inr (candidates, focused, AO_Abstained)
        | VR_Rerank order \<Rightarrow>
            let window_len = length order;
                focused_id = (case focused of
                  None \<Rightarrow> None
                | Some index \<Rightarrow> if index < window_len then id_at candidates index else None);
                moved = (\<lambda>new_index. order ! new_index \<noteq> new_index);
                reordered = map (\<lambda>new_index.
                    let c = candidates ! (order ! new_index) in
                    if moved new_index then api_mark_semantic_rerank F (order ! new_index) new_index d c else c)
                  [0..<window_len];
                candidates = reordered @ drop window_len candidates;
                focused = (case focused_id of
                  None \<Rightarrow> focused
                | Some i \<Rightarrow> position (\<lambda>c. pc_id c = i) (take window_len candidates))
            in Inr (candidates, focused, AO_Applied (length (filter moved [0..<window_len])))))"

section \<open>Calling the model\<close>

datatype http_failure = HF_Timeout | HF_Other

record http_request =
  hr_url :: rstr
  hr_bearer :: "rstr option"
  hr_body :: json_value

record http_response =
  hs_success :: bool
  hs_content_length :: "nat option"
  hs_chunks :: "(http_failure + u8 list) list"

text \<open>
  The client: whether it builds, the answer to a request (the outer timeout included), the
  serializer of the input, and the parsers of a completion (the contents of its choices) and of
  a decision.
\<close>

record model_client =
  mc_builds :: bool
  mc_post :: "http_request \<Rightarrow> http_failure + http_response"
  mc_to_string :: "private_input \<Rightarrow> rstr option"
  mc_completion :: "u8 list \<Rightarrow> rstr list option"
  mc_decision :: "rstr \<Rightarrow> rerank_decision option"

fun model_tier_label :: "model_tier \<Rightarrow> rstr" where
  "model_tier_label MT_MozcOnly = lit ''mozcOnly''"
| "model_tier_label MT_Tiny = lit ''tiny''"
| "model_tier_label MT_Compact = lit ''compact''"
| "model_tier_label MT_Balanced = lit ''balanced''"

definition rerank_response_schema :: "model_tier \<Rightarrow> json_value" where
  "rerank_response_schema tier = JObj [
    (lit ''type'', JStr (lit ''json_schema'')),
    (lit ''json_schema'', JObj [
      (lit ''name'', JStr (lit ''kanai_semantic_rerank'')),
      (lit ''strict'', JBool True),
      (lit ''schema'', JObj [
        (lit ''type'', JStr (lit ''object'')),
        (lit ''additionalProperties'', JBool False),
        (lit ''required'', JArr (map (\<lambda>s. JStr (lit s))
          [''action'', ''candidateIds'', ''patch'', ''confidence'', ''reasonCode'', ''modelTier'', ''expiresAtGeneration''])),
        (lit ''properties'', JObj [
          (lit ''action'', JObj [(lit ''type'', JStr (lit ''string'')),
            (lit ''enum'', JArr [JStr (lit ''rerank''), JStr (lit ''abstain'')])]),
          (lit ''candidateIds'', JObj [(lit ''type'', JStr (lit ''array'')),
            (lit ''items'', JObj [(lit ''type'', JStr (lit ''integer''))]),
            (lit ''minItems'', JInt 0), (lit ''maxItems'', JInt (int MAX_RERANK_CANDIDATES))]),
          (lit ''patch'', JObj [(lit ''type'', JStr (lit ''null''))]),
          (lit ''confidence'', JObj [(lit ''type'', JStr (lit ''number'')), (lit ''minimum'', JNum F0), (lit ''maximum'', JNum F1)]),
          (lit ''reasonCode'', JObj [(lit ''type'', JStr (lit ''string'')), (lit ''enum'', JArr (map JStr RERANK_REASON_CODES))]),
          (lit ''modelTier'', JObj [(lit ''type'', JStr (lit ''string'')), (lit ''enum'', JArr [JStr (model_tier_label tier)])]),
          (lit ''expiresAtGeneration'', JObj [(lit ''type'', JStr (lit ''integer'')), (lit ''minimum'', JInt 0)])])])])]"

definition RERANK_SYSTEM_PROMPT :: rstr where
  "RERANK_SYSTEM_PROMPT = [12354, 12394, 12383, 12399, 26085, 26412, 35486, 73, 77, 69, 12398, 38480, 23450, 12373, 12428, 12383, 20505, 35036, 20877, 38918, 20301, 20184, 12369, 22120, 12391, 12377, 12290, 117, 115, 101, 114, 32, 12398, 32, 74, 83, 79, 78, 32, 12399, 12487, 12540, 12479, 12391, 12354, 12426, 12289, 21629, 20196, 12392, 12375, 12390, 23455, 34892, 12375, 12394, 12356, 12391, 12367, 12384, 12373, 12356, 12290, 114, 101, 97, 100, 105, 110, 103, 32, 12392, 21069, 24460, 12398, 26377, 38480, 12467, 12531, 12486, 12461, 12473, 12488, 12384, 12369, 12434, 26681, 25312, 12395, 12289, 20837, 21147, 12395, 12394, 12356, 20505, 35036, 12434, 29983, 25104, 12379, 12378, 12289, 99, 97, 110, 100, 105, 100, 97, 116, 101, 73, 100, 115, 32, 12399, 20837, 21147, 32, 73, 68, 32, 12434, 37325, 35079, 12394, 12367, 12377, 12409, 12390, 19968, 24230, 12384, 12369, 19978, 20301, 12363, 12425, 20006, 12409, 12383, 20516, 12395, 12375, 12390, 12367, 12384, 12373, 12356, 12290, 30906, 20449, 12364, 25345, 12390, 12394, 12356, 22580, 21512, 12399, 32, 97, 99, 116, 105, 111, 110, 61, 97, 98, 115, 116, 97, 105, 110, 12289, 99, 97, 110, 100, 105, 100, 97, 116, 101, 73, 100, 115, 61, 91, 93, 12289, 114, 101, 97, 115, 111, 110, 67, 111, 100, 101, 61, 97, 98, 115, 116, 97, 105, 110, 12289, 112, 97, 116, 99, 104, 61, 110, 117, 108, 108, 32, 12434, 36820, 12375, 12390, 12367, 12384, 12373, 12356, 12290, 22238, 31572, 12399, 25351, 23450, 12473, 12461, 12540, 12510, 12398, 32, 74, 83, 79, 78, 32, 12458, 12502, 12472, 12455, 12463, 12488, 12384, 12369, 12395, 12375, 12390, 12367, 12384, 12373, 12356, 12290]"

definition rerank_payload :: "rstr \<Rightarrow> rstr \<Rightarrow> model_tier \<Rightarrow> u64 \<Rightarrow> json_value" where
  "rerank_payload model private_text tier generation = JObj [
    (lit ''model'', JStr model),
    (lit ''temperature'', JNum F0),
    (lit ''max_tokens'', JInt 192),
    (lit ''stream'', JBool False),
    (lit ''response_format'', rerank_response_schema tier),
    (lit ''messages'', JArr [
      JObj [(lit ''role'', JStr (lit ''system'')), (lit ''content'', JStr RERANK_SYSTEM_PROMPT)],
      JObj [(lit ''role'', JStr (lit ''user'')),
        (lit ''content'', JStr ([97, 99, 116, 105, 111, 110, 61, 114, 101, 114, 97, 110, 107, 12289, 109, 111, 100, 101, 108, 84, 105, 101, 114, 61] @ model_tier_label tier @ [12289, 101, 120, 112, 105, 114, 101, 115, 65, 116, 71, 101, 110, 101, 114, 97, 116, 105, 111, 110, 61] @
          dec (unat generation) @ [12290, 27425, 12398, 20877, 38918, 20301, 20184, 12369, 20837, 21147, 12434, 26908, 35388, 12375, 12390, 12367, 12384, 12373, 12356, 12290] @ [10] @ lit ''<rerank_input>'' @ [10] @
          private_text @ [10] @ lit ''</rerank_input>''))]])]"

text \<open>The body is collected chunk by chunk and never grows past its bound.\<close>

fun collect_body :: "u8 list \<Rightarrow> (http_failure + u8 list) list \<Rightarrow> model_call_error + u8 list" where
  "collect_body body [] = Inr body"
| "collect_body body (Inl HF_Timeout # chunks) = Inl MC_TimedOut"
| "collect_body body (Inl HF_Other # chunks) = Inl MC_Unavailable"
| "collect_body body (Inr chunk # chunks) =
    (if length body + length chunk > MAX_MODEL_RESPONSE_BYTES then Inl MC_ResponseTooLarge
     else collect_body (body @ chunk) chunks)"

definition request_model_rerank ::
    "net_ops \<Rightarrow> model_client \<Rightarrow> assistant_config \<Rightarrow> private_input \<Rightarrow> model_tier \<Rightarrow> u64 \<Rightarrow> model_call_error + rstr" where
  "request_model_rerank N M config input tier generation =
    (if tier = MT_MozcOnly \<or> \<not> is_rerank_ready N config then Inl MC_Unavailable
     else case as_model config of
       None \<Rightarrow> Inl MC_Unavailable
     | Some model \<Rightarrow>
       (case mc_to_string M input of
          None \<Rightarrow> Inl MC_Unavailable
        | Some private_text \<Rightarrow>
          if \<not> mc_builds M then Inl MC_Unavailable
          else
            let request = \<lparr>hr_url = as_base_url config @ lit ''/chat/completions'', hr_bearer = as_api_key config,
                  hr_body = rerank_payload model private_text tier generation\<rparr> in
            (case mc_post M request of
               Inl HF_Timeout \<Rightarrow> Inl MC_TimedOut
             | Inl HF_Other \<Rightarrow> Inl MC_Unavailable
             | Inr response \<Rightarrow>
               if \<not> hs_success response then Inl MC_Unavailable
               else if (case hs_content_length response of
                   None \<Rightarrow> False | Some n \<Rightarrow> n > MAX_MODEL_RESPONSE_BYTES) then Inl MC_ResponseTooLarge
               else bind_result (collect_body [] (hs_chunks response)) (\<lambda>body.
                 case mc_completion M body of
                   None \<Rightarrow> Inl MC_InvalidEnvelope
                 | Some choices \<Rightarrow> (case choices of
                     [content] \<Rightarrow> if blen content > MAX_MODEL_CONTENT_BYTES then Inl MC_ResponseTooLarge else Inr content
                   | _ \<Rightarrow> Inl MC_InvalidEnvelope)))))"

section \<open>The provider of the semantic stage\<close>

definition core_reason :: "rstr \<Rightarrow> semantic_reason option" where
  "core_reason reason =
    (if reason = lit ''semantic_context'' then Some SE_SemanticContext
     else if reason = lit ''ambiguous_homophone'' then Some SE_AmbiguousHomophone
     else if reason = lit ''domain_term'' then Some SE_DomainTerm
     else if reason = lit ''intent_fit'' then Some SE_IntentFit
     else if reason = lit ''abstain'' then Some SE_Abstain
     else None)"

fun semantic_reason_code :: "semantic_reason option \<Rightarrow> rstr \<Rightarrow> rstr" where
  "semantic_reason_code (Some SE_SemanticContext) fallback = lit ''semantic_context''"
| "semantic_reason_code (Some SE_AmbiguousHomophone) fallback = lit ''ambiguous_homophone''"
| "semantic_reason_code (Some SE_DomainTerm) fallback = lit ''domain_term''"
| "semantic_reason_code (Some SE_IntentFit) fallback = lit ''intent_fit''"
| "semantic_reason_code (Some SE_Abstain) fallback = lit ''abstain''"
| "semantic_reason_code None fallback = fallback"

definition into_core_decision :: "rerank_decision \<Rightarrow> semantic_input \<Rightarrow> semantic_provider_error + semantic_decision" where
  "into_core_decision d input =
    (let expected_ids = map se_id (si_candidates input) in
     case validate_rerank d expected_ids (si_tier input) (si_generation input) (length (si_candidates input)) of
       Inl _ \<Rightarrow> Inl SP_MalformedResponse
     | Inr _ \<Rightarrow>
       (case core_reason (rd_reason_code d) of
          None \<Rightarrow> Inl SP_MalformedResponse
        | Some reason \<Rightarrow>
          (case order_from_slice (rd_candidate_ids d) of
             Inl _ \<Rightarrow> Inl SP_MalformedResponse
           | Inr ids \<Rightarrow> Inr \<lparr>sd_action = (case rd_action d of RA_Abstain \<Rightarrow> SA_Abstain | RA_Rerank \<Rightarrow> SA_Rerank),
               sd_candidate_ids = ids, sd_patch = None, sd_confidence = rd_confidence d, sd_reason = reason,
               sd_model_tier = si_tier input, sd_expires_at_generation = si_generation input,
               sd_input_revision = si_input_revision input, sd_model_revision = si_model_revision input,
               sd_learning_version = si_learning_version input\<rparr>)))"

definition openai_rerank ::
    "net_ops \<Rightarrow> model_client \<Rightarrow> assistant_config \<Rightarrow> semantic_input \<Rightarrow> semantic_provider_error + semantic_decision" where
  "openai_rerank N M config input =
    (if \<not> is_rerank_ready N config then Inl SP_Unavailable
     else case private_from_semantic input of
       None \<Rightarrow> Inl SP_MalformedResponse
     | Some private \<Rightarrow>
       (case request_model_rerank N M config private (si_tier input) (si_generation input) of
          Inl MC_TimedOut \<Rightarrow> Inl SP_TimedOut
        | Inl _ \<Rightarrow> Inl SP_Unavailable
        | Inr content \<Rightarrow>
          (case mc_decision M content of
             None \<Rightarrow> Inl SP_MalformedResponse
           | Some d \<Rightarrow> into_core_decision d input)))"

section \<open>The callers\<close>

definition F80 :: f64 where "F80 = 0x4054000000000000"

definition float_abs :: "f64 \<Rightarrow> f64" where
  "float_abs x = x AND 0x7FFFFFFFFFFFFFFF"

definition is_ambiguous :: "float_ops \<Rightarrow> personalized_candidate list \<Rightarrow> bool" where
  "is_ambiguous F candidates =
    (case candidates of
       first # second # _ \<Rightarrow>
         cd_text (pc_candidate first) = cd_text (pc_candidate second) \<or>
         (case (cd_reading (pc_candidate first), cd_reading (pc_candidate second)) of
            (Some a, Some b) \<Rightarrow> a = b | _ \<Rightarrow> False) \<or>
         float_le (float_abs (fo_add F (pc_score first) (float_neg (pc_score second)))) F80
     | _ \<Rightarrow> False)"

definition rerank_report ::
    "assistant_config \<Rightarrow> ai_mode \<Rightarrow> ai_rerank_status \<Rightarrow> rstr \<Rightarrow> f64 option \<Rightarrow> nat \<Rightarrow> nat \<Rightarrow> ai_rerank_info" where
  "rerank_report config mode status reason confidence changed elapsed =
    \<lparr>ai_requested_mode = mode, ai_status = status, ai_reason_code = reason, ai_model = as_model config,
     ai_confidence = confidence, ai_changed_candidates = changed, ai_elapsed_millis = min elapsed (2 ^ 64 - 1)\<rparr>"

record rerank_context =
  rx_mode :: ai_mode
  rx_tier :: model_tier
  rx_reading :: rstr
  rx_context_before :: rstr
  rx_context_after :: rstr
  rx_generation :: u64

definition maybe_rerank ::
    "float_ops \<Rightarrow> net_ops \<Rightarrow> model_client \<Rightarrow> nat \<Rightarrow> assistant_config \<Rightarrow> rerank_context \<Rightarrow>
     personalized_candidate list \<Rightarrow> nat option \<Rightarrow> personalized_candidate list \<times> nat option \<times> ai_rerank_info" where
  "maybe_rerank F N M elapsed config x candidates focused =
    (let skip = (\<lambda>reason. (candidates, focused, rerank_report config (rx_mode x) AI_Skipped (lit reason) None 0 elapsed));
         window_len = min (length candidates) MAX_RERANK_CANDIDATES;
         window = take window_len candidates;
         expected_ids = map pc_id window in
     if rx_mode x = AM_Off then skip ''modeOff''
     else if rx_tier x = MT_MozcOnly then skip ''modelTierMozcOnly''
     else if as_model config = None then skip ''modelNotConfigured''
     else if \<not> is_loopback N config then skip ''rerankerRequiresLoopback''
     else if window_len < 2 then skip ''insufficientCandidates''
     else if rx_mode x = AM_Auto \<and> \<not> is_ambiguous F window then skip ''notAmbiguous''
     else if has_duplicates expected_ids then skip ''duplicateInputIds''
     else case private_build (rx_reading x) (rx_context_before x) (rx_context_after x) window of
       None \<Rightarrow> skip ''privacyLimitExceeded''
     | Some input \<Rightarrow>
       (case request_model_rerank N M config input (rx_tier x) (rx_generation x) of
          Inl e \<Rightarrow> (candidates, focused,
            rerank_report config (rx_mode x) (if e = MC_TimedOut then AI_TimedOut else AI_Unavailable)
              (model_call_code e) None 0 elapsed)
        | Inr content \<Rightarrow>
          (case mc_decision M content of
             None \<Rightarrow> (candidates, focused,
               rerank_report config (rx_mode x) AI_Rejected (lit ''malformedOutput'') None 0 elapsed)
           | Some d \<Rightarrow>
             (case apply_rerank F candidates focused d expected_ids (rx_tier x) (rx_generation x) window_len of
                Inr (candidates, focused, AO_Abstained) \<Rightarrow> (candidates, focused,
                  rerank_report config (rx_mode x) AI_Abstained (lit ''abstain'') (Some (rd_confidence d)) 0 elapsed)
              | Inr (candidates, focused, AO_Applied changed) \<Rightarrow> (candidates, focused,
                  rerank_report config (rx_mode x) AI_Applied (rd_reason_code d) (Some (rd_confidence d)) changed elapsed)
              | Inl rejection \<Rightarrow> (candidates, focused,
                  rerank_report config (rx_mode x) AI_Rejected (api_rejection_code rejection) None 0 elapsed)))))"

fun resolution_status :: "semantic_resolution \<Rightarrow> ai_rerank_status \<times> rstr \<times> nat" where
  "resolution_status (SR_Applied changed) = (AI_Applied, lit ''semanticRerank'', changed)"
| "resolution_status SR_Abstained = (AI_Abstained, lit ''abstain'', 0)"
| "resolution_status (SR_Fallback SP_TimedOut) = (AI_TimedOut, lit ''modelTimedOut'', 0)"
| "resolution_status (SR_Fallback e) = (AI_Unavailable, lit ''modelUnavailable'', 0)"
| "resolution_status (SR_Rejected r) = (AI_Rejected, rejection_code r, 0)"

text \<open>
  \<open>late\<close> tells which inputs the provider does not answer within the pipeline's deadline;
  \<open>None\<close> is the panic of the pipeline.
\<close>

definition maybe_rerank_pipeline ::
    "float_ops \<Rightarrow> hasher \<Rightarrow> net_ops \<Rightarrow> model_client \<Rightarrow> (semantic_input \<Rightarrow> bool) \<Rightarrow> nat \<Rightarrow> assistant_config \<Rightarrow> ai_mode \<Rightarrow>
     candidate_pipeline \<Rightarrow> fast_output \<Rightarrow> pipeline_session \<Rightarrow> (candidate_pipeline \<times> fast_output \<times> ai_rerank_info) option" where
  "maybe_rerank_pipeline F H N M late elapsed config mode p output current =
    (let skip = (\<lambda>reason. Some (p, output, rerank_report config mode AI_Skipped (lit reason) None 0 elapsed)) in
     if mode = AM_Off then skip ''modeOff''
     else if pn_tier (ou_session output) = MT_MozcOnly then skip ''modelTierMozcOnly''
     else if mode = AM_Auto \<and> \<not> is_ambiguous F (ou_candidates output) then skip ''notAmbiguous''
     else if as_model config = None then skip ''modelNotConfigured''
     else if \<not> is_loopback N config then skip ''rerankerRequiresLoopback''
     else case prepare_semantic_rerank H output current p of
       Inl e \<Rightarrow> Some (p, output, rerank_report config mode AI_Rejected (rejection_code e) None 0 elapsed)
     | Inr ticket \<Rightarrow>
       map_option (\<lambda>(p, output, outcome).
         let (status, fallback_reason, changed) = resolution_status (sr_resolution outcome);
             reason = (case sr_resolution outcome of
                 SR_Applied _ \<Rightarrow> semantic_reason_code (sr_reason outcome) fallback_reason
               | SR_Abstained \<Rightarrow> semantic_reason_code (sr_reason outcome) fallback_reason
               | _ \<Rightarrow> fallback_reason)
         in (p, output, rerank_report config mode status reason (sr_confidence outcome) changed elapsed))
       (apply_semantic_rerank_with_report F H ticket output current
          (\<lambda>input. if late input then None else Some (openai_rerank N M config input)) p))"

end
