(* ===== verification/Api.thy ===== *)
theory Api
  imports Reranker
begin

text \<open>
  The HTTP handlers of \<open>kanai-api/src/lib.rs\<close>: conversion with personalisation, ranking and the
  optional rerank, committing, the client-held learning state, the user dictionary and the
  writing assistant. The conversion provider, the HTTP exchanges, the machine's memory and the
  clock are parameters. A handler returns its answer or the error that becomes the response.
\<close>

definition MAX_ASSIST_CHARS :: nat where "MAX_ASSIST_CHARS = 4000"
definition MAX_CONVERSION_CANDIDATES :: nat where "MAX_CONVERSION_CANDIDATES = 20"

section \<open>Errors\<close>

datatype api_status = Bad_Request | Service_Unavailable

record api_error =
  ae_status :: api_status
  ae_message :: rstr

definition bad_request :: "rstr \<Rightarrow> api_error" where
  "bad_request message = \<lparr>ae_status = Bad_Request, ae_message = message\<rparr>"

definition provider_api_error :: "(nat \<Rightarrow> rstr) \<Rightarrow> provider_error \<Rightarrow> api_error" where
  "provider_api_error debug e =
    \<lparr>ae_status = (case e of PV_InvalidRequest _ \<Rightarrow> Bad_Request | _ \<Rightarrow> Service_Unavailable),
     ae_message = provider_error_text debug e\<rparr>"

section \<open>Conversion\<close>

record convert_http_request =
  vq_romaji :: rstr
  vq_context_before :: rstr
  vq_context_after :: rstr
  vq_limit :: nat
  vq_ai_mode :: ai_mode
  vq_state :: learning_state

record personalized_conversion_result =
  vr_provider :: rstr
  vr_revision :: u64
  vr_reading :: rstr
  vr_preedit :: rstr
  vr_preedit_segments :: "preedit_segment list"
  vr_candidates :: "personalized_candidate list"
  vr_focused_index :: "nat option"
  vr_fast_rank :: fast_rank_outcome
  vr_consumed :: bool
  vr_elapsed :: nat

record convert_http_response =
  vp_result :: personalized_conversion_result
  vp_state :: learning_state
  vp_ai :: "ai_rerank_info option"

definition api_bounded_context :: "rstr \<Rightarrow> bool \<Rightarrow> rstr" where
  "api_bounded_context context preceding =
    (if length context > 32
     then if preceding then drop (length context - 32) context else take 32 context
     else context)"

definition request_state_personalize ::
    "float_ops \<Rightarrow> (rstr \<Rightarrow> rstr) \<Rightarrow> learning_state \<Rightarrow> conversion_candidate list \<Rightarrow> rstr \<Rightarrow> rstr \<Rightarrow> u64 \<Rightarrow>
     personalized_candidate list" where
  "request_state_personalize F lower s candidates reading context_before now =
    foldr insert_personalized (personalize F lower s candidates reading context_before now) []"

definition provider_request_of :: "u64 \<Rightarrow> convert_http_request \<Rightarrow> conversion_request" where
  "provider_request_of now request =
    \<lparr>cn_romaji = vq_romaji request, cn_context_before = api_bounded_context (vq_context_before request) True,
     cn_context_after = api_bounded_context (vq_context_after request) False,
     cn_limit = min (vq_limit request) MAX_CONVERSION_CANDIDATES, cn_revision = now, cn_convert = True\<rparr>"

text \<open>
  \<open>convert\<close>: the shared pipeline ranks under its lock; a rerank gets a pipeline of its own with
  the shared configuration. \<open>elapsed\<close> and \<open>expired\<close> are the clock of the ranking, \<open>late\<close> and
  \<open>ai_elapsed\<close> that of the rerank.
\<close>

definition api_convert ::
    "float_ops \<Rightarrow> hasher \<Rightarrow> (rstr \<Rightarrow> rstr) \<Rightarrow> (nat \<Rightarrow> rstr) \<Rightarrow> (nat \<Rightarrow> bool) \<Rightarrow> nat \<Rightarrow> net_ops \<Rightarrow> model_client \<Rightarrow>
     (semantic_input \<Rightarrow> bool) \<Rightarrow> nat \<Rightarrow> (conversion_request \<Rightarrow> provider_error + conversion_result) \<Rightarrow>
     assistant_config \<Rightarrow> u64 \<Rightarrow> convert_http_request \<Rightarrow> candidate_pipeline \<Rightarrow>
     (candidate_pipeline \<times> (api_error + convert_http_response)) option" where
  "api_convert F H lower debug expired elapsed N M late ai_elapsed provider assistant now request p =
    (let state = vq_state request;
         provider_request = provider_request_of now request
     in case provider provider_request of
       Inl e \<Rightarrow> Some (p, Inl (provider_api_error debug e))
     | Inr result \<Rightarrow>
         let focused_candidate_id = (case cv_focused_index result of
               None \<Rightarrow> None
             | Some index \<Rightarrow> if index < length (cv_candidates result)
                 then Some (cd_id (cv_candidates result ! index)) else None);
             candidates = take (cn_limit provider_request)
               (request_state_personalize F lower state (cv_candidates result) (cv_reading result)
                 (cn_context_before provider_request) now);
             session = pipeline_with_revisions 0 (ucast (ls_version state))
               (pipeline_session_new now now (up_model_tier (ls_profile state)))
         in case rank_result F H expired elapsed result provider_request session candidates p of
           None \<Rightarrow> None
         | Some (p, ranked) \<Rightarrow>
             let reranked = (if vq_ai_mode request = AM_Off then Some (ranked, None)
                   else map_option (\<lambda>(_, ranked, info). (ranked, Some info))
                     (maybe_rerank_pipeline F H N M late ai_elapsed assistant (vq_ai_mode request)
                       (pipeline_new (en_config (pl_quality p))) ranked session))
             in map_option (\<lambda>(ranked, ai).
               let result = ou_result ranked;
                   candidates = ou_candidates ranked;
                   focused_index = (case ou_focused_index ranked of
                       Some i \<Rightarrow> Some i
                     | None \<Rightarrow> (case focused_candidate_id of
                         None \<Rightarrow> None | Some i \<Rightarrow> position (\<lambda>c. pc_id c = i) candidates))
               in (p, Inr \<lparr>vp_result = \<lparr>vr_provider = cv_provider result, vr_revision = cn_revision provider_request,
                     vr_reading = cv_reading result, vr_preedit = cv_preedit result,
                     vr_preedit_segments = cv_segments result, vr_candidates = candidates,
                     vr_focused_index = focused_index, vr_fast_rank = ou_fast_rank ranked,
                     vr_consumed = cv_consumed result, vr_elapsed = cv_elapsed result\<rparr>,
                   vp_state = state, vp_ai = ai\<rparr>)) reranked)"

section \<open>Committing\<close>

record commit_http_request =
  mq_candidate_id :: i32
  mq_revision :: "u64 option"
  mq_reading :: rstr
  mq_expected_text :: rstr
  mq_context :: rstr
  mq_state :: learning_state

text \<open>
  \<open>commit\<close>: whether the provider was asked, and the answer. \<open>commit_at\<close> is asked when the request
  names a revision.
\<close>

definition api_commit ::
    "(nat \<Rightarrow> rstr) \<Rightarrow> (i32 \<Rightarrow> u64 option \<Rightarrow> provider_error + commit_result) \<Rightarrow> u64 \<Rightarrow> commit_http_request \<Rightarrow>
     bool \<times> (api_error + commit_result \<times> learning_state)" where
  "api_commit debug commit now q =
    (if length (mq_expected_text q) > 256 \<or> length (mq_reading q) > 256 \<or> length (mq_context q) > 32
     then (False, Inl (bad_request (lit ''commit metadata is too long'')))
     else
       (True, case commit (mq_candidate_id q) (mq_revision q) of
          Inl e \<Rightarrow> Inl (provider_api_error debug e)
        | Inr result \<Rightarrow>
            if ci_text result \<noteq> mq_expected_text q
            then Inl (bad_request (lit ''Mozc commit result no longer matches the selected candidate''))
            else Inr (result, record_learning (mq_reading q) (ci_text result) (context_signature (mq_context q)) now
                   (mq_state q))))"

section \<open>The client-held state\<close>

definition api_reset_state :: "learning_state \<Rightarrow> learning_state" where
  "api_reset_state s = default_learning_state"

definition api_update_profile :: "user_profile \<Rightarrow> learning_state \<Rightarrow> learning_state" where
  "api_update_profile profile s = s\<lparr>ls_profile := profile\<rparr>"

definition F1000 :: f64 where "F1000 = 0x408F400000000000"

definition api_add_user_word :: "u64 \<Rightarrow> rstr \<Rightarrow> rstr \<Rightarrow> f64 \<Rightarrow> learning_state \<Rightarrow> learning_state" where
  "api_add_user_word now reading text boost s =
    (let words = filter (\<lambda>w. \<not> (uw_reading w = reading \<and> uw_text w = text)) (ls_user_words s);
         word = \<lparr>uw_id = dec (length words + 1) @ lit ''-'' @ dec (unat now), uw_reading = reading, uw_text = text,
           uw_boost = float_clamp boost F0 F1000, uw_created_at = now\<rparr>
     in s\<lparr>ls_user_words := words @ [word]\<rparr>)"

definition api_remove_user_word :: "rstr \<Rightarrow> learning_state \<Rightarrow> learning_state" where
  "api_remove_user_word i s = s\<lparr>ls_user_words := filter (\<lambda>w. uw_id w \<noteq> i) (ls_user_words s)\<rparr>"

section \<open>The writing assistant\<close>

fun split_chars :: "rchar set \<Rightarrow> rstr \<Rightarrow> rstr \<Rightarrow> rstr list" where
  "split_chars seps part [] = [part]"
| "split_chars seps part (c # cs) =
    (if c \<in> seps then part # split_chars seps [] cs else split_chars seps (part @ [c]) cs)"

fun join_lines :: "rstr list \<Rightarrow> rstr" where
  "join_lines [] = []"
| "join_lines [s] = s"
| "join_lines (s # ss) = s @ [10] @ join_lines ss"

text \<open>\<open>split_once('\<dots>').map_or(trimmed, |(first, _)| first)\<close>.\<close>

definition before_char :: "rchar \<Rightarrow> rstr \<Rightarrow> rstr" where
  "before_char c s = takeWhile (\<lambda>x. x \<noteq> c) s"

definition local_assist :: "rstr \<Rightarrow> rstr \<Rightarrow> rstr" where
  "local_assist instruction text =
    (let trimmed = trim text in
     if str_contains instruction [31623, 26465, 26360, 12365] then
       join_lines (map (\<lambda>v. [12539] @ v) (filter (\<lambda>v. v \<noteq> []) (map trim (split_chars {12290, 10} [] trimmed))))
     else if str_contains instruction [35201, 32004] \<or> str_contains instruction [31777, 28500] then
       trim (before_char 12290 trimmed) @ [12290]
     else if str_contains instruction [19969, 23527] then
       trim_end_char 12290 trimmed @ [12394, 12362, 12289, 12372, 30906, 35469, 12356, 12383, 12384, 12369, 12414, 12377, 12392, 24184, 12356, 12391, 12377, 12290]
     else [25972, 29702, 26696, 58] @ [10] @ trimmed)"

record assist_request =
  aq_text :: rstr
  aq_instruction :: rstr
  aq_personalize :: bool
  aq_state :: learning_state

record assist_response =
  av_text :: rstr
  av_provider :: rstr
  av_notice :: "rstr option"

text \<open>One exchange with the model server: how it fails, or the JSON it answers.\<close>

datatype chat_answer =
    CA_NoClient rstr | CA_TimedOut | CA_SendFailed rstr | CA_Status rstr | CA_BadJson rstr | CA_Json json_value

fun json_get :: "rstr \<Rightarrow> json_value \<Rightarrow> json_value option" where
  "json_get key (JObj members) = map_of members key"
| "json_get key _ = None"

fun json_item :: "nat \<Rightarrow> json_value \<Rightarrow> json_value option" where
  "json_item n (JArr items) = (if n < length items then Some (items ! n) else None)"
| "json_item n (JObj members) = map_of members (dec n)"
| "json_item n _ = None"

fun json_str :: "json_value \<Rightarrow> rstr option" where
  "json_str (JStr s) = Some s"
| "json_str _ = None"

fun join_terms :: "rstr list \<Rightarrow> rstr" where
  "join_terms [] = []"
| "join_terms [s] = s"
| "join_terms (s # ss) = s @ [12289] @ join_terms ss"

definition assist_style :: "assist_request \<Rightarrow> rstr" where
  "assist_style q =
    (if aq_personalize q then
       let terms = filter (\<lambda>t. trim t \<noteq> []) (up_domain_terms (ls_profile (aq_state q))) in
       if terms = [] then [35486, 23614, 12434, 19968, 23450, 12395, 12375, 12289, 31777, 28500, 12391, 33258, 28982, 12394, 26085, 26412, 35486, 12395, 12377, 12427, 12290]
       else [23554, 38272, 35486, 65288] @ join_terms terms @ [65289, 12434, 23562, 37325, 12375, 12289, 31777, 28500, 12391, 33258, 28982, 12394, 26085, 26412, 35486, 12395, 12377, 12427, 12290]
     else [25351, 23450, 12398, 24418, 24335, 12384, 12369, 12434, 22793, 12360, 12289, 24847, 21619, 12392, 22266, 26377, 21517, 35422, 12434, 32173, 25345, 12377, 12427, 12290])"

definition F0_2 :: f64 where "F0_2 = 0x3FC999999999999A"

definition assist_payload :: "rstr \<Rightarrow> assist_request \<Rightarrow> json_value" where
  "assist_payload model q = JObj [
    (lit ''model'', JStr model),
    (lit ''temperature'', JNum F0_2),
    (lit ''messages'', JArr [
      JObj [(lit ''role'', JStr (lit ''system'')),
        (lit ''content'', JStr ([12354, 12394, 12383, 12399, 26085, 26412, 35486, 20837, 21147, 32, 69, 110, 103, 105, 110, 101, 115, 32, 12398, 25991, 31456, 25903, 25588, 12391, 12377, 12290] @ assist_style q @ [32, 32080, 26524, 12384, 12369, 12434, 36820, 12375, 12289, 35500, 26126, 12420, 12467, 12540, 12489, 12501, 12455, 12531, 12473, 12399, 20184, 12369, 12394, 12356, 12290, 20107, 23455, 12434, 35036, 12431, 12378, 12289, 21407, 25991, 12395, 12394, 12356, 24773, 22577, 12434, 20316, 12426, 12414, 12379, 12435, 12290]))],
      JObj [(lit ''role'', JStr (lit ''user'')),
        (lit ''content'', JStr ([25351, 31034, 58, 32] @ aq_instruction q @ [10, 10] @ [26412, 25991, 58] @ [10] @ aq_text q))]])]"

definition model_assist ::
    "net_ops \<Rightarrow> (http_request \<Rightarrow> chat_answer) \<Rightarrow> assistant_config \<Rightarrow> assist_request \<Rightarrow> rstr + assist_response" where
  "model_assist N chat config q =
    (if \<not> is_assistant_ready N config then Inl (lit ''AI endpoint is not configured or is disabled'')
     else case as_model config of
       None \<Rightarrow> Inl (lit ''KANA_AI_MODEL is not configured'')
     | Some model \<Rightarrow>
       (case chat \<lparr>hr_url = as_base_url config @ lit ''/chat/completions'', hr_bearer = as_api_key config,
                   hr_body = assist_payload model q\<rparr> of
          CA_NoClient e \<Rightarrow> Inl e
        | CA_TimedOut \<Rightarrow> Inl (lit ''AI request timed out'')
        | CA_SendFailed e \<Rightarrow> Inl e
        | CA_Status status \<Rightarrow> Inl (lit ''AI provider returned '' @ status)
        | CA_BadJson e \<Rightarrow> Inl e
        | CA_Json value \<Rightarrow>
          (case Option.bind (Option.bind (Option.bind (Option.bind (json_get (lit ''choices'') value) (json_item 0))
                   (json_get (lit ''message''))) (json_get (lit ''content''))) json_str of
             None \<Rightarrow> Inl (lit ''AI provider response has no message content'')
           | Some text \<Rightarrow> Inr \<lparr>av_text = trim text, av_provider = model, av_notice = None\<rparr>)))"

definition api_assist ::
    "net_ops \<Rightarrow> (http_request \<Rightarrow> chat_answer) \<Rightarrow> assistant_config \<Rightarrow> assist_request \<Rightarrow> api_error + assist_response" where
  "api_assist N chat config q =
    (if trim (aq_text q) = [] then Inl (bad_request [25991, 31456, 12364, 31354, 12391, 12377])
     else if length (aq_text q) > MAX_ASSIST_CHARS then Inl (bad_request [65, 73, 35036, 21161, 12399, 52, 44, 48, 48, 48, 25991, 23383, 12414, 12391, 12391, 12377])
     else if length (aq_instruction q) > 256 then Inl (bad_request [65, 73, 35036, 21161, 12398, 25351, 31034, 12399, 50, 53, 54, 25991, 23383, 12414, 12391, 12391, 12377])
     else Inr
       (if is_assistant_ready N config then
          (case model_assist N chat config q of
             Inr response \<Rightarrow> response
           | Inl e \<Rightarrow> \<lparr>av_text = local_assist (aq_instruction q) (aq_text q), av_provider = lit ''local-rules-fallback'',
               av_notice = Some ([12525, 12540, 12459, 12523, 65, 73, 12395, 25509, 32154, 12391, 12365, 12414, 12379, 12435, 12391, 12375, 12383, 65288] @ e @ [65289, 12290, 31777, 26131, 20966, 29702, 12408, 25147, 12375, 12414, 12375, 12383, 12290])\<rparr>)
        else \<lparr>av_text = local_assist (aq_instruction q) (aq_text q), av_provider = lit ''local-rules'',
          av_notice = Some [12525, 12540, 12459, 12523, 65, 73, 12514, 12487, 12523, 12364, 26410, 35373, 23450, 12398, 12383, 12417, 12289, 12523, 12540, 12523, 12505, 12540, 12473, 20966, 29702, 12391, 23455, 34892, 12375, 12414, 12375, 12383]\<rparr>))"

section \<open>Status\<close>

definition gibibytes :: "u64 \<Rightarrow> u32" where
  "gibibytes bytes = (let n = unat bytes div (1024 * 1024 * 1024) in if n < 2 ^ 32 then of_nat n else - 1)"

record hardware_capabilities =
  hw_total_ram_gib :: u32
  hw_available_ram_gib :: u32
  hw_logical_cpus :: u32
  hw_recommended_tier :: model_tier
  hw_explanation :: rstr

definition api_system :: "u64 \<Rightarrow> u64 \<Rightarrow> nat \<Rightarrow> hardware_capabilities" where
  "api_system total_memory available_memory cpus =
    (let total = gibibytes total_memory;
         available = gibibytes available_memory;
         logical_cpus = of_nat (max cpus 1);
         tier = recommend_tier_for_memory total available logical_cpus
     in \<lparr>hw_total_ram_gib = total, hw_available_ram_gib = available, hw_logical_cpus = logical_cpus,
         hw_recommended_tier = tier,
         hw_explanation = lit ''RAM '' @ dec (unat total) @ lit '' GiB / CPU '' @ dec (unat logical_cpus) @
           [32, 116, 104, 114, 101, 97, 100, 115, 32, 12363, 12425, 32] @ tier_label tier @ [32, 12434, 25512, 22888, 12375, 12414, 12375, 12383]\<rparr>)"

record model_catalog =
  ct_runtime :: rstr
  ct_active_model :: "rstr option"
  ct_endpoint :: rstr
  ct_profiles :: "model_profile list"

definition api_models :: "net_ops \<Rightarrow> assistant_config \<Rightarrow> model_catalog" where
  "api_models N config = \<lparr>ct_runtime = lit ''OpenAI-compatible local server'', ct_active_model = as_model config,
     ct_endpoint = public_endpoint N config, ct_profiles = all_profiles\<rparr>"

record model_health =
  mh_status :: rstr
  mh_reranker_ready :: bool
  mh_model :: "rstr option"
  mh_endpoint :: rstr
  mh_detail :: rstr

text \<open>The model is advertised when an entry of \<open>data\<close> has its id.\<close>

definition advertised :: "rstr option \<Rightarrow> json_value \<Rightarrow> bool" where
  "advertised model value =
    (case json_get (lit ''data'') value of
       Some (JArr models) \<Rightarrow> list_ex (\<lambda>entry. Option.bind (json_get (lit ''id'') entry) json_str = model) models
     | _ \<Rightarrow> False)"

definition api_model_health :: "net_ops \<Rightarrow> (rstr \<Rightarrow> chat_answer) \<Rightarrow> assistant_config \<Rightarrow> model_health" where
  "api_model_health N probe config =
    (let endpoint = public_endpoint N config;
         health = (\<lambda>status detail. \<lparr>mh_status = status, mh_reranker_ready = status = lit ''ready'',
           mh_model = as_model config, mh_endpoint = endpoint, mh_detail = detail\<rparr>)
     in if as_model config = None then health (lit ''notConfigured'') [75, 65, 78, 65, 95, 65, 73, 95, 77, 79, 68, 69, 76, 32, 12364, 26410, 35373, 23450, 12391, 12377]
     else if \<not> is_rerank_ready N config then
       health (lit ''disabled'') [20877, 38918, 20301, 20184, 12369, 12395, 12399, 12523, 12540, 12503, 12496, 12483, 12463, 12398, 32, 79, 112, 101, 110, 65, 73, 32, 20114, 25563, 12456, 12531, 12489, 12509, 12452, 12531, 12488, 12364, 24517, 35201, 12391, 12377]
     else case probe (as_base_url config @ lit ''/models'') of
       CA_Json value \<Rightarrow>
         if advertised (as_model config) value then health (lit ''ready'') [12514, 12487, 12523, 12398, 32, 73, 68, 32, 12434, 30906, 35469, 12375, 12414, 12375, 12383]
         else health (lit ''mismatch'') [12469, 12540, 12496, 12540, 12399, 24540, 31572, 12375, 12414, 12375, 12383, 12364, 12289, 35373, 23450, 12375, 12383, 32, 109, 111, 100, 101, 108, 32, 73, 68, 32, 12364, 12354, 12426, 12414, 12379, 12435]
     | CA_BadJson e \<Rightarrow> health (lit ''unavailable'') ([12514, 12487, 12523, 19968, 35239, 12434, 35299, 26512, 12391, 12365, 12414, 12379, 12435, 58, 32] @ e)
     | CA_Status s \<Rightarrow> health (lit ''unavailable'') ([12514, 12487, 12523, 12469, 12540, 12496, 12540, 12364, 32] @ s @ [32, 12434, 36820, 12375, 12414, 12375, 12383])
     | CA_SendFailed e \<Rightarrow> health (lit ''unavailable'') ([12514, 12487, 12523, 12469, 12540, 12496, 12540, 12395, 25509, 32154, 12391, 12365, 12414, 12379, 12435, 58, 32] @ e)
     | CA_TimedOut \<Rightarrow> health (lit ''unavailable'') [12514, 12487, 12523, 12469, 12540, 12496, 12540, 12398, 24540, 31572, 12364, 12479, 12452, 12512, 12450, 12454, 12488, 12375, 12414, 12375, 12383]
     | CA_NoClient e \<Rightarrow> health (lit ''unavailable'') ([72, 84, 84, 80, 32, 12463, 12521, 12452, 12450, 12531, 12488, 12434, 21021, 26399, 21270, 12391, 12365, 12414, 12379, 12435, 58, 32] @ e))"

record ai_runtime_config =
  ar_reranker_ready :: bool
  ar_endpoint_allowed :: bool
  ar_remote_allowed :: bool
  ar_model :: "rstr option"
  ar_endpoint :: rstr
  ar_rerank_timeout_millis :: nat
  ar_max_rerank_candidates :: nat
  ar_minimum_confidence :: f64

definition api_ai_runtime :: "net_ops \<Rightarrow> assistant_config \<Rightarrow> ai_runtime_config" where
  "api_ai_runtime N config = \<lparr>ar_reranker_ready = is_rerank_ready N config,
     ar_endpoint_allowed = is_endpoint_allowed N config, ar_remote_allowed = as_allow_remote config,
     ar_model = as_model config, ar_endpoint = public_endpoint N config, ar_rerank_timeout_millis = 250,
     ar_max_rerank_candidates = MAX_RERANK_CANDIDATES, ar_minimum_confidence = MIN_RERANK_CONFIDENCE\<rparr>"

end
