(* ===== verification/Candidate_Order_Correct.thy ===== *)
theory Candidate_Order_Correct
  imports Candidate_Order "HOL-Library.Multiset"
begin

text \<open>
  The in-place permutation of \<open>apply_index_order\<close> returns for every order, refuses exactly
  the arrays that are no permutation, and otherwise equals the copying reference
  \<open>reordered\<close>; \<open>resolve_order\<close> accepts exactly the complete orders of bounded movement.
\<close>

section \<open>One cycle\<close>

text \<open>
  The state of a slice while the cycles of \<open>p\<close> are applied to \<open>orig\<close>: the positions in
  \<open>D\<close> hold their final value, the others their first.
\<close>

definition partly_moved :: "(nat \<Rightarrow> nat) \<Rightarrow> nat set \<Rightarrow> 'a list \<Rightarrow> 'a list \<Rightarrow> bool" where
  "partly_moved p D orig vals \<longleftrightarrow> length vals = length orig \<and>
     (\<forall>i < length orig. vals ! i = (if i \<in> D then orig ! p i else orig ! i))"

text \<open>Within a cycle the hole \<open>d\<close> holds the value that the cycle started with.\<close>

definition carrying :: "(nat \<Rightarrow> nat) \<Rightarrow> nat set \<Rightarrow> nat \<Rightarrow> nat \<Rightarrow> 'a list \<Rightarrow> 'a list \<Rightarrow> bool" where
  "carrying p D d start orig vals \<longleftrightarrow> length vals = length orig \<and>
     (\<forall>i < length orig. vals ! i = (if i = d then orig ! start else if i \<in> D then orig ! p i else orig ! i))"

lemma swap_nth: "i < length xs \<Longrightarrow> j < length xs \<Longrightarrow> k < length xs \<Longrightarrow>
    swap xs i j ! k = (if k = i then xs ! j else if k = j then xs ! i else xs ! k)"
  by (auto simp: swap_def nth_list_update)

lemma length_swap [simp]: "length (swap xs i j) = length xs"
  by (simp add: swap_def)

lemma carrying_step:
  assumes "carrying p D d start orig vals" "d < length orig" "p d < length orig"
    "p d \<notin> D" "p d \<noteq> d" "d \<notin> D"
  shows "carrying p (insert d D) (p d) start orig (swap vals d (p d))"
  using assms by (auto simp: carrying_def swap_nth)

lemma carrying_close:
  assumes "carrying p D d start orig vals" "p d = start"
  shows "partly_moved p (insert d D) orig vals"
  using assms by (auto simp: carrying_def partly_moved_def)

text \<open>The part of the cycle behind the hole: everything in it but the start has its source in it.\<close>

definition trail :: "(nat \<Rightarrow> nat) \<Rightarrow> nat \<Rightarrow> nat set \<Rightarrow> nat set \<Rightarrow> nat \<Rightarrow> nat \<Rightarrow> bool" where
  "trail p n V P start d \<longleftrightarrow> P \<subseteq> {..<n} \<and> d < n \<and> d \<notin> P \<and> start \<in> insert d P \<and>
     p ` P = insert d P - {start} \<and> insert d P \<inter> V = {}"

definition visited_set :: "bool list \<Rightarrow> nat set" where
  "visited_set vis = {i. i < length vis \<and> vis ! i}"

lemma visited_set_update: "i < length vis \<Longrightarrow> visited_set (vis[i := True]) = insert i (visited_set vis)"
  by (auto simp: visited_set_def nth_list_update)

lemma trail_source:
  assumes t: "trail p n V P start d" and p: "inj_on p {..<n}" "p ` {..<n} \<subseteq> {..<n}"
    and V: "V \<subseteq> {..<n}" "p ` V = V" and ne: "p d \<noteq> start"
  shows "p d \<notin> insert d P" "p d \<notin> V" "p d < n" "trail p n V (insert d P) start (p d)"
proof -
  have d: "d < n" "d \<notin> P" "P \<subseteq> {..<n}" using t by (auto simp: trail_def)
  show in_n: "p d < n" using d p by auto
  show notin: "p d \<notin> insert d P"
  proof
    assume "p d \<in> insert d P"
    then have "p d \<in> p ` P" using t ne by (auto simp: trail_def)
    then obtain y where "y \<in> P" "p y = p d" by auto
    then have "y = d" using p d by (auto dest: inj_onD)
    with \<open>y \<in> P\<close> d show False by simp
  qed
  show V': "p d \<notin> V"
  proof
    assume "p d \<in> V"
    then obtain y where "y \<in> V" "p y = p d" using V by (metis imageE)
    then have "y = d" using p d V by (auto dest: inj_onD)
    with \<open>y \<in> V\<close> t show False by (auto simp: trail_def)
  qed
  have "p ` insert d P = insert (p d) (insert d P - {start})"
    using t by (simp add: trail_def)
  also have "\<dots> = insert (p d) (insert d P) - {start}" using ne by auto
  finally show "trail p n V (insert d P) start (p d)"
    using t in_n notin V' by (simp add: trail_def)
qed

lemma trail_closed:
  "trail p n V P start d \<Longrightarrow> p d = start \<Longrightarrow> p ` insert d P = insert d P"
  by (auto simp: trail_def)

lemma cycle_loop_closes:
  fixes old :: "nat list" and n :: nat
  defines "p \<equiv> (!) old"
  assumes p: "inj_on p {..<n}" "p ` {..<n} \<subseteq> {..<n}" and V: "V \<subseteq> {..<n}" "p ` V = V"
    and n: "n \<le> length orig" "n \<le> length vis"
    and t: "trail p n V P start d" and ne: "p d \<noteq> start"
    and c: "carrying p (V \<union> P) d start orig vals"
    and vis: "V \<union> P \<subseteq> visited_set vis" "visited_set vis \<subseteq> insert d (V \<union> P)"
  shows "\<exists>vals' vis' D. cycle_loop old start vals vis d = Some (vals', vis') \<and>
     V \<subseteq> D \<and> start \<in> D \<and> D \<subseteq> {..<n} \<and> p ` D = D \<and> partly_moved p D orig vals' \<and> visited_set vis' = D \<and>
     length vis' = length vis"
  using t ne c vis n(2)
proof (induction "n - card P" arbitrary: P d vals vis rule: less_induct)
  case less
  note src = trail_source [OF less.prems(1) p V less.prems(2)]
  let ?s = "p d" and ?P = "insert d P"
  let ?vals = "swap vals d ?s" and ?vis = "vis[d := True, ?s := True]"
  have d: "d < n" "d \<notin> P" "P \<subseteq> {..<n}" "insert d P \<inter> V = {}" "start \<in> insert d P"
    using less.prems(1) by (auto simp: trail_def)
  have fin: "finite P" using d finite_subset by blast
  have c: "carrying p (V \<union> ?P) ?s start orig ?vals"
    using carrying_step [OF less.prems(3)] d src n by auto
  have vis: "visited_set ?vis = insert ?s (insert d (visited_set vis))"
    using d src less.prems(6) by (simp add: visited_set_update)
  show ?case
  proof (cases "p ?s = start")
    case True
    let ?D = "V \<union> insert ?s ?P"
    have "cycle_loop old start vals vis d = Some (?vals, ?vis)"
      using True by (subst cycle_loop.simps) (simp add: Let_def p_def)
    moreover have "p ` ?D = ?D" using trail_closed [OF src(4) True] V by auto
    moreover have "partly_moved p ?D orig ?vals" using carrying_close [OF c True] by simp
    moreover have "visited_set ?vis = ?D" using vis less.prems(4,5) by auto
    moreover have "V \<subseteq> ?D" "start \<in> ?D" "?D \<subseteq> {..<n}" using d V src by auto
    ultimately show ?thesis by (metis length_list_update)
  next
    case False
    have "card P < n" using d fin by (metis card_lessThan lessThan_iff psubsetI psubset_card_mono finite_lessThan)
    then have "n - card ?P < n - card P" using d fin by simp
    moreover have "V \<union> ?P \<subseteq> visited_set ?vis" "visited_set ?vis \<subseteq> insert ?s (V \<union> ?P)" "n \<le> length ?vis"
      using vis less.prems(4,5,6) by auto
    ultimately have "\<exists>vals' vis' D. cycle_loop old start ?vals ?vis ?s = Some (vals', vis') \<and>
       V \<subseteq> D \<and> start \<in> D \<and> D \<subseteq> {..<n} \<and> p ` D = D \<and> partly_moved p D orig vals' \<and> visited_set vis' = D \<and>
       length vis' = length ?vis"
      by (rule less.hyps [OF _ src(4) False c])
    moreover have "cycle_loop old start vals vis d = cycle_loop old start ?vals ?vis ?s"
      using False by (subst cycle_loop.simps) (simp add: Let_def p_def)
    ultimately show ?thesis by simp
  qed
qed

section \<open>All cycles\<close>

lemma partly_moved_fix:
  "partly_moved p D orig vals \<Longrightarrow> p i = i \<Longrightarrow> partly_moved p (insert i D) orig vals"
  by (auto simp: partly_moved_def)

lemma cycles_loop_moves:
  fixes old :: "nat list" and n :: nat
  defines "p \<equiv> (!) old"
  assumes p: "inj_on p {..<n}" "p ` {..<n} \<subseteq> {..<n}" and n: "n \<le> length orig"
    and V: "V \<subseteq> {..<n}" "p ` V = V" and c: "partly_moved p V orig vals"
    and vis: "visited_set vis = V" "n \<le> length vis" and starts: "set starts \<subseteq> {..<n}"
  shows "\<exists>vals' D. cycles_loop old starts vals vis = Some vals' \<and> V \<union> set starts \<subseteq> D \<and> D \<subseteq> {..<n} \<and>
     partly_moved p D orig vals'"
  using V c vis starts
proof (induction starts arbitrary: V vals vis)
  case Nil
  then show ?case by auto
next
  case (Cons s starts)
  have s: "s < n" using Cons.prems by simp
  have vis_s: "vis ! s \<longleftrightarrow> s \<in> V" using s Cons.prems(4,5) by (auto simp: visited_set_def)
  show ?case
  proof (cases "vis ! s \<or> old ! s = s")
    case True
    have "partly_moved p (insert s V) orig vals" "p ` insert s V = insert s V" "insert s V \<subseteq> {..<n}"
      using True vis_s s Cons.prems partly_moved_fix [OF Cons.prems(3), of s]
      by (auto simp: p_def insert_absorb)
    from Cons.IH [OF this(3,2,1), of "vis[s := True]"] Cons.prems s
    have "\<exists>vals' D. cycles_loop old starts vals (vis[s := True]) = Some vals' \<and>
        insert s V \<union> set starts \<subseteq> D \<and> D \<subseteq> {..<n} \<and> partly_moved p D orig vals'"
      by (simp add: visited_set_update)
    with True show ?thesis by auto
  next
    case False
    then have new: "s \<notin> V" "p s \<noteq> s" using vis_s by (auto simp: p_def)
    have t: "trail p n V {} s s" using new s by (simp add: trail_def)
    have car: "carrying p (V \<union> {}) s s orig vals"
      using Cons.prems(3) new by (simp add: carrying_def partly_moved_def)
    have seen: "V \<union> {} \<subseteq> visited_set vis" "visited_set vis \<subseteq> insert s (V \<union> {})"
      using Cons.prems(4) by auto
    obtain v w D where cl: "cycle_loop old s vals vis s = Some (v, w)"
      and D: "V \<subseteq> D" "s \<in> D" "D \<subseteq> {..<n}" "p ` D = D" "partly_moved p D orig v" "visited_set w = D"
        "length w = length vis"
      using cycle_loop_closes [of old n V orig vis "{}" s s vals, folded p_def, OF p Cons.prems(1,2) n
          Cons.prems(5) t new(2) car seen] by blast
    from Cons.IH [OF D(3,4,5,6)] D Cons.prems(5,6)
    obtain vals' D' where "cycles_loop old starts v w = Some vals'" "D \<union> set starts \<subseteq> D'" "D' \<subseteq> {..<n}"
      "partly_moved p D' orig vals'" by auto
    with cl D(1,2) False show ?thesis by (auto intro!: exI [of _ vals'] exI [of _ D'])
  qed
qed

section \<open>The whole slice\<close>

text \<open>The reference: read the slice through the indices, keep the rest.\<close>

definition reordered :: "nat list \<Rightarrow> 'a list \<Rightarrow> 'a list" where
  "reordered olds xs = map ((!) xs) olds @ drop (length olds) xs"

definition index_permutation :: "nat list \<Rightarrow> bool" where
  "index_permutation olds \<longleftrightarrow> distinct olds \<and> set olds = {..<length olds}"

definition order_indices :: "index_order \<Rightarrow> nat list" where
  "order_indices order = take (ix_len order) (ix_old order)"

text \<open>The shape the Rust type guarantees: nine entries, of which \<open>len\<close> count.\<close>

definition order_shaped :: "index_order \<Rightarrow> bool" where
  "order_shaped order \<longleftrightarrow> length (ix_old order) = MAX_LOCAL_QUALITY_CANDIDATES \<and>
     ix_len order \<le> MAX_LOCAL_QUALITY_CANDIDATES"

lemma order_shaped_length [simp]: "order_shaped order \<Longrightarrow> length (order_indices order) = ix_len order"
  by (simp add: order_shaped_def order_indices_def)

lemma reordered_nth:
  "index_permutation olds \<Longrightarrow> length olds \<le> length xs \<Longrightarrow> i < length xs \<Longrightarrow>
     reordered olds xs ! i = (if i < length olds then xs ! (olds ! i) else xs ! i)"
  by (simp add: reordered_def nth_append)

lemma length_reordered [simp]: "length olds \<le> length xs \<Longrightarrow> length (reordered olds xs) = length xs"
  by (simp add: reordered_def)

lemma index_permutation_mset:
  assumes "index_permutation olds"
  shows "mset olds = mset [0..<length olds]"
  using assms unfolding index_permutation_def
  by (metis atLeast0LessThan distinct_upt mset_set_set set_upt)

lemma reordered_mset:
  assumes "index_permutation olds" "length olds \<le> length xs"
  shows "mset (reordered olds xs) = mset xs"
proof -
  have "mset (map ((!) xs) olds) = image_mset ((!) xs) (mset olds)" by simp
  also have "\<dots> = mset (map ((!) xs) [0..<length olds])"
    by (simp add: index_permutation_mset [OF assms(1)])
  also have "map ((!) xs) [0..<length olds] = take (length olds) xs"
    using assms(2) by (intro nth_equalityI) auto
  finally show ?thesis
    by (metis append_take_drop_id mset_append reordered_def)
qed

lemma visited_set_none [simp]: "visited_set (replicate n False) = {}"
  by (auto simp: visited_set_def)

lemma validate_indices_ok:
  "\<forall>x \<in> set xs. x < len \<and> \<not> seen ! x \<Longrightarrow> distinct xs \<Longrightarrow> len \<le> length seen \<Longrightarrow>
     \<exists>seen'. validate_indices len xs seen = Inr seen' \<and> length seen' = length seen \<and>
       visited_set seen' = visited_set seen \<union> set xs"
proof (induction xs arbitrary: seen)
  case (Cons x xs)
  then have "\<forall>y \<in> set xs. y < len \<and> \<not> seen[x := True] ! y" by (auto simp: nth_list_update)
  from Cons.IH [OF this] Cons.prems show ?case
    by (auto simp: visited_set_update)
qed simp

lemma validate_indices_bad:
  "\<not> ((\<forall>x \<in> set xs. x < len \<and> \<not> seen ! x) \<and> distinct xs) \<Longrightarrow> len \<le> length seen \<Longrightarrow>
     validate_indices len xs seen = Inl RJ_IncompleteCandidateSet"
proof (induction xs arbitrary: seen)
  case (Cons x xs)
  show ?case
  proof (cases "x \<ge> len \<or> seen ! x")
    case False
    then have "\<not> ((\<forall>y \<in> set xs. y < len \<and> \<not> seen[x := True] ! y) \<and> distinct xs)"
      using Cons.prems by (auto simp: nth_list_update split: if_splits)
    from Cons.IH [OF this] False Cons.prems(2) show ?thesis by simp
  qed simp
qed simp

lemma cycles_loop_reorders:
  assumes s: "order_shaped order" and p: "index_permutation (order_indices order)"
    and n: "ix_len order \<le> length xs"
  shows "cycles_loop (ix_old order) [0..<ix_len order] xs (replicate MAX_LOCAL_QUALITY_CANDIDATES False) =
     Some (reordered (order_indices order) xs)"
proof -
  let ?n = "ix_len order" and ?p = "(!) (ix_old order)"
  have nth: "?p i = order_indices order ! i" if "i < ?n" for i
    using that by (simp add: order_indices_def)
  have len: "length (order_indices order) = ?n" using s by simp
  have "inj_on ?p {..<?n}"
    using p len nth by (auto simp: index_permutation_def inj_on_def nth_eq_iff_index_eq)
  moreover have img: "?p ` {..<?n} \<subseteq> {..<?n}"
    using p len nth by (auto simp: index_permutation_def)
  moreover have "partly_moved ?p {} xs xs" by (simp add: partly_moved_def)
  moreover have "?n \<le> length (replicate MAX_LOCAL_QUALITY_CANDIDATES False)"
    using s by (simp add: order_shaped_def)
  ultimately obtain ys D where ys: "cycles_loop (ix_old order) [0..<?n] xs (replicate MAX_LOCAL_QUALITY_CANDIDATES False) = Some ys"
    and D: "set [0..<?n] \<subseteq> D" "D \<subseteq> {..<?n}" "partly_moved ?p D xs ys"
    using cycles_loop_moves [of "ix_old order" ?n xs "{}" xs "replicate MAX_LOCAL_QUALITY_CANDIDATES False" "[0..<?n]"] n
    by (auto simp: atLeast0LessThan)
  have "D = {..<?n}" using D by auto
  then have "ys = reordered (order_indices order) xs"
    using D(3) p n len nth by (intro nth_equalityI) (auto simp: partly_moved_def reordered_nth)
  with ys show ?thesis by simp
qed

lemma apply_index_order_eq:
  assumes s: "order_shaped order"
  shows "apply_index_order xs order =
    Some (if ix_len order \<le> length xs \<and> index_permutation (order_indices order)
          then (reordered (order_indices order) xs, Inr (ix_changed order))
          else (xs, Inl RJ_IncompleteCandidateSet))"
proof (cases "ix_len order \<le> length xs \<and> index_permutation (order_indices order)")
  case True
  let ?none = "replicate MAX_LOCAL_QUALITY_CANDIDATES False"
  from True have "\<forall>x \<in> set (order_indices order). x < ix_len order \<and> \<not> ?none ! x" "distinct (order_indices order)"
    using s by (auto simp: index_permutation_def order_shaped_def)
  from validate_indices_ok [OF this] s obtain seen where
    v: "validate_indices (ix_len order) (order_indices order) ?none = Inr seen"
    and seen: "length seen = MAX_LOCAL_QUALITY_CANDIDATES" "visited_set seen = set (order_indices order)"
    by (auto simp: order_shaped_def)
  have "seen ! i" if "i < ix_len order" for i
    using True s seen that by (auto simp: index_permutation_def visited_set_def)
  then have "\<not> list_ex Not (take (ix_len order) seen)"
    by (auto simp: list_ex_iff in_set_conv_nth)
  with v True cycles_loop_reorders [OF s, of xs] show ?thesis
    by (simp add: apply_index_order_def flip: order_indices_def)
next
  case False
  have "index_permutation (order_indices order)"
    if "\<forall>x \<in> set (order_indices order). x < ix_len order" "distinct (order_indices order)"
  proof -
    have "card (set (order_indices order)) = ix_len order" using that s by (simp add: distinct_card)
    with that s show ?thesis
      unfolding index_permutation_def by (metis card_lessThan card_subset_eq finite_lessThan lessThan_iff order_shaped_length subsetI)
  qed
  then have "ix_len order \<le> length xs \<Longrightarrow>
    validate_indices (ix_len order) (order_indices order) (replicate MAX_LOCAL_QUALITY_CANDIDATES False) =
      Inl RJ_IncompleteCandidateSet"
    using False s by (intro validate_indices_bad) (auto simp: order_shaped_def)
  with False show ?thesis
    by (auto simp: apply_index_order_def Let_def simp flip: order_indices_def)
qed

section \<open>Resolving\<close>

text \<open>The first position of a value, and what distinctness makes of it.\<close>

definition first_index :: "'a list \<Rightarrow> 'a \<Rightarrow> nat" where
  "first_index xs x = length (takeWhile (\<lambda>y. y \<noteq> x) xs)"

lemma position_first_index:
  "position (\<lambda>y. y = x) xs = (if x \<in> set xs then Some (first_index xs x) else None)"
  by (induction xs) (auto simp: first_index_def)

lemma first_index_less: "x \<in> set xs \<Longrightarrow> first_index xs x < length xs"
  by (induction xs) (auto simp: first_index_def)

lemma nth_first_index [simp]: "x \<in> set xs \<Longrightarrow> xs ! first_index xs x = x"
  by (induction xs) (auto simp: first_index_def)

lemma first_index_nth: "distinct xs \<Longrightarrow> i < length xs \<Longrightarrow> first_index xs (xs ! i) = i"
  by (metis first_index_less nth_eq_iff_index_eq nth_first_index nth_mem)

lemma inj_first_index: "inj_on (first_index xs) (set xs)"
  by (metis inj_onI nth_first_index)

fun moved_count :: "nat \<Rightarrow> nat list \<Rightarrow> nat" where
  "moved_count k [] = 0"
| "moved_count k (old # olds) = (if old \<noteq> k then 1 else 0) + moved_count (Suc k) olds"

lemma moved_count_le: "moved_count k olds \<le> length olds"
  by (induction k olds rule: moved_count.induct) auto

lemma moved_count_0_iff: "moved_count k olds = 0 \<longleftrightarrow> olds = [k..<k + length olds]"
proof (induction k olds rule: moved_count.induct)
  case (2 k old olds)
  have "[k..<k + length (old # olds)] = k # [Suc k..<Suc k + length olds]"
    by (simp add: upt_conv_Cons del: upt_Suc)
  with 2 show ?case by (simp del: upt_Suc)
qed simp

lemma resolve_loop_iff:
  assumes "k + length ids \<le> length olds" "length expected \<le> length seen"
  shows "resolve_loop expected k ids olds seen ch = Inr r \<longleftrightarrow>
     set ids \<subseteq> set expected \<and> distinct ids \<and> (\<forall>x \<in> set ids. \<not> seen ! first_index expected x) \<and>
     r = (take k olds @ map (first_index expected) ids @ drop (k + length ids) olds,
          ch + moved_count k (map (first_index expected) ids))"
  using assms
proof (induction ids arbitrary: k olds seen ch)
  case Nil
  then show ?case by auto
next
  case (Cons i ids)
  let ?o = "first_index expected i"
  have upd: "take (Suc k) (olds[k := ?o]) = take k olds @ [?o]"
    "drop (Suc k + length ids) (olds[k := ?o]) = drop (k + length (i # ids)) olds"
    using Cons.prems(1) by (simp_all add: take_Suc_conv_app_nth)
  have seen: "(\<forall>x \<in> set ids. \<not> seen[?o := True] ! first_index expected x) \<longleftrightarrow>
      i \<notin> set ids \<and> (\<forall>x \<in> set ids. \<not> seen ! first_index expected x)"
    if "i \<in> set expected" "set ids \<subseteq> set expected"
    using that Cons.prems(2) first_index_less [OF that(1)]
    by (auto simp: nth_list_update inj_on_eq_iff [OF inj_first_index] subset_iff split: if_splits)
  have bounds: "Suc k + length ids \<le> length (olds[k := ?o])" "length expected \<le> length (seen[?o := True])"
    using Cons.prems by simp_all
  have ch: "(if ?o \<noteq> k then ch + 1 else ch) + moved_count (Suc k) (map (first_index expected) ids) =
      ch + moved_count k (map (first_index expected) (i # ids))" by simp
  show ?case
  proof (cases "i \<in> set expected \<and> \<not> seen ! ?o")
    case True
    then have "resolve_loop expected k (i # ids) olds seen ch = Inr r \<longleftrightarrow>
        resolve_loop expected (Suc k) ids (olds[k := ?o]) (seen[?o := True]) (if ?o \<noteq> k then ch + 1 else ch) = Inr r"
      by (simp add: position_first_index)
    also have "\<dots> \<longleftrightarrow> set ids \<subseteq> set expected \<and> distinct ids \<and>
        (\<forall>x \<in> set ids. \<not> seen[?o := True] ! first_index expected x) \<and>
        r = (take k olds @ map (first_index expected) (i # ids) @ drop (k + length (i # ids)) olds,
             ch + moved_count k (map (first_index expected) (i # ids)))"
      unfolding Cons.IH [OF bounds] upd ch by simp
    finally show ?thesis using True seen by auto
  qed (auto simp: position_first_index)
qed

lemma check_shift_iff:
  "\<forall>old \<in> set olds. old \<noteq> USIZE_MAX \<Longrightarrow>
     check_shift m k olds = Inr () \<longleftrightarrow> (\<forall>i < length olds. abs_diff (olds ! i) (k + i) \<le> m)"
proof (induction olds arbitrary: k)
  case (Cons old olds)
  have "(\<forall>i < length (old # olds). abs_diff ((old # olds) ! i) (k + i) \<le> m) \<longleftrightarrow>
      abs_diff old k \<le> m \<and> (\<forall>i < length olds. abs_diff (olds ! i) (Suc k + i) \<le> m)"
    by (auto simp: less_Suc_eq_0_disj)
  with Cons show ?case by auto
qed simp

text \<open>An order that is complete for the expected ids and moves none of them too far.\<close>

definition admissible_order :: "i32 list \<Rightarrow> nat \<Rightarrow> id_order \<Rightarrow> bool" where
  "admissible_order expected max_shift ids \<longleftrightarrow> mset ids = mset expected \<and>
     (\<forall>i < length ids. abs_diff (first_index expected (ids ! i)) i \<le> max_shift)"

definition resolved_order :: "i32 list \<Rightarrow> id_order \<Rightarrow> index_order" where
  "resolved_order expected ids =
    (let olds = map (first_index expected) ids in
     \<lparr>ix_old = olds @ replicate (MAX_LOCAL_QUALITY_CANDIDATES - length ids) USIZE_MAX,
      ix_len = length ids, ix_changed = moved_count 0 olds\<rparr>)"

lemma complete_iff:
  assumes "distinct expected" "length ids = length expected"
  shows "mset ids = mset expected \<longleftrightarrow> set ids \<subseteq> set expected \<and> distinct ids"
proof
  assume "mset ids = mset expected"
  then show "set ids \<subseteq> set expected \<and> distinct ids"
    using assms by (metis mset_eq_imp_distinct_iff mset_eq_setD subset_refl)
next
  assume s: "set ids \<subseteq> set expected \<and> distinct ids"
  then have "set ids = set expected"
    using assms by (metis card_subset_eq distinct_card finite_set)
  with s assms show "mset ids = mset expected" by (simp add: set_eq_iff_mset_eq_distinct)
qed

lemma resolve_order_iff:
  assumes e: "distinct expected" "length expected \<le> MAX_LOCAL_QUALITY_CANDIDATES"
  shows "resolve_order ids expected m = Inr order \<longleftrightarrow>
     admissible_order expected m ids \<and> order = resolved_order expected ids"
proof (cases "length ids = length expected")
  case False
  then show ?thesis by (auto simp: resolve_order_def admissible_order_def dest: mset_eq_length)
next
  case True
  let ?none = "replicate MAX_LOCAL_QUALITY_CANDIDATES USIZE_MAX" and ?olds = "map (first_index expected) ids"
  have loop: "resolve_loop expected 0 ids ?none (replicate MAX_LOCAL_QUALITY_CANDIDATES False) 0 = Inr r \<longleftrightarrow>
      mset ids = mset expected \<and>
      r = (?olds @ replicate (MAX_LOCAL_QUALITY_CANDIDATES - length ids) USIZE_MAX, moved_count 0 ?olds)" for r
  proof -
    have "\<not> replicate MAX_LOCAL_QUALITY_CANDIDATES False ! first_index expected x" if "x \<in> set expected" for x
      using first_index_less [OF that] e by simp
    then show ?thesis
      using True e complete_iff [OF e(1) True]
      by (subst resolve_loop_iff) (auto simp: subset_iff)
  qed
  have shift: "check_shift m 0 ?olds = Inr () \<longleftrightarrow> (\<forall>i < length ids. abs_diff (first_index expected (ids ! i)) i \<le> m)"
    if "mset ids = mset expected"
  proof -
    have "\<forall>old \<in> set ?olds. old < MAX_LOCAL_QUALITY_CANDIDATES"
      using first_index_less [of _ expected] e that by (fastforce dest: mset_eq_setD)
    then have "\<forall>old \<in> set ?olds. old \<noteq> USIZE_MAX"
      by (auto simp: USIZE_MAX_def MAX_LOCAL_QUALITY_CANDIDATES_def)
    then show ?thesis by (subst check_shift_iff) auto
  qed
  show ?thesis
    using True shift
    by (auto simp: resolve_order_def bind_result_Inr_iff loop admissible_order_def resolved_order_def Let_def)
qed

lemma resolved_order_shaped:
  "length ids \<le> MAX_LOCAL_QUALITY_CANDIDATES \<Longrightarrow> order_shaped (resolved_order expected ids)"
  by (simp add: order_shaped_def resolved_order_def Let_def)

lemma resolved_order_indices [simp]:
  "order_indices (resolved_order expected ids) = map (first_index expected) ids"
  "ix_len (resolved_order expected ids) = length ids"
  by (simp_all add: order_indices_def resolved_order_def Let_def)

lemma resolved_order_permutation:
  assumes "distinct expected" "mset ids = mset expected"
  shows "index_permutation (map (first_index expected) ids)"
proof -
  have ids: "set ids = set expected" "distinct ids" "length ids = length expected"
    using mset_eq_setD [OF assms(2)] mset_eq_imp_distinct_iff [OF assms(2)] mset_eq_length [OF assms(2)] assms(1)
    by simp_all
  have "set (map (first_index expected) ids) \<subseteq> {..<length (map (first_index expected) ids)}"
    using ids first_index_less [of _ expected] by auto
  moreover have d: "distinct (map (first_index expected) ids)"
    using ids inj_first_index [of expected] by (simp add: distinct_map)
  moreover have "card (set (map (first_index expected) ids)) = card {..<length (map (first_index expected) ids)}"
    using distinct_card [OF d] by simp
  ultimately show ?thesis
    unfolding index_permutation_def by (simp only: card_subset_eq finite_lessThan simp_thms)
qed

text \<open>
  Resolving an admissible order and applying it puts the slice into that order; a refused
  order is refused before anything moves.
\<close>

lemma resolve_apply:
  fixes key :: "'a \<Rightarrow> i32"
  assumes e: "expected = map key (take n xs)" "n \<le> length xs" "n \<le> MAX_LOCAL_QUALITY_CANDIDATES"
    "distinct expected" and a: "admissible_order expected m ids"
  shows "\<exists>ys. apply_index_order xs (resolved_order expected ids) = Some (ys, Inr (ix_changed (resolved_order expected ids))) \<and>
    map key (take n ys) = ids \<and> drop n ys = drop n xs \<and> mset ys = mset xs \<and>
    (\<forall>i < n. \<exists>j < n. ys ! i = xs ! j \<and> abs_diff j i \<le> m)"
proof -
  let ?olds = "map (first_index expected) ids"
  have m: "mset ids = mset expected" using a by (simp add: admissible_order_def)
  have n: "length ids = n" "length expected = n" using mset_eq_length [OF m] e by simp_all
  have ids: "set ids = set expected" using m by (rule mset_eq_setD)
  have p: "index_permutation ?olds" using resolved_order_permutation [OF e(4) m] .
  have shaped: "order_shaped (resolved_order expected ids)"
    using n e by (intro resolved_order_shaped) simp
  have "apply_index_order xs (resolved_order expected ids) =
      Some (reordered ?olds xs, Inr (ix_changed (resolved_order expected ids)))"
    using p n e(2) by (simp only: apply_index_order_eq [OF shaped] resolved_order_indices if_True simp_thms)
  moreover have less: "first_index expected (ids ! i) < n" if "i < n" for i
    using that n ids first_index_less [of "ids ! i" expected] nth_mem by metis
  have key: "key (xs ! first_index expected (ids ! i)) = ids ! i" if "i < n" for i
  proof -
    have "expected ! first_index expected (ids ! i) = ids ! i"
      using that n ids nth_mem [of i ids] by (intro nth_first_index) simp
    then show ?thesis using less [OF that] e by simp
  qed
  have "map key (take n (reordered ?olds xs)) = ids"
    using n e key by (intro nth_equalityI) (simp_all add: reordered_def)
  moreover have "drop n (reordered ?olds xs) = drop n xs" using n by (simp add: reordered_def)
  moreover have "mset (reordered ?olds xs) = mset xs" using p n e by (intro reordered_mset) simp_all
  moreover have "\<forall>i < n. \<exists>j < n. reordered ?olds xs ! i = xs ! j \<and> abs_diff j i \<le> m"
    using p n e less a by (auto simp: reordered_nth admissible_order_def)
  ultimately show ?thesis by blast
qed

section \<open>Properties\<close>

text \<open>
  C22. \<open>apply_index_order\<close> returns for every order, permutations or not, and equals the copying
  reference: it accepts exactly the arrays whose first \<open>len\<close> entries are a permutation of
  the first \<open>len\<close> positions of a slice that long, then reads the old slice through them, and it
  otherwise leaves the slice as it was.
\<close>
theorem in_place_permutation_exact:
  fixes xs :: "'a list"
  assumes "length (ix_old order) = 9" "ix_len order \<le> 9"
  shows "apply_index_order xs order =
    (let olds = take (ix_len order) (ix_old order) in
     if ix_len order \<le> length xs \<and> distinct olds \<and> set olds = {..<ix_len order}
     then Some (map ((!) xs) olds @ drop (ix_len order) xs, Inr (ix_changed order))
     else Some (xs, Inl RJ_IncompleteCandidateSet))"
proof -
  have s: "order_shaped order" using assms by (simp add: order_shaped_def MAX_LOCAL_QUALITY_CANDIDATES_def)
  then have "length (take (ix_len order) (ix_old order)) = ix_len order" by (simp flip: order_indices_def)
  then show ?thesis
    by (simp add: apply_index_order_eq [OF s] Let_def index_permutation_def reordered_def order_indices_def)
qed

lemma in_place_permutation_exact_witness:
  "apply_index_order ''abcde'' \<lparr>ix_old = [2, 0, 1, 3, 7, 7, 7, 7, 7], ix_len = 4, ix_changed = 3\<rparr> =
    Some (''cabde'', Inr 3)"
proof -
  have "distinct [2, 0, 1, 3 :: nat]" "set [2, 0, 1, 3 :: nat] = {..<4}" by (auto simp: lessThan_Suc eval_nat_numeral)
  then show ?thesis
    using in_place_permutation_exact [of "\<lparr>ix_old = [2, 0, 1, 3, 7, 7, 7, 7, 7], ix_len = 4, ix_changed = 3\<rparr>" "''abcde''"]
    by (simp add: Let_def)
qed

text \<open>
  C24. A model's order is adopted exactly when it names every expected candidate once and moves
  none of them farther than the limit; the result then is the slice in that order, with nothing
  behind the window touched, no candidate lost and the number of moved positions reported.
\<close>
theorem resolved_order_exact:
  fixes xs :: "personalized_candidate list"
  assumes "expected = map pc_id (take n xs)" "n \<le> length xs" "n \<le> 9" "distinct expected"
  shows "(resolve_order ids expected m = Inr order \<longleftrightarrow> mset ids = mset expected \<and>
       (\<forall>i < length ids. abs_diff (first_index expected (ids ! i)) i \<le> m) \<and> order = resolved_order expected ids) \<and>
    (is_ok (resolve_order ids expected m) \<longrightarrow>
      (\<exists>ys. apply_index_order xs (resolved_order expected ids) =
           Some (ys, Inr (moved_count 0 (map (first_index expected) ids))) \<and>
         map pc_id (take n ys) = ids \<and> drop n ys = drop n xs \<and> mset ys = mset xs))"
proof -
  note a = assms(1,2) assms(3) [folded MAX_LOCAL_QUALITY_CANDIDATES_def] assms(4)
  have n: "length expected \<le> MAX_LOCAL_QUALITY_CANDIDATES" using a by simp
  have "ix_changed (resolved_order expected ids) = moved_count 0 (map (first_index expected) ids)"
    by (simp add: resolved_order_def Let_def)
  then show ?thesis
    using resolve_order_iff [OF a(4) n, of ids m] resolve_apply [OF a, of m ids]
    by (auto simp: is_ok_iff admissible_order_def)
qed

definition order_sample :: "i32 \<Rightarrow> personalized_candidate" where
  "order_sample i = \<lparr>pc_candidate = \<lparr>cd_id = i, cd_text = lit ''t'', cd_reading = None, cd_provider_rank = 0,
     cd_description = None, cd_origin = OConversion, cd_attributes = [], cd_log = None\<rparr>, pc_score = F0,
     pc_adjustments = \<lparr>ad_mozc = F0, ad_learning = F0, ad_domain = F0, ad_user_word = F0, ad_context = F0\<rparr>,
     pc_explanation = []\<rparr>"

lemma pc_id_order_sample [simp]: "pc_id (order_sample i) = i"
  by (simp add: pc_id_def order_sample_def)

lemma resolved_order_exact_witness:
  "resolve_order [5, 3, 4] (map pc_id (take 3 (map order_sample [3, 4, 5, 6]))) 2 =
    Inr (resolved_order [3, 4, 5] [5, 3, 4])"
proof -
  have "mset [5, 3, 4 :: i32] = mset [3, 4, 5]" by simp
  moreover have "\<forall>i < length [5, 3, 4 :: i32]. abs_diff (first_index [3, 4, 5] ([5, 3, 4 :: i32] ! i)) i \<le> 2"
    by (auto simp: less_Suc_eq eval_nat_numeral first_index_def abs_diff_def)
  ultimately show ?thesis
    using resolved_order_exact [of "[3, 4, 5]" 3 "map order_sample [3, 4, 5, 6]" "[5, 3, 4]" 2 "resolved_order [3, 4, 5] [5, 3, 4]"]
    by simp
qed

end
