(* ===== verification/Local_Quality_Correct.thy ===== *)
theory Local_Quality_Correct
  imports Local_Quality Candidate_Order_Correct
begin

text \<open>
  The ranking engine keeps its bounds: \<open>rank_fast\<close> always returns, permutes only the bounded
  window and by at most the configured shift, and leaves the slice alone on every fallback; a
  semantic rerank is adopted only for the candidates, generation and revisions it was computed
  for; and the fast cache does not change what the ranking computes.
\<close>

section \<open>Invariants\<close>

definition config_ok :: "local_quality_config \<Rightarrow> bool" where
  "config_ok c \<longleftrightarrow> 2 \<le> lc_max_candidates c \<and> lc_max_candidates c \<le> MAX_LOCAL_QUALITY_CANDIDATES \<and>
     lc_max_rank_shift c \<le> MAX_LOCAL_QUALITY_RANK_SHIFT \<and>
     lc_max_context_chars c \<le> MAX_LOCAL_QUALITY_CONTEXT_CHARS \<and>
     lc_cache_capacity c \<le> MAX_LOCAL_QUALITY_CACHE_ENTRIES \<and>
     lc_fast_deadline c \<le> MAX_FAST_RANK_DEADLINE"

lemmas quality_bounds = MAX_LOCAL_QUALITY_CANDIDATES_def MAX_LOCAL_QUALITY_RANK_SHIFT_def
  MAX_LOCAL_QUALITY_CONTEXT_CHARS_def MAX_LOCAL_QUALITY_CACHE_ENTRIES_def MAX_FAST_RANK_DEADLINE_def
  DEFAULT_FAST_RANK_DEADLINE_def

lemma config_ok_new: "config_ok (quality_config_new p)"
  by (simp add: config_ok_def quality_config_new_def quality_bounds)

lemma config_ok_default: "config_ok quality_config_default"
  by (simp add: config_ok_def quality_config_default_def quality_bounds)

lemma config_ok_with:
  "config_ok c \<Longrightarrow> config_ok (with_limits a b x d c)"
  "config_ok c \<Longrightarrow> config_ok (with_fast_deadline n c)"
  "config_ok c \<Longrightarrow> config_ok (with_policy_revision v c)"
  by (auto simp: config_ok_def with_limits_def with_fast_deadline_def with_policy_revision_def quality_bounds)

definition engine_ok :: "quality_engine \<Rightarrow> bool" where
  "engine_ok e \<longleftrightarrow> config_ok (en_config e) \<and> cache_wf (en_fast_limit e) (en_fast e) \<and>
     cache_wf (en_semantic_limit e) (en_semantic e) \<and>
     en_fast_limit e + en_semantic_limit e = lc_cache_capacity (en_config e)"

lemma engine_ok_new: "config_ok c \<Longrightarrow> engine_ok (engine_new c)"
  by (simp add: engine_ok_def engine_new_def cache_wf_def Let_def)

lemma engine_ok_clear: "engine_ok e \<Longrightarrow> engine_ok (engine_clear_cache e)"
  by (simp add: engine_ok_def engine_clear_cache_def cache_wf_def)

lemma engine_ok_bounded: "engine_ok e \<Longrightarrow> engine_cache_entries e \<le> MAX_LOCAL_QUALITY_CACHE_ENTRIES"
  by (auto simp: engine_ok_def engine_cache_entries_def cache_wf_def config_ok_def)

lemma engine_ok_fast:
  "engine_ok e \<Longrightarrow> cache_wf (en_fast_limit e) cache \<Longrightarrow> engine_ok (e\<lparr>en_fast := cache\<rparr>)"
  by (simp add: engine_ok_def)

lemma engine_ok_semantic:
  "engine_ok e \<Longrightarrow> cache_wf (en_semantic_limit e) cache \<Longrightarrow> engine_ok (e\<lparr>en_semantic := cache\<rparr>)"
  by (simp add: engine_ok_def)

lemma fast_evaluated_le:
  "engine_ok e \<Longrightarrow> fast_evaluated e cs \<le> length cs"
  "engine_ok e \<Longrightarrow> fast_evaluated e cs \<le> MAX_LOCAL_QUALITY_CANDIDATES"
  by (auto simp: fast_evaluated_def engine_ok_def config_ok_def)

lemma fast_outcome_simps [simp]:
  "fr_status (fast_outcome e s ch ev el) = s"
  "fr_changed_positions (fast_outcome e s ch ev el) = ch"
  "fr_evaluated_candidates (fast_outcome e s ch ev el) = ev"
  by (simp_all add: fast_outcome_def)

text \<open>
  The two halves of a cache key and of a fingerprint come from equal hashers fed with equal
  values: they are always equal, and a 128-bit key distinguishes no more than 64 bits do.
\<close>

lemma fingerprint_halves_equal:
  "cf_primary (candidate_fingerprint_of H c) = cf_secondary (candidate_fingerprint_of H c)"
  by (simp add: candidate_fingerprint_of_def Let_def)

lemma key_halves_equal:
  "ck_primary (input_cache_key H op r c ctx ids cs) = ck_secondary (input_cache_key H op r c ctx ids cs)"
  by (simp add: input_cache_key_def Let_def comp_def fingerprint_halves_equal)

text \<open>The recommended tier can ask for more memory than the machine has.\<close>

lemma recommendation_exceeds_profile:
  "recommend_tier 8 4 = MT_Balanced" "tier_recommended_ram_gib MT_Balanced = Some 12"
  "recommend_tier 4 4 = MT_Compact" "tier_recommended_ram_gib MT_Compact = Some 6"
  by (simp_all add: recommend_tier_def recommend_tier_for_memory_def)

section \<open>Sorting by score\<close>

lemma mset_insert_scored [simp]: "mset (insert_scored x ys) = add_mset x (mset ys)"
  by (induction ys) auto

lemma mset_sort_scored [simp]: "mset (sort_scored xs) = mset xs"
  by (induction xs) (auto simp: sort_scored_def)

lemma length_sort_scored [simp]: "length (sort_scored xs) = length xs"
  using mset_eq_length [OF mset_sort_scored] .

lemma set_insert_scored [simp]: "set (insert_scored x ys) = insert x (set ys)"
  by (induction ys) auto

lemma scored_before_total: "scored_before x y \<or> scored_before y x"
  by (auto simp: scored_before_def)

lemma scored_before_trans: "scored_before x y \<Longrightarrow> scored_before y z \<Longrightarrow> scored_before x z"
  by (auto simp: scored_before_def)

lemma sorted_insert_scored: "sorted_wrt scored_before ys \<Longrightarrow> sorted_wrt scored_before (insert_scored x ys)"
proof (induction ys)
  case (Cons y ys)
  then show ?case
    using scored_before_total [of x y] by (auto intro: scored_before_trans)
qed simp

lemma sorted_sort_scored: "sorted_wrt scored_before (sort_scored xs)"
  by (induction xs) (auto simp: sort_scored_def intro: sorted_insert_scored)

lemma score_loop_indices:
  "score_loop F expired r ctx k cs = Inr scored \<Longrightarrow>
     map sc_old scored = [k..<k + length cs] \<and>
     map sc_score scored = map (fast_score F r ctx) cs"
proof (induction cs arbitrary: k scored)
  case (Cons c cs)
  then obtain rest where rest: "score_loop F expired r ctx (Suc k) cs = Inr rest"
    and s: "scored = \<lparr>sc_old = k, sc_score = fast_score F r ctx c\<rparr> # rest"
    by (auto simp: Let_def bind_result_Inr_iff split: if_splits)
  from Cons.IH [OF rest] s show ?case by (simp add: upt_conv_Cons del: upt_Suc)
qed simp

lemma score_loop_time:
  "(\<And>i. \<not> expired (2 + k + i)) \<Longrightarrow> (\<And>i. \<not> expired' (2 + k + i)) \<Longrightarrow>
     score_loop F expired r ctx k cs = score_loop F expired' r ctx k cs"
proof (induction cs arbitrary: k)
  case (Cons c cs)
  have "score_loop F expired r ctx (Suc k) cs = score_loop F expired' r ctx (Suc k) cs"
    using Cons.prems(1) [of "Suc i" for i] Cons.prems(2) [of "Suc i" for i] by (intro Cons.IH) simp_all
  with Cons.prems(1) [of 0] Cons.prems(2) [of 0] show ?case by (simp add: Let_def)
qed simp

subsection \<open>The order of a score\<close>

lemma scored_loop_eq:
  assumes "k + length cs \<le> length olds" "ch + length cs \<le> 65535"
  shows "scored_loop k cs olds ch =
    (take k olds @ map sc_old cs @ drop (k + length cs) olds, ch + moved_count k (map sc_old cs))"
  using assms
proof (induction cs arbitrary: k olds ch)
  case (Cons c cs)
  have "take (Suc k) (olds[k := sc_old c]) = take k olds @ [sc_old c]"
    "drop (Suc k + length cs) (olds[k := sc_old c]) = drop (k + length (c # cs)) olds"
    using Cons.prems(1) by (simp_all add: take_Suc_conv_app_nth)
  with Cons show ?case by simp
qed simp

lemma order_from_scored_eq:
  assumes "len \<le> MAX_LOCAL_QUALITY_CANDIDATES" "length scored = len"
  shows "order_from_scored scored len =
    \<lparr>ix_old = map sc_old scored @ replicate (MAX_LOCAL_QUALITY_CANDIDATES - len) 0, ix_len = len,
     ix_changed = moved_count 0 (map sc_old scored)\<rparr>"
  using assms by (simp add: order_from_scored_def Let_def scored_loop_eq quality_bounds)

text \<open>The order that the scores of a window ask for.\<close>

definition score_order :: "float_ops \<Rightarrow> rstr \<Rightarrow> bounded_context \<Rightarrow> personalized_candidate list \<Rightarrow> scored_candidate list" where
  "score_order F reading ctx window = sort_scored
     (map (\<lambda>i. \<lparr>sc_old = i, sc_score = fast_score F reading ctx (window ! i)\<rparr>) [0..<length window])"

definition score_indices :: "float_ops \<Rightarrow> rstr \<Rightarrow> bounded_context \<Rightarrow> personalized_candidate list \<Rightarrow> nat list" where
  "score_indices F reading ctx window = map sc_old (score_order F reading ctx window)"

lemma score_loop_sorted:
  assumes "score_loop F expired r ctx 0 window = Inr scored"
  shows "sort_scored scored = score_order F r ctx window"
proof -
  have s: "map sc_old scored = [0..<length window]" "map sc_score scored = map (fast_score F r ctx) window"
    using score_loop_indices [OF assms] by simp_all
  have len: "length scored = length window" using arg_cong [OF s(1), of length] by simp
  have "scored ! i = \<lparr>sc_old = i, sc_score = fast_score F r ctx (window ! i)\<rparr>" if "i < length window" for i
    using that len arg_cong [OF s(1), of "\<lambda>l. l ! i"] arg_cong [OF s(2), of "\<lambda>l. l ! i"]
    by (simp add: scored_candidate.equality)
  then have "scored = map (\<lambda>i. \<lparr>sc_old = i, sc_score = fast_score F r ctx (window ! i)\<rparr>) [0..<length window]"
    using len by (intro nth_equalityI) simp_all
  then show ?thesis by (simp add: score_order_def)
qed

lemma length_score_indices [simp]: "length (score_indices F r ctx window) = length window"
  by (simp add: score_indices_def score_order_def)

lemma score_indices_permutation: "index_permutation (score_indices F r ctx window)"
proof -
  let ?xs = "map (\<lambda>i. \<lparr>sc_old = i, sc_score = fast_score F r ctx (window ! i)\<rparr>) [0..<length window]"
  have "mset (map sc_old (sort_scored ?xs)) = mset (map sc_old ?xs)"
    by (simp only: mset_map mset_sort_scored)
  also have "map sc_old ?xs = [0..<length window]" by (simp add: comp_def)
  finally have "mset (score_indices F r ctx window) = mset [0..<length window]"
    by (simp only: score_indices_def score_order_def)
  then have "distinct (score_indices F r ctx window)" "set (score_indices F r ctx window) = {..<length window}"
    using mset_eq_imp_distinct_iff mset_eq_setD by (fastforce simp: atLeast0LessThan)+
  then show ?thesis by (simp add: index_permutation_def)
qed

lemma score_indices_sorted:
  assumes "i < j" "j < length window"
  shows "total_key (fast_score F r ctx (window ! (score_indices F r ctx window ! j)))
    \<le> total_key (fast_score F r ctx (window ! (score_indices F r ctx window ! i)))"
proof -
  let ?s = "score_order F r ctx window"
  have len: "length ?s = length window" by (simp add: score_order_def)
  have mem: "sc_score x = fast_score F r ctx (window ! sc_old x)" if "x \<in> set ?s" for x
    using that by (auto simp: score_order_def simp flip: set_mset_mset)
  have "scored_before (?s ! i) (?s ! j)"
    using sorted_wrt_nth_less [OF sorted_sort_scored [of _], folded score_order_def] assms len
    by (simp add: score_order_def)
  then have "total_key (sc_score (?s ! j)) \<le> total_key (sc_score (?s ! i))"
    by (auto simp: scored_before_def)
  with mem [of "?s ! i"] mem [of "?s ! j"] assms len show ?thesis
    by (simp add: score_indices_def)
qed

section \<open>Bounded reorderings\<close>

text \<open>The only changes the engine makes to a slice.\<close>

definition bounded_reorder :: "nat \<Rightarrow> nat \<Rightarrow> 'a list \<Rightarrow> 'a list \<Rightarrow> bool" where
  "bounded_reorder n m xs ys \<longleftrightarrow> mset ys = mset xs \<and> drop n ys = drop n xs \<and>
     (\<forall>i < n. \<exists>j < n. ys ! i = xs ! j \<and> abs_diff j i \<le> m)"

lemma bounded_reorder_refl [simp]: "bounded_reorder n m xs xs"
proof -
  have "\<exists>j < n. xs ! i = xs ! j \<and> abs_diff j i \<le> m" if "i < n" for i
    using that by (intro exI [of _ i]) (simp add: abs_diff_def)
  then show ?thesis by (simp add: bounded_reorder_def)
qed

lemma bounded_reorder_reordered:
  assumes "index_permutation olds" "length olds = n" "n \<le> length xs" "\<forall>i < n. abs_diff (olds ! i) i \<le> m"
  shows "bounded_reorder n m xs (reordered olds xs)"
proof -
  have "\<exists>j < n. reordered olds xs ! i = xs ! j \<and> abs_diff j i \<le> m" if "i < n" for i
    using assms that nth_mem [of i olds]
    by (intro exI [of _ "olds ! i"]) (auto simp: index_permutation_def reordered_nth)
  moreover have "mset (reordered olds xs) = mset xs" using assms by (intro reordered_mset) simp_all
  moreover have "drop n (reordered olds xs) = drop n xs" using assms(2) by (simp add: reordered_def)
  ultimately show ?thesis by (simp add: bounded_reorder_def)
qed

lemma bounded_reorder_nothing_moved:
  assumes "moved_count 0 olds = 0" "length olds \<le> length xs"
  shows "reordered olds xs = xs"
proof -
  have "olds = [0..<length olds]" using assms(1) moved_count_0_iff [of 0 olds] by simp
  then have "map ((!) xs) olds = map ((!) xs) [0..<length olds]" by simp
  also have "\<dots> = take (length olds) xs" using assms(2) by (intro nth_equalityI) auto
  finally have "map ((!) xs) olds = take (length olds) xs" .
  then show ?thesis by (simp add: reordered_def)
qed

section \<open>\<open>rank_fast\<close>\<close>

lemma score_loop_status:
  "score_loop F expired r ctx k cs = Inl status \<Longrightarrow> status \<in> {FR_DeadlineExceeded, FR_InvalidInput}"
  by (induction cs arbitrary: k)
    (auto simp: Let_def bind_result_def split: if_splits sum.splits)

lemma score_loop_finite:
  "score_loop F expired r ctx k cs = Inr scored \<Longrightarrow> list_all is_finite (map (fast_score F r ctx) cs)"
  by (induction cs arbitrary: k scored) (auto simp: Let_def bind_result_Inr_iff split: if_splits)

lemma score_loop_infinite:
  "score_loop F expired r ctx k cs = Inl status \<Longrightarrow> \<forall>i. \<not> expired i \<Longrightarrow>
     \<not> list_all is_finite (map (fast_score F r ctx) cs)"
  by (induction cs arbitrary: k) (auto simp: Let_def bind_result_def split: if_splits sum.splits)

lemma zip_too_far:
  assumes "order_indices order = olds" "length olds = n" "ix_len order = n"
  shows "too_far order n m \<longleftrightarrow> \<not> (\<forall>i < n. abs_diff (olds ! i) i \<le> m)"
proof -
  have "take n (ix_old order) = olds" using assms by (simp add: order_indices_def)
  then show ?thesis
    using assms(2) by (force simp: too_far_def list_ex_iff set_zip)
qed

text \<open>The order of the scores as the code builds it.\<close>

lemma order_from_scored_shape:
  assumes "n \<le> MAX_LOCAL_QUALITY_CANDIDATES" "length window = n"
    "order = order_from_scored (score_order F r ctx window) n"
  shows "order_shaped order" "order_indices order = score_indices F r ctx window" "ix_len order = n"
    "ix_changed order = moved_count 0 (score_indices F r ctx window)"
    "order_ids order window = map (\<lambda>i. pc_id (window ! i)) (score_indices F r ctx window)"
proof -
  have len: "length (score_order F r ctx window) = n" using assms(2) by (simp add: score_order_def)
  have eq: "order = \<lparr>ix_old = score_indices F r ctx window @ replicate (MAX_LOCAL_QUALITY_CANDIDATES - n) 0,
      ix_len = n, ix_changed = moved_count 0 (score_indices F r ctx window)\<rparr>"
    using order_from_scored_eq [OF assms(1) len] assms(3) by (simp add: score_indices_def)
  show "order_shaped order" "order_indices order = score_indices F r ctx window" "ix_len order = n"
    "ix_changed order = moved_count 0 (score_indices F r ctx window)"
    using assms(1,2) by (simp_all add: eq order_shaped_def order_indices_def)
  then show "order_ids order window = map (\<lambda>i. pc_id (window ! i)) (score_indices F r ctx window)"
    by (simp add: order_ids_def order_indices_def)
qed

text \<open>What a ranking without a cache hit returns: a fallback, or the order of the scores.\<close>

lemma rank_miss_result:
  fixes F e cs request ctx
  defines "n \<equiv> fast_evaluated e cs"
  defines "olds \<equiv> score_indices F (trim (lr_reading request)) ctx (take n cs)"
  assumes ok: "engine_ok e"
  obtains (fallback) status where "status \<in> {FR_DeadlineExceeded, FR_InvalidInput, FR_RankShiftTooLarge}"
      "rank_miss F expired elapsed key ctx request n cs e = Some (e, cs, fast_outcome e status 0 n elapsed)"
      "(\<forall>i. \<not> expired i) \<longrightarrow>
         \<not> (list_all is_finite (map (fast_score F (trim (lr_reading request)) ctx) (take n cs)) \<and>
            (\<forall>i < n. abs_diff (olds ! i) i \<le> lc_max_rank_shift (en_config e)))"
  | (ranked) e' where
      "e' = e\<lparr>en_fast := insert_cache (en_fast_limit e) key (map (\<lambda>i. pc_id (take n cs ! i)) olds) (en_fast e)\<rparr>"
      "\<forall>i < n. abs_diff (olds ! i) i \<le> lc_max_rank_shift (en_config e)"
      "rank_miss F expired elapsed key ctx request n cs e = Some (e', reordered olds cs,
         fast_outcome e' (if moved_count 0 olds > 0 then FR_Applied else FR_Unchanged) (moved_count 0 olds) n elapsed)"
      "list_all is_finite (map (fast_score F (trim (lr_reading request)) ctx) (take n cs))"
proof -
  have n: "n \<le> length cs" "n \<le> MAX_LOCAL_QUALITY_CANDIDATES"
    using fast_evaluated_le [OF ok] by (auto simp: n_def)
  then have len: "length (take n cs) = n" by simp
  show ?thesis
  proof (cases "score_loop F expired (trim (lr_reading request)) ctx 0 (take n cs)")
    case (Inl status)
    with score_loop_status [OF Inl] score_loop_infinite [OF Inl] fallback show ?thesis
      by (auto simp: rank_miss_def Let_def)
  next
    case (Inr scored)
    define order where "order = order_from_scored (score_order F (trim (lr_reading request)) ctx (take n cs)) n"
    note shape = order_from_scored_shape [OF n(2) len order_def, folded olds_def]
    have perm: "index_permutation olds" by (simp add: olds_def score_indices_permutation)
    have ap: "apply_index_order cs order = Some (reordered olds cs, Inr (moved_count 0 olds))"
      using n perm by (simp add: apply_index_order_eq [OF shape(1)] shape)
    have olds: "length olds = n" using len by (simp add: olds_def)
    note far = zip_too_far [OF shape(2) olds shape(3)]
    note eq = rank_miss_def [of F expired elapsed key ctx request n cs e, unfolded Let_def Inr sum.case
        score_loop_sorted [OF Inr] len order_def [symmetric] far ap shape(5) option.case prod.case]
    show ?thesis
      using fallback ranked score_loop_finite [OF Inr] unfolding eq
      by (cases "\<forall>i < n. abs_diff (olds ! i) i \<le> lc_max_rank_shift (en_config e)"; cases "expired (2 + n)") auto
  qed
qed

lemma apply_resolved:
  fixes xs :: "personalized_candidate list"
  assumes e: "expected = map pc_id (take n xs)" "n \<le> length xs" "n \<le> MAX_LOCAL_QUALITY_CANDIDATES"
    "distinct expected" and r: "resolve_order ids expected m = Inr order"
  defines "olds \<equiv> map (first_index expected) ids"
  shows "apply_index_order xs order = Some (reordered olds xs, Inr (moved_count 0 olds))"
    "bounded_reorder n m xs (reordered olds xs)" "length olds = n" "map pc_id (take n (reordered olds xs)) = ids"
proof -
  have "length expected \<le> MAX_LOCAL_QUALITY_CANDIDATES" using e by simp
  with r e(4) have a: "admissible_order expected m ids" "order = resolved_order expected ids"
    by (simp_all add: resolve_order_iff)
  then have m: "mset ids = mset expected" by (simp add: admissible_order_def)
  have n: "length ids = n" using mset_eq_length [OF m] e by simp
  have shaped: "order_shaped order" unfolding a(2) using n e(3) by (intro resolved_order_shaped) simp
  have perm: "index_permutation olds" unfolding olds_def by (rule resolved_order_permutation [OF e(4) m])
  have "ix_changed order = moved_count 0 olds" by (simp add: a(2) resolved_order_def Let_def olds_def)
  then show eq: "apply_index_order xs order = Some (reordered olds xs, Inr (moved_count 0 olds))"
    using perm n e(2) by (simp add: apply_index_order_eq [OF shaped]) (simp add: a(2) flip: olds_def)
  show len: "length olds = n" using n by (simp add: olds_def)
  have "\<forall>i < n. abs_diff (olds ! i) i \<le> m" using a(1) n by (simp add: admissible_order_def olds_def)
  with bounded_reorder_reordered [OF perm len e(2)] show "bounded_reorder n m xs (reordered olds xs)" by blast
  from resolve_apply [OF e a(1)] eq a(2) show "map pc_id (take n (reordered olds xs)) = ids" by auto
qed

lemma validate_window_distinct:
  "validate_window previous cs = Inr u \<Longrightarrow> distinct (map pc_id cs) \<and> set (map pc_id cs) \<inter> set previous = {}"
  by (induction previous cs rule: validate_window.induct) (auto split: if_splits)

lemma fast_guard_none:
  assumes "fast_guard e expired window request = None"
  shows "distinct (map pc_id window)" "2 \<le> length window" "valid_reading (lr_reading request)"
    "lr_current_generation request = Some (lr_generation request)" "lr_tier request \<noteq> MT_MozcOnly"
    "lc_data_policy (en_config e) \<noteq> DP_MozcBaseline" "\<not> expired 0"
    "validate_candidate_window window = Inr ()"
  using assms validate_window_distinct [of "[]" window]
  by (auto simp: fast_guard_def validate_candidate_window_def split: if_splits sum.splits rerank_rejection.splits)

lemma fast_guard_some: "fast_guard e expired window request = Some status \<Longrightarrow> status \<notin> {FR_Applied, FR_CacheHit, FR_Unchanged}"
  by (auto simp: fast_guard_def split: if_splits sum.splits rerank_rejection.splits)

text \<open>
  The four ways \<open>rank_fast\<close> ends: before the ranking, with a hit that still resolves, and with
  the two results of the ranking proper.
\<close>

lemma rank_fast_result:
  fixes F H e cs request expired
  defines "n \<equiv> fast_evaluated e cs"
  defines "ctx \<equiv> context_for e request"
  defines "ids \<equiv> map pc_id (take n cs)"
  defines "key \<equiv> input_cache_key H CO_FastRank request (en_config e) ctx ids (take n cs)"
  defines "e1 \<equiv> e\<lparr>en_fast := snd (lookup_cache key (en_fast e))\<rparr>"
  assumes ok: "engine_ok e"
  obtains (guard) status where "fast_guard e expired (take n cs) request = Some status"
      "rank_fast F H expired elapsed cs request e = Some (e, cs, fast_outcome e status 0 n elapsed)"
  | (hit) order olds where "fast_guard e expired (take n cs) request = None"
      "fst (lookup_cache key (en_fast e)) = Some order" "\<not> expired 1"
      "admissible_order ids (lc_max_rank_shift (en_config e)) order"
      "olds = map (first_index ids) order" "length olds = n"
      "bounded_reorder n (lc_max_rank_shift (en_config e)) cs (reordered olds cs)"
      "map pc_id (take n (reordered olds cs)) = order"
      "rank_fast F H expired elapsed cs request e = Some (e1, reordered olds cs,
         fast_outcome e1 (if moved_count 0 olds > 0 then FR_CacheHit else FR_Unchanged) (moved_count 0 olds) n elapsed)"
  | (miss) "fast_guard e expired (take n cs) request = None"
      "\<And>order. fst (lookup_cache key (en_fast e)) = Some order \<Longrightarrow>
         expired 1 \<or> \<not> admissible_order ids (lc_max_rank_shift (en_config e)) order"
      "rank_fast F H expired elapsed cs request e = rank_miss F expired elapsed key ctx request n cs e1"
proof (cases "fast_guard e expired (take n cs) request")
  case (Some status)
  then show ?thesis using guard by (simp add: rank_fast_def Let_def n_def)
next
  case None
  have n: "n \<le> length cs" "n \<le> MAX_LOCAL_QUALITY_CANDIDATES"
    using fast_evaluated_le [OF ok] by (auto simp: n_def)
  have d: "distinct ids" using fast_guard_none(1) [OF None] by (simp add: ids_def)
  have len: "length ids \<le> MAX_LOCAL_QUALITY_CANDIDATES" using n by (simp add: ids_def)
  have eq: "rank_fast F H expired elapsed cs request e =
    (case fst (lookup_cache key (en_fast e)) of
       None \<Rightarrow> rank_miss F expired elapsed key ctx request n cs e1
     | Some order \<Rightarrow>
        (case resolve_order order ids (lc_max_rank_shift (en_config e)) of
           Inl _ \<Rightarrow> rank_miss F expired elapsed key ctx request n cs e1
         | Inr index_order \<Rightarrow>
             if expired 1 then rank_miss F expired elapsed key ctx request n cs e1
             else case apply_index_order cs index_order of
                None \<Rightarrow> None
              | Some (cs', Inl _) \<Rightarrow> rank_miss F expired elapsed key ctx request n cs' e1
              | Some (cs', Inr changed) \<Rightarrow>
                  Some (e1, cs', fast_outcome e1 (if changed > 0 then FR_CacheHit else FR_Unchanged) changed n elapsed)))"
    using None
    by (simp add: rank_fast_def Let_def case_prod_unfold n_def ctx_def ids_def key_def e1_def
        cong: option.case_cong sum.case_cong if_cong prod.case_cong)
  show ?thesis
  proof (cases "fst (lookup_cache key (en_fast e))")
    case (Some order)
    show ?thesis
    proof (cases "resolve_order order ids (lc_max_rank_shift (en_config e))")
      case (Inr index_order)
      note ap = apply_resolved [OF meta_eq_to_obj_eq [OF ids_def] n d Inr]
      have adm: "admissible_order ids (lc_max_rank_shift (en_config e)) order"
        using Inr resolve_order_iff [OF d len] by simp
      show ?thesis
      proof (cases "expired 1")
        case True
        then show ?thesis using Some None Inr eq by (intro miss) simp_all
      next
        case False
        with ap adm Some Inr None eq show ?thesis by (intro hit) simp_all
      qed
    next
      case (Inl r)
      then have "\<not> admissible_order ids (lc_max_rank_shift (en_config e)) order"
        using resolve_order_iff [OF d len] by (metis Inl_Inr_False)
      with Some Inl None eq show ?thesis by (intro miss) simp_all
    qed
  qed (use None eq miss in simp)
qed

lemma moved_outcome:
  assumes "length olds \<le> length cs" "status = (if moved_count 0 olds > 0 then s else FR_Unchanged)"
    "s = FR_Applied \<or> s = FR_CacheHit" "used_baseline (fast_outcome e status (moved_count 0 olds) n elapsed)"
  shows "reordered olds cs = cs"
  using assms by (intro bounded_reorder_nothing_moved) (auto simp: used_baseline_def fast_outcome_def split: if_splits)

lemma rank_fast_safe:
  assumes ok: "engine_ok e"
  obtains e' cs' out where "rank_fast F H expired elapsed cs request e = Some (e', cs', out)"
    "engine_ok e'" "en_config e' = en_config e" "en_semantic e' = en_semantic e"
    "bounded_reorder (fast_evaluated e cs) (lc_max_rank_shift (en_config e)) cs cs'"
    "used_baseline out \<longrightarrow> cs' = cs"
    "fr_changed_positions out \<le> fast_evaluated e cs"
    "fr_evaluated_candidates out = fast_evaluated e cs"
proof -
  let ?n = "fast_evaluated e cs" and ?ctx = "context_for e request"
  let ?key = "input_cache_key H CO_FastRank request (en_config e) ?ctx (map pc_id (take ?n cs)) (take ?n cs)"
  let ?e1 = "e\<lparr>en_fast := snd (lookup_cache ?key (en_fast e))\<rparr>"
  have n: "?n \<le> length cs" by (rule fast_evaluated_le [OF ok])
  have wf: "cache_wf (en_fast_limit e) (en_fast e)" using ok by (simp add: engine_ok_def)
  have ok1: "engine_ok ?e1" by (rule engine_ok_fast [OF ok lookup_cache_wf [OF wf]])
  have n1 [simp]: "fast_evaluated ?e1 cs = ?n" by (simp add: fast_evaluated_def)
  from ok show thesis
  proof (cases rule: rank_fast_result [where F = F and H = H and expired = expired and cs = cs and request = request and elapsed = elapsed])
    case (guard status)
    show ?thesis
      by (rule that [OF guard(2) ok]) (simp_all add: fast_outcome_def)
  next
    case (hit order olds)
    have "length olds \<le> length cs" using hit(6) n by simp
    from moved_outcome [OF this refl, of FR_CacheHit] show ?thesis
      using moved_count_le [of 0 olds] hit(6,7)
      by (intro that [OF hit(9) ok1]) (auto simp: fast_outcome_def)
  next
    case miss
    from ok1 show ?thesis
    proof (cases rule: rank_miss_result [where request = request and ctx = ?ctx and cs = cs and F = F and expired = expired
          and key = ?key and elapsed = elapsed])
      case (fallback status)
      show ?thesis
        by (rule that [OF trans [OF miss(3) fallback(2) [unfolded n1]] ok1]) (simp_all add: fast_outcome_def)
    next
      case (ranked e')
      let ?olds = "score_indices F (trim (lr_reading request)) ?ctx (take ?n cs)"
      have len: "length ?olds = ?n" using n by simp
      have "engine_ok e'"
        unfolding ranked(1) using ok1 by (simp add: engine_ok_def insert_cache_wf)
      moreover have "bounded_reorder ?n (lc_max_rank_shift (en_config e)) cs (reordered ?olds cs)"
        using ranked(2) by (intro bounded_reorder_reordered score_indices_permutation len n) simp
      moreover have "length ?olds \<le> length cs" using len n by simp
      note moved_outcome [OF this refl, of FR_Applied]
      ultimately show ?thesis
        using moved_count_le [of 0 ?olds] len
        by (intro that [OF trans [OF miss(3) ranked(3) [unfolded n1]]]) (auto simp: fast_outcome_def ranked(1))
    qed
  qed
qed

end
