(* ===== verification/Learning_Correct.thy ===== *)
theory Learning_Correct
  imports Learning Local_Quality_Correct
begin

text \<open>
  Learning counts and forgets exactly as documented, and the adjustments only annotate: they
  change no candidate but its rank, and \<open>personalize\<close> is a stable sort of them.
\<close>

section \<open>What a history of commits leaves\<close>

text \<open>A commit: reading, text, context tail and time.\<close>

type_synonym commit = "rstr \<times> rstr \<times> rstr \<times> u64"

definition record_commit :: "commit \<Rightarrow> learning_state \<Rightarrow> learning_state" where
  "record_commit x s = (case x of (reading, text, tail, now) \<Rightarrow> record_learning reading text tail now s)"

definition commit_key :: "commit \<Rightarrow> rstr" where
  "commit_key x = (case x of (reading, text, _, _) \<Rightarrow> learning_key reading text)"

definition commit_entry :: "commit \<Rightarrow> history_entry" where
  "commit_entry x = (case x of (reading, text, _, now) \<Rightarrow> \<lparr>he_reading = reading, he_text = text, he_at = now\<rparr>)"

definition learned_count :: "learning_state \<Rightarrow> rstr \<Rightarrow> nat" where
  "learned_count s key = (case fmlookup (ls_learned s) key of None \<Rightarrow> 0 | Some stats \<Rightarrow> unat (ln_count stats))"

definition context_count :: "learning_state \<Rightarrow> rstr \<Rightarrow> rstr \<Rightarrow> nat" where
  "context_count s key tail = (case fmlookup (ls_learned s) key of None \<Rightarrow> 0
     | Some stats \<Rightarrow> (case fmlookup (ln_contexts stats) tail of None \<Rightarrow> 0 | Some n \<Rightarrow> unat n))"

lemma saturating_succ: "unat (saturating_succ_u32 n) = min (Suc (unat n)) (2 ^ 32 - 1)"
proof -
  have b: "unat n < 2 ^ 32" using unsigned_less [of n] by simp
  have m: "unat (- 1 :: u32) = 2 ^ 32 - 1" by (simp add: unsigned_minus_1_eq_mask mask_eq_exp_minus_1)
  show ?thesis
  proof (cases "n = - 1")
    case True
    with m show ?thesis by (simp add: saturating_succ_u32_def)
  next
    case False
    then have "unat n \<noteq> 2 ^ 32 - 1" using m by (metis word_unat_eq_iff)
    with b have "Suc (unat n) < 2 ^ 32" by simp
    then have "unat (n + 1) = Suc (unat n)" by (simp add: unat_word_ariths)
    with False \<open>Suc (unat n) < 2 ^ 32\<close> show ?thesis by (simp add: saturating_succ_u32_def)
  qed
qed

lemma record_profile [simp]:
  "ls_profile (record_commit x s) = ls_profile s" "ls_user_words (record_commit x s) = ls_user_words s"
  by (simp_all add: record_commit_def record_learning_def Let_def split: prod.split)

lemma record_disabled: "\<not> up_learning_enabled (ls_profile s) \<Longrightarrow> record_commit x s = s"
  by (simp add: record_commit_def record_learning_def split: prod.split)

lemma record_history:
  "up_learning_enabled (ls_profile s) \<Longrightarrow>
     ls_history (record_commit x s) = take (up_history_limit (ls_profile s)) (commit_entry x # ls_history s)"
  by (simp add: record_commit_def record_learning_def commit_entry_def Let_def split: prod.split)

lemma record_count:
  "up_learning_enabled (ls_profile s) \<Longrightarrow> learned_count (record_commit x s) key =
     (if key = commit_key x then min (Suc (learned_count s key)) (2 ^ 32 - 1) else learned_count s key)"
  by (auto simp: record_commit_def record_learning_def commit_key_def learned_count_def Let_def saturating_succ
      split: prod.split option.split)

definition commit_tail :: "commit \<Rightarrow> rstr" where
  "commit_tail x = (case x of (_, _, tail, _) \<Rightarrow> tail)"

lemma record_context_count:
  "up_learning_enabled (ls_profile s) \<Longrightarrow> tail \<noteq> [] \<Longrightarrow> context_count (record_commit x s) key tail =
     (if key = commit_key x \<and> tail = commit_tail x then min (Suc (context_count s key tail)) (2 ^ 32 - 1)
      else context_count s key tail)"
  by (auto simp: record_commit_def record_learning_def commit_key_def commit_tail_def context_count_def Let_def
      saturating_succ split: prod.split option.split)

lemma history_run:
  "up_learning_enabled (ls_profile s) \<Longrightarrow> length (ls_history s) \<le> up_history_limit (ls_profile s) \<Longrightarrow>
     ls_history (fold record_commit xs s) =
       take (up_history_limit (ls_profile s)) (rev (map commit_entry xs) @ ls_history s)"
proof (induction xs arbitrary: s)
  case (Cons x xs)
  have "length (ls_history (record_commit x s)) \<le> up_history_limit (ls_profile (record_commit x s))"
    using Cons.prems(1) by (simp add: record_history)
  from Cons.IH [OF _ this] Cons.prems(1) show ?case
    by (simp add: record_history take_append)
qed simp

lemma count_run:
  "up_learning_enabled (ls_profile s) \<Longrightarrow> learned_count s key \<le> 2 ^ 32 - 1 \<Longrightarrow>
     learned_count (fold record_commit xs s) key =
       min (learned_count s key + length (filter (\<lambda>x. commit_key x = key) xs)) (2 ^ 32 - 1)"
  by (induction xs arbitrary: s) (auto simp: record_count)

lemma context_run:
  "up_learning_enabled (ls_profile s) \<Longrightarrow> tail \<noteq> [] \<Longrightarrow> context_count s key tail \<le> 2 ^ 32 - 1 \<Longrightarrow>
     context_count (fold record_commit xs s) key tail =
       min (context_count s key tail + length (filter (\<lambda>x. commit_key x = key \<and> commit_tail x = tail) xs)) (2 ^ 32 - 1)"
  by (induction xs arbitrary: s) (auto simp: record_context_count)


section \<open>Personalization only annotates\<close>

lemma personalize_candidate_keeps [simp]:
  "pc_candidate (personalize_candidate F lower s r t d now i c) = c\<lparr>cd_provider_rank := max (cd_provider_rank c) i\<rparr>"
  by (simp add: personalize_candidate_def Let_def)

lemma personalize_from_nth:
  "length (personalize_from F lower s r t d now k cs) = length cs"
  "i < length cs \<Longrightarrow> personalize_from F lower s r t d now k cs ! i = personalize_candidate F lower s r t d now (k + i) (cs ! i)"
  by (induction cs arbitrary: k i) (auto simp: nth_Cons split: nat.split)

lemma mset_insert_personalized [simp]: "mset (insert_personalized x ys) = add_mset x (mset ys)"
  by (induction ys) auto

lemma set_insert_personalized [simp]: "set (insert_personalized x ys) = insert x (set ys)"
  by (induction ys) auto

lemma sorted_insert_personalized:
  "sorted_wrt personalized_before ys \<Longrightarrow> sorted_wrt personalized_before (insert_personalized x ys)"
proof (induction ys)
  case (Cons y ys)
  have "personalized_before x y \<or> personalized_before y x" by (auto simp: personalized_before_def)
  moreover have "personalized_before x y \<Longrightarrow> personalized_before y z \<Longrightarrow> personalized_before x z" for z
    by (auto simp: personalized_before_def)
  ultimately show ?case using Cons by auto
qed simp

lemma foldr_insert_personalized:
  "mset (foldr insert_personalized xs []) = mset xs" "sorted_wrt personalized_before (foldr insert_personalized xs [])"
  by (induction xs) (auto intro: sorted_insert_personalized)

text \<open>Candidates of equal score and rank keep their order.\<close>

lemma insert_personalized_stable:
  "filter P (insert_personalized x ys) = (if P x then x # filter P ys else filter P ys)"
  if "\<And>y. y \<in> set ys \<Longrightarrow> P x \<Longrightarrow> P y \<Longrightarrow> personalized_before x y"
  using that by (induction ys) auto

lemma foldr_stable:
  assumes "\<And>x y. P x \<Longrightarrow> P y \<Longrightarrow> personalized_before x y"
  shows "filter P (foldr insert_personalized xs []) = filter P xs"
  using assms by (induction xs) (simp_all add: insert_personalized_stable)

text \<open>
  Personalization only annotates and sorts: \<open>personalize_ordered\<close> returns the provider's
  candidates in the provider's order, each unchanged but for a rank raised to its position, with
  a score and an explanation; and \<open>personalize\<close> is a permutation of these, sorted by score and
  then rank, in which candidates equal in both keep their order.
\<close>
theorem personalize_annotates_and_sorts:
  "let ordered = personalize_ordered F lower s candidates reading before now;
       ranked = personalize F lower s candidates reading before now in
    map pc_candidate ordered =
      map (\<lambda>i. (candidates ! i)\<lparr>cd_provider_rank := max (cd_provider_rank (candidates ! i)) i\<rparr>) [0..<length candidates] \<and>
    mset ranked = mset ordered \<and> sorted_wrt personalized_before ranked \<and>
    filter (\<lambda>c. total_key (pc_score c) = k \<and> cd_provider_rank (pc_candidate c) = r) ranked =
    filter (\<lambda>c. total_key (pc_score c) = k \<and> cd_provider_rank (pc_candidate c) = r) ordered"
  unfolding Let_def
proof (intro conjI)
  show "map pc_candidate (personalize_ordered F lower s candidates reading before now) =
      map (\<lambda>i. (candidates ! i)\<lparr>cd_provider_rank := max (cd_provider_rank (candidates ! i)) i\<rparr>) [0..<length candidates]"
    by (intro nth_equalityI) (simp_all add: personalize_ordered_def personalize_from_nth)
  show "filter (\<lambda>c. total_key (pc_score c) = k \<and> cd_provider_rank (pc_candidate c) = r)
      (personalize F lower s candidates reading before now) =
    filter (\<lambda>c. total_key (pc_score c) = k \<and> cd_provider_rank (pc_candidate c) = r)
      (personalize_ordered F lower s candidates reading before now)"
    unfolding personalize_def by (rule foldr_stable) (auto simp: personalized_before_def)
qed (simp_all add: personalize_def foldr_insert_personalized)

end
