(* ===== verification/Rank_Cache_Correct.thy ===== *)
theory Rank_Cache_Correct
  imports Local_Quality_Correct
begin

text \<open>
  The fast cache of the ranking engine is transparent: as long as the hash separates the
  inputs that were ranked, an engine that has ranked anything before ranks as a fresh one.
\<close>

section \<open>What a window asks for\<close>

text \<open>An input of the ranking is the request with the window it looks at.\<close>

type_synonym rank_input = "quality_request \<times> personalized_candidate list"

definition input_context :: "local_quality_config \<Rightarrow> rank_input \<Rightarrow> bounded_context" where
  "input_context c x = bound_context c (lr_context_before (fst x)) (lr_context_after (fst x))"

definition input_scores :: "float_ops \<Rightarrow> local_quality_config \<Rightarrow> rank_input \<Rightarrow> f64 list" where
  "input_scores F c x = map (fast_score F (trim (lr_reading (fst x))) (input_context c x)) (snd x)"

definition input_indices :: "float_ops \<Rightarrow> local_quality_config \<Rightarrow> rank_input \<Rightarrow> nat list" where
  "input_indices F c x = score_indices F (trim (lr_reading (fst x))) (input_context c x) (snd x)"

definition input_key :: "hasher \<Rightarrow> local_quality_config \<Rightarrow> rank_input \<Rightarrow> cache_key" where
  "input_key H c x = input_cache_key H CO_FastRank (fst x) c (input_context c x) (map pc_id (snd x)) (snd x)"

text \<open>The order the ranking adopts, if it adopts one.\<close>

definition input_order :: "float_ops \<Rightarrow> local_quality_config \<Rightarrow> rank_input \<Rightarrow> id_order option" where
  "input_order F c x =
    (if list_all is_finite (input_scores F c x) \<and>
        (\<forall>i < length (snd x). abs_diff (input_indices F c x ! i) i \<le> lc_max_rank_shift c)
     then Some (map (\<lambda>i. pc_id (snd x ! i)) (input_indices F c x)) else None)"

section \<open>The key determines the order\<close>

definition key_items :: "hasher \<Rightarrow> local_quality_config \<Rightarrow> rank_input \<Rightarrow> hash_item list" where
  "key_items H c x =
    hash_cache_header CO_FastRank (fst x) c (input_context c x) @ [H_usize (length (snd x))] @
    map (\<lambda>p. H_i32 (pc_id p)) (snd x) @ map (\<lambda>p. H_u64 (H (fingerprint_items p))) (snd x)"

lemma input_key_eq:
  "input_key H c x = \<lparr>ck_primary = H (key_items H c x), ck_secondary = H (key_items H c x)\<rparr>"
  by (simp add: input_key_def input_cache_key_def key_items_def Let_def candidate_fingerprint_of_def comp_def)

text \<open>Everything that is hashed for the inputs \<open>S\<close>.\<close>

definition hashed :: "hasher \<Rightarrow> local_quality_config \<Rightarrow> rank_input set \<Rightarrow> hash_item list set" where
  "hashed H c S = key_items H c ` S \<union> {fingerprint_items p | p x. x \<in> S \<and> p \<in> set (snd x)}"

lemma map_eq_imp_nth: "map f xs = map f ys \<Longrightarrow> i < length xs \<Longrightarrow> f (xs ! i) = f (ys ! i)"
  by (metis length_map nth_map)

lemma bound_context_small:
  "length (bc_values (bound_context c b a)) \<le> 32" "bc_before_len (bound_context c b a) \<le> 32"
  using context_bounded_kept [of "lc_max_context_chars c" b a]
    context_bounded_before_len [of b a "lc_max_context_chars c"]
  by (auto simp: bound_context_def EMPTY_CONTEXT_def kept_within_def MAX_LOCAL_QUALITY_CONTEXT_CHARS_def)

lemma u8_of_nat_inject: "m \<le> 32 \<Longrightarrow> n \<le> 32 \<Longrightarrow> (of_nat m :: u8) = of_nat n \<longleftrightarrow> m = n"
  by (simp add: word_of_nat_eq_iff take_bit_eq_mod)

lemma origin_code_prior:
  "candidate_origin_code a = candidate_origin_code b \<Longrightarrow> source_prior a = source_prior b"
  by (cases a; cases b) (simp_all add: source_prior_def)

lemma fingerprint_determines:
  assumes "fingerprint_items p = fingerprint_items q"
  shows "fast_score F r ctx p = fast_score F r ctx q" "pc_id p = pc_id q"
proof -
  have eq: "pc_id p = pc_id q" "cd_text (pc_candidate p) = cd_text (pc_candidate q)"
    "cd_reading (pc_candidate p) = cd_reading (pc_candidate q)" "pc_score p = pc_score q"
    "candidate_origin_code (cd_origin (pc_candidate p)) = candidate_origin_code (cd_origin (pc_candidate q))"
    using assms by (simp_all add: fingerprint_items_def)
  show "pc_id p = pc_id q" by (fact eq)
  show "fast_score F r ctx p = fast_score F r ctx q"
    unfolding fast_score_def by (simp only: eq(2-4) origin_code_prior [OF eq(5)])
qed

lemma hashedI:
  "x \<in> S \<Longrightarrow> key_items H c x \<in> hashed H c S"
  "x \<in> S \<Longrightarrow> i < length (snd x) \<Longrightarrow> fingerprint_items (snd x ! i) \<in> hashed H c S"
proof -
  assume "x \<in> S"
  then show "key_items H c x \<in> hashed H c S" by (simp add: hashed_def)
  assume "i < length (snd x)"
  then have "snd x ! i \<in> set (snd x)" by (rule nth_mem)
  with \<open>x \<in> S\<close> show "fingerprint_items (snd x ! i) \<in> hashed H c S" unfolding hashed_def by blast
qed

lemma key_items_determine:
  assumes "key_items H c x = key_items H c y"
  shows "trim (lr_reading (fst x)) = trim (lr_reading (fst y))" "input_context c x = input_context c y"
    "map pc_id (snd x) = map pc_id (snd y)"
    "map (\<lambda>p. H (fingerprint_items p)) (snd x) = map (\<lambda>p. H (fingerprint_items p)) (snd y)"
proof -
  let ?cx = "input_context c x" and ?cy = "input_context c y"
  have small: "length (bc_values ?cx) \<le> 32" "length (bc_values ?cy) \<le> 32"
    "bc_before_len ?cx \<le> 32" "bc_before_len ?cy \<le> 32"
    by (simp_all add: input_context_def bound_context_small)
  note eq = assms [unfolded key_items_def hash_cache_header_def, simplified]
  show "trim (lr_reading (fst x)) = trim (lr_reading (fst y))" using eq by simp
  have len: "length (bc_values ?cx) = length (bc_values ?cy)" "bc_before_len ?cx = bc_before_len ?cy"
    using eq small by (simp_all add: u8_of_nat_inject)
  then have "map H_char (bc_values ?cx) = map H_char (bc_values ?cy)" and
    rest: "length (snd x) = length (snd y)"
      "map (\<lambda>p. H_i32 (pc_id p)) (snd x) @ map (\<lambda>p. H_u64 (H (fingerprint_items p))) (snd x) =
       map (\<lambda>p. H_i32 (pc_id p)) (snd y) @ map (\<lambda>p. H_u64 (H (fingerprint_items p))) (snd y)"
    using eq by simp_all
  then have "bc_values ?cx = bc_values ?cy"
    by (metis hash_item.inject(7) injI inj_map_eq_map)
  with len show "input_context c x = input_context c y" by simp
  from rest have m: "map (\<lambda>p. H_i32 (pc_id p)) (snd x) = map (\<lambda>p. H_i32 (pc_id p)) (snd y)"
    "map (\<lambda>p. H_u64 (H (fingerprint_items p))) (snd x) = map (\<lambda>p. H_u64 (H (fingerprint_items p))) (snd y)"
    by simp_all
  show "map pc_id (snd x) = map pc_id (snd y)"
    using map_eq_imp_nth [OF m(1)] rest(1) by (intro nth_equalityI) (auto simp: list_eq_iff_nth_eq)
  show "map (\<lambda>p. H (fingerprint_items p)) (snd x) = map (\<lambda>p. H (fingerprint_items p)) (snd y)"
    using m(2) rest(1) by (simp add: list_eq_iff_nth_eq)
qed

lemma input_key_determines:
  assumes key: "input_key H c x = input_key H c y" and inj: "inj_on H (hashed H c S)" and S: "x \<in> S" "y \<in> S"
  shows "input_order F c x = input_order F c y"
proof -
  have "H (key_items H c x) = H (key_items H c y)" using key by (simp add: input_key_eq)
  then have "key_items H c x = key_items H c y"
    by (rule inj_onD [OF inj]) (simp_all add: hashedI S)
  note k = key_items_determine [OF this]
  have len: "length (snd x) = length (snd y)" using arg_cong [OF k(3), of length] by simp
  have fp: "fingerprint_items (snd x ! i) = fingerprint_items (snd y ! i)" if i: "i < length (snd x)" for i
  proof (rule inj_onD [OF inj])
    show "H (fingerprint_items (snd x ! i)) = H (fingerprint_items (snd y ! i))"
      using map_eq_imp_nth [OF k(4) i] .
    show "fingerprint_items (snd x ! i) \<in> hashed H c S" by (rule hashedI(2) [OF S(1) i])
    show "fingerprint_items (snd y ! i) \<in> hashed H c S" using i len by (intro hashedI(2) [OF S(2)]) simp
  qed
  note same = fingerprint_determines [OF fp]
  have scores: "input_scores F c x = input_scores F c y"
    using same(1) len by (intro nth_equalityI) (simp_all add: input_scores_def k(1,2))
  have "map (\<lambda>i. \<lparr>sc_old = i, sc_score = fast_score F r ctx (snd x ! i)\<rparr>) [0..<length (snd x)] =
      map (\<lambda>i. \<lparr>sc_old = i, sc_score = fast_score F r ctx (snd y ! i)\<rparr>) [0..<length (snd y)]" for r ctx
    using same(1) len by simp
  then have indices: "input_indices F c x = input_indices F c y"
    by (simp only: input_indices_def score_indices_def score_order_def k(1,2))
  have "\<forall>i \<in> set (input_indices F c x). i < length (snd x)"
    using score_indices_permutation by (simp add: input_indices_def index_permutation_def)
  then have "map (\<lambda>i. pc_id (snd x ! i)) (input_indices F c x) = map (\<lambda>i. pc_id (snd y ! i)) (input_indices F c x)"
    using same(2) by simp
  with scores indices len show ?thesis by (simp add: input_order_def)
qed

section \<open>The reference ranking\<close>

definition window_size :: "local_quality_config \<Rightarrow> personalized_candidate list \<Rightarrow> nat" where
  "window_size c cs = min (min (length cs) (lc_max_candidates c)) 65535"

definition ranked_input :: "local_quality_config \<Rightarrow> quality_request \<Rightarrow> personalized_candidate list \<Rightarrow> rank_input" where
  "ranked_input c request cs = (request, take (window_size c cs) cs)"

text \<open>
  The ranking without an engine: no cache, no clock. A request that is refused, a score that is
  not finite or a candidate that would move too far leave the slice as it is.
\<close>

definition fast_ranking ::
    "float_ops \<Rightarrow> local_quality_config \<Rightarrow> quality_request \<Rightarrow> personalized_candidate list \<Rightarrow>
     personalized_candidate list \<times> nat" where
  "fast_ranking F c request cs =
    (let x = ranked_input c request cs in
     if fast_guard (engine_new c) (\<lambda>_. False) (snd x) request \<noteq> None \<or> input_order F c x = None then (cs, 0)
     else (reordered (input_indices F c x) cs, moved_count 0 (input_indices F c x)))"

lemma fast_guard_config:
  "en_config e = en_config e' \<Longrightarrow> (\<forall>i. \<not> expired i) \<Longrightarrow>
     fast_guard e expired w r = fast_guard e' (\<lambda>_. False) w r"
  by (simp add: fast_guard_def cong: sum.case_cong rerank_rejection.case_cong)

lemma ranked_input_fast:
  "ranked_input (en_config e) request cs = (request, take (fast_evaluated e cs) cs)"
  by (simp add: ranked_input_def window_size_def fast_evaluated_def)

lemma context_for_input: "context_for e request = input_context (en_config e) (request, w)"
  by (simp add: context_for_def input_context_def)

section \<open>A sound cache\<close>

definition fast_sound :: "float_ops \<Rightarrow> hasher \<Rightarrow> rank_input set \<Rightarrow> quality_engine \<Rightarrow> bool" where
  "fast_sound F H S e \<longleftrightarrow> lru_cache.sound (en_fast_limit e)
     (\<lambda>k ids. \<exists>x \<in> S. k = input_key H (en_config e) x \<and> input_order F (en_config e) x = Some ids) (en_fast e)"

lemma fast_sound_mono: "fast_sound F H S e \<Longrightarrow> S \<subseteq> T \<Longrightarrow> fast_sound F H T e"
  unfolding fast_sound_def lru_cache.sound_def by blast

lemma fast_sound_lookup:
  "fast_sound F H S e \<Longrightarrow> fast_sound F H S (e\<lparr>en_fast := snd (lookup_cache k (en_fast e))\<rparr>)"
  using lru_cache.sound_lookup by (simp add: fast_sound_def)

lemma fast_sound_insert:
  assumes "fast_sound F H S e" "x \<in> S" "input_order F (en_config e) x = Some ids"
  shows "fast_sound F H S (e\<lparr>en_fast := insert_cache (en_fast_limit e) (input_key H (en_config e) x) ids (en_fast e)\<rparr>)"
  using assms lru_cache.sound_insert by (fastforce simp: fast_sound_def)

lemma fast_sound_new: "fast_sound F H S (engine_new c)"
  by (simp add: fast_sound_def lru_cache.sound_def engine_new_def Let_def cache_wf_def)

lemma rank_fast_sound:
  assumes ok: "engine_ok e" and s: "fast_sound F H S e" and x: "ranked_input (en_config e) request cs \<in> S"
    and r: "rank_fast F H expired elapsed cs request e = Some (e', cs', out)"
  shows "fast_sound F H S e'"
proof -
  let ?n = "fast_evaluated e cs" and ?c = "en_config e"
  let ?x = "(request, take ?n cs)"
  let ?key = "input_key H ?c ?x"
  let ?e1 = "e\<lparr>en_fast := snd (lookup_cache ?key (en_fast e))\<rparr>"
  have key: "input_cache_key H CO_FastRank request ?c (context_for e request) (map pc_id (take ?n cs)) (take ?n cs) = ?key"
    by (simp add: input_key_def context_for_input [of e request "take ?n cs"])
  have n1 [simp]: "fast_evaluated ?e1 cs = ?n" by (simp add: fast_evaluated_def)
  have ok1: "engine_ok ?e1" using ok by (intro engine_ok_fast lookup_cache_wf) (simp_all add: engine_ok_def)
  have s1: "fast_sound F H S ?e1" by (rule fast_sound_lookup [OF s])
  from ok show ?thesis
  proof (cases rule: rank_fast_result [where F = F and H = H and expired = expired and cs = cs and request = request
        and elapsed = elapsed])
    case (guard status)
    with r s show ?thesis by simp
  next
    case (hit order olds)
    with r s1 show ?thesis by (simp add: key)
  next
    case miss
    from ok1 show ?thesis
    proof (cases rule: rank_miss_result [where request = request and ctx = "context_for e request" and cs = cs and F = F
          and expired = expired and key = ?key and elapsed = elapsed])
      case (fallback status)
      with miss r s1 show ?thesis by (simp add: key)
    next
      case (ranked e2)
      have "length (take ?n cs) = ?n" using fast_evaluated_le(1) [OF ok] by simp
      then have "input_order F ?c ?x = Some (map (\<lambda>i. pc_id (take ?n cs ! i)) (input_indices F ?c ?x))"
        using ranked(2,4)
        by (simp add: input_order_def input_scores_def input_indices_def context_for_input [of e request "take ?n cs"])
      from fast_sound_insert [OF s1, of ?x, simplified, OF x [unfolded ranked_input_fast] this]
      moreover have "e' = e2" using r miss(3) [unfolded key] ranked(3) [unfolded n1] by simp
      ultimately show ?thesis
        using ranked(1) by (simp add: input_indices_def context_for_input [of e request "take ?n cs"])
    qed
  qed
qed

text \<open>A sound cache and enough time: the result is the reference ranking.\<close>

lemma first_index_map:
  "distinct xs \<Longrightarrow> \<forall>i \<in> set is. i < length xs \<Longrightarrow> map (first_index xs) (map ((!) xs) is) = is"
  by (induction "is") (simp_all add: first_index_nth)

lemma rank_fast_reference:
  assumes ok: "engine_ok e" and s: "fast_sound F H S e" and x: "ranked_input (en_config e) request cs \<in> S"
    and inj: "inj_on H (hashed H (en_config e) S)" and time: "\<forall>i. \<not> expired i"
  obtains e' out where "rank_fast F H expired elapsed cs request e =
      Some (e', fst (fast_ranking F (en_config e) request cs), out)"
    "fr_changed_positions out = snd (fast_ranking F (en_config e) request cs)"
proof -
  let ?n = "fast_evaluated e cs" and ?c = "en_config e"
  let ?x = "(request, take ?n cs)"
  let ?key = "input_key H ?c ?x" and ?ids = "map pc_id (take ?n cs)"
  let ?e1 = "e\<lparr>en_fast := snd (lookup_cache ?key (en_fast e))\<rparr>"
  have ctx: "context_for e request = input_context ?c ?x" by (rule context_for_input)
  have key: "input_cache_key H CO_FastRank request ?c (context_for e request) ?ids (take ?n cs) = ?key"
    by (simp add: input_key_def ctx)
  have len: "length (take ?n cs) = ?n" using fast_evaluated_le(1) [OF ok] by simp
  have xin: "?x \<in> S" using x by (simp add: ranked_input_fast)
  have guard_eq: "fast_guard (engine_new ?c) (\<lambda>_. False) (take ?n cs) request = fast_guard e expired (take ?n cs) request"
    by (rule fast_guard_config [OF _ time, symmetric]) (simp add: engine_new_def Let_def)
  have indices: "length (input_indices F ?c ?x) = ?n" "\<forall>i \<in> set (input_indices F ?c ?x). i < ?n"
    using len score_indices_permutation by (simp_all add: input_indices_def index_permutation_def)
  have order: "input_order F ?c ?x \<noteq> None \<longleftrightarrow>
      list_all is_finite (map (fast_score F (trim (lr_reading request)) (context_for e request)) (take ?n cs)) \<and>
      (\<forall>i < ?n. abs_diff (input_indices F ?c ?x ! i) i \<le> lc_max_rank_shift ?c)"
    using len by (simp add: input_order_def input_scores_def ctx)
  have ref: "fast_ranking F ?c request cs =
      (if fast_guard e expired (take ?n cs) request \<noteq> None \<or> input_order F ?c ?x = None then (cs, 0)
       else (reordered (input_indices F ?c ?x) cs, moved_count 0 (input_indices F ?c ?x)))"
    by (simp add: fast_ranking_def ranked_input_fast guard_eq Let_def)
  have n1 [simp]: "fast_evaluated ?e1 cs = ?n" by (simp add: fast_evaluated_def)
  have ok1: "engine_ok ?e1" using ok by (intro engine_ok_fast lookup_cache_wf) (simp_all add: engine_ok_def)
  from ok show thesis
  proof (cases rule: rank_fast_result [where F = F and H = H and expired = expired and cs = cs and request = request
        and elapsed = elapsed])
    case (guard status)
    show ?thesis
      by (rule that [of e "fast_outcome e status 0 ?n elapsed"]) (simp_all add: guard ref)
  next
    case (hit order olds)
    have "\<exists>y \<in> S. ?key = input_key H ?c y \<and> input_order F ?c y = Some order"
      using s hit(2) lru_cache.sound_hit by (fastforce simp: fast_sound_def key)
    then obtain y where y: "y \<in> S" "?key = input_key H ?c y" "input_order F ?c y = Some order" by blast
    have o: "input_order F ?c ?x = Some order" using input_key_determines [OF y(2) inj xin y(1)] y(3) by simp
    then have "order = map (\<lambda>i. pc_id (take ?n cs ! i)) (input_indices F ?c ?x)"
      by (simp add: input_order_def split: if_splits)
    also have "\<dots> = map ((!) ?ids) (input_indices F ?c ?x)" using indices len by simp
    finally have "olds = input_indices F ?c ?x"
      unfolding hit(5) using indices len fast_guard_none(1) [OF hit(1)] by (simp only: first_index_map length_map)
    with hit ref o show ?thesis
      by - (rule that [OF trans [OF hit(9)]], simp add: key, simp)
  next
    case miss
    from ok1 show ?thesis
    proof (cases rule: rank_miss_result [where request = request and ctx = "context_for e request" and cs = cs and F = F
          and expired = expired and key = ?key and elapsed = elapsed])
      case (fallback status)
      have "input_order F ?c ?x = None"
        using fallback(3) time order by (auto simp: input_indices_def ctx)
      with ref show ?thesis
        by - (rule that [OF trans [OF miss(3) [unfolded key] fallback(2) [unfolded n1], THEN trans]], simp, simp)
    next
      case (ranked e2)
      have "input_order F ?c ?x \<noteq> None"
        using ranked(2,4) order by (auto simp: input_indices_def ctx)
      with ref miss(1) show ?thesis
        by - (rule that [OF trans [OF miss(3) [unfolded key] ranked(3) [unfolded n1], THEN trans]],
            simp add: input_indices_def ctx, simp add: input_indices_def ctx)
    qed
  qed
qed

section \<open>Any history of calls\<close>

text \<open>A call: the answers of the clock, the elapsed time, the slice and the request.\<close>

type_synonym rank_call = "(nat \<Rightarrow> bool) \<times> nat \<times> personalized_candidate list \<times> quality_request"

fun rank_calls :: "float_ops \<Rightarrow> hasher \<Rightarrow> rank_call list \<Rightarrow> quality_engine \<Rightarrow> quality_engine option" where
  "rank_calls F H [] e = Some e"
| "rank_calls F H ((expired, elapsed, cs, request) # calls) e =
    (case rank_fast F H expired elapsed cs request e of
       None \<Rightarrow> None | Some (e, _, _) \<Rightarrow> rank_calls F H calls e)"

definition call_input :: "local_quality_config \<Rightarrow> rank_call \<Rightarrow> rank_input" where
  "call_input c call = (case call of (_, _, cs, request) \<Rightarrow> ranked_input c request cs)"

lemma rank_calls_sound:
  "engine_ok e \<Longrightarrow> fast_sound F H S e \<Longrightarrow> call_input (en_config e) ` set calls \<subseteq> S \<Longrightarrow>
     rank_calls F H calls e = Some e' \<Longrightarrow> engine_ok e' \<and> fast_sound F H S e' \<and> en_config e' = en_config e"
proof (induction calls arbitrary: e)
  case (Cons call calls)
  obtain expired elapsed cs request where call: "call = (expired, elapsed, cs, request)" by (cases call)
  obtain e1 cs1 out where r: "rank_fast F H expired elapsed cs request e = Some (e1, cs1, out)"
    and e1: "engine_ok e1" "en_config e1 = en_config e"
    using rank_fast_safe [OF Cons.prems(1)] .
  have "ranked_input (en_config e) request cs \<in> S" using Cons.prems(3) by (simp add: call call_input_def)
  from rank_fast_sound [OF Cons.prems(1,2) this r] Cons.IH [OF e1(1)] Cons.prems e1(2) show ?case
    by (simp add: call r)
qed simp

text \<open>
  C21. \<open>rank_fast\<close> refines the reference ranking, and its cache is transparent: on an engine with
  any history of calls, if the hash separates the inputs of these calls and no deadline
  passes, the slice and the number of moved positions it returns are those of the reference,
  in which neither engine nor cache occurs.
\<close>
theorem fast_rank_refines_reference:
  assumes "config_ok c" "rank_calls F H calls (engine_new c) = Some e"
    and "inj_on H (hashed H c (insert (ranked_input c request cs) (call_input c ` set calls)))"
  shows "\<exists>e' out. rank_fast F H (\<lambda>_. False) elapsed cs request e =
      Some (e', fst (fast_ranking F c request cs), out) \<and>
    fr_changed_positions out = snd (fast_ranking F c request cs)"
proof -
  let ?S = "insert (ranked_input c request cs) (call_input c ` set calls)"
  have new: "en_config (engine_new c) = c" by (simp add: engine_new_def Let_def)
  have "engine_ok e \<and> fast_sound F H ?S e \<and> en_config e = en_config (engine_new c)"
    by (rule rank_calls_sound [OF engine_ok_new [OF assms(1)] fast_sound_new _ assms(2)]) (auto simp: new)
  then have e: "engine_ok e" "fast_sound F H ?S e" "en_config e = c" by (simp_all add: new)
  obtain e' out where "rank_fast F H (\<lambda>_. False) elapsed cs request e =
      Some (e', fst (fast_ranking F (en_config e) request cs), out)"
    "fr_changed_positions out = snd (fast_ranking F (en_config e) request cs)"
    by (rule rank_fast_reference [OF e(1,2), of request cs "\<lambda>_. False"]) (simp_all add: e(3) assms(3))
  then show ?thesis using e(3) by blast
qed

text \<open>
  Ranking is safe on every engine that keeps its bounds, with any cache content, clock and
  hash: it returns, it reorders at most the first nine candidates and moves none of them farther
  than the configured shift, it loses and invents no candidate, and when it reports a fallback
  the slice is untouched; the engine keeps its bounds, with at most 128 cache entries.
\<close>
theorem fast_rank_bounded:
  assumes "engine_ok e"
  shows "\<exists>e' cs' out. rank_fast F H expired elapsed cs request e = Some (e', cs', out) \<and>
    engine_ok e' \<and> engine_cache_entries e' \<le> 128 \<and>
    mset cs' = mset cs \<and> drop 9 cs' = drop 9 cs \<and>
    (\<forall>i < length cs. \<exists>j < length cs. cs' ! i = cs ! j \<and> abs_diff j i \<le> lc_max_rank_shift (en_config e)) \<and>
    (used_baseline out \<longrightarrow> cs' = cs)"
proof -
  obtain e' cs' out where r: "rank_fast F H expired elapsed cs request e = Some (e', cs', out)" "engine_ok e'"
    and b: "bounded_reorder (fast_evaluated e cs) (lc_max_rank_shift (en_config e)) cs cs'"
    and u: "used_baseline out \<longrightarrow> cs' = cs"
    using rank_fast_safe [OF assms] .
  let ?n = "fast_evaluated e cs"
  have n: "?n \<le> 9" "?n \<le> length cs"
    using fast_evaluated_le [OF assms, of cs] by (simp_all add: MAX_LOCAL_QUALITY_CANDIDATES_def)
  have len: "length cs' = length cs" using b mset_eq_length by (auto simp: bounded_reorder_def)
  have d: "drop ?n cs' = drop ?n cs" using b by (simp add: bounded_reorder_def)
  have "drop 9 cs' = drop 9 cs"
    using arg_cong [OF d, of "drop (9 - ?n)"] n by simp
  moreover have "\<exists>j < length cs. cs' ! i = cs ! j \<and> abs_diff j i \<le> lc_max_rank_shift (en_config e)"
    if i: "i < length cs" for i
  proof (cases "i < ?n")
    case True
    then obtain j where "j < ?n" "cs' ! i = cs ! j" "abs_diff j i \<le> lc_max_rank_shift (en_config e)"
      using b by (auto simp: bounded_reorder_def)
    then show ?thesis using n by (intro exI [of _ j]) simp
  next
    case False
    then have "cs' ! i = cs ! i"
      using arg_cong [OF d, of "\<lambda>l. l ! (i - ?n)"] i len n by simp
    then show ?thesis using i by (intro exI [of _ i]) (simp add: abs_diff_def)
  qed
  moreover have "engine_cache_entries e' \<le> 128"
    using engine_ok_bounded [OF r(2)] by (simp add: MAX_LOCAL_QUALITY_CACHE_ENTRIES_def)
  ultimately show ?thesis using r b u by (auto simp: bounded_reorder_def)
qed

section \<open>Witnesses\<close>

definition sample_engine :: quality_engine where
  "sample_engine = engine_new (quality_config_new DP_CandidateFeatures)"

lemma sample_engine_ok: "engine_ok sample_engine"
  by (simp add: sample_engine_def engine_ok_new config_ok_new)

definition sample_floats :: float_ops where
  "sample_floats = \<lparr>fo_add = \<lambda>a b. if b = F0 then a else b, fo_mul = \<lambda>a b. a, fo_div = \<lambda>a b. a, fo_of_nat = \<lambda>n. F1,
     fo_log2 = \<lambda>x. x, fo_powf = \<lambda>x y. x, fo_max = \<lambda>a b. a, fo_percent = \<lambda>x. []\<rparr>"

definition sample_request :: quality_request where
  "sample_request = \<lparr>lr_session_id = 1, lr_generation = 5, lr_current_generation = Some 5, lr_tier = MT_Tiny,
     lr_reading = lit ''kana'', lr_context_before = [], lr_context_after = [], lr_model_revision = 0,
     lr_learning_version = 0\<rparr>"

definition sample_window :: "personalized_candidate list" where
  "sample_window = [order_sample 7, (order_sample 8)\<lparr>pc_score := F8\<rparr>]"

text \<open>A hash that separates these inputs: the id of a fingerprint, a mark for a key.\<close>

definition sample_hash :: hasher where
  "sample_hash items = (case items of H_i32 i # _ \<Rightarrow> ucast i | _ \<Rightarrow> 0)"

lemma fast_rank_bounded_witness:
  "\<exists>e' cs' out. rank_fast sample_floats sample_hash (\<lambda>_. False) 3 sample_window sample_request sample_engine = Some (e', cs', out) \<and>
    mset cs' = mset sample_window"
  using fast_rank_bounded [OF sample_engine_ok, of sample_floats sample_hash "\<lambda>_. False" 3 sample_window sample_request]
  by blast

lemma sample_ranking:
  "fast_ranking sample_floats (quality_config_new DP_CandidateFeatures) sample_request sample_window = (rev sample_window, 2)"
proof -
  let ?c = "quality_config_new DP_CandidateFeatures"
  let ?x = "(sample_request, sample_window)"
  have x: "ranked_input ?c sample_request sample_window = ?x"
    by (simp add: ranked_input_def window_size_def quality_config_new_def sample_window_def MAX_LOCAL_QUALITY_CANDIDATES_def)
  have guard: "fast_guard (engine_new ?c) (\<lambda>_. False) sample_window sample_request = None"
    by (simp add: fast_guard_def engine_new_def Let_def quality_config_new_def sample_request_def sample_window_def
        valid_reading_def lit_def trim_def trim_end_def trim_start_def is_whitespace_def has_control_def is_control_def
        validate_candidate_window_def order_sample_def valid_candidate_text_def utf8_len_def pc_id_def
        LQ_MAX_READING_BYTES_def LQ_MAX_READING_CHARS_def LQ_MAX_CANDIDATE_TEXT_BYTES_def LQ_MAX_CANDIDATE_TEXT_CHARS_def)
  have ctx: "input_context ?c y = EMPTY_CONTEXT" for y
    by (simp add: input_context_def bound_context_def quality_config_new_def)
  have "\<not> context_ends_with EMPTY_CONTEXT t" "\<not> context_contains EMPTY_CONTEXT t" if "t \<noteq> []" for t
    using that by (auto simp: EMPTY_CONTEXT_def context_ends_with_def context_contains_def split: list.split)
  moreover have F: "F8 \<noteq> F0" by (simp add: F8_def F0_def)
  ultimately have scores: "fast_score sample_floats r EMPTY_CONTEXT (order_sample i) = F0"
    "fast_score sample_floats r EMPTY_CONTEXT ((order_sample i)\<lparr>pc_score := F8\<rparr>) = F8" for r i
    by (simp_all add: fast_score_def Let_def order_sample_def lit_def source_prior_def sample_floats_def)
  have keys: "total_key F0 = 0" "0 < total_key F8" "is_finite F0" "is_finite F8"
    by (simp_all add: total_key_def float_negative_def float_magnitude_def is_finite_def float_infinity_def F0_def F8_def
        mask_eq_exp_minus_1)
  have "input_indices sample_floats ?c ?x = [1, 0]"
    using keys by (simp add: input_indices_def score_indices_def score_order_def sample_window_def ctx scores sort_scored_def
        scored_before_def upt_rec)
  moreover have "input_scores sample_floats ?c ?x = [F0, F8]"
    by (simp add: input_scores_def sample_window_def ctx scores)
  moreover have "\<forall>i < 2. abs_diff ([1, 0] ! i) i \<le> 3" by (auto simp: less_2_cases_iff abs_diff_def)
  ultimately have "input_order sample_floats ?c ?x \<noteq> None" "input_indices sample_floats ?c ?x = [1, 0]"
    using keys by (simp_all add: input_order_def sample_window_def quality_config_new_def MAX_LOCAL_QUALITY_RANK_SHIFT_def)
  then show ?thesis
    by (simp add: fast_ranking_def x guard Let_def) (simp add: reordered_def sample_window_def)
qed

lemma fast_rank_refines_reference_witness:
  "\<exists>e' out. rank_fast sample_floats sample_hash (\<lambda>_. False) 3 sample_window sample_request sample_engine =
    Some (e', rev sample_window, out)"
proof -
  let ?c = "quality_config_new DP_CandidateFeatures"
  have x: "ranked_input ?c sample_request sample_window = (sample_request, sample_window)"
    by (simp add: ranked_input_def window_size_def quality_config_new_def sample_window_def MAX_LOCAL_QUALITY_CANDIDATES_def)
  have "hashed sample_hash ?c {(sample_request, sample_window)} =
      {key_items sample_hash ?c (sample_request, sample_window), fingerprint_items (order_sample 7),
       fingerprint_items ((order_sample 8)\<lparr>pc_score := F8\<rparr>)}"
    by (auto simp: hashed_def sample_window_def)
  then have inj: "inj_on sample_hash (hashed sample_hash ?c {(sample_request, sample_window)})"
    by (simp add: sample_hash_def key_items_def hash_cache_header_def fingerprint_items_def pc_id_def order_sample_def)
  have "rank_calls sample_floats sample_hash [] (engine_new ?c) = Some sample_engine" by (simp add: sample_engine_def)
  from fast_rank_refines_reference [OF config_ok_new this, of sample_request sample_window 3] inj
  show ?thesis by (auto simp: x sample_ranking)
qed

end
