(* ===== verification/Semantic_Rerank_Correct.thy ===== *)
theory Semantic_Rerank_Correct
  imports Rank_Cache_Correct
begin

text \<open>
  The semantic rerank: a snapshot admits exactly the candidates, generation and revisions it
  was captured from, a decision is adopted only against a snapshot that the current state still
  matches, with a complete and bounded order, and at most once.
\<close>

section \<open>Snapshots\<close>

definition snapshot_ok :: "semantic_snapshot \<Rightarrow> bool" where
  "snapshot_ok s \<longleftrightarrow> distinct (sn_candidate_ids s) \<and>
     length (sn_candidate_ids s) \<le> MAX_LOCAL_QUALITY_CANDIDATES \<and>
     length (sn_fingerprints s) = length (sn_candidate_ids s) \<and>
     sn_max_rank_shift s \<le> MAX_LOCAL_QUALITY_RANK_SHIFT"

lemma matches_candidates_iff:
  assumes "length (sn_fingerprints s) = length (sn_candidate_ids s)"
  defines "n \<equiv> length (sn_candidate_ids s)"
  shows "matches_candidates H s cs \<longleftrightarrow> n \<le> length cs \<and> map pc_id (take n cs) = sn_candidate_ids s \<and>
    map (candidate_fingerprint_of H) (take n cs) = sn_fingerprints s"
proof (cases "n \<le> length cs")
  case True
  have "map pc_id (take n cs) = sn_candidate_ids s \<longleftrightarrow> (\<forall>i < n. pc_id (cs ! i) = sn_candidate_ids s ! i)"
    using True by (simp add: list_eq_iff_nth_eq n_def)
  moreover have "map (candidate_fingerprint_of H) (take n cs) = sn_fingerprints s \<longleftrightarrow>
      (\<forall>i < n. candidate_fingerprint_of H (cs ! i) = sn_fingerprints s ! i)"
    using True assms(1) by (simp add: list_eq_iff_nth_eq n_def)
  ultimately show ?thesis
    using True by (auto simp: matches_candidates_def Let_def list_all_iff n_def)
qed (simp add: matches_candidates_def n_def)

lemma check_admission_iff:
  assumes "length (sn_fingerprints s) = length (sn_candidate_ids s)"
  defines "n \<equiv> length (sn_candidate_ids s)"
  shows "check_admission H s a = Inr () \<longleftrightarrow>
    sm_current_generation a = Some (sn_generation s) \<and> sm_current_model_revision a = sn_model_revision s \<and>
    sm_current_learning_version a = sn_learning_version s \<and>
    n \<le> length (sm_candidates a) \<and> map pc_id (take n (sm_candidates a)) = sn_candidate_ids s \<and>
    map (candidate_fingerprint_of H) (take n (sm_candidates a)) = sn_fingerprints s"
  using assms by (auto simp: check_admission_def matches_candidates_iff)

lemma capture_snapshot:
  assumes "engine_ok e" "capture_semantic_rerank H request cs e = Inr s"
  defines "n \<equiv> min (length cs) (lc_max_candidates (en_config e))"
  shows "snapshot_ok s" "2 \<le> n" "sn_candidate_ids s = map pc_id (take n cs)"
    "sn_fingerprints s = map (candidate_fingerprint_of H) (take n cs)"
    "sn_generation s = lr_generation request" "lr_current_generation request = Some (lr_generation request)"
    "sn_model_revision s = lr_model_revision request" "sn_learning_version s = lr_learning_version request"
    "lr_tier request \<noteq> MT_MozcOnly" "lc_data_policy (en_config e) \<noteq> DP_MozcBaseline"
  using assms validate_window_distinct [of "[]" "take n cs"]
  by (auto simp: capture_semantic_rerank_def Let_def snapshot_ok_def engine_ok_def config_ok_def
      validate_candidate_window_def split: if_splits)

section \<open>Plans\<close>

text \<open>A plan that was validated: an abstention, or a complete order of bounded movement.\<close>

definition plan_ok :: "semantic_plan \<Rightarrow> bool" where
  "plan_ok p \<longleftrightarrow> snapshot_ok (sl_snapshot p) \<and> (sl_candidate_ids p = [] \<or>
     admissible_order (sn_candidate_ids (sl_snapshot p)) (sn_max_rank_shift (sl_snapshot p)) (sl_candidate_ids p))"

lemma unit_option_None: "x \<noteq> Some () \<longleftrightarrow> x = None"
  by (cases x) auto

lemma validate_plan:
  assumes "snapshot_ok s" "validate_semantic_rerank H d s a = Inr p"
  shows "plan_ok p" "sl_snapshot p = s" "sl_candidate_ids p = sd_candidate_ids d" "check_admission H s a = Inr ()"
    "sd_expires_at_generation d = sn_generation s" "sd_input_revision d = sn_input_revision s"
    "sd_model_revision d = sn_model_revision s" "sd_learning_version d = sn_learning_version s"
    "sd_model_tier d = sn_tier s" "sd_patch d = None"
    "sd_action d = SA_Rerank \<Longrightarrow> \<not> float_less (sd_confidence d) MIN_SEMANTIC_RERANK_CONFIDENCE"
    "sd_action d = SA_Abstain \<Longrightarrow> sl_candidate_ids p = []"
  using assms
  by (auto simp: unit_option_None validate_semantic_rerank_def bind_result_Inr_iff plan_ok_def snapshot_ok_def resolve_order_iff
      split: if_splits semantic_action.splits)

lemma plan_apply_ok:
  assumes p: "plan_ok p"
  defines "n \<equiv> length (sn_candidate_ids (sl_snapshot p))"
  obtains (refused) r where "check_admission H (sl_snapshot p) a = Inl r" "plan_apply H p a = Some (sm_candidates a, Inl r)"
  | (abstained) "check_admission H (sl_snapshot p) a = Inr ()" "sl_candidate_ids p = []"
      "plan_apply H p a = Some (sm_candidates a, Inr SY_Abstained)"
  | (applied) cs' changed where "check_admission H (sl_snapshot p) a = Inr ()" "sl_candidate_ids p \<noteq> []"
      "plan_apply H p a = Some (cs', Inr (SY_Applied changed))"
      "bounded_reorder n (sn_max_rank_shift (sl_snapshot p)) (sm_candidates a) cs'"
      "map pc_id (take n cs') = sl_candidate_ids p" "changed = 0 \<longleftrightarrow> sl_candidate_ids p = sn_candidate_ids (sl_snapshot p)"
proof (cases "check_admission H (sl_snapshot p) a")
  case (Inl r)
  then show ?thesis using refused by (simp add: plan_apply_def)
next
  case (Inr u)
  then have adm: "check_admission H (sl_snapshot p) a = Inr ()" by simp
  show ?thesis
  proof (cases "sl_candidate_ids p = []")
    case True
    then show ?thesis using abstained adm by (simp add: plan_apply_def)
  next
    case False
    let ?s = "sl_snapshot p" and ?cs = "sm_candidates a"
    have s: "snapshot_ok ?s" and ao: "admissible_order (sn_candidate_ids ?s) (sn_max_rank_shift ?s) (sl_candidate_ids p)"
      using p False by (auto simp: plan_ok_def)
    have e: "sn_candidate_ids ?s = map pc_id (take n ?cs)" "n \<le> length ?cs"
      using adm s by (simp_all add: check_admission_iff snapshot_ok_def n_def)
    have n: "n \<le> MAX_LOCAL_QUALITY_CANDIDATES" "distinct (sn_candidate_ids ?s)"
      using s by (simp_all add: snapshot_ok_def n_def)
    have r: "resolve_order (sl_candidate_ids p) (sn_candidate_ids ?s) (sn_max_rank_shift ?s) =
        Inr (resolved_order (sn_candidate_ids ?s) (sl_candidate_ids p))"
      using ao n by (simp add: resolve_order_iff n_def)
    note ap = apply_resolved [OF e n r]
    let ?olds = "map (first_index (sn_candidate_ids ?s)) (sl_candidate_ids p)"
    have same: "moved_count 0 ?olds = 0 \<longleftrightarrow> sl_candidate_ids p = sn_candidate_ids ?s"
    proof
      assume "moved_count 0 ?olds = 0"
      then have "?olds = [0..<n]" using moved_count_0_iff [of 0 ?olds] ap(3) by simp
      then have "map ((!) (sn_candidate_ids ?s)) ?olds = sn_candidate_ids ?s"
        by (simp only: n_def map_nth)
      moreover have "set (sl_candidate_ids p) = set (sn_candidate_ids ?s)"
        using ao mset_eq_setD by (auto simp: admissible_order_def)
      then have "map ((!) (sn_candidate_ids ?s)) ?olds = sl_candidate_ids p"
        by (simp only: map_map) (rule map_idI, simp)
      ultimately show "sl_candidate_ids p = sn_candidate_ids ?s" by simp
    next
      assume "sl_candidate_ids p = sn_candidate_ids ?s"
      then have "?olds = [0..<n]"
        using n(2) by (intro nth_equalityI) (simp_all add: n_def first_index_nth)
      then show "moved_count 0 ?olds = 0" using moved_count_0_iff [of 0 ?olds] ap(3) by simp
    qed
    have "plan_apply H p a = Some (reordered ?olds ?cs, Inr (SY_Applied (moved_count 0 ?olds)))"
      using adm False r ap(1) by (simp add: plan_apply_def)
    from applied [OF adm False this ap(2) ap(4) same] show ?thesis .
  qed
qed

section \<open>Resolution\<close>

definition semantic_sound :: "quality_engine \<Rightarrow> bool" where
  "semantic_sound e \<longleftrightarrow> lru_cache.sound (en_semantic_limit e)
     (\<lambda>k p. sn_cache_key (sl_snapshot p) = k \<and> plan_ok p) (en_semantic e)"

lemma semantic_sound_new: "semantic_sound (engine_new c)"
  by (simp add: semantic_sound_def lru_cache.sound_def engine_new_def Let_def cache_wf_def)

text \<open>The semantic cache as a step: the hit and the engine with the entry moved to the end.\<close>

lemma cached_semantic_ok:
  assumes "engine_ok e" "semantic_sound e"
  obtains hit e1 where "cached_semantic_rerank s e = (hit, e1)" "engine_ok e1" "semantic_sound e1"
    "hit = map_of (en_semantic e) (sn_cache_key s)" "en_config e1 = en_config e"
    "map_of (en_semantic e1) = map_of (en_semantic e)"
    "\<And>p. hit = Some p \<Longrightarrow> plan_ok p \<and> sn_cache_key (sl_snapshot p) = sn_cache_key s"
proof -
  let ?r = "lookup_cache (sn_cache_key s) (en_semantic e)"
  let ?e1 = "e\<lparr>en_semantic := snd ?r\<rparr>"
  have wf: "cache_wf (en_semantic_limit e) (en_semantic e)" using assms(1) by (simp add: engine_ok_def)
  have hit: "fst ?r = map_of (en_semantic e) (sn_cache_key s)" by (rule lru_cache.lookup_value [OF wf])
  have p: "plan_ok p \<and> sn_cache_key (sl_snapshot p) = sn_cache_key s" if "fst ?r = Some p" for p
    using lru_cache.sound_hit [OF assms(2) [unfolded semantic_sound_def] that] by blast
  have "cached_semantic_rerank s e = (map_of (en_semantic e) (sn_cache_key s), ?e1)"
    using p by (auto simp: cached_semantic_rerank_def case_prod_unfold hit split: option.split)
  moreover have "engine_ok ?e1" using assms(1) lookup_cache_wf [OF wf] by (simp add: engine_ok_def)
  moreover have "semantic_sound ?e1"
    using lru_cache.sound_lookup assms(2) by (simp add: semantic_sound_def)
  moreover have "map_of (en_semantic ?e1) = map_of (en_semantic e)"
    using lru_cache.lookup_entry [OF wf] by simp
  ultimately show thesis using that p hit by fastforce
qed

lemma applied_resolution_iff [simp]:
  "applied_resolution r = SR_Applied k \<longleftrightarrow> r = Inr (SY_Applied k)"
  by (cases r rule: applied_resolution.cases) auto

text \<open>What one resolution does, with a cached plan or without.\<close>

lemma resolve_ok:
  assumes e: "engine_ok e" "semantic_sound e" and s: "snapshot_ok s"
  obtains (kept) e' r where "resolve_semantic_rerank H s a result e = Some (e', sm_candidates a, r)"
      "\<not> resolution_is_applied r" "engine_ok e'" "semantic_sound e'"
  | (adopted) e' cs' changed p where
      "resolve_semantic_rerank H s a result e = Some (e', cs', SR_Applied changed)" "engine_ok e'" "semantic_sound e'"
      "plan_ok p" "sn_cache_key (sl_snapshot p) = sn_cache_key s" "check_admission H (sl_snapshot p) a = Inr ()"
      "sl_candidate_ids p \<noteq> []"
      "bounded_reorder (length (sn_candidate_ids (sl_snapshot p))) (sn_max_rank_shift (sl_snapshot p)) (sm_candidates a) cs'"
      "map pc_id (take (length (sn_candidate_ids (sl_snapshot p))) cs') = sl_candidate_ids p"
      "changed = 0 \<longleftrightarrow> sl_candidate_ids p = sn_candidate_ids (sl_snapshot p)"
      "map_of (en_semantic e) (sn_cache_key s) = Some p \<and> map_of (en_semantic e') (sn_cache_key s) = Some p \<or>
       map_of (en_semantic e) (sn_cache_key s) = None \<and> sl_snapshot p = s \<and>
       (\<exists>d. result = Inr d \<and> validate_semantic_rerank H d s a = Inr p) \<and>
       map_of (en_semantic e') (sn_cache_key s) \<in> {Some p, None}"
proof -
  obtain hit e1 where c: "cached_semantic_rerank s e = (hit, e1)" and e1: "engine_ok e1" "semantic_sound e1"
    and hit: "hit = map_of (en_semantic e) (sn_cache_key s)" and cfg: "en_config e1 = en_config e" and keep: "map_of (en_semantic e1) = map_of (en_semantic e)"
    and p: "\<And>p. hit = Some p \<Longrightarrow> plan_ok p \<and> sn_cache_key (sl_snapshot p) = sn_cache_key s"
    by (rule cached_semantic_ok [OF e, of s]) blast
  show thesis
  proof (cases hit)
    case (Some plan)
    then have plan: "plan_ok plan" "sn_cache_key (sl_snapshot plan) = sn_cache_key s" using p by simp_all
    have eq: "resolve_semantic_rerank H s a result e =
        map_option (\<lambda>(candidates, r). (e1, candidates, applied_resolution r)) (plan_apply H plan a)"
      using Some by (simp add: resolve_semantic_rerank_def c)
    from plan(1) show ?thesis
    proof (cases rule: plan_apply_ok [where H = H and a = a])
      case (refused r)
      show ?thesis by (rule kept [of e1 "SR_Rejected r"]) (simp_all add: eq refused e1)
    next
      case abstained
      show ?thesis by (rule kept [of e1 SR_Abstained]) (simp_all add: eq abstained e1)
    next
      case (applied cs' changed)
      show ?thesis
        by (rule adopted [of e1 cs' changed plan]) (use applied plan Some hit in \<open>simp_all add: eq e1 keep\<close>)
    qed
  next
    case None
    show ?thesis
    proof (cases result)
      case (Inl err)
      show ?thesis
        by (rule kept [of e1 "SR_Fallback err"]) (simp_all add: resolve_semantic_rerank_def c None Inl e1)
    next
      case (Inr d)
      show ?thesis
      proof (cases "validate_semantic_rerank H d s a")
        case (Inl r)
        show ?thesis
          by (rule kept [of e1 "SR_Rejected r"])
            (simp_all add: resolve_semantic_rerank_def c None \<open>result = Inr d\<close> Inl e1)
      next
        case (Inr plan)
        note v = validate_plan [OF s Inr]
        let ?e2 = "e1\<lparr>en_semantic := insert_cache (en_semantic_limit e1) (sn_cache_key s) plan (en_semantic e1)\<rparr>"
        have wf: "cache_wf (en_semantic_limit e1) (en_semantic e1)" using e1 by (simp add: engine_ok_def)
        have e2: "engine_ok ?e2" "semantic_sound ?e2"
          using e1 v(1,2) insert_cache_wf [OF wf] lru_cache.sound_insert [OF e1(2) [unfolded semantic_sound_def], where k = "sn_cache_key s" and v = plan]
          by (simp_all add: engine_ok_def semantic_sound_def)
        have eq: "resolve_semantic_rerank H s a result e = (case plan_apply H plan a of
              None \<Rightarrow> None
            | Some (candidates, Inl r) \<Rightarrow> Some (e1, candidates, SR_Rejected r)
            | Some (candidates, Inr ap) \<Rightarrow> Some (?e2, candidates, applied_resolution (Inr ap)))"
          by (simp add: resolve_semantic_rerank_def c None \<open>result = Inr d\<close> Inr)
        from v(1) show ?thesis
        proof (cases rule: plan_apply_ok [where H = H and a = a])
          case (refused r)
          then show ?thesis using v(2,4) by simp
        next
          case abstained
          show ?thesis by (rule kept [of ?e2 SR_Abstained]) (simp_all add: eq abstained e2)
        next
          case (applied cs' changed)
          have "map_of (en_semantic ?e2) (sn_cache_key s) \<in> {Some plan, None}"
            using insert_cache_entry [OF wf, where k = "sn_cache_key s" and v = plan and j = "sn_cache_key s"] by simp
          moreover have "resolve_semantic_rerank H s a result e = Some (?e2, cs', SR_Applied changed)"
            by (simp add: eq applied)
          ultimately show ?thesis
            using applied v(1,2) None hit \<open>result = Inr d\<close> Inr
            by (intro adopted [of ?e2 cs' changed plan]) (simp_all add: e2)
        qed
      qed
    qed
  qed
qed

section \<open>Properties\<close>


text \<open>
  A semantic decision is adopted at most once: after an adoption that moved a candidate,
  resolving the same snapshot again on the slice it left, with any answer of the provider and
  whatever the session's state then is, adopts nothing and leaves that slice alone.
\<close>
theorem semantic_adopted_once:
  assumes "engine_ok e" "semantic_sound e" "snapshot_ok s"
    and "resolve_semantic_rerank H s a result e = Some (e', cs', SR_Applied changed)" "changed \<noteq> 0"
    and "sm_candidates a' = cs'"
  shows "\<exists>e'' r. resolve_semantic_rerank H s a' result' e' = Some (e'', cs', r) \<and> \<not> resolution_is_applied r"
proof (cases rule: resolve_ok [OF assms(1-3), where H = H and a = a and result = result])
  case (1 e1 r)
  with assms(4) show ?thesis by auto
next
  case (2 e1 cs1 changed1 p)
  have eq: "e1 = e'" "cs1 = cs'" "changed1 = changed" using 2(1) assms(4) by simp_all
  have e': "engine_ok e'" "semantic_sound e'" using 2 eq by simp_all
  show ?thesis
  proof (cases rule: resolve_ok [OF e' assms(3), where H = H and a = a' and result = result'])
    case (1 e2 r)
    with assms(6) show ?thesis by blast
  next
    case (2 e2 cs2 changed2 p')
    have "sl_snapshot p' = sl_snapshot p"
      using 2(11) \<open>map_of (en_semantic e) (sn_cache_key s) = Some p \<and> map_of (en_semantic e1) (sn_cache_key s) = Some p \<or> _\<close> eq
      by auto
    then have adm: "check_admission H (sl_snapshot p) a' = Inr ()" using 2(6) by simp
    have "length (sn_fingerprints (sl_snapshot p)) = length (sn_candidate_ids (sl_snapshot p))"
      using \<open>plan_ok p\<close> by (simp add: plan_ok_def snapshot_ok_def)
    with adm assms(6) have "map pc_id (take (length (sn_candidate_ids (sl_snapshot p))) cs') = sn_candidate_ids (sl_snapshot p)"
      by (simp add: check_admission_iff)
    with \<open>map pc_id (take (length (sn_candidate_ids (sl_snapshot p))) cs1) = sl_candidate_ids p\<close>
      \<open>changed1 = 0 \<longleftrightarrow> _\<close> eq assms(5) show ?thesis by simp
  qed
qed

section \<open>Witnesses\<close>

definition sample_snapshot :: semantic_snapshot where
  "sample_snapshot = \<lparr>sn_session_id = 1, sn_generation = 5, sn_tier = MT_Tiny, sn_model_revision = 0,
     sn_learning_version = 0, sn_input_revision = 9, sn_candidate_ids = [7, 8],
     sn_fingerprints = map (candidate_fingerprint_of sample_hash) sample_window, sn_max_rank_shift = 3,
     sn_uses_context = False, sn_cache_key = \<lparr>ck_primary = 9, ck_secondary = 9\<rparr>\<rparr>"

definition sample_admission :: semantic_admission where
  "sample_admission = \<lparr>sm_current_generation = Some 5, sm_current_model_revision = 0,
     sm_current_learning_version = 0, sm_candidates = sample_window\<rparr>"

definition sample_decision :: semantic_decision where
  "sample_decision = \<lparr>sd_action = SA_Rerank, sd_candidate_ids = [8, 7], sd_patch = None, sd_confidence = F1,
     sd_reason = SE_DomainTerm, sd_model_tier = MT_Tiny, sd_expires_at_generation = 5, sd_input_revision = 9,
     sd_model_revision = 0, sd_learning_version = 0\<rparr>"

lemma sample_snapshot_ok: "snapshot_ok sample_snapshot"
  by (simp add: snapshot_ok_def sample_snapshot_def sample_window_def quality_bounds)

lemma sample_ids: "pc_id (order_sample 7) = 7" "pc_id ((order_sample 8)\<lparr>pc_score := F8\<rparr>) = 8"
  by (simp_all add: pc_id_def order_sample_def)

lemma sample_adopted:
  "\<exists>e'. resolve_semantic_rerank sample_hash sample_snapshot sample_admission (Inr sample_decision) sample_engine =
     Some (e', rev sample_window, SR_Applied 2)"
proof -
  have conf: "is_finite F1" "float_le F0 F1" "float_le F1 F1" "\<not> float_less F1 F0_75"
    by (simp_all add: is_finite_def float_le_def float_less_def is_nan_def float_value_def float_negative_def
        float_magnitude_def float_infinity_def F0_def F1_def F0_75_def mask_eq_exp_minus_1)
  have adm: "check_admission sample_hash sample_snapshot sample_admission = Inr ()"
    by (simp add: check_admission_def matches_candidates_def sample_snapshot_def sample_admission_def sample_window_def
        sample_ids upt_rec)
  have "mset [8, 7 :: i32] = mset [7, 8]" by simp
  moreover have "\<forall>i < 2. abs_diff (first_index [7, 8] ([8, 7 :: i32] ! i)) i \<le> 3"
    by (auto simp: less_2_cases_iff first_index_def abs_diff_def)
  ultimately have res: "resolve_order [8, 7] [7, 8] 3 = Inr (resolved_order [7, 8] [8, 7])"
    by (simp add: resolve_order_iff MAX_LOCAL_QUALITY_CANDIDATES_def admissible_order_def)
  have ap: "apply_index_order sample_window (resolved_order [7, 8] [8, 7]) = Some (rev sample_window, Inr 2)"
    using apply_resolved(1) [OF _ _ _ _ res, of 2 sample_window]
    by (simp add: sample_window_def sample_ids MAX_LOCAL_QUALITY_CANDIDATES_def first_index_def reordered_def)
  have fields: "sn_tier sample_snapshot = MT_Tiny" "sn_generation sample_snapshot = 5" "sn_input_revision sample_snapshot = 9"
    "sn_model_revision sample_snapshot = 0" "sn_learning_version sample_snapshot = 0"
    "sn_candidate_ids sample_snapshot = [7, 8]" "sn_max_rank_shift sample_snapshot = 3"
    by (simp_all add: sample_snapshot_def)
  let ?plan = "\<lparr>sl_snapshot = sample_snapshot, sl_candidate_ids = [8, 7],
    sl_changed_positions = ix_changed (resolved_order [7, 8] [8, 7])\<rparr>"
  have val: "validate_semantic_rerank sample_hash sample_decision sample_snapshot sample_admission = Inr ?plan"
    by (simp add: validate_semantic_rerank_def adm fields sample_decision_def conf MIN_SEMANTIC_RERANK_CONFIDENCE_def res)
  have pl: "plan_apply sample_hash ?plan sample_admission = Some (rev sample_window, Inr (SY_Applied 2))"
    by (simp add: plan_apply_def adm fields res) (simp add: sample_admission_def ap)
  have cached: "cached_semantic_rerank sample_snapshot sample_engine = (None, sample_engine)"
    by (simp add: cached_semantic_rerank_def sample_engine_def engine_new_def Let_def lookup_cache_def)
  show ?thesis by (simp add: resolve_semantic_rerank_def cached val pl)
qed

lemma sample_semantic_sound: "semantic_sound sample_engine"
  by (simp add: sample_engine_def semantic_sound_new)

lemma sample_fallback:
  "resolve_semantic_rerank sample_hash sample_snapshot sample_admission (Inl SP_TimedOut) sample_engine =
     Some (sample_engine, sample_window, SR_Fallback SP_TimedOut)"
  by (simp add: resolve_semantic_rerank_def sample_engine_def engine_new_def Let_def cached_semantic_rerank_def
      lookup_cache_def sample_admission_def)


lemma semantic_adopted_once_witness:
  "\<exists>e' e'' r. resolve_semantic_rerank sample_hash sample_snapshot sample_admission (Inr sample_decision) sample_engine =
       Some (e', rev sample_window, SR_Applied 2) \<and>
     resolve_semantic_rerank sample_hash sample_snapshot (sample_admission\<lparr>sm_candidates := rev sample_window\<rparr>)
       (Inr sample_decision) e' = Some (e'', rev sample_window, r) \<and> \<not> resolution_is_applied r"
proof -
  obtain e' where e': "resolve_semantic_rerank sample_hash sample_snapshot sample_admission (Inr sample_decision) sample_engine =
      Some (e', rev sample_window, SR_Applied 2)" using sample_adopted by blast
  from semantic_adopted_once [OF sample_engine_ok sample_semantic_sound sample_snapshot_ok e', of "sample_admission\<lparr>sm_candidates := rev sample_window\<rparr>" "Inr sample_decision"]
  show ?thesis using e' by auto
qed

end
