(* ===== verification/Pipeline_Correct.thy ===== *)
theory Pipeline_Correct
  imports Pipeline Learning_Correct Semantic_Rerank_Correct
begin

text \<open>
  The pipeline end to end: conversion shows the provider's candidates in a bounded reordering
  with the focus on the same candidate, no text leaves the fast path against the data policy,
  and the semantic stage only reorders and annotates, for the current generation only.
\<close>

section \<open>Focus\<close>

lemma position_Some:
  "position P xs = Some i \<Longrightarrow> i < length xs \<and> P (xs ! i)"
  by (induction xs arbitrary: i) (auto split: if_splits)

lemma position_None: "position P xs = None \<longleftrightarrow> (\<forall>x \<in> set xs. \<not> P x)"
  by (induction xs) (auto split: if_splits)

text \<open>The focus follows its id through any reordering.\<close>

lemma refocus_follows:
  assumes "mset (map pc_id ys) = mset (map pc_id xs)" "focused = Some i" "i < length xs"
  obtains j where "refocus ys (focus_of xs focused) = Some j" "j < length ys" "pc_id (ys ! j) = pc_id (xs ! i)"
proof -
  have "pc_id (xs ! i) \<in> set (map pc_id xs)" using assms(3) by simp
  then have "pc_id (xs ! i) \<in> set (map pc_id ys)" using mset_eq_setD [OF assms(1)] by simp
  then obtain j where "position (\<lambda>c. pc_id c = pc_id (xs ! i)) ys = Some j"
    by (cases "position (\<lambda>c. pc_id c = pc_id (xs ! i)) ys") (auto simp: position_None)
  with position_Some [OF this] that assms(2,3) show thesis
    by (auto simp: refocus_def focus_of_def id_at_def)
qed

text \<open>A bounded reordering of a prefix is one of any longer prefix and any larger bound.\<close>

lemma bounded_reorder_mono:
  assumes "bounded_reorder n m xs ys" "n \<le> k" "m \<le> l" "n \<le> length xs"
  shows "bounded_reorder k l xs ys"
proof -
  have len: "length ys = length xs" using assms(1) mset_eq_length unfolding bounded_reorder_def by blast
  have d: "drop n ys = drop n xs" using assms(1) by (simp add: bounded_reorder_def)
  have "\<exists>j < k. ys ! i = xs ! j \<and> abs_diff j i \<le> l" if "i < k" for i
  proof (cases "i < n")
    case True
    then obtain j where "j < n" "ys ! i = xs ! j" "abs_diff j i \<le> m" using assms(1) by (auto simp: bounded_reorder_def)
    then show ?thesis using assms(2,3) by (intro exI [of _ j]) simp
  next
    case False
    then have "ys ! i = xs ! i" using arg_cong [OF d, of "\<lambda>zs. zs ! (i - n)"] assms(4) len by simp
    then show ?thesis using that by (intro exI [of _ i]) (simp add: abs_diff_def)
  qed
  moreover have "drop k ys = drop k xs" using arg_cong [OF d, of "drop (k - n)"] assms(2) by simp
  ultimately show ?thesis using assms(1) by (simp add: bounded_reorder_def)
qed

section \<open>The fast path\<close>

lemma rank_result_safe:
  assumes "engine_ok (pl_quality p)"
  obtains p' out where "rank_result F H expired elapsed result request session cs p = Some (p', out)"
    "engine_ok (pl_quality p')" "en_config (pl_quality p') = en_config (pl_quality p)"
    "en_semantic (pl_quality p') = en_semantic (pl_quality p)"
    "ou_baseline out = take (min (cn_limit request) MAX_PIPELINE_CANDIDATES) cs"
    "bounded_reorder (fast_evaluated (pl_quality p) (ou_baseline out))
       (lc_max_rank_shift (en_config (pl_quality p))) (ou_baseline out) (ou_candidates out)"
    "used_baseline (ou_fast_rank out) \<longrightarrow> ou_candidates out = ou_baseline out"
    "ou_focused_index out = refocus (ou_candidates out) (focus_of (ou_baseline out) (cv_focused_index result))"
    "ou_context out = pipeline_context p request" "ou_session out = session" "ou_result out = result"
proof -
  let ?base = "take (min (cn_limit request) MAX_PIPELINE_CANDIDATES) cs"
  obtain e' cs' oc where r: "rank_fast F H expired elapsed ?base
        (session_request session (pn_current_generation session) (cv_reading result) (pipeline_context p request))
        (pl_quality p) = Some (e', cs', oc)"
    "engine_ok e'" "en_config e' = en_config (pl_quality p)" "en_semantic e' = en_semantic (pl_quality p)"
    "bounded_reorder (fast_evaluated (pl_quality p) ?base) (lc_max_rank_shift (en_config (pl_quality p))) ?base cs'"
    "used_baseline oc \<longrightarrow> cs' = ?base"
    by (rule rank_fast_safe [OF assms, of F H expired elapsed ?base]) blast
  show thesis
    by (rule that [of "p\<lparr>pl_quality := e'\<rparr>" "\<lparr>ou_result = result, ou_baseline = ?base, ou_candidates = cs',
        ou_focused_index = refocus cs' (focus_of ?base (cv_focused_index result)),
        ou_context = pipeline_context p request, ou_fast_rank = oc, ou_session = session\<rparr>"])
      (use r in \<open>simp_all add: rank_result_def Let_def\<close>)
qed

lemma extract_candidates_nth:
  "length (extract_candidates F result limit) = min (min limit MAX_PIPELINE_CANDIDATES) (length (cv_candidates result))"
  "i < length (extract_candidates F result limit) \<Longrightarrow>
     pc_candidate (extract_candidates F result limit ! i) = cv_candidates result ! i"
  by (auto simp: extract_candidates_def Let_def personalize_baseline_candidate_def)

text \<open>What the user sees of a candidate, and its identity.\<close>

definition candidate_face :: "conversion_candidate \<Rightarrow> i32 \<times> rstr \<times> rstr option" where
  "candidate_face c = (cd_id c, cd_text c, cd_reading c)"

lemma personalize_faces:
  "map (candidate_face \<circ> pc_candidate) (personalize_ordered F lower s cs reading before now) = map candidate_face cs"
  by (intro nth_equalityI) (simp_all add: personalize_ordered_def personalize_from_nth candidate_face_def)

lemma extract_faces:
  "map (candidate_face \<circ> pc_candidate) (extract_candidates F result limit) =
     map candidate_face (take (min limit MAX_PIPELINE_CANDIDATES) (cv_candidates result))"
  by (intro nth_equalityI) (simp_all add: extract_candidates_nth)

lemma face_id: "map (candidate_face \<circ> pc_candidate) xs = map (candidate_face \<circ> pc_candidate) ys \<Longrightarrow> map pc_id xs = map pc_id ys"
  by (auto simp: list_eq_iff_nth_eq candidate_face_def pc_id_def)

lemma convert_fast_safe:
  assumes "engine_ok (pl_quality p)" "convert request = Inr result"
  obtains p' out where "convert_fast F H lower expired elapsed convert request session learning now p = Some (p', Inr out)"
    "engine_ok (pl_quality p')" "en_config (pl_quality p') = en_config (pl_quality p)"
    "en_semantic (pl_quality p') = en_semantic (pl_quality p)"
    "map (candidate_face \<circ> pc_candidate) (ou_baseline out) =
       map candidate_face (take (min (cn_limit request) MAX_PIPELINE_CANDIDATES) (cv_candidates result))"
    "bounded_reorder (fast_evaluated (pl_quality p) (ou_baseline out))
       (lc_max_rank_shift (en_config (pl_quality p))) (ou_baseline out) (ou_candidates out)"
    "used_baseline (ou_fast_rank out) \<longrightarrow> ou_candidates out = ou_baseline out"
    "ou_focused_index out = refocus (ou_candidates out) (focus_of (ou_baseline out) (cv_focused_index result))"
    "ou_context out = pipeline_context p request" "ou_session out = session" "ou_result out = result"
proof -
  let ?cs = "case learning of
      Some s \<Rightarrow> personalize_ordered F lower s (cv_candidates result) (cv_reading result) (ec_before (pipeline_context p request)) now
    | None \<Rightarrow> extract_candidates F result (cn_limit request)"
  let ?n = "min (cn_limit request) MAX_PIPELINE_CANDIDATES"
  have faces: "map (candidate_face \<circ> pc_candidate) (take ?n ?cs) = map candidate_face (take ?n (cv_candidates result))"
  proof (cases learning)
    case None
    then show ?thesis using arg_cong [OF extract_faces [of F result "cn_limit request"], of "take ?n"] by (simp add: take_map)
  next
    case (Some s)
    then show ?thesis
      using arg_cong [OF personalize_faces [of F lower s "cv_candidates result"], of "take ?n"] by (simp add: take_map)
  qed
  from assms(1) show thesis
  proof (rule rank_result_safe [where F = F and H = H and expired = expired and elapsed = elapsed and result = result
        and request = request and session = session and cs = ?cs])
    fix p' out
    assume r: "rank_result F H expired elapsed result request session ?cs p = Some (p', out)"
      and b: "ou_baseline out = take ?n ?cs"
      and rest: "engine_ok (pl_quality p')" "en_config (pl_quality p') = en_config (pl_quality p)"
        "en_semantic (pl_quality p') = en_semantic (pl_quality p)"
        "bounded_reorder (fast_evaluated (pl_quality p) (ou_baseline out))
          (lc_max_rank_shift (en_config (pl_quality p))) (ou_baseline out) (ou_candidates out)"
        "used_baseline (ou_fast_rank out) \<longrightarrow> ou_candidates out = ou_baseline out"
        "ou_focused_index out = refocus (ou_candidates out) (focus_of (ou_baseline out) (cv_focused_index result))"
        "ou_context out = pipeline_context p request" "ou_session out = session" "ou_result out = result"
    have "convert_fast F H lower expired elapsed convert request session learning now p = Some (p', Inr out)"
      using r by (simp add: convert_fast_def assms(2) Let_def)
    with rest faces show thesis by (intro that [of p' out]) (simp_all add: b)
  qed
qed

text \<open>
  C15. Converting is safe end to end, with any provider, learning state, hash and clock: a
  provider error is passed on and changes nothing; otherwise conversion returns, and what it
  shows are the provider's first candidates, as many as the request asks for and at most thirty,
  with their ids, texts and readings, in an order in which none has moved more than three places
  (and in the provider's order whenever the ranking reports a fallback); the focus stays on
  the candidate the provider focused.
\<close>
theorem conversion_safe:
  assumes "engine_ok (pl_quality p)"
  shows "(case convert request of
      Inl e \<Rightarrow> convert_fast F H lower expired elapsed convert request session learning now p = Some (p, Inl e)
    | Inr result \<Rightarrow>
        (\<exists>p' out. convert_fast F H lower expired elapsed convert request session learning now p = Some (p', Inr out) \<and>
          engine_ok (pl_quality p') \<and>
          map (candidate_face \<circ> pc_candidate) (ou_baseline out) =
            map candidate_face (take (min (cn_limit request) 30) (cv_candidates result)) \<and>
          bounded_reorder 9 3 (ou_baseline out) (ou_candidates out) \<and>
          (used_baseline (ou_fast_rank out) \<longrightarrow> ou_candidates out = ou_baseline out) \<and>
          (\<forall>i. cv_focused_index result = Some i \<and> i < length (ou_baseline out) \<longrightarrow>
             (\<exists>j. ou_focused_index out = Some j \<and> pc_id (ou_candidates out ! j) = pc_id (ou_baseline out ! i)))))"
proof (cases "convert request")
  case (Inl e)
  then show ?thesis by (simp add: convert_fast_def)
next
  case (Inr result)
  from assms Inr show ?thesis
  proof (rule convert_fast_safe [where F = F and H = H and lower = lower and expired = expired and elapsed = elapsed
        and session = session and learning = learning and now = now])
    fix p' and out :: fast_output
    let ?base = "ou_baseline out" and ?n = "fast_evaluated (pl_quality p) (ou_baseline out)"
    assume r: "convert_fast F H lower expired elapsed convert request session learning now p = Some (p', Inr out)"
      "engine_ok (pl_quality p')"
      and faces: "map (candidate_face \<circ> pc_candidate) ?base =
        map candidate_face (take (min (cn_limit request) MAX_PIPELINE_CANDIDATES) (cv_candidates result))"
      and b: "bounded_reorder ?n (lc_max_rank_shift (en_config (pl_quality p))) ?base (ou_candidates out)"
      and u: "used_baseline (ou_fast_rank out) \<longrightarrow> ou_candidates out = ?base"
      and foc: "ou_focused_index out = refocus (ou_candidates out) (focus_of ?base (cv_focused_index result))"
    have "bounded_reorder 9 3 ?base (ou_candidates out)"
      by (rule bounded_reorder_mono [OF b])
        (use fast_evaluated_le [OF assms, of ?base] assms in \<open>simp_all add: quality_bounds engine_ok_def config_ok_def\<close>)
    moreover have "mset (ou_candidates out) = mset ?base" using b by (simp add: bounded_reorder_def)
    then have "mset (map pc_id (ou_candidates out)) = mset (map pc_id ?base)" by simp
    then have "\<exists>j. ou_focused_index out = Some j \<and> pc_id (ou_candidates out ! j) = pc_id (?base ! i)"
      if "cv_focused_index result = Some i" "i < length ?base" for i
      using refocus_follows [of "ou_candidates out" ?base "cv_focused_index result" i] that foc by metis
    ultimately show ?thesis using r faces u
      unfolding Inr by (auto simp: MAX_PIPELINE_CANDIDATES_def)
  qed
qed

section \<open>The semantic input\<close>

lemma validate_semantic_input_ok:
  assumes "validate_semantic_input i = Inr ()"
  shows "si_session_id i \<noteq> 0" "si_reading i \<noteq> []" "length (si_reading i) \<le> 64" "\<not> has_control (si_reading i)"
    "length (si_context_before i) + length (si_context_after i) \<le> 32"
    "\<not> has_control (si_context_before i)" "\<not> has_control (si_context_after i)"
    "2 \<le> length (si_candidates i)" "length (si_candidates i) \<le> 9"
  using assms
  by (auto simp: validate_semantic_input_def pl_valid_text_def pl_valid_optional_text_def PL_MAX_READING_CHARS_def
      MAX_LOCAL_QUALITY_CONTEXT_CHARS_def MAX_SEMANTIC_CANDIDATES_def MAX_LOCAL_QUALITY_CANDIDATES_def split: if_splits)

lemma prepare_ok:
  assumes "engine_ok (pl_quality p)" "prepare_semantic_rerank H out current p = Inr ticket"
  shows "snapshot_ok (tk_snapshot ticket)" "validate_semantic_input (tk_input ticket) = Inr ()"
    "si_context_before (tk_input ticket) = ec_before (ou_context out)"
    "si_context_after (tk_input ticket) = ec_after (ou_context out)"
    "si_generation (tk_input ticket) = sn_generation (tk_snapshot ticket)"
    "si_input_revision (tk_input ticket) = sn_input_revision (tk_snapshot ticket)"
    "map se_id (si_candidates (tk_input ticket)) = sn_candidate_ids (tk_snapshot ticket)"
    "lc_data_policy (en_config (pl_quality p)) \<noteq> DP_MozcBaseline" "pn_tier (ou_session out) \<noteq> MT_MozcOnly"
    "pn_current_generation current = Some (sn_generation (tk_snapshot ticket))"
    "pn_generation (ou_session out) = sn_generation (tk_snapshot ticket)"
  using assms capture_snapshot [OF assms(1), of H
      "session_request (ou_session out) (pn_current_generation current) (cv_reading (ou_result out)) (ou_context out)"
      "ou_candidates out" "tk_snapshot ticket"]
  by (auto simp: prepare_semantic_rerank_def Let_def bind_result_Inr_iff session_request_def comp_def take_map
      split: if_splits)


section \<open>Witnesses\<close>

definition sample_pipeline :: candidate_pipeline where
  "sample_pipeline = \<lparr>pl_quality = sample_engine, pl_semantic_deadline = DEFAULT_PIPELINE_SEMANTIC_DEADLINE\<rparr>"

definition sample_conversion :: conversion_result where
  "sample_conversion = \<lparr>cv_provider = lit ''mozc'', cv_reading = lit ''kana'', cv_preedit = lit ''kana'',
     cv_segments = [], cv_candidates = map pc_candidate sample_window, cv_focused_index = Some 1, cv_consumed = True,
     cv_elapsed = 0\<rparr>"

definition sample_conversion_request :: conversion_request where
  "sample_conversion_request = conversion_request_new (lit ''kana'')"

definition sample_session :: pipeline_session where
  "sample_session = pipeline_session_new 1 5 MT_Tiny"

lemma conversion_safe_witness:
  "\<exists>p' out. convert_fast sample_floats sample_hash id (\<lambda>_. False) 3 (\<lambda>_. Inr sample_conversion)
      sample_conversion_request sample_session None 0 sample_pipeline = Some (p', Inr out) \<and>
    (\<exists>j. ou_focused_index out = Some j \<and> pc_id (ou_candidates out ! j) = 8)"
proof -
  have ok: "engine_ok (pl_quality sample_pipeline)" by (simp add: sample_pipeline_def sample_engine_ok)
  obtain p' out where r: "convert_fast sample_floats sample_hash id (\<lambda>_. False) 3 (\<lambda>_. Inr sample_conversion)
      sample_conversion_request sample_session None 0 sample_pipeline = Some (p', Inr out)"
    and faces: "map (candidate_face \<circ> pc_candidate) (ou_baseline out) =
      map candidate_face (take (min (cn_limit sample_conversion_request) 30) (cv_candidates sample_conversion))"
    and foc: "\<forall>i. cv_focused_index sample_conversion = Some i \<and> i < length (ou_baseline out) \<longrightarrow>
      (\<exists>j. ou_focused_index out = Some j \<and> pc_id (ou_candidates out ! j) = pc_id (ou_baseline out ! i))"
    using conversion_safe [OF ok, of sample_floats sample_hash id "\<lambda>_. False" 3
        "\<lambda>_. Inr sample_conversion" sample_conversion_request sample_session None 0] by auto
  have f: "map (candidate_face \<circ> pc_candidate) (ou_baseline out) = map (candidate_face \<circ> pc_candidate) sample_window"
    using faces by (simp add: sample_conversion_request_def conversion_request_new_def default_limit_def sample_conversion_def sample_window_def)
  then have "length (ou_baseline out) = 2" using map_eq_imp_length_eq [OF f] by (simp add: sample_window_def)
  moreover have "pc_id (ou_baseline out ! 1) = 8"
    using face_id [OF f] sample_ids \<open>length (ou_baseline out) = 2\<close>
    by (auto simp: sample_window_def list_eq_iff_nth_eq)
  ultimately show ?thesis using r foc by (simp add: sample_conversion_def)
qed

end
