(* ===== verification/Pipeline_Semantic.thy ===== *)
theory Pipeline_Semantic
  imports Pipeline_Correct
begin

text \<open>
  The semantic stage of the pipeline: it always returns, only reorders and annotates, acts for
  the ticket's session state only, and a stored decision decides alone.
\<close>

section \<open>Annotation\<close>

lemma mark_face [simp]: "candidate_face (pc_candidate (mark_semantic_rerank F m c)) = candidate_face (pc_candidate c)"
  by (simp add: mark_semantic_rerank_def Let_def candidate_face_def)

lemma mark_explanation: "length (pc_explanation (mark_semantic_rerank F m c)) \<le> 240"
  by (simp add: mark_semantic_rerank_def Let_def)

lemma mark_attribute: "SEMANTIC_ATTRIBUTE \<in> set (cd_attributes (pc_candidate (mark_semantic_rerank F m c)))"
  by (simp add: mark_semantic_rerank_def Let_def)

definition annotate :: "float_ops \<Rightarrow> (f64 \<times> semantic_reason) option \<Rightarrow> nat \<Rightarrow> personalized_candidate list \<Rightarrow> personalized_candidate list" where
  "annotate F m n cs = map (mark_semantic_rerank F m) (take n cs) @ drop n cs"

lemma annotate_faces: "map (candidate_face \<circ> pc_candidate) (annotate F m n cs) = map (candidate_face \<circ> pc_candidate) cs"
proof -
  have "map (candidate_face \<circ> pc_candidate) (annotate F m n cs) =
      map (candidate_face \<circ> pc_candidate) (take n cs @ drop n cs)"
    by (simp only: annotate_def map_append map_map) (simp add: comp_def)
  then show ?thesis by simp
qed

text \<open>What the stage does once the ticket matches, by the resolution.\<close>

definition marked :: "float_ops \<Rightarrow> (f64 \<times> semantic_reason) option \<Rightarrow> nat \<Rightarrow> semantic_resolution \<Rightarrow> personalized_candidate list \<Rightarrow> personalized_candidate list" where
  "marked F m n r cs = (case r of SR_Applied changed \<Rightarrow> if changed > 0 then annotate F m n cs else cs | _ \<Rightarrow> cs)"

definition answer_of :: "(semantic_provider_error + semantic_decision) option \<Rightarrow> semantic_provider_error + semantic_decision" where
  "answer_of a = (case a of None \<Rightarrow> Inl SP_TimedOut | Some result \<Rightarrow> result)"

definition metadata_of :: "semantic_provider_error + semantic_decision \<Rightarrow> (f64 \<times> semantic_reason) option" where
  "metadata_of result = (case result of Inl _ \<Rightarrow> None | Inr d \<Rightarrow> Some (sd_confidence d, sd_reason d))"

definition current_admission :: "pipeline_session \<Rightarrow> fast_output \<Rightarrow> semantic_admission" where
  "current_admission current out = \<lparr>sm_current_generation = pn_current_generation current,
     sm_current_model_revision = pn_model_revision current,
     sm_current_learning_version = pn_learning_version current, sm_candidates = ou_candidates out\<rparr>"

lemma marked_faces [simp]: "map (candidate_face \<circ> pc_candidate) (marked F m n r cs) = map (candidate_face \<circ> pc_candidate) cs"
  by (auto simp: marked_def annotate_faces split: semantic_resolution.split)

lemma apply_matched:
  fixes F :: float_ops
  assumes "ticket_mismatch ticket out current = None"
    and "resolve_semantic_rerank H (tk_snapshot ticket) (current_admission current out) (answer_of (rerank (tk_input ticket)))
      (pl_quality p) = Some (e', cs', r)"
  defines "m \<equiv> metadata_of (answer_of (rerank (tk_input ticket)))"
    and "cs'' \<equiv> marked F (metadata_of (answer_of (rerank (tk_input ticket)))) (length (sn_candidate_ids (tk_snapshot ticket))) r cs'"
  shows "apply_semantic_rerank_with_report F H ticket out current rerank p =
    Some (p\<lparr>pl_quality := e'\<rparr>,
      out\<lparr>ou_candidates := cs'', ou_focused_index := refocus cs'' (focus_of (ou_candidates out) (ou_focused_index out))\<rparr>,
      \<lparr>sr_resolution = r, sr_confidence = map_option fst m, sr_reason = map_option snd m\<rparr>)"
proof -
  have "(case r of SR_Applied changed \<Rightarrow>
        if changed > 0 then map (mark_semantic_rerank F x) (take n cs') @ drop n cs' else cs' | _ \<Rightarrow> cs') = marked F x n r cs'" for x n
    by (cases r) (simp_all add: marked_def annotate_def)
  with assms(1,2) show ?thesis
    by (simp add: apply_semantic_rerank_with_report_def Let_def m_def cs''_def current_admission_def
        answer_of_def [symmetric] metadata_of_def [symmetric])
qed

lemma refocus_faces:
  assumes "map (candidate_face \<circ> pc_candidate) xs = map (candidate_face \<circ> pc_candidate) ys"
  shows "refocus xs f = refocus ys f"
proof -
  have "map pc_id xs = map pc_id ys" by (rule face_id [OF assms])
  moreover have "position (\<lambda>c. pc_id c = i) zs = position (\<lambda>j. j = i) (map pc_id zs)" for i zs
    by (induction zs) auto
  ultimately show ?thesis by (simp add: refocus_def)
qed

lemma bounded_reorder_mset: "bounded_reorder n k xs ys \<Longrightarrow> mset ys = mset xs"
  by (simp add: bounded_reorder_def)

lemma marked_elements:
  assumes "c \<in> set (marked F m n r cs)"
  shows "c \<in> set cs \<or> length (pc_explanation c) \<le> 240 \<and> SEMANTIC_ATTRIBUTE \<in> set (cd_attributes (pc_candidate c))"
proof -
  have "c \<in> set cs \<or> (\<exists>d. c = mark_semantic_rerank F m d)"
    using assms by (auto simp: marked_def annotate_def dest: in_set_dropD split: semantic_resolution.splits if_splits)
  then show ?thesis using mark_explanation mark_attribute by blast
qed

text \<open>A resolution as a bounded reordering of the first nine candidates.\<close>

lemma resolve_bounded:
  assumes "engine_ok e" "semantic_sound e" "snapshot_ok s"
  obtains e' cs' r where "resolve_semantic_rerank H s a result e = Some (e', cs', r)" "engine_ok e'" "semantic_sound e'"
    "\<not> resolution_is_applied r \<longrightarrow> cs' = sm_candidates a" "bounded_reorder 9 3 (sm_candidates a) cs'"
proof (cases rule: resolve_ok [OF assms, where H = H and a = a and result = result])
  case (1 e' r)
  then show ?thesis using that by simp
next
  case (2 e' cs' changed p)
  have s: "snapshot_ok (sl_snapshot p)" using 2(4) by (simp add: plan_ok_def)
  have "bounded_reorder 9 3 (sm_candidates a) cs'"
    by (rule bounded_reorder_mono [OF 2(8)])
      (use s 2(6) in \<open>simp_all add: snapshot_ok_def quality_bounds check_admission_iff\<close>)
  then show ?thesis using that [of e' cs' "SR_Applied changed"] 2 by simp
qed

lemma cached_resolution:
  assumes "engine_ok e" "semantic_sound e" "map_of (en_semantic e) (sn_cache_key s) \<noteq> None"
  shows "resolve_semantic_rerank H s a result e = resolve_semantic_rerank H s a result' e"
proof -
  obtain hit e1 where c: "cached_semantic_rerank s e = (hit, e1)" "hit = map_of (en_semantic e) (sn_cache_key s)"
    by (rule cached_semantic_ok [OF assms(1,2), of s]) blast
  then show ?thesis using assms(3) by (auto simp: resolve_semantic_rerank_def)
qed

section \<open>The stage\<close>

lemma semantic_stage:
  assumes "engine_ok (pl_quality p)" "semantic_sound (pl_quality p)" "snapshot_ok (tk_snapshot ticket)"
  shows "\<exists>p' out' report. apply_semantic_rerank_with_report F H ticket out current rerank p = Some (p', out', report) \<and>
    engine_ok (pl_quality p') \<and> semantic_sound (pl_quality p') \<and>
    ou_baseline out' = ou_baseline out \<and> ou_result out' = ou_result out \<and> ou_session out' = ou_session out \<and>
    (\<not> resolution_is_applied (sr_resolution report) \<longrightarrow> ou_candidates out' = ou_candidates out) \<and>
    (resolution_is_applied (sr_resolution report) \<longrightarrow>
       pn_current_generation current = Some (sn_generation (tk_snapshot ticket)) \<and>
       pn_session_id current = sn_session_id (tk_snapshot ticket) \<and> pn_tier current = sn_tier (tk_snapshot ticket) \<and>
       pn_model_revision current = sn_model_revision (tk_snapshot ticket) \<and>
       pn_learning_version current = sn_learning_version (tk_snapshot ticket)) \<and>
    (\<exists>cs. bounded_reorder 9 3 (ou_candidates out) cs \<and>
       map (candidate_face \<circ> pc_candidate) (ou_candidates out') = map (candidate_face \<circ> pc_candidate) cs) \<and>
    (\<forall>c \<in> set (ou_candidates out'). c \<in> set (ou_candidates out) \<or>
       length (pc_explanation c) \<le> 240 \<and> SEMANTIC_ATTRIBUTE \<in> set (cd_attributes (pc_candidate c))) \<and>
    (\<forall>i. ou_focused_index out = Some i \<and> i < length (ou_candidates out) \<longrightarrow>
       (\<exists>j. ou_focused_index out' = Some j \<and> pc_id (ou_candidates out' ! j) = pc_id (ou_candidates out ! i)))"
proof (cases "ticket_mismatch ticket out current")
  case (Some r)
  then show ?thesis using assms(1,2) by (auto simp: apply_semantic_rerank_with_report_def report_from_resolution_def intro!: exI [of _ "ou_candidates out"])
next
  case None
  let ?s = "tk_snapshot ticket" and ?a = "current_admission current out" and ?result = "answer_of (rerank (tk_input ticket))"
  have cs: "sm_candidates ?a = ou_candidates out" by (simp add: current_admission_def)
  obtain e' cs' r where r: "resolve_semantic_rerank H ?s ?a ?result (pl_quality p) = Some (e', cs', r)"
    and e': "engine_ok e'" "semantic_sound e'" and kept: "\<not> resolution_is_applied r \<longrightarrow> cs' = ou_candidates out"
    and b: "bounded_reorder 9 3 (ou_candidates out) cs'"
    by (rule resolve_bounded [OF assms, of H ?a ?result]) (simp add: cs)
  let ?cs = "marked F (metadata_of ?result) (length (sn_candidate_ids ?s)) r cs'"
  let ?j = "refocus ?cs (focus_of (ou_candidates out) (ou_focused_index out))"
  note ap = apply_matched [where F = F and p = p and rerank = rerank, OF None r]
  have same: "?cs = ou_candidates out" if "\<not> resolution_is_applied r"
    using that kept by (cases r) (simp_all add: marked_def)
  have "mset (map pc_id ?cs) = mset (map pc_id (ou_candidates out))"
    using b face_id [OF marked_faces [of F "metadata_of ?result" "length (sn_candidate_ids ?s)" r cs']]
    by (simp add: bounded_reorder_def)
  then have foc: "\<exists>j. ?j = Some j \<and> pc_id (?cs ! j) = pc_id (ou_candidates out ! i)"
    if "ou_focused_index out = Some i" "i < length (ou_candidates out)" for i
    using refocus_follows [of ?cs "ou_candidates out" "ou_focused_index out" i] that by metis
  have "set cs' = set (ou_candidates out)" using b by (intro mset_eq_setD) (simp add: bounded_reorder_def)
  then have expl: "c \<in> set (ou_candidates out) \<or>
      length (pc_explanation c) \<le> 240 \<and> SEMANTIC_ATTRIBUTE \<in> set (cd_attributes (pc_candidate c))" if "c \<in> set ?cs" for c
    using marked_elements [OF that] by simp
  show ?thesis
    by (intro exI, rule conjI [OF ap])
      (use None e' b foc expl same in \<open>auto simp: ticket_mismatch_def Let_def intro!: exI [of _ cs'] split: if_splits\<close>)
qed

section \<open>Properties\<close>

text \<open>
  C13. The semantic stage is safe: with any provider answer, or none before the deadline, it
  returns. The candidates keep their ids, texts and readings as a multiset, those after the
  ninth keep their places, and nothing moves more than three places; the candidates are
  untouched unless the stage reports an adoption, and an adoption happens only while the
  session still has the ticket's generation, session, tier and revisions; every explanation
  the stage writes has at most 240 characters; and the focus stays on the same candidate id.
\<close>
theorem semantic_stage_safe:
  assumes "engine_ok (pl_quality p)" "semantic_sound (pl_quality p)" "snapshot_ok (tk_snapshot ticket)"
  shows "\<exists>p' out' report. apply_semantic_rerank_with_report F H ticket out current rerank p = Some (p', out', report) \<and>
    engine_ok (pl_quality p') \<and> semantic_sound (pl_quality p') \<and>
    ou_baseline out' = ou_baseline out \<and> ou_result out' = ou_result out \<and> ou_session out' = ou_session out \<and>
    (\<not> resolution_is_applied (sr_resolution report) \<longrightarrow> ou_candidates out' = ou_candidates out) \<and>
    (resolution_is_applied (sr_resolution report) \<longrightarrow>
       pn_current_generation current = Some (sn_generation (tk_snapshot ticket)) \<and>
       pn_session_id current = sn_session_id (tk_snapshot ticket) \<and> pn_tier current = sn_tier (tk_snapshot ticket) \<and>
       pn_model_revision current = sn_model_revision (tk_snapshot ticket) \<and>
       pn_learning_version current = sn_learning_version (tk_snapshot ticket)) \<and>
    (\<exists>cs. bounded_reorder 9 3 (ou_candidates out) cs \<and>
       map (candidate_face \<circ> pc_candidate) (ou_candidates out') = map (candidate_face \<circ> pc_candidate) cs) \<and>
    (\<forall>c \<in> set (ou_candidates out'). c \<in> set (ou_candidates out) \<or>
       length (pc_explanation c) \<le> 240 \<and> SEMANTIC_ATTRIBUTE \<in> set (cd_attributes (pc_candidate c))) \<and>
    (\<forall>i. ou_focused_index out = Some i \<and> i < length (ou_candidates out) \<longrightarrow>
       (\<exists>j. ou_focused_index out' = Some j \<and> pc_id (ou_candidates out' ! j) = pc_id (ou_candidates out ! i)))"
  by (rule semantic_stage [OF assms])

text \<open>
  C26. A stored decision decides alone. Once a decision is cached for a ticket's key, applying the
  ticket changes the cache, the resolution, the order of the candidates and the focus exactly as
  if the provider had not answered in time: its answer is not checked and moves nothing. Its
  confidence and reason are still what the report carries, although they belong to another
  answer than the one adopted.
\<close>
theorem stored_decision_decides:
  assumes "engine_ok (pl_quality p)" "semantic_sound (pl_quality p)" "snapshot_ok (tk_snapshot ticket)"
    and "ticket_mismatch ticket out current = None"
    and "map_of (en_semantic (pl_quality p)) (sn_cache_key (tk_snapshot ticket)) \<noteq> None"
  shows "\<exists>p' silent answered report.
    apply_semantic_rerank_with_report F H ticket out current (\<lambda>_. None) p =
      Some (p', silent, \<lparr>sr_resolution = report, sr_confidence = None, sr_reason = None\<rparr>) \<and>
    apply_semantic_rerank_with_report F H ticket out current (\<lambda>_. Some (Inr d)) p =
      Some (p', answered, \<lparr>sr_resolution = report, sr_confidence = Some (sd_confidence d), sr_reason = Some (sd_reason d)\<rparr>) \<and>
    map (candidate_face \<circ> pc_candidate) (ou_candidates answered) = map (candidate_face \<circ> pc_candidate) (ou_candidates silent) \<and>
    ou_focused_index answered = ou_focused_index silent"
proof -
  let ?s = "tk_snapshot ticket" and ?a = "current_admission current out"
  have same: "resolve_semantic_rerank H ?s ?a result (pl_quality p) = resolve_semantic_rerank H ?s ?a (Inl SP_TimedOut) (pl_quality p)"
    for result
    by (rule cached_resolution [OF assms(1,2,5)])
  obtain e' cs' r where r: "resolve_semantic_rerank H ?s ?a (Inl SP_TimedOut) (pl_quality p) = Some (e', cs', r)"
    by (rule resolve_bounded [OF assms(1-3), of H ?a "Inl SP_TimedOut"])
  have silent: "resolve_semantic_rerank H ?s ?a (answer_of ((\<lambda>_. None) (tk_input ticket))) (pl_quality p) = Some (e', cs', r)"
    and answered: "resolve_semantic_rerank H ?s ?a (answer_of ((\<lambda>_. Some (Inr d)) (tk_input ticket))) (pl_quality p) = Some (e', cs', r)"
    using r same [of "Inr d"] by (simp_all add: answer_of_def)
  have faces: "map (candidate_face \<circ> pc_candidate) (marked F m n r cs') = map (candidate_face \<circ> pc_candidate) (marked F m' n r cs')"
    for m m' n by simp
  show ?thesis
    using apply_matched [where F = F and p = p and rerank = "\<lambda>_. None", OF assms(4) silent]
      apply_matched [where F = F and p = p and rerank = "\<lambda>_. Some (Inr d)", OF assms(4) answered]
      faces refocus_faces [OF faces]
    by (simp add: answer_of_def metadata_of_def)
qed

section \<open>Witnesses\<close>

definition sample_ticket :: semantic_ticket where
  "sample_ticket = \<lparr>tk_snapshot = sample_snapshot, tk_input = \<lparr>si_session_id = 1, si_generation = 5, si_tier = MT_Tiny,
     si_model_revision = 0, si_learning_version = 0, si_input_revision = 9, si_reading = lit ''kana'',
     si_context_before = [], si_context_after = [], si_candidates = []\<rparr>\<rparr>"

definition sample_output :: fast_output where
  "sample_output = \<lparr>ou_result = sample_conversion, ou_baseline = sample_window, ou_candidates = sample_window,
     ou_focused_index = Some 0, ou_context = \<lparr>ec_before = [], ec_after = []\<rparr>,
     ou_fast_rank = fast_outcome sample_engine FR_Unchanged 0 2 0, ou_session = sample_session\<rparr>"

lemma sample_ticket_matches: "ticket_mismatch sample_ticket sample_output sample_session = None"
  by (simp add: ticket_mismatch_def Let_def sample_ticket_def sample_snapshot_def sample_output_def sample_session_def
      pipeline_session_new_def sample_window_def sample_ids)

lemma semantic_stage_safe_witness:
  "\<exists>p' out' report. apply_semantic_rerank_with_report sample_floats sample_hash sample_ticket sample_output sample_session
      (\<lambda>_. Some (Inr sample_decision)) sample_pipeline = Some (p', out', report) \<and>
    (\<exists>j. ou_focused_index out' = Some j \<and> pc_id (ou_candidates out' ! j) = 7)"
proof -
  have ok: "engine_ok (pl_quality sample_pipeline)" "semantic_sound (pl_quality sample_pipeline)"
    "snapshot_ok (tk_snapshot sample_ticket)"
    by (simp_all add: sample_pipeline_def sample_engine_ok sample_semantic_sound sample_ticket_def sample_snapshot_ok)
  have "ou_focused_index sample_output = Some 0" "0 < length (ou_candidates sample_output)"
    "pc_id (ou_candidates sample_output ! 0) = 7"
    by (simp_all add: sample_output_def sample_window_def sample_ids)
  then show ?thesis
    using semantic_stage_safe [OF ok, of sample_floats sample_hash sample_output sample_session "\<lambda>_. Some (Inr sample_decision)"]
    by metis
qed

definition cached_engine :: quality_engine where
  "cached_engine = sample_engine\<lparr>en_semantic := [(sn_cache_key sample_snapshot,
     \<lparr>sl_snapshot = sample_snapshot, sl_candidate_ids = [], sl_changed_positions = 0\<rparr>)]\<rparr>"

lemma stored_decision_decides_witness:
  "\<exists>p' silent report. apply_semantic_rerank_with_report sample_floats sample_hash sample_ticket sample_output sample_session
      (\<lambda>_. Some (Inr sample_decision)) (sample_pipeline\<lparr>pl_quality := cached_engine\<rparr>) =
    Some (p', silent, \<lparr>sr_resolution = report, sr_confidence = Some F1, sr_reason = Some SE_DomainTerm\<rparr>)"
proof -
  let ?p = "sample_pipeline\<lparr>pl_quality := cached_engine\<rparr>"
  have "en_semantic_limit sample_engine \<noteq> 0"
    by (simp add: sample_engine_def engine_new_def Let_def quality_config_new_def quality_bounds)
  then have "engine_ok (pl_quality ?p)" "semantic_sound (pl_quality ?p)"
    using sample_engine_ok sample_snapshot_ok
    by (simp_all add: cached_engine_def engine_ok_def semantic_sound_def lru_cache.sound_def cache_wf_def plan_ok_def)
  moreover have "snapshot_ok (tk_snapshot sample_ticket)" by (simp add: sample_ticket_def sample_snapshot_ok)
  moreover have "map_of (en_semantic (pl_quality ?p)) (sn_cache_key (tk_snapshot sample_ticket)) \<noteq> None"
    by (simp add: cached_engine_def sample_ticket_def)
  ultimately show ?thesis
    using stored_decision_decides [OF _ _ _ sample_ticket_matches, of ?p sample_floats sample_hash sample_decision]
    by (simp add: sample_decision_def) blast
qed

lemma fast_guard_expired: "expired 0 \<Longrightarrow> fast_guard e expired window request \<noteq> None"
  by (simp add: fast_guard_def split: sum.split rerank_rejection.split)

definition sample_extracted :: "personalized_candidate list" where
  "sample_extracted = extract_candidates sample_floats sample_conversion 9"

lemma sample_extracted_pcs: "map pc_candidate sample_extracted = map pc_candidate sample_window"
  by (intro nth_equalityI)
    (simp_all add: sample_extracted_def extract_candidates_nth sample_conversion_def sample_window_def MAX_PIPELINE_CANDIDATES_def)

lemma sample_extracted_length: "length sample_extracted = 2"
  using map_eq_imp_length_eq [OF sample_extracted_pcs] by (simp add: sample_window_def)

lemma sample_extracted_valid:
  obtains x y where "sample_extracted = [x, y]" "pc_candidate x = pc_candidate (order_sample 7)"
    "pc_candidate y = pc_candidate (order_sample 8)"
  using sample_extracted_pcs sample_extracted_length
  by (auto simp: sample_window_def length_Suc_conv numeral_2_eq_2)

lemma sample_expired_conversion:
  "\<exists>out. convert_fast sample_floats sample_hash id (\<lambda>_. True) 3 (\<lambda>_. Inr sample_conversion)
      sample_conversion_request sample_session None 0 sample_pipeline = Some (sample_pipeline, Inr out) \<and>
    ou_candidates out = sample_extracted \<and> ou_context out = \<lparr>ec_before = [], ec_after = []\<rparr> \<and>
    ou_session out = sample_session \<and> ou_result out = sample_conversion"
proof -
  have lim: "cn_limit sample_conversion_request = 9"
    by (simp add: sample_conversion_request_def conversion_request_new_def default_limit_def)
  have cxt: "pipeline_context sample_pipeline sample_conversion_request = \<lparr>ec_before = [], ec_after = []\<rparr>"
    by (simp add: pipeline_context_def sample_pipeline_def sample_engine_def engine_new_def Let_def quality_config_new_def)
  have rank: "\<exists>oc. rank_fast F H (\<lambda>_. True) n cs q e = Some (e, cs, oc)" for F H n cs q e
    using fast_guard_expired [of "\<lambda>_. True" e "take (fast_evaluated e cs) cs" q] by (auto simp: rank_fast_def Let_def)
  have "take (min 9 MAX_PIPELINE_CANDIDATES) sample_extracted = sample_extracted"
    by (simp add: sample_extracted_length MAX_PIPELINE_CANDIDATES_def)
  moreover obtain oc where "rank_fast sample_floats sample_hash (\<lambda>_. True) 3 sample_extracted
      (session_request sample_session (pn_current_generation sample_session) (cv_reading sample_conversion)
        \<lparr>ec_before = [], ec_after = []\<rparr>) (pl_quality sample_pipeline) = Some (pl_quality sample_pipeline, sample_extracted, oc)"
    using rank by blast
  ultimately show ?thesis
    by (simp add: convert_fast_def rank_result_def Let_def lim cxt sample_extracted_def [symmetric])
qed

lemma sample_capture:
  "validate_candidate_window sample_extracted = Inr ()"
  "validate_semantic_candidates [] (map (\<lambda>c. \<lparr>se_id = pc_id c, se_text = cd_text (pc_candidate c),
      se_reading = cd_reading (pc_candidate c)\<rparr>) sample_extracted) = Inr ()"
proof -
  obtain x y where w: "sample_extracted = [x, y]" "pc_candidate x = pc_candidate (order_sample 7)"
    "pc_candidate y = pc_candidate (order_sample 8)" by (rule sample_extracted_valid)
  note chars = valid_candidate_text_def lit_def has_control_def is_control_def utf8_len_def LQ_MAX_CANDIDATE_TEXT_BYTES_def
    LQ_MAX_CANDIDATE_TEXT_CHARS_def pl_valid_text_def pl_valid_optional_text_def PL_MAX_CANDIDATE_TEXT_CHARS_def
    PL_MAX_CANDIDATE_READING_CHARS_def
  show "validate_candidate_window sample_extracted = Inr ()"
    unfolding w(1) by (simp add: validate_candidate_window_def pc_id_def w(2,3) order_sample_def chars)
  show "validate_semantic_candidates [] (map (\<lambda>c. \<lparr>se_id = pc_id c, se_text = cd_text (pc_candidate c),
      se_reading = cd_reading (pc_candidate c)\<rparr>) sample_extracted) = Inr ()"
    unfolding w(1) by (simp add: pc_id_def w(2,3) order_sample_def chars)
qed

lemma sample_reading: "valid_reading (lit ''kana'')" "pl_valid_text (lit ''kana'') 64"
  by (simp_all add: valid_reading_def lit_def trim_def trim_end_def trim_start_def is_whitespace_def has_control_def
      is_control_def utf8_len_def LQ_MAX_READING_BYTES_def LQ_MAX_READING_CHARS_def pl_valid_text_def)

lemma sample_prepared:
  assumes "ou_candidates out = sample_extracted" "ou_context out = \<lparr>ec_before = [], ec_after = []\<rparr>"
    "ou_session out = sample_session" "ou_result out = sample_conversion"
  shows "\<exists>ticket. prepare_semantic_rerank sample_hash out sample_session sample_pipeline = Inr ticket"
proof -
  have s: "pn_session_id sample_session = 1" "pn_generation sample_session = 5" "pn_current_generation sample_session = Some 5"
    "pn_tier sample_session = MT_Tiny" "cv_reading sample_conversion = lit ''kana''"
    by (simp_all add: sample_session_def pipeline_session_new_def sample_conversion_def)
  have e: "en_config (pl_quality sample_pipeline) = quality_config_new DP_CandidateFeatures"
    by (simp add: sample_pipeline_def sample_engine_def engine_new_def Let_def)
  have "min (length sample_extracted) (lc_max_candidates (quality_config_new DP_CandidateFeatures)) = 2"
    "lc_data_policy (quality_config_new DP_CandidateFeatures) = DP_CandidateFeatures"
    by (simp_all add: sample_extracted_length quality_config_new_def quality_bounds)
  moreover have "take 2 sample_extracted = sample_extracted" by (simp add: sample_extracted_length)
  ultimately show ?thesis
    using sample_reading
    by (simp add: sample_capture prepare_semantic_rerank_def session_request_def capture_semantic_rerank_def Let_def assms s e
        validate_semantic_input_def pl_valid_optional_text_def has_control_def sample_extracted_length
        MAX_SEMANTIC_CANDIDATES_def MAX_LOCAL_QUALITY_CANDIDATES_def PL_MAX_READING_CHARS_def)
qed


end
