(* ===== verification/Reranker_Correct.thy ===== *)
theory Reranker_Correct
  imports Reranker Pipeline_Semantic
begin

text \<open>
  The reranker of the API: its validation of a decision accepts exactly the complete orders of
  bounded movement, what it hands to the pipeline is never refused there, applying a decision
  only reorders and annotates, and no request is made outside the configured conditions.
\<close>

section \<open>Validation\<close>

lemma duplicates_from_iff: "duplicates_from seen xs \<longleftrightarrow> \<not> distinct xs \<or> set xs \<inter> seen \<noteq> {}"
  by (induction seen xs rule: duplicates_from.induct) auto

lemma has_duplicates_iff [simp]: "has_duplicates xs \<longleftrightarrow> \<not> distinct xs"
  by (simp add: has_duplicates_def duplicates_from_iff)

lemma rerank_order_loop_iff:
  "rerank_order_loop expected k ids = Inr order \<longleftrightarrow>
     set ids \<subseteq> set expected \<and> (\<forall>i < length ids. abs_diff (first_index expected (ids ! i)) (k + i) \<le> 3) \<and>
     order = map (first_index expected) ids"
proof (induction ids arbitrary: k order)
  case (Cons i ids)
  have "(\<forall>j < length (i # ids). abs_diff (first_index expected ((i # ids) ! j)) (k + j) \<le> 3) \<longleftrightarrow>
      abs_diff (first_index expected i) k \<le> 3 \<and>
      (\<forall>j < length ids. abs_diff (first_index expected (ids ! j)) (Suc k + j) \<le> 3)"
    by (auto simp: less_Suc_eq_0_disj)
  then show ?case
    by (auto simp: position_first_index bind_result_Inr_iff Cons.IH MAX_RANK_SHIFT_def split: if_splits)
qed auto

definition decision_bound :: "rerank_decision \<Rightarrow> model_tier \<Rightarrow> u64 \<Rightarrow> bool" where
  "decision_bound d tier generation \<longleftrightarrow> rd_patch d = None \<and> is_finite (rd_confidence d) \<and>
     float_le F0_75 (rd_confidence d) \<and> float_le (rd_confidence d) F1 \<and> rd_model_tier d = tier \<and>
     rd_expires_at_generation d = generation \<and> rd_reason_code d \<in> set RERANK_REASON_CODES"

text \<open>
  Validation accepts exactly the decisions for this tier and generation with enough confidence
  and a known reason that abstain without an order, or give a complete order of the expected
  ids that moves none of them more than three places.
\<close>

lemma validate_rerank_exact:
  assumes "distinct expected"
  shows "validate_rerank d expected tier generation (length expected) = Inr v \<longleftrightarrow>
    decision_bound d tier generation \<and>
    (rd_action d = RA_Abstain \<and> rd_candidate_ids d = [] \<and> rd_reason_code d = lit ''abstain'' \<and> v = VR_Abstain \<or>
     rd_action d = RA_Rerank \<and> rd_reason_code d \<noteq> lit ''abstain'' \<and>
       admissible_order expected 3 (rd_candidate_ids d) \<and>
       v = VR_Rerank (map (first_index expected) (rd_candidate_ids d)))"
proof (cases "decision_bound d tier generation \<and> rd_action d = RA_Rerank \<and> rd_reason_code d \<noteq> lit ''abstain''")
  case False
  then show ?thesis
    by (cases "rd_action d") (auto simp: validate_rerank_def decision_bound_def Let_def MIN_RERANK_CONFIDENCE_def)
next
  case True
  let ?ids = "rd_candidate_ids d" and ?n = "length expected"
  have "validate_rerank d expected tier generation ?n =
      (if length ?ids \<noteq> ?n then Inl AR_IncompleteCandidateSet
       else if has_duplicates ?ids then Inl AR_DuplicateCandidate
       else bind_result (rerank_order_loop expected 0 ?ids)
         (\<lambda>order. if card (set order) \<noteq> ?n then Inl AR_IncompleteCandidateSet else Inr (VR_Rerank order)))"
    using True by (simp add: validate_rerank_def decision_bound_def Let_def MIN_RERANK_CONFIDENCE_def)
  moreover have "card (set (map (first_index expected) ?ids)) = ?n"
    if "distinct ?ids" "set ?ids \<subseteq> set expected" "length ?ids = ?n"
    using that inj_on_subset [OF inj_first_index that(2)] by (simp add: card_image distinct_card)
  moreover have "mset ?ids = mset expected \<longleftrightarrow> set ?ids \<subseteq> set expected \<and> distinct ?ids" if "length ?ids = ?n"
    using complete_iff [OF assms that] .
  ultimately show ?thesis
    using True by (auto simp: bind_result_Inr_iff rerank_order_loop_iff admissible_order_def dest: mset_eq_length)
qed

section \<open>The provider's decisions in the pipeline\<close>

lemma float_le_trans: "float_le a b \<Longrightarrow> float_le b c \<Longrightarrow> float_le a c"
  by (auto simp: float_le_def)

lemma float_le_not_less: "float_le a b \<Longrightarrow> \<not> float_less b a"
  by (auto simp: float_le_def float_less_def)

lemma F0_le_F0_75: "float_le F0 F0_75"
  by (simp add: float_le_def is_nan_def float_value_def float_negative_def float_magnitude_def float_infinity_def
      F0_def F0_75_def mask_eq_exp_minus_1)

lemma core_reason_known: "r \<in> set RERANK_REASON_CODES \<Longrightarrow> core_reason r \<noteq> None"
  by (auto simp: RERANK_REASON_CODES_def core_reason_def)

lemma core_reason_abstain: "core_reason r = Some s \<Longrightarrow> s = SE_Abstain \<longleftrightarrow> r = lit ''abstain''"
  by (auto simp: core_reason_def lit_def split: if_splits)

lemma prepare_revisions:
  assumes "engine_ok (pl_quality p)" "prepare_semantic_rerank H out current p = Inr ticket"
  shows "si_model_revision (tk_input ticket) = sn_model_revision (tk_snapshot ticket)"
    "si_learning_version (tk_input ticket) = sn_learning_version (tk_snapshot ticket)"
    "si_tier (tk_input ticket) = sn_tier (tk_snapshot ticket)"
    "sn_max_rank_shift (tk_snapshot ticket) = lc_max_rank_shift (en_config (pl_quality p))"
  using assms(2)
  by (auto simp: prepare_semantic_rerank_def Let_def bind_result_Inr_iff capture_semantic_rerank_def session_request_def
      split: if_splits)

lemma order_from_slice_Inr: "order_from_slice ids = Inr o' \<Longrightarrow> o' = ids"
  by (auto simp: order_from_slice_def split: if_splits)


lemma prepare_candidates:
  "prepare_semantic_rerank H out current p = Inr ticket \<Longrightarrow>
     si_candidates (tk_input ticket) = map (\<lambda>c. \<lparr>se_id = pc_id c, se_text = cd_text (pc_candidate c),
       se_reading = cd_reading (pc_candidate c)\<rparr>) (take (length (sn_candidate_ids (tk_snapshot ticket))) (ou_candidates out))"
  by (auto simp: prepare_semantic_rerank_def Let_def bind_result_Inr_iff split: if_splits)

text \<open>A ticket is admitted at once by the state it was captured from.\<close>

lemma prepare_admits:
  assumes "engine_ok (pl_quality p)" "prepare_semantic_rerank H out current p = Inr ticket"
  shows "check_admission H (tk_snapshot ticket) (current_admission current out) = Inr ()"
proof -
  let ?req = "session_request (ou_session out) (pn_current_generation current) (cv_reading (ou_result out)) (ou_context out)"
  have cap: "capture_semantic_rerank H ?req (ou_candidates out) (pl_quality p) = Inr (tk_snapshot ticket)"
    and cur: "pn_current_generation current = Some (pn_generation (ou_session out))"
      "pn_model_revision current = pn_model_revision (ou_session out)"
      "pn_learning_version current = pn_learning_version (ou_session out)"
    using assms(2) by (auto simp: prepare_semantic_rerank_def Let_def bind_result_Inr_iff split: if_splits)
  note s = capture_snapshot [OF assms(1) cap]
  then show ?thesis
    using cur by (simp add: check_admission_iff snapshot_ok_def current_admission_def session_request_def)
qed

definition sample_net :: net_ops where
  "sample_net = \<lparr>nt_url = \<lambda>s. Some \<lparr>ul_scheme = lit ''http'', ul_username = [], ul_password = None, ul_query = None,
     ul_fragment = None, ul_host = Some (lit ''localhost''), ul_text = s\<rparr>, nt_ip = \<lambda>_. None\<rparr>"

definition sample_config :: assistant_config where
  "sample_config = \<lparr>as_api_key = None, as_base_url = lit ''http://localhost/v1'', as_model = Some (lit ''m''), as_allow_remote = False\<rparr>"

definition sample_client :: model_client where
  "sample_client = \<lparr>mc_builds = True,
     mc_post = \<lambda>_. Inr \<lparr>hs_success = True, hs_content_length = None, hs_chunks = [Inr [1]]\<rparr>,
     mc_to_string = \<lambda>_. Some [], mc_completion = \<lambda>_. Some [[]],
     mc_decision = \<lambda>_. Some \<lparr>rd_action = RA_Abstain, rd_candidate_ids = [], rd_patch = None, rd_confidence = F1,
       rd_reason_code = lit ''abstain'', rd_model_tier = MT_Tiny, rd_expires_at_generation = 5\<rparr>\<rparr>"

lemma sample_ready: "is_rerank_ready sample_net sample_config"
  by (simp add: is_rerank_ready_def is_loopback_def endpoint_url_def sample_net_def sample_config_def
      eq_ignore_ascii_case_def)

lemma sample_content: "tier \<noteq> MT_MozcOnly \<Longrightarrow> request_model_rerank sample_net sample_client sample_config i tier g = Inr []"
  using sample_ready
  by (simp add: request_model_rerank_def sample_client_def sample_config_def Let_def MAX_MODEL_RESPONSE_BYTES_def
      MAX_MODEL_CONTENT_BYTES_def)

lemma normalize_letters:
  "normalize_complete (lit ''t'') 96 = Some (lit ''t'')" "normalize_complete (lit ''kana'') 64 = Some (lit ''kana'')"
  by (simp_all add: normalize_complete_def lit_def is_blank_def is_control_def is_whitespace_def trim_end_char_def)

lemma sample_private:
  assumes "si_candidates i = map (\<lambda>c. \<lparr>se_id = pc_id c, se_text = cd_text (pc_candidate c),
      se_reading = cd_reading (pc_candidate c)\<rparr>) sample_extracted" "si_reading i = lit ''kana''"
  shows "private_from_semantic i \<noteq> None"
proof -
  obtain x y where w: "sample_extracted = [x, y]" "pc_candidate x = pc_candidate (order_sample 7)"
    "pc_candidate y = pc_candidate (order_sample 8)" by (rule sample_extracted_valid)
  have "cd_text (pc_candidate (order_sample k)) = lit ''t''" "cd_reading (pc_candidate (order_sample k)) = None" for k
    by (simp_all add: order_sample_def)
  then show ?thesis
    using normalize_letters
    by (simp add: private_from_semantic_def private_input_of_def assms w private_candidate_of_def MAX_RERANK_CANDIDATES_def
        MAX_CANDIDATE_VALUE_CHARS_def RR_MAX_READING_CHARS_def Let_def)
qed

lemma sample_ticket_input:
  obtains out ticket i where "prepare_semantic_rerank sample_hash out sample_session sample_pipeline = Inr ticket"
    "private_from_semantic (tk_input ticket) = Some i" "si_tier (tk_input ticket) = MT_Tiny" "si_generation (tk_input ticket) = 5"
proof -
  have ok: "engine_ok (pl_quality sample_pipeline)" by (simp add: sample_pipeline_def sample_engine_ok)
  obtain out where "convert_fast sample_floats sample_hash id (\<lambda>_. True) 3 (\<lambda>_. Inr sample_conversion)
      sample_conversion_request sample_session None 0 sample_pipeline = Some (sample_pipeline, Inr out)"
    and f: "ou_candidates out = sample_extracted" "ou_context out = \<lparr>ec_before = [], ec_after = []\<rparr>"
    "ou_session out = sample_session" "ou_result out = sample_conversion"
    using sample_expired_conversion by blast
  obtain ticket where t: "prepare_semantic_rerank sample_hash out sample_session sample_pipeline = Inr ticket"
    using sample_prepared [OF f] by blast
  let ?i = "tk_input ticket"
  have i: "si_tier ?i = MT_Tiny" "si_generation ?i = 5" "si_reading ?i = lit ''kana''"
    "si_candidates ?i = map (\<lambda>c. \<lparr>se_id = pc_id c, se_text = cd_text (pc_candidate c),
      se_reading = cd_reading (pc_candidate c)\<rparr>) (take (length (sn_candidate_ids (tk_snapshot ticket))) sample_extracted)"
    using t f
    by (auto simp: prepare_semantic_rerank_def Let_def bind_result_Inr_iff sample_session_def pipeline_session_new_def
        sample_conversion_def split: if_splits)
  have "length (sn_candidate_ids (tk_snapshot ticket)) = 2"
    using arg_cong [OF prepare_ok(7) [OF ok t], of length] validate_semantic_input_ok(8) [OF prepare_ok(2) [OF ok t]] i(4)
      sample_extracted_length by simp
  then have "si_candidates ?i = map (\<lambda>c. \<lparr>se_id = pc_id c, se_text = cd_text (pc_candidate c),
      se_reading = cd_reading (pc_candidate c)\<rparr>) sample_extracted"
    using i(4) sample_extracted_length by simp
  from sample_private [OF this i(3)] t i that show thesis by blast
qed


section \<open>Applying a decision\<close>

lemma api_mark_face [simp]: "candidate_face (pc_candidate (api_mark_semantic_rerank F o' n d c)) = candidate_face (pc_candidate c)"
  by (simp add: api_mark_semantic_rerank_def Let_def candidate_face_def)

lemma bounded_explanation_length: "length (bounded_explanation v) \<le> 240"
  by (simp add: bounded_explanation_def)

lemma api_mark_explanation: "length (pc_explanation (api_mark_semantic_rerank F o' n d c)) \<le> 240"
  using bounded_explanation_length by (simp add: api_mark_semantic_rerank_def Let_def del: api_reason_label.simps)

lemma api_mark_attribute: "SEMANTIC_ATTRIBUTE \<in> set (cd_attributes (pc_candidate (api_mark_semantic_rerank F o' n d c)))"
  by (simp add: api_mark_semantic_rerank_def Let_def del: api_reason_label.simps)

text \<open>An adopted decision: a bounded reordering whose moved candidates are annotated.\<close>

lemma apply_rerank_Inr:
  assumes "distinct (map pc_id (take n cs))" "n = min (length cs) 9"
    and "apply_rerank F cs focused d (map pc_id (take n cs)) tier generation n = Inr (cs', focused', oc)"
  obtains (abstained) "cs' = cs" "focused' = focused" "oc = AO_Abstained"
  | (applied) ds changed where "oc = AO_Applied changed" "bounded_reorder 9 3 cs ds" "length cs' = length cs"
      "\<And>i. i < length cs \<Longrightarrow> cs' ! i = ds ! i \<or> (\<exists>o' m. cs' ! i = api_mark_semantic_rerank F o' m d (ds ! i))"
      "focused' = (case focused of
          None \<Rightarrow> None
        | Some i \<Rightarrow> if i < n then position (\<lambda>c. pc_id c = pc_id (cs ! i)) (take n cs') else focused)"
proof -
  let ?ids = "map pc_id (take n cs)"
  have len: "length ?ids = n" "n \<le> length cs" using assms(2) by simp_all
  obtain v where v: "validate_rerank d ?ids tier generation n = Inr v"
    using assms(3) by (auto simp: apply_rerank_def bind_result_Inr_iff split: if_splits)
  show thesis
  proof (cases v)
    case VR_Abstain
    then show ?thesis using assms(3) v len abstained by (auto simp: apply_rerank_def bind_result_def)
  next
    case (VR_Rerank order)
    have o: "admissible_order ?ids 3 (rd_candidate_ids d)" "order = map (first_index ?ids) (rd_candidate_ids d)"
      using v validate_rerank_exact [OF assms(1), of d tier generation v] VR_Rerank len by auto
    have n9: "n \<le> MAX_LOCAL_QUALITY_CANDIDATES" using assms(2) by (simp add: quality_bounds)
    have "resolve_order (rd_candidate_ids d) ?ids 3 = Inr (resolved_order ?ids (rd_candidate_ids d))"
      using o(1) assms(1) len n9 by (simp add: resolve_order_iff)
    note ap = apply_resolved [OF refl len(2) n9 assms(1) this, folded o(2)]
    let ?ds = "reordered order cs"
    let ?new = "\<lambda>k. let c = cs ! (order ! k) in if order ! k \<noteq> k then api_mark_semantic_rerank F (order ! k) k d c else c"
    let ?cs' = "map ?new [0..<n] @ drop n cs"
    let ?focused = "case (case focused of None \<Rightarrow> None | Some i \<Rightarrow> if i < n then id_at cs i else None) of
          None \<Rightarrow> focused | Some i \<Rightarrow> position (\<lambda>c. pc_id c = i) (take n ?cs')"
    have guard: "\<not> (length ?ids \<noteq> n \<or> length cs < n)" using len by simp
    have "apply_rerank F cs focused d ?ids tier generation n =
        Inr (?cs', ?focused, AO_Applied (length (filter (\<lambda>k. order ! k \<noteq> k) [0..<n])))"
      unfolding apply_rerank_def if_not_P [OF guard] v VR_Rerank bind_result_simps(2) validated_rerank.case Let_def ap(3) ..
    with assms(3) have e: "(cs', focused', oc) = (?cs', ?focused, AO_Applied (length (filter (\<lambda>k. order ! k \<noteq> k) [0..<n])))"
      by (rule Inr_inject [OF trans [OF sym]])
    note res = arg_cong [OF e, of fst, unfolded fst_conv snd_conv] arg_cong [OF e, of "\<lambda>x. fst (snd x)", unfolded fst_conv snd_conv]
      arg_cong [OF e, of "\<lambda>x. snd (snd x)", unfolded fst_conv snd_conv]
    have ds: "?ds = map (\<lambda>k. cs ! (order ! k)) [0..<n] @ drop n cs"
      unfolding reordered_def ap(3) using ap(3) by (intro arg_cong2 [of _ _ _ _ append] nth_equalityI refl) simp_all
    show ?thesis
    proof (rule applied [OF res(3)])
      show "bounded_reorder 9 3 cs ?ds" by (rule bounded_reorder_mono [OF ap(2)]) (use len assms(2) in simp_all)
      show "length cs' = length cs" using res(1) len by simp
      show "cs' ! i = ?ds ! i \<or> (\<exists>o' m. cs' ! i = api_mark_semantic_rerank F o' m d (?ds ! i))" if "i < length cs" for i
        using that len by (cases "i < n") (auto simp: res(1) ds nth_append Let_def)
      show "focused' = (case focused of None \<Rightarrow> None
          | Some i \<Rightarrow> if i < n then position (\<lambda>c. pc_id c = pc_id (cs ! i)) (take n cs') else focused)"
        using len res(2) unfolding res(1) by (cases focused) (simp_all add: id_at_def del: take_append take_map)
    qed
  qed
qed

lemma report_status [simp]: "ai_status (rerank_report config mode status reason confidence changed elapsed) = status"
  by (simp add: rerank_report_def)

lemma maybe_rerank_cases:
  defines "n cs \<equiv> min (length cs) MAX_RERANK_CANDIDATES"
  obtains (kept) info where "maybe_rerank F N M elapsed config x cs focused = (cs, focused, info)" "ai_status info \<noteq> AI_Applied"
  | (ran) d cs' focused' oc info where "distinct (map pc_id (take (n cs) cs))"
      "apply_rerank F cs focused d (map pc_id (take (n cs) cs)) (rx_tier x) (rx_generation x) (n cs) = Inr (cs', focused', oc)"
      "maybe_rerank F N M elapsed config x cs focused = (cs', focused', info)"
      "ai_status info = AI_Applied \<longleftrightarrow> oc \<noteq> AO_Abstained"
proof -
  let ?n = "min (length cs) MAX_RERANK_CANDIDATES"
  let ?window = "take ?n cs"
  let ?private = "private_build (rx_reading x) (rx_context_before x) (rx_context_after x) ?window"
  show thesis
  proof (cases "rx_mode x = AM_Off \<or> rx_tier x = MT_MozcOnly \<or> as_model config = None \<or> \<not> is_loopback N config \<or> ?n < 2 \<or>
      rx_mode x = AM_Auto \<and> \<not> is_ambiguous F ?window \<or> \<not> distinct (map pc_id ?window) \<or> ?private = None")
    case True
    define Q where "Q r \<longleftrightarrow> (\<exists>reason. r = (cs, focused, rerank_report config (rx_mode x) AI_Skipped reason None 0 elapsed))" for r
    have skip: "Q (cs, focused, rerank_report config (rx_mode x) AI_Skipped reason None 0 elapsed)" for reason
      unfolding Q_def by blast
    have branch: "(c \<Longrightarrow> Q u) \<Longrightarrow> (\<not> c \<Longrightarrow> Q v) \<Longrightarrow> Q (if c then u else v)" for c u v by simp
    have "Q (maybe_rerank F N M elapsed config x cs focused)"
      unfolding maybe_rerank_def Let_def has_duplicates_iff
      by (intro branch skip) (use True in \<open>auto simp: skip split: option.split\<close>)
    then obtain reason where "maybe_rerank F N M elapsed config x cs focused =
        (cs, focused, rerank_report config (rx_mode x) AI_Skipped reason None 0 elapsed)" unfolding Q_def by blast
    then show ?thesis by (rule kept) (simp add: rerank_report_def)
  next
    case False
    then obtain input where input: "?private = Some input" by blast
    let ?ids = "map pc_id ?window"
    let ?content = "request_model_rerank N M config input (rx_tier x) (rx_generation x)"
    let ?report = "rerank_report config (rx_mode x)"
    have no: "\<not> rx_mode x = AM_Off" "\<not> rx_tier x = MT_MozcOnly" "\<not> as_model config = None" "\<not> \<not> is_loopback N config"
      "\<not> ?n < 2" "\<not> (rx_mode x = AM_Auto \<and> \<not> is_ambiguous F ?window)" "\<not> \<not> distinct (map pc_id ?window)"
      using False by (simp_all only: de_Morgan_disj not_False_eq_True)
    have eq: "maybe_rerank F N M elapsed config x cs focused = (case ?content of
          Inl e \<Rightarrow> (cs, focused, ?report (if e = MC_TimedOut then AI_TimedOut else AI_Unavailable) (model_call_code e) None 0 elapsed)
        | Inr content \<Rightarrow> (case mc_decision M content of
            None \<Rightarrow> (cs, focused, ?report AI_Rejected (lit ''malformedOutput'') None 0 elapsed)
          | Some d \<Rightarrow> (case apply_rerank F cs focused d ?ids (rx_tier x) (rx_generation x) ?n of
              Inr (cs, focused, AO_Abstained) \<Rightarrow> (cs, focused, ?report AI_Abstained (lit ''abstain'') (Some (rd_confidence d)) 0 elapsed)
            | Inr (cs, focused, AO_Applied changed) \<Rightarrow>
                (cs, focused, ?report AI_Applied (rd_reason_code d) (Some (rd_confidence d)) changed elapsed)
            | Inl r \<Rightarrow> (cs, focused, ?report AI_Rejected (api_rejection_code r) None 0 elapsed))))"
      unfolding maybe_rerank_def Let_def has_duplicates_iff if_not_P [OF no(1)] if_not_P [OF no(2)] if_not_P [OF no(3)]
        if_not_P [OF no(4)] if_not_P [OF no(5)] if_not_P [OF no(6)] if_not_P [OF no(7)] input option.case ..
    show ?thesis
    proof (cases ?content)
      case (Inl e)
      show ?thesis by (rule kept, simp add: eq Inl, simp)
    next
      case (Inr content)
      show ?thesis
      proof (cases "mc_decision M content")
        case None
        show ?thesis by (rule kept, simp add: eq Inr None, simp)
      next
        case (Some d)
        show ?thesis
        proof (cases "apply_rerank F cs focused d ?ids (rx_tier x) (rx_generation x) ?n")
          case (Inl r)
          show ?thesis by (rule kept, simp add: eq Inr Some Inl, simp)
        next
          case (Inr res)
          obtain cs' focused' oc where res: "res = (cs', focused', oc)" by (cases res)
          then show ?thesis
            using ran [of d cs' focused' oc] Inr no(7) eq \<open>?content = Inr content\<close> Some
            by (cases oc) (simp_all add: n_def)
        qed
      qed
    qed
  qed
qed

lemma bounded_reorder_prefix: "bounded_reorder n m xs ys \<Longrightarrow> mset (take n ys) = mset (take n xs)"
  by (metis append_take_drop_id bounded_reorder_def mset_append add_right_cancel)

text \<open>
  C19. The reranker of the API is safe with any model and any client: the candidates keep their
  ids, texts and readings in an order that moves none of the first nine by more than three
  places and none of the rest; the list and the focus are untouched unless the report says
  applied; every explanation it writes has at most 240 characters; and a focus within the first
  nine stays on the same candidate.
\<close>
theorem maybe_rerank_safe:
  shows "\<exists>cs' focused' info. maybe_rerank F N M elapsed config x cs focused = (cs', focused', info) \<and>
    (ai_status info \<noteq> AI_Applied \<longrightarrow> cs' = cs \<and> focused' = focused) \<and>
    (\<exists>ds. bounded_reorder 9 3 cs ds \<and> map (candidate_face \<circ> pc_candidate) cs' = map (candidate_face \<circ> pc_candidate) ds) \<and>
    (\<forall>c \<in> set cs'. c \<in> set cs \<or>
       length (pc_explanation c) \<le> 240 \<and> SEMANTIC_ATTRIBUTE \<in> set (cd_attributes (pc_candidate c))) \<and>
    (\<forall>i. focused = Some i \<and> i < min (length cs) 9 \<longrightarrow>
       (\<exists>j. focused' = Some j \<and> pc_id (cs' ! j) = pc_id (cs ! i)))"
proof (cases rule: maybe_rerank_cases [where F = F and N = N and M = M and elapsed = elapsed and config = config and x = x
      and cs = cs and focused = focused])
  case (kept info)
  then show ?thesis by (intro exI [of _ cs] exI [of _ focused] exI [of _ info]) (auto intro!: exI [of _ cs])
next
  case (ran d cs' focused' oc info)
  let ?n = "min (length cs) MAX_RERANK_CANDIDATES"
  have n: "?n = min (length cs) 9" by (simp add: MAX_RERANK_CANDIDATES_def)
  from ran(1) n ran(2) show ?thesis
  proof (cases rule: apply_rerank_Inr)
    case abstained
    then show ?thesis using ran by (intro exI [of _ cs] exI [of _ focused] exI [of _ info]) (auto intro!: exI [of _ cs])
  next
    case (applied ds changed)
    have len: "length ds = length cs" using applied(2) mset_eq_length unfolding bounded_reorder_def by blast
    have "candidate_face (pc_candidate (cs' ! i)) = candidate_face (pc_candidate (ds ! i))" if "i < length cs" for i
      using applied(4) [OF that] by auto
    then have faces: "map (candidate_face \<circ> pc_candidate) cs' = map (candidate_face \<circ> pc_candidate) ds"
      using applied(3) len by (simp add: list_eq_iff_nth_eq)
    have "c \<in> set ds \<or> length (pc_explanation c) \<le> 240 \<and> SEMANTIC_ATTRIBUTE \<in> set (cd_attributes (pc_candidate c))"
      if c: "c \<in> set cs'" for c
    proof -
      obtain i where "i < length cs" "c = cs' ! i" using c applied(3) by (auto simp: in_set_conv_nth)
      then show ?thesis using applied(4) [of i] api_mark_explanation api_mark_attribute len by auto
    qed
    moreover have "set ds = set cs" using applied(2) by (intro mset_eq_setD) (simp add: bounded_reorder_def)
    moreover have "\<exists>j. focused' = Some j \<and> pc_id (cs' ! j) = pc_id (cs ! i)" if f: "focused = Some i" "i < ?n" for i
    proof -
      have "set (take ?n ds) = set (take ?n cs)"
        using bounded_reorder_prefix [OF applied(2)] n len by (intro mset_eq_setD) (cases "length cs \<le> 9", auto simp: bounded_reorder_def)
      moreover have "cs ! i \<in> set (take ?n cs)" using f(2) by (metis in_set_conv_nth length_take min.cobounded1 min.absorb2 nth_take)
      ultimately have "pc_id (cs ! i) \<in> pc_id ` set (take ?n ds)" by simp
      then have "pc_id (cs ! i) \<in> set (map pc_id (take ?n cs'))"
        using face_id [OF faces] by (metis image_set take_map)
      then obtain j where j: "position (\<lambda>c. pc_id c = pc_id (cs ! i)) (take ?n cs') = Some j"
        by (cases "position (\<lambda>c. pc_id c = pc_id (cs ! i)) (take ?n cs')") (auto simp: position_None)
      then show ?thesis using position_Some [OF j] applied(5) f by auto
    qed
    ultimately show ?thesis
      using ran(3,4) applied(1,2) faces n by (intro exI [of _ cs'] exI [of _ focused'] exI [of _ info]) auto
  qed
qed

text \<open>A local model that swaps two candidates on demand.\<close>

definition swap_decision :: rerank_decision where
  "swap_decision = \<lparr>rd_action = RA_Rerank, rd_candidate_ids = [8, 7], rd_patch = None,
     rd_confidence = F1, rd_reason_code = lit ''intent_fit'', rd_model_tier = MT_Tiny, rd_expires_at_generation = 5\<rparr>"

definition swap_client :: model_client where
  "swap_client = \<lparr>mc_builds = True,
     mc_post = \<lambda>_. Inr \<lparr>hs_success = True, hs_content_length = None, hs_chunks = [Inr [1]]\<rparr>,
     mc_to_string = \<lambda>_. Some [], mc_completion = \<lambda>_. Some [[]], mc_decision = \<lambda>_. Some swap_decision\<rparr>"

definition swap_context :: rerank_context where
  "swap_context = \<lparr>rx_mode = AM_OnDemand, rx_tier = MT_Tiny, rx_reading = lit ''kana'', rx_context_before = [],
     rx_context_after = [], rx_generation = 5\<rparr>"

lemma swap_content: "request_model_rerank sample_net swap_client sample_config i MT_Tiny g = Inr []"
  using sample_ready
  by (simp add: request_model_rerank_def swap_client_def sample_config_def Let_def MAX_MODEL_RESPONSE_BYTES_def
      MAX_MODEL_CONTENT_BYTES_def)

lemma swap_private: "\<exists>i. private_build (lit ''kana'') [] [] [order_sample 7, order_sample 8] = Some i"
proof -
  have "cd_text (pc_candidate (order_sample k)) = lit ''t''" "cd_reading (pc_candidate (order_sample k)) = None" for k
    by (simp_all add: order_sample_def)
  then show ?thesis using normalize_letters
    by (simp add: private_build_def private_input_of_def private_candidate_of_def MAX_RERANK_CANDIDATES_def
      RR_MAX_READING_CHARS_def MAX_CANDIDATE_VALUE_CHARS_def Let_def)
qed

lemma swap_valid: "validate_rerank swap_decision [7, 8] MT_Tiny 5 2 = Inr (VR_Rerank [1, 0])"
proof -
  have conf: "is_finite F1" "float_le F0_75 F1" "float_le F1 F1" "\<not> float_less F1 F0_75"
    by (simp_all add: is_finite_def float_le_def float_less_def is_nan_def float_value_def float_negative_def
        float_magnitude_def float_infinity_def F0_75_def F1_def mask_eq_exp_minus_1)
  show ?thesis using conf
    by (simp add: validate_rerank_def swap_decision_def MIN_RERANK_CONFIDENCE_def RERANK_REASON_CODES_def has_duplicates_def
      MAX_RANK_SHIFT_def abs_diff_def lit_def)
qed

lemma swap_run:
  "\<exists>cs' info. maybe_rerank sample_floats sample_net swap_client 3 sample_config swap_context [order_sample 7, order_sample 8] (Some 0)
     = (cs', Some 1, info) \<and> ai_status info = AI_Applied \<and> map pc_id cs' = [8, 7]"
proof -
  obtain i where i: "private_build (lit ''kana'') [] [] [order_sample 7, order_sample 8] = Some i" using swap_private by blast
  have lb: "is_loopback sample_net sample_config" "as_model sample_config \<noteq> None" using sample_ready by (simp_all add: is_rerank_ready_def)
  have ap: "\<exists>cs'. apply_rerank sample_floats [order_sample 7, order_sample 8] (Some 0)
     swap_decision [7, 8] MT_Tiny 5 2 = Inr (cs', Some 1, AO_Applied 2) \<and> map pc_id cs' = [8,7]"
    by (simp add: apply_rerank_def swap_valid upt_rec [of _ 2] numeral_2_eq_2 [symmetric] id_at_def  api_mark_semantic_rerank_def Let_def pc_id_def order_sample_def)
  show ?thesis using i lb ap swap_content
    by (auto simp add: maybe_rerank_def swap_context_def MAX_RERANK_CANDIDATES_def has_duplicates_def Let_def swap_client_def rerank_report_def numeral_2_eq_2 [symmetric])
qed

lemma maybe_rerank_safe_witness:
  "\<exists>cs' info. maybe_rerank sample_floats sample_net swap_client 3 sample_config swap_context [order_sample 7, order_sample 8] (Some 0)
     = (cs', Some 1, info) \<and> ai_status info = AI_Applied \<and> map pc_id cs' = [8, 7] \<and>
     (\<forall>c \<in> set cs'. length (pc_explanation c) \<le> 240)"
proof -
  obtain cs' info where run: "maybe_rerank sample_floats sample_net swap_client 3 sample_config swap_context
      [order_sample 7, order_sample 8] (Some 0) = (cs', Some 1, info)" "ai_status info = AI_Applied" "map pc_id cs' = [8, 7]"
    using swap_run by (elim exE conjE)
  have "pc_explanation (order_sample i) = []" for i by (simp add: order_sample_def)
  then have "length (pc_explanation c) \<le> 240" if "c \<in> set cs'" for c
    using maybe_rerank_safe [of sample_floats sample_net swap_client 3 sample_config swap_context "[order_sample 7, order_sample 8]"
        "Some 0"] run(1) that by auto
  with run show ?thesis by (intro exI conjI ballI)
qed

section \<open>What leaves the process\<close>

lemma other_post: "mc_builds (M\<lparr>mc_post := post\<rparr>) = mc_builds M" "mc_to_string (M\<lparr>mc_post := post\<rparr>) = mc_to_string M"
  "mc_completion (M\<lparr>mc_post := post\<rparr>) = mc_completion M" "mc_decision (M\<lparr>mc_post := post\<rparr>) = mc_decision M"
  "mc_post (M\<lparr>mc_post := post\<rparr>) = post"
  by simp_all

lemma request_other_post:
  assumes "is_rerank_ready N config \<Longrightarrow> tier \<noteq> MT_MozcOnly \<Longrightarrow>
      \<forall>body. post \<lparr>hr_url = as_base_url config @ lit ''/chat/completions'', hr_bearer = as_api_key config, hr_body = body\<rparr> =
        mc_post M \<lparr>hr_url = as_base_url config @ lit ''/chat/completions'', hr_bearer = as_api_key config, hr_body = body\<rparr>"
  shows "request_model_rerank N (M\<lparr>mc_post := post\<rparr>) config i tier g = request_model_rerank N M config i tier g"
proof (cases "tier = MT_MozcOnly \<or> \<not> is_rerank_ready N config")
  case False
  then show ?thesis using assms unfolding request_model_rerank_def other_post
    by (cases "as_model config"; cases "mc_to_string M i") simp_all
qed (simp add: request_model_rerank_def)



text \<open>The normalisers write blanks as single spaces and copy no control character.\<close>

lemma not_control: "\<not> is_blank c \<Longrightarrow> \<not> is_control c" "\<not> is_control 32"
  by (simp_all add: is_blank_def is_control_def)

lemma has_control_rev [simp]: "has_control (rev xs) \<longleftrightarrow> has_control xs"
  by (simp add: has_control_def list_ex_iff)

lemma rr_tail_loop_control: "\<not> has_control out \<Longrightarrow> \<not> has_control (rr_tail_loop m out pending cs)"
  by (induction m out pending cs rule: rr_tail_loop.induct) (auto simp: not_control Let_def)

lemma rr_head_loop_control: "\<not> has_control out \<Longrightarrow> \<not> has_control (rr_head_loop m out pending cs)"
  by (induction m out pending cs rule: rr_head_loop.induct) (auto simp: not_control Let_def)

lemma complete_loop_control: "\<not> has_control out \<Longrightarrow> \<not> has_control (complete_loop out b cs)"
  by (induction out b cs rule: complete_loop.induct) (auto simp: not_control)

lemma trim_end_char_control: "\<not> has_control s \<Longrightarrow> \<not> has_control (trim_end_char c s)"
  by (auto simp: trim_end_char_def has_control_def list_ex_iff dest: set_dropWhileD)

text \<open>A pending space stands for at least one blank that was read.\<close>

lemma rr_tail_loop_length: "length (rr_tail_loop m out pending cs) \<le> length out + of_bool pending + length cs"
  by (induction m out pending cs rule: rr_tail_loop.induct) (auto simp: Let_def of_bool_def split: if_splits)

lemma rr_head_loop_length: "length out \<le> m \<Longrightarrow> length (rr_head_loop m out pending cs) \<le> m"
  by (induction m out pending cs rule: rr_head_loop.induct) (auto simp: Let_def)

lemma normalize_tail_length: "length (normalize_tail value m) \<le> length value"
  using rr_tail_loop_length [of m "[]" False "take (scan_limit m) (rev value)"] by (simp add: normalize_tail_def)

text \<open>The limit itself can be passed by one: the space is written before the length is compared.\<close>

lemma normalize_tail_overflows: "length (normalize_tail (lit ''ab c'') 2) = 3"
  by (simp add: normalize_tail_def scan_limit_def lit_def is_blank_def is_control_def is_whitespace_def)

lemma collect_options_Some:
  "collect_options xs = Some ys \<Longrightarrow> map Some ys = xs"
  by (induction xs arbitrary: ys rule: collect_options.induct) auto

lemma normalize_complete_Some:
  "normalize_complete value m = Some s \<Longrightarrow> length s \<le> m \<and> \<not> has_control s"
  using trim_end_char_control [OF complete_loop_control [of "[]"]]
  by (auto simp: normalize_complete_def Let_def split: if_splits)

definition private_bounded :: "private_input \<Rightarrow> bool" where
  "private_bounded i \<longleftrightarrow> length (pi_reading i) \<le> 64 \<and> \<not> has_control (pi_reading i) \<and>
     length (pi_context_before i) + length (pi_context_after i) \<le> 32 \<and>
     \<not> has_control (pi_context_before i) \<and> \<not> has_control (pi_context_after i) \<and>
     length (pi_candidates i) \<le> 9 \<and>
     (\<forall>c \<in> set (pi_candidates i). length (pv_value c) \<le> 96 \<and> \<not> has_control (pv_value c) \<and>
        (\<forall>r. pv_reading c = Some r \<longrightarrow> length r \<le> 64 \<and> \<not> has_control r))"

lemma private_input_bounded:
  assumes "private_input_of reading before after (map (\<lambda>c. private_candidate_of (f c) (g c) (h c)) cs) = Some i"
    and "length before \<le> 32"
  shows "private_bounded i" "map Some (pi_candidates i) = map (\<lambda>c. private_candidate_of (f c) (g c) (h c)) cs"
proof -
  let ?b = "normalize_tail before 32"
  obtain r ps where r: "normalize_complete reading 64 = Some r"
    "collect_options (map (\<lambda>c. private_candidate_of (f c) (g c) (h c)) cs) = Some ps" "length cs \<le> 9"
    "i = \<lparr>pi_reading = r, pi_context_before = ?b, pi_context_after = normalize_head after (32 - length ?b), pi_candidates = ps\<rparr>"
    using assms(1)
    by (auto simp: private_input_of_def Let_def RR_MAX_READING_CHARS_def RR_MAX_CONTEXT_CHARS_def MAX_RERANK_CANDIDATES_def
        split: if_splits option.splits)
  have ps: "map Some ps = map (\<lambda>c. private_candidate_of (f c) (g c) (h c)) cs" by (rule collect_options_Some [OF r(2)])
  then show "map Some (pi_candidates i) = map (\<lambda>c. private_candidate_of (f c) (g c) (h c)) cs" by (simp add: r(4))
  have "length ps = length cs" by (rule map_eq_imp_length_eq [OF ps])
  moreover have "length (pv_value c) \<le> 96 \<and> \<not> has_control (pv_value c) \<and> (\<forall>r. pv_reading c = Some r \<longrightarrow> length r \<le> 64 \<and> \<not> has_control r)"
    if "c \<in> set ps" for c
  proof -
    have "Some c \<in> set (map Some ps)" using that by simp
    then obtain x where "private_candidate_of (f x) (g x) (h x) = Some c" unfolding ps by auto
    then show ?thesis
      by (auto simp: private_candidate_of_def MAX_CANDIDATE_VALUE_CHARS_def RR_MAX_READING_CHARS_def
          dest!: normalize_complete_Some split: option.splits)
  qed
  moreover have "length ?b \<le> 32" using normalize_tail_length [of before 32] assms(2) by simp
  moreover have "length (normalize_head after (32 - length ?b)) \<le> 32 - length ?b" unfolding normalize_head_def by (rule rr_head_loop_length) simp
  moreover have "\<not> has_control ?b" "\<not> has_control (normalize_head after (32 - length ?b))"
    by (simp_all add: normalize_tail_def normalize_head_def rr_tail_loop_control rr_head_loop_control)
  ultimately show "private_bounded i"
    using normalize_complete_Some [OF r(1)] r(3) by (simp add: private_bounded_def r(4))
qed

text \<open>
  What a local model is sent for a ticket of the pipeline is bounded: a reading of at most
  64 characters, at most 32 characters of context on both sides together and at most nine
  candidates of at most 96, with no control character anywhere; the candidates are the ticket's,
  in order, under their own ids.
\<close>
theorem model_input_bounded:
  assumes "engine_ok (pl_quality p)" "prepare_semantic_rerank H out current p = Inr ticket"
    and "private_from_semantic (tk_input ticket) = Some i"
  shows "private_bounded i \<and> map pv_id (pi_candidates i) = map pc_id (take (length (pi_candidates i)) (ou_candidates out))"
proof -
  note t = prepare_ok [OF assms(1,2)]
  note v = validate_semantic_input_ok [OF t(2)]
  have b: "length (si_context_before (tk_input ticket)) \<le> 32" using v(5) by simp
  note i = private_input_bounded [OF assms(3) [unfolded private_from_semantic_def] b]
  have len: "length (pi_candidates i) = length (si_candidates (tk_input ticket))" by (rule map_eq_imp_length_eq [OF i(2)])
  have "pv_id (pi_candidates i ! k) = se_id (si_candidates (tk_input ticket) ! k)" if "k < length (pi_candidates i)" for k
    using arg_cong [OF i(2), of "\<lambda>l. l ! k"] that len by (auto simp: private_candidate_of_def split: option.splits)
  then have "map pv_id (pi_candidates i) = map se_id (si_candidates (tk_input ticket))"
    using len by (simp add: list_eq_iff_nth_eq)
  moreover have "take (length (si_candidates (tk_input ticket))) (ou_candidates out) =
      take (length (sn_candidate_ids (tk_snapshot ticket))) (ou_candidates out)"
    using prepare_candidates [OF assms(2)] by (simp add: min_def)
  then have "map se_id (si_candidates (tk_input ticket)) =
      map pc_id (take (length (si_candidates (tk_input ticket))) (ou_candidates out))"
    using prepare_candidates [OF assms(2)] by (simp add: comp_def)
  ultimately show ?thesis using i(1) len by simp
qed

lemma model_input_bounded_witness:
  "\<exists>out ticket i. prepare_semantic_rerank sample_hash out sample_session sample_pipeline = Inr ticket \<and>
    private_from_semantic (tk_input ticket) = Some i \<and> private_bounded i"
proof -
  have ok: "engine_ok (pl_quality sample_pipeline)" by (simp add: sample_pipeline_def sample_engine_ok)
  obtain out ticket i where "prepare_semantic_rerank sample_hash out sample_session sample_pipeline = Inr ticket"
    "private_from_semantic (tk_input ticket) = Some i"
    by (rule sample_ticket_input)
  with model_input_bounded [OF ok this] show ?thesis by blast
qed

end
