(* ===== verification/Api_Correct.thy ===== *)
theory Api_Correct
  imports Api Reranker_Correct
begin

text \<open>
  The handlers end to end: what a conversion shows, where its focus goes, and what the user
  dictionary does under ids made from its size and the clock.
\<close>

section \<open>Conversion\<close>

lemma foldr_insert_sorted: "sorted_wrt personalized_before xs \<Longrightarrow> foldr insert_personalized xs [] = xs"
proof (induction xs)
  case (Cons x xs)
  then show ?case by (cases xs) simp_all
qed simp

text \<open>The second sort of the handler changes nothing.\<close>

lemma request_state_personalize_eq [simp]:
  "request_state_personalize F lower s cs reading before now = personalize F lower s cs reading before now"
  by (simp add: request_state_personalize_def foldr_insert_sorted foldr_insert_personalized personalize_def)

lemma maybe_rerank_pipeline_ok:
  assumes "engine_ok (pl_quality p)" "semantic_sound (pl_quality p)"
  shows "\<exists>p' out' info. maybe_rerank_pipeline F H N M late elapsed config mode p out current = Some (p', out', info) \<and>
    ou_result out' = ou_result out \<and>
    (\<exists>cs. bounded_reorder 9 3 (ou_candidates out) cs \<and>
       map (candidate_face \<circ> pc_candidate) (ou_candidates out') = map (candidate_face \<circ> pc_candidate) cs) \<and>
    (\<forall>i. ou_focused_index out = Some i \<and> i < length (ou_candidates out) \<longrightarrow>
       (\<exists>j. ou_focused_index out' = Some j \<and> pc_id (ou_candidates out' ! j) = pc_id (ou_candidates out ! i)))"
    (is "\<exists>p' out' info. ?call = Some (p', out', info) \<and> ?ok out'")
proof -
  have same: "?ok out" by (auto intro!: exI [of _ "ou_candidates out"])
  have branch: "\<exists>p' out' info. (if c then Some (q, out, i) else r) = Some (p', out', info) \<and> ?ok out'"
    if "\<not> c \<Longrightarrow> \<exists>p' out' info. r = Some (p', out', info) \<and> ?ok out'" for c q i r
    using that same by (cases c) auto
  show ?thesis
    unfolding maybe_rerank_pipeline_def Let_def
  proof (intro branch)
    show "\<exists>p' out' info. (case prepare_semantic_rerank H out current p of
          Inl e \<Rightarrow> Some (p, out, rerank_report config mode AI_Rejected (rejection_code e) None 0 elapsed)
        | Inr ticket \<Rightarrow> map_option (\<lambda>(p, output, outcome).
            case resolution_status (sr_resolution outcome) of (status, fallback_reason, changed) \<Rightarrow>
              (p, output, rerank_report config mode status
                (case sr_resolution outcome of
                   SR_Applied _ \<Rightarrow> semantic_reason_code (sr_reason outcome) fallback_reason
                 | SR_Abstained \<Rightarrow> semantic_reason_code (sr_reason outcome) fallback_reason
                 | _ \<Rightarrow> fallback_reason) (sr_confidence outcome) changed elapsed))
            (apply_semantic_rerank_with_report F H ticket out current
              (\<lambda>input. if late input then None else Some (openai_rerank N M config input)) p)) = Some (p', out', info) \<and> ?ok out'"
    proof (cases "prepare_semantic_rerank H out current p")
      case (Inl e)
      then show ?thesis using same by auto
    next
      case (Inr ticket)
      obtain p' out' report where "apply_semantic_rerank_with_report F H ticket out current
          (\<lambda>input. if late input then None else Some (openai_rerank N M config input)) p = Some (p', out', report)" "?ok out'"
        using semantic_stage [OF assms prepare_ok(1) [OF assms(1) Inr], of F H out current
            "\<lambda>input. if late input then None else Some (openai_rerank N M config input)"] by blast
      then show ?thesis using Inr by (simp add: case_prod_unfold)
    qed
  qed
qed

text \<open>What the handler ranks: the personalised candidates, cut at the limit.\<close>

definition personalised_window :: "float_ops \<Rightarrow> (rstr \<Rightarrow> rstr) \<Rightarrow> u64 \<Rightarrow> convert_http_request \<Rightarrow> conversion_result \<Rightarrow> personalized_candidate list" where
  "personalised_window F lower now q result =
    take (min (vq_limit q) 20) (personalize F lower (vq_state q) (cv_candidates result) (cv_reading result)
      (api_bounded_context (vq_context_before q) True) now)"

lemma api_convert_ok:
  assumes "engine_ok (pl_quality p)" "provider (provider_request_of now q) = Inr result"
  obtains p' r mid cs where
    "api_convert F H lower debug expired elapsed N M late ai_elapsed provider assistant now q p = Some (p', Inr r)"
    "engine_ok (pl_quality p')" "vp_state r = vq_state q" "vp_ai r = None \<longleftrightarrow> vq_ai_mode q = AM_Off"
    "bounded_reorder 9 3 (personalised_window F lower now q result) mid" "bounded_reorder 9 3 mid cs"
    "map (candidate_face \<circ> pc_candidate) (vr_candidates (vp_result r)) = map (candidate_face \<circ> pc_candidate) cs"
    "vr_reading (vp_result r) = cv_reading result"
    "\<And>i. cv_focused_index result = Some i \<Longrightarrow> i < length (personalised_window F lower now q result) \<Longrightarrow>
       \<exists>j. vr_focused_index (vp_result r) = Some j \<and>
         pc_id (vr_candidates (vp_result r) ! j) = pc_id (personalised_window F lower now q result ! i)"
proof -
  note answered = that
  let ?req = "provider_request_of now q" and ?w = "personalised_window F lower now q result"
  let ?session = "pipeline_with_revisions 0 (ucast (ls_version (vq_state q)))
    (pipeline_session_new now now (up_model_tier (ls_profile (vq_state q))))"
  have w: "take (cn_limit ?req) (request_state_personalize F lower (vq_state q) (cv_candidates result) (cv_reading result)
      (cn_context_before ?req) now) = ?w"
    by (simp add: personalised_window_def provider_request_of_def MAX_CONVERSION_CANDIDATES_def)
  have lim: "take (min (cn_limit ?req) MAX_PIPELINE_CANDIDATES) ?w = ?w"
    by (simp add: personalised_window_def provider_request_of_def MAX_CONVERSION_CANDIDATES_def MAX_PIPELINE_CANDIDATES_def)
  obtain p1 out where r: "rank_result F H expired elapsed result ?req ?session ?w p = Some (p1, out)"
    and p1: "engine_ok (pl_quality p1)" "en_config (pl_quality p1) = en_config (pl_quality p)"
    and base: "ou_baseline out = ?w"
    and b: "bounded_reorder (fast_evaluated (pl_quality p) (ou_baseline out))
       (lc_max_rank_shift (en_config (pl_quality p))) (ou_baseline out) (ou_candidates out)"
    and foc: "ou_focused_index out = refocus (ou_candidates out) (focus_of (ou_baseline out) (cv_focused_index result))"
    and out: "ou_result out = result"
    by (rule rank_result_safe [OF assms(1), where F = F and H = H and expired = expired and elapsed = elapsed
        and result = result and request = ?req and session = ?session and cs = ?w, unfolded lim]) blast
  have mid: "bounded_reorder 9 3 ?w (ou_candidates out)"
    by (rule bounded_reorder_mono [OF b [unfolded base]])
      (use fast_evaluated_le [OF assms(1), of ?w] assms(1) in \<open>simp_all add: quality_bounds engine_ok_def config_ok_def\<close>)
  have foc1: "\<exists>j. ou_focused_index out = Some j \<and> j < length (ou_candidates out) \<and> pc_id (ou_candidates out ! j) = pc_id (?w ! i)"
    if "cv_focused_index result = Some i" "i < length ?w" for i
  proof -
    have m: "mset (map pc_id (ou_candidates out)) = mset (map pc_id ?w)" using mid by (simp add: bounded_reorder_def)
    show ?thesis by (rule refocus_follows [OF m that]) (simp add: foc base)
  qed
  let ?slow = "pipeline_new (en_config (pl_quality p1))"
  have slow: "engine_ok (pl_quality ?slow)" "semantic_sound (pl_quality ?slow)"
    using p1(1) by (simp_all add: pipeline_new_def engine_ok_new semantic_sound_new engine_ok_def [of "pl_quality p1"])
  have tail: thesis
    if out2: "ou_result out2 = result" "bounded_reorder 9 3 (ou_candidates out) cs"
      "map (candidate_face \<circ> pc_candidate) (ou_candidates out2) = map (candidate_face \<circ> pc_candidate) cs"
      and foc2: "\<And>i. ou_focused_index out = Some i \<Longrightarrow> i < length (ou_candidates out) \<Longrightarrow>
        \<exists>j. ou_focused_index out2 = Some j \<and> pc_id (ou_candidates out2 ! j) = pc_id (ou_candidates out ! i)"
      and ai: "(if vq_ai_mode q = AM_Off then Some (out, None)
          else map_option (\<lambda>(_, ranked, info). (ranked, Some info))
            (maybe_rerank_pipeline F H N M late ai_elapsed assistant (vq_ai_mode q) ?slow out ?session)) = Some (out2, ai)"
      "ai = None \<longleftrightarrow> vq_ai_mode q = AM_Off"
    for out2 cs ai
  proof (rule answered)
    show "api_convert F H lower debug expired elapsed N M late ai_elapsed provider assistant now q p =
        Some (p1, Inr \<lparr>vp_result = \<lparr>vr_provider = cv_provider result, vr_revision = cn_revision ?req,
           vr_reading = cv_reading result, vr_preedit = cv_preedit result, vr_preedit_segments = cv_segments result,
           vr_candidates = ou_candidates out2, vr_focused_index = (case ou_focused_index out2 of
               Some i \<Rightarrow> Some i
             | None \<Rightarrow> (case (case cv_focused_index result of
                 None \<Rightarrow> None
               | Some index \<Rightarrow> if index < length (cv_candidates result)
                   then Some (cd_id (cv_candidates result ! index)) else None) of
                 None \<Rightarrow> None | Some i \<Rightarrow> position (\<lambda>c. pc_id c = i) (ou_candidates out2))),
           vr_fast_rank = ou_fast_rank out2, vr_consumed = cv_consumed result, vr_elapsed = cv_elapsed result\<rparr>,
         vp_state = vq_state q, vp_ai = ai\<rparr>)"
      unfolding api_convert_def Let_def assms(2) sum.case w r option.case prod.case ai(1) by (simp add: out2(1))
    show "bounded_reorder 9 3 ?w (ou_candidates out)" by (rule mid)
  qed (use p1 out2 ai(2) foc1 foc2 in \<open>auto split: option.split\<close>)
  show thesis
  proof (cases "vq_ai_mode q = AM_Off")
    case True
    then show ?thesis using out by (intro tail [of out "ou_candidates out" None]) simp_all
  next
    case False
    obtain p2 out2 info cs where "maybe_rerank_pipeline F H N M late ai_elapsed assistant (vq_ai_mode q) ?slow out ?session = Some (p2, out2, info)"
      "ou_result out2 = result" "bounded_reorder 9 3 (ou_candidates out) cs"
      "map (candidate_face \<circ> pc_candidate) (ou_candidates out2) = map (candidate_face \<circ> pc_candidate) cs"
      "\<And>i. ou_focused_index out = Some i \<Longrightarrow> i < length (ou_candidates out) \<Longrightarrow>
        \<exists>j. ou_focused_index out2 = Some j \<and> pc_id (ou_candidates out2 ! j) = pc_id (ou_candidates out ! i)"
      using maybe_rerank_pipeline_ok [OF slow, of F H N M late ai_elapsed assistant "vq_ai_mode q" out ?session] out by metis
    then show ?thesis using False by (intro tail [of out2 cs "Some info"]) simp_all
  qed
qed

text \<open>
  C14. A conversion request is answered safely with any provider, model, hash and clock. A provider
  error becomes the error response and changes nothing. Otherwise the handler answers: the
  client's state comes back as it was sent, a rerank is reported exactly when it was asked for,
  and what is shown are the first candidates of the personalised list, at most twenty, with their
  ids, texts and readings, after at most two stages that each move a candidate by at most three
  places and none beyond the ninth.
\<close>
theorem api_convert_safe:
  assumes "engine_ok (pl_quality p)"
  shows "(case provider (provider_request_of now q) of
      Inl e \<Rightarrow> api_convert F H lower debug expired elapsed N M late ai_elapsed provider assistant now q p =
        Some (p, Inl (provider_api_error debug e))
    | Inr result \<Rightarrow>
        (\<exists>p' r mid cs. api_convert F H lower debug expired elapsed N M late ai_elapsed provider assistant now q p = Some (p', Inr r) \<and>
          engine_ok (pl_quality p') \<and> vp_state r = vq_state q \<and> (vp_ai r = None \<longleftrightarrow> vq_ai_mode q = AM_Off) \<and>
          length (vr_candidates (vp_result r)) \<le> 20 \<and>
          bounded_reorder 9 3 (personalised_window F lower now q result) mid \<and> bounded_reorder 9 3 mid cs \<and>
          map (candidate_face \<circ> pc_candidate) (vr_candidates (vp_result r)) = map (candidate_face \<circ> pc_candidate) cs))"
proof (cases "provider (provider_request_of now q)")
  case (Inl e)
  then show ?thesis by (simp add: api_convert_def)
next
  case (Inr result)
  from assms Inr show ?thesis
  proof (rule api_convert_ok [where F = F and H = H and lower = lower and debug = debug and expired = expired and elapsed = elapsed
        and N = N and M = M and late = late and ai_elapsed = ai_elapsed and assistant = assistant])
    fix p' and r :: convert_http_response and mid cs
    assume r: "api_convert F H lower debug expired elapsed N M late ai_elapsed provider assistant now q p = Some (p', Inr r)"
      "engine_ok (pl_quality p')" "vp_state r = vq_state q" "vp_ai r = None \<longleftrightarrow> vq_ai_mode q = AM_Off"
      "bounded_reorder 9 3 (personalised_window F lower now q result) mid" "bounded_reorder 9 3 mid cs"
      "map (candidate_face \<circ> pc_candidate) (vr_candidates (vp_result r)) = map (candidate_face \<circ> pc_candidate) cs"
    have "length (vr_candidates (vp_result r)) = length (personalised_window F lower now q result)"
      using map_eq_imp_length_eq [OF r(7)] mset_eq_length r(5,6) unfolding bounded_reorder_def by metis
    then have "length (vr_candidates (vp_result r)) \<le> 20" by (simp add: personalised_window_def)
    then show ?thesis unfolding Inr sum.case
      by (intro exI [of _ p'] exI [of _ r] exI [of _ mid] exI [of _ cs] conjI r)
  qed
qed

text \<open>
  The focus goes by position: the provider's focused index is read in the personalised
  order, so the response focuses the candidate that learning has put at that place, whichever
  candidate the provider had focused.
\<close>
theorem convert_focus_by_position:
  assumes "engine_ok (pl_quality p)" "provider (provider_request_of now q) = Inr result"
    and "cv_focused_index result = Some i" "i < length (personalised_window F lower now q result)"
  shows "\<exists>p' r j. api_convert F H lower debug expired elapsed N M late ai_elapsed provider assistant now q p = Some (p', Inr r) \<and>
    vr_focused_index (vp_result r) = Some j \<and>
    pc_id (vr_candidates (vp_result r) ! j) = pc_id (personalised_window F lower now q result ! i)"
proof (rule api_convert_ok [where F = F and H = H and lower = lower and debug = debug and expired = expired and elapsed = elapsed
      and N = N and M = M and late = late and ai_elapsed = ai_elapsed and assistant = assistant])
  fix p' and r :: convert_http_response and mid cs
  assume r: "api_convert F H lower debug expired elapsed N M late ai_elapsed provider assistant now q p = Some (p', Inr r)"
    and foc: "\<And>i. cv_focused_index result = Some i \<Longrightarrow> i < length (personalised_window F lower now q result) \<Longrightarrow>
       \<exists>j. vr_focused_index (vp_result r) = Some j \<and>
         pc_id (vr_candidates (vp_result r) ! j) = pc_id (personalised_window F lower now q result ! i)"
  from r foc [OF assms(3,4)] show ?thesis by blast
qed (rule assms)+

section \<open>The user dictionary\<close>

text \<open>
  The ids of user words are not unique: they are made of the list's length and the
  millisecond. Adding two words, removing the first and adding a third within one millisecond
  gives the third the id of the second, and removing either then removes both.
\<close>
theorem user_word_ids_collide:
  assumes "ls_user_words s = []" "(r1, t1) \<noteq> (r2, t2)" "(r2, t2) \<noteq> (r3, t3)"
  shows "let two = api_add_user_word now r2 t2 b2 (api_add_user_word now r1 t1 b1 s);
      one = api_remove_user_word (uw_id (ls_user_words two ! 0)) two;
      three = api_add_user_word now r3 t3 b3 one in
    length (ls_user_words two) = 2 \<and> map (\<lambda>w. (uw_reading w, uw_text w)) (ls_user_words one) = [(r2, t2)] \<and>
    map (\<lambda>w. (uw_reading w, uw_text w)) (ls_user_words three) = [(r2, t2), (r3, t3)] \<and>
    (\<forall>w \<in> set (ls_user_words three). ls_user_words (api_remove_user_word (uw_id w) three) = [])"
proof -
  have "dec (Suc 0) = [49]" "dec (Suc (Suc 0)) = [50]" by (simp_all add: dec.simps)
  then show ?thesis
    using assms by (auto simp: api_add_user_word_def api_remove_user_word_def Let_def)
qed

lemma user_word_ids_collide_witness:
  "ls_user_words default_learning_state = [] \<and>
   length (ls_user_words (api_add_user_word 7 [2] [2] F0 (api_add_user_word 7 [1] [1] F0 default_learning_state))) = 2"
  using user_word_ids_collide [of default_learning_state "[1]" "[1]" "[2]" "[2]" "[3]" "[3]" 7 F0 F0 F0]
  by (simp add: default_learning_state_def Let_def)

section \<open>Witnesses\<close>

definition sample_convert :: convert_http_request where
  "sample_convert = \<lparr>vq_romaji = lit ''kana'', vq_context_before = [], vq_context_after = [], vq_limit = 9,
     vq_ai_mode = AM_Off, vq_state = default_learning_state\<rparr>"

lemma sample_personalised:
  "length (personalised_window sample_floats id 5 sample_convert sample_conversion) = 2"
proof -
  have "length (personalize sample_floats id default_learning_state (cv_candidates sample_conversion)
      (cv_reading sample_conversion) before now) = 2" for before now
    using arg_cong [OF foldr_insert_personalized(1) [of "personalize_ordered sample_floats id default_learning_state
        (cv_candidates sample_conversion) (cv_reading sample_conversion) before now"], of size]
    by (simp add: personalize_def personalize_ordered_def personalize_from_nth sample_conversion_def sample_window_def)
  then show ?thesis by (simp add: personalised_window_def sample_convert_def)
qed

lemma api_convert_safe_witness:
  "\<exists>p' r. api_convert sample_floats sample_hash id (\<lambda>_. []) (\<lambda>_. False) 3 sample_net sample_client (\<lambda>_. False) 0
     (\<lambda>_. Inr sample_conversion) sample_config 5 sample_convert sample_pipeline = Some (p', Inr r) \<and>
   vp_state r = default_learning_state"
proof -
  have ok: "engine_ok (pl_quality sample_pipeline)" by (simp add: sample_pipeline_def sample_engine_ok)
  show ?thesis
    using api_convert_safe [OF ok, where provider = "\<lambda>_. Inr sample_conversion" and q = sample_convert and now = 5
        and F = sample_floats and H = sample_hash and lower = id and debug = "\<lambda>_. []" and expired = "\<lambda>_. False"
        and elapsed = 3 and N = sample_net and M = sample_client and late = "\<lambda>_. False" and ai_elapsed = 0
        and assistant = sample_config]
    by (auto simp: sample_convert_def)
qed

lemma convert_focus_by_position_witness:
  "\<exists>p' r j. api_convert sample_floats sample_hash id (\<lambda>_. []) (\<lambda>_. False) 3 sample_net sample_client (\<lambda>_. False) 0
     (\<lambda>_. Inr sample_conversion) sample_config 5 sample_convert sample_pipeline = Some (p', Inr r) \<and>
   vr_focused_index (vp_result r) = Some j"
proof -
  have ok: "engine_ok (pl_quality sample_pipeline)" by (simp add: sample_pipeline_def sample_engine_ok)
  have foc: "cv_focused_index sample_conversion = Some 1" by (simp add: sample_conversion_def)
  have len: "1 < length (personalised_window sample_floats id 5 sample_convert sample_conversion)"
    by (simp add: sample_personalised)
  show ?thesis
    using convert_focus_by_position [where provider = "\<lambda>_. Inr sample_conversion", OF ok refl foc len,
        of sample_hash "\<lambda>_. []" "\<lambda>_. False" 3 sample_net sample_client "\<lambda>_. False" 0 sample_config]
    by blast
qed

end
