(* ===== verification/Mozc_Wire.thy ===== *)
theory Mozc_Wire
  imports Core_Types
begin

text \<open>
  The line protocol of \<open>kanai-mozc/src/lib.rs\<close>: the keys and edits a session client sends, their
  percent encoding, the commands as the lines the bridge process reads, and what is made of its
  answers. The crate \<open>percent_encoding\<close> is the parameter \<open>percent_codec\<close> with its documented
  behaviour as the predicate \<open>percent_lawful\<close>; UTF-8 is the standard library's.
\<close>

section \<open>UTF-8\<close>

text \<open>\<open>as_bytes\<close> of a string, by the scalar value's length class.\<close>

definition utf8_char :: "rchar \<Rightarrow> u8 list" where
  "utf8_char c =
    (if c < 128 then [of_nat c]
     else if c < 2048 then [of_nat (192 + c div 64), of_nat (128 + c mod 64)]
     else if c < 65536 then [of_nat (224 + c div 4096), of_nat (128 + c div 64 mod 64), of_nat (128 + c mod 64)]
     else [of_nat (240 + c div 262144), of_nat (128 + c div 4096 mod 64), of_nat (128 + c div 64 mod 64),
           of_nat (128 + c mod 64)])"

definition utf8 :: "rstr \<Rightarrow> u8 list" where
  "utf8 s = concat (map utf8_char s)"

text \<open>What a \<open>char\<close> can be.\<close>

definition is_scalar :: "rchar \<Rightarrow> bool" where
  "is_scalar c \<longleftrightarrow> c < 55296 \<or> 57344 \<le> c \<and> c < 1114112"

definition continuation :: "u8 \<Rightarrow> nat option" where
  "continuation b = (if 128 \<le> unat b \<and> unat b < 192 then Some (unat b - 128) else None)"

text \<open>
  \<open>String::from_utf8\<close>: one scalar value off the front of the bytes (shortest form only, no
  surrogates), then the rest.
\<close>

definition utf8_next :: "u8 list \<Rightarrow> (rchar \<times> u8 list) option" where
  "utf8_next bs =
    (case bs of
       [] \<Rightarrow> None
     | b # r \<Rightarrow>
         let n = unat b in
         if n < 128 then Some (n, r)
         else if 194 \<le> n \<and> n < 224 then
           (case r of b1 # r \<Rightarrow> map_option (\<lambda>x. ((n - 192) * 64 + x, r)) (continuation b1) | _ \<Rightarrow> None)
         else if 224 \<le> n \<and> n < 240 then
           (case r of b1 # b2 # r \<Rightarrow>
              (case (continuation b1, continuation b2) of
                 (Some x, Some y) \<Rightarrow>
                   let c = (n - 224) * 4096 + x * 64 + y in
                   if 2048 \<le> c \<and> is_scalar c then Some (c, r) else None
               | _ \<Rightarrow> None)
            | _ \<Rightarrow> None)
         else if 240 \<le> n \<and> n < 245 then
           (case r of b1 # b2 # b3 # r \<Rightarrow>
              (case (continuation b1, continuation b2, continuation b3) of
                 (Some x, Some y, Some z) \<Rightarrow>
                   let c = (n - 240) * 262144 + x * 4096 + y * 64 + z in
                   if 65536 \<le> c \<and> is_scalar c then Some (c, r) else None
               | _ \<Rightarrow> None)
            | _ \<Rightarrow> None)
         else None)"

lemma utf8_next_shorter: "utf8_next bs = Some (c, r) \<Longrightarrow> length r < length bs"
  by (auto simp: utf8_next_def Let_def split: list.splits if_splits option.splits)

function from_utf8 :: "u8 list \<Rightarrow> rstr option" where
  "from_utf8 bs =
    (if bs = [] then Some []
     else case utf8_next bs of
       None \<Rightarrow> None
     | Some (c, r) \<Rightarrow> map_option ((#) c) (from_utf8 r))"
  by auto
termination
  by (relation "measure length") (auto dest: utf8_next_shorter)

declare from_utf8.simps [simp del]

section \<open>Percent encoding\<close>

text \<open>\<open>REQUEST_ENCODE_SET\<close>: the ASCII characters that are escaped.\<close>

definition is_ascii_alphanumeric :: "rchar \<Rightarrow> bool" where
  "is_ascii_alphanumeric c \<longleftrightarrow> 48 \<le> c \<and> c \<le> 57 \<or> 65 \<le> c \<and> c \<le> 90 \<or> 97 \<le> c \<and> c \<le> 122"

definition REQUEST_ENCODE_SET :: "rchar \<Rightarrow> bool" where
  "REQUEST_ENCODE_SET c \<longleftrightarrow> \<not> is_ascii_alphanumeric c \<and> c \<notin> {45, 46, 95, 126}"

record percent_codec =
  utf8_percent_encode :: "(rchar \<Rightarrow> bool) \<Rightarrow> rstr \<Rightarrow> rstr"
  percent_decode_str :: "rstr \<Rightarrow> u8 list"

definition mozc_encode :: "percent_codec \<Rightarrow> rstr \<Rightarrow> rstr" where
  "mozc_encode K v = utf8_percent_encode K REQUEST_ENCODE_SET v"

definition is_ascii_hexdigit :: "u8 \<Rightarrow> bool" where
  "is_ascii_hexdigit b \<longleftrightarrow> (let n = unat b in 48 \<le> n \<and> n \<le> 57 \<or> 65 \<le> n \<and> n \<le> 70 \<or> 97 \<le> n \<and> n \<le> 102)"

text \<open>The loop of \<open>has_valid_percent_escapes\<close> from a position on.\<close>

fun escapes_loop :: "u8 list \<Rightarrow> bool" where
  "escapes_loop [] \<longleftrightarrow> True"
| "escapes_loop (b # bs) \<longleftrightarrow>
    (if b = 37 then (case bs of h # l # rest \<Rightarrow> is_ascii_hexdigit h \<and> is_ascii_hexdigit l \<and> escapes_loop rest | _ \<Rightarrow> False)
     else escapes_loop bs)"

definition has_valid_percent_escapes :: "rstr \<Rightarrow> bool" where
  "has_valid_percent_escapes v = escapes_loop (utf8 v)"

text \<open>\<open>decode\<close>; the detail of the UTF-8 error is the parameter \<open>detail\<close>.\<close>

definition mozc_decode :: "percent_codec \<Rightarrow> (u8 list \<Rightarrow> rstr) \<Rightarrow> rstr \<Rightarrow> provider_error + rstr" where
  "mozc_decode K detail v =
    (if \<not> has_valid_percent_escapes v
     then Inl (PV_Protocol (lit ''invalid percent encoding: malformed escape''))
     else case from_utf8 (percent_decode_str K v) of
       Some s \<Rightarrow> Inr s
     | None \<Rightarrow> Inl (PV_Protocol (lit ''invalid percent encoding: '' @ detail (percent_decode_str K v))))"

section \<open>Keys and edits\<close>

datatype mozc_key =
    MK_Character rstr | MK_Space | MK_Backspace | MK_Delete | MK_Escape | MK_Tab | MK_Enter
  | MK_Left | MK_Right | MK_Up | MK_Down | MK_Function u8 | MK_Named rstr

fun key_fields :: "percent_codec \<Rightarrow> mozc_key \<Rightarrow> provider_error + rstr \<times> rstr" where
  "key_fields K (MK_Character v) =
    (if v = [] \<or> blen v > 1024 \<or> has_control v
     then Inl (PV_InvalidRequest (lit ''character key must be non-empty, valid, and at most 1024 bytes''))
     else Inr (lit ''character'', mozc_encode K v))"
| "key_fields K MK_Space = Inr (lit ''space'', [])"
| "key_fields K MK_Backspace = Inr (lit ''backspace'', [])"
| "key_fields K MK_Delete = Inr (lit ''delete'', [])"
| "key_fields K MK_Escape = Inr (lit ''escape'', [])"
| "key_fields K MK_Tab = Inr (lit ''tab'', [])"
| "key_fields K MK_Enter = Inr (lit ''enter'', [])"
| "key_fields K MK_Left = Inr (lit ''left'', [])"
| "key_fields K MK_Right = Inr (lit ''right'', [])"
| "key_fields K MK_Up = Inr (lit ''up'', [])"
| "key_fields K MK_Down = Inr (lit ''down'', [])"
| "key_fields K (MK_Function n) = Inr (lit ''function'', dec (unat n))"
| "key_fields K (MK_Named v) =
    (if v = [] \<or> blen v > 64 \<or> has_control v
     then Inl (PV_InvalidRequest (lit ''named key must be non-empty and at most 64 bytes''))
     else Inr (lit ''named'', mozc_encode K v))"

datatype mozc_edit = ME_Insert rstr | ME_Replace u32 u32 rstr | ME_Delete u32 u32 | ME_Reset

definition validate_edit_text :: "rstr \<Rightarrow> provider_error + unit" where
  "validate_edit_text v =
    reject_if (blen v > 16 * 1024 \<or> has_control v) (PV_InvalidRequest (lit ''edit text is invalid or too large''))"

fun edit_fields :: "percent_codec \<Rightarrow> mozc_edit \<Rightarrow> provider_error + rstr list" where
  "edit_fields K ME_Reset = Inr [lit ''reset'']"
| "edit_fields K (ME_Insert v) = seq (validate_edit_text v) (Inr [lit ''insert'', mozc_encode K v])"
| "edit_fields K (ME_Delete a b) = Inr [lit ''delete'', dec (unat a), dec (unat b)]"
| "edit_fields K (ME_Replace a b v) =
    seq (validate_edit_text v) (Inr [lit ''replace'', dec (unat a), dec (unat b), mozc_encode K v])"

section \<open>Commands\<close>

text \<open>Fields joined by tabs: the \<open>format!\<close> calls of the clients.\<close>

fun tabbed :: "rstr list \<Rightarrow> rstr" where
  "tabbed [] = []"
| "tabbed [f] = f"
| "tabbed (f # fs) = f @ [9] @ tabbed fs"

definition dec64 :: "u64 \<Rightarrow> rstr" where
  "dec64 n = dec (unat n)"

definition opt_generation :: "u64 option \<Rightarrow> rstr list" where
  "opt_generation g = (case g of None \<Rightarrow> [] | Some g \<Rightarrow> [dec64 g])"

definition open_command :: "u64 \<Rightarrow> rstr" where
  "open_command sid = tabbed [lit ''open'', dec64 sid]"

definition close_command :: "u64 \<Rightarrow> u64 option \<Rightarrow> rstr" where
  "close_command sid g = tabbed ([lit ''close'', dec64 sid] @ opt_generation g)"

definition cancel_command :: "u64 \<Rightarrow> u64 option \<Rightarrow> rstr" where
  "cancel_command sid g = tabbed ([lit ''cancel'', dec64 sid] @ opt_generation g)"

definition key_command :: "u64 \<Rightarrow> u64 \<Rightarrow> rstr \<times> rstr \<Rightarrow> rstr" where
  "key_command sid g f = tabbed [lit ''key'', dec64 sid, dec64 g, fst f, snd f]"

definition edit_command :: "u64 \<Rightarrow> u64 \<Rightarrow> rstr list \<Rightarrow> rstr" where
  "edit_command sid g fs = tabbed ([lit ''edit'', dec64 sid, dec64 g] @ [tabbed fs])"

definition convert_command :: "percent_codec \<Rightarrow> u64 \<Rightarrow> conversion_request \<Rightarrow> rstr" where
  "convert_command K sid q = tabbed [lit ''convert'', dec64 sid, mozc_encode K (cn_romaji q),
     mozc_encode K (cn_context_before q), mozc_encode K (cn_context_after q), dec64 (cn_revision q)]"

definition commit_command :: "u64 \<Rightarrow> i32 \<Rightarrow> u64 \<Rightarrow> rstr" where
  "commit_command sid i g = tabbed [lit ''commit'', dec64 sid, dec_i32 i, dec64 g]"

text \<open>The one-session commands of \<open>MozcBridge\<close>.\<close>

definition legacy_convert_command :: "percent_codec \<Rightarrow> conversion_request \<Rightarrow> rstr" where
  "legacy_convert_command K q = tabbed [lit ''convert'', mozc_encode K (cn_romaji q),
     mozc_encode K (cn_context_before q), mozc_encode K (cn_context_after q), dec64 (cn_revision q)]"

definition legacy_commit_command :: "i32 \<Rightarrow> u64 \<Rightarrow> rstr" where
  "legacy_commit_command i g = tabbed [lit ''commit'', dec_i32 i, dec64 g]"

definition validate_conversion_request :: "conversion_request \<Rightarrow> provider_error + unit" where
  "validate_conversion_request q =
     seq (reject_if (cn_romaji q = []) (PV_InvalidRequest (lit ''romaji input must not be empty'')))
    (seq (reject_if (blen (cn_romaji q) > 1024) (PV_InvalidRequest (lit ''romaji input exceeds 1024 bytes'')))
    (seq (reject_if (has_control (cn_romaji q)) (PV_InvalidRequest (lit ''conversion input contains control characters'')))
         (reject_if (\<not> (1 \<le> cn_limit q \<and> cn_limit q \<le> 30)) (PV_InvalidRequest (lit ''candidate limit must be between 1 and 30'')))))"

section \<open>Answers\<close>

record bridge_segment =
  bs_value :: rstr
  bs_key :: "rstr option"
  bs_highlighted :: bool

record bridge_candidate =
  bc_id :: i32
  bc_value :: rstr
  bc_key :: "rstr option"
  bc_index :: "u32 option"
  bc_description :: "rstr option"
  bc_source :: "rstr option"
  bc_attributes :: "rstr list"
  bc_log :: "rstr option"

record bridge_response =
  br_ok :: bool
  br_error :: rstr
  br_provider :: "rstr option"
  br_detail :: "rstr option"
  br_reading :: "rstr option"
  br_preedit :: rstr
  br_segments :: "bridge_segment list option"
  br_candidates :: "bridge_candidate list option"
  br_focused_index :: "nat option"
  br_consumed :: "bool option"
  br_elapsed_micros :: "u64 option"
  br_generation :: "u64 option"
  br_session_id :: "u64 option"
  br_text :: "rstr option"
  br_result :: "rstr option"

definition parse_origin :: "rstr \<Rightarrow> rstr list \<Rightarrow> candidate_origin" where
  "parse_origin source attributes =
    (let normalized = map ascii_lower (filter is_ascii_alphanumeric source) in
     if normalized = lit ''prediction'' then OPrediction
     else if normalized = lit ''suggestion'' then OSuggestion
     else if normalized = lit ''userdictionary'' then OUserDictionary
     else if normalized = lit ''userhistory'' then OUserHistory
     else if normalized = lit ''typingcorrection'' then OTypingCorrection
     else if normalized = lit ''spellingcorrection'' then OSpellingCorrection
     else if normalized = lit ''conversion'' then origin_from_attributes attributes
     else OUnknown source)"

text \<open>\<open>saturating_sub(1)\<close> of the bridge's one-based index, or the position in the list.\<close>

definition provider_rank_of :: "nat \<Rightarrow> u32 option \<Rightarrow> nat" where
  "provider_rank_of index i = (case i of None \<Rightarrow> index | Some v \<Rightarrow> unat v - 1)"

definition candidate_of_bridge :: "bool \<Rightarrow> nat \<Rightarrow> bridge_candidate \<Rightarrow> conversion_candidate" where
  "candidate_of_bridge diagnostics index c =
    \<lparr>cd_id = bc_id c, cd_text = bc_value c, cd_reading = bc_key c,
     cd_provider_rank = provider_rank_of index (bc_index c),
     cd_description = bc_description c,
     cd_origin = (case bc_source c of
         None \<Rightarrow> origin_from_attributes (bc_attributes c)
       | Some source \<Rightarrow> parse_origin source (bc_attributes c)),
     cd_attributes = bc_attributes c,
     cd_log = (if diagnostics then map_option (take 512) (bc_log c) else None)\<rparr>"

definition or_empty :: "'a list option \<Rightarrow> 'a list" where
  "or_empty x = (case x of None \<Rightarrow> [] | Some xs \<Rightarrow> xs)"

text \<open>The elapsed time in microseconds.\<close>

definition conversion_result_from_response :: "bool \<Rightarrow> bridge_response \<Rightarrow> bool \<Rightarrow> conversion_result" where
  "conversion_result_from_response diagnostics r default_consumed =
    \<lparr>cv_provider = (case br_provider r of None \<Rightarrow> lit ''Mozc'' | Some p \<Rightarrow> p),
     cv_reading = (case br_reading r of None \<Rightarrow> br_preedit r | Some s \<Rightarrow> s),
     cv_preedit = br_preedit r,
     cv_segments = map (\<lambda>s. \<lparr>ps_value = bs_value s, ps_reading = bs_key s, ps_highlighted = bs_highlighted s\<rparr>)
       (or_empty (br_segments r)),
     cv_candidates = map (\<lambda>(i, c). candidate_of_bridge diagnostics i c)
       (enumerate 0 (or_empty (br_candidates r))),
     cv_focused_index = br_focused_index r,
     cv_consumed = (case br_consumed r of None \<Rightarrow> default_consumed | Some b \<Rightarrow> b),
     cv_elapsed = unat (case br_elapsed_micros r of None \<Rightarrow> 0 | Some n \<Rightarrow> n)\<rparr>"

record mozc_session_state =
  mz_preedit :: rstr
  mz_reading :: rstr
  mz_segments :: "preedit_segment list"
  mz_candidates :: "conversion_candidate list"
  mz_focused_index :: "nat option"
  mz_consumed :: bool
  mz_elapsed :: nat

definition session_state_from_response :: "bool \<Rightarrow> bridge_response \<Rightarrow> bool \<Rightarrow> mozc_session_state" where
  "session_state_from_response diagnostics r default_consumed =
    (let result = conversion_result_from_response diagnostics r default_consumed in
     \<lparr>mz_preedit = cv_preedit result, mz_reading = cv_reading result, mz_segments = cv_segments result,
      mz_candidates = cv_candidates result, mz_focused_index = cv_focused_index result,
      mz_consumed = cv_consumed result, mz_elapsed = cv_elapsed result\<rparr>)"

end
