(* ===== verification/Mozc_Bridge.thy ===== *)
theory Mozc_Bridge
  imports Mozc_Wire
begin

text \<open>
  The clients of \<open>kanai-mozc/src/lib.rs\<close>: discovery and start of the bridge process, one
  exchange with it, the one-session provider \<open>MozcBridge\<close>, the pool of one supervised process
  and the client of one pooled session. The operating system is the parameter \<open>bridge_os\<close> over
  an arbitrary world \<open>'w\<close>. Every operation holds the operation lock from its first to its last
  effect, so it is one function of the state.
\<close>

section \<open>The operating system\<close>

type_synonym os_path = rstr

text \<open>What \<open>Command::spawn\<close> is given; the environment is cleared first.\<close>

record spawn_command =
  sc_program :: os_path
  sc_directory :: "os_path option"
  sc_argument :: rstr
  sc_inherit_stderr :: bool
  sc_env :: "(rstr \<times> rstr) list"

text \<open>How writing one line and reading one line ends: the bytes read come with what
  \<open>try_wait\<close> says of the child.\<close>

datatype exchange =
    EX_WriteFailed rstr | EX_ReadFailed rstr | EX_TimedOut | EX_Line "u8 list" "rstr + rstr"

datatype spawned = SP_Failed rstr | SP_NoStdin | SP_NoStdout | SP_Child nat

record 'w bridge_os =
  os_var :: "rstr \<Rightarrow> rstr option"
  os_windows :: bool
  os_unix :: bool
  os_is_file :: "os_path \<Rightarrow> 'w \<Rightarrow> bool"
  os_is_absolute :: "os_path \<Rightarrow> bool"
  os_join :: "os_path \<Rightarrow> rstr \<Rightarrow> os_path"
  os_parent :: "os_path \<Rightarrow> os_path option"
  os_display :: "os_path \<Rightarrow> rstr"
  os_create_dir_all :: "os_path \<Rightarrow> 'w \<Rightarrow> 'w \<times> (rstr + unit)"
  os_is_symlink :: "os_path \<Rightarrow> 'w \<Rightarrow> rstr + bool"
  os_set_mode :: "os_path \<Rightarrow> nat \<Rightarrow> 'w \<Rightarrow> 'w \<times> (rstr + unit)"
  os_spawn :: "spawn_command \<Rightarrow> 'w \<Rightarrow> 'w \<times> spawned"
  os_exchange :: "nat \<Rightarrow> rstr \<Rightarrow> 'w \<Rightarrow> 'w \<times> exchange"
  os_kill :: "nat \<Rightarrow> 'w \<Rightarrow> 'w"
  os_terminate :: "nat \<Rightarrow> 'w \<Rightarrow> 'w"
  os_parse :: "rstr \<Rightarrow> rstr + bridge_response"
  os_utf8_detail :: "u8 list \<Rightarrow> rstr"
  os_codec :: percent_codec

section \<open>Finding the bridge\<close>

definition BRIDGE_BINARY_STEMS :: "rstr list" where
  "BRIDGE_BINARY_STEMS = [lit ''kanai-mozc-bridge'', lit ''kanai_mozc_bridge'']"

definition BRIDGE_ENV_KEYS :: "rstr list" where
  "BRIDGE_ENV_KEYS = map lit [''HOME'', ''PATH'', ''LANG'', ''LC_ALL'', ''TZ'', ''TMPDIR'', ''TEMP'', ''TMP'',
     ''XDG_RUNTIME_DIR'', ''XDG_CONFIG_HOME'', ''XDG_DATA_HOME'', ''SYSTEMROOT'', ''WINDIR'', ''PATHEXT'']"

record bridge_config =
  bg_binary_path :: os_path
  bg_profile_dir :: os_path
  bg_request_timeout :: nat

definition non_empty_path :: "rstr option \<Rightarrow> os_path option" where
  "non_empty_path v = (case v of None \<Rightarrow> None | Some s \<Rightarrow> if s = [] then None else Some s)"

definition parent_directory :: "'w bridge_os \<Rightarrow> os_path \<Rightarrow> os_path option" where
  "parent_directory os path = non_empty_path (os_parent os path)"

definition default_profile_dir :: "'w bridge_os \<Rightarrow> os_path \<Rightarrow> os_path" where
  "default_profile_dir os root =
    (let unix = os_join os root (lit ''.local/share/kanai/mozc'') in
     if os_windows os then
       (case os_var os (lit ''LOCALAPPDATA'') of
          Some d \<Rightarrow> os_join os (os_join os d (lit ''KanaAI'')) (lit ''Mozc'')
        | None \<Rightarrow>
       (case os_var os (lit ''USERPROFILE'') of
          Some d \<Rightarrow> os_join os (os_join os (os_join os d (lit ''AppData/Local'')) (lit ''KanaAI'')) (lit ''Mozc'')
        | None \<Rightarrow> unix))
     else unix)"

definition bridge_file_names :: "rstr \<Rightarrow> rstr list" where
  "bridge_file_names suffix =
    (if suffix \<noteq> [] then map (\<lambda>stem. stem @ suffix) BRIDGE_BINARY_STEMS else []) @ BRIDGE_BINARY_STEMS"

definition bridge_candidates_in :: "'w bridge_os \<Rightarrow> rstr \<Rightarrow> os_path \<Rightarrow> os_path list" where
  "bridge_candidates_in os suffix directory = map (os_join os directory) (bridge_file_names suffix)"

definition add_directory :: "os_path \<Rightarrow> os_path list \<Rightarrow> os_path list" where
  "add_directory d ds = (if d \<in> set ds then ds else ds @ [d])"

definition executable_search_directories :: "'w bridge_os \<Rightarrow> os_path \<Rightarrow> os_path list" where
  "executable_search_directories os executable =
    (case parent_directory os executable of
       None \<Rightarrow> []
     | Some e \<Rightarrow> fold add_directory
         ([e, os_join os e (lit ''runtime''), os_join os e (lit ''bin'')] @
          (case parent_directory os e of
             None \<Rightarrow> []
           | Some p \<Rightarrow> [os_join os p (lit ''runtime''), os_join os p (lit ''bin''), p])) [])"

definition fallback_bridge_path :: "'w bridge_os \<Rightarrow> os_path \<Rightarrow> os_path option \<Rightarrow> rstr \<Rightarrow> os_path" where
  "fallback_bridge_path os root executable suffix =
    (case Option.bind executable (parent_directory os) of
       Some d \<Rightarrow> os_join os d (case bridge_file_names suffix of n # _ \<Rightarrow> n | [] \<Rightarrow> BRIDGE_BINARY_STEMS ! 0)
     | None \<Rightarrow> os_join os (os_join os root (lit ''third_party/mozc/src/bazel-bin/kanai''))
         (if suffix = [] then BRIDGE_BINARY_STEMS ! 1 else (BRIDGE_BINARY_STEMS ! 1) @ suffix))"

definition root_search_directories :: "'w bridge_os \<Rightarrow> os_path \<Rightarrow> os_path list" where
  "root_search_directories os root = map (os_join os root)
    [lit ''bin'', lit ''runtime'', lit ''third_party/mozc/src/bazel-bin/kanai'',
     lit ''third_party/mozc/src/bazel-bin/src/kanai'', lit ''third_party/mozc/bazel-bin/src/kanai'',
     lit ''target/debug'', lit ''target/release'', lit ''target/x86_64-pc-windows-msvc/debug'',
     lit ''target/x86_64-pc-windows-msvc/release'']"

definition find_bridge_binary_with_suffix ::
    "'w bridge_os \<Rightarrow> 'w \<Rightarrow> os_path \<Rightarrow> os_path option \<Rightarrow> rstr \<Rightarrow> os_path" where
  "find_bridge_binary_with_suffix os w root executable suffix =
    (let directories = (case executable of None \<Rightarrow> [] | Some e \<Rightarrow> executable_search_directories os e) @
           root_search_directories os root;
         candidates = concat (map (bridge_candidates_in os suffix) directories)
     in case find (\<lambda>p. os_is_file os p w) candidates of
       Some p \<Rightarrow> p
     | None \<Rightarrow> fallback_bridge_path os root executable suffix)"

definition platform_executable_suffix :: "'w bridge_os \<Rightarrow> rstr" where
  "platform_executable_suffix os = (if os_windows os then lit ''.exe'' else [])"

definition configured_bridge_path :: "'w bridge_os \<Rightarrow> 'w \<Rightarrow> os_path option \<Rightarrow> os_path option" where
  "configured_bridge_path os w executable =
    (case non_empty_path (os_var os (lit ''KANAI_MOZC_BRIDGE'')) of
       None \<Rightarrow> None
     | Some path \<Rightarrow>
         if os_is_absolute os path \<or> os_is_file os path w then Some path
         else case executable of
           None \<Rightarrow> Some path
         | Some e \<Rightarrow>
             (case find (\<lambda>p. os_is_file os p w) (map (\<lambda>d. os_join os d path) (executable_search_directories os e)) of
                Some p \<Rightarrow> Some p
              | None \<Rightarrow> Some path))"

text \<open>\<open>MozcBridgeConfig::default\<close>, given the manifest root and the current executable.\<close>

definition default_bridge_config :: "'w bridge_os \<Rightarrow> 'w \<Rightarrow> os_path \<Rightarrow> os_path option \<Rightarrow> bridge_config" where
  "default_bridge_config os w root executable =
    \<lparr>bg_binary_path = (case configured_bridge_path os w executable of
         Some p \<Rightarrow> p
       | None \<Rightarrow> find_bridge_binary_with_suffix os w root executable (platform_executable_suffix os)),
     bg_profile_dir = (case non_empty_path (os_var os (lit ''KANAI_MOZC_PROFILE'')) of
         Some p \<Rightarrow> p | None \<Rightarrow> default_profile_dir os root),
     bg_request_timeout = 5\<rparr>"

section \<open>The process\<close>

definition diagnostics_enabled :: "'w bridge_os \<Rightarrow> bool" where
  "diagnostics_enabled os =
    (case os_var os (lit ''KANAI_DIAGNOSTICS'') of
       None \<Rightarrow> False
     | Some v \<Rightarrow> v = lit ''1'' \<or> eq_ignore_ascii_case v (lit ''true''))"

definition bridge_environment :: "'w bridge_os \<Rightarrow> (rstr \<times> rstr) list" where
  "bridge_environment os =
    List.map_filter (\<lambda>key. map_option (\<lambda>v. (key, v)) (os_var os key)) BRIDGE_ENV_KEYS"

definition secure_profile_permissions :: "'w bridge_os \<Rightarrow> os_path \<Rightarrow> 'w \<Rightarrow> 'w \<times> (provider_error + unit)" where
  "secure_profile_permissions os path w =
    (case os_is_symlink os path w of
       Inl e \<Rightarrow> (w, Inl (PV_Io e))
     | Inr True \<Rightarrow> (w, Inl (PV_Unavailable (lit ''Mozc profile path must not be a symlink'')))
     | Inr False \<Rightarrow>
         if os_unix os then
           (case os_set_mode os path 448 w of
              (w, Inl e) \<Rightarrow> (w, Inl (PV_Io e))
            | (w, Inr _) \<Rightarrow> (w, Inr ()))
         else (w, Inr ()))"

definition spawn_command_of :: "'w bridge_os \<Rightarrow> bridge_config \<Rightarrow> spawn_command" where
  "spawn_command_of os c =
    \<lparr>sc_program = bg_binary_path c,
     sc_directory = (if os_is_absolute os (bg_binary_path c) then parent_directory os (bg_binary_path c) else None),
     sc_argument = lit ''--profile='' @ os_display os (bg_profile_dir c),
     sc_inherit_stderr = diagnostics_enabled os,
     sc_env = bridge_environment os\<rparr>"

definition process_start :: "'w bridge_os \<Rightarrow> bridge_config \<Rightarrow> 'w \<Rightarrow> 'w \<times> (provider_error + nat)" where
  "process_start os c w =
    (if bg_binary_path c = [] \<or> \<not> os_is_file os (bg_binary_path c) w
     then (w, Inl (PV_Unavailable (lit ''Mozc bridge not found at '' @ os_display os (bg_binary_path c) @
       lit ''. Set KANAI_MOZC_BRIDGE or install kanai-mozc-bridge next to the API/CLI executable.'')))
     else if bg_profile_dir c = []
     then (w, Inl (PV_Unavailable (lit ''Mozc profile path must not be empty'')))
     else case os_create_dir_all os (bg_profile_dir c) w of
       (w, Inl e) \<Rightarrow> (w, Inl (PV_Io e))
     | (w, Inr _) \<Rightarrow>
    (case secure_profile_permissions os (bg_profile_dir c) w of
       (w, Inl e) \<Rightarrow> (w, Inl e)
     | (w, Inr _) \<Rightarrow>
    (case os_spawn os (spawn_command_of os c) w of
       (w, SP_Failed e) \<Rightarrow> (w, Inl (PV_Io e))
     | (w, SP_NoStdin) \<Rightarrow> (w, Inl (PV_Protocol (lit ''bridge stdin is unavailable'')))
     | (w, SP_NoStdout) \<Rightarrow> (w, Inl (PV_Protocol (lit ''bridge stdout is unavailable'')))
     | (w, SP_Child i) \<Rightarrow> (w, Inr i))))"

text \<open>\<open>BridgeProcess::call\<close> under the caller's timeout: \<open>None\<close> when it is over.\<close>

definition bridge_answer :: "'w bridge_os \<Rightarrow> exchange \<Rightarrow> (provider_error + bridge_response) option" where
  "bridge_answer os x =
    (case x of
       EX_TimedOut \<Rightarrow> None
     | EX_WriteFailed e \<Rightarrow> Some (Inl (PV_Io e))
     | EX_ReadFailed e \<Rightarrow> Some (Inl (PV_Io e))
     | EX_Line line status \<Rightarrow> Some
         (if length line > 1048576 then Inl (PV_Protocol (lit ''Mozc bridge response exceeds 1 MiB''))
          else if line = [] then
            (case status of
               Inl e \<Rightarrow> Inl (PV_Io e)
             | Inr s \<Rightarrow> Inl (PV_Unavailable (lit ''Mozc bridge exited: '' @ s)))
          else case from_utf8 line of
            None \<Rightarrow> Inl (PV_Protocol (lit ''bridge response is not UTF-8: '' @ os_utf8_detail os line))
          | Some s \<Rightarrow>
         (case os_parse os (trim_end s) of
            Inl e \<Rightarrow> Inl (PV_Protocol (lit ''invalid bridge JSON ('' @ e @ lit '')''))
          | Inr r \<Rightarrow> Inr r)))"

section \<open>The one-session provider\<close>

record mozc_bridge =
  mb_process :: "nat option"
  mb_last_revision :: "u64 option"

definition mozc_bridge_new :: mozc_bridge where
  "mozc_bridge_new = \<lparr>mb_process = None, mb_last_revision = None\<rparr>"

type_synonym ('s, 'w, 'a) bridge_outcome = "('s \<times> 'w) \<times> (provider_error + 'a)"

definition mozc_ensure_started ::
    "'w bridge_os \<Rightarrow> bridge_config \<Rightarrow> mozc_bridge \<times> 'w \<Rightarrow> (mozc_bridge, 'w, nat) bridge_outcome" where
  "mozc_ensure_started os c mw =
    (case mw of (m, w) \<Rightarrow>
     case mb_process m of
       Some i \<Rightarrow> ((m, w), Inr i)
     | None \<Rightarrow>
    (case process_start os c w of
       (w, Inl e) \<Rightarrow> ((m, w), Inl e)
     | (w, Inr i) \<Rightarrow> ((m\<lparr>mb_process := Some i\<rparr>, w), Inr i)))"

text \<open>Dropping the process kills it.\<close>

definition mozc_call ::
    "'w bridge_os \<Rightarrow> bridge_config \<Rightarrow> rstr \<Rightarrow> mozc_bridge \<times> 'w \<Rightarrow> (mozc_bridge, 'w, bridge_response) bridge_outcome" where
  "mozc_call os c command mw =
    (case mozc_ensure_started os c mw of
       ((m, w), Inl e) \<Rightarrow> ((m, w), Inl e)
     | ((m, w), Inr i) \<Rightarrow>
    (case os_exchange os i command w of (w, x) \<Rightarrow>
       let dropped = (m\<lparr>mb_process := None\<rparr>, os_kill os i w)
       in case bridge_answer os x of
            None \<Rightarrow> (dropped, Inl (PV_Timeout (bg_request_timeout c)))
          | Some (Inl e) \<Rightarrow> (dropped, Inl e)
          | Some (Inr r) \<Rightarrow> ((m, w), if br_ok r then Inr r else Inl (PV_Protocol (br_error r)))))"

definition set_revision :: "u64 option \<Rightarrow> mozc_bridge \<times> 'w \<Rightarrow> mozc_bridge \<times> 'w" where
  "set_revision r mw = (case mw of (m, w) \<Rightarrow> (m\<lparr>mb_last_revision := r\<rparr>, w))"

definition mozc_convert ::
    "'w bridge_os \<Rightarrow> bridge_config \<Rightarrow> conversion_request \<Rightarrow> mozc_bridge \<times> 'w \<Rightarrow> (mozc_bridge, 'w, conversion_result) bridge_outcome" where
  "mozc_convert os c q mw =
    (case validate_conversion_request q of
       Inl e \<Rightarrow> (mw, Inl e)
     | Inr _ \<Rightarrow>
    (case mozc_call os c (legacy_convert_command (os_codec os) q) (set_revision None mw) of
       (mw, Inl e) \<Rightarrow> (mw, Inl e)
     | (mw, Inr r) \<Rightarrow>
         if br_generation r \<noteq> Some (cn_revision q)
         then (mw, Inl (PV_Protocol (lit ''Mozc bridge returned a different conversion generation'')))
         else (set_revision (Some (cn_revision q)) mw,
               Inr (conversion_result_from_response (diagnostics_enabled os) r True))))"

text \<open>The text of a commit and its milliseconds.\<close>

definition commit_answer :: "bridge_response \<Rightarrow> provider_error + commit_result" where
  "commit_answer r =
    (case (case br_text r of Some t \<Rightarrow> Some t | None \<Rightarrow> br_result r) of
       None \<Rightarrow> Inl (PV_Protocol (lit ''commit response has no text''))
     | Some t \<Rightarrow> Inr \<lparr>ci_text = t,
         ci_elapsed_millis = (case br_elapsed_micros r of None \<Rightarrow> 0 | Some n \<Rightarrow> n) div 1000\<rparr>)"

definition mozc_commit_inner ::
    "'w bridge_os \<Rightarrow> bridge_config \<Rightarrow> i32 \<Rightarrow> u64 option \<Rightarrow> mozc_bridge \<times> 'w \<Rightarrow> (mozc_bridge, 'w, commit_result) bridge_outcome" where
  "mozc_commit_inner os c i expected mw =
    (case (case expected of Some r \<Rightarrow> Some r | None \<Rightarrow> mb_last_revision (fst mw)) of
       None \<Rightarrow> (mw, Inl (PV_Unavailable (lit ''no Mozc conversion is active'')))
     | Some revision \<Rightarrow>
    (case mozc_call os c (legacy_commit_command i revision) mw of
       (mw, Inl e) \<Rightarrow> (set_revision None mw, Inl e)
     | (mw, Inr r) \<Rightarrow>
         if br_generation r \<noteq> Some revision
         then (set_revision None mw, Inl (PV_Protocol (lit ''Mozc bridge returned a different commit generation'')))
         else (set_revision None mw, commit_answer r)))"

definition mozc_commit where "mozc_commit os c i = mozc_commit_inner os c i None"
definition mozc_commit_at where "mozc_commit_at os c i revision = mozc_commit_inner os c i (Some revision)"

definition mozc_reset ::
    "'w bridge_os \<Rightarrow> bridge_config \<Rightarrow> mozc_bridge \<times> 'w \<Rightarrow> (mozc_bridge, 'w, unit) bridge_outcome" where
  "mozc_reset os c mw =
    (case mozc_call os c (lit ''reset'') mw of
       (mw, Inl e) \<Rightarrow> (mw, Inl e)
     | (mw, Inr _) \<Rightarrow> (set_revision None mw, Inr ()))"

record provider_capabilities =
  pk_name :: rstr
  pk_romaji :: bool
  pk_kana :: bool
  pk_n_best :: bool
  pk_context :: bool
  pk_user_dictionary :: bool
  pk_local :: bool

record provider_health =
  ph_available :: bool
  ph_provider :: rstr
  ph_detail :: rstr
  ph_capabilities :: provider_capabilities

definition mozc_capabilities :: provider_capabilities where
  "mozc_capabilities = \<lparr>pk_name = lit ''Mozc'', pk_romaji = True, pk_kana = True, pk_n_best = True,
     pk_context = True, pk_user_dictionary = False, pk_local = True\<rparr>"

definition health_of :: "(nat \<Rightarrow> rstr) \<Rightarrow> provider_error + bridge_response \<Rightarrow> provider_health" where
  "health_of debug r =
    (case r of
       Inr r \<Rightarrow> \<lparr>ph_available = True, ph_provider = (case br_provider r of None \<Rightarrow> lit ''Mozc'' | Some p \<Rightarrow> p),
         ph_detail = (case br_detail r of None \<Rightarrow> lit ''bridge ready'' | Some d \<Rightarrow> d),
         ph_capabilities = mozc_capabilities\<rparr>
     | Inl e \<Rightarrow> \<lparr>ph_available = False, ph_provider = lit ''Mozc'', ph_detail = provider_error_text debug e,
         ph_capabilities = mozc_capabilities\<rparr>)"

definition mozc_health where
  "mozc_health os c debug mw = (case mozc_call os c (lit ''ping'') mw of (mw, r) \<Rightarrow> (mw, health_of debug r))"

section \<open>The pool\<close>

record mozc_pool =
  mp_process :: "nat option"
  mp_epoch :: u64
  mp_failed :: bool

definition mozc_pool_new :: mozc_pool where
  "mozc_pool_new = \<lparr>mp_process = None, mp_epoch = 0, mp_failed = False\<rparr>"

text \<open>The failed child is taken out, the epoch advances, and the child is stopped.\<close>

definition pool_lose :: "'w bridge_os \<Rightarrow> nat \<Rightarrow> mozc_pool \<times> 'w \<Rightarrow> mozc_pool \<times> 'w" where
  "pool_lose os i pw = (case pw of (p, w) \<Rightarrow>
     (p\<lparr>mp_process := None, mp_failed := True, mp_epoch := mp_epoch p + 1\<rparr>, os_terminate os i w))"

definition pool_call ::
    "'w bridge_os \<Rightarrow> bridge_config \<Rightarrow> rstr \<Rightarrow> mozc_pool \<times> 'w \<Rightarrow> (mozc_pool, 'w, bridge_response) bridge_outcome" where
  "pool_call os c command pw =
    (case pw of (p, w) \<Rightarrow>
     if mp_failed p
     then ((p, w), Inl (PV_Unavailable
       (lit ''Mozc bridge is unavailable after a child failure; explicit restart required'')))
     else
       (let (p, w, started) = (case mp_process p of
              Some i \<Rightarrow> (p, w, Inr i)
            | None \<Rightarrow>
           (case process_start os c w of
              (w, Inl e) \<Rightarrow> (p\<lparr>mp_failed := True\<rparr>, w, Inl e)
            | (w, Inr i) \<Rightarrow> (p\<lparr>mp_process := Some i\<rparr>, w, Inr i)))
        in case started of
          Inl e \<Rightarrow> ((p, w), Inl e)
        | Inr i \<Rightarrow>
       (case os_exchange os i command w of (w, x) \<Rightarrow>
          (case bridge_answer os x of
             None \<Rightarrow> (pool_lose os i (p, w), Inl (PV_Timeout (bg_request_timeout c)))
           | Some (Inl e) \<Rightarrow> (pool_lose os i (p, w), Inl e)
           | Some (Inr r) \<Rightarrow> ((p, w), if br_ok r then Inr r else Inl (PV_Protocol (br_error r)))))))"

definition pool_restart ::
    "'w bridge_os \<Rightarrow> bridge_config \<Rightarrow> mozc_pool \<times> 'w \<Rightarrow> (mozc_pool, 'w, unit) bridge_outcome" where
  "pool_restart os c pw =
    (case pw of (p, w) \<Rightarrow>
     let w = (case mp_process p of None \<Rightarrow> w | Some i \<Rightarrow> os_terminate os i w);
         p = p\<lparr>mp_process := None, mp_failed := False, mp_epoch := mp_epoch p + 1\<rparr>
     in case process_start os c w of
          (w, Inr i) \<Rightarrow> ((p\<lparr>mp_process := Some i\<rparr>, w), Inr ())
        | (w, Inl e) \<Rightarrow> ((p\<lparr>mp_failed := True\<rparr>, w), Inl e))"

definition pool_health where
  "pool_health os c debug pw = (case pool_call os c (lit ''ping'') pw of (pw, r) \<Rightarrow> (pw, health_of debug r))"

section \<open>The client of one session\<close>

text \<open>A call, and what is made of its response.\<close>

definition client_call ::
    "'w bridge_os \<Rightarrow> bridge_config \<Rightarrow> rstr \<Rightarrow> (bridge_response \<Rightarrow> provider_error + 'a) \<Rightarrow> mozc_pool \<times> 'w \<Rightarrow>
     (mozc_pool, 'w, 'a) bridge_outcome" where
  "client_call os c command k pw =
    (case pool_call os c command pw of (pw, r) \<Rightarrow> (pw, bind_result r k))"

definition protocol_unless :: "bool \<Rightarrow> string \<Rightarrow> 'a \<Rightarrow> provider_error + 'a" where
  "protocol_unless b message x = (if b then Inr x else Inl (PV_Protocol (lit message)))"

definition client_open ::
    "'w bridge_os \<Rightarrow> bridge_config \<Rightarrow> u64 \<Rightarrow> mozc_pool \<times> 'w \<Rightarrow> (mozc_pool, 'w, unit) bridge_outcome" where
  "client_open os c sid pw =
    (if sid = 0 then (pw, Inl (PV_InvalidRequest (lit ''bridge session id must be non-zero'')))
     else client_call os c (open_command sid)
       (\<lambda>r. protocol_unless (br_session_id r = Some sid \<and> br_generation r = Some 0)
          ''Mozc bridge returned an uncorrelated open response'' ()) pw)"

definition client_close_at ::
    "'w bridge_os \<Rightarrow> bridge_config \<Rightarrow> u64 \<Rightarrow> u64 option \<Rightarrow> mozc_pool \<times> 'w \<Rightarrow> (mozc_pool, 'w, unit) bridge_outcome" where
  "client_close_at os c sid g =
    client_call os c (close_command sid g)
      (\<lambda>r. protocol_unless (br_session_id r = Some sid \<and>
            (case g of None \<Rightarrow> True | Some g \<Rightarrow> br_generation r = Some g))
         ''Mozc bridge returned an uncorrelated close response'' ())"

definition client_close where "client_close os c sid = client_close_at os c sid None"

text \<open>The state after a key or an edit, whose generation must be the next one.\<close>

definition next_state :: "bool \<Rightarrow> u64 \<Rightarrow> string \<Rightarrow> string \<Rightarrow> bridge_response \<Rightarrow> provider_error + mozc_session_state" where
  "next_state diagnostics g exhausted different r =
    (case checked_add_u64 g 1 of
       None \<Rightarrow> Inl (PV_Protocol (lit exhausted))
     | Some g' \<Rightarrow> protocol_unless (br_generation r = Some g') different
         (session_state_from_response diagnostics r True))"

definition client_key ::
    "'w bridge_os \<Rightarrow> bridge_config \<Rightarrow> u64 \<Rightarrow> mozc_key \<Rightarrow> u64 \<Rightarrow> mozc_pool \<times> 'w \<Rightarrow> (mozc_pool, 'w, mozc_session_state) bridge_outcome" where
  "client_key os c sid key g pw =
    (case key_fields (os_codec os) key of
       Inl e \<Rightarrow> (pw, Inl e)
     | Inr f \<Rightarrow> client_call os c (key_command sid g f)
         (next_state (diagnostics_enabled os) g ''Mozc key generation is exhausted''
            ''Mozc bridge returned a different key generation'') pw)"

definition client_edit ::
    "'w bridge_os \<Rightarrow> bridge_config \<Rightarrow> u64 \<Rightarrow> mozc_edit \<Rightarrow> u64 \<Rightarrow> mozc_pool \<times> 'w \<Rightarrow> (mozc_pool, 'w, mozc_session_state) bridge_outcome" where
  "client_edit os c sid edit g pw =
    (case edit_fields (os_codec os) edit of
       Inl e \<Rightarrow> (pw, Inl e)
     | Inr fs \<Rightarrow> client_call os c (edit_command sid g fs)
         (next_state (diagnostics_enabled os) g ''Mozc edit generation is exhausted''
            ''Mozc bridge returned a different edit generation'') pw)"

definition client_convert ::
    "'w bridge_os \<Rightarrow> bridge_config \<Rightarrow> u64 \<Rightarrow> conversion_request \<Rightarrow> mozc_pool \<times> 'w \<Rightarrow> (mozc_pool, 'w, conversion_result) bridge_outcome" where
  "client_convert os c sid q pw =
    (case validate_conversion_request q of
       Inl e \<Rightarrow> (pw, Inl e)
     | Inr _ \<Rightarrow> client_call os c (convert_command (os_codec os) sid q)
         (\<lambda>r. protocol_unless (br_generation r = Some (cn_revision q))
            ''Mozc bridge returned a different conversion generation''
            (conversion_result_from_response (diagnostics_enabled os) r True)) pw)"

definition client_commit ::
    "'w bridge_os \<Rightarrow> bridge_config \<Rightarrow> u64 \<Rightarrow> i32 \<Rightarrow> u64 \<Rightarrow> mozc_pool \<times> 'w \<Rightarrow> (mozc_pool, 'w, commit_result) bridge_outcome" where
  "client_commit os c sid i g =
    client_call os c (commit_command sid i g)
      (\<lambda>r. bind_result (protocol_unless (br_generation r = Some g)
           ''Mozc bridge returned a different commit generation'' r) commit_answer)"

definition client_cancel ::
    "'w bridge_os \<Rightarrow> bridge_config \<Rightarrow> u64 \<Rightarrow> u64 option \<Rightarrow> mozc_pool \<times> 'w \<Rightarrow> (mozc_pool, 'w, unit) bridge_outcome" where
  "client_cancel os c sid g =
    client_call os c (cancel_command sid g)
      (\<lambda>r. protocol_unless (br_session_id r = Some sid \<and>
            (case g of None \<Rightarrow> True
             | Some g \<Rightarrow> (case checked_add_u64 g 1 of None \<Rightarrow> False | Some g' \<Rightarrow> br_generation r = Some g')))
         ''Mozc bridge returned an uncorrelated cancel response'' ())"

end
