(* ===== verification/Mozc_Session.thy ===== *)
theory Mozc_Session
  imports Mozc_Bridge Deterministic_Backend Frame
begin

text \<open>
  The Mozc-backed session owner of \<open>kanai-broker/src/mozc_session.rs\<close>: a table of sessions, each
  with the epoch of the bridge process it was opened in and what the broker needs of its last
  conversion, over one shared pool. The operations are those of the \<open>SessionBackend\<close> seam; each
  is one function of the backend and the world.
\<close>

section \<open>State\<close>

record local_session =
  lo_composition :: rstr
  lo_candidates :: "(u64, i32) fmap"
  lo_active :: "u64 option"

definition local_empty :: local_session where
  "local_empty = \<lparr>lo_composition = [], lo_candidates = fmempty, lo_active = None\<rparr>"

record mozc_entry =
  me_epoch :: u64
  me_local :: local_session

record mozc_backend =
  ms_pool :: mozc_pool
  ms_sessions :: "(u64, mozc_entry) fmap"

definition mozc_backend_new :: mozc_backend where
  "mozc_backend_new = \<lparr>ms_pool = mozc_pool_new, ms_sessions = fmempty\<rparr>"

definition set_local :: "u64 \<Rightarrow> local_session \<Rightarrow> mozc_backend \<Rightarrow> mozc_backend" where
  "set_local sid l b =
    (case fmlookup (ms_sessions b) sid of
       None \<Rightarrow> b
     | Some e \<Rightarrow> b\<lparr>ms_sessions := fmupd sid (e\<lparr>me_local := l\<rparr>) (ms_sessions b)\<rparr>)"

definition clear_sessions :: "mozc_backend \<Rightarrow> mozc_backend" where
  "clear_sessions b = b\<lparr>ms_sessions := fmempty\<rparr>"

section \<open>Errors\<close>

fun of_provider_error :: "provider_error \<Rightarrow> backend_error" where
  "of_provider_error (PV_Unavailable m) = BE_Unavailable m"
| "of_provider_error (PV_InvalidRequest m) = BE_Rejected m"
| "of_provider_error (PV_UnknownCandidate i) = BE_Protocol (lit ''unknown Mozc candidate '' @ dec_i32 i)"
| "of_provider_error (PV_Io m) = BE_Unavailable m"
| "of_provider_error (PV_Timeout _) = BE_Timeout"
| "of_provider_error (PV_Protocol m) = BE_Protocol m"

definition transport_failure :: "provider_error \<Rightarrow> bool" where
  "transport_failure e \<longleftrightarrow> (case e of PV_Unavailable _ \<Rightarrow> True | PV_Io _ \<Rightarrow> True | PV_Timeout _ \<Rightarrow> True | _ \<Rightarrow> False)"

definition classify_client_error :: "u64 \<Rightarrow> provider_error \<Rightarrow> mozc_backend \<Rightarrow> mozc_backend \<times> backend_error" where
  "classify_client_error epoch e b =
    (if transport_failure e \<and> (mp_failed (ms_pool b) \<or> mp_epoch (ms_pool b) \<noteq> epoch)
     then (clear_sessions b, BE_SessionInvalidated)
     else (b, of_provider_error e))"

text \<open>A client operation on the pool, lifted to the backend (\<open>client_result\<close>).\<close>

definition with_client ::
    "u64 \<Rightarrow> (mozc_pool \<times> 'w \<Rightarrow> (mozc_pool, 'w, 'a) bridge_outcome) \<Rightarrow> mozc_backend \<times> 'w \<Rightarrow>
     (mozc_backend \<times> 'w) \<times> (backend_error + 'a)" where
  "with_client epoch f bw =
    (case bw of (b, w) \<Rightarrow>
     case f (ms_pool b, w) of ((p, w), r) \<Rightarrow>
       let b = b\<lparr>ms_pool := p\<rparr>
       in case r of
            Inr x \<Rightarrow> ((b, w), Inr x)
          | Inl e \<Rightarrow> (case classify_client_error epoch e b of (b, e) \<Rightarrow> ((b, w), Inl e)))"

definition find_mozc_session :: "u64 \<Rightarrow> mozc_backend \<Rightarrow> mozc_backend \<times> (backend_error + mozc_entry)" where
  "find_mozc_session sid b =
    (if mp_failed (ms_pool b) then (clear_sessions b, Inl BE_SessionInvalidated)
     else case fmlookup (ms_sessions b) sid of
       None \<Rightarrow> (b, Inl (BE_Protocol (lit ''unknown Mozc session'')))
     | Some e \<Rightarrow>
         if me_epoch e \<noteq> mp_epoch (ms_pool b) then (clear_sessions b, Inl BE_SessionInvalidated)
         else (b, Inr e))"

section \<open>Edits of the composition\<close>

definition ADAPTER_BOUND :: nat where "ADAPTER_BOUND = 1024"

definition exceeds_bound :: backend_error where
  "exceeds_bound = BE_Protocol (lit ''Mozc composition exceeds the adapter bound'')"

definition mozc_scalar_index :: "rstr \<Rightarrow> u32 \<Rightarrow> backend_error + nat" where
  "mozc_scalar_index t index =
    (let i = unat index in
     if i < length t then Inr (blen (take i t))
     else if i = length t then Inr (blen t)
     else Inl (BE_Protocol (lit ''edit range is outside composition'')))"

definition append_bounded :: "rstr \<Rightarrow> rstr \<Rightarrow> backend_error + rstr" where
  "append_bounded t v = (if blen t + blen v > ADAPTER_BOUND then Inl exceeds_bound else Inr (t @ v))"

text \<open>
  \<open>apply_edit\<close>; \<open>None\<close> is the panic of \<open>String::replace_range\<close>. A range that is reversed is
  refused before the bound is looked at, and a deletion has no bound.
\<close>

fun mozc_apply_edit :: "edit_action \<Rightarrow> rstr \<Rightarrow> (backend_error + rstr) option" where
  "mozc_apply_edit (Insert v) t = Some (append_bounded t v)"
| "mozc_apply_edit (Replace r v) t =
    (case mozc_scalar_index t (range_start r) of
       Inl e \<Rightarrow> Some (Inl e)
     | Inr i \<Rightarrow>
    (case mozc_scalar_index t (range_end r) of
       Inl e \<Rightarrow> Some (Inl e)
     | Inr j \<Rightarrow>
         if i > j then Some (Inl (BE_Protocol (lit ''edit range is reversed'')))
         else if blen t - (j - i) + blen v > ADAPTER_BOUND then Some (Inl exceeds_bound)
         else map_option Inr (replace_bytes i j v t)))"
| "mozc_apply_edit (DeleteRange r) t =
    (case mozc_scalar_index t (range_start r) of
       Inl e \<Rightarrow> Some (Inl e)
     | Inr i \<Rightarrow>
    (case mozc_scalar_index t (range_end r) of
       Inl e \<Rightarrow> Some (Inl e)
     | Inr j \<Rightarrow>
         if i > j then Some (Inl (BE_Protocol (lit ''edit range is reversed'')))
         else map_option Inr (replace_bytes i j [] t)))"
| "mozc_apply_edit Reset t = Some (Inr [])"

section \<open>Keys and edits for the bridge\<close>

fun mozc_key_of :: "key_event \<Rightarrow> mozc_key" where
  "mozc_key_of (Character v) = MK_Character v"
| "mozc_key_of Space = MK_Space"
| "mozc_key_of Backspace = MK_Backspace"
| "mozc_key_of Delete = MK_Delete"
| "mozc_key_of Escape = MK_Escape"
| "mozc_key_of Tab = MK_Tab"
| "mozc_key_of Enter = MK_Enter"
| "mozc_key_of Left = MK_Left"
| "mozc_key_of Right = MK_Right"
| "mozc_key_of Up = MK_Up"
| "mozc_key_of Down = MK_Down"
| "mozc_key_of (Function n) = MK_Function n"
| "mozc_key_of (Named v) = MK_Named v"

fun mozc_edit_of :: "edit_action \<Rightarrow> mozc_edit" where
  "mozc_edit_of (Insert v) = ME_Insert v"
| "mozc_edit_of (Replace r v) = ME_Replace (range_start r) (range_end r) v"
| "mozc_edit_of (DeleteRange r) = ME_Delete (range_start r) (range_end r)"
| "mozc_edit_of Reset = ME_Reset"

section \<open>Operations\<close>

definition mozc_create ::
    "'w bridge_os \<Rightarrow> bridge_config \<Rightarrow> create_session_request \<Rightarrow> mozc_backend \<times> 'w \<Rightarrow>
     (mozc_backend \<times> 'w) \<times> (backend_error + response_payload)" where
  "mozc_create os c q bw =
    (case bw of (b, w) \<Rightarrow>
     let sid = cs_session_id q; exists = BE_Protocol (lit ''Mozc session already exists'') in
     if sid |\<in>| fmdom (ms_sessions b) then ((b, w), Inl exists)
     else
       (let (b, w, ready) = (if mp_failed (ms_pool b)
              then (case pool_restart os c (ms_pool b, w) of
                  ((p, w), r) \<Rightarrow> (b\<lparr>ms_pool := p\<rparr>, w, r))
              else (b, w, Inr ()))
        in case ready of
          Inl e \<Rightarrow> ((b, w), Inl (of_provider_error e))
        | Inr _ \<Rightarrow>
            (let epoch = mp_epoch (ms_pool b) in
             case with_client epoch (client_open os c sid) (b, w) of
               ((b, w), Inl e) \<Rightarrow> ((b, w), Inl e)
             | ((b, w), Inr _) \<Rightarrow>
                 if sid |\<in>| fmdom (ms_sessions b)
                 then (case client_close os c sid (ms_pool b, w) of
                     ((p, w), _) \<Rightarrow> ((b\<lparr>ms_pool := p\<rparr>, w), Inl exists))
                 else ((b\<lparr>ms_sessions := fmupd sid \<lparr>me_epoch = epoch, me_local = local_empty\<rparr> (ms_sessions b)\<rparr>, w),
                   Inr (CreatedResp \<lparr>sc_session_id = sid, sc_generation = 0, sc_fallback = FM_None\<rparr>)))))"

text \<open>An operation on an existing session: \<open>session(id)\<close>, then the body with its entry.\<close>

definition on_session ::
    "u64 \<Rightarrow> (mozc_entry \<Rightarrow> mozc_backend \<times> 'w \<Rightarrow> (mozc_backend \<times> 'w) \<times> (backend_error + response_payload)) \<Rightarrow>
     mozc_backend \<times> 'w \<Rightarrow> (mozc_backend \<times> 'w) \<times> (backend_error + response_payload)" where
  "on_session sid body bw =
    (case bw of (b, w) \<Rightarrow>
     case find_mozc_session sid b of
       (b, Inl e) \<Rightarrow> ((b, w), Inl e)
     | (b, Inr e) \<Rightarrow> body e (b, w))"

text \<open>A client operation within the body: its error ends the operation.\<close>

definition then_client ::
    "u64 \<Rightarrow> (mozc_pool \<times> 'w \<Rightarrow> (mozc_pool, 'w, 'a) bridge_outcome) \<Rightarrow>
     ('a \<Rightarrow> mozc_backend \<Rightarrow> mozc_backend \<times> (backend_error + response_payload)) \<Rightarrow>
     mozc_backend \<times> 'w \<Rightarrow> (mozc_backend \<times> 'w) \<times> (backend_error + response_payload)" where
  "then_client epoch f k bw =
    (case with_client epoch f bw of
       (bw, Inl e) \<Rightarrow> (bw, Inl e)
     | ((b, w), Inr x) \<Rightarrow> (case k x b of (b, r) \<Rightarrow> ((b, w), r)))"

definition mozc_key_session ::
    "'w bridge_os \<Rightarrow> bridge_config \<Rightarrow> key_request \<Rightarrow> mozc_backend \<times> 'w \<Rightarrow>
     (mozc_backend \<times> 'w) \<times> (backend_error + response_payload)" where
  "mozc_key_session os c q =
    on_session (kq_session_id q) (\<lambda>e.
      then_client (me_epoch e) (client_key os c (kq_session_id q) (mozc_key_of (kq_key q)) (kq_generation q))
        (\<lambda>st b. (set_local (kq_session_id q) (local_empty\<lparr>lo_composition := mz_preedit st\<rparr>) b,
           Inr (KeyResp \<lparr>kr_session_id = kq_session_id q, kr_generation = kq_generation q,
             kr_preedit = mz_preedit st, kr_consumed = mz_consumed st, kr_candidates = [],
             kr_focused_index = None, kr_fallback = FM_None\<rparr>))))"

definition mozc_edit_session ::
    "'w bridge_os \<Rightarrow> bridge_config \<Rightarrow> edit_request \<Rightarrow> mozc_backend \<times> 'w \<Rightarrow>
     (mozc_backend \<times> 'w) \<times> (backend_error + response_payload)" where
  "mozc_edit_session os c q =
    on_session (eq_session_id q) (\<lambda>e bw.
      case mozc_apply_edit (eq_action q) (lo_composition (me_local e)) of
        None \<Rightarrow> (bw, Inl (BE_Unavailable (lit ''backend panicked'')))
      | Some (Inl err) \<Rightarrow> (bw, Inl err)
      | Some (Inr expected) \<Rightarrow>
          then_client (me_epoch e) (client_edit os c (eq_session_id q) (mozc_edit_of (eq_action q)) (eq_generation q))
            (\<lambda>st b.
               if mz_preedit st \<noteq> expected
               then (b, Inl (BE_Protocol (lit ''Mozc edit response changed the composition unexpectedly'')))
               else (set_local (eq_session_id q) (local_empty\<lparr>lo_composition := mz_preedit st\<rparr>) b,
                 Inr (EditResp \<lparr>dr_session_id = eq_session_id q, dr_generation = eq_generation q,
                   dr_preedit = mz_preedit st, dr_consumed = mz_consumed st, dr_candidates = [],
                   dr_focused_index = None, dr_fallback = FM_None\<rparr>))) bw)"

text \<open>\<open>u16::try_from(n).unwrap_or(u16::MAX)\<close>.\<close>

definition saturating_u16 :: "nat \<Rightarrow> u16" where
  "saturating_u16 n = (if n < 2 ^ 16 then of_nat n else - 1)"

text \<open>The candidates get the ids 1, 2, \<dots> of the broker; the bridge's ids are remembered.\<close>

definition broker_candidate :: "nat \<Rightarrow> conversion_candidate \<Rightarrow> candidate" where
  "broker_candidate index cd =
    \<lparr>cand_id = of_nat (index + 1), cand_text = cd_text cd, cand_reading = cd_reading cd,
     cand_rank = saturating_u16 (max (cd_provider_rank cd) index)\<rparr>"

definition broker_candidates :: "conversion_candidate list \<Rightarrow> candidate list" where
  "broker_candidates cds = map (\<lambda>(i, cd). broker_candidate i cd) (enumerate 0 cds)"

definition original_ids :: "conversion_candidate list \<Rightarrow> (u64, i32) fmap" where
  "original_ids cds = fold (\<lambda>(i, cd). fmupd (of_nat (i + 1)) (cd_id cd)) (enumerate 0 cds) fmempty"

definition page_start :: "nat \<Rightarrow> u32 \<Rightarrow> u16 \<Rightarrow> nat" where
  "page_start n page per = min n (unat page * unat per)"

definition page_end :: "nat \<Rightarrow> u32 \<Rightarrow> u16 \<Rightarrow> nat" where
  "page_end n page per = min n (page_start n page per + unat per)"

definition page_focus :: "nat \<Rightarrow> nat \<Rightarrow> nat \<Rightarrow> nat option \<Rightarrow> nat option" where
  "page_focus n start stop focused =
    (case focused of
       None \<Rightarrow> None
     | Some i \<Rightarrow> if i < n then Some (if start \<le> i \<and> i < stop then i - start else 0) else None)"

definition empty_conversion :: "convert_request \<Rightarrow> response_payload" where
  "empty_conversion q = ConvertResp \<lparr>vr_session_id = cv_session_id q, vr_generation = cv_generation q,
     vr_preedit = [], vr_consumed = True, vr_candidates = [], vr_focused_index = None, vr_page = cv_page q,
     vr_page_size = cv_page_size q, vr_has_more = False, vr_fallback = FM_None\<rparr>"

definition converted :: "convert_request \<Rightarrow> conversion_result \<Rightarrow> response_payload" where
  "converted q result =
    (let candidates = broker_candidates (cv_candidates result);
         n = length candidates;
         start = page_start n (cv_page q) (cv_page_size q);
         stop = page_end n (cv_page q) (cv_page_size q)
     in ConvertResp \<lparr>vr_session_id = cv_session_id q, vr_generation = cv_generation q,
          vr_preedit = cv_preedit result, vr_consumed = cv_consumed result,
          vr_candidates = take (stop - start) (drop start candidates),
          vr_focused_index = page_focus n start stop (cv_focused_index result),
          vr_page = cv_page q, vr_page_size = cv_page_size q, vr_has_more = stop < n, vr_fallback = FM_None\<rparr>)"

definition mozc_convert_session ::
    "'w bridge_os \<Rightarrow> bridge_config \<Rightarrow> convert_request \<Rightarrow> mozc_backend \<times> 'w \<Rightarrow>
     (mozc_backend \<times> 'w) \<times> (backend_error + response_payload)" where
  "mozc_convert_session os c q =
    on_session (cv_session_id q) (\<lambda>e bw.
      if lo_composition (me_local e) = [] then (bw, Inr (empty_conversion q))
      else then_client (me_epoch e)
        (client_convert os c (cv_session_id q)
           ((conversion_request_new (lo_composition (me_local e)))\<lparr>cn_revision := cv_generation q, cn_limit := 30\<rparr>))
        (\<lambda>result b. (set_local (cv_session_id q)
             \<lparr>lo_composition = cv_preedit result, lo_candidates = original_ids (cv_candidates result),
              lo_active = Some (cv_generation q)\<rparr> b,
           Inr (converted q result))) bw)"

definition mozc_commit_session ::
    "'w bridge_os \<Rightarrow> bridge_config \<Rightarrow> commit_request \<Rightarrow> mozc_backend \<times> 'w \<Rightarrow>
     (mozc_backend \<times> 'w) \<times> (backend_error + response_payload)" where
  "mozc_commit_session os c q =
    on_session (cm_session_id q) (\<lambda>e bw.
      if lo_active (me_local e) \<noteq> Some (cm_generation q)
      then (bw, Inl (BE_Protocol (lit ''candidate does not belong to the active Mozc generation'')))
      else case fmlookup (lo_candidates (me_local e)) (cm_candidate_id q) of
        None \<Rightarrow> (bw, Inl (BE_Protocol (lit ''candidate is not in this Mozc session'')))
      | Some original \<Rightarrow>
          then_client (me_epoch e) (client_commit os c (cm_session_id q) original (cm_generation q))
            (\<lambda>result b. (set_local (cm_session_id q) local_empty b,
               Inr (CommitResp \<lparr>mr_session_id = cm_session_id q, mr_generation = cm_generation q,
                 mr_text = ci_text result, mr_consumed = True\<rparr>))) bw)"

definition mozc_cancel_session ::
    "'w bridge_os \<Rightarrow> bridge_config \<Rightarrow> cancel_request \<Rightarrow> mozc_backend \<times> 'w \<Rightarrow>
     (mozc_backend \<times> 'w) \<times> (backend_error + response_payload)" where
  "mozc_cancel_session os c q =
    on_session (cc_session_id q) (\<lambda>e.
      then_client (me_epoch e) (client_cancel os c (cc_session_id q) (cc_generation q))
        (\<lambda>_ b. (set_local (cc_session_id q) local_empty b,
           Inr (CancelResp \<lparr>xr_session_id = cc_session_id q,
             xr_generation = (case cc_generation q of None \<Rightarrow> 0 | Some g \<Rightarrow> g),
             xr_target_request_id = cc_target_request_id q\<rparr>))))"

definition mozc_focus_lost ::
    "'w bridge_os \<Rightarrow> bridge_config \<Rightarrow> focus_lost_request \<Rightarrow> mozc_backend \<times> 'w \<Rightarrow>
     (mozc_backend \<times> 'w) \<times> (backend_error + response_payload)" where
  "mozc_focus_lost os c q =
    on_session (fl_session_id q) (\<lambda>e.
      then_client (me_epoch e) (client_close_at os c (fl_session_id q) (Some (fl_generation q)))
        (\<lambda>_ b. (b\<lparr>ms_sessions := fmdrop (fl_session_id q) (ms_sessions b)\<rparr>,
           Inr (FocusLostResp \<lparr>fr_session_id = fl_session_id q, fr_generation = fl_generation q\<rparr>))))"

definition mozc_session_health ::
    "'w bridge_os \<Rightarrow> bridge_config \<Rightarrow> (nat \<Rightarrow> rstr) \<Rightarrow> mozc_backend \<times> 'w \<Rightarrow> (mozc_backend \<times> 'w) \<times> health_response" where
  "mozc_session_health os c debug bw =
    (case bw of (b, w) \<Rightarrow>
     case pool_health os c debug (ms_pool b, w) of ((p, w), h) \<Rightarrow>
       ((b\<lparr>ms_pool := p\<rparr>, w),
        \<lparr>hr_status = (if ph_available h then Ready else Unavailable),
         hr_protocol_version = PROTOCOL_VERSION,
         hr_max_frame_bytes = of_nat DEFAULT_MAX_FRAME_BYTES,
         hr_fallback = (if ph_available h then FM_None else FM_LastValidPreedit),
         hr_detail = (if blen (ph_detail h) > 512 then lit ''Mozc session is unavailable'' else ph_detail h)\<rparr>))"

text \<open>The \<open>match\<close> of \<open>execute\<close>.\<close>

definition mozc_command ::
    "'w bridge_os \<Rightarrow> bridge_config \<Rightarrow> (nat \<Rightarrow> rstr) \<Rightarrow> request_command \<Rightarrow> mozc_backend \<times> 'w \<Rightarrow>
     (mozc_backend \<times> 'w) \<times> (backend_error + response_payload)" where
  "mozc_command os c debug cmd bw =
    (case cmd of
       CreateSessionCmd q \<Rightarrow> mozc_create os c q bw
     | PrepareRerankSessionCmd q \<Rightarrow>
         (bw, Inl (BE_Protocol (lit ''rerank-only session must be handled by the async broker owner'')))
     | KeyCmd q \<Rightarrow> mozc_key_session os c q bw
     | EditCmd q \<Rightarrow> mozc_edit_session os c q bw
     | ConvertCmd q \<Rightarrow> mozc_convert_session os c q bw
     | CommitCmd q \<Rightarrow> mozc_commit_session os c q bw
     | CancelCmd q \<Rightarrow> mozc_cancel_session os c q bw
     | FocusLostCmd q \<Rightarrow> mozc_focus_lost os c q bw
     | HealthCmd \<Rightarrow> (case mozc_session_health os c debug bw of (bw, h) \<Rightarrow> (bw, Inr (HealthResp h)))
     | GenerationCmd q \<Rightarrow> (bw, Inr (GenerationResp \<lparr>gr_session_id = gq_session_id q, gr_generation = 0\<rparr>))
     | RerankCandidatesCmd q \<Rightarrow> (bw, Inl (BE_Protocol (lit ''optional enhancement must not reach the Mozc backend'')))
     | SemanticAssistCmd q \<Rightarrow> (bw, Inl (BE_Protocol (lit ''optional enhancement must not reach the Mozc backend''))))"

text \<open>\<open>execute\<close>: whether the token was cancelled before and after the operation.\<close>

definition mozc_execute ::
    "'w bridge_os \<Rightarrow> bridge_config \<Rightarrow> (nat \<Rightarrow> rstr) \<Rightarrow> bool \<Rightarrow> bool \<Rightarrow> request_command \<Rightarrow> mozc_backend \<times> 'w \<Rightarrow>
     (mozc_backend \<times> 'w) \<times> (backend_error + response_payload)" where
  "mozc_execute os c debug before after cmd bw =
    (if before then (bw, Inl BE_Cancelled)
     else case mozc_command os c debug cmd bw of
       (bw, r) \<Rightarrow> (bw, if after then Inl BE_Cancelled else r))"

definition mozc_restart_bridge ::
    "'w bridge_os \<Rightarrow> bridge_config \<Rightarrow> mozc_backend \<times> 'w \<Rightarrow> (mozc_backend \<times> 'w) \<times> (backend_error + unit)" where
  "mozc_restart_bridge os c bw =
    (case bw of (b, w) \<Rightarrow>
     case pool_restart os c (ms_pool b, w) of ((p, w), r) \<Rightarrow>
       ((b\<lparr>ms_pool := p\<rparr>, w), case r of Inl e \<Rightarrow> Inl (of_provider_error e) | Inr u \<Rightarrow> Inr u))"

text \<open>
  As the broker's backend, for a token whose flag does not change during the operation. The
  health answer is that of a probe; \<open>mozc_session_health\<close> has its effect.
\<close>

definition mozc_ops ::
    "'w bridge_os \<Rightarrow> bridge_config \<Rightarrow> (nat \<Rightarrow> rstr) \<Rightarrow> (mozc_backend \<times> 'w) backend_ops" where
  "mozc_ops os c debug =
     \<lparr>be_execute = (\<lambda>bw cmd cancelled. mozc_execute os c debug cancelled cancelled cmd bw),
      be_health = (\<lambda>bw. snd (mozc_session_health os c debug bw))\<rparr>"

end
