(* ===== verification/Mozc_Native.thy ===== *)
theory Mozc_Native
  imports Mozc_Wire
begin

text \<open>
  The other end of the line protocol: the sessions and generations of the native bridge that the
  repository's patch adds to Mozc (\<open>patches/mozc-kanai-bridge.patch\<close>, class \<open>KanaAiBridge\<close>). A
  line is split at tabs and percent-decoded, dispatched on its name and number of parts, and
  checked against the session's generation. Mozc itself is the parameter \<open>mozc_engine\<close>: it
  evaluates one input for a session and answers with an output or an error.
\<close>

section \<open>State\<close>

record native_session =
  nv_generation :: u64
  nv_active :: "u64 option"
  nv_candidate_ids :: "i32 list"
  nv_composition :: "u8 list"

definition native_session_new :: native_session where
  "native_session_new = \<lparr>nv_generation = 0, nv_active = None, nv_candidate_ids = [], nv_composition = []\<rparr>"

record native_output =
  no_has_result :: bool
  no_preedit :: "u8 list option"
  no_consumed :: bool
  no_candidate_ids :: "rstr + i32 list"
  no_response :: bridge_response

text \<open>
  What Mozc does for a session: create and delete it, reset its context, take the events of one
  key, replace its composition, convert a text between two contexts, and submit a candidate.
\<close>

record 'e mozc_engine =
  en_create :: "u64 \<Rightarrow> 'e \<Rightarrow> 'e \<times> (rstr + unit)"
  en_delete :: "u64 \<Rightarrow> 'e \<Rightarrow> 'e \<times> (rstr + unit)"
  en_reset :: "u64 \<Rightarrow> 'e \<Rightarrow> 'e \<times> (rstr + native_output)"
  en_key :: "u64 \<Rightarrow> u8 list \<Rightarrow> u8 list \<Rightarrow> 'e \<Rightarrow> 'e \<times> (rstr + native_output)"
  en_compose :: "u64 \<Rightarrow> u8 list \<Rightarrow> 'e \<Rightarrow> 'e \<times> (rstr + native_output)"
  en_convert :: "u64 \<Rightarrow> u8 list \<Rightarrow> u8 list \<Rightarrow> u8 list \<Rightarrow> 'e \<Rightarrow> 'e \<times> (rstr + native_output)"
  en_submit :: "u64 \<Rightarrow> i32 \<Rightarrow> 'e \<Rightarrow> 'e \<times> (rstr + native_output)"

record 'e native =
  nb_sessions :: "(u64, native_session) fmap"
  nb_engine :: 'e

definition native_put :: "u64 \<Rightarrow> native_session \<Rightarrow> 'e native \<Rightarrow> 'e native" where
  "native_put sid n s = s\<lparr>nb_sessions := fmupd sid n (nb_sessions s)\<rparr>"

section \<open>Answers\<close>

definition blank_response :: bridge_response where
  "blank_response = \<lparr>br_ok = True, br_error = [], br_provider = Some (lit ''Mozc''), br_detail = None,
     br_reading = None, br_preedit = [], br_segments = None, br_candidates = None, br_focused_index = None,
     br_consumed = None, br_elapsed_micros = None, br_generation = None, br_session_id = None, br_text = None,
     br_result = None\<rparr>"

definition native_error :: "rstr \<Rightarrow> bridge_response" where
  "native_error message = blank_response\<lparr>br_ok := False, br_error := message\<rparr>"

definition lifecycle_response :: "string \<Rightarrow> u64 \<Rightarrow> u64 \<Rightarrow> bridge_response" where
  "lifecycle_response detail sid g =
    blank_response\<lparr>br_detail := Some (lit detail), br_session_id := Some sid, br_generation := Some g\<rparr>"

text \<open>The parts of an output, with the generation the bridge puts on it.\<close>

definition output_response :: "native_output \<Rightarrow> u64 \<Rightarrow> bridge_response" where
  "output_response out g = (no_response out)\<lparr>br_ok := True, br_generation := Some g\<rparr>"

definition stale_response :: bridge_response where
  "stale_response = native_error (lit ''stale Mozc session generation'')"

definition future_or_stale :: "u64 \<Rightarrow> u64 \<Rightarrow> bridge_response" where
  "future_or_stale g current =
    (if g < current then stale_response else native_error (lit ''future Mozc session generation''))"

definition exhausted_response :: bridge_response where
  "exhausted_response = native_error (lit ''Mozc session generation is exhausted'')"

section \<open>Fields\<close>

definition bytes :: "string \<Rightarrow> u8 list" where
  "bytes s = utf8 (lit s)"

fun split_tabs :: "u8 list \<Rightarrow> u8 list \<Rightarrow> u8 list list" where
  "split_tabs field [] = [field]"
| "split_tabs field (b # bs) = (if b = 9 then field # split_tabs [] bs else split_tabs (field @ [b]) bs)"

definition hex_value :: "u8 \<Rightarrow> nat option" where
  "hex_value b =
    (let n = unat b in
     if 48 \<le> n \<and> n \<le> 57 then Some (n - 48)
     else if 97 \<le> n \<and> n \<le> 102 then Some (n - 97 + 10)
     else if 65 \<le> n \<and> n \<le> 70 then Some (n - 65 + 10) else None)"

text \<open>The loop of \<open>DecodePercentEncoded\<close>; a malformed escape is \<open>None\<close>.\<close>

fun percent_loop :: "u8 list \<Rightarrow> u8 list option" where
  "percent_loop [] = Some []"
| "percent_loop (b # bs) =
    (if b \<noteq> 37 then map_option ((#) b) (percent_loop bs)
     else case bs of
       h # l # rest \<Rightarrow>
         (case (hex_value h, hex_value l) of
            (Some x, Some y) \<Rightarrow> map_option ((#) (of_nat (x * 16 + y))) (percent_loop rest)
          | _ \<Rightarrow> None)
     | _ \<Rightarrow> None)"

text \<open>The message of the first malformed escape, with the position it starts at.\<close>

fun percent_error :: "nat \<Rightarrow> u8 list \<Rightarrow> rstr" where
  "percent_error i [] = []"
| "percent_error i (b # bs) =
    (if b \<noteq> 37 then percent_error (i + 1) bs
     else case bs of
       h # l # rest \<Rightarrow>
         if hex_value h = None \<or> hex_value l = None
         then lit ''invalid percent escape at byte '' @ dec i else percent_error (i + 3) rest
     | _ \<Rightarrow> lit ''incomplete percent escape at byte '' @ dec i)"

definition decode_field :: "u8 list \<Rightarrow> rstr + u8 list" where
  "decode_field f =
    (case percent_loop f of
       None \<Rightarrow> Inl (percent_error 0 f)
     | Some v \<Rightarrow> if from_utf8 v = None then Inl (lit ''percent-encoded value is not valid UTF-8'') else Inr v)"

fun decode_fields :: "u8 list list \<Rightarrow> rstr + u8 list list" where
  "decode_fields [] = Inr []"
| "decode_fields (f # fs) =
    (case decode_field f of
       Inl e \<Rightarrow> Inl e
     | Inr v \<Rightarrow> (case decode_fields fs of Inl e \<Rightarrow> Inl e | Inr vs \<Rightarrow> Inr (v # vs)))"

text \<open>\<open>std::from_chars\<close> over the whole field: decimal digits within the type's range.\<close>

fun digits_value :: "nat \<Rightarrow> u8 list \<Rightarrow> nat option" where
  "digits_value acc [] = Some acc"
| "digits_value acc (b # bs) =
    (if 48 \<le> unat b \<and> unat b \<le> 57 then digits_value (acc * 10 + (unat b - 48)) bs else None)"

definition parse_nat :: "u8 list \<Rightarrow> nat option" where
  "parse_nat f = (if f = [] then None else digits_value 0 f)"

definition parse_u64 :: "u8 list \<Rightarrow> u64 option" where
  "parse_u64 f = (case parse_nat f of Some n \<Rightarrow> if n < 2 ^ 64 then Some (of_nat n) else None | None \<Rightarrow> None)"

definition parse_u32 :: "u8 list \<Rightarrow> nat option" where
  "parse_u32 f = (case parse_u64 f of Some n \<Rightarrow> if unat n < 2 ^ 32 then Some (unat n) else None | None \<Rightarrow> None)"

definition parse_i32 :: "u8 list \<Rightarrow> i32 option" where
  "parse_i32 f =
    (case f of
       [] \<Rightarrow> None
     | b # bs \<Rightarrow>
         if b = 45
         then (case parse_nat bs of Some n \<Rightarrow> if n \<le> 2 ^ 31 then Some (- of_nat n) else None | None \<Rightarrow> None)
         else (case parse_nat f of Some n \<Rightarrow> if n < 2 ^ 31 then Some (of_nat n) else None | None \<Rightarrow> None))"

definition validate_text_field :: "u8 list \<Rightarrow> nat \<Rightarrow> bool \<Rightarrow> string \<Rightarrow> rstr + unit" where
  "validate_text_field v max_bytes allow_empty name =
    (if (\<not> allow_empty \<and> v = []) \<or> length v > max_bytes then Inl (lit name @ lit '' is empty or too large'')
     else if list_ex (\<lambda>b. unat b < 32 \<or> b = 127) v then Inl (lit name @ lit '' contains a control character'')
     else Inr ())"

section \<open>Commands\<close>

type_synonym 'e native_step = "'e native \<Rightarrow> 'e native \<times> bridge_response"

definition native_open :: "'e mozc_engine \<Rightarrow> u64 \<Rightarrow> 'e native_step" where
  "native_open E sid s =
    (if sid |\<in>| fmdom (nb_sessions s) then (s, native_error (lit ''Mozc session already exists''))
     else if fmlen (nb_sessions s) \<ge> 64 then (s, native_error (lit ''Mozc session limit reached''))
     else case en_create E sid (nb_engine s) of
       (x, Inl e) \<Rightarrow> (s\<lparr>nb_engine := x\<rparr>, native_error e)
     | (x, Inr _) \<Rightarrow> (native_put sid native_session_new (s\<lparr>nb_engine := x\<rparr>), lifecycle_response ''opened'' sid 0))"

text \<open>A command on a session: unknown ids are refused.\<close>

definition with_native ::
    "u64 \<Rightarrow> (native_session \<Rightarrow> 'e native \<Rightarrow> 'e native \<times> bridge_response) \<Rightarrow> 'e native_step" where
  "with_native sid body s =
    (case fmlookup (nb_sessions s) sid of
       None \<Rightarrow> (s, native_error (lit ''unknown Mozc session''))
     | Some n \<Rightarrow> body n s)"

definition native_close :: "'e mozc_engine \<Rightarrow> u64 \<Rightarrow> u64 option \<Rightarrow> 'e native_step" where
  "native_close E sid g = with_native sid (\<lambda>n s.
     if g \<noteq> None \<and> g \<noteq> Some (nv_generation n) then (s, stale_response)
     else case en_delete E sid (nb_engine s) of
       (x, Inl e) \<Rightarrow> (s\<lparr>nb_engine := x\<rparr>, native_error e)
     | (x, Inr _) \<Rightarrow> (s\<lparr>nb_engine := x, nb_sessions := fmdrop sid (nb_sessions s)\<rparr>,
         lifecycle_response ''closed'' sid (nv_generation n)))"

text \<open>What every change of the composition does first.\<close>

definition forget_snapshot :: "native_session \<Rightarrow> native_session" where
  "forget_snapshot n = n\<lparr>nv_active := None, nv_candidate_ids := []\<rparr>"

definition native_cancel :: "'e mozc_engine \<Rightarrow> u64 \<Rightarrow> u64 option \<Rightarrow> 'e native_step" where
  "native_cancel E sid g = with_native sid (\<lambda>n s.
     if g \<noteq> None \<and> g \<noteq> Some (nv_generation n) then (s, stale_response)
     else if nv_generation n = - 1 then (s, exhausted_response)
     else case en_reset E sid (nb_engine s) of
       (x, Inl e) \<Rightarrow> (native_put sid (forget_snapshot n) (s\<lparr>nb_engine := x\<rparr>), native_error e)
     | (x, Inr _) \<Rightarrow>
         (native_put sid ((forget_snapshot n)\<lparr>nv_composition := [], nv_generation := nv_generation n + 1\<rparr>)
            (s\<lparr>nb_engine := x\<rparr>),
          lifecycle_response ''cancelled'' sid (nv_generation n + 1)))"

text \<open>A field as the text it is; every decoded field is valid UTF-8.\<close>

definition shown :: "u8 list \<Rightarrow> rstr" where
  "shown v = (case from_utf8 v of None \<Rightarrow> [] | Some t \<Rightarrow> t)"

definition key_kinds :: "u8 list list" where
  "key_kinds = map bytes [''character'', ''space'', ''backspace'', ''delete'', ''escape'', ''tab'', ''enter'',
     ''left'', ''right'', ''up'', ''down'']"

definition key_value_ok :: "u8 list \<Rightarrow> u8 list \<Rightarrow> rstr + unit" where
  "key_value_ok kind v =
    (if kind = bytes ''character'' then
       (case validate_text_field v 1024 False ''key value'' of
          Inl e \<Rightarrow> Inl e
        | Inr _ \<Rightarrow> reject_if (from_utf8 v = None) (lit ''character key is not valid UTF-8''))
     else if kind \<noteq> bytes ''function'' \<and> kind \<noteq> bytes ''named'' \<and> v \<noteq> []
     then Inl (lit ''non-character key value must be empty'')
     else if kind = bytes ''named'' then validate_text_field v 64 False ''named key''
     else if kind = bytes ''function'' then
       reject_if (case parse_u32 v of None \<Rightarrow> True | Some n \<Rightarrow> n > 255)
         (lit ''function key must be between 0 and 255'')
     else Inr ())"

text \<open>A function or named key leaves the composition and is not consumed.\<close>

definition echo_output :: "native_session \<Rightarrow> native_output" where
  "echo_output n = \<lparr>no_has_result = False, no_preedit = Some (nv_composition n), no_consumed = False,
     no_candidate_ids = Inr [], no_response = blank_response
       \<lparr>br_preedit := shown (nv_composition n), br_consumed := Some False\<rparr>\<rparr>"

definition composition_after :: "native_output \<Rightarrow> u8 list \<Rightarrow> u8 list" where
  "composition_after out old =
    (if no_has_result out then []
     else case no_preedit out of Some p \<Rightarrow> p | None \<Rightarrow> if no_consumed out then [] else old)"

definition native_key :: "'e mozc_engine \<Rightarrow> u64 \<Rightarrow> u64 \<Rightarrow> u8 list \<Rightarrow> u8 list \<Rightarrow> 'e native_step" where
  "native_key E sid g kind v = with_native sid (\<lambda>n s.
     if g \<noteq> nv_generation n then (s, future_or_stale g (nv_generation n))
     else if g = - 1 then (s, exhausted_response)
     else case key_value_ok kind v of
       Inl e \<Rightarrow> (s, native_error e)
     | Inr _ \<Rightarrow>
       (case (if kind = bytes ''function'' \<or> kind = bytes ''named'' then (nb_engine s, Inr (echo_output n))
              else if kind \<in> set key_kinds then en_key E sid kind v (nb_engine s)
              else (nb_engine s, Inl (lit ''unsupported key kind: '' @ shown kind))) of
          (x, Inl e) \<Rightarrow> (native_put sid (forget_snapshot n) (s\<lparr>nb_engine := x\<rparr>), native_error e)
        | (x, Inr out) \<Rightarrow>
            (native_put sid ((forget_snapshot n)
               \<lparr>nv_composition := composition_after out (nv_composition n), nv_generation := g + 1\<rparr>) (s\<lparr>nb_engine := x\<rparr>),
             output_response out (g + 1))))"

text \<open>The composition an edit asks for, by scalar positions.\<close>

definition edit_text_ok :: "u8 list \<Rightarrow> string \<Rightarrow> rstr + unit" where
  "edit_text_ok v message =
    (case validate_text_field v (16 * 1024) True ''edit text'' of
       Inl e \<Rightarrow> Inl e
     | Inr _ \<Rightarrow> reject_if (from_utf8 v = None) (lit message))"

definition composition_range :: "u8 list \<Rightarrow> u8 list \<Rightarrow> rstr \<Rightarrow> (nat \<times> nat) option" where
  "composition_range a z t =
    (case (parse_u32 a, parse_u32 z) of
       (Some i, Some j) \<Rightarrow> if i > j \<or> j > length t then None else Some (i, j)
     | _ \<Rightarrow> None)"

definition edited_composition :: "u8 list list \<Rightarrow> u8 list \<Rightarrow> rstr + u8 list" where
  "edited_composition args old =
    (let t = shown old; invalid = Inl (lit ''invalid edit action'') in
     case args of
       [action] \<Rightarrow> if action = bytes ''reset'' then Inr [] else invalid
     | [action, v] \<Rightarrow>
         if action = bytes ''insert''
         then (case edit_text_ok v ''edit text is invalid or too large'' of Inl e \<Rightarrow> Inl e | Inr _ \<Rightarrow> Inr (old @ v))
         else invalid
     | [action, a, z] \<Rightarrow>
         if action = bytes ''delete''
         then (case composition_range a z t of
                 None \<Rightarrow> Inl (lit ''edit range is outside the composition'')
               | Some (i, j) \<Rightarrow> Inr (utf8 (take i t @ drop j t)))
         else invalid
     | [action, a, z, v] \<Rightarrow>
         if action = bytes ''replace''
         then (case composition_range a z t of
                 None \<Rightarrow> Inl (lit ''edit range or text is invalid'')
               | Some (i, j) \<Rightarrow>
                   (case edit_text_ok v ''edit range or text is invalid'' of
                      Inl e \<Rightarrow> Inl e
                    | Inr _ \<Rightarrow> Inr (utf8 (take i t @ shown v @ drop j t))))
         else invalid
     | _ \<Rightarrow> invalid)"

definition native_edit :: "'e mozc_engine \<Rightarrow> u64 \<Rightarrow> u64 \<Rightarrow> u8 list list \<Rightarrow> 'e native_step" where
  "native_edit E sid g args = with_native sid (\<lambda>n s.
     if g \<noteq> nv_generation n then (s, future_or_stale g (nv_generation n))
     else if g = - 1 then (s, exhausted_response)
     else case edited_composition args (nv_composition n) of
       Inl e \<Rightarrow> (s, native_error e)
     | Inr edited \<Rightarrow>
         if length edited > 16 * 1024 \<or> from_utf8 edited = None
         then (s, native_error (lit ''edited composition is invalid or too large''))
         else
           (case en_reset E sid (nb_engine s) of
              (x, Inl e) \<Rightarrow> (native_put sid (forget_snapshot n) (s\<lparr>nb_engine := x\<rparr>), native_error e)
            | (x, Inr cleared) \<Rightarrow>
           (case (if edited = [] then (x, Inr cleared) else en_compose E sid edited x) of
              (x, Inl e) \<Rightarrow>
                (native_put sid ((forget_snapshot n)\<lparr>nv_composition := []\<rparr>) (s\<lparr>nb_engine := x\<rparr>), native_error e)
            | (x, Inr out) \<Rightarrow>
                (native_put sid ((forget_snapshot n)\<lparr>nv_composition := edited, nv_generation := g + 1\<rparr>) (s\<lparr>nb_engine := x\<rparr>),
                 output_response out (g + 1)))))"

text \<open>A conversion of an explicit session must come with the next generation.\<close>

definition native_convert :: "'e mozc_engine \<Rightarrow> u64 \<Rightarrow> u64 \<Rightarrow> u8 list \<Rightarrow> u8 list \<Rightarrow> u8 list \<Rightarrow> 'e native_step" where
  "native_convert E sid g romaji preceding following = with_native sid (\<lambda>n s.
     if g < nv_generation n \<or> (sid \<noteq> 0 \<and> (nv_generation n = - 1 \<or> g \<noteq> nv_generation n + 1)) then (s, stale_response)
     else if length preceding > 16 * 1024 \<or> length following > 16 * 1024
     then (s, native_error (lit ''conversion context is too large''))
     else case validate_text_field romaji 1024 False ''romaji'' of
       Inl e \<Rightarrow> (s, native_error e)
     | Inr _ \<Rightarrow>
       (case en_reset E sid (nb_engine s) of
          (x, Inl e) \<Rightarrow> (native_put sid (forget_snapshot n) (s\<lparr>nb_engine := x\<rparr>), native_error e)
        | (x, Inr _) \<Rightarrow>
       (let cleared = (forget_snapshot n)\<lparr>nv_composition := []\<rparr> in
        case en_convert E sid romaji preceding following x of
          (x, Inl e) \<Rightarrow> (native_put sid cleared (s\<lparr>nb_engine := x\<rparr>), native_error e)
        | (x, Inr out) \<Rightarrow>
       (case no_candidate_ids out of
          Inl e \<Rightarrow> (native_put sid cleared (s\<lparr>nb_engine := x\<rparr>), native_error e)
        | Inr ids \<Rightarrow>
            (native_put sid (n\<lparr>nv_generation := g, nv_active := Some g, nv_candidate_ids := ids,
               nv_composition := (case no_preedit out of None \<Rightarrow> [] | Some p \<Rightarrow> p)\<rparr>) (s\<lparr>nb_engine := x\<rparr>),
             output_response out g)))))"

definition native_commit :: "'e mozc_engine \<Rightarrow> u64 \<Rightarrow> i32 \<Rightarrow> u64 \<Rightarrow> 'e native_step" where
  "native_commit E sid i g = with_native sid (\<lambda>n s.
     case nv_active n of
       None \<Rightarrow> (s, native_error (lit ''no active Mozc conversion''))
     | Some active \<Rightarrow>
         if g \<noteq> active then (s, native_error (lit ''stale Mozc conversion generation''))
         else if i \<notin> set (nv_candidate_ids n)
         then (s, native_error (lit ''candidate is not in the active Mozc snapshot''))
         else
           (case en_submit E sid i (nb_engine s) of
              (x, Inl e) \<Rightarrow> (native_put sid (forget_snapshot n) (s\<lparr>nb_engine := x\<rparr>), native_error e)
            | (x, Inr out) \<Rightarrow>
                if \<not> no_has_result out
                then (native_put sid (forget_snapshot n) (s\<lparr>nb_engine := x\<rparr>),
                      native_error (lit ''candidate did not produce committed text''))
                else (native_put sid ((forget_snapshot n)\<lparr>nv_composition := [],
                        nv_generation := (if active = - 1 then nv_generation n else max (nv_generation n) (active + 1))\<rparr>)
                        (s\<lparr>nb_engine := x\<rparr>),
                      output_response out active)))"

text \<open>
  \<open>ProcessLine\<close> for the commands of explicit sessions; the one-session commands, \<open>ping\<close>, the
  two forms of \<open>reset\<close> and \<open>shutdown\<close> are left to the parameter \<open>other\<close>.
\<close>

definition session_field :: "string \<Rightarrow> (u64 \<Rightarrow> 'e native_step) \<Rightarrow> u8 list \<Rightarrow> 'e native_step" where
  "session_field message k f s =
    (case parse_u64 f of None \<Rightarrow> (s, native_error (lit message)) | Some n \<Rightarrow> k n s)"

definition explicit_id :: "(u64 \<Rightarrow> 'e native_step) \<Rightarrow> u8 list \<Rightarrow> 'e native_step" where
  "explicit_id k = session_field ''session id must be a non-zero unsigned integer'' (\<lambda>n s.
     if n = 0 then (s, native_error (lit ''session id must be a non-zero unsigned integer'')) else k n s)"

definition two_fields :: "string \<Rightarrow> (u64 \<Rightarrow> u64 \<Rightarrow> 'e native_step) \<Rightarrow> u8 list \<Rightarrow> u8 list \<Rightarrow> 'e native_step" where
  "two_fields message k f f' = session_field message (\<lambda>i. session_field message (k i) f') f"

definition native_dispatch ::
    "'e mozc_engine \<Rightarrow> (u8 list list \<Rightarrow> 'e native_step) \<Rightarrow> u8 list list \<Rightarrow> 'e native_step" where
  "native_dispatch E other parts s =
    (case parts of
       [c, sid] \<Rightarrow>
         if c = bytes ''open'' then explicit_id (native_open E) sid s
         else if c = bytes ''close'' then explicit_id (\<lambda>i. native_close E i None) sid s
         else if c = bytes ''cancel'' then
           session_field ''cancel session id must be an unsigned integer'' (\<lambda>i. native_cancel E i None) sid s
         else other parts s
     | [c, sid, g] \<Rightarrow>
         if c = bytes ''close'' then
           explicit_id (\<lambda>i. session_field ''close generation must be an unsigned integer''
             (\<lambda>g. native_close E i (Some g)) g) sid s
         else if c = bytes ''cancel'' then
           session_field ''cancel session id must be an unsigned integer'' (\<lambda>i. with_native i (\<lambda>_.
             session_field ''cancel generation must be an unsigned integer'' (\<lambda>g. native_cancel E i (Some g)) g)) sid s
         else other parts s
     | c # sid # g # rest \<Rightarrow>
         if c = bytes ''key'' \<and> length rest = 2
         then two_fields ''key arguments must be unsigned integers''
           (\<lambda>i g. native_key E i g (rest ! 0) (rest ! 1)) sid g s
         else if c = bytes ''edit''
         then two_fields ''edit arguments must be unsigned integers'' (\<lambda>i g. native_edit E i g rest) sid g s
         else if c = bytes ''convert'' \<and> length rest = 3
         then two_fields ''conversion arguments must be unsigned integers''
           (\<lambda>i q. native_convert E i q g (rest ! 0) (rest ! 1)) sid (rest ! 2) s
         else if c = bytes ''commit'' \<and> length rest = 1
         then (case parse_i32 g of
             None \<Rightarrow> (s, native_error (lit ''commit arguments are invalid''))
           | Some cid \<Rightarrow> two_fields ''commit arguments are invalid'' (\<lambda>i q. native_commit E i cid q) sid (rest ! 0) s)
         else other parts s
     | _ \<Rightarrow> other parts s)"

definition native_line :: "'e mozc_engine \<Rightarrow> (u8 list list \<Rightarrow> 'e native_step) \<Rightarrow> u8 list \<Rightarrow> 'e native_step" where
  "native_line E other line s =
    (let line' = (if line \<noteq> [] \<and> last line = 13 then butlast line else line) in
     if length line > 1048576 then (s, native_error (lit ''command exceeds 1 MiB''))
     else if line' = [] then (s, native_error (lit ''empty command''))
     else case decode_fields (split_tabs [] line') of
       Inl e \<Rightarrow> (s, native_error e)
     | Inr parts \<Rightarrow>
         if length parts > 16 then (s, native_error (lit ''command has an invalid number of fields''))
         else native_dispatch E other parts s)"

end
