(* ===== verification/Mozc_Wire_Facts.thy ===== *)
theory Mozc_Wire_Facts
  imports Mozc_Native
begin

text \<open>
  The line protocol reads back: UTF-8 and the percent encoding round trip, a command line has one
  line and exactly the fields it was made of, and numbers are parsed to what was printed.
\<close>

section \<open>UTF-8 round trips\<close>

lemma unat_small: "n < 256 \<Longrightarrow> unat (of_nat n :: u8) = n"
  by (simp add: unsigned_of_nat take_bit_nat_eq_self)

lemma byte_high: "unat (b :: u8) div 16 < 16"
proof -
  have "unat b < 2 ^ 8" using unsigned_less [of b] by simp
  then show ?thesis by simp
qed

lemma div_mod_digits:
  "(c :: nat) div 4096 * 4096 + c div 64 mod 64 * 64 + c mod 64 = c"
  "c div 262144 * 262144 + c div 4096 mod 64 * 4096 + c div 64 mod 64 * 64 + c mod 64 = c"
proof -
  have a: "c div 64 div 64 = c div 4096" "c div 4096 div 64 = c div 262144" by (simp_all add: div_mult2_eq [symmetric])
  have "c div 64 = c div 4096 * 64 + c div 64 mod 64" "c = c div 64 * 64 + c mod 64"
    "c div 4096 = c div 262144 * 64 + c div 4096 mod 64"
    using div_mult_mod_eq [of "c div 64" 64] div_mult_mod_eq [of c 64] div_mult_mod_eq [of "c div 4096" 64] a by simp_all
  then show "c div 4096 * 4096 + c div 64 mod 64 * 64 + c mod 64 = c"
    "c div 262144 * 262144 + c div 4096 mod 64 * 4096 + c div 64 mod 64 * 64 + c mod 64 = c" by linarith+
qed

lemma continuation_of: "n < 64 \<Longrightarrow> continuation (of_nat (128 + n)) = Some n"
  using unat_small [of "128 + n"] by (simp add: continuation_def)

lemma utf8_next_char:
  assumes "is_scalar c"
  shows "utf8_next (utf8_char c @ r) = Some (c, r)"
proof -
  have lim: "c < 1114112" using assms by (auto simp: is_scalar_def)
  consider "c < 128" | "128 \<le> c" "c < 2048" | "2048 \<le> c" "c < 65536" | "65536 \<le> c" by linarith
  then show ?thesis
  proof cases
    case 1
    then show ?thesis using unat_small [of c] by (simp add: utf8_next_def utf8_char_def)
  next
    case 2
    have "unat (of_nat (192 + c div 64) :: u8) = 192 + c div 64" using 2 by (intro unat_small) auto
    moreover have "2 \<le> c div 64" "c div 64 < 32" using 2 by auto
    ultimately show ?thesis using 2 continuation_of [of "c mod 64"]
      by (simp add: utf8_next_def utf8_char_def del: of_nat_add)
  next
    case 3
    have "unat (of_nat (224 + c div 4096) :: u8) = 224 + c div 4096" using 3 by (intro unat_small) auto
    moreover have "c div 4096 < 16" using 3 by auto
    moreover note div_mod_digits(1) [of c]
    ultimately show ?thesis using 3 assms continuation_of [of "c mod 64"] continuation_of [of "c div 64 mod 64"]
      by (simp add: utf8_next_def utf8_char_def Let_def del: of_nat_add)
  next
    case 4
    have "unat (of_nat (240 + c div 262144) :: u8) = 240 + c div 262144" using lim by (intro unat_small) auto
    moreover have "c div 262144 < 5" using lim by auto
    moreover note div_mod_digits(2) [of c]
    ultimately show ?thesis
      using 4 assms continuation_of [of "c mod 64"] continuation_of [of "c div 64 mod 64"] continuation_of [of "c div 4096 mod 64"]
      by (simp add: utf8_next_def utf8_char_def Let_def del: of_nat_add)
  qed
qed

lemma utf8_char_not_Nil [simp]: "utf8_char c \<noteq> []"
  by (simp add: utf8_char_def)

lemma utf8_Nil [simp]: "utf8 [] = []" and utf8_Cons [simp]: "utf8 (c # s) = utf8_char c @ utf8 s"
  and utf8_append [simp]: "utf8 (s @ t) = utf8 s @ utf8 t"
  by (simp_all add: utf8_def)

lemma from_utf8_utf8: "list_all is_scalar s \<Longrightarrow> from_utf8 (utf8 s) = Some s"
proof (induction s)
  case Nil
  then show ?case by (simp add: from_utf8.simps)
next
  case (Cons c s)
  then show ?case by (subst from_utf8.simps) (simp add: utf8_next_char)
qed

lemma utf8_ascii: "list_all (\<lambda>c. c < 128) s \<Longrightarrow> utf8 s = map of_nat s"
  by (induction s) (simp_all add: utf8_char_def)

lemma length_utf8_char: "c < 1114112 \<Longrightarrow> length (utf8_char c) = utf8_len c"
  by (simp add: utf8_char_def utf8_len_def)

lemma length_utf8: "list_all is_scalar s \<Longrightarrow> length (utf8 s) = blen s"
  by (induction s) (auto simp: length_utf8_char is_scalar_def)

section \<open>The percent codec\<close>

text \<open>
  The documented behaviour of the crate: every byte that is not ASCII or lies in the set becomes
  a percent sign and two upper-case hexadecimal digits, and decoding replaces every percent sign
  followed by two hexadecimal digits and keeps all other bytes.
\<close>

definition hex_digit :: "nat \<Rightarrow> rchar" where
  "hex_digit n = (if n < 10 then 48 + n else 55 + n)"

definition percent_byte :: "(rchar \<Rightarrow> bool) \<Rightarrow> u8 \<Rightarrow> rstr" where
  "percent_byte S b =
    (if unat b < 128 \<and> \<not> S (unat b) then [unat b]
     else [37, hex_digit (unat b div 16), hex_digit (unat b mod 16)])"

fun percent_scan :: "u8 list \<Rightarrow> u8 list" where
  "percent_scan [] = []"
| "percent_scan (b # bs) =
    (case bs of
       h # l # rest \<Rightarrow>
         (case (hex_value h, hex_value l) of
            (Some x, Some y) \<Rightarrow> if b = 37 then of_nat (x * 16 + y) # percent_scan rest else b # percent_scan bs
          | _ \<Rightarrow> b # percent_scan bs)
     | _ \<Rightarrow> b # percent_scan bs)"

definition percent_lawful :: "percent_codec \<Rightarrow> bool" where
  "percent_lawful K \<longleftrightarrow>
     (\<forall>S v. utf8_percent_encode K S v = concat (map (percent_byte S) (utf8 v))) \<and>
     (\<forall>v. percent_decode_str K v = percent_scan (utf8 v))"

definition reference_codec :: percent_codec where
  "reference_codec = \<lparr>utf8_percent_encode = \<lambda>S v. concat (map (percent_byte S) (utf8 v)),
     percent_decode_str = \<lambda>v. percent_scan (utf8 v)\<rparr>"

lemma reference_lawful: "percent_lawful reference_codec"
  by (simp add: percent_lawful_def reference_codec_def)

lemma hex_digit_ascii: "n < 16 \<Longrightarrow> hex_digit n < 128 \<and> hex_digit n \<notin> {9, 10, 13, 37}"
  by (auto simp: hex_digit_def)

lemma hex_value_digit: "n < 16 \<Longrightarrow> hex_value (of_nat (hex_digit n)) = Some n"
proof -
  assume n: "n < 16"
  have "unat (of_nat (hex_digit n) :: u8) = hex_digit n" using n by (intro unat_small) (simp add: hex_digit_def)
  then show ?thesis using n by (auto simp: hex_value_def hex_digit_def Let_def)
qed

lemma hex_digit_is_hex: "n < 16 \<Longrightarrow> is_ascii_hexdigit (of_nat (hex_digit n))"
proof -
  assume n: "n < 16"
  have "unat (of_nat (hex_digit n) :: u8) = hex_digit n" using n by (intro unat_small) (simp add: hex_digit_def)
  then show ?thesis using n by (auto simp: is_ascii_hexdigit_def hex_digit_def Let_def)
qed

lemma set_percent: "REQUEST_ENCODE_SET 37" "REQUEST_ENCODE_SET 9" "REQUEST_ENCODE_SET 10" "REQUEST_ENCODE_SET 13"
  by (simp_all add: REQUEST_ENCODE_SET_def is_ascii_alphanumeric_def)

lemma percent_byte_ascii:
  assumes "c \<in> set (percent_byte REQUEST_ENCODE_SET b)"
  shows "c < 128 \<and> c \<notin> {9, 10, 13}"
proof -
  have "unat b div 16 < 16" by (rule byte_high)
  then show ?thesis
    using assms set_percent hex_digit_ascii [of "unat b div 16"] hex_digit_ascii [of "unat b mod 16"]
    by (auto simp: percent_byte_def split: if_splits)
qed

text \<open>The bytes of an escaped text.\<close>

fun escaped :: "u8 list \<Rightarrow> u8 list" where
  "escaped [] = []"
| "escaped (b # bs) =
    (if unat b < 128 \<and> \<not> REQUEST_ENCODE_SET (unat b) then b # escaped bs
     else 37 # of_nat (hex_digit (unat b div 16)) # of_nat (hex_digit (unat b mod 16)) # escaped bs)"

lemma escaped_eq: "escaped bs = map of_nat (concat (map (percent_byte REQUEST_ENCODE_SET) bs))"
  by (induction bs) (simp_all add: percent_byte_def)

lemma escaped_byte:
  "hex_value (of_nat (hex_digit (unat (b :: u8) div 16))) = Some (unat b div 16)"
  "hex_value (of_nat (hex_digit (unat b mod 16))) = Some (unat b mod 16)"
  "is_ascii_hexdigit (of_nat (hex_digit (unat b div 16)))" "is_ascii_hexdigit (of_nat (hex_digit (unat b mod 16)))"
  "of_nat (unat b div 16 * 16 + unat b mod 16) = b"
proof -
  have "unat b div 16 < 16" by (rule byte_high)
  then show "hex_value (of_nat (hex_digit (unat b div 16))) = Some (unat b div 16)"
    "is_ascii_hexdigit (of_nat (hex_digit (unat b div 16)))"
    by (simp_all add: hex_value_digit hex_digit_is_hex)
qed (simp_all add: hex_value_digit hex_digit_is_hex)

lemma plain_byte: "\<not> REQUEST_ENCODE_SET (unat (b :: u8)) \<Longrightarrow> b \<noteq> 37"
  using set_percent by auto

lemma encode_bytes:
  assumes "percent_lawful K"
  shows "utf8 (mozc_encode K v) = escaped (utf8 v)"
proof -
  have e: "mozc_encode K v = concat (map (percent_byte REQUEST_ENCODE_SET) (utf8 v))"
    using assms by (simp add: mozc_encode_def percent_lawful_def)
  have "list_all (\<lambda>c. c < 128) (mozc_encode K v)"
    unfolding e using percent_byte_ascii by (auto simp: list_all_iff)
  from utf8_ascii [OF this] show ?thesis by (simp add: e escaped_eq)
qed

lemma encode_no_separator:
  assumes "percent_lawful K" "c \<in> set (mozc_encode K v)"
  shows "c < 128 \<and> c \<notin> {9, 10, 13}"
  using assms percent_byte_ascii by (auto simp: mozc_encode_def percent_lawful_def)

lemma percent_loop_escaped: "percent_loop (escaped bs) = Some bs"
  by (induction bs rule: escaped.induct) (simp_all add: escaped_byte plain_byte)

lemma percent_scan_escaped: "percent_scan (escaped bs) = bs"
proof (induction bs rule: escaped.induct)
  case (2 b bs)
  show ?case
  proof (cases "unat b < 128 \<and> \<not> REQUEST_ENCODE_SET (unat b)")
    case True
    then have "b \<noteq> 37" by (auto dest: plain_byte)
    then have "percent_scan (b # r) = b # percent_scan r" for r by (auto split: list.split option.split)
    with True 2 show ?thesis by simp
  next
    case False
    then have "escaped (b # bs) =
        37 # of_nat (hex_digit (unat b div 16)) # of_nat (hex_digit (unat b mod 16)) # escaped bs" by simp
    then show ?thesis using 2(2) [OF False] by (simp add: escaped_byte)
  qed
qed simp

lemma escapes_loop_escaped: "escapes_loop (escaped bs)"
  by (induction bs rule: escaped.induct) (simp_all add: escaped_byte plain_byte)

lemma decode_encode:
  assumes "percent_lawful K" "list_all is_scalar v"
  shows "mozc_decode K detail (mozc_encode K v) = Inr v"
  using assms(2)
  by (simp add: mozc_decode_def has_valid_percent_escapes_def encode_bytes [OF assms(1)] escapes_loop_escaped from_utf8_utf8
      assms(1) [unfolded percent_lawful_def] percent_scan_escaped)

section \<open>Numbers\<close>

lemma lit_scalar: "list_all is_scalar (lit s)"
proof -
  have "is_scalar (of_char c)" for c :: char unfolding is_scalar_def using nat_of_char_less_256 [of c] by linarith
  then show ?thesis by (auto simp: lit_def list_all_iff)
qed

lemma bytes_inject [simp]: "bytes s = bytes t \<longleftrightarrow> s = t"
proof
  assume "bytes s = bytes t"
  then have "Some (lit s) = Some (lit t)" unfolding bytes_def using from_utf8_utf8 [OF lit_scalar] by metis
  then show "s = t" by (simp add: lit_def inj_map_eq_map [OF inj_of_char])
qed simp

lemma digits_value_append:
  "digits_value a (xs @ ys) = (case digits_value a xs of None \<Rightarrow> None | Some b \<Rightarrow> digits_value b ys)"
  by (induction a xs rule: digits_value.induct) auto

lemma dec_ascii: "list_all (\<lambda>c. c < 128) (dec n)"
  by (auto simp: list_all_iff dest!: dec_digits)

lemma utf8_dec: "utf8 (dec n) = map of_nat (dec n)"
  by (rule utf8_ascii [OF dec_ascii])

lemma digits_value_dec: "digits_value 0 (utf8 (dec n)) = Some n"
proof (induction n rule: dec.induct)
  case (1 n)
  show ?case
  proof (cases "n < 10")
    case True
    then have "unat (of_nat (48 + n) :: u8) = 48 + n" by (intro unat_small) simp
    then show ?thesis using True by (simp add: dec.simps [of n] utf8_char_def del: of_nat_add)
  next
    case False
    have "utf8 (dec n) = utf8 (dec (n div 10)) @ [of_nat (48 + n mod 10)]"
      using False by (simp add: dec.simps [of n] utf8_char_def)
    moreover have "unat (of_nat (48 + n mod 10) :: u8) = 48 + n mod 10" by (intro unat_small) simp
    ultimately show ?thesis using 1 [OF False] by (simp add: digits_value_append del: of_nat_add)
  qed
qed

lemma parse_nat_dec: "parse_nat (utf8 (dec n)) = Some n"
  by (simp add: parse_nat_def digits_value_dec) (simp add: utf8_dec)

lemma parse_u64_dec64 [simp]: "parse_u64 (utf8 (dec64 n)) = Some n"
  using unsigned_less [of n] by (simp add: parse_u64_def dec64_def parse_nat_dec)

lemma parse_u32_small [simp]: "m < 2 ^ 32 \<Longrightarrow> parse_u32 (utf8 (dec m)) = Some m"
proof -
  assume m: "m < 2 ^ 32"
  then have "m < 2 ^ 64" by simp
  then have "unat (of_nat m :: u64) = m" by (simp only: unsigned_of_nat) (simp add: take_bit_nat_eq_self)
  then show ?thesis using m by (simp add: parse_u32_def parse_u64_def parse_nat_dec)
qed

lemma parse_u32_dec [simp]: "parse_u32 (utf8 (dec (unat (n :: u32)))) = Some (unat n)"
  using unsigned_less [of n] by (intro parse_u32_small) simp

lemma hd_dec: "utf8 (dec n) = b # bs \<Longrightarrow> b \<noteq> 45"
proof
  assume h: "utf8 (dec n) = b # bs" "b = 45"
  then have "(45 :: u8) \<in> set (map of_nat (dec n))" by (simp add: utf8_dec)
  then obtain c where c: "c \<in> set (dec n)" "(of_nat c :: u8) = 45" by auto
  then have "unat (of_nat c :: u8) = c" using dec_digits by (intro unat_small) fastforce
  then show False using c dec_digits [OF c(1)] by simp
qed

lemma parse_i32_dec_i32 [simp]: "parse_i32 (utf8 (dec_i32 i)) = Some i"
proof (cases "sint i < 0")
  case True
  have "- (2 ^ 31) \<le> sint i" using sint_ge [of i] by simp
  then have "nat (- sint i) \<le> 2 ^ 31" by (simp add: nat_le_iff)
  moreover have "- (of_nat (nat (- sint i)) :: i32) = i"
  proof -
    have "(of_nat (nat (- sint i)) :: i32) = of_int (int (nat (- sint i)))" by (rule of_int_of_nat_eq [symmetric])
    also have "\<dots> = of_int (- sint i)" using True by (simp only: int_nat_eq) simp
    finally show ?thesis by simp
  qed
  ultimately show ?thesis using True
    by (simp add: dec_i32_def parse_i32_def utf8_char_def parse_nat_dec)
next
  case False
  have "sint i < 2 ^ 31" using sint_less [of i] by simp
  then have "nat (sint i) < 2 ^ 31" using False by simp
  moreover have "(of_nat (nat (sint i)) :: i32) = i"
  proof -
    have "(of_nat (nat (sint i)) :: i32) = of_int (int (nat (sint i)))" by (rule of_int_of_nat_eq [symmetric])
    also have "\<dots> = of_int (sint i)" using False by (simp only: int_nat_eq) simp
    finally show ?thesis by simp
  qed
  moreover obtain b bs where b: "utf8 (dec (nat (sint i))) = b # bs"
    using dec_not_Nil [of "nat (sint i)"] by (cases "utf8 (dec (nat (sint i)))") (auto simp: utf8_dec)
  ultimately show ?thesis using False hd_dec [OF b] parse_nat_dec [of "nat (sint i)"]
    by (simp add: dec_i32_def parse_i32_def b)
qed

section \<open>Fields of a line\<close>

text \<open>A field that carries a text: it decodes to the text and holds no separator.\<close>

definition carries :: "rstr \<Rightarrow> u8 list \<Rightarrow> bool" where
  "carries f v \<longleftrightarrow> decode_field (utf8 f) = Inr v \<and> (\<forall>b \<in> set (utf8 f). b \<notin> {9, 10, 13})"

named_theorems carried \<open>fields of the line protocol that are read back\<close>

lemma from_utf8_ascii: "list_all (\<lambda>c. c < 128) s \<Longrightarrow> from_utf8 (utf8 s) = Some s"
  by (rule from_utf8_utf8) (auto simp: list_all_iff is_scalar_def)

lemma carries_plain:
  assumes "list_all (\<lambda>c. 32 \<le> c \<and> c < 128 \<and> c \<noteq> 37) f"
  shows "carries f (utf8 f)"
proof -
  have ascii: "list_all (\<lambda>c. c < 128) f" using assms by (auto simp: list_all_iff)
  have b: "unat (of_nat c :: u8) = c" if "c \<in> set f" for c
    using ascii that by (intro unat_small) (auto simp: list_all_iff)
  have plain: "b \<notin> {9, 10, 13, 37}" if h: "b \<in> set (utf8 f)" for b
  proof -
    obtain c where "c \<in> set f" "b = of_nat c" using h by (auto simp: utf8_ascii [OF ascii])
    then have "unat b = c" "32 \<le> c" "c \<noteq> 37" using b assms by (auto simp: list_all_iff)
    then show ?thesis by auto
  qed
  have "percent_loop bs = Some bs" if "\<forall>b \<in> set bs. b \<noteq> 37" for bs
    using that by (induction bs) simp_all
  then show ?thesis using plain by (auto simp: carries_def decode_field_def from_utf8_ascii [OF ascii])
qed

lemma carries_lit [carried]:
  "carries (lit ''open'') (bytes ''open'')" "carries (lit ''close'') (bytes ''close'')"
  "carries (lit ''cancel'') (bytes ''cancel'')" "carries (lit ''key'') (bytes ''key'')"
  "carries (lit ''edit'') (bytes ''edit'')" "carries (lit ''convert'') (bytes ''convert'')"
  "carries (lit ''commit'') (bytes ''commit'')" "carries [] []"
  "carries (lit ''character'') (bytes ''character'')" "carries (lit ''space'') (bytes ''space'')"
  "carries (lit ''backspace'') (bytes ''backspace'')" "carries (lit ''delete'') (bytes ''delete'')"
  "carries (lit ''escape'') (bytes ''escape'')" "carries (lit ''tab'') (bytes ''tab'')"
  "carries (lit ''enter'') (bytes ''enter'')" "carries (lit ''left'') (bytes ''left'')"
  "carries (lit ''right'') (bytes ''right'')" "carries (lit ''up'') (bytes ''up'')"
  "carries (lit ''down'') (bytes ''down'')" "carries (lit ''function'') (bytes ''function'')"
  "carries (lit ''named'') (bytes ''named'')" "carries (lit ''insert'') (bytes ''insert'')"
  "carries (lit ''replace'') (bytes ''replace'')" "carries (lit ''reset'') (bytes ''reset'')"
  unfolding bytes_def by (rule carries_plain [of "[]", simplified] carries_plain; simp add: lit_def)+

lemma carries_dec [carried]: "carries (dec n) (utf8 (dec n))"
  by (rule carries_plain) (auto simp: list_all_iff dest!: dec_digits)

lemma carries_dec64 [carried]: "carries (dec64 n) (utf8 (dec64 n))"
  unfolding dec64_def by (rule carries_dec)

lemma carries_dec_i32 [carried]: "carries (dec_i32 i) (utf8 (dec_i32 i))"
  by (rule carries_plain) (auto simp: list_all_iff dec_i32_def dest!: dec_digits)

lemma carries_encode [carried]:
  assumes "percent_lawful K" "list_all is_scalar v"
  shows "carries (mozc_encode K v) (utf8 v)"
proof -
  have "b \<notin> {9, 10, 13}" if h: "b \<in> set (utf8 (mozc_encode K v))" for b
  proof -
    have ascii: "list_all (\<lambda>c. c < 128) (mozc_encode K v)"
      using encode_no_separator [OF assms(1)] by (auto simp: list_all_iff)
    obtain c where c: "c \<in> set (mozc_encode K v)" "b = of_nat c" using h by (auto simp: utf8_ascii [OF ascii])
    then have "unat b = c" using ascii by (auto simp: list_all_iff intro!: unat_small)
    then show ?thesis using encode_no_separator [OF assms(1) c(1)] by auto
  qed
  then show ?thesis
    by (auto simp: carries_def decode_field_def encode_bytes [OF assms(1)] percent_loop_escaped from_utf8_utf8 [OF assms(2)])
qed

lemma split_tabs_field: "\<forall>b \<in> set f. b \<noteq> 9 \<Longrightarrow> split_tabs g (f @ 9 # bs) = (g @ f) # split_tabs [] bs"
  by (induction f arbitrary: g) simp_all

lemma split_tabs_last: "\<forall>b \<in> set f. b \<noteq> 9 \<Longrightarrow> split_tabs g f = [g @ f]"
  by (induction f arbitrary: g) simp_all

lemma utf8_tab: "utf8_char 9 = [9]"
  by (simp add: utf8_char_def)

lemma tabbed_nested: "gs \<noteq> [] \<Longrightarrow> tabbed (fs @ [tabbed gs]) = tabbed (fs @ gs)"
proof (induction fs rule: tabbed.induct)
  case (2 f)
  then obtain g hs where "gs = g # hs" by (cases gs) auto
  then show ?case by simp
qed simp_all

lemma decode_tabbed:
  assumes "list_all2 carries fs vs" "fs \<noteq> []"
  shows "decode_fields (split_tabs [] (utf8 (tabbed fs))) = Inr vs"
  using assms
proof (induction fs arbitrary: vs rule: tabbed.induct)
  case (2 f)
  then obtain v where v: "vs = [v]" "carries f v" by (auto simp: list_all2_Cons1)
  then have "split_tabs [] (utf8 f) = [utf8 f]" by (subst split_tabs_last) (auto simp: carries_def)
  with v show ?case by (simp add: carries_def)
next
  case (3 f g fs)
  then obtain v ws where v: "vs = v # ws" "carries f v" "list_all2 carries (g # fs) ws"
    by (auto simp: list_all2_Cons1)
  then have "split_tabs [] (utf8 f @ 9 # bs) = utf8 f # split_tabs [] bs" for bs
    by (subst split_tabs_field) (auto simp: carries_def)
  with v 3(1) [OF v(3)] show ?case by (simp add: carries_def utf8_tab)
qed simp

lemma tabbed_one_line:
  assumes "list_all2 carries fs vs" "fs \<noteq> []"
  shows "\<forall>b \<in> set (utf8 (tabbed fs)). b \<notin> {10, 13}"
  using assms
proof (induction fs arbitrary: vs rule: tabbed.induct)
  case (2 f)
  then show ?case by (auto simp: list_all2_Cons1 carries_def)
next
  case (3 f g fs)
  then obtain v ws where v: "carries f v" "list_all2 carries (g # fs) ws" by (auto simp: list_all2_Cons1)
  then show ?case using 3(1) [OF v(2)] by (auto simp: carries_def utf8_tab)
qed simp

text \<open>A line of fields reaches the dispatcher as exactly the texts it carries.\<close>

lemma native_line_tabbed:
  assumes "list_all2 carries fs vs" "fs \<noteq> []" "length fs \<le> 16" "tabbed fs \<noteq> []"
    "length (utf8 (tabbed fs)) \<le> 1048576"
  shows "native_line E other (utf8 (tabbed fs)) s = native_dispatch E other vs s"
proof -
  have ne: "utf8 (tabbed fs) \<noteq> []" using assms(4) by (cases "tabbed fs") auto
  then have "last (utf8 (tabbed fs)) \<noteq> 13" using tabbed_one_line [OF assms(1,2)] last_in_set by blast
  moreover have "length vs \<le> 16" using assms(1,3) list_all2_lengthD by metis
  ultimately show ?thesis using ne assms(5) decode_tabbed [OF assms(1,2)]
    by (simp add: native_line_def Let_def del: One_nat_def)
qed

lemma scalar_control: "list_all is_scalar v \<Longrightarrow> \<not> has_control v \<Longrightarrow> \<not> list_ex (\<lambda>b. unat b < 32 \<or> b = 127) (utf8 v)"
proof (induction v)
  case (Cons c v)
  have "\<not> list_ex (\<lambda>b. unat b < 32 \<or> b = 127) (utf8_char c)"
  proof (cases "c < 128")
    case True
    then have "unat (of_nat c :: u8) = c" by (intro unat_small) simp
    moreover have "32 \<le> c" "c \<noteq> 127" using Cons.prems True by (auto simp: has_control_def is_control_def)
    ultimately show ?thesis using True by (auto simp: utf8_char_def)
  next
    case False
    have high: "128 \<le> unat (of_nat n :: u8)" if "128 \<le> n" "n < 256" for n
      using that unat_small [of n] by simp
    have lim: "c < 1114112" using Cons.prems by (auto simp: is_scalar_def)
    have "128 \<le> unat b" if "b \<in> set (utf8_char c)" for b
      using that False lim
      by (auto simp: utf8_char_def split: if_splits simp del: of_nat_add intro!: high)
    then show ?thesis by (fastforce simp: list_ex_iff)
  qed
  with Cons show ?case by (simp add: has_control_def)
qed simp

end
