(* ===== verification/Mozc_Wire_Correct.thy ===== *)
theory Mozc_Wire_Correct
  imports Mozc_Wire_Facts
begin

text \<open>
  Every command line a session client sends is read by the native bridge as exactly the operation
  it stands for, and a key or an edit the client accepts is one the bridge accepts.
\<close>

section \<open>What a command line stands for\<close>

fun key_kind :: "mozc_key \<Rightarrow> u8 list" where
  "key_kind (MK_Character v) = bytes ''character''"
| "key_kind MK_Space = bytes ''space''"
| "key_kind MK_Backspace = bytes ''backspace''"
| "key_kind MK_Delete = bytes ''delete''"
| "key_kind MK_Escape = bytes ''escape''"
| "key_kind MK_Tab = bytes ''tab''"
| "key_kind MK_Enter = bytes ''enter''"
| "key_kind MK_Left = bytes ''left''"
| "key_kind MK_Right = bytes ''right''"
| "key_kind MK_Up = bytes ''up''"
| "key_kind MK_Down = bytes ''down''"
| "key_kind (MK_Function n) = bytes ''function''"
| "key_kind (MK_Named v) = bytes ''named''"

fun key_value :: "mozc_key \<Rightarrow> rstr" where
  "key_value (MK_Character v) = v"
| "key_value (MK_Function n) = dec (unat n)"
| "key_value (MK_Named v) = v"
| "key_value _ = []"

fun edit_text :: "mozc_edit \<Rightarrow> rstr" where
  "edit_text (ME_Insert v) = v"
| "edit_text (ME_Replace _ _ v) = v"
| "edit_text _ = []"

fun edit_arguments :: "mozc_edit \<Rightarrow> u8 list list" where
  "edit_arguments (ME_Insert v) = [bytes ''insert'', utf8 v]"
| "edit_arguments (ME_Replace a b v) = [bytes ''replace'', utf8 (dec (unat a)), utf8 (dec (unat b)), utf8 v]"
| "edit_arguments (ME_Delete a b) = [bytes ''delete'', utf8 (dec (unat a)), utf8 (dec (unat b))]"
| "edit_arguments ME_Reset = [bytes ''reset'']"

section \<open>Lengths\<close>

lemma length_escaped: "length (escaped bs) \<le> 3 * length bs"
  by (induction bs) auto

lemma length_encode:
  assumes "percent_lawful K" "list_all is_scalar v"
  shows "length (utf8 (mozc_encode K v)) \<le> 3 * blen v"
  using length_escaped [of "utf8 v"] by (simp add: encode_bytes [OF assms(1)] length_utf8 [OF assms(2)])

lemma length_utf8_dec: "length (utf8 (dec n)) = length (dec n)"
  by (simp add: utf8_dec)

lemma length_dec_le: "0 < k \<Longrightarrow> n < 10 ^ k \<Longrightarrow> length (dec n) \<le> k"
proof (induction k arbitrary: n)
  case (Suc k)
  show ?case
  proof (cases "n < 10")
    case True
    then show ?thesis by (simp add: dec.simps [of n])
  next
    case False
    then have "0 < k" using Suc.prems by (cases k) auto
    moreover have "n div 10 < 10 ^ k" using Suc.prems by (simp add: less_mult_imp_div_less mult.commute)
    ultimately show ?thesis using Suc.IH [of "n div 10"] False by (simp add: dec.simps [of n])
  qed
qed simp

lemma length_dec64: "length (utf8 (dec64 n)) \<le> 20"
proof -
  have "unat n < 2 ^ 64" using unsigned_less [of n] by simp
  then have "unat n < 10 ^ 20" by simp
  then show ?thesis using length_dec_le [of 20 "unat n"] by (simp add: dec64_def length_utf8_dec)
qed

lemma length_dec_u32: "length (utf8 (dec (unat (n :: u32)))) \<le> 10"
proof -
  have "unat n < 2 ^ 32" using unsigned_less [of n] by simp
  then show ?thesis using length_dec_le [of 10 "unat n"] by (simp add: length_utf8_dec)
qed

lemma length_dec_i32: "length (utf8 (dec_i32 i)) \<le> 12"
proof -
  have "- (2 ^ 31) \<le> sint i" "sint i < 2 ^ 31" using sint_ge [of i] sint_less [of i] by simp_all
  then have "nat (- sint i) < 10 ^ 10" "nat (sint i) < 10 ^ 10" by simp_all
  then show ?thesis using length_dec_le [of 10 "nat (- sint i)"] length_dec_le [of 10 "nat (sint i)"]
    by (simp add: dec_i32_def length_utf8_dec utf8_char_def)
qed

lemma length_tabbed: "length (utf8 (tabbed fs)) \<le> sum_list (map (\<lambda>f. length (utf8 f) + 1) fs)"
  by (induction fs rule: tabbed.induct) (simp_all add: utf8_tab)

text \<open>Reading a line under a bound on each of its fields.\<close>

lemma native_line_bounded:
  assumes "list_all2 carries fs vs" "fs \<noteq> []" "tabbed fs \<noteq> []" "list_all (\<lambda>f. length (utf8 f) \<le> 65000) fs"
    "length fs \<le> 16"
  shows "native_line E other (utf8 (tabbed fs)) s = native_dispatch E other vs s"
proof (rule native_line_tabbed [OF assms(1,2,5,3)])
  have "sum_list (map (\<lambda>f. length (utf8 f) + 1) fs) \<le> length fs * 65001"
    using assms(4) by (induction fs) auto
  also have "\<dots> \<le> 16 * 65001" using assms(5) by simp
  finally show "length (utf8 (tabbed fs)) \<le> 1048576" using length_tabbed [of fs] by linarith
qed

lemma length_lit: "length (utf8 (lit s)) \<le> 2 * length s"
proof -
  have "length (utf8_char (of_char c)) \<le> 2" for c :: char
  proof -
    have "(of_char c :: nat) < 2048" using nat_of_char_less_256 [of c] by linarith
    then show ?thesis by (simp add: utf8_char_def)
  qed
  note two = this
  show ?thesis
  proof (induction s)
    case (Cons c s)
    then show ?case using two [of c] by (simp add: lit_def)
  qed (simp add: lit_def)
qed

lemma length_dec_u8 [simp]: "length (utf8 (dec (unat (n :: u8)))) \<le> 65000"
proof -
  have "unat n < 2 ^ 8" using unsigned_less [of n] by simp
  then show ?thesis using length_dec_le [of 10 "unat n"] by (simp add: length_utf8_dec)
qed

lemma short_encode:
  "percent_lawful K \<Longrightarrow> list_all is_scalar v \<Longrightarrow> blen v \<le> 16384 \<Longrightarrow> length (utf8 (mozc_encode K v)) \<le> 65000"
  using length_encode [of K v] by linarith

lemma short_field [simp]:
  "length (utf8 (dec64 n)) \<le> 65000" "length (utf8 (dec (unat (a :: u32)))) \<le> 65000"
  "length (utf8 (dec_i32 i)) \<le> 65000"
  using length_dec64 [of n] length_dec_u32 [of a] length_dec_i32 [of i] by simp_all

lemma short_lit [simp]: "length s \<le> 100 \<Longrightarrow> length (utf8 (lit s)) \<le> 65000"
  using length_lit [of s] by simp

lemma tabbed_lit: "s \<noteq> [] \<Longrightarrow> tabbed (lit s # fs) \<noteq> []"
  by (cases s; cases fs) (simp_all add: lit_def)

section \<open>The commands\<close>

named_theorems line_read \<open>command lines as the native bridge reads them\<close>

lemma line_open [line_read]:
  "sid \<noteq> 0 \<Longrightarrow> native_line E other (utf8 (open_command sid)) s = native_open E sid s"
  unfolding open_command_def
  by (subst native_line_bounded [where vs = "[bytes ''open'', utf8 (dec64 sid)]"])
    (simp_all add: carried tabbed_lit native_dispatch_def explicit_id_def session_field_def)

lemma line_close [line_read]:
  "sid \<noteq> 0 \<Longrightarrow> native_line E other (utf8 (close_command sid g)) s = native_close E sid g s"
  unfolding close_command_def
  by (subst native_line_bounded [where vs = "bytes ''close'' # utf8 (dec64 sid) # map (\<lambda>g. utf8 (dec64 g)) (case g of None \<Rightarrow> [] | Some g \<Rightarrow> [g])"])
    (auto simp: carried tabbed_lit native_dispatch_def explicit_id_def session_field_def opt_generation_def
      bytes_inject split: option.split)

lemma line_cancel [line_read]:
  "native_line E other (utf8 (cancel_command sid g)) s = native_cancel E sid g s"
  unfolding cancel_command_def
  by (subst native_line_bounded [where vs = "bytes ''cancel'' # utf8 (dec64 sid) # map (\<lambda>g. utf8 (dec64 g)) (case g of None \<Rightarrow> [] | Some g \<Rightarrow> [g])"])
    (auto simp: carried tabbed_lit native_dispatch_def explicit_id_def session_field_def opt_generation_def
      native_cancel_def with_native_def split: option.split)

lemma line_commit [line_read]:
  "native_line E other (utf8 (commit_command sid i g)) s = native_commit E sid i g s"
  unfolding commit_command_def
  by (subst native_line_bounded [where vs = "[bytes ''commit'', utf8 (dec64 sid), utf8 (dec_i32 i), utf8 (dec64 g)]"])
    (simp_all add: carried tabbed_lit native_dispatch_def two_fields_def session_field_def)

lemma key_fields_carried:
  assumes "percent_lawful K" "list_all is_scalar (key_value k)" "key_fields K k = Inr f"
  shows "carries (fst f) (key_kind k)" "carries (snd f) (utf8 (key_value k))"
    "length (utf8 (fst f)) \<le> 65000" "length (utf8 (snd f)) \<le> 65000"
  using assms(2,3) by (cases k; force simp: carried short_encode assms(1) split: if_splits)+

lemma line_key [line_read]:
  assumes "percent_lawful K" "list_all is_scalar (key_value k)" "key_fields K k = Inr f"
  shows "native_line E other (utf8 (key_command sid g f)) s = native_key E sid g (key_kind k) (utf8 (key_value k)) s"
  unfolding key_command_def
  by (subst native_line_bounded [where vs =
        "[bytes ''key'', utf8 (dec64 sid), utf8 (dec64 g), key_kind k, utf8 (key_value k)]"])
    (simp_all add: carried tabbed_lit native_dispatch_def two_fields_def session_field_def key_fields_carried [OF assms])

lemma edit_fields_carried:
  assumes "percent_lawful K" "list_all is_scalar (edit_text a)" "edit_fields K a = Inr fs"
  shows "list_all2 carries fs (edit_arguments a)" "fs \<noteq> []" "length fs \<le> 4" "list_all (\<lambda>f. length (utf8 f) \<le> 65000) fs"
  using assms(2,3) by (cases a; force simp: carried short_encode assms(1) seq_def validate_edit_text_def reject_if_def split: if_splits)+

lemma line_edit [line_read]:
  assumes "percent_lawful K" "list_all is_scalar (edit_text a)" "edit_fields K a = Inr fs"
  shows "native_line E other (utf8 (edit_command sid g fs)) s = native_edit E sid g (edit_arguments a) s"
  unfolding edit_command_def
proof (subst tabbed_nested)
  obtain v vs where v: "edit_arguments a = v # vs" by (cases a) auto
  show "native_line E other (utf8 (tabbed ([lit ''edit'', dec64 sid, dec64 g] @ fs))) s =
      native_edit E sid g (edit_arguments a) s"
    using edit_fields_carried [OF assms]
    by (subst native_line_bounded [where vs = "[bytes ''edit'', utf8 (dec64 sid), utf8 (dec64 g)] @ edit_arguments a"])
      (simp_all add: carried tabbed_lit native_dispatch_def two_fields_def session_field_def v)
qed (rule edit_fields_carried [OF assms])

lemma line_convert [line_read]:
  assumes "percent_lawful K" "list_all is_scalar (cn_romaji q)" "list_all is_scalar (cn_context_before q)"
    "list_all is_scalar (cn_context_after q)" "validate_conversion_request q = Inr ()"
    "blen (cn_context_before q) \<le> 16 * 1024" "blen (cn_context_after q) \<le> 16 * 1024"
  shows "native_line E other (utf8 (convert_command K sid q)) s =
     native_convert E sid (cn_revision q) (utf8 (cn_romaji q)) (utf8 (cn_context_before q)) (utf8 (cn_context_after q)) s"
proof -
  have "blen (cn_romaji q) \<le> 1024"
    using assms(5) by (auto simp: validate_conversion_request_def seq_def reject_if_def split: if_splits)
  then have "length (utf8 (mozc_encode K (cn_romaji q))) \<le> 65000" "length (utf8 (mozc_encode K (cn_context_before q))) \<le> 65000"
    "length (utf8 (mozc_encode K (cn_context_after q))) \<le> 65000"
    using short_encode [OF assms(1)] assms(2,3,4,6,7) by simp_all
  then show ?thesis unfolding convert_command_def
    by (subst native_line_bounded [where vs = "[bytes ''convert'', utf8 (dec64 sid), utf8 (cn_romaji q),
        utf8 (cn_context_before q), utf8 (cn_context_after q), utf8 (dec64 (cn_revision q))]"])
      (simp_all add: carried tabbed_lit native_dispatch_def two_fields_def session_field_def assms(1-4))
qed

section \<open>What the client accepts\<close>

lemma utf8_eq_Nil [simp]: "utf8 v = [] \<longleftrightarrow> v = []"
  by (cases v) simp_all

lemma text_accepted:
  "list_all is_scalar v \<Longrightarrow> \<not> has_control v \<Longrightarrow> blen v \<le> n \<Longrightarrow> allow \<or> v \<noteq> [] \<Longrightarrow>
   validate_text_field (utf8 v) n allow name = Inr ()"
  using scalar_control [of v] by (auto simp: validate_text_field_def length_utf8)

lemma shown_utf8 [simp]: "list_all is_scalar v \<Longrightarrow> shown (utf8 v) = v"
  by (simp add: shown_def from_utf8_utf8)

lemma key_accepted:
  assumes "list_all is_scalar (key_value k)" "key_fields K k = Inr f"
  shows "key_value_ok (key_kind k) (utf8 (key_value k)) = Inr ()"
    "key_kind k \<in> {bytes ''function'', bytes ''named''} \<or> key_kind k \<in> set key_kinds"
proof -
  have f: "unat (n :: u8) \<le> 255" for n
  proof -
    have "unat n < 2 ^ 8" using unsigned_less [of n] by simp
    then show ?thesis by simp
  qed
  have p: "parse_u32 (utf8 (dec (unat (n :: u8)))) = Some (unat n)" for n
    using f [of n] by (intro parse_u32_small) simp
  show "key_value_ok (key_kind k) (utf8 (key_value k)) = Inr ()"
  proof (cases k)
    case (MK_Function n)
    then show ?thesis using f [of n] by (simp add: key_value_ok_def reject_if_def p)
  next
    case (MK_Character v)
    then show ?thesis using assms
      by (simp add: key_value_ok_def text_accepted from_utf8_utf8 reject_if_def split: if_splits)
  next
    case (MK_Named v)
    then show ?thesis using assms
      by (simp add: key_value_ok_def text_accepted from_utf8_utf8 reject_if_def split: if_splits)
  qed (simp_all add: key_value_ok_def)
  show "key_kind k \<in> {bytes ''function'', bytes ''named''} \<or> key_kind k \<in> set key_kinds"
    by (cases k) (simp_all add: key_kinds_def)
qed

lemma edit_text_accepted:
  assumes "list_all is_scalar (edit_text a)" "edit_fields K a = Inr fs"
  shows "edit_text_ok (utf8 (edit_text a)) message = Inr ()"
proof -
  have "\<not> has_control (edit_text a) \<and> blen (edit_text a) \<le> 16 * 1024"
    using assms(2) by (cases a) (auto simp: seq_def validate_edit_text_def reject_if_def has_control_def split: if_splits)
  then show ?thesis using assms(1) by (simp add: edit_text_ok_def text_accepted from_utf8_utf8 reject_if_def)
qed

lemma romaji_accepted:
  assumes "list_all is_scalar (cn_romaji q)" "validate_conversion_request q = Inr ()"
  shows "validate_text_field (utf8 (cn_romaji q)) 1024 False ''romaji'' = Inr ()"
  using assms by (auto simp: validate_conversion_request_def seq_def reject_if_def intro!: text_accepted split: if_splits)

text \<open>
  C2. Commands are read back. For a lawful percent codec and texts of scalar values, every
  command line of a session client (open, close, cancel, key, edit, convert and commit, whatever
  the text of the key, edit, composition or context) is read by the native bridge as exactly that
  operation on exactly that session, generation, candidate id and text: no text can break out of its
  field, end the line or exceed the bridge's limits. The bridge's own checks of a key's value, of an
  edit's text and of the romaji all succeed on what the client let through.
\<close>
theorem session_commands_read_back:
  assumes "percent_lawful K"
  shows "(sid \<noteq> 0 \<longrightarrow>
       native_line E other (utf8 (open_command sid)) s = native_open E sid s \<and>
       native_line E other (utf8 (close_command sid og)) s = native_close E sid og s) \<and>
     native_line E other (utf8 (cancel_command sid og)) s = native_cancel E sid og s \<and>
     native_line E other (utf8 (commit_command sid i g)) s = native_commit E sid i g s \<and>
     (list_all is_scalar (key_value k) \<and> key_fields K k = Inr f \<longrightarrow>
       native_line E other (utf8 (key_command sid g f)) s = native_key E sid g (key_kind k) (utf8 (key_value k)) s \<and>
       key_value_ok (key_kind k) (utf8 (key_value k)) = Inr ()) \<and>
     (list_all is_scalar (edit_text a) \<and> edit_fields K a = Inr fs \<longrightarrow>
       native_line E other (utf8 (edit_command sid g fs)) s = native_edit E sid g (edit_arguments a) s \<and>
       edit_text_ok (utf8 (edit_text a)) message = Inr ()) \<and>
     (list_all is_scalar (cn_romaji q @ cn_context_before q @ cn_context_after q) \<and>
      validate_conversion_request q = Inr () \<and> blen (cn_context_before q) \<le> 16 * 1024 \<and>
      blen (cn_context_after q) \<le> 16 * 1024 \<longrightarrow>
       native_line E other (utf8 (convert_command K sid q)) s =
         native_convert E sid (cn_revision q) (utf8 (cn_romaji q)) (utf8 (cn_context_before q))
           (utf8 (cn_context_after q)) s \<and>
       validate_text_field (utf8 (cn_romaji q)) 1024 False ''romaji'' = Inr ())"
  using assms by (auto simp: line_read key_accepted edit_text_accepted romaji_accepted)

text \<open>An engine that answers every request with the same output, as an instance for examples.\<close>

definition example_output :: native_output where
  "example_output = \<lparr>no_has_result = True, no_preedit = Some [97], no_consumed = True, no_candidate_ids = Inr [4, 5],
     no_response = blank_response\<rparr>"

definition example_engine :: "unit mozc_engine" where
  "example_engine = \<lparr>en_create = \<lambda>_ e. (e, Inr ()), en_delete = \<lambda>_ e. (e, Inr ()),
     en_reset = \<lambda>_ e. (e, Inr example_output), en_key = \<lambda>_ _ _ e. (e, Inr example_output),
     en_compose = \<lambda>_ _ e. (e, Inr example_output), en_convert = \<lambda>_ _ _ _ e. (e, Inr example_output),
     en_submit = \<lambda>_ _ e. (e, Inr example_output)\<rparr>"

definition example_native :: "unit native" where
  "example_native = \<lparr>nb_sessions = fmap_of_list [(7, native_session_new\<lparr>nv_generation := 3\<rparr>)], nb_engine = ()\<rparr>"

theorem session_commands_read_back_witness:
  "percent_lawful reference_codec \<and>
   native_line example_engine (\<lambda>_ s. (s, blank_response))
     (utf8 (key_command 7 3 (lit ''character'', mozc_encode reference_codec [12354, 37]))) example_native =
   native_key example_engine 7 3 (bytes ''character'') (utf8 [12354, 37]) example_native"
  using session_commands_read_back [OF reference_lawful, where sid = 7 and g = 3 and k = "MK_Character [12354, 37]"
      and f = "(lit ''character'', mozc_encode reference_codec [12354, 37])" and E = example_engine
      and other = "\<lambda>_ s. (s, blank_response)" and s = example_native]
  by (simp add: reference_lawful is_scalar_def has_control_def is_control_def utf8_len_def)

end
