(* ===== verification/Mozc_Session_Facts.thy ===== *)
theory Mozc_Session_Facts
  imports Mozc_Session Mozc_Wire_Correct
begin

text \<open>
  Facts of the Mozc session backend: edits of the composition against the list operations of the
  protocol and of the bridge, the shape of successful calls on the pool, and the contract of a
  broker backend.
\<close>

section \<open>Edits\<close>

text \<open>The edit an action means on the composition as a list of scalar values.\<close>

fun edit_list :: "edit_action \<Rightarrow> rstr \<Rightarrow> rstr" where
  "edit_list (Insert v) t = t @ v"
| "edit_list (Replace r v) t = take (unat (range_start r)) t @ v @ drop (unat (range_end r)) t"
| "edit_list (DeleteRange r) t = take (unat (range_start r)) t @ drop (unat (range_end r)) t"
| "edit_list Reset t = []"

fun edit_in_range :: "edit_action \<Rightarrow> rstr \<Rightarrow> bool" where
  "edit_in_range (Replace r v) t \<longleftrightarrow> range_start r \<le> range_end r \<and> unat (range_end r) \<le> length t"
| "edit_in_range (DeleteRange r) t \<longleftrightarrow> range_start r \<le> range_end r \<and> unat (range_end r) \<le> length t"
| "edit_in_range _ t \<longleftrightarrow> True"

fun edit_within_bound :: "edit_action \<Rightarrow> rstr \<Rightarrow> bool" where
  "edit_within_bound (DeleteRange r) t \<longleftrightarrow> True"
| "edit_within_bound a t \<longleftrightarrow> blen (edit_list a t) \<le> ADAPTER_BOUND"

lemma mozc_scalar_index_eq:
  "mozc_scalar_index t k =
     (if unat k \<le> length t then Inr (blen (take (unat k) t))
      else Inl (BE_Protocol (lit ''edit range is outside composition'')))"
  by (auto simp: mozc_scalar_index_def Let_def)

lemma blen_take_le_iff:
  "i \<le> length t \<Longrightarrow> j \<le> length t \<Longrightarrow> blen (take i t) \<le> blen (take j t) \<longleftrightarrow> i \<le> j"
  using blen_take_less [of i j t] blen_take_less [of j i t] by (metis leD le_eq_less_or_eq not_le)

lemma blen_replaced:
  assumes "i \<le> j" "j \<le> length t"
  shows "blen t - (blen (take j t) - blen (take i t)) + blen v = blen (take i t @ v @ drop j t)"
proof -
  have "blen t = blen (take j t) + blen (drop j t)" by (metis append_take_drop_id blen_append)
  moreover have "blen (take i t) \<le> blen (take j t)" using assms by (simp add: blen_take_mono)
  ultimately show ?thesis by simp
qed

text \<open>No panic, and exactly the list edit.\<close>

lemma mozc_apply_edit_spec:
  "\<exists>r. mozc_apply_edit a t = Some r \<and>
     (\<forall>t'. r = Inr t' \<longleftrightarrow> edit_in_range a t \<and> edit_within_bound a t \<and> t' = edit_list a t)"
proof (cases a)
  case (Insert v)
  then show ?thesis by (auto simp: append_bounded_def)
next
  case (Replace r v)
  show ?thesis
  proof (cases "unat (range_start r) \<le> length t \<and> unat (range_end r) \<le> length t")
    case True
    then show ?thesis using Replace blen_replaced [of "unat (range_start r)" "unat (range_end r)" t v]
      by (auto simp: mozc_scalar_index_eq blen_take_le_iff not_le [symmetric] replace_bytes_take word_le_nat_alt)
  next
    case False
    then show ?thesis using Replace by (auto simp: mozc_scalar_index_eq word_le_nat_alt)
  qed
next
  case (DeleteRange r)
  show ?thesis
  proof (cases "unat (range_start r) \<le> length t \<and> unat (range_end r) \<le> length t")
    case True
    then show ?thesis using DeleteRange
      by (auto simp: mozc_scalar_index_eq blen_take_le_iff not_le [symmetric] replace_bytes_take word_le_nat_alt)
  next
    case False
    then show ?thesis using DeleteRange by (auto simp: mozc_scalar_index_eq word_le_nat_alt)
  qed
qed auto

lemma mozc_apply_edit_Inr:
  "mozc_apply_edit a t = Some (Inr t') \<longleftrightarrow> edit_in_range a t \<and> edit_within_bound a t \<and> t' = edit_list a t"
proof -
  obtain r where r: "mozc_apply_edit a t = Some r"
    "\<forall>t'. r = Inr t' \<longleftrightarrow> edit_in_range a t \<and> edit_within_bound a t \<and> t' = edit_list a t"
    using mozc_apply_edit_spec by blast
  show ?thesis unfolding r(1) option.inject using r(2) by blast
qed

lemma mozc_apply_edit_Inl:
  "\<not> (edit_in_range a t \<and> edit_within_bound a t) \<Longrightarrow> \<exists>m. mozc_apply_edit a t = Some (Inl (BE_Protocol m))"
proof -
  assume no: "\<not> (edit_in_range a t \<and> edit_within_bound a t)"
  obtain r where r: "mozc_apply_edit a t = Some r" using mozc_apply_edit_spec by blast
  with no mozc_apply_edit_Inr [of a t] obtain e where e: "r = Inl e" by (cases r) auto
  have "\<exists>m. e = BE_Protocol m"
    using r e by (cases a)
      (auto simp: append_bounded_def mozc_scalar_index_eq exceeds_bound_def split: if_splits)
  with r e show ?thesis by blast
qed

lemma scalar_edit_list:
  "list_all is_scalar t \<Longrightarrow> list_all is_scalar (edit_text (mozc_edit_of a)) \<Longrightarrow> list_all is_scalar (edit_list a t)"
  unfolding list_all_iff by (cases a) (auto dest: in_set_takeD in_set_dropD)

text \<open>The bridge makes of the same edit the same composition.\<close>

lemma bridge_edit:
  assumes "list_all is_scalar t" "list_all is_scalar (edit_text (mozc_edit_of a))"
    "edit_fields K (mozc_edit_of a) = Inr fs" "edit_in_range a t"
  shows "edited_composition (edit_arguments (mozc_edit_of a)) (utf8 t) = Inr (utf8 (edit_list a t))"
  using assms edit_text_accepted [OF assms(2,3)]
  by (cases a) (simp_all add: edited_composition_def composition_range_def word_le_nat_alt)

section \<open>Calls\<close>

lemma process_start_not_invalid:
  "process_start os c w = (w', Inl e) \<Longrightarrow> \<forall>m. e \<noteq> PV_InvalidRequest m"
  by (auto simp: process_start_def secure_profile_permissions_def
      split: if_splits prod.splits sum.splits spawned.splits bool.splits)

lemma bridge_answer_not_invalid: "bridge_answer os x = Some (Inl e) \<Longrightarrow> \<forall>m. e \<noteq> PV_InvalidRequest m"
  by (auto simp: bridge_answer_def split: exchange.splits if_splits sum.splits option.splits)

lemma pool_call_not_invalid: "pool_call os c command pw = (pw', Inl e) \<Longrightarrow> \<forall>m. e \<noteq> PV_InvalidRequest m"
  by (auto simp: pool_call_def Let_def dest: process_start_not_invalid bridge_answer_not_invalid
      split: prod.splits if_splits option.splits sum.splits)

text \<open>The call of a running pool that succeeds is one exchange with its process.\<close>

lemma pool_call_running:
  assumes "pool_call os c command (p, w) = ((p', w'), Inr r)" "mp_process p = Some i"
  shows "p' = p \<and> \<not> mp_failed p \<and> br_ok r \<and>
    (\<exists>x. os_exchange os i command w = (w', x) \<and> bridge_answer os x = Some (Inr r))"
  using assms
  by (auto simp: pool_call_def Let_def pool_lose_def split: prod.splits if_splits option.splits sum.splits)

lemma bridge_answer_parsed: "bridge_answer os x = Some (Inr r) \<Longrightarrow> \<exists>t. os_parse os t = Inr r"
  by (auto simp: bridge_answer_def split: exchange.splits if_splits sum.splits option.splits)

lemma pool_call_answered:
  "pool_call os c command pw = ((p', w'), Inr r) \<Longrightarrow> mp_process p' \<noteq> None \<and> (\<exists>t. os_parse os t = Inr r)"
  by (auto simp: pool_call_def Let_def pool_lose_def dest: bridge_answer_parsed
      split: prod.splits if_splits option.splits sum.splits)

lemma client_call_Inr:
  "client_call os c command k pw = (pw', Inr x) \<Longrightarrow>
   \<exists>r. pool_call os c command pw = (pw', Inr r) \<and> k r = Inr x"
  by (auto simp: client_call_def bind_result_def split: prod.splits sum.splits)

lemma with_client_Inr:
  "with_client epoch f (b, w) = ((b', w'), Inr x) \<Longrightarrow>
   \<exists>p'. f (ms_pool b, w) = ((p', w'), Inr x) \<and> b' = b\<lparr>ms_pool := p'\<rparr>"
  by (auto simp: with_client_def Let_def split: prod.splits sum.splits)

lemma then_client_Inr:
  "then_client epoch f k (b, w) = ((b', w'), Inr p) \<Longrightarrow>
   \<exists>p' x. f (ms_pool b, w) = ((p', w'), Inr x) \<and> k x (b\<lparr>ms_pool := p'\<rparr>) = (b', Inr p)"
  by (auto simp: then_client_def split: prod.splits sum.splits dest!: with_client_Inr)

lemma on_session_Inr:
  "on_session sid body (b, w) = (bw', Inr p) \<Longrightarrow>
   \<exists>e. fmlookup (ms_sessions b) sid = Some e \<and> \<not> mp_failed (ms_pool b) \<and>
     me_epoch e = mp_epoch (ms_pool b) \<and> body e (b, w) = (bw', Inr p)"
  by (auto simp: on_session_def find_mozc_session_def split: prod.splits sum.splits if_splits option.splits)

section \<open>The contract of a backend\<close>

lemma mozc_in_kind: "mozc_command os c debug cmd bw = (bw', Inr p) \<Longrightarrow> answers_command cmd p"
proof -
  assume h: "mozc_command os c debug cmd bw = (bw', Inr p)"
  obtain b w b' w' where bw: "bw = (b, w)" "bw' = (b', w')" by fastforce
  show ?thesis
  proof (cases cmd)
    case (CreateSessionCmd q)
    with h show ?thesis
      by (auto simp: mozc_command_def mozc_create_def answers_command_def Let_def split: prod.splits if_splits sum.splits)
  next
    case (GenerationCmd q)
    with h show ?thesis by (auto simp: mozc_command_def answers_command_def)
  next
    case HealthCmd
    with h show ?thesis by (auto simp: mozc_command_def answers_command_def split: prod.splits)
  qed (use h bw in \<open>auto simp: mozc_command_def answers_command_def mozc_key_session_def mozc_edit_session_def
      mozc_convert_session_def mozc_commit_session_def mozc_cancel_session_def mozc_focus_lost_def
      empty_conversion_def converted_def Let_def dest!: on_session_Inr then_client_Inr split: if_splits option.splits sum.splits\<close>)
qed

interpretation mozc: answering_backend "mozc_ops os c debug" for os c debug
proof
  fix b b' :: "mozc_backend \<times> 'a" and cmd f p
  assume "be_execute (mozc_ops os c debug) b cmd f = (b', Inr p)"
  then show "answers_command cmd p"
    by (auto simp: mozc_ops_def mozc_execute_def dest: mozc_in_kind split: if_splits prod.splits)
next
  show "hr_max_frame_bytes (be_health (mozc_ops os c debug) b) \<noteq> 0" for b :: "mozc_backend \<times> 'a"
    by (auto simp: mozc_ops_def mozc_session_health_def Let_def DEFAULT_MAX_FRAME_BYTES_def split: prod.splits)
qed

end
