(* ===== verification/Mozc_Lockstep.thy ===== *)
theory Mozc_Lockstep
  imports Mozc_Session_Facts Session_Transaction
begin

text \<open>
  Three owners of one generation: the asynchronous broker publishes it, the Mozc session backend
  sends it, and the native bridge checks it. The predicate \<open>aligned\<close> says that they agree on every
  session they share; this theory shows which operations keep it and which do not.
\<close>

section \<open>The native bridge advances\<close>

definition advances :: "'e native \<Rightarrow> 'e native \<Rightarrow> u64 \<Rightarrow> u64 \<Rightarrow> u64 \<Rightarrow> bool" where
  "advances s s' sid g g' \<longleftrightarrow>
    (\<exists>n n'. fmlookup (nb_sessions s) sid = Some n \<and> nv_generation n = g \<and>
      nb_sessions s' = fmupd sid n' (nb_sessions s) \<and> nv_generation n' = g')"

lemma answer_flags [simp]:
  "\<not> br_ok (native_error m)" "br_ok (output_response out g)" "br_generation (output_response out g) = Some g"
  "br_ok (lifecycle_response d sid g)" "br_generation (lifecycle_response d sid g) = Some g"
  "br_session_id (lifecycle_response d sid g) = Some sid"
  "\<not> br_ok stale_response" "\<not> br_ok (future_or_stale g g')" "\<not> br_ok exhausted_response"
  by (simp_all add: native_error_def output_response_def lifecycle_response_def stale_response_def
      future_or_stale_def exhausted_response_def blank_response_def)

named_theorems native_advance \<open>accepted operations of the native bridge\<close>

lemma native_key_ok [native_advance]:
  "native_key E sid g kind v s = (s', r) \<Longrightarrow> br_ok r \<Longrightarrow> advances s s' sid g (g + 1)"
  by (auto simp: native_key_def with_native_def advances_def native_put_def
      split: option.splits if_splits sum.splits prod.splits)

lemma native_edit_ok [native_advance]:
  "native_edit E sid g args s = (s', r) \<Longrightarrow> br_ok r \<Longrightarrow> advances s s' sid g (g + 1)"
  by (auto simp: native_edit_def with_native_def advances_def native_put_def
      split: option.splits if_splits sum.splits prod.splits)

lemma native_convert_ok [native_advance]:
  "native_convert E sid g a b c s = (s', r) \<Longrightarrow> br_ok r \<Longrightarrow> \<exists>h. advances s s' sid h g"
  by (auto simp: native_convert_def with_native_def advances_def native_put_def Let_def
      split: option.splits if_splits sum.splits prod.splits)

lemma checked_succ_u64: "g \<noteq> - 1 \<Longrightarrow> checked_add_u64 g 1 = Some (g + 1)"
  using checked_succ_None_iff [of g] checked_succ_Some_eq [of g] by (cases "checked_add_u64 g 1") auto

lemma word_succ_max: "(g :: u64) \<noteq> - 1 \<Longrightarrow> max g (g + 1) = g + 1"
  using checked_succ_Some_less [OF checked_succ_u64] by (simp add: max_def less_imp_le)

lemma native_commit_ok [native_advance]:
  assumes "native_commit E sid i g s = (s', r)" "br_ok r" "fmlookup (nb_sessions s) sid = Some n"
    "nv_generation n = g" "g \<noteq> - 1"
  shows "advances s s' sid g (g + 1)"
  using assms word_succ_max [OF assms(5)]
  by (auto simp: native_commit_def with_native_def advances_def native_put_def
      split: option.splits if_splits sum.splits prod.splits)

lemma native_cancel_ok [native_advance]:
  "native_cancel E sid og s = (s', r) \<Longrightarrow> br_ok r \<Longrightarrow> \<exists>g. advances s s' sid g (g + 1)"
  by (auto simp: native_cancel_def with_native_def advances_def native_put_def
      split: option.splits if_splits sum.splits prod.splits)

section \<open>Alignment\<close>

text \<open>
  \<open>linked\<close>: what the operating system passes between the pool and the process \<open>i\<close> is what the
  native bridge \<open>V i w\<close> does with the line (\<open>other\<close> stands for its commands without a session).
\<close>

definition linked ::
    "'w bridge_os \<Rightarrow> 'e mozc_engine \<Rightarrow> (u8 list list \<Rightarrow> 'e native_step) \<Rightarrow> (nat \<Rightarrow> 'w \<Rightarrow> 'e native) \<Rightarrow> bool" where
  "linked os E other V \<longleftrightarrow> percent_lawful (os_codec os) \<and>
    (\<forall>i command w w' x r. os_exchange os i command w = (w', x) \<and> bridge_answer os x = Some (Inr r) \<longrightarrow>
       native_line E other (utf8 command) (V i w) = (V i w', r) \<and> list_all is_scalar (br_preedit r))"

definition aligned :: "(nat \<Rightarrow> 'w \<Rightarrow> 'e native) \<Rightarrow> (u64, u64) fmap \<Rightarrow> mozc_backend \<times> 'w \<Rightarrow> bool" where
  "aligned V view bw \<longleftrightarrow>
    (case bw of (b, w) \<Rightarrow> \<forall>sid g e.
       fmlookup view sid = Some g \<and> fmlookup (ms_sessions b) sid = Some e \<and> \<not> mp_failed (ms_pool b) \<and>
       me_epoch e = mp_epoch (ms_pool b) \<longrightarrow>
       list_all is_scalar (lo_composition (me_local e)) \<and>
       (\<exists>i n. mp_process (ms_pool b) = Some i \<and> fmlookup (nb_sessions (V i w)) sid = Some n \<and> nv_generation n = g))"

lemma aligned_empty [simp]: "aligned V fmempty bw"
  by (simp add: aligned_def split: prod.splits)

text \<open>The text of a command, as a Rust string.\<close>

fun command_scalar :: "request_command \<Rightarrow> bool" where
  "command_scalar (KeyCmd q) \<longleftrightarrow> list_all is_scalar (key_value (mozc_key_of (kq_key q)))"
| "command_scalar (EditCmd q) \<longleftrightarrow> list_all is_scalar (edit_text (mozc_edit_of (eq_action q)))"
| "command_scalar _ \<longleftrightarrow> True"

text \<open>An operation on one session that the bridge accepted moves only that session.\<close>

lemma aligned_step:
  assumes al: "aligned V view (b, w)" and v: "fmlookup view sid = Some g"
    and e: "fmlookup (ms_sessions b) sid = Some e" "\<not> mp_failed (ms_pool b)" "me_epoch e = mp_epoch (ms_pool b)"
    and i: "mp_process (ms_pool b) = Some i"
    and adv: "advances (V i w) (V i w') sid h g'"
    and l: "list_all is_scalar (lo_composition l)"
  shows "aligned V (fmupd sid g' view) (set_local sid l b, w')"
  unfolding aligned_def prod.case
proof (intro allI impI)
  fix y k d
  assume h: "fmlookup (fmupd sid g' view) y = Some k \<and> fmlookup (ms_sessions (set_local sid l b)) y = Some d \<and>
    \<not> mp_failed (ms_pool (set_local sid l b)) \<and> me_epoch d = mp_epoch (ms_pool (set_local sid l b))"
  have p: "ms_pool (set_local sid l b) = ms_pool b" by (simp add: set_local_def e(1))
  obtain n' where n': "nb_sessions (V i w') = fmupd sid n' (nb_sessions (V i w))" "nv_generation n' = g'"
    using adv by (auto simp: advances_def)
  show "list_all is_scalar (lo_composition (me_local d)) \<and>
    (\<exists>j n. mp_process (ms_pool (set_local sid l b)) = Some j \<and> fmlookup (nb_sessions (V j w')) y = Some n \<and> nv_generation n = k)"
  proof (cases "y = sid")
    case True
    with h l n' i p e(1) show ?thesis by (auto simp: set_local_def)
  next
    case False
    with h p have "fmlookup view y = Some k" "fmlookup (ms_sessions b) y = Some d" "me_epoch d = mp_epoch (ms_pool b)"
      by (auto simp: set_local_def e(1))
    with al e(2) have "list_all is_scalar (lo_composition (me_local d))"
      "\<exists>j n. mp_process (ms_pool b) = Some j \<and> fmlookup (nb_sessions (V j w)) y = Some n \<and> nv_generation n = k"
      unfolding aligned_def by blast+
    with False i p n' show ?thesis by auto
  qed
qed

text \<open>The pool of a successful session operation has not changed, and the bridge read the line.\<close>

lemma client_served:
  assumes "linked os E other V" "client_call os c command k (p, w) = ((p', w'), Inr x)" "mp_process p = Some i"
  obtains r where "p' = p" "br_ok r" "k r = Inr x" "native_line E other (utf8 command) (V i w) = (V i w', r)"
    "list_all is_scalar (br_preedit r)"
proof -
  obtain r where r: "pool_call os c command (p, w) = ((p', w'), Inr r)" "k r = Inr x"
    using client_call_Inr [OF assms(2)] by blast
  with pool_call_running [OF r(1) assms(3)] assms(1) that show ?thesis
    unfolding linked_def by blast
qed

section \<open>Each operation\<close>

lemma session_at:
  assumes "aligned V view (b, w)" "fmlookup view sid = Some g" "fmlookup (ms_sessions b) sid = Some e"
    "\<not> mp_failed (ms_pool b)" "me_epoch e = mp_epoch (ms_pool b)"
  obtains i n where "mp_process (ms_pool b) = Some i" "fmlookup (nb_sessions (V i w)) sid = Some n"
    "nv_generation n = g" "list_all is_scalar (lo_composition (me_local e))"
  using assms unfolding aligned_def by blast

text \<open>
  The common part: the body of an operation on a live session, whose client call is a command the
  bridge reads as \<open>native\<close>, and which then replaces the session's local state.
\<close>

lemma then_client_aligned:
  assumes link: "linked os E other V" and al: "aligned V view (b, w)" and v: "fmlookup view sid = Some g"
    and e: "fmlookup (ms_sessions b) sid = Some e" "\<not> mp_failed (ms_pool b)" "me_epoch e = mp_epoch (ms_pool b)"
    and f: "f (ms_pool b, w) = client_call os c command k (ms_pool b, w)"
    and t: "then_client epoch f k' (b, w) = (bw', Inr p)"
    and adv: "\<And>s s' r n. native_line E other (utf8 command) s = (s', r) \<Longrightarrow> br_ok r \<Longrightarrow>
      fmlookup (nb_sessions s) sid = Some n \<Longrightarrow> nv_generation n = g \<Longrightarrow> advances s s' sid g g'"
    and loc: "\<And>r x b'. k r = Inr x \<Longrightarrow> list_all is_scalar (br_preedit r) \<Longrightarrow> k' x b = (b', Inr p) \<Longrightarrow>
      \<exists>l. b' = set_local sid l b \<and> list_all is_scalar (lo_composition l)"
  shows "aligned V (fmupd sid g' view) bw'"
proof -
  obtain b' w' where bw': "bw' = (b', w')" by fastforce
  obtain i n where i: "mp_process (ms_pool b) = Some i" and n: "fmlookup (nb_sessions (V i w)) sid = Some n"
    "nv_generation n = g"
    using session_at [OF al v e] by blast
  obtain p' x where x: "client_call os c command k (ms_pool b, w) = ((p', w'), Inr x)"
    "k' x (b\<lparr>ms_pool := p'\<rparr>) = (b', Inr p)"
    using then_client_Inr [OF t [unfolded bw']] f by auto
  obtain r where r: "p' = ms_pool b" "br_ok r" "k r = Inr x" "native_line E other (utf8 command) (V i w) = (V i w', r)"
    "list_all is_scalar (br_preedit r)"
    using client_served [OF link x(1) i] by blast
  obtain l where l: "b' = set_local sid l b" "list_all is_scalar (lo_composition l)"
    using loc [OF r(3,5)] x(2) r(1) by auto
  have "advances (V i w) (V i w') sid g g'" by (rule adv [OF r(4,2) n])
  from aligned_step [OF al v e i this l(2)] show ?thesis by (simp add: bw' l(1))
qed

lemma next_state_preedit:
  "next_state d g m m' r = Inr st \<Longrightarrow> mz_preedit st = br_preedit r"
  by (auto simp: next_state_def protocol_unless_def session_state_from_response_def conversion_result_from_response_def
      Let_def split: option.splits if_splits)

lemma advances_at:
  "advances s s' sid h g' \<Longrightarrow> fmlookup (nb_sessions s) sid = Some n \<Longrightarrow> nv_generation n = g \<Longrightarrow> advances s s' sid g g'"
  by (auto simp: advances_def)

lemma linked_lawful: "linked os E other V \<Longrightarrow> percent_lawful (os_codec os)"
  by (simp add: linked_def)

lemma key_aligned:
  assumes link: "linked os E other V" and al: "aligned V view (b, w)" and v: "fmlookup view (kq_session_id q) = Some (kq_generation q)"
    and sc: "command_scalar (KeyCmd q)" and op: "mozc_key_session os c q (b, w) = (bw', Inr p)"
  shows "aligned V (fmupd (kq_session_id q) (kq_generation q + 1) view) bw'"
proof -
  let ?k = "mozc_key_of (kq_key q)"
  obtain e where e: "fmlookup (ms_sessions b) (kq_session_id q) = Some e" "\<not> mp_failed (ms_pool b)"
      "me_epoch e = mp_epoch (ms_pool b)"
    and t: "then_client (me_epoch e) (client_key os c (kq_session_id q) ?k (kq_generation q))
        (\<lambda>st b. (set_local (kq_session_id q) (local_empty\<lparr>lo_composition := mz_preedit st\<rparr>) b,
           Inr (KeyResp \<lparr>kr_session_id = kq_session_id q, kr_generation = kq_generation q,
             kr_preedit = mz_preedit st, kr_consumed = mz_consumed st, kr_candidates = [],
             kr_focused_index = None, kr_fallback = FM_None\<rparr>))) (b, w) = (bw', Inr p)"
    using op unfolding mozc_key_session_def by (auto dest!: on_session_Inr)
  obtain f where f: "key_fields (os_codec os) ?k = Inr f"
    using t by (cases "key_fields (os_codec os) ?k"; cases bw')
      (auto dest!: then_client_Inr simp: client_key_def)
  show ?thesis
    by (rule then_client_aligned [OF link al v e _ t])
      (auto simp: client_key_def f line_key [OF linked_lawful [OF link] sc [simplified] f] native_key_ok
        dest!: next_state_preedit)
qed

lemma edit_aligned:
  assumes link: "linked os E other V" and al: "aligned V view (b, w)" and v: "fmlookup view (eq_session_id q) = Some (eq_generation q)"
    and sc: "command_scalar (EditCmd q)" and op: "mozc_edit_session os c q (b, w) = (bw', Inr p)"
  shows "aligned V (fmupd (eq_session_id q) (eq_generation q + 1) view) bw'"
proof -
  let ?a = "mozc_edit_of (eq_action q)"
  obtain e x where e: "fmlookup (ms_sessions b) (eq_session_id q) = Some e" "\<not> mp_failed (ms_pool b)"
      "me_epoch e = mp_epoch (ms_pool b)"
    and t: "then_client (me_epoch e) (client_edit os c (eq_session_id q) ?a (eq_generation q))
            (\<lambda>st b.
               if mz_preedit st \<noteq> x
               then (b, Inl (BE_Protocol (lit ''Mozc edit response changed the composition unexpectedly'')))
               else (set_local (eq_session_id q) (local_empty\<lparr>lo_composition := mz_preedit st\<rparr>) b,
                 Inr (EditResp \<lparr>dr_session_id = eq_session_id q, dr_generation = eq_generation q,
                   dr_preedit = mz_preedit st, dr_consumed = mz_consumed st, dr_candidates = [],
                   dr_focused_index = None, dr_fallback = FM_None\<rparr>))) (b, w) = (bw', Inr p)"
    using op unfolding mozc_edit_session_def
    by (auto dest!: on_session_Inr split: option.splits sum.splits)
  obtain fs where f: "edit_fields (os_codec os) ?a = Inr fs"
    using t by (cases "edit_fields (os_codec os) ?a"; cases bw')
      (auto dest!: then_client_Inr simp: client_edit_def)
  show ?thesis
    by (rule then_client_aligned [OF link al v e _ t])
      (auto simp: client_edit_def f line_edit [OF linked_lawful [OF link] sc [simplified] f] native_edit_ok
        dest!: next_state_preedit split: if_splits)
qed

lemma convert_aligned:
  assumes link: "linked os E other V" and al: "aligned V view (b, w)" and v: "fmlookup view (cv_session_id q) = Some g"
    and g: "cv_generation q = g + 1"
    and op: "mozc_convert_session os c q (b, w) = (bw', Inr p)"
    and ne: "\<And>e. fmlookup (ms_sessions b) (cv_session_id q) = Some e \<Longrightarrow> lo_composition (me_local e) \<noteq> []"
  shows "aligned V (fmupd (cv_session_id q) (g + 1) view) bw'"
proof -
  obtain e where e: "fmlookup (ms_sessions b) (cv_session_id q) = Some e" "\<not> mp_failed (ms_pool b)"
      "me_epoch e = mp_epoch (ms_pool b)"
    and t: "then_client (me_epoch e)
        (client_convert os c (cv_session_id q)
           ((conversion_request_new (lo_composition (me_local e)))\<lparr>cn_revision := cv_generation q, cn_limit := 30\<rparr>))
        (\<lambda>result b. (set_local (cv_session_id q)
             \<lparr>lo_composition = cv_preedit result, lo_candidates = original_ids (cv_candidates result),
              lo_active = Some (cv_generation q)\<rparr> b,
           Inr (converted q result))) (b, w) = (bw', Inr p)"
    using op ne unfolding mozc_convert_session_def
    by (auto dest!: on_session_Inr split: if_splits)
  let ?r = "(conversion_request_new (lo_composition (me_local e)))\<lparr>cn_revision := cv_generation q, cn_limit := 30\<rparr>"
  have val: "validate_conversion_request ?r = Inr ()"
    using t by (cases "validate_conversion_request ?r"; cases bw')
      (auto dest!: then_client_Inr simp: client_convert_def)
  have sc: "list_all is_scalar (lo_composition (me_local e))" using session_at [OF al v e] by blast
  have line: "native_line E other (utf8 (convert_command (os_codec os) (cv_session_id q) ?r)) s =
      native_convert E (cv_session_id q) (g + 1) (utf8 (lo_composition (me_local e))) [] [] s" for s
    using line_convert [OF linked_lawful [OF link] _ _ _ val, where sid = "cv_session_id q" and E = E and other = other and s = s] sc g
    by (simp add: conversion_request_new_def)
  have f: "client_convert os c (cv_session_id q) ?r pw = client_call os c (convert_command (os_codec os) (cv_session_id q) ?r)
      (\<lambda>r. protocol_unless (br_generation r = Some (g + 1)) ''Mozc bridge returned a different conversion generation''
         (conversion_result_from_response (diagnostics_enabled os) r True)) pw" for pw
    by (simp add: client_convert_def val [unfolded g] g)
  show ?thesis
  proof (rule then_client_aligned [OF link al v e f t], goal_cases)
    case (1 s s' r n)
    then show ?case unfolding line by (blast intro: advances_at dest: native_convert_ok)
  next
    case (2 r x b')
    then have "cv_preedit x = br_preedit r"
      by (auto simp: protocol_unless_def conversion_result_from_response_def split: if_splits)
    with 2 show ?case
      by (intro exI [of _ "\<lparr>lo_composition = cv_preedit x, lo_candidates = original_ids (cv_candidates x),
        lo_active = Some (cv_generation q)\<rparr>"]) auto
  qed
qed

lemma commit_aligned:
  assumes link: "linked os E other V" and al: "aligned V view (b, w)" and v: "fmlookup view (cm_session_id q) = Some (cm_generation q)"
    and g: "cm_generation q \<noteq> - 1" and op: "mozc_commit_session os c q (b, w) = (bw', Inr p)"
  shows "aligned V (fmupd (cm_session_id q) (cm_generation q + 1) view) bw'"
proof -
  obtain e x where e: "fmlookup (ms_sessions b) (cm_session_id q) = Some e" "\<not> mp_failed (ms_pool b)"
      "me_epoch e = mp_epoch (ms_pool b)"
    and t: "then_client (me_epoch e) (client_commit os c (cm_session_id q) x (cm_generation q))
            (\<lambda>result b. (set_local (cm_session_id q) local_empty b,
               Inr (CommitResp \<lparr>mr_session_id = cm_session_id q, mr_generation = cm_generation q,
                 mr_text = ci_text result, mr_consumed = True\<rparr>))) (b, w) = (bw', Inr p)"
    using op unfolding mozc_commit_session_def
    by (auto dest!: on_session_Inr split: if_splits option.splits)
  show ?thesis
    by (rule then_client_aligned [OF link al v e _ t])
      (auto simp: client_commit_def line_commit local_empty_def intro: native_commit_ok [OF _ _ _ _ g])
qed

lemma cancel_aligned:
  assumes link: "linked os E other V" and al: "aligned V view (b, w)" and v: "fmlookup view (cc_session_id q) = Some g"
    and op: "mozc_cancel_session os c q (b, w) = (bw', Inr p)"
  shows "aligned V (fmupd (cc_session_id q) (g + 1) view) bw'"
proof -
  obtain e where e: "fmlookup (ms_sessions b) (cc_session_id q) = Some e" "\<not> mp_failed (ms_pool b)"
      "me_epoch e = mp_epoch (ms_pool b)"
    and t: "then_client (me_epoch e) (client_cancel os c (cc_session_id q) (cc_generation q))
        (\<lambda>_ b. (set_local (cc_session_id q) local_empty b,
           Inr (CancelResp \<lparr>xr_session_id = cc_session_id q,
             xr_generation = (case cc_generation q of None \<Rightarrow> 0 | Some g \<Rightarrow> g),
             xr_target_request_id = cc_target_request_id q\<rparr>))) (b, w) = (bw', Inr p)"
    using op unfolding mozc_cancel_session_def by (auto dest!: on_session_Inr)
  have adv: "advances s s' (cc_session_id q) g (g + 1)"
    if "native_line E other (utf8 (cancel_command (cc_session_id q) (cc_generation q))) s = (s', r)" "br_ok r"
      "fmlookup (nb_sessions s) (cc_session_id q) = Some n" "nv_generation n = g" for s s' r n
    using that by (auto simp: line_cancel dest!: native_cancel_ok simp: advances_def)
  show ?thesis
  proof (rule then_client_aligned [OF link al v e client_cancel_def [THEN fun_cong] t], goal_cases)
    case (1 s s' r n)
    then show ?case by (rule adv)
  next
    case (2 r x b')
    then show ?case by (auto simp: local_empty_def)
  qed
qed

lemma composed_aligned:
  assumes "linked os E other V" "aligned V view (b, w)" "fmlookup view sid = Some e" "composes cmd sid e" "e \<noteq> - 1"
    "command_scalar cmd"
    "\<And>q d. cmd = ConvertCmd q \<Longrightarrow> fmlookup (ms_sessions b) sid = Some d \<Longrightarrow> lo_composition (me_local d) \<noteq> []"
    "mozc_command os c debug (backend_command (e + 1) cmd) (b, w) = (bw', Inr p)"
  shows "aligned V (fmupd sid (e + 1) view) bw'"
proof (cases cmd)
  case (KeyCmd q)
  then show ?thesis using key_aligned [OF assms(1,2), of q] assms(3-) by (auto simp: mozc_command_def)
next
  case (EditCmd q)
  then show ?thesis using edit_aligned [OF assms(1,2), of q] assms(3-) by (auto simp: mozc_command_def)
next
  case (ConvertCmd q)
  then show ?thesis using convert_aligned [OF assms(1,2), of "q\<lparr>cv_generation := e + 1\<rparr>" e] assms(3-)
    by (auto simp: mozc_command_def)
next
  case (CommitCmd q)
  then show ?thesis using commit_aligned [OF assms(1,2), of q] assms(3-) by (auto simp: mozc_command_def)
next
  case (CancelCmd q)
  then show ?thesis using cancel_aligned [OF assms(1,2), of q] assms(3-) by (auto simp: mozc_command_def)
qed (use assms(4) in simp_all)

section \<open>A refused operation has no effect\<close>

lemma client_call_invalid:
  "client_call os c command k pw = (pw', Inl (PV_InvalidRequest m)) \<Longrightarrow> \<exists>r. k r = Inl (PV_InvalidRequest m)"
  by (auto simp: client_call_def bind_result_def dest: pool_call_not_invalid split: prod.splits sum.splits)

lemma client_refused:
  "client_key os c sid k g pw = (pw', Inl (PV_InvalidRequest m)) \<Longrightarrow> pw' = pw"
  "client_edit os c sid a g pw = (pw', Inl (PV_InvalidRequest m)) \<Longrightarrow> pw' = pw"
  "client_convert os c sid q pw = (pw', Inl (PV_InvalidRequest m)) \<Longrightarrow> pw' = pw"
  "client_commit os c sid i g pw = (pw', Inl (PV_InvalidRequest m)) \<Longrightarrow> pw' = pw"
  "client_cancel os c sid og pw = (pw', Inl (PV_InvalidRequest m)) \<Longrightarrow> pw' = pw"
  by (auto simp: client_key_def client_edit_def client_convert_def client_commit_def client_cancel_def next_state_def
      protocol_unless_def commit_answer_def bind_result_def dest!: client_call_invalid
      split: sum.splits option.splits if_splits)

lemma with_client_withdrawn:
  assumes "with_client epoch f (b, w) = (bw', Inl x)" "x = BE_Cancelled \<or> x = BE_Rejected m"
  shows "\<exists>p' w'. f (ms_pool b, w) = ((p', w'), Inl (PV_InvalidRequest m)) \<and> bw' = (b\<lparr>ms_pool := p'\<rparr>, w')"
proof -
  have e: "e = PV_InvalidRequest m" if "of_provider_error e = BE_Cancelled \<or> of_provider_error e = BE_Rejected m" for e
    using that by (cases e) auto
  show ?thesis using assms
    by (auto simp: with_client_def classify_client_error_def Let_def intro: e split: prod.splits sum.splits if_splits)
qed

lemma then_client_withdrawn:
  assumes "then_client epoch f k (b, w) = (bw', Inl x)" "x = BE_Cancelled \<or> x = BE_Rejected m"
    and "\<And>y b b' z. k y b = (b', Inl z) \<Longrightarrow> z \<noteq> x"
    and "\<And>pw'. f (ms_pool b, w) = (pw', Inl (PV_InvalidRequest m)) \<Longrightarrow> pw' = (ms_pool b, w)"
  shows "bw' = (b, w)"
  using assms(1,3) with_client_withdrawn [OF _ assms(2), of epoch f b w bw'] assms(4)
  by (force simp: then_client_def split: prod.splits sum.splits)

lemma on_session_withdrawn:
  assumes "on_session sid body (b, w) = (bw', Inl x)" "x = BE_Cancelled \<or> x = BE_Rejected m"
    and "\<And>d. body d (b, w) = (bw', Inl x) \<Longrightarrow> bw' = (b, w)"
  shows "bw' = (b, w)"
  using assms by (auto simp: on_session_def find_mozc_session_def split: prod.splits sum.splits if_splits option.splits)

lemma withdrawn_unchanged:
  assumes "mozc_execute os c debug f f cmd bw = (bw', Inl x)" "x = BE_Cancelled \<or> x = BE_Rejected m" "composes cmd sid e"
  shows "bw' = bw"
proof (cases f)
  case True
  then show ?thesis using assms(1) by (simp add: mozc_execute_def)
next
  case False
  obtain b w where bw: "bw = (b, w)" by fastforce
  have op: "mozc_command os c debug cmd (b, w) = (bw', Inl x)"
    using assms(1) False by (simp add: mozc_execute_def bw split: prod.splits)
  note wd = on_session_withdrawn [OF _ assms(2), where bw' = bw' and b = b and w = w]
  note tc = then_client_withdrawn [OF _ assms(2), where bw' = bw' and b = b and w = w]
  have "bw' = (b, w)"
  proof (cases cmd)
    case (KeyCmd q)
    show ?thesis using op unfolding KeyCmd mozc_command_def request_command.case mozc_key_session_def
      by (elim wd) (erule tc; auto dest: client_refused)
  next
    case (EditCmd q)
    show ?thesis using op assms(2) unfolding EditCmd mozc_command_def request_command.case mozc_edit_session_def
      by (elim wd) (auto split: if_splits option.splits sum.splits elim!: tc dest: client_refused)
  next
    case (ConvertCmd q)
    show ?thesis using op unfolding ConvertCmd mozc_command_def request_command.case mozc_convert_session_def
      by (elim wd) (auto split: if_splits elim!: tc dest: client_refused)
  next
    case (CommitCmd q)
    show ?thesis using op unfolding CommitCmd mozc_command_def request_command.case mozc_commit_session_def
      by (elim wd) (auto split: if_splits option.splits elim!: tc dest: client_refused)
  next
    case (CancelCmd q)
    show ?thesis using op unfolding CancelCmd mozc_command_def request_command.case mozc_cancel_session_def
      by (elim wd) (erule tc; auto dest: client_refused)
  qed (use assms(3) in simp_all)
  then show ?thesis by (simp add: bw)
qed

section \<open>The broker\<close>

end
