(* ===== verification/Mozc_Correct.thy ===== *)
theory Mozc_Correct
  imports Mozc_Lockstep Session_Correct
begin

text \<open>
  Properties of the Mozc-backed session broker: the lockstep of broker, backend and native bridge
  and where it breaks, edits and candidates across the three, and the pool that fails closed.
\<close>

section \<open>An instance\<close>

text \<open>A bridge process over the example engine that answers one kind of line; all else times out.\<close>

definition example_answer :: bridge_response where
  "example_answer = output_response example_output 1"

definition example_other :: "u8 list list \<Rightarrow> unit native_step" where
  "example_other parts s = (s, blank_response)"

definition example_os :: "(unit native) bridge_os" where
  "example_os = \<lparr>os_var = \<lambda>_. None, os_windows = False, os_unix = True, os_is_file = \<lambda>_ _. True,
     os_is_absolute = \<lambda>_. True, os_join = \<lambda>d f. d @ [47] @ f, os_parent = \<lambda>_. None, os_display = \<lambda>p. p,
     os_create_dir_all = \<lambda>_ w. (w, Inr ()), os_is_symlink = \<lambda>_ _. Inr False, os_set_mode = \<lambda>_ _ w. (w, Inr ()),
     os_spawn = \<lambda>_ w. (w, SP_Child 1),
     os_exchange = \<lambda>i command w.
       (case native_line example_engine example_other (utf8 command) w of (w', r) \<Rightarrow>
          (w', if r = example_answer then EX_Line [120] (Inr []) else EX_TimedOut)),
     os_kill = \<lambda>_ w. w, os_terminate = \<lambda>_ w. w,
     os_parse = \<lambda>_. Inr example_answer, os_utf8_detail = \<lambda>_. [], os_codec = reference_codec\<rparr>"

definition example_config :: bridge_config where
  "example_config = \<lparr>bg_binary_path = [98], bg_profile_dir = [112], bg_request_timeout = 5\<rparr>"

definition example_world :: "unit native" where
  "example_world = \<lparr>nb_sessions = fmap_of_list [(7, native_session_new)], nb_engine = ()\<rparr>"

definition example_backend :: "rstr \<Rightarrow> mozc_backend" where
  "example_backend t = \<lparr>ms_pool = \<lparr>mp_process = Some 1, mp_epoch = 0, mp_failed = False\<rparr>,
     ms_sessions = fmap_of_list [(7, \<lparr>me_epoch = 0, me_local = local_empty\<lparr>lo_composition := t\<rparr>\<rparr>)]\<rparr>"

lemma example_linked: "linked example_os example_engine example_other (\<lambda>_ w. w)"
proof -
  have s: "list_all is_scalar (br_preedit example_answer)"
    by (simp add: example_answer_def output_response_def example_output_def blank_response_def)
  have "from_utf8 [120] = Some [120]" by (simp add: from_utf8.simps utf8_next_def)
  with s show ?thesis
    by (auto simp: linked_def example_os_def reference_lawful bridge_answer_def split: prod.splits if_splits)
qed

lemma demo_view: "session_view demo_sessions = fmupd 7 0 fmempty"
proof (rule fmap_ext)
  fix y
  show "fmlookup (session_view demo_sessions) y = fmlookup (fmupd 7 0 fmempty) y"
    by (simp add: view_lookup entry_generation_def entry_of_def demo_sessions_def bind_session_owner_def
        insert_session_def demo_empty_def session_broker_new_def set_entry_def new_entry_def new_cell_def)
qed

lemma example_aligned:
  "list_all is_scalar t \<Longrightarrow> aligned (\<lambda>_ w. w) (session_view demo_sessions) (example_backend t, example_world)"
  by (auto simp: aligned_def demo_view example_backend_def example_world_def native_session_new_def local_empty_def)

definition mozc_demo_key :: "u64 \<Rightarrow> request_envelope" where
  "mozc_demo_key g = new_request 9 (KeyCmd \<lparr>kq_session_id = 7, kq_generation = g, kq_key = Space\<rparr>)"

section \<open>Lockstep\<close>




section \<open>Operations that end every session\<close>

text \<open>A failing backend command of a composition operation, at the broker.\<close>

lemma failed_command:
  assumes "entries_ok s" "ready s sid a e (rq_request_id q)" "validate_request q = Inr ()"
    and "composes (rq_command q) sid e" "\<not> cancels_something (rq_command q)"
    and "mozc_command os c debug (backend_command (e + 1) (rq_command q)) (b, w) = (bw2, Inl x)"
    and "\<And>m. x \<noteq> BE_Rejected m" "x \<noteq> BE_Cancelled"
    and "session_handle (mozc_ops os c debug) q (s, (b, w)) = ((s', bw'), resp)"
  shows "session_view s' = fmempty \<and> bw' = bw2"
proof -
  let ?cmd = "backend_command (e + 1) (rq_command q)"
  obtain flag bw3 r s3 resp3 where
    "flag \<longrightarrow> cancels_something (rq_command q)"
    "be_execute (mozc_ops os c debug) (b, w) ?cmd flag = (bw3, r)"
    and h: "session_handle (mozc_ops os c debug) q (s, (b, w)) = ((s3, bw3), resp3)"
    and tr: "transacted sid e (verdict_of ?cmd (e + 1) r) s (s3, resp3)"
    using handle_transaction [OF assms(1-4), of "mozc_ops os c debug" "(b, w)"] by blast
  then have "bw3 = bw2" "r = Inl x" using assms(5,6) by (simp_all add: mozc_ops_def mozc_execute_def)
  moreover have "verdict_of ?cmd (e + 1) (Inl x) = Invalidated"
    using assms(7,8) by (cases x) (auto simp: verdict_of_def)
  ultimately show ?thesis using h tr assms(9) by (simp add: transacted_def view_after_def)
qed

lemma next_state_Inl: "next_state d g m m' r = Inl e \<Longrightarrow> \<exists>t. e = PV_Protocol t"
  by (auto simp: next_state_def protocol_unless_def split: option.splits if_splits)

lemma future_key_fails:
  assumes "linked os E other V" "fmlookup (ms_sessions b) (kq_session_id y) = Some d"
    and "me_epoch d = mp_epoch (ms_pool b)" "mp_process (ms_pool b) = Some i" "\<not> mp_failed (ms_pool b)"
    and "fmlookup (nb_sessions (V i w)) (kq_session_id y) = Some n" "nv_generation n \<noteq> kq_generation y"
    and "key_fields (os_codec os) (mozc_key_of (kq_key y)) = Inr f" "command_scalar (KeyCmd y)"
  shows "\<exists>bw2 x. mozc_key_session os c y (b, w) = (bw2, Inl x) \<and> x \<noteq> BE_Cancelled \<and> (\<forall>m. x \<noteq> BE_Rejected m)"
proof -
  obtain bw2 r where r: "mozc_key_session os c y (b, w) = (bw2, r)" by fastforce
  let ?f = "client_key os c (kq_session_id y) (mozc_key_of (kq_key y)) (kq_generation y)"
  have call: "?f pw = client_call os c (key_command (kq_session_id y) (kq_generation y) f)
      (next_state (diagnostics_enabled os) (kq_generation y) ''Mozc key generation is exhausted''
         ''Mozc bridge returned a different key generation'') pw" for pw
    by (simp add: client_key_def assms(8))
  have body: "then_client (me_epoch d) ?f (\<lambda>st b. (set_local (kq_session_id y) (local_empty\<lparr>lo_composition := mz_preedit st\<rparr>) b,
           Inr (KeyResp \<lparr>kr_session_id = kq_session_id y, kr_generation = kq_generation y,
             kr_preedit = mz_preedit st, kr_consumed = mz_consumed st, kr_candidates = [],
             kr_focused_index = None, kr_fallback = FM_None\<rparr>))) (b, w) = (bw2, r)"
    using r assms(2,3,5) by (simp add: mozc_key_session_def on_session_def find_mozc_session_def)
  show ?thesis
  proof (cases r)
    case (Inr p)
    obtain b2 w2 where bw2: "bw2 = (b2, w2)" by fastforce
    obtain p' st where "?f (ms_pool b, w) = ((p', w2), Inr st)"
      using then_client_Inr [OF body [unfolded Inr bw2]] by blast
    then obtain ans where "br_ok ans"
      "native_line E other (utf8 (key_command (kq_session_id y) (kq_generation y) f)) (V i w) = (V i w2, ans)"
      using client_served [OF assms(1) _ assms(4)] call by metis
    then have "advances (V i w) (V i w2) (kq_session_id y) (kq_generation y) (kq_generation y + 1)"
      using line_key [OF linked_lawful [OF assms(1)] assms(9) [simplified] assms(8)] native_key_ok by metis
    then have "nv_generation n = kq_generation y" using assms(6) by (auto simp: advances_def)
    with assms(7) show ?thesis by simp
  next
    case (Inl x)
    have "\<not> (x = BE_Cancelled \<or> x = BE_Rejected m)" for m
    proof
      assume m: "x = BE_Cancelled \<or> x = BE_Rejected m"
      have "with_client (me_epoch d) ?f (b, w) = (bw2, Inl x)"
        using body Inl by (auto simp: then_client_def split: prod.splits sum.splits)
      from with_client_withdrawn [OF this m] obtain p' w' where "?f (ms_pool b, w) = ((p', w'), Inl (PV_InvalidRequest m))"
        by (elim exE conjE)
      from client_call_invalid [OF this [unfolded call]] show False by (elim exE) (drule next_state_Inl, simp)
    qed
    then show ?thesis using r Inl by blast
  qed
qed

text \<open>A conversion that the broker commits leaves the session ready at the next generation.\<close>

lemma converted_ready:
  assumes rd: "ready s sid a e (rq_request_id q)" and q: "validate_request q = Inr ()" "rq_command q = ConvertCmd x"
    and x: "cv_session_id x = sid" "cv_generation x = e"
    and ex: "be_execute ops b (ConvertCmd (x\<lparr>cv_generation := e + 1\<rparr>)) False = (b', Inr (ConvertResp r))"
    and ok: "vr_session_id r = sid" "is_ok (validate_payload (ConvertResp (r\<lparr>vr_generation := e + 1, vr_fallback := FM_None\<rparr>)))"
    and h: "session_handle ops q (s, b) = ((s1, b1), resp)"
    and nxt: "e + 1 \<noteq> - 1" "fmlookup (cn_tokens (sb_cancellations s)) rid2 = None"
  shows "ready s1 sid a (e + 1) rid2"
proof -
  let ?rid = "rq_request_id q"
  obtain s0 token where st: "start_change ?rid sid e a s = (s0, Inr (token, e + 1))"
    "\<not> is_cancelled (sb_cancellations s0) token"
    using ready_start_change [OF rd] by blast
  obtain c where c: "finish_registration ?rid s0 = set_cell a (bump_cell (e + 1) (sb_cells s a)) (s\<lparr>sb_cancellations := c\<rparr>)"
    "cn_tokens c = cn_tokens (sb_cancellations s)"
    using opened_finish [OF start_change_opened [OF st(1)]] by blast
  have "entry_of s sid = Some a" using rd by (simp add: ready_def)
  then have "s1 = remember_state sid (convert_state (r\<lparr>vr_generation := e + 1, vr_fallback := FM_None\<rparr>))
      (finish_registration ?rid s0)"
    using h q st ex ok x
    by (auto simp: session_handle_def session_command_def session_convert_def run_operation_def finish_convert_def Let_def
        simp del: validate_payload.simps)
  then show ?thesis using rd nxt c(2) unfolding c(1)
    by (auto simp: ready_def remember_state_def set_entry_def set_cell_def entry_of_def bump_cell_def split: option.splits)
qed

text \<open>
  C9. The conversion of an empty composition breaks the lockstep. The broker counts it as an
  operation and moves the session to the next generation, but the backend answers it without
  the bridge, whose generation stays. The next key of that session, although valid and sent at the
  generation the broker has just published, is then refused by the bridge as one from the future (or
  the bridge fails), and the broker ends every session of every client.
\<close>
theorem empty_conversion_ends_sessions:
  assumes "linked os E other V" "aligned V (session_view s) (b, w)" "session_inv s"
    and "fmlookup (ms_sessions b) sid = Some d" "me_epoch d = mp_epoch (ms_pool b)" "\<not> mp_failed (ms_pool b)"
    and "lo_composition (me_local d) = []"
    and "ready s sid a e (rq_request_id q)" "validate_request q = Inr ()" "rq_command q = ConvertCmd x"
    and "cv_session_id x = sid" "cv_generation x = e"
    and "session_handle (mozc_ops os c debug) q (s, (b, w)) = ((s1, bw1), resp1)"
    and "e + 1 \<noteq> - 1" "fmlookup (cn_tokens (sb_cancellations s)) (rq_request_id q2) = None" "validate_request q2 = Inr ()"
    and "rq_command q2 = KeyCmd y" "kq_session_id y = sid" "kq_generation y = e + 1"
    and "key_fields (os_codec os) (mozc_key_of (kq_key y)) = Inr f" "command_scalar (KeyCmd y)"
    and "session_handle (mozc_ops os c debug) q2 (s1, bw1) = ((s2, bw2), resp2)"
  shows "bw1 = (b, w) \<and> session_view s1 = fmupd sid (e + 1) (session_view s) \<and> rp_generation resp1 = Some (e + 1) \<and>
    session_view s2 = fmempty"
proof -
  have at: "fmlookup (session_view s) sid = Some e" "e \<noteq> - 1"
    using assms(8) by (auto simp: ready_def view_lookup entry_generation_def)
  obtain i n where n: "mp_process (ms_pool b) = Some i" "fmlookup (nb_sessions (V i w)) sid = Some n" "nv_generation n = e"
    using session_at [OF assms(2) at(1) assms(4,6,5)] by blast
  have ok: "entries_ok s" using assms(3) by (simp add: session_inv_def)
  have "session_inv s1" using settled_inv [OF session_handle_settled [of s "mozc_ops os c debug" q "(b, w)"] assms(3)] assms(13)
    by simp
  then have ok1: "entries_ok s1" by (simp add: session_inv_def)
  let ?cmd = "backend_command (e + 1) (rq_command q)"
  have cmd: "mozc_command os c debug ?cmd (b, w) = ((b, w), Inr (empty_conversion (x\<lparr>cv_generation := e + 1\<rparr>)))"
    using assms(4-7,10,11) by (simp add: mozc_command_def mozc_convert_session_def on_session_def find_mozc_session_def)
  have v: "verdict_of ?cmd (e + 1) (Inr (empty_conversion (x\<lparr>cv_generation := e + 1\<rparr>))) = Committed"
    using assms(9,10,11)
    by (auto simp: verdict_of_def answers_command_def empty_conversion_def validate_request_def seq_def validate_id_def
        validate_composition_response_def validate_text_allow_empty_def reject_if_def has_control_def split: sum.splits if_splits)
  obtain flag bw3 r s3 resp3 where
    "flag \<longrightarrow> cancels_something (rq_command q)" "be_execute (mozc_ops os c debug) (b, w) ?cmd flag = (bw3, r)"
    "session_handle (mozc_ops os c debug) q (s, (b, w)) = ((s3, bw3), resp3)"
    "transacted sid e (verdict_of ?cmd (e + 1) r) s (s3, resp3)"
    using handle_transaction [OF ok assms(8,9), of "mozc_ops os c debug" "(b, w)"] assms(10-12) by auto
  then have first: "bw1 = (b, w)" "session_view s1 = fmupd sid (e + 1) (session_view s)" "rp_generation resp1 = Some (e + 1)"
    using cmd v assms(10,13) by (auto simp: mozc_ops_def mozc_execute_def transacted_def view_after_def)
  have "ready s1 sid a (e + 1) (rq_request_id q2)"
    using converted_ready [OF assms(8,9,10,11,12) _ _ _ assms(13-15), of "(b, w)"] cmd v assms(10,11)
    by (auto simp: mozc_ops_def mozc_execute_def verdict_of_def empty_conversion_def answers_command_def
        simp del: validate_payload.simps split: if_splits)
  note ready1 = this
  obtain bwx z where z: "mozc_key_session os c y (b, w) = (bwx, Inl z)" "z \<noteq> BE_Cancelled" "\<forall>m. z \<noteq> BE_Rejected m"
    using future_key_fails [OF assms(1) _ assms(5) n(1) assms(6), of y w n f c] assms(4,18-21) n(2,3) by auto
  have "session_view s2 = fmempty"
    using failed_command [OF ok1 ready1 assms(16), of os c debug b w bwx z s2 bw2 resp2] z assms(17-19,22) first(1)
    by (auto simp: mozc_command_def)
  with first show ?thesis by simp
qed

definition demo_convert :: request_envelope where
  "demo_convert = new_request 9 (ConvertCmd \<lparr>cv_session_id = 7, cv_generation = 0, cv_page = 0, cv_page_size = 5\<rparr>)"

theorem empty_conversion_ends_sessions_witness:
  "\<exists>s1 bw1 resp1 s2 bw2 resp2.
     session_handle (mozc_ops example_os example_config (\<lambda>_. [])) demo_convert
       (demo_sessions, (example_backend [], example_world)) = ((s1, bw1), resp1) \<and>
     session_handle (mozc_ops example_os example_config (\<lambda>_. [])) (mozc_demo_key 1) (s1, bw1) = ((s2, bw2), resp2) \<and>
     session_view s1 = fmupd 7 1 (session_view demo_sessions) \<and> session_view s2 = fmempty"
proof -
  let ?ops = "mozc_ops example_os example_config (\<lambda>_. [])"
  obtain s1 bw1 resp1 where h1: "session_handle ?ops demo_convert (demo_sessions, (example_backend [], example_world)) = ((s1, bw1), resp1)"
    by (metis prod.exhaust)
  obtain s2 bw2 resp2 where h2: "session_handle ?ops (mozc_demo_key 1) (s1, bw1) = ((s2, bw2), resp2)"
    by (metis prod.exhaust)
  have "bw1 = (example_backend [], example_world) \<and> session_view s1 = fmupd 7 (0 + 1) (session_view demo_sessions) \<and>
      rp_generation resp1 = Some (0 + 1) \<and> session_view s2 = fmempty"
  proof (rule empty_conversion_ends_sessions [OF example_linked example_aligned demo_inv(1) _ _ _ _ _ _ _ _ _ h1 _ _ _ _ _ _ _ _ h2,
      where a = 0 and x = "\<lparr>cv_session_id = 7, cv_generation = 0, cv_page = 0, cv_page_size = 5\<rparr>" and sid = 7 and e = 0
        and y = "\<lparr>kq_session_id = 7, kq_generation = 1, kq_key = Space\<rparr>" and f = "(lit ''space'', [])"
        and d = "\<lparr>me_epoch = 0, me_local = local_empty\<rparr>"])
    show "ready demo_sessions 7 0 0 (rq_request_id demo_convert)"
      using demo_ready by (simp add: demo_convert_def new_request_def)
    show "validate_request demo_convert = Inr ()"
      by (simp add: demo_convert_def new_request_def validate_request_def validate_id_def validate_page_def reject_if_def seq_def limit_defs)
    show "validate_request (mozc_demo_key 1) = Inr ()"
      by (simp add: mozc_demo_key_def new_request_def validate_request_def)
  qed (simp_all add: demo_convert_def mozc_demo_key_def new_request_def demo_tokens example_backend_def local_empty_def example_os_def)
  then show ?thesis using h1 h2 by auto
qed


definition demo_slip :: request_envelope where
  "demo_slip = new_request 9 (CommitCmd \<lparr>cm_session_id = 7, cm_generation = 0, cm_candidate_id = 1\<rparr>)"


section \<open>Edits and candidates\<close>

text \<open>
  C11. Broker and bridge edit alike. The backend's edit of its copy of the composition never panics
  in \<open>replace_range\<close>: it succeeds exactly for a range in order and inside the composition whose
  result is within the bound, and is then the edit of the list of scalar values. The command it
  sends for a successful edit makes the native bridge compute, on its own UTF-8 bytes, the same
  composition.
\<close>
theorem mozc_edits_agree:
  shows "(\<exists>r. mozc_apply_edit act t = Some r \<and>
      (\<forall>t'. r = Inr t' \<longleftrightarrow> edit_in_range act t \<and> edit_within_bound act t \<and> t' = edit_list act t)) \<and>
    (\<forall>t' fs. list_all is_scalar t \<and> list_all is_scalar (edit_text (mozc_edit_of act)) \<and>
      mozc_apply_edit act t = Some (Inr t') \<and> edit_fields K (mozc_edit_of act) = Inr fs \<longrightarrow>
      list_all is_scalar t' \<and>
      edited_composition (edit_arguments (mozc_edit_of act)) (utf8 t) = Inr (utf8 t'))"
proof (intro conjI allI impI)
  fix t' fs
  assume h: "list_all is_scalar t \<and> list_all is_scalar (edit_text (mozc_edit_of act)) \<and>
    mozc_apply_edit act t = Some (Inr t') \<and> edit_fields K (mozc_edit_of act) = Inr fs"
  then have "edit_in_range act t" "t' = edit_list act t" by (simp_all add: mozc_apply_edit_Inr del: mozc_apply_edit.simps)
  with h show "list_all is_scalar t'" "edited_composition (edit_arguments (mozc_edit_of act)) (utf8 t) = Inr (utf8 t')"
    using bridge_edit [of t act K fs] scalar_edit_list [of t act] by blast+
qed (rule mozc_apply_edit_spec)

theorem mozc_edits_agree_witness:
  "edited_composition (edit_arguments (mozc_edit_of (Replace \<lparr>range_start = 1, range_end = 2\<rparr> [12356])))
     (utf8 [12354, 98, 99]) = Inr (utf8 [12354, 12356, 99])"
proof -
  have "mozc_apply_edit (Replace \<lparr>range_start = 1, range_end = 2\<rparr> [12356]) [12354, 98, 99] = Some (Inr [12354, 12356, 99])"
    by (simp add: mozc_apply_edit_Inr ADAPTER_BOUND_def utf8_len_def del: mozc_apply_edit.simps)
  then show ?thesis
    using mozc_edits_agree [of "Replace \<lparr>range_start = 1, range_end = 2\<rparr> [12356]" "[12354, 98, 99]" reference_codec]
    by (simp add: is_scalar_def seq_def validate_edit_text_def reject_if_def utf8_len_def has_control_def is_control_def
        del: utf8_Cons)
qed

lemma original_ids_upto:
  "fold (\<lambda>(i, cd). fmupd (of_nat (i + 1)) (cd_id cd)) (enumerate k cds) m =
   fmadd m (fmap_of_list (rev (map (\<lambda>(i, cd). (of_nat (i + 1), cd_id cd)) (enumerate k cds))))" for m :: "(u64, i32) fmap"
proof (induction cds arbitrary: k m)
  case (Cons cd cds)
  then show ?case by (intro fmap_ext) (simp add: fmlookup_of_list map_of_append split: option.split)
qed simp

lemma original_ids_nth:
  assumes "length cds < 2 ^ 64" "i < length cds"
  shows "fmlookup (original_ids cds) (of_nat (i + 1)) = Some (cd_id (cds ! i))"
proof -
  let ?xs = "map (\<lambda>(i, cd). (of_nat (i + 1) :: u64, cd_id cd)) (enumerate 0 cds)"
  have inj: "a = b" if "a < length cds" "b < length cds" "(of_nat a :: u64) = of_nat b" for a b
  proof -
    have "unat (of_nat k :: u64) = k" if "k < length cds" for k
      using that assms(1) by (simp only: unsigned_of_nat) (simp add: take_bit_nat_eq_self)
    with that show ?thesis by metis
  qed
  have "distinct (map fst ?xs)"
    by (auto simp: distinct_conv_nth nth_enumerate_eq dest: inj)
  then have d: "distinct (map fst (rev ?xs))" by (simp add: rev_map [symmetric])
  have "?xs ! i \<in> set ?xs" using assms(2) by (intro nth_mem) simp
  then have "(of_nat (i + 1), cd_id (cds ! i)) \<in> set (rev ?xs)" using assms(2) by (simp add: nth_enumerate_eq)
  from map_of_is_SomeI [OF d this] show ?thesis
    unfolding original_ids_def original_ids_upto by (simp add: fmlookup_of_list)
qed

lemma broker_candidates_nth:
  "i < length cds \<Longrightarrow> broker_candidates cds ! i = broker_candidate i (cds ! i)"
  by (simp add: broker_candidates_def nth_enumerate_eq)

lemma length_broker_candidates [simp]: "length (broker_candidates cds) = length cds"
  by (simp add: broker_candidates_def)

lemma shown_candidate:
  assumes "converted q result = ConvertResp r" "cand \<in> set (vr_candidates r)"
  obtains i where "i < length (cv_candidates result)" "cand = broker_candidate i (cv_candidates result ! i)"
proof -
  have "cand \<in> set (broker_candidates (cv_candidates result))"
    using assms by (auto simp: converted_def Let_def) (meson in_set_takeD in_set_dropD)
  then show ?thesis using that by (auto simp: in_set_conv_nth broker_candidates_nth)
qed


definition example_shown :: bridge_response where
  "example_shown = example_answer\<lparr>br_preedit := [97], br_text := Some [98],
     br_candidates := Some [\<lparr>bc_id = 4, bc_value = [98], bc_key = None, bc_index = Some 1, bc_description = None,
       bc_source = None, bc_attributes = [], bc_log = None\<rparr>]\<rparr>"

definition example_shown_os :: "(unit native) bridge_os" where
  "example_shown_os = example_os\<lparr>os_exchange := \<lambda>_ _ w. (w, EX_Line [120] (Inr [])), os_parse := \<lambda>_. Inr example_shown\<rparr>"

definition shown_convert :: convert_request where
  "shown_convert = \<lparr>cv_session_id = 7, cv_generation = 1, cv_page = 0, cv_page_size = 5\<rparr>"

definition shown_commit :: commit_request where
  "shown_commit = \<lparr>cm_session_id = 7, cm_generation = 1, cm_candidate_id = 1\<rparr>"

lemma example_line: "bridge_answer example_shown_os (EX_Line [120] (Inr [])) = Some (Inr example_shown)"
  by (simp add: bridge_answer_def example_shown_os_def from_utf8.simps utf8_next_def)

lemma example_call:
  "pool_call example_shown_os c command (\<lparr>mp_process = Some (Suc 0), mp_epoch = 0, mp_failed = False\<rparr>, w) =
   ((\<lparr>mp_process = Some (Suc 0), mp_epoch = 0, mp_failed = False\<rparr>, w), Inr example_shown)"
proof -
  have "os_exchange example_shown_os i command w = (w, EX_Line [120] (Inr []))" for i command w
    by (simp add: example_shown_os_def)
  moreover have "br_ok example_shown" by (simp add: example_shown_def example_answer_def)
  ultimately show ?thesis using example_line by (simp add: pool_call_def Let_def)
qed

lemmas shown_simps = on_session_def find_mozc_session_def then_client_def with_client_def client_call_def
  example_call bind_result_def protocol_unless_def example_backend_def shown_convert_def shown_commit_def


text \<open>
  A page past the end has no candidates, but a focus that is valid for the whole list is mapped to
  position 0 of it: the broker finds its own backend's answer invalid.
\<close>

lemma page_past_end_invalid:
  assumes "length (cv_candidates result) \<le> unat (cv_page q) * unat (cv_page_size q)"
    and "cv_focused_index result = Some i" "i < length (cv_candidates result)"
  shows "verdict_of (ConvertCmd q) g (Inr (converted q result)) = Invalidated"
  using assms
  by (auto simp: verdict_of_def converted_def Let_def page_start_def page_end_def page_focus_def seq_def reject_if_def
      validate_composition_response_def is_ok_def split: sum.splits if_splits)

section \<open>The pool\<close>



end
