(* ===== verification/Local_Model.thy ===== *)
theory Local_Model
  imports Enhancement Reranker Mozc_Wire
begin

text \<open>
  The loopback model adapter of \<open>kanai-broker/src/local_model.rs\<close>: construction, the request over a
  verified connection, the bounded HTTP response reader with its three framings, and the map from
  the model's decision to a reranking. The URL type, the HTTP client of the unverified path and the
  JSON (de)serialisers are parameters; a socket is the list of what its reads return.
\<close>

section \<open>Limits\<close>

definition LM_MAX_RESPONSE_BYTES :: nat where "LM_MAX_RESPONSE_BYTES = 64 * 1024"
definition LM_MAX_RESPONSE_HEAD_BYTES :: nat where "LM_MAX_RESPONSE_HEAD_BYTES = 16 * 1024"
definition LM_MAX_REQUEST_BYTES :: nat where "LM_MAX_REQUEST_BYTES = 256 * 1024"
definition LM_MAX_CONTEXT_CHARS :: nat where "LM_MAX_CONTEXT_CHARS = 512"
definition LM_MAX_CANDIDATES :: nat where "LM_MAX_CANDIDATES = 9"
definition LM_MAX_API_KEY_BYTES :: nat where "LM_MAX_API_KEY_BYTES = 512"
definition WARM_UP_PROMPT :: rstr where "WARM_UP_PROMPT = lit ''warm''"

section \<open>Construction\<close>

text \<open>What is read of a parsed \<open>Url\<close>; \<open>um_port\<close> is \<open>None\<close> for the default port of the scheme.\<close>

record model_url =
  um_scheme :: rstr
  um_username :: rstr
  um_password :: "rstr option"
  um_host :: "rstr option"
  um_port :: "u16 option"
  um_path :: rstr

text \<open>
  The parameters: the URL parser, the loopback test of a literal IP address, whether the HTTP client
  builds, and JSON: to bytes, to text, the content of a completion, a decision.
\<close>

record model_decision =
  md_action :: rstr
  md_candidate_ids :: "u64 list"
  md_confidence :: f64
  md_reason_code :: rstr

record model_lib =
  ml_url :: "rstr \<Rightarrow> rstr + model_url"
  ml_ip_loopback :: "rstr \<Rightarrow> bool option"
  ml_client :: "rstr + unit"
  ml_to_vec :: "json_value \<Rightarrow> rstr + u8 list"
  ml_to_string :: "json_value \<Rightarrow> rstr option"
  ml_content :: "u8 list \<Rightarrow> rstr + rstr option"
  ml_decision :: "rstr \<Rightarrow> rstr + model_decision"

definition trim_matches_start :: "rchar \<Rightarrow> rstr \<Rightarrow> rstr" where
  "trim_matches_start c s = dropWhile (\<lambda>x. x = c) s"

definition is_loopback_host :: "model_lib \<Rightarrow> rstr option \<Rightarrow> bool" where
  "is_loopback_host L host =
    (case host of
       None \<Rightarrow> False
     | Some h \<Rightarrow>
         if eq_ignore_ascii_case h (lit ''localhost'') then True
         else ml_ip_loopback L (trim_end_char 93 (trim_matches_start 91 h)) = Some True)"

definition validate_api_key :: "rstr \<Rightarrow> rstr + unit" where
  "validate_api_key key =
    (if key = [] \<or> blen key > LM_MAX_API_KEY_BYTES \<or> list_ex (\<lambda>c. is_control c \<or> is_whitespace c) key
     then Inl (lit ''KANAI_AI_API_KEY must be non-empty, at most 512 bytes, and free of control characters and whitespace'')
     else Inr ())"

record local_model =
  lm_endpoint :: model_url
  lm_model :: rstr
  lm_provider_id :: rstr
  lm_api_key :: "rstr option"
  lm_owned :: bool

definition lm_build :: "model_lib \<Rightarrow> rstr \<Rightarrow> rstr \<Rightarrow> rstr option \<Rightarrow> bool \<Rightarrow> rstr + local_model" where
  "lm_build L base_url model api_key owned =
    (case ml_url L base_url of
       Inl e \<Rightarrow> Inl e
     | Inr base \<Rightarrow>
         seq (reject_if (um_username base \<noteq> [] \<or> um_password base \<noteq> None)
           (lit ''KANAI_AI_BASE_URL must not contain credentials''))
        (seq (reject_if (um_scheme base \<noteq> lit ''http'' \<or> \<not> is_loopback_host L (um_host base))
           (lit ''KANAI_AI_BASE_URL must be an HTTP loopback endpoint''))
        (seq (reject_if (model = [] \<or> blen model > 128 \<or> has_control model)
           (lit ''KANAI_AI_MODEL must be non-empty, bounded, and control-free''))
        (seq (case api_key of None \<Rightarrow> Inr () | Some key \<Rightarrow> validate_api_key key)
        (seq (ml_client L)
           (Inr \<lparr>lm_endpoint = base\<lparr>um_path := lit ''/v1/chat/completions''\<rparr>, lm_model = model,
              lm_provider_id = lit ''openai-compatible:'' @ model, lm_api_key = api_key, lm_owned = owned\<rparr>))))))"

definition lm_new where "lm_new L base_url model = lm_build L base_url model None False"
definition lm_new_with_api_key where
  "lm_new_with_api_key L base_url model key = lm_build L base_url model (Some key) False"
definition lm_new_with_ownership where
  "lm_new_with_ownership L base_url model key = lm_build L base_url model (Some key) True"

definition lm_from_environment :: "model_lib \<Rightarrow> (rstr \<Rightarrow> rstr option) \<Rightarrow> local_model option" where
  "lm_from_environment L env =
    (case env (lit ''KANAI_AI_BASE_URL'') of
       None \<Rightarrow> None
     | Some base \<Rightarrow>
    (case env (lit ''KANAI_AI_MODEL'') of
       None \<Rightarrow> None
     | Some model \<Rightarrow> (case lm_new L base model of Inl _ \<Rightarrow> None | Inr m \<Rightarrow> Some m)))"

text \<open>\<open>127.0.0.1\<close> at the endpoint's port, whatever loopback host was configured.\<close>

definition loopback_address :: "model_lib \<Rightarrow> local_model \<Rightarrow> u16 option" where
  "loopback_address L m =
    (case um_host (lm_endpoint m) of
       None \<Rightarrow> None
     | Some host \<Rightarrow> if \<not> is_loopback_host L (Some host) then None else um_port (lm_endpoint m))"

section \<open>Reading from a socket\<close>

text \<open>
  One read: whether the token is found cancelled just before it, and how it ends; no bytes means
  that the peer closed, and the deadline of the exchange may pass while it waits. A socket is the
  list of its reads, and closed after them.
\<close>

datatype read_result = RR_Bytes "u8 list" | RR_Failed rstr | RR_Deadline

type_synonym read_event = "bool \<times> read_result"

definition socket_read :: "read_event \<Rightarrow> enhancement_error + u8 list" where
  "socket_read ev =
    (if fst ev then Inl EE_Cancelled
     else case snd ev of
       RR_Bytes bs \<Rightarrow> Inr bs
     | RR_Failed e \<Rightarrow> Inl (EE_ProviderUnavailable e)
     | RR_Deadline \<Rightarrow> Inl EE_ProviderTimeout)"

definition response_too_large :: enhancement_error where
  "response_too_large = EE_InvalidOutput (lit ''local model response is too large'')"

fun find_head_end :: "u8 list \<Rightarrow> nat option" where
  "find_head_end [] = None"
| "find_head_end (b # bs) =
    (if take 4 (b # bs) = [13, 10, 13, 10] then Some 0 else map_option Suc (find_head_end bs))"

fun find_crlf :: "u8 list \<Rightarrow> nat option" where
  "find_crlf [] = None"
| "find_crlf (b # bs) =
    (if take 2 (b # bs) = [13, 10] then Some 0 else map_option Suc (find_crlf bs))"

text \<open>The loop that reads until the head has ended.\<close>

definition closed_early :: enhancement_error where
  "closed_early = EE_ProviderUnavailable (lit ''local model closed the connection before responding'')"

definition head_too_large :: enhancement_error where
  "head_too_large = EE_InvalidOutput (lit ''local model response head is too large'')"

fun read_head :: "read_event list \<Rightarrow> u8 list \<Rightarrow> enhancement_error + nat \<times> u8 list \<times> read_event list" where
  "read_head [] raw =
    (case find_head_end raw of
       Some k \<Rightarrow> Inr (k, raw, [])
     | None \<Rightarrow> if length raw > LM_MAX_RESPONSE_HEAD_BYTES then Inl head_too_large else Inl closed_early)"
| "read_head (ev # st) raw =
    (case find_head_end raw of
       Some k \<Rightarrow> Inr (k, raw, ev # st)
     | None \<Rightarrow>
         if length raw > LM_MAX_RESPONSE_HEAD_BYTES then Inl head_too_large
         else (case socket_read ev of
           Inl e \<Rightarrow> Inl e
         | Inr bs \<Rightarrow> if bs = [] then Inl closed_early else read_head st (raw @ bs)))"

text \<open>A body of a declared length: read until it is there or the peer closes.\<close>

fun read_declared :: "nat \<Rightarrow> read_event list \<Rightarrow> u8 list \<Rightarrow> enhancement_error + u8 list" where
  "read_declared n [] body = Inr body"
| "read_declared n (ev # st) body =
    (if length body < n then
       (case socket_read ev of
          Inl e \<Rightarrow> Inl e
        | Inr bs \<Rightarrow> if bs = [] then Inr body else read_declared n st (body @ bs))
     else Inr body)"

text \<open>A body that ends with the stream.\<close>

fun read_to_close :: "read_event list \<Rightarrow> u8 list \<Rightarrow> enhancement_error + u8 list" where
  "read_to_close [] body = Inr body"
| "read_to_close (ev # st) body =
    (case socket_read ev of
       Inl e \<Rightarrow> Inl e
     | Inr bs \<Rightarrow>
         if bs = [] then Inr body
         else if length (body @ bs) > LM_MAX_RESPONSE_BYTES then Inl response_too_large
         else read_to_close st (body @ bs))"

section \<open>The chunked framing\<close>

text \<open>\<open>fill\<close> until the buffer holds \<open>n\<close> bytes.\<close>

definition ended_mid :: "string \<Rightarrow> enhancement_error" where
  "ended_mid what = EE_InvalidOutput (lit ''local model chunked body ended mid-'' @ lit what)"

fun fill_until :: "nat \<Rightarrow> read_event list \<Rightarrow> u8 list \<Rightarrow> enhancement_error + read_event list \<times> u8 list" where
  "fill_until n [] buffer = (if length buffer < n then Inl (ended_mid ''chunk'') else Inr ([], buffer))"
| "fill_until n (ev # st) buffer =
    (if length buffer < n then
       (case socket_read ev of
          Inl e \<Rightarrow> Inl e
        | Inr bs \<Rightarrow> if bs = [] then Inl (ended_mid ''chunk'') else fill_until n st (buffer @ bs))
     else Inr (ev # st, buffer))"

text \<open>\<open>from_str_radix\<close> and \<open>parse\<close> of unsigned integers below \<open>bound\<close>: an optional plus, then digits.\<close>

definition digit_of :: "nat \<Rightarrow> rchar \<Rightarrow> nat option" where
  "digit_of radix c =
    (let d = (if 48 \<le> c \<and> c \<le> 57 then Some (c - 48)
              else if 97 \<le> c \<and> c \<le> 122 then Some (c - 97 + 10)
              else if 65 \<le> c \<and> c \<le> 90 then Some (c - 65 + 10) else None)
     in case d of None \<Rightarrow> None | Some n \<Rightarrow> if n < radix then Some n else None)"

fun radix_value :: "nat \<Rightarrow> nat \<Rightarrow> rstr \<Rightarrow> nat option" where
  "radix_value radix acc [] = Some acc"
| "radix_value radix acc (c # cs) =
    (case digit_of radix c of None \<Rightarrow> None | Some d \<Rightarrow> radix_value radix (acc * radix + d) cs)"

definition parse_unsigned :: "nat \<Rightarrow> nat \<Rightarrow> rstr \<Rightarrow> nat option" where
  "parse_unsigned radix bound s =
    (let digits = (case s of c # cs \<Rightarrow> if c = 43 then cs else s | [] \<Rightarrow> []) in
     if digits = [] then None
     else case radix_value radix 0 digits of
       None \<Rightarrow> None
     | Some n \<Rightarrow> if n < bound then Some n else None)"

text \<open>
  \<open>String::from_utf8_lossy\<close>: where no scalar value can be decoded, one replacement character stands
  for the longest prefix of one.
\<close>

definition lossy_skip :: "u8 list \<Rightarrow> nat" where
  "lossy_skip bs =
    (case bs of
       b # b1 # r \<Rightarrow>
         (let n = unat b; x = unat b1; cont = (\<lambda>y. 128 \<le> y \<and> y < 192);
              second3 = (if n = 224 then 160 \<le> x \<and> x < 192 else if n = 237 then 128 \<le> x \<and> x < 160 else cont x);
              second4 = (if n = 240 then 144 \<le> x \<and> x < 192 else if n = 244 then 128 \<le> x \<and> x < 144 else cont x)
          in if 224 \<le> n \<and> n < 240 \<and> second3 then 2
             else if 240 \<le> n \<and> n < 245 \<and> second4
             then (case r of b2 # _ \<Rightarrow> if cont (unat b2) then 3 else 2 | [] \<Rightarrow> 2)
             else 1)
     | _ \<Rightarrow> 1)"

lemma lossy_skip_pos: "0 < lossy_skip bs"
  by (auto simp: lossy_skip_def Let_def split: list.split)

function utf8_lossy :: "u8 list \<Rightarrow> rstr" where
  "utf8_lossy bs =
    (if bs = [] then []
     else case utf8_next bs of
       Some (c, r) \<Rightarrow> c # utf8_lossy r
     | None \<Rightarrow> 65533 # utf8_lossy (drop (lossy_skip bs) bs))"
  by auto
termination
  by (relation "measure length") (auto simp: lossy_skip_pos dest: utf8_next_shorter)

declare utf8_lossy.simps [simp del]

definition chunk_size :: "u8 list \<Rightarrow> nat option" where
  "chunk_size line = parse_unsigned 16 (2 ^ 64) (trim (takeWhile (\<lambda>c. c \<noteq> 59) (utf8_lossy line)))"

lemma fill_until_shrinks:
  "fill_until n st buffer = Inr (st', buffer') \<Longrightarrow> length st' < length st \<or> st' = st \<and> buffer' = buffer"
  by (induction n st buffer rule: fill_until.induct) (auto split: if_splits sum.splits)

lemma find_crlf_bound: "find_crlf bs = Some k \<Longrightarrow> k + 2 \<le> length bs"
proof (induction bs arbitrary: k)
  case (Cons b bs)
  then show ?case by (auto split: if_splits) (cases bs; simp)
qed simp

text \<open>\<open>decode_chunked\<close>; the buffer is what lies from the cursor on.\<close>

function decode_chunked ::
    "read_event list \<Rightarrow> u8 list \<Rightarrow> u8 list \<Rightarrow> enhancement_error + u8 list" where
  "decode_chunked st buffer decoded =
    (case find_crlf buffer of
       None \<Rightarrow>
         (case st of
            [] \<Rightarrow> Inl (ended_mid ''header'')
          | ev # st' \<Rightarrow>
              (case socket_read ev of
                 Inl e \<Rightarrow> Inl e
               | Inr bs \<Rightarrow>
                   if bs = [] then Inl (ended_mid ''header'') else decode_chunked st' (buffer @ bs) decoded))
     | Some k \<Rightarrow>
         (case chunk_size (take k buffer) of
            None \<Rightarrow> Inl (EE_InvalidOutput (lit ''local model chunk size is not hexadecimal''))
          | Some sz \<Rightarrow>
              if sz = 0 then Inr decoded
              else if length decoded + sz > LM_MAX_RESPONSE_BYTES then Inl response_too_large
              else (case fill_until (sz + 2) st (drop (k + 2) buffer) of
                 Inl e \<Rightarrow> Inl e
               | Inr (st', buffer') \<Rightarrow>
                   decode_chunked st' (drop (sz + 2) buffer') (decoded @ take sz buffer'))))"
  by pat_completeness auto
termination
  by (relation "measures [\<lambda>(st, buffer, decoded). length st, \<lambda>(st, buffer, decoded). length buffer]")
    (auto dest!: fill_until_shrinks find_crlf_bound)

declare decode_chunked.simps [simp del]

section \<open>The response\<close>

text \<open>\<open>split\<close> at CR LF, and the runs of other characters of \<open>split_whitespace\<close>.\<close>

fun split_crlf :: "rstr \<Rightarrow> rstr \<Rightarrow> rstr list" where
  "split_crlf line [] = [line]"
| "split_crlf line (c # cs) =
    (if c = 13 \<and> cs \<noteq> [] \<and> hd cs = 10 then line # split_crlf [] (tl cs) else split_crlf (line @ [c]) cs)"

fun split_whitespace :: "rstr \<Rightarrow> rstr \<Rightarrow> rstr list" where
  "split_whitespace word [] = (if word = [] then [] else [word])"
| "split_whitespace word (c # cs) =
    (if is_whitespace c then (if word = [] then split_whitespace [] cs else word # split_whitespace [] cs)
     else split_whitespace (word @ [c]) cs)"

definition status_code :: "rstr \<Rightarrow> nat option" where
  "status_code line =
    (case split_whitespace [] line of
       _ # code # _ \<Rightarrow> parse_unsigned 10 (2 ^ 16) code
     | _ \<Rightarrow> None)"

text \<open>One header line; a line without a colon is skipped.\<close>

definition header_line :: "rstr \<Rightarrow> nat option \<times> bool \<Rightarrow> nat option \<times> bool" where
  "header_line line framing =
    (case framing of (content_length, chunked) \<Rightarrow>
     case dropWhile (\<lambda>c. c \<noteq> 58) line of
       [] \<Rightarrow> framing
     | _ # rest \<Rightarrow>
         let name = map ascii_lower (trim (takeWhile (\<lambda>c. c \<noteq> 58) line)); v = trim rest in
         if name = lit ''content-length'' then (parse_unsigned 10 (2 ^ 64) v, chunked)
         else if name = lit ''transfer-encoding'' then (content_length, str_contains (map ascii_lower v) (lit ''chunked''))
         else framing)"

definition http_status :: "nat \<Rightarrow> enhancement_error" where
  "http_status code = EE_ProviderUnavailable (lit ''local model returned HTTP '' @ dec code)"

definition parse_head :: "u8 list \<Rightarrow> enhancement_error + nat option \<times> bool" where
  "parse_head head =
    (case split_crlf [] (utf8_lossy head) of
       [] \<Rightarrow> Inl (EE_InvalidOutput (lit ''local model sent no HTTP status''))
     | status_line # lines \<Rightarrow>
         (case status_code status_line of
            None \<Rightarrow> Inl (EE_InvalidOutput (lit ''local model sent no HTTP status''))
          | Some code \<Rightarrow>
              if \<not> (200 \<le> code \<and> code < 300) then Inl (http_status code)
              else Inr (fold header_line lines (None, False))))"

definition read_body :: "nat option \<times> bool \<Rightarrow> read_event list \<Rightarrow> u8 list \<Rightarrow> enhancement_error + u8 list" where
  "read_body framing st body =
    (case framing of (content_length, chunked) \<Rightarrow>
     if chunked then decode_chunked st body []
     else case content_length of
       Some expected \<Rightarrow>
         (case read_declared expected st body of Inl e \<Rightarrow> Inl e | Inr body \<Rightarrow> Inr (take expected body))
     | None \<Rightarrow> read_to_close st body)"

definition read_response :: "read_event list \<Rightarrow> enhancement_error + u8 list" where
  "read_response st =
    (case read_head st [] of
       Inl e \<Rightarrow> Inl e
     | Inr (k, raw, st) \<Rightarrow>
    (case parse_head (take k raw) of
       Inl e \<Rightarrow> Inl e
     | Inr framing \<Rightarrow>
    (case read_body framing st (drop (k + 4) raw) of
       Inl e \<Rightarrow> Inl e
     | Inr body \<Rightarrow> if length body > LM_MAX_RESPONSE_BYTES then Inl response_too_large else Inr body)))"

section \<open>The request\<close>

definition crlf :: rstr where "crlf = [13, 10]"

definition request_lines :: "model_url \<Rightarrow> rstr option \<Rightarrow> nat \<Rightarrow> rstr list" where
  "request_lines endpoint api_key n =
    [lit ''POST '' @ um_path endpoint @ lit '' HTTP/1.1'',
     lit ''Host: '' @ (case um_host endpoint of None \<Rightarrow> lit ''127.0.0.1'' | Some h \<Rightarrow> h) @ [58] @
       (case um_port endpoint of None \<Rightarrow> lit ''80'' | Some p \<Rightarrow> dec (unat p)),
     lit ''Content-Type: application/json'',
     lit ''Content-Length: '' @ dec n,
     lit ''Connection: close''] @
    (case api_key of None \<Rightarrow> [] | Some key \<Rightarrow> [lit ''Authorization: Bearer '' @ key])"

definition model_request :: "model_url \<Rightarrow> rstr option \<Rightarrow> u8 list \<Rightarrow> u8 list" where
  "model_request endpoint api_key body =
    utf8 (concat (map (\<lambda>l. l @ crlf) (request_lines endpoint api_key (length body))) @ crlf) @ body"

text \<open>
  What happens on the network, in order; \<open>'a\<close> is a socket address. A write is recorded when it is
  attempted.
\<close>

datatype 'a net_action = NA_Connect u16 | NA_Prove 'a 'a bool | NA_Write "u8 list"

datatype connected = CN_TimedOut | CN_Failed rstr | CN_Open
datatype written = WR_Sent | WR_Failed rstr | WR_Deadline

record 'a model_socket =
  so_connect :: connected
  so_addresses :: "('a \<times> 'a) option"
  so_owned :: "'a \<Rightarrow> 'a \<Rightarrow> bool"
  so_cancelled :: bool
  so_write :: written
  so_reads :: "read_event list"

definition send_over_verified ::
    "model_lib \<Rightarrow> local_model \<Rightarrow> 'a model_socket \<Rightarrow> json_value \<Rightarrow> 'a net_action list \<times> (enhancement_error + u8 list)" where
  "send_over_verified L m so payload =
    (case loopback_address L m of
       None \<Rightarrow> ([], Inl (EE_ProviderUnavailable (lit ''local AI endpoint is not loopback'')))
     | Some address \<Rightarrow>
         let connect = [NA_Connect address] in
    (case so_connect so of
       CN_TimedOut \<Rightarrow> (connect, Inl EE_ProviderTimeout)
     | CN_Failed e \<Rightarrow> (connect, Inl (EE_ProviderUnavailable e))
     | CN_Open \<Rightarrow>
    (case so_addresses so of
       None \<Rightarrow> (connect, Inl (EE_ProviderUnavailable (lit ''local AI socket has no address pair'')))
     | Some (here, peer) \<Rightarrow>
         let owned = so_owned so here peer; proved = connect @ [NA_Prove here peer owned] in
         if \<not> owned then (proved, Inl (EE_ProviderUnavailable (lit ''local AI runtime is unavailable'')))
         else if so_cancelled so then (proved, Inl EE_Cancelled)
         else case ml_to_vec L payload of
           Inl e \<Rightarrow> (proved, Inl (EE_InvalidOutput e))
         | Inr body \<Rightarrow>
             let request = model_request (lm_endpoint m) (lm_api_key m) body in
             if length request > LM_MAX_REQUEST_BYTES
             then (proved, Inl (EE_InvalidOutput (lit ''local model request is too large'')))
             else
               (proved @ [NA_Write request],
                case so_write so of
                  WR_Failed e \<Rightarrow> Inl (EE_ProviderUnavailable e)
                | WR_Deadline \<Rightarrow> Inl EE_ProviderTimeout
                | WR_Sent \<Rightarrow> read_response (so_reads so)))))"

text \<open>The unverified path: the HTTP client's answer as chunks, each after a look at the token.\<close>

datatype client_answer =
    CA_TimedOut | CA_Failed rstr
  | CA_Response nat "nat option" "(bool \<times> (rstr + u8 list)) list" bool

fun collect_chunks :: "(bool \<times> (rstr + u8 list)) list \<Rightarrow> u8 list \<Rightarrow> enhancement_error + u8 list" where
  "collect_chunks [] bytes = Inr bytes"
| "collect_chunks ((cancelled, chunk) # chunks) bytes =
    (if cancelled then Inl EE_Cancelled
     else case chunk of
       Inl e \<Rightarrow> Inl (EE_ProviderUnavailable e)
     | Inr bs \<Rightarrow>
         if length bytes + length bs > LM_MAX_RESPONSE_BYTES then Inl response_too_large
         else collect_chunks chunks (bytes @ bs))"

definition client_body :: "client_answer \<Rightarrow> enhancement_error + u8 list" where
  "client_body answer =
    (case answer of
       CA_TimedOut \<Rightarrow> Inl EE_ProviderTimeout
     | CA_Failed e \<Rightarrow> Inl (EE_ProviderUnavailable e)
     | CA_Response status content_length chunks cancelled_after \<Rightarrow>
         if \<not> (200 \<le> status \<and> status < 300) then Inl (http_status status)
         else if (case content_length of None \<Rightarrow> False | Some n \<Rightarrow> n > LM_MAX_RESPONSE_BYTES) then Inl response_too_large
         else case collect_chunks chunks [] of
           Inl e \<Rightarrow> Inl e
         | Inr bytes \<Rightarrow> if cancelled_after then Inl EE_Cancelled else Inr bytes)"

definition decode_completion :: "model_lib \<Rightarrow> u8 list \<Rightarrow> enhancement_error + rstr" where
  "decode_completion L bytes =
    (case ml_content L bytes of
       Inl e \<Rightarrow> Inl (EE_InvalidOutput e)
     | Inr None \<Rightarrow> Inl (EE_InvalidOutput (lit ''model response has no message content''))
     | Inr (Some content) \<Rightarrow> Inr content)"

definition call_model ::
    "model_lib \<Rightarrow> local_model \<Rightarrow> bool \<Rightarrow> 'a model_socket \<Rightarrow> (rstr option \<Rightarrow> json_value \<Rightarrow> client_answer) \<Rightarrow> json_value \<Rightarrow>
     'a net_action list \<times> (enhancement_error + rstr)" where
  "call_model L m cancelled so client payload =
    (if cancelled then ([], Inl EE_Cancelled)
     else if lm_owned m then
       (case send_over_verified L m so payload of
          (acts, r) \<Rightarrow> (acts, bind_result r (decode_completion L)))
     else ([], bind_result (client_body (client (lm_api_key m) payload)) (decode_completion L)))"

section \<open>Prompts\<close>

definition system_message :: "rstr \<Rightarrow> json_value" where
  "system_message content = JObj [(lit ''role'', JStr (lit ''system'')), (lit ''content'', JStr content)]"

definition user_message :: "rstr \<Rightarrow> json_value" where
  "user_message content = JObj [(lit ''role'', JStr (lit ''user'')), (lit ''content'', JStr content)]"

definition json_object_format :: json_value where
  "json_object_format = JObj [(lit ''type'', JStr (lit ''json_object''))]"

definition warm_up_payload :: "local_model \<Rightarrow> json_value" where
  "warm_up_payload m = JObj [
     (lit ''model'', JStr (lm_model m)), (lit ''temperature'', JInt 0), (lit ''max_tokens'', JInt 1),
     (lit ''response_format'', json_object_format),
     (lit ''messages'', JArr [system_message (lit ''Return JSON only.''), user_message WARM_UP_PROMPT])]"

definition lm_warm_up where
  "lm_warm_up L m cancelled so client =
    (case call_model L m cancelled so client (warm_up_payload m) of
       (acts, r) \<Rightarrow> (acts, map_sum id (\<lambda>_. ()) r))"

definition prompt_candidate :: "candidate \<Rightarrow> json_value" where
  "prompt_candidate c = JObj [
     (lit ''id'', JInt (int (unat (cand_id c)))), (lit ''text'', JStr (take 96 (cand_text c))),
     (lit ''reading'', case cand_reading c of None \<Rightarrow> JNull | Some r \<Rightarrow> JStr (take 64 r))]"

definition LM_SYSTEM_PROMPT :: rstr where
  "LM_SYSTEM_PROMPT = lit ''You are a local Japanese IME reranker. Return JSON only with action (rerank or abstain), candidateIds as a permutation of the supplied IDs, confidence from 0 to 1, and reasonCode. Never invent candidate IDs or text.''"

definition prompt_input :: "candidate_rerank_request \<Rightarrow> json_value" where
  "prompt_input q = JObj [
     (lit ''contextBefore'', JStr (take LM_MAX_CONTEXT_CHARS (rr_context_before q))),
     (lit ''contextAfter'', JStr (take LM_MAX_CONTEXT_CHARS (rr_context_after q))),
     (lit ''candidates'', JArr (map prompt_candidate (take LM_MAX_CANDIDATES (rr_candidates q))))]"

definition prompt_payload :: "model_lib \<Rightarrow> candidate_rerank_request \<Rightarrow> rstr \<Rightarrow> json_value" where
  "prompt_payload L q model = JObj [
     (lit ''model'', JStr model), (lit ''temperature'', JInt 0), (lit ''response_format'', json_object_format),
     (lit ''messages'', JArr [system_message LM_SYSTEM_PROMPT,
        user_message (case ml_to_string L (prompt_input q) of None \<Rightarrow> lit ''{}'' | Some t \<Rightarrow> t)])]"

section \<open>The decision\<close>

text \<open>The loop over the decision's ids: \<open>seen\<close> marks positions, \<open>ordered\<close> collects candidates.\<close>

fun decision_loop ::
    "candidate list \<Rightarrow> bool list \<Rightarrow> candidate list \<Rightarrow> u64 list \<Rightarrow> enhancement_error + bool list \<times> candidate list" where
  "decision_loop cs seen ordered [] = Inr (seen, ordered)"
| "decision_loop cs seen ordered (i # ids) =
    (case index_of (\<lambda>c. cand_id c = i) cs of
       None \<Rightarrow> Inl (EE_InvalidOutput (lit ''candidateIds contains an unknown ID''))
     | Some k \<Rightarrow>
         if seen ! k then Inl (EE_InvalidOutput (lit ''candidateIds contains duplicates''))
         else decision_loop cs (seen[k := True]) (ordered @ [cs ! k]) ids)"

definition map_decision ::
    "model_lib \<Rightarrow> candidate_rerank_request \<Rightarrow> rstr \<Rightarrow> nat \<Rightarrow> enhancement_error + rerank_output" where
  "map_decision L q content elapsed =
    (case ml_decision L content of
       Inl e \<Rightarrow> Inl (EE_InvalidOutput e)
     | Inr d \<Rightarrow>
         seq (reject_if (md_action d \<notin> {lit ''rerank'', lit ''abstain''}) (EE_InvalidOutput (lit ''unknown action'')))
        (seq (reject_if (\<not> is_finite (md_confidence d) \<or>
             \<not> (float_le F0 (md_confidence d) \<and> float_le (md_confidence d) F1))
           (EE_InvalidOutput (lit ''confidence is out of range'')))
        (seq (reject_if (md_reason_code d = [] \<or> blen (md_reason_code d) > 64)
           (EE_InvalidOutput (lit ''reasonCode is out of range'')))
        (seq (reject_if (length (md_candidate_ids d) \<noteq> length (rr_candidates q) \<or>
             length (md_candidate_ids d) > LM_MAX_CANDIDATES)
           (EE_InvalidOutput (lit ''candidateIds is not a bounded permutation'')))
        (case decision_loop (rr_candidates q) (replicate (length (rr_candidates q)) False) [] (md_candidate_ids d) of
           Inl e \<Rightarrow> Inl e
         | Inr (seen, ordered) \<Rightarrow>
             seq (reject_if (list_ex Not seen) (EE_InvalidOutput (lit ''candidateIds omits a baseline candidate'')))
               (let adopted = md_action d = lit ''rerank'' \<and> float_le F0_75 (md_confidence d) \<and>
                      list_ex (\<lambda>(l, r). cand_id l \<noteq> cand_id r) (zip ordered (rr_candidates q));
                    metrics = (baseline_metrics CandidateRerank (lit ''openai-compatible'') Local
                      (of_nat (length (rr_candidates q))) (rr_deadline_ms q))\<lparr>em_ai_latency_micros := clamp_micros elapsed\<rparr>
                in if md_action d = lit ''abstain'' \<or> float_less (md_confidence d) F0_75
                   then Inr \<lparr>ro_candidates = rr_candidates q, ro_adopted = False, ro_metrics = metrics\<rparr>
                   else Inr \<lparr>ro_candidates = ordered, ro_adopted = adopted, ro_metrics = metrics\<rparr>))))))"

definition local_rerank ::
    "model_lib \<Rightarrow> local_model \<Rightarrow> bool \<Rightarrow> 'a model_socket \<Rightarrow> (rstr option \<Rightarrow> json_value \<Rightarrow> client_answer) \<Rightarrow> nat \<Rightarrow>
     candidate_rerank_request \<Rightarrow> 'a net_action list \<times> (enhancement_error + rerank_output)" where
  "local_rerank L m cancelled so client elapsed q =
    (case validate_rerank_request q of
       Inl e \<Rightarrow> ([], Inl (EE_InvalidRequest e))
     | Inr _ \<Rightarrow>
         if length (rr_candidates q) > LM_MAX_CANDIDATES
         then ([], Inl (EE_InvalidRequest (VE_TooManyCandidates (of_nat (length (rr_candidates q))) (of_nat LM_MAX_CANDIDATES))))
         else case call_model L m cancelled so client (prompt_payload L q (lm_model m)) of
           (acts, Inl e) \<Rightarrow> (acts, Inl e)
         | (acts, Inr content) \<Rightarrow> (acts, map_decision L q content elapsed))"

definition local_semantic_assist :: "semantic_assist_request \<Rightarrow> enhancement_error + semantic_assist_output" where
  "local_semantic_assist q =
    Inl (EE_ProviderUnavailable (lit ''semantic assist is not enabled for the local reranker''))"

end
