(* ===== verification/Local_Model_Correct.thy ===== *)
theory Local_Model_Correct
  imports Local_Model Validation_Facts Mozc_Wire_Facts
begin

text \<open>
  The local model adapter: its response reader does not depend on how the bytes are split into
  reads and reads any chunked body back, nothing is written before the ownership proof, the request
  head cannot be broken into, and a decision only reorders the candidates of its request.
\<close>

section \<open>Clean sockets\<close>

text \<open>A socket whose reads all succeed with at least a byte, and what it delivers in total.\<close>

definition clean :: "read_event list \<Rightarrow> bool" where
  "clean st \<longleftrightarrow> list_all (\<lambda>(cancelled, r). \<not> cancelled \<and> (case r of RR_Bytes bs \<Rightarrow> bs \<noteq> [] | _ \<Rightarrow> False)) st"

definition delivered :: "read_event list \<Rightarrow> u8 list" where
  "delivered st = concat (map (\<lambda>ev. case snd ev of RR_Bytes bs \<Rightarrow> bs | _ \<Rightarrow> []) st)"

lemma delivered_simps [simp]:
  "delivered [] = []" "delivered ((c, RR_Bytes bs) # st) = bs @ delivered st"
  by (simp_all add: delivered_def)

lemma clean_Nil [simp]: "clean []"
  by (simp add: clean_def)

lemma clean_Cons: "clean (ev # st) \<longleftrightarrow> (\<exists>bs. ev = (False, RR_Bytes bs) \<and> bs \<noteq> []) \<and> clean st"
  by (cases ev; cases "snd ev") (auto simp: clean_def)

lemma clean_read: "clean (ev # st) \<Longrightarrow> \<exists>bs. socket_read ev = Inr bs \<and> bs \<noteq> [] \<and> delivered (ev # st) = bs @ delivered st \<and> clean st"
  by (auto simp: clean_Cons socket_read_def)

text \<open>Everything in one read.\<close>

lemma find_crlf_append: "find_crlf bs = Some k \<Longrightarrow> find_crlf (bs @ cs) = Some k"
proof (induction bs arbitrary: k)
  case (Cons b bs)
  show ?case
  proof (cases "take 2 (b # bs) = [13, 10]")
    case True
    then have "take 2 (b # bs @ cs) = [13, 10]" by (cases bs) (auto simp: numeral_2_eq_2)
    then show ?thesis using True Cons.prems by simp
  next
    case False
    then obtain j where j: "find_crlf bs = Some j" "k = Suc j" using Cons.prems by auto
    then have "2 \<le> length bs" using find_crlf_bound by fastforce
    then have e: "take 2 (b # bs @ cs) = take 2 (b # bs)" by (cases bs) (simp_all add: numeral_2_eq_2)
    show ?thesis using False Cons.IH [OF j(1)] j(2) unfolding append_Cons find_crlf.simps e by simp
  qed
qed simp

lemma find_head_end_bound: "find_head_end bs = Some k \<Longrightarrow> k + 4 \<le> length bs"
proof (induction bs arbitrary: k)
  case (Cons b bs)
  show ?case
  proof (cases "take 4 (b # bs) = [13, 10, 13, 10]")
    case True
    then have "length (take 4 (b # bs)) = 4" by simp
    then show ?thesis using True Cons.prems by simp
  qed (use Cons in auto)
qed simp

lemma find_head_end_append: "find_head_end bs = Some k \<Longrightarrow> find_head_end (bs @ cs) = Some k"
proof (induction bs arbitrary: k)
  case (Cons b bs)
  have l: "4 \<le> length (b # bs)" using find_head_end_bound [OF Cons.prems] by simp
  then have "take 4 (b # bs @ cs) = take 4 (b # bs)" by (metis append_Cons le_add_diff_inverse take_append take_all_iff append_Nil2 diff_is_0_eq take0)
  then show ?case using Cons by (auto split: if_splits)
qed simp

lemma fill_until_clean:
  "clean st \<Longrightarrow>
   (if length (buffer @ delivered st) < n then fill_until n st buffer = Inl (ended_mid ''chunk'')
    else \<exists>st' buffer'. fill_until n st buffer = Inr (st', buffer') \<and> clean st' \<and> n \<le> length buffer' \<and>
      buffer' @ delivered st' = buffer @ delivered st)"
proof (induction n st buffer rule: fill_until.induct)
  case (2 n ev st buffer)
  obtain bs where bs: "socket_read ev = Inr bs" "bs \<noteq> []" "delivered (ev # st) = bs @ delivered st" "clean st"
    using clean_read [OF 2(2)] by blast
  show ?case
  proof (cases "length buffer < n")
    case True
    with 2(1) [OF True bs(1,2,4)] bs show ?thesis by (simp add: add.assoc split: if_splits)
  next
    case False
    with 2(2) bs(3) show ?thesis by auto
  qed
qed auto

lemma decode_chunked_clean:
  "clean st \<Longrightarrow> decode_chunked st buffer decoded = decode_chunked [] (buffer @ delivered st) decoded"
proof (induction st buffer decoded rule: decode_chunked.induct)
  case (1 st buffer decoded)
  show ?case
  proof (cases "find_crlf buffer")
    case None
    show ?thesis
    proof (cases st)
      case (Cons ev st')
      obtain bs where bs: "socket_read ev = Inr bs" "bs \<noteq> []" "delivered (ev # st') = bs @ delivered st'" "clean st'"
        using clean_read 1(3) Cons by blast
      have "decode_chunked st buffer decoded = decode_chunked st' (buffer @ bs) decoded"
        by (subst decode_chunked.simps) (simp add: None Cons bs(1,2))
      also have "\<dots> = decode_chunked [] ((buffer @ bs) @ delivered st') decoded"
        using 1(1) [OF None Cons bs(1,2,4)] .
      finally show ?thesis by (simp add: Cons bs(3))
    qed simp
  next
    case (Some k)
    have k: "k + 2 \<le> length buffer" using find_crlf_bound [OF Some] .
    let ?all = "buffer @ delivered st"
    have all: "find_crlf ?all = Some k" "take k ?all = take k buffer" "drop (k + 2) ?all = drop (k + 2) buffer @ delivered st"
      using find_crlf_append [OF Some] k by simp_all
    show ?thesis
    proof (cases "chunk_size (take k buffer)")
      case None
      then show ?thesis by (subst (1 2) decode_chunked.simps) (simp add: Some all del: take_append drop_append)
    next
      case sz: (Some sz)
      show ?thesis
      proof (cases "sz = 0 \<or> length decoded + sz > LM_MAX_RESPONSE_BYTES")
        case True
        then show ?thesis by (subst (1 2) decode_chunked.simps) (auto simp: Some all sz simp del: take_append drop_append)
      next
        case False
        let ?rest = "drop (k + 2) buffer"
        show ?thesis
        proof (cases "length (?rest @ delivered st) < sz + 2")
          case True
          then have "fill_until (sz + 2) st ?rest = Inl (ended_mid ''chunk'')"
            using fill_until_clean [OF 1(3), of ?rest "sz + 2"] by simp
          with True False k show ?thesis
            by (subst (1 2) decode_chunked.simps) (simp add: Some all(1,2) all(3) sz del: drop_append take_append)
        next
          case enough: False
          then obtain st' buffer' where f: "fill_until (sz + 2) st ?rest = Inr (st', buffer')" "clean st'"
            "sz + 2 \<le> length buffer'" "buffer' @ delivered st' = ?rest @ delivered st"
            using fill_until_clean [OF 1(3), of ?rest "sz + 2"] by auto
          have "decode_chunked st buffer decoded = decode_chunked st' (drop (sz + 2) buffer') (decoded @ take sz buffer')"
            by (subst decode_chunked.simps) (use False in \<open>simp add: Some sz f(1) del: add_2_eq_Suc add_2_eq_Suc'\<close>)
          also have "\<dots> = decode_chunked [] (drop (sz + 2) buffer' @ delivered st') (decoded @ take sz buffer')"
            using 1(2) [OF Some sz _ _ f(1) refl f(2)] False by simp
          also have "drop (sz + 2) buffer' @ delivered st' = drop (sz + 2) (?rest @ delivered st)"
            using f(3) unfolding f(4) [symmetric] by simp
          also have "take sz buffer' = take sz (?rest @ delivered st)"
            using f(3) unfolding f(4) [symmetric] by simp
          also have "decode_chunked [] (drop (sz + 2) (?rest @ delivered st)) (decoded @ take sz (?rest @ delivered st)) =
              decode_chunked [] ?all decoded"
            by (subst (2) decode_chunked.simps) (use False enough k in \<open>simp add: Some all(1,2) all(3) sz del: drop_append take_append drop_drop add_2_eq_Suc add_2_eq_Suc'\<close>)
          finally show ?thesis .
        qed
      qed
    qed
  qed
qed

lemma find_head_end_prefix:
  "find_head_end (bs @ cs) = Some k \<Longrightarrow> k + 4 \<le> length bs \<Longrightarrow> find_head_end bs = Some k"
proof (induction bs arbitrary: k)
  case (Cons b bs)
  have "4 \<le> length (b # bs)" using Cons.prems(2) by simp
  then have "take 4 (b # bs @ cs) = take 4 (b # bs)"
    by (metis append_Cons le_add_diff_inverse take_append take_all_iff append_Nil2 diff_is_0_eq take0)
  then show ?case using Cons by (auto split: if_splits)
qed simp

lemma read_head_clean:
  assumes "clean st" "find_head_end (raw @ delivered st) = Some k" "k + 4 \<le> LM_MAX_RESPONSE_HEAD_BYTES"
  shows "\<exists>raw' st'. read_head st raw = Inr (k, raw', st') \<and> clean st' \<and> raw' @ delivered st' = raw @ delivered st \<and>
    k + 4 \<le> length raw'"
  using assms
proof (induction st arbitrary: raw)
  case Nil
  then show ?case using find_head_end_bound [of raw k] by simp
next
  case (Cons ev st)
  obtain bs where bs: "socket_read ev = Inr bs" "bs \<noteq> []" "delivered (ev # st) = bs @ delivered st" "clean st"
    using clean_read [OF Cons.prems(1)] by blast
  show ?case
  proof (cases "find_head_end raw")
    case (Some j)
    then have "j = k" using find_head_end_append [OF Some, of "delivered (ev # st)"] Cons.prems(2) by simp
    with Some Cons.prems(1) show ?thesis using find_head_end_bound [OF Some] by auto
  next
    case None
    have "\<not> k + 4 \<le> length raw" using find_head_end_prefix [OF Cons.prems(2)] None by auto
    then have "\<not> length raw > LM_MAX_RESPONSE_HEAD_BYTES" using Cons.prems(3) by simp
    then show ?thesis using Cons.IH [OF bs(4), of "raw @ bs"] Cons.prems(2,3) bs None by simp
  qed
qed

lemma read_declared_clean:
  "clean st \<Longrightarrow> \<exists>b. read_declared n st body = Inr b \<and> take n b = take n (body @ delivered st)"
proof (induction n st body rule: read_declared.induct)
  case (2 n ev st body)
  obtain bs where bs: "socket_read ev = Inr bs" "bs \<noteq> []" "delivered (ev # st) = bs @ delivered st" "clean st"
    using clean_read [OF 2(2)] by blast
  show ?case using 2(1) [OF _ bs(1,2,4)] bs by (cases "length body < n") auto
qed simp

definition bounded_body :: "enhancement_error + u8 list \<Rightarrow> enhancement_error + u8 list" where
  "bounded_body r = (case r of Inl e \<Rightarrow> Inl e
     | Inr b \<Rightarrow> if length b > LM_MAX_RESPONSE_BYTES then Inl response_too_large else Inr b)"

lemma read_to_close_clean:
  "clean st \<Longrightarrow> bounded_body (read_to_close st body) = bounded_body (Inr (body @ delivered st))"
proof (induction st body rule: read_to_close.induct)
  case (2 ev st body)
  obtain bs where bs: "socket_read ev = Inr bs" "bs \<noteq> []" "delivered (ev # st) = bs @ delivered st" "clean st"
    using clean_read [OF 2(2)] by blast
  show ?case using 2(1) [OF bs(1,2) _ bs(4)] bs
    by (cases "length (body @ bs) > LM_MAX_RESPONSE_BYTES") (auto simp: bounded_body_def)
qed simp

text \<open>The reference: a response that is there as a whole, with its head ending at \<open>k\<close>.\<close>

definition whole_response :: "u8 list \<Rightarrow> nat \<Rightarrow> enhancement_error + u8 list" where
  "whole_response bs k =
    (case parse_head (take k bs) of
       Inl e \<Rightarrow> Inl e
     | Inr (content_length, chunked) \<Rightarrow>
         let body = drop (k + 4) bs in
         bounded_body (if chunked then decode_chunked [] body []
           else Inr (case content_length of None \<Rightarrow> body | Some n \<Rightarrow> take n body)))"

lemma read_response_whole:
  assumes "clean st" "find_head_end (delivered st) = Some k" "k + 4 \<le> LM_MAX_RESPONSE_HEAD_BYTES"
  shows "read_response st = whole_response (delivered st) k"
proof -
  obtain raw st' where r: "read_head st [] = Inr (k, raw, st')" "clean st'" "raw @ delivered st' = delivered st" "k + 4 \<le> length raw"
    using read_head_clean [of st "[]" k] assms by auto
  have t: "take k raw = take k (delivered st)" "drop (k + 4) raw @ delivered st' = drop (k + 4) (delivered st)"
    using r(4) unfolding r(3) [symmetric] by simp_all
  have rr: "read_response st = (case parse_head (take k (delivered st)) of Inl e \<Rightarrow> Inl e
      | Inr framing \<Rightarrow> bounded_body (read_body framing st' (drop (k + 4) raw)))"
    by (cases "parse_head (take k (delivered st))") (simp_all add: read_response_def r(1) t(1) bounded_body_def)
  show ?thesis
  proof (cases "parse_head (take k (delivered st))")
    case (Inr framing)
    obtain cl chunked where f: "framing = (cl, chunked)" by fastforce
    have "bounded_body (read_body framing st' (drop (k + 4) raw)) =
      bounded_body (if chunked then decode_chunked [] (drop (k + 4) (delivered st)) []
           else Inr (case cl of None \<Rightarrow> drop (k + 4) (delivered st) | Some n \<Rightarrow> take n (drop (k + 4) (delivered st))))"
    proof (cases chunked)
      case True
      then show ?thesis using decode_chunked_clean [OF r(2), of "drop (k + 4) raw"] by (simp add: f read_body_def t(2) del: drop_drop)
    next
      case False
      show ?thesis
      proof (cases cl)
        case None
        then show ?thesis using False read_to_close_clean [OF r(2), of "drop (k + 4) raw"]
          by (simp add: f read_body_def t(2))
      next
        case (Some n)
        obtain b where "read_declared n st' (drop (k + 4) raw) = Inr b" "take n b = take n (drop (k + 4) (delivered st))"
          using read_declared_clean [OF r(2), of n "drop (k + 4) raw"] by (auto simp: t(2))
        then show ?thesis using False Some by (simp add: f read_body_def)
      qed
    qed
    then show ?thesis using Inr by (simp add: rr whole_response_def f Let_def)
  qed (simp add: rr whole_response_def)
qed

text \<open>
  C0. The response does not depend on the reads. However the bytes of a response are split into
  reads (no read failing and the token not cancelled), as long as its head ends within the bound,
  the adapter's incremental reader gives what the reference gives on all the bytes at once, for each
  of the three framings and every error.
\<close>
theorem response_split_independent:
  assumes "clean st" "find_head_end (delivered st) = Some k" "k + 4 \<le> LM_MAX_RESPONSE_HEAD_BYTES"
  shows "read_response st = whole_response (delivered st) k"
  by (rule read_response_whole [OF assms])

section \<open>Chunked bodies\<close>

text \<open>
  A chunk as a sender may write it: a size line that means the length of its data (leading zeros,
  either case, extensions after a semicolon), and the data.
\<close>

definition size_line :: "u8 list \<Rightarrow> nat \<Rightarrow> bool" where
  "size_line l n \<longleftrightarrow> find_crlf (l @ [13, 10]) = Some (length l) \<and> chunk_size l = Some n"

fun chunked_form :: "(u8 list \<times> u8 list) list \<Rightarrow> u8 list \<Rightarrow> u8 list" where
  "chunked_form [] final = final"
| "chunked_form ((l, d) # cs) final = l @ [13, 10] @ d @ [13, 10] @ chunked_form cs final"

lemma decode_chunked_form:
  assumes "\<forall>(l, d) \<in> set cs. size_line l (length d) \<and> d \<noteq> []" "size_line z 0"
    and "length acc + length (concat (map snd cs)) \<le> LM_MAX_RESPONSE_BYTES"
  shows "decode_chunked [] (chunked_form cs (z @ [13, 10] @ trailer)) acc = Inr (acc @ concat (map snd cs))"
  using assms
proof (induction cs arbitrary: acc)
  case Nil
  have "find_crlf (z @ [13, 10] @ trailer) = Some (length z)"
    using find_crlf_append [of "z @ [13, 10]" "length z" trailer] Nil(2) by (simp add: size_line_def)
  then show ?case using Nil(2) by (subst decode_chunked.simps) (simp add: size_line_def)
next
  case (Cons c cs)
  obtain l d where c: "c = (l, d)" by fastforce
  let ?rest = "d @ [13, 10] @ chunked_form cs (z @ [13, 10] @ trailer)"
  have l: "size_line l (length d)" "d \<noteq> []" using Cons.prems(1) by (auto simp: c)
  have f: "find_crlf (l @ [13, 10] @ ?rest) = Some (length l)"
    using find_crlf_append [of "l @ [13, 10]" "length l" ?rest] l by (simp add: size_line_def)
  have "decode_chunked [] (chunked_form (c # cs) (z @ [13, 10] @ trailer)) acc =
      decode_chunked [] (chunked_form cs (z @ [13, 10] @ trailer)) (acc @ d)"
    using l Cons.prems(3) f by (subst decode_chunked.simps) (simp add: c size_line_def)
  with Cons show ?case by (simp add: c)
qed



definition demo_response_head :: "u8 list" where
  "demo_response_head = utf8 (lit ''HTTP/1.1 200 OK'' @ crlf @ lit ''Transfer-Encoding: chunked'')"

definition demo_chunks :: "(u8 list \<times> u8 list) list" where
  "demo_chunks = [(utf8 (lit ''2''), utf8 (lit ''{}'')), (utf8 (lit ''01;x''), [32])]"

definition demo_response :: "u8 list" where
  "demo_response = demo_response_head @ [13, 10, 13, 10] @ chunked_form demo_chunks (utf8 (lit ''0'') @ [13, 10] @ [13, 10])"

lemma utf8_lossy_utf8: "list_all is_scalar s \<Longrightarrow> utf8_lossy (utf8 s) = s"
proof (induction s)
  case (Cons c s)
  then show ?case by (subst utf8_lossy.simps) (simp add: utf8_next_char)
qed (simp add: utf8_lossy.simps)

lemma chunk_size_utf8:
  "list_all is_scalar s \<Longrightarrow> chunk_size (utf8 s) = parse_unsigned 16 (2 ^ 64) (trim (takeWhile (\<lambda>c. c \<noteq> 59) s))"
  by (simp add: chunk_size_def utf8_lossy_utf8)

lemma demo_head: "find_head_end (demo_response_head @ [13, 10, 13, 10]) = Some (length demo_response_head)"
  by (simp add: demo_response_head_def lit_def utf8_ascii crlf_def del: utf8_Cons)

lemma demo_head_parses: "parse_head demo_response_head = Inr (None, True)"
  unfolding demo_response_head_def parse_head_def
  by (subst utf8_lossy_utf8) (simp_all add: crlf_def lit_def is_scalar_def status_code_def is_whitespace_def
    parse_unsigned_def digit_of_def header_line_def ascii_lower_def trim_def trim_start_def trim_end_def)

lemma demo_size_lines:
  "find_crlf (utf8 (lit ''2'') @ [13, 10]) = Some (length (utf8 (lit ''2'')))"
  "find_crlf (utf8 (lit ''01;x'') @ [13, 10]) = Some (length (utf8 (lit ''01;x'')))"
  "find_crlf (utf8 (lit ''0'') @ [13, 10]) = Some (length (utf8 (lit ''0'')))"
  by (simp_all add: lit_def utf8_ascii del: utf8_Cons)

lemma demo_chunk_sizes:
  "chunk_size (utf8 (lit ''2'')) = Some 2" "chunk_size (utf8 (lit ''01;x'')) = Some 1" "chunk_size (utf8 (lit ''0'')) = Some 0"
  by (subst chunk_size_utf8, simp add: lit_def is_scalar_def,
      simp add: lit_def trim_def trim_start_def trim_end_def is_whitespace_def parse_unsigned_def digit_of_def)+

lemma demo_response_ready:
  "find_head_end demo_response = Some (length demo_response_head)"
  "length demo_response_head + 4 \<le> LM_MAX_RESPONSE_HEAD_BYTES"
  "\<forall>(l, d) \<in> set demo_chunks. size_line l (length d) \<and> d \<noteq> []" "size_line (utf8 (lit ''0'')) 0"
  "concat (map snd demo_chunks) = utf8 (lit ''{} '')"
proof -
  show "find_head_end demo_response = Some (length demo_response_head)"
    using find_head_end_append [OF demo_head] by (simp add: demo_response_def)
  show "length demo_response_head + 4 \<le> LM_MAX_RESPONSE_HEAD_BYTES"
    by (simp add: demo_response_head_def lit_def utf8_ascii crlf_def LM_MAX_RESPONSE_HEAD_BYTES_def del: utf8_Cons)
  show "size_line (utf8 (lit ''0'')) 0" using demo_size_lines demo_chunk_sizes by (simp add: size_line_def)
  have "length (utf8 (lit ''{}'')) = 2" "utf8 (lit ''{}'') \<noteq> []" by (simp_all add: lit_def utf8_ascii del: utf8_Cons)
  then show "\<forall>(l, d) \<in> set demo_chunks. size_line l (length d) \<and> d \<noteq> []"
    using demo_size_lines demo_chunk_sizes by (simp add: size_line_def demo_chunks_def)
  show "concat (map snd demo_chunks) = utf8 (lit ''{} '')"
    by (simp add: demo_chunks_def lit_def utf8_ascii del: utf8_Cons)
qed

theorem response_split_independent_witness:
  "read_response [(False, RR_Bytes (take 2 demo_response)), (False, RR_Bytes (drop 2 demo_response))] =
    whole_response demo_response (length demo_response_head)"
proof -
  let ?st = "[(False, RR_Bytes (take 2 demo_response)), (False, RR_Bytes (drop 2 demo_response))]"
  have "2 < length demo_response" using find_head_end_bound [OF demo_response_ready(1)] by simp
  then have "clean ?st" by (auto simp: clean_def)
  moreover have "delivered ?st = demo_response" by simp
  ultimately show ?thesis
    using response_split_independent [of ?st "length demo_response_head"] demo_response_ready by simp
qed


section \<open>Before the proof\<close>

text \<open>
  C5. Nothing is written to a connection that was not proved. In an exchange with an owned runtime
  a write happens at most once, after the connection to the configured port was opened and after the
  proof of ownership of exactly that connection's address pair had succeeded and the token was found
  live; what is written is the whole request, of at most 256 KiB, and without the write there is no
  answer.
\<close>
theorem nothing_before_proof:
  fixes so :: "'a model_socket"
  assumes "send_over_verified L m so payload = (acts, r)"
  shows "(\<forall>a bytes. a \<in> set acts \<and> a = NA_Write bytes \<longrightarrow>
      (\<exists>address here peer body. loopback_address L m = Some address \<and> so_addresses so = Some (here, peer) \<and>
         so_owned so here peer \<and> \<not> so_cancelled so \<and> ml_to_vec L payload = Inr body \<and>
         bytes = model_request (lm_endpoint m) (lm_api_key m) body \<and> length bytes \<le> LM_MAX_REQUEST_BYTES \<and>
         acts = [NA_Connect address, NA_Prove here peer True, NA_Write bytes])) \<and>
    (is_ok r \<longrightarrow> (\<exists>bytes. NA_Write bytes \<in> set acts))"
  using assms unfolding send_over_verified_def
  by (cases "loopback_address L m"; cases "so_connect so"; cases "so_addresses so"; cases "ml_to_vec L payload")
    (auto simp: Let_def split: if_splits prod.splits)

section \<open>The decision\<close>

lemma decision_loop_spec:
  assumes "decision_loop cs seen ordered ids = Inr (seen', out)" "length seen = length cs"
  shows "\<exists>news. out = ordered @ news \<and> map cand_id news = ids \<and> set news \<subseteq> set cs \<and> length seen' = length cs \<and>
    (\<forall>k < length cs. seen' ! k \<longrightarrow> seen ! k \<or> cs ! k \<in> set news)"
  using assms
proof (induction cs seen ordered ids rule: decision_loop.induct)
  case (2 cs seen ordered i ids)
  obtain k where k: "index_of (\<lambda>c. cand_id c = i) cs = Some k" "\<not> seen ! k"
    using 2(2) by (auto split: option.splits if_splits)
  note ix = index_of_Some [OF k(1)]
  have rest: "decision_loop cs (seen[k := True]) (ordered @ [cs ! k]) ids = Inr (seen', out)" using 2(2) k by simp
  obtain news where n: "out = (ordered @ [cs ! k]) @ news" "map cand_id news = ids" "set news \<subseteq> set cs"
    "length seen' = length cs" "\<forall>j < length cs. seen' ! j \<longrightarrow> seen[k := True] ! j \<or> cs ! j \<in> set news"
    using 2(1) [OF k rest] 2(3) by auto
  then show ?case using ix 2(3)
    by (intro exI [of _ "cs ! k # news"]) (auto simp: nth_list_update split: if_splits)
qed auto

lemma whole_decision_permutes:
  assumes "decision_loop cs (replicate (length cs) False) [] ids = Inr (seen, out)" "\<not> list_ex Not seen"
    "length ids = length cs" "distinct cs"
  shows "mset out = mset cs" "map cand_id out = ids"
proof -
  obtain news where n: "out = news" "map cand_id news = ids" "set news \<subseteq> set cs" "length seen = length cs"
    "\<forall>k < length cs. seen ! k \<longrightarrow> replicate (length cs) False ! k \<or> cs ! k \<in> set news"
    using decision_loop_spec [OF assms(1)] by auto
  have "seen ! k" if "k < length cs" for k using assms(2) n(4) that by (auto simp: list_ex_iff)
  then have "set cs \<subseteq> set out" using n(1,5) by (auto simp: in_set_conv_nth)
  then have same: "set out = set cs" using n by blast
  have "length out = length cs" using n(1,2) assms(3) by (metis length_map)
  then have "distinct out" using same assms(4) by (metis card_distinct distinct_card)
  then show "mset out = mset cs" using same assms(4) by (simp add: set_eq_iff_mset_eq_distinct)
  show "map cand_id out = ids" using n by simp
qed

lemma not_nan_F0_75: "\<not> is_nan F0_75"
  by (simp add: is_nan_def float_magnitude_def float_infinity_def F0_75_def mask_eq_exp_minus_1)

lemma zip_differs: "length xs = length ys \<Longrightarrow>
  list_ex (\<lambda>(l, r). cand_id l \<noteq> cand_id r) (zip xs ys) \<longleftrightarrow> map cand_id xs \<noteq> map cand_id ys"
  by (induction xs ys rule: list_induct2) auto


text \<open>
  C6. A decision only reorders. When the adapter's rerank succeeds, the candidates it returns are
  those of the request, each once; they count as adopted exactly when their order differs from the
  request's, and then they are in the order of the decision's ids, whose action is to rerank and
  whose confidence is at least 0.75.
\<close>
theorem decision_only_reorders:
  assumes "local_rerank L m cancelled so client elapsed q = (acts, Inr out)"
  shows "mset (ro_candidates out) = mset (rr_candidates q) \<and> length (rr_candidates q) \<le> LM_MAX_CANDIDATES \<and>
    (ro_adopted out \<longleftrightarrow> ro_candidates out \<noteq> rr_candidates q) \<and>
    (ro_adopted out \<longrightarrow> (\<exists>content d. ml_decision L content = Inr d \<and> md_action d = lit ''rerank'' \<and>
       float_le F0_75 (md_confidence d) \<and> map cand_id (ro_candidates out) = md_candidate_ids d))"
proof -
  let ?cs = "rr_candidates q"
  obtain content where v: "is_ok (validate_rerank_request q)" and small: "length ?cs \<le> LM_MAX_CANDIDATES"
    and m: "map_decision L q content elapsed = Inr out"
    using assms by (auto simp: local_rerank_def is_ok_def split: sum.splits if_splits prod.splits)
  have ids: "distinct (map cand_id ?cs)"
    using v by (simp add: validate_rerank_request_def is_ok_unit_iff candidate_list_accepts bounded_candidates_def)
  then have dis: "distinct ?cs" by (simp add: distinct_map)
  obtain d where d: "ml_decision L content = Inr d" using m by (auto simp: map_decision_def split: sum.splits)
  obtain seen ordered where l: "decision_loop ?cs (replicate (length ?cs) False) [] (md_candidate_ids d) = Inr (seen, ordered)"
      "\<not> list_ex Not seen" "length (md_candidate_ids d) = length ?cs"
    and act: "md_action d \<in> {lit ''rerank'', lit ''abstain''}"
    and fin: "is_finite (md_confidence d)"
    and out: "ro_candidates out = (if md_action d = lit ''abstain'' \<or> float_less (md_confidence d) F0_75 then ?cs else ordered)"
      "ro_adopted out \<longleftrightarrow> \<not> (md_action d = lit ''abstain'' \<or> float_less (md_confidence d) F0_75) \<and>
         md_action d = lit ''rerank'' \<and> float_le F0_75 (md_confidence d) \<and>
         list_ex (\<lambda>(l, r). cand_id l \<noteq> cand_id r) (zip ordered ?cs)"
    using m d
    by (auto simp: map_decision_def seq_def reject_if_def Let_def split: sum.splits if_splits)
  note perm = whole_decision_permutes [OF l dis]
  have "\<not> float_less (md_confidence d) F0_75 \<Longrightarrow> float_le F0_75 (md_confidence d)"
    using fin not_nan_F0_75 by (auto simp: float_less_def float_le_def is_finite_def is_nan_def)
  moreover have "map cand_id ordered = map cand_id ?cs \<longleftrightarrow> ordered = ?cs"
    using perm(1) ids by (metis inj_on_map_eq_map distinct_map mset_eq_setD sup.idem)
  ultimately show ?thesis
    using out act small perm d zip_differs [of ordered ?cs] mset_eq_length [OF perm(1)] by auto
qed


section \<open>The request head\<close>

lemma utf8_no_cr: "list_all is_scalar s \<Longrightarrow> \<not> has_control s \<Longrightarrow> 13 \<notin> set (utf8 s)"
proof
  assume a: "list_all is_scalar s" "\<not> has_control s" "13 \<in> set (utf8 s)"
  then have "list_ex (\<lambda>b. unat b < 32 \<or> b = 127) (utf8 s)" by (auto simp: list_ex_iff intro!: bexI [of _ 13])
  with scalar_control [OF a(1,2)] show False by simp
qed

definition good_line :: "rstr \<Rightarrow> bool" where
  "good_line l \<longleftrightarrow> l \<noteq> [] \<and> list_all is_scalar l \<and> \<not> has_control l"

lemma find_head_end_skip:
  assumes "13 \<notin> set u" "take 2 v \<noteq> [13, 10]"
  shows "find_head_end (u @ [13, 10] @ v) = map_option ((+) (length u + 2)) (find_head_end v)"
  using assms
proof (induction u)
  case Nil
  then show ?case by (cases "find_head_end v") simp_all
next
  case (Cons b u)
  then have "take 4 (b # u @ [13, 10] @ v) \<noteq> [13, 10, 13, 10]" by auto
  with Cons show ?case by (cases "find_head_end v") auto
qed

lemma find_head_end_here: "13 \<notin> set u \<Longrightarrow> find_head_end (u @ [13, 10, 13, 10] @ v) = Some (length u)"
proof (induction u)
  case (Cons b u)
  then have "take 4 (b # u @ [13, 10, 13, 10] @ v) \<noteq> [13, 10, 13, 10]" by auto
  with Cons show ?case by simp
qed simp

lemma utf8_append: "utf8 (s @ t) = utf8 s @ utf8 t"
  by (simp add: utf8_def)

lemma utf8_crlf: "utf8 crlf = [13, 10]"
  by (simp add: crlf_def utf8_ascii del: utf8_Cons)

text \<open>Lines joined by CR LF, and what the reader finds of them.\<close>

fun joined :: "rstr list \<Rightarrow> rstr" where
  "joined [] = []"
| "joined [l] = l"
| "joined (l # ls) = l @ crlf @ joined ls"

lemma joined_lines: "ls \<noteq> [] \<Longrightarrow> concat (map (\<lambda>l. l @ crlf) ls) = joined ls @ crlf"
  by (induction ls rule: joined.induct) auto

lemma find_head_end_joined:
  "ls \<noteq> [] \<Longrightarrow> list_all good_line ls \<Longrightarrow>
   find_head_end (utf8 (joined ls) @ [13, 10, 13, 10] @ v) = Some (length (utf8 (joined ls)))"
proof (induction ls rule: joined.induct)
  case (2 l)
  then show ?case using find_head_end_here [of "utf8 l" v] utf8_no_cr by (simp add: good_line_def)
next
  case (3 l k ks)
  let ?v = "utf8 (joined (k # ks)) @ [13, 10, 13, 10] @ v"
  have no_cr: "13 \<notin> set (utf8 k)" "k \<noteq> []" using 3(3) utf8_no_cr [of k] by (auto simp: good_line_def)
  have "utf8 k \<noteq> []" using no_cr(2) by (cases k) auto
  then obtain c r where k0: "utf8 k = c # r" by (cases "utf8 k") auto
  then have k: "utf8 k = c # r" "c \<noteq> 13" using no_cr(1) by auto
  have "\<exists>r. utf8 (joined (k # ks)) = c # r" using k by (cases ks) (auto simp: utf8_append)
  then have "take 2 ?v \<noteq> [13, 10]" using k(2) by (auto simp: numeral_2_eq_2)
  moreover have "13 \<notin> set (utf8 l)" using 3(3) utf8_no_cr by (simp add: good_line_def)
  ultimately show ?case using find_head_end_skip [of "utf8 l" ?v] 3(1,3) by (simp add: utf8_append utf8_crlf)
qed simp

lemma split_crlf_line: "13 \<notin> set l \<Longrightarrow> split_crlf acc (l @ crlf @ t) = (acc @ l) # split_crlf [] t"
  by (induction l arbitrary: acc) (auto simp: crlf_def)

lemma split_crlf_last: "13 \<notin> set l \<Longrightarrow> split_crlf acc l = [acc @ l]"
  by (induction l arbitrary: acc) auto

lemma split_crlf_joined: "ls \<noteq> [] \<Longrightarrow> \<forall>l \<in> set ls. 13 \<notin> set l \<Longrightarrow> split_crlf [] (joined ls) = ls"
  by (induction ls rule: joined.induct) (auto simp: split_crlf_line split_crlf_last)

lemma good_line_no_cr: "good_line l \<Longrightarrow> 13 \<notin> set l"
  by (auto simp: good_line_def has_control_def is_control_def list_ex_iff)

lemma good_lines:
  assumes "list_all good_line ls" "ls \<noteq> []"
  shows "\<exists>k. find_head_end (utf8 (concat (map (\<lambda>l. l @ crlf) ls) @ crlf) @ body) = Some k \<and>
    split_crlf [] (utf8_lossy (take k (utf8 (concat (map (\<lambda>l. l @ crlf) ls) @ crlf) @ body))) = ls \<and>
    drop (k + 4) (utf8 (concat (map (\<lambda>l. l @ crlf) ls) @ crlf) @ body) = body"
proof -
  have e: "utf8 (concat (map (\<lambda>l. l @ crlf) ls) @ crlf) @ body = utf8 (joined ls) @ [13, 10, 13, 10] @ body"
    by (simp add: joined_lines [OF assms(2)] utf8_append utf8_crlf)
  have "list_all is_scalar (joined ls)"
    using assms(1) by (induction ls rule: joined.induct) (auto simp: good_line_def crlf_def is_scalar_def)
  moreover have "\<forall>l \<in> set ls. 13 \<notin> set l" using assms(1) good_line_no_cr by (auto simp: list_all_iff)
  ultimately show ?thesis
    unfolding e using find_head_end_joined [OF assms(2,1), of body]
    by (simp add: utf8_lossy_utf8 split_crlf_joined assms(2))
qed


lemma built_model:
  assumes "lm_build L base model api_key owned = Inr m"
  shows "um_path (lm_endpoint m) = lit ''/v1/chat/completions''" "lm_api_key m = api_key"
    "\<And>k. api_key = Some k \<Longrightarrow> k \<noteq> [] \<and> \<not> has_control k"
  using assms
  by (auto simp: lm_build_def Let_def seq_Inr_iff validate_api_key_def has_control_def list_ex_iff split: sum.splits option.splits if_splits)

lemma good_dec: "list_all is_scalar (dec n) \<and> \<not> has_control (dec n)"
proof -
  have "\<forall>c \<in> set (dec n). 48 \<le> c \<and> c < 58"
    by (induction n rule: dec.induct) (subst dec.simps, auto)
  then show ?thesis by (fastforce simp: list_all_iff list_ex_iff has_control_def is_control_def is_scalar_def)
qed

lemma good_line_append: "good_line a \<Longrightarrow> list_all is_scalar t \<Longrightarrow> \<not> has_control t \<Longrightarrow> good_line (a @ t)"
  by (simp add: good_line_def)

lemma good_line_plain: "s \<noteq> [] \<Longrightarrow> \<forall>c \<in> set s. 32 \<le> c \<and> c < 127 \<Longrightarrow> good_line s"
  by (fastforce simp: good_line_def list_all_iff list_ex_iff has_control_def is_control_def is_scalar_def)

lemma good_request_lines:
  assumes "um_path endpoint = lit ''/v1/chat/completions''"
    and "\<And>h. um_host endpoint = Some h \<Longrightarrow> list_all is_scalar h \<and> \<not> has_control h"
    and "\<And>k. api_key = Some k \<Longrightarrow> list_all is_scalar k \<and> \<not> has_control k"
  shows "list_all good_line (request_lines endpoint api_key n)"
proof -
  have "good_line (lit ''POST '' @ um_path endpoint @ lit '' HTTP/1.1'')"
    "good_line (lit ''Content-Type: application/json'')" "good_line (lit ''Connection: close'')"
    by (intro good_line_plain; simp add: assms(1) lit_def)+
  moreover have "good_line (lit ''Host: '')" "good_line (lit ''Content-Length: '')" "good_line (lit ''Authorization: Bearer '')"
    by (intro good_line_plain; simp add: lit_def)+
  moreover have "list_all is_scalar (lit ''127.0.0.1'' @ [58] @ lit ''80'') \<and> \<not> has_control (lit ''127.0.0.1'' @ [58] @ lit ''80'')"
    by (simp add: lit_def is_scalar_def has_control_def is_control_def)
  ultimately show ?thesis
    using assms(2,3) good_dec
    by (auto simp: request_lines_def split: option.split intro!: good_line_append)
qed

text \<open>
  C7. The request head cannot be broken into. For an adapter built with any key (whose host the URL
  parser gives without control characters), the adapter's own reader finds in the bytes of a request
  exactly the request line and the headers the adapter means to send, whatever the key and the body,
  and after them exactly the body.
\<close>
theorem request_head_unbroken:
  assumes "lm_build L base model api_key owned = Inr m"
    and "\<And>h. um_host (lm_endpoint m) = Some h \<Longrightarrow> list_all is_scalar h \<and> \<not> has_control h"
    and "\<And>k. api_key = Some k \<Longrightarrow> list_all is_scalar k"
  shows "\<exists>k. find_head_end (model_request (lm_endpoint m) (lm_api_key m) body) = Some k \<and>
    split_crlf [] (utf8_lossy (take k (model_request (lm_endpoint m) (lm_api_key m) body))) =
      request_lines (lm_endpoint m) api_key (length body) \<and>
    drop (k + 4) (model_request (lm_endpoint m) (lm_api_key m) body) = body"
proof -
  note b = built_model [OF assms(1)]
  have ok: "list_all is_scalar k \<and> \<not> has_control k" if "api_key = Some k" for k
    using assms(3) b(3) that by blast
  have "list_all good_line (request_lines (lm_endpoint m) api_key (length body))"
    using assms(2) ok b(1) by (intro good_request_lines)
  moreover have "request_lines (lm_endpoint m) api_key (length body) \<noteq> []" by (simp add: request_lines_def)
  ultimately show ?thesis
    unfolding model_request_def b(2) by (rule good_lines)
qed


section \<open>Witnesses\<close>

definition demo_model_lib :: model_lib where
  "demo_model_lib = \<lparr>
     ml_url = (\<lambda>_. Inr \<lparr>um_scheme = lit ''http'', um_username = [], um_password = None,
       um_host = Some (lit ''localhost''), um_port = Some 8081, um_path = lit ''/''\<rparr>),
     ml_ip_loopback = (\<lambda>_. None), ml_client = Inr (), ml_to_vec = (\<lambda>_. Inr [123, 125]), ml_to_string = (\<lambda>_. None),
     ml_content = (\<lambda>_. Inr (Some [])),
     ml_decision = (\<lambda>_. Inr \<lparr>md_action = lit ''rerank'', md_candidate_ids = map cand_id (rev demo_candidates),
       md_confidence = F1, md_reason_code = lit ''ok''\<rparr>)\<rparr>"

definition demo_local_model :: local_model where
  "demo_local_model = \<lparr>lm_endpoint = \<lparr>um_scheme = lit ''http'', um_username = [], um_password = None,
       um_host = Some (lit ''localhost''), um_port = Some 8081, um_path = lit ''/v1/chat/completions''\<rparr>,
     lm_model = lit ''m'', lm_provider_id = lit ''openai-compatible:m'', lm_api_key = Some (lit ''k''), lm_owned = True\<rparr>"

lemma demo_model_builds:
  "lm_new_with_ownership demo_model_lib (lit ''http://localhost:8081'') (lit ''m'') (lit ''k'') = Inr demo_local_model"
  by (simp add: lm_new_with_ownership_def lm_build_def demo_model_lib_def demo_local_model_def is_loopback_host_def
      validate_api_key_def eq_ignore_ascii_case_def ascii_lower_def LM_MAX_API_KEY_BYTES_def lit_def utf8_len_def
      has_control_def is_control_def is_whitespace_def)

theorem request_head_unbroken_witness:
  "\<exists>k. find_head_end (model_request (lm_endpoint demo_local_model) (lm_api_key demo_local_model) [1]) = Some k \<and>
    split_crlf [] (utf8_lossy (take k (model_request (lm_endpoint demo_local_model) (lm_api_key demo_local_model) [1]))) =
      request_lines (lm_endpoint demo_local_model) (Some (lit ''k'')) (length [1 :: u8]) \<and>
    drop (k + 4) (model_request (lm_endpoint demo_local_model) (lm_api_key demo_local_model) [1]) = [1]"
  by (rule request_head_unbroken [OF demo_model_builds [unfolded lm_new_with_ownership_def]])
    (auto simp: demo_local_model_def lit_def is_scalar_def has_control_def is_control_def)

definition demo_socket :: "nat model_socket" where
  "demo_socket = \<lparr>so_connect = CN_Open, so_addresses = Some (1, 2), so_owned = (\<lambda>a b. a = 1 \<and> b = 2), so_cancelled = False,
     so_write = WR_Deadline, so_reads = []\<rparr>"

lemma demo_send:
  "send_over_verified demo_model_lib demo_local_model demo_socket JNull =
    ([NA_Connect 8081, NA_Prove 1 2 True,
      NA_Write (model_request (lm_endpoint demo_local_model) (lm_api_key demo_local_model) [123, 125])], Inl EE_ProviderTimeout)"
proof -
  have "loopback_address demo_model_lib demo_local_model = Some 8081"
    by (simp add: loopback_address_def demo_local_model_def is_loopback_host_def eq_ignore_ascii_case_def)
  moreover have "length (model_request (lm_endpoint demo_local_model) (lm_api_key demo_local_model) [123, 125]) \<le> LM_MAX_REQUEST_BYTES"
    by (simp add: model_request_def request_lines_def demo_local_model_def lit_def utf8_ascii dec.simps crlf_def LM_MAX_REQUEST_BYTES_def
        del: utf8_Cons)
  ultimately show ?thesis
    by (simp add: send_over_verified_def demo_socket_def demo_model_lib_def Let_def)
qed

theorem nothing_before_proof_witness:
  "\<exists>address here peer. loopback_address demo_model_lib demo_local_model = Some address \<and>
     so_addresses demo_socket = Some (here, peer) \<and> so_owned demo_socket here peer \<and>
     fst (send_over_verified demo_model_lib demo_local_model demo_socket JNull) =
       [NA_Connect address, NA_Prove here peer True,
        NA_Write (model_request (lm_endpoint demo_local_model) (lm_api_key demo_local_model) [123, 125])]"
  using nothing_before_proof [OF demo_send] unfolding demo_send by auto

definition demo_query :: candidate_rerank_request where
  "demo_query = \<lparr>rr_session_id = 7, rr_generation = 1, rr_candidates = demo_candidates, rr_context_before = [],
     rr_context_after = [], rr_policy_version = lit ''v1'', rr_deadline_ms = 100, rr_baseline_latency_micros = 10\<rparr>"

lemma demo_query_valid: "validate_rerank_request demo_query = Inr ()"
  by (simp add: demo_query_def validate_rerank_request_def
      demo_candidates_def candidate_list_accepts bounded_candidates_def total_bytes_def
      candidate_bytes_def validate_candidate_def validate_text_iff validate_text_allow_empty_iff
      validate_deadline_iff limit_defs utf8_len_def is_control_def lit_def)

theorem decision_only_reorders_witness:
  "\<exists>out. local_rerank demo_model_lib (demo_local_model\<lparr>lm_owned := False\<rparr>) False demo_socket
      (\<lambda>_ _. CA_Response 200 None [] False) 5 demo_query = ([], Inr out) \<and>
    ro_adopted out \<and> mset (ro_candidates out) = mset demo_candidates"
proof -
  have act: "lit ''rerank'' \<noteq> lit ''abstain''" by (simp add: lit_def)
  have "float_le F0 F1 \<and> float_le F1 F1 \<and> is_finite F1 \<and> float_le F0_75 F1 \<and> \<not> float_less F1 F0_75"
    by (simp add: float_le_def float_less_def is_finite_def is_nan_def float_value_def float_negative_def float_magnitude_def
        float_infinity_def F0_def F1_def F0_75_def mask_eq_exp_minus_1)
  then have "\<exists>out. local_rerank demo_model_lib (demo_local_model\<lparr>lm_owned := False\<rparr>) False demo_socket
      (\<lambda>_ _. CA_Response 200 None [] False) 5 demo_query = ([], Inr out) \<and> ro_adopted out"
    using act
    by (simp add: local_rerank_def demo_query_valid call_model_def client_body_def decode_completion_def map_decision_def
        demo_model_lib_def Let_def LM_MAX_CANDIDATES_def bind_result_def)
      (simp add: demo_query_def demo_candidates_def lit_def utf8_len_def)
  then show ?thesis using decision_only_reorders [of demo_model_lib _ False demo_socket _ 5 demo_query]
    by (fastforce simp: demo_query_def)
qed

end
