(* ===== verification/Spec2Isabelle.thy ===== *)
theory Spec2Isabelle
  imports Frame Sync_Correct Interleaving_Correct Queue_Correct Service_Correct Supervisor_Correct
    Local_Context Order_Cache Api_Correct Mozc_Correct Mozc_Wire_Correct Local_Model_Correct
begin

text \<open>
  A verification development of the KanaAI broker (\<open>crates/kanai-broker\<close>).
\<close>

end
